(* ===== verification/Prelude.thy ===== *)
theory Prelude
  imports Complex_Main "HOL-Library.AList"
begin

text \<open>
  Shared vocabulary of the development: the exceptions the server raises, the result type of an
  operation that may raise, Python's ordered dictionaries and de-duplicated lists, rows of a
  database table addressed by identifier, the locale of such tables with its laws, and the locale of
  guarded machines (a state, operations that may raise and then leave the stored state alone, and an
  invariant), whose run lemmas every component reuses.

  Texts are \<open>string\<close>: identifiers, statuses and messages of the server are ASCII.  Clock readings
  (\<open>now()\<close>) and fresh identifiers (\<open>identity()\<close>, a \<open>uuid4\<close>) are arguments of the operations that
  take them; a clock reading is an \<open>int\<close> (microseconds since the epoch).
\<close>

named_theorems row_simps \<open>rewrite rules for table rows and ordered dictionaries\<close>
named_theorems guard_defs \<open>definitions of guards and small accessors\<close>

section \<open>Exceptions and results\<close>

type_synonym ident = string
type_synonym time = int

datatype py_error =
    RecordNotFound ident
  | TaskConflict string
  | BudgetExhausted string
  | Value_Error string
  | Permission_Error string
  | Runtime_Error string
  | Type_Error
  | Key_Error string
  | Index_Error
  | Tool_Unavailable string
  | Tool_Transport_Unavailable string
  | Retryable_Task_Error string
  | HTTP_Exception nat string
  | Agent_Unavailable string
  | Capability_Unavailable string
  | Delegation_Rejected string
  | Workspace_Not_Found ident
  | Session_Not_Found ident
  | Session_Unavailable string
  | Integrity_Error string
  | Execution_Limit_Error
  | Execution_Unavailable_Error
  | Execution_Configuration_Error
  | Execution_Timeout_Error
  | Timeout_Error string
  | Graph_Interrupt
  | Provider_Error string
  | Context_Budget_Error
  | Structured_Output_Failure string

type_synonym 'a result = "py_error + 'a"

fun rbind :: "'a result \<Rightarrow> ('a \<Rightarrow> 'b result) \<Rightarrow> 'b result" where
  "rbind (Inl e) f = Inl e"
| "rbind (Inr x) f = f x"

abbreviation guard :: "bool \<Rightarrow> py_error \<Rightarrow> unit result" where
  "guard b e \<equiv> (if b then Inr () else Inl e)"

definition is_ok :: "'a result \<Rightarrow> bool" where
  "is_ok r = (case r of Inl _ \<Rightarrow> False | Inr _ \<Rightarrow> True)"

lemma rbind_Inr_iff: "rbind m f = Inr y \<longleftrightarrow> (\<exists>x. m = Inr x \<and> f x = Inr y)"
  by (cases m) auto

lemma rbind_Inl_iff: "rbind m f = Inl e \<longleftrightarrow> m = Inl e \<or> (\<exists>x. m = Inr x \<and> f x = Inl e)"
  by (cases m) auto

lemma is_ok_simps [simp]: "is_ok (Inr x)" "\<not> is_ok (Inl e)"
  by (simp_all add: is_ok_def)

lemma is_ok_iff: "is_ok r \<longleftrightarrow> (\<exists>x. r = Inr x)"
  by (cases r) auto

text \<open>The first failure of a list of fallible steps over a state stops the loop.\<close>

fun rfold :: "('s \<Rightarrow> 'x \<Rightarrow> 's result) \<Rightarrow> 's \<Rightarrow> 'x list \<Rightarrow> 's result" where
  "rfold f s [] = Inr s"
| "rfold f s (x # xs) = rbind (f s x) (\<lambda>t. rfold f t xs)"

lemma rfold_invariant:
  assumes "\<And>s x t. f s x = Inr t \<Longrightarrow> P s \<Longrightarrow> P t" and "rfold f s xs = Inr t" and "P s"
  shows "P t"
  using assms(2,3) by (induction xs arbitrary: s) (auto simp: rbind_Inr_iff dest: assms(1))

section \<open>Ordered dictionaries and lists\<close>

text \<open>
  A Python \<open>dict\<close> keeps its insertion order; storing under a present key keeps the key's place.
  This is \<open>AList.update\<close>.  \<open>{**a, **b}\<close> stores the pairs of \<open>b\<close> one by one.
\<close>

type_synonym ('k, 'v) dict = "('k \<times> 'v) list"

definition dict_get :: "('k, 'v) dict \<Rightarrow> 'k \<Rightarrow> 'v \<Rightarrow> 'v" where
  "dict_get d k v = (case map_of d k of None \<Rightarrow> v | Some x \<Rightarrow> x)"

definition dict_put :: "'k \<Rightarrow> 'v \<Rightarrow> ('k, 'v) dict \<Rightarrow> ('k, 'v) dict" where
  "dict_put k v d = AList.update k v d"

fun dict_merge :: "('k, 'v) dict \<Rightarrow> ('k, 'v) dict \<Rightarrow> ('k, 'v) dict" where
  "dict_merge a [] = a"
| "dict_merge a ((k, v) # b) = dict_merge (dict_put k v a) b"

lemma map_of_dict_put [row_simps]: "map_of (dict_put k v d) = (map_of d)(k \<mapsto> v)"
  by (simp add: dict_put_def update_conv')

lemma map_of_dict_merge: "map_of (dict_merge a b) k =
    (case map_of (rev b) k of None \<Rightarrow> map_of a k | Some v \<Rightarrow> Some v)"
  by (induction a b rule: dict_merge.induct)
    (auto simp: row_simps map_add_def map_of_append split: option.splits)

lemma distinct_dict_put: "distinct (map fst d) \<Longrightarrow> distinct (map fst (dict_put k v d))"
  by (simp add: dict_put_def distinct_update)

lemma put_fresh: "k \<notin> fst ` set d \<Longrightarrow> dict_put k v d = d @ [(k, v)]"
  by (induction d) (auto simp: dict_put_def)

lemma dict_get_put [row_simps]: "dict_get (dict_put k v d) j w = (if j = k then v else dict_get d j w)"
  by (simp add: dict_get_def row_simps)

text \<open>\<open>list(dict.fromkeys(xs))\<close>: the first occurrence of each value, in order.\<close>

fun ordered_from :: "'a list \<Rightarrow> 'a list \<Rightarrow> 'a list" where
  "ordered_from acc [] = acc"
| "ordered_from acc (x # xs) = ordered_from (if x \<in> set acc then acc else acc @ [x]) xs"

definition fromkeys :: "'a list \<Rightarrow> 'a list" where
  "fromkeys xs = ordered_from [] xs"

lemma set_ordered_from: "set (ordered_from acc xs) = set acc \<union> set xs"
  by (induction acc xs rule: ordered_from.induct) auto

lemma distinct_ordered_from: "distinct acc \<Longrightarrow> distinct (ordered_from acc xs)"
  by (induction acc xs rule: ordered_from.induct) auto

lemma ordered_from_absorb: "set xs \<subseteq> set acc \<Longrightarrow> ordered_from acc xs = acc"
  by (induction acc xs rule: ordered_from.induct) auto

lemma ordered_from_fresh: "distinct (acc @ xs) \<Longrightarrow> ordered_from acc xs = acc @ xs"
  by (induction acc xs rule: ordered_from.induct) auto

lemma set_fromkeys [simp]: "set (fromkeys xs) = set xs"
  by (simp add: fromkeys_def set_ordered_from)

lemma distinct_fromkeys [simp]: "distinct (fromkeys xs)"
  by (simp add: fromkeys_def distinct_ordered_from)

lemma fromkeys_distinct_id: "distinct xs \<Longrightarrow> fromkeys xs = xs"
  by (simp add: fromkeys_def ordered_from_fresh)

lemma fromkeys_idem [simp]: "fromkeys (fromkeys xs) = fromkeys xs"
  by (simp add: fromkeys_distinct_id)

lemma length_fromkeys_le: "length (fromkeys xs) \<le> length xs"
proof -
  have "length (fromkeys xs) = card (set xs)"
    using distinct_card [OF distinct_fromkeys [of xs]] by simp
  then show ?thesis by (simp add: card_length)
qed

text \<open>Truthiness of optional texts: \<open>None\<close> and the empty text are false.\<close>

definition truthy :: "string option \<Rightarrow> bool" where
  [guard_defs]: "truthy x = (case x of None \<Rightarrow> False | Some s \<Rightarrow> s \<noteq> [])"

definition or_time :: "time option \<Rightarrow> time \<Rightarrow> time option" where
  \<comment> \<open>\<open>value or now()\<close> for an optional stamp (a stamp is never the empty text)\<close>
  "or_time x t = (case x of None \<Rightarrow> Some t | Some u \<Rightarrow> Some u)"

section \<open>Rows of a table\<close>

text \<open>
  A table is the list of its rows in \<open>rowid\<close> order.  \<open>row_get\<close> is \<open>SELECT ... WHERE id=?\<close> followed
  by \<open>fetchone()\<close>, \<open>row_put\<close> is \<open>UPDATE ... WHERE id=?\<close> with the whole record as payload, and an
  \<open>INSERT\<close> appends (after the primary-key check).
\<close>

definition row_get :: "('r \<Rightarrow> 'k) \<Rightarrow> 'k \<Rightarrow> 'r list \<Rightarrow> 'r option" where
  "row_get key k rs = find (\<lambda>r. key r = k) rs"

definition row_put :: "('r \<Rightarrow> 'k) \<Rightarrow> 'r \<Rightarrow> 'r list \<Rightarrow> 'r list" where
  "row_put key r rs = map (\<lambda>x. if key x = key r then r else x) rs"

definition row_insert :: "('r \<Rightarrow> 'k) \<Rightarrow> 'r \<Rightarrow> 'r list \<Rightarrow> 'r list result" where
  "row_insert key r rs =
     (if row_get key (key r) rs = None then Inr (rs @ [r]) else Inl (Integrity_Error ''UNIQUE''))"

definition row_delete :: "('r \<Rightarrow> 'k) \<Rightarrow> 'k \<Rightarrow> 'r list \<Rightarrow> 'r list" where
  "row_delete key k rs = filter (\<lambda>r. key r \<noteq> k) rs"

locale keyed_rows =
  fixes key :: "'r \<Rightarrow> 'k"
    and get :: "'k \<Rightarrow> 's \<Rightarrow> 'r option"
    and put :: "'r \<Rightarrow> 's \<Rightarrow> 's"
    and rows :: "'s \<Rightarrow> 'r list"
  assumes get_key: "get k s = Some r \<Longrightarrow> key r = k"
    and get_in_rows: "get k s = Some r \<Longrightarrow> r \<in> set (rows s)"
    and get_none_iff: "get k s = None \<longleftrightarrow> k \<notin> key ` set (rows s)"
    and get_put_same: "get (key r) s \<noteq> None \<Longrightarrow> get (key r) (put r s) = Some r"
    and get_put_other: "k \<noteq> key r \<Longrightarrow> get k (put r s) = get k s"
    and keys_put: "map key (rows (put r s)) = map key (rows s)"
    and rows_put_sub: "set (rows (put r s)) \<subseteq> insert r (set (rows s))"
begin

lemma get_put:
  "get k (put r s) = (if k = key r then (if get k s = None then None else Some r) else get k s)"
proof (cases "k = key r")
  case True
  show ?thesis
  proof (cases "get (key r) s")
    case None
    then have "key r \<notin> set (map key (rows s))" by (simp add: get_none_iff)
    then have "key r \<notin> set (map key (rows (put r s)))" unfolding keys_put .
    then have "get (key r) (put r s) = None" by (simp add: get_none_iff)
    with True None show ?thesis by simp
  next
    case (Some x)
    then show ?thesis using True get_put_same by simp
  qed
next
  case False
  then show ?thesis by (simp add: get_put_other)
qed

lemma put_preserves_all:
  "\<forall>x\<in>set (rows s). P x \<Longrightarrow> P r \<Longrightarrow> \<forall>x\<in>set (rows (put r s)). P x"
  using rows_put_sub by blast

lemma put_keys_set: "key ` set (rows (put r s)) = key ` set (rows s)"
  using keys_put [of r s] by (metis list.set_map)

lemma get_put_none_iff [simp]: "get k (put r s) = None \<longleftrightarrow> get k s = None"
  by (simp add: get_none_iff put_keys_set)

lemma distinct_keys_put: "distinct (map key (rows s)) \<Longrightarrow> distinct (map key (rows (put r s)))"
  by (simp add: keys_put)

lemma length_put: "length (rows (put r s)) = length (rows s)"
  using arg_cong [OF keys_put, of length] by simp

end

lemma row_get_Some_key: "row_get key k rs = Some r \<Longrightarrow> key r = k"
  by (auto simp: row_get_def find_Some_iff)

lemma row_get_Some_in: "row_get key k rs = Some r \<Longrightarrow> r \<in> set rs"
  by (auto simp: row_get_def find_Some_iff)

lemma row_get_None_iff: "row_get key k rs = None \<longleftrightarrow> k \<notin> key ` set rs"
  by (auto simp: row_get_def find_None_iff image_iff)

lemma row_get_in: "r \<in> set rs \<Longrightarrow> distinct (map key rs) \<Longrightarrow> row_get key (key r) rs = Some r"
  by (induction rs) (auto simp: row_get_def)

lemma row_put_keys: "map key (row_put key r rs) = map key rs"
  by (induction rs) (auto simp: row_put_def)

lemma row_get_put_same: "row_get key (key r) rs \<noteq> None \<Longrightarrow> row_get key (key r) (row_put key r rs) = Some r"
  by (induction rs) (auto simp: row_get_def row_put_def)

lemma row_get_put_other: "k \<noteq> key r \<Longrightarrow> row_get key k (row_put key r rs) = row_get key k rs"
  by (induction rs) (auto simp: row_get_def row_put_def)

lemma row_put_sub: "set (row_put key r rs) \<subseteq> insert r (set rs)"
  by (auto simp: row_put_def)

interpretation rows: keyed_rows key "row_get key" "row_put key" "\<lambda>rs. rs" for key
proof unfold_locales
  fix k r and s :: "'a list"
  show "row_get key k s = Some r \<Longrightarrow> key r = k" by (rule row_get_Some_key)
  show "row_get key k s = Some r \<Longrightarrow> r \<in> set s" by (rule row_get_Some_in)
  show "(row_get key k s = None) = (k \<notin> key ` set s)" by (rule row_get_None_iff)
  show "row_get key (key r) s \<noteq> None \<Longrightarrow> row_get key (key r) (row_put key r s) = Some r"
    by (rule row_get_put_same)
  show "k \<noteq> key r \<Longrightarrow> row_get key k (row_put key r s) = row_get key k s"
    by (rule row_get_put_other)
  show "map key (row_put key r s) = map key s" by (rule row_put_keys)
  show "set (row_put key r s) \<subseteq> insert r (set s)" by (rule row_put_sub)
qed

lemma row_insert_Inr [row_simps]:
  "row_insert key r rs = Inr rs' \<longleftrightarrow> row_get key (key r) rs = None \<and> rs' = rs @ [r]"
  by (auto simp: row_insert_def)

lemma row_get_append: "row_get key k (rs @ qs) =
    (case row_get key k rs of None \<Rightarrow> row_get key k qs | Some r \<Rightarrow> Some r)"
  by (induction rs) (auto simp: row_get_def)

lemma row_get_single [row_simps]: "row_get key k [r] = (if key r = k then Some r else None)"
  by (simp add: row_get_def)

lemma row_get_Nil [simp]: "row_get key k [] = None"
  by (simp add: row_get_def)

lemma row_insert_distinct:
  "row_insert key r rs = Inr rs' \<Longrightarrow> distinct (map key rs) \<Longrightarrow> distinct (map key rs')"
  by (auto simp: row_simps row_get_None_iff)

lemma row_get_delete [row_simps]:
  "row_get key k (row_delete key j rs) = (if k = j then None else row_get key k rs)"
  by (induction rs) (auto simp: row_get_def row_delete_def)

text \<open>\<open>UPDATE ... SET ... WHERE ...\<close> of some columns.\<close>

definition update_where :: "('r \<Rightarrow> bool) \<Rightarrow> ('r \<Rightarrow> 'r) \<Rightarrow> 'r list \<Rightarrow> 'r list" where
  "update_where P f rs = map (\<lambda>r. if P r then f r else r) rs"

lemma update_where_Nil [simp]: "update_where P f [] = []"
  by (simp add: update_where_def)

lemma update_where_Cons [simp]:
  "update_where P f (r # rs) = (if P r then f r else r) # update_where P f rs"
  by (simp add: update_where_def)

lemma set_update_where: "set (update_where P f rs) = f ` {r \<in> set rs. P r} \<union> {r \<in> set rs. \<not> P r}"
  by (auto simp: update_where_def)

lemma map_update_where: "(\<And>r. k (f r) = k r) \<Longrightarrow> map k (update_where P f rs) = map k rs"
  by (simp add: update_where_def)

lemma find_update_where:
  "(\<And>r. Q (f r) = Q r) \<Longrightarrow>
   find Q (update_where P f rs) = map_option (\<lambda>r. if P r then f r else r) (find Q rs)"
  by (induction rs) auto

lemma length_update_where [simp]: "length (update_where P f rs) = length rs"
  by (simp add: update_where_def)

section \<open>Guarded machines\<close>

text \<open>
  Every stateful component is a set of operations over a stored state.  An operation that raises
  inside \<open>with self.connect() as db\<close> rolls its transaction back, so the stored state it leaves is
  the one it found; \<open>commit_of\<close> is that rule.  A machine's operations may also commit before they
  raise (the budget ledger does), so the locale is about the state an operation leaves, whatever
  it answers.
\<close>

definition commit_of :: "'s \<Rightarrow> ('s \<times> 'a) result \<Rightarrow> 's" where
  "commit_of s r = (case r of Inl _ \<Rightarrow> s | Inr (t, _) \<Rightarrow> t)"

lemma commit_of_simps [simp]: "commit_of s (Inl e) = s" "commit_of s (Inr (t, a)) = t"
  by (simp_all add: commit_of_def)

lemma commit_of_cases:
  "P s \<Longrightarrow> (\<And>t a. r = Inr (t, a) \<Longrightarrow> P t) \<Longrightarrow> P (commit_of s r)"
  by (auto simp: commit_of_def split: sum.splits)

locale guarded_machine =
  fixes exec :: "'op \<Rightarrow> 's \<Rightarrow> 's"
    and ok_op :: "'s \<Rightarrow> 'op \<Rightarrow> bool"
    and invar :: "'s \<Rightarrow> bool"
  assumes exec_invar: "invar s \<Longrightarrow> ok_op s x \<Longrightarrow> invar (exec x s)"
begin

inductive reaches :: "'s \<Rightarrow> 's \<Rightarrow> bool" where
  refl: "reaches s s"
| step: "reaches s t \<Longrightarrow> ok_op t x \<Longrightarrow> reaches s (exec x t)"

lemma reaches_invar: "reaches s t \<Longrightarrow> invar s \<Longrightarrow> invar t"
  by (induction rule: reaches.induct) (auto intro: exec_invar)

lemma reaches_trans: "reaches t u \<Longrightarrow> reaches s t \<Longrightarrow> reaches s u"
  by (induction rule: reaches.induct) (auto intro: reaches.step)

text \<open>A relation that every admissible step respects holds along every run.\<close>

lemma reaches_rel:
  assumes "reaches s t" and "invar s"
    and refl: "\<And>x. R x x" and trans: "\<And>x y z. R x y \<Longrightarrow> R y z \<Longrightarrow> R x z"
    and step: "\<And>u x. invar u \<Longrightarrow> ok_op u x \<Longrightarrow> R u (exec x u)"
  shows "R s t"
  using assms(1,2)
proof (induction rule: reaches.induct)
  case (refl s)
  then show ?case by (simp add: assms(3))
next
  case (step s t x)
  then have "R s t" and "invar t" by (auto dest: reaches_invar)
  with step.hyps(2) show ?case using trans assms(5) by blast
qed

fun run :: "'op list \<Rightarrow> 's \<Rightarrow> 's" where
  "run [] s = s"
| "run (x # xs) s = run xs (exec x s)"

lemma run_invar_all: "(\<And>t x. ok_op t x) \<Longrightarrow> invar s \<Longrightarrow> invar (run xs s)"
  by (induction xs arbitrary: s) (auto intro: exec_invar)

end

section \<open>Steps over a state\<close>

definition sbind :: "'s \<times> 'a result \<Rightarrow> ('a \<Rightarrow> 's \<Rightarrow> 's \<times> 'b result) \<Rightarrow> 's \<times> 'b result" where
  "sbind m f = (case m of (s, Inl e) \<Rightarrow> (s, Inl e) | (s, Inr x) \<Rightarrow> f x s)"

lemma sbind_simps [simp]: "sbind (s, Inl e) f = (s, Inl e)" "sbind (s, Inr x) f = f x s"
  by (simp_all add: sbind_def)

lemma sbind_cases:
  assumes "sbind m f = (t, r)"
  obtains (failed) e where "m = (t, Inl e)" "r = Inl e" | (passed) u x where "m = (u, Inr x)" "f x u = (t, r)"
  using assms by (cases m; cases "snd m") auto

text \<open>A list comprehension whose elements may raise.\<close>

fun rmap :: "('a \<Rightarrow> 'b result) \<Rightarrow> 'a list \<Rightarrow> 'b list result" where
  "rmap f [] = Inr []"
| "rmap f (x # xs) = rbind (f x) (\<lambda>y. rbind (rmap f xs) (\<lambda>ys. Inr (y # ys)))"

lemma rmap_map: "\<forall>x\<in>set xs. f (g x) = Inr x \<Longrightarrow> rmap f (map g xs) = Inr xs"
  by (induction xs) simp_all

end
