(* ===== verification/PyText.thy ===== *)
theory PyText
  imports Prelude
begin

text \<open>
  The part of Python's text handling the server uses, on ASCII texts: \<open>lower\<close>/\<open>casefold\<close>, \<open>strip\<close>,
  \<open>split\<close>, slicing, substring tests and replacement; JSON values; and a small executable model of the
  \<open>re\<close> module, so that the source's patterns are written down literally: a pattern is a datatype,
  \<open>ends\<close> lists the match ends in the priority order of Python's backtracking matcher (greedy
  repetition first), and \<open>search\<close>, \<open>fullmatch\<close>, \<open>finditer\<close> and \<open>sub\<close> are defined from it.
\<close>

section \<open>Characters and texts\<close>

definition chr_in :: "char \<Rightarrow> char \<Rightarrow> char \<Rightarrow> bool" where
  "chr_in a b c \<longleftrightarrow> of_char a \<le> (of_char c :: nat) \<and> of_char c \<le> (of_char b :: nat)"

definition is_digit :: "char \<Rightarrow> bool" where
  "is_digit c = chr_in (CHR ''0'') (CHR ''9'') c"

definition is_upper :: "char \<Rightarrow> bool" where
  "is_upper c = chr_in (CHR ''A'') (CHR ''Z'') c"

definition is_lower :: "char \<Rightarrow> bool" where
  "is_lower c = chr_in (CHR ''a'') (CHR ''z'') c"

definition is_alnum :: "char \<Rightarrow> bool" where
  "is_alnum c = (is_digit c \<or> is_upper c \<or> is_lower c)"

definition is_word :: "char \<Rightarrow> bool" where
  \<comment> \<open>\<open>\w\<close>\<close>
  "is_word c = (is_alnum c \<or> c = CHR ''_'')"

definition is_space :: "char \<Rightarrow> bool" where
  \<comment> \<open>\<open>\s\<close> and what \<open>strip\<close> removes: tab to carriage return, the four separators, space\<close>
  "is_space c = (let n = (of_char c :: nat) in (9 \<le> n \<and> n \<le> 13) \<or> (28 \<le> n \<and> n \<le> 32))"

definition to_lower :: "char \<Rightarrow> char" where
  "to_lower c = (if is_upper c then char_of (of_char c + 32 :: nat) else c)"

definition casefold :: "string \<Rightarrow> string" where
  "casefold s = map to_lower s"

definition to_upper :: "string \<Rightarrow> string" where
  \<comment> \<open>\<open>s.upper()\<close>\<close>
  "to_upper s = map (\<lambda>c. if is_lower c then char_of (of_char c - 32 :: nat) else c) s"

definition lstrip :: "string \<Rightarrow> string" where
  "lstrip s = dropWhile is_space s"

definition rstrip :: "string \<Rightarrow> string" where
  "rstrip s = rev (dropWhile is_space (rev s))"

definition strip :: "string \<Rightarrow> string" where
  "strip s = rstrip (lstrip s)"

fun starts_with :: "string \<Rightarrow> string \<Rightarrow> bool" where
  "starts_with [] s = True"
| "starts_with (p # ps) [] = False"
| "starts_with (p # ps) (c # s) = (p = c \<and> starts_with ps s)"

fun contains :: "string \<Rightarrow> string \<Rightarrow> bool" where
  \<comment> \<open>\<open>p in s\<close>\<close>
  "contains p [] = (p = [])"
| "contains p (c # s) = (starts_with p (c # s) \<or> contains p s)"

text \<open>\<open>s.replace(p, q)\<close> for a non-empty \<open>p\<close>, left to right without overlap; fuel is the length.\<close>

fun replace_fuel :: "nat \<Rightarrow> string \<Rightarrow> string \<Rightarrow> string \<Rightarrow> string" where
  "replace_fuel 0 p q s = s"
| "replace_fuel (Suc n) p q [] = []"
| "replace_fuel (Suc n) p q (c # s) =
     (if starts_with p (c # s) then q @ replace_fuel n p q (drop (length p) (c # s))
      else c # replace_fuel n p q s)"

definition replace :: "string \<Rightarrow> string \<Rightarrow> string \<Rightarrow> string" where
  "replace p q s = (if p = [] then s else replace_fuel (length s) p q s)"

text \<open>\<open>s.split()\<close>: the maximal runs of non-space characters.\<close>

fun split_ws :: "string \<Rightarrow> string \<Rightarrow> string list" where
  "split_ws w [] = (if w = [] then [] else [w])"
| "split_ws w (c # s) =
     (if is_space c then (if w = [] then split_ws [] s else w # split_ws [] s)
      else split_ws (w @ [c]) s)"

text \<open>\<open>s.split(c)\<close> for one character.\<close>

fun split_on :: "char \<Rightarrow> string \<Rightarrow> string \<Rightarrow> string list" where
  "split_on d w [] = [w]"
| "split_on d w (c # s) = (if c = d then w # split_on d [] s else split_on d (w @ [c]) s)"

fun join :: "string \<Rightarrow> string list \<Rightarrow> string" where
  "join sep [] = []"
| "join sep [x] = x"
| "join sep (x # y # xs) = x @ sep @ join sep (y # xs)"

lemma to_lower_idem [simp]: "to_lower (to_lower c) = to_lower c"
proof (cases "is_upper c")
  case True
  then have "of_char c \<ge> (65::nat)" and "of_char c \<le> (90::nat)"
    by (auto simp: is_upper_def chr_in_def)
  then have "of_char (to_lower c) \<ge> (97::nat)"
    using True by (simp add: to_lower_def)
  then have "\<not> is_upper (to_lower c)"
    by (simp add: is_upper_def chr_in_def)
  then show ?thesis by (simp add: to_lower_def [of "to_lower c"])
qed (simp add: to_lower_def)

lemma casefold_idem [simp]: "casefold (casefold s) = casefold s"
  by (simp add: casefold_def)

lemma length_casefold [simp]: "length (casefold s) = length s"
  by (simp add: casefold_def)

lemma dropWhile_head: "dropWhile P xs = [] \<or> \<not> P (hd (dropWhile P xs))"
  by (induction xs) auto

lemma rstrip_idem [simp]: "rstrip (rstrip s) = rstrip s"
  by (simp add: rstrip_def dropWhile_idem)

lemma length_lstrip_le: "length (lstrip s) \<le> length s"
  by (simp add: lstrip_def length_dropWhile_le)

lemma length_rstrip_le: "length (rstrip s) \<le> length s"
  using length_dropWhile_le [of is_space "rev s"] by (simp add: rstrip_def)

lemma length_strip_le: "length (strip s) \<le> length s"
  using length_lstrip_le [of s] length_rstrip_le [of "lstrip s"] by (simp add: strip_def)

section \<open>JSON values\<close>

datatype json =
    JNull
  | JBool bool
  | JInt int
  | JFloat rat
  | JStr string
  | JList "json list"
  | JObj "(string \<times> json) list"

fun is_scalar_audit :: "json \<Rightarrow> bool" where
  \<comment> \<open>\<open>isinstance(v, (str, int, bool, type(None)))\<close>\<close>
  "is_scalar_audit (JStr s) = True"
| "is_scalar_audit (JInt i) = True"
| "is_scalar_audit (JBool b) = True"
| "is_scalar_audit JNull = True"
| "is_scalar_audit _ = False"

section \<open>Patterns\<close>

datatype rx =
    Cls "char \<Rightarrow> bool"        \<comment> \<open>one character of a class\<close>
  | Eps
  | Seq rx rx
  | Alt rx rx                  \<comment> \<open>the left branch is tried first\<close>
  | Star rx                    \<comment> \<open>greedy\<close>
  | WordB                      \<comment> \<open>\<open>\b\<close>\<close>
  | Bol                        \<comment> \<open>\<open>^\<close>\<close>
  | Eol                        \<comment> \<open>\<open>$\<close> at the very end (or before a final newline)\<close>
  | NotBefore "char \<Rightarrow> bool"  \<comment> \<open>\<open>(?<!x)\<close> for one character\<close>
  | NotAfter "char \<Rightarrow> bool"   \<comment> \<open>\<open>(?!x)\<close> for one character\<close>

definition word_at :: "string \<Rightarrow> nat \<Rightarrow> bool" where
  "word_at s i = (i < length s \<and> is_word (s ! i))"

definition boundary :: "string \<Rightarrow> nat \<Rightarrow> bool" where
  "boundary s i = ((0 < i \<and> word_at s (i - 1)) \<noteq> word_at s i)"

text \<open>
  All ends of a repetition, longest iteration first; an iteration that consumes nothing is not
  repeated, so as many rounds as characters are enough.
\<close>

fun star_ends :: "nat \<Rightarrow> (nat \<Rightarrow> nat list) \<Rightarrow> nat \<Rightarrow> nat list" where
  "star_ends 0 f i = [i]"
| "star_ends (Suc n) f i = concat (map (\<lambda>j. if i < j then star_ends n f j else []) (f i)) @ [i]"

fun ends :: "string \<Rightarrow> rx \<Rightarrow> nat \<Rightarrow> nat list" where
  "ends s (Cls p) i = (if i < length s \<and> p (s ! i) then [Suc i] else [])"
| "ends s Eps i = [i]"
| "ends s (Seq a b) i = concat (map (ends s b) (ends s a i))"
| "ends s (Alt a b) i = ends s a i @ ends s b i"
| "ends s (Star a) i = star_ends (length s) (ends s a) i"
| "ends s WordB i = (if boundary s i then [i] else [])"
| "ends s Bol i = (if i = 0 then [i] else [])"
| "ends s Eol i = (if i = length s \<or> (Suc i = length s \<and> s ! i = CHR 0x0A) then [i] else [])"
| "ends s (NotBefore p) i = (if 0 < i \<and> i \<le> length s \<and> p (s ! (i - 1)) then [] else [i])"
| "ends s (NotAfter p) i = (if i < length s \<and> p (s ! i) then [] else [i])"

definition match_at :: "rx \<Rightarrow> string \<Rightarrow> nat \<Rightarrow> nat option" where
  "match_at r s i = (case ends s r i of [] \<Rightarrow> None | j # _ \<Rightarrow> Some j)"

fun search_from :: "nat \<Rightarrow> rx \<Rightarrow> string \<Rightarrow> nat \<Rightarrow> (nat \<times> nat) option" where
  "search_from 0 r s i = None"
| "search_from (Suc n) r s i =
     (case match_at r s i of Some j \<Rightarrow> Some (i, j) | None \<Rightarrow> search_from n r s (Suc i))"

definition search :: "rx \<Rightarrow> string \<Rightarrow> (nat \<times> nat) option" where
  "search r s = search_from (Suc (length s)) r s 0"

definition found :: "rx \<Rightarrow> string \<Rightarrow> bool" where
  \<comment> \<open>the truth value of \<open>re.search(r, s)\<close>\<close>
  "found r s = (search r s \<noteq> None)"

definition fullmatch :: "rx \<Rightarrow> string \<Rightarrow> bool" where
  "fullmatch r s = (length s \<in> set (ends s r 0))"

definition slice :: "string \<Rightarrow> nat \<Rightarrow> nat \<Rightarrow> string" where
  \<comment> \<open>\<open>s[i:j]\<close> for \<open>0 <= i, j\<close>\<close>
  "slice s i j = take (j - i) (drop i s)"

text \<open>Left-to-right non-overlapping matches; an empty match moves on by one character.\<close>

fun find_spans :: "nat \<Rightarrow> rx \<Rightarrow> string \<Rightarrow> nat \<Rightarrow> (nat \<times> nat) list" where
  "find_spans 0 r s i = []"
| "find_spans (Suc n) r s i =
     (if length s < i then []
      else case match_at r s i of
        None \<Rightarrow> find_spans n r s (Suc i)
      | Some j \<Rightarrow> (i, j) # find_spans n r s (if i < j then j else Suc i))"

definition spans :: "rx \<Rightarrow> string \<Rightarrow> (nat \<times> nat) list" where
  "spans r s = find_spans (Suc (length s)) r s 0"

definition findall :: "rx \<Rightarrow> string \<Rightarrow> string list" where
  "findall r s = map (\<lambda>(i, j). slice s i j) (spans r s)"

fun splice :: "(string \<Rightarrow> string) \<Rightarrow> string \<Rightarrow> nat \<Rightarrow> (nat \<times> nat) list \<Rightarrow> string" where
  "splice f s k [] = drop k s"
| "splice f s k ((i, j) # r) = slice s k i @ f (slice s i j) @ splice f s j r"

definition sub :: "rx \<Rightarrow> (string \<Rightarrow> string) \<Rightarrow> string \<Rightarrow> string" where
  \<comment> \<open>\<open>re.sub(r, lambda m: f(m[0]), s)\<close>\<close>
  "sub r f s = splice f s 0 (spans r s)"

subsection \<open>Pattern abbreviations\<close>

fun Lit :: "string \<Rightarrow> rx" where
  "Lit [] = Eps"
| "Lit [c] = Cls (\<lambda>d. d = c)"
| "Lit (c # s) = Seq (Cls (\<lambda>d. d = c)) (Lit s)"

fun ILit :: "string \<Rightarrow> rx" where
  \<comment> \<open>a literal under \<open>re.I\<close>\<close>
  "ILit [] = Eps"
| "ILit [c] = Cls (\<lambda>d. to_lower d = to_lower c)"
| "ILit (c # s) = Seq (Cls (\<lambda>d. to_lower d = to_lower c)) (ILit s)"

fun Seqs :: "rx list \<Rightarrow> rx" where
  "Seqs [] = Eps"
| "Seqs [r] = r"
| "Seqs (r # rs) = Seq r (Seqs rs)"

fun Alts :: "rx list \<Rightarrow> rx" where
  "Alts [] = Cls (\<lambda>_. False)"
| "Alts [r] = r"
| "Alts (r # rs) = Alt r (Alts rs)"

definition Opt :: "rx \<Rightarrow> rx" where
  "Opt r = Alt r Eps"

definition Plus :: "rx \<Rightarrow> rx" where
  "Plus r = Seq r (Star r)"

fun Times :: "nat \<Rightarrow> rx \<Rightarrow> rx" where
  "Times 0 r = Eps"
| "Times (Suc n) r = Seq r (Times n r)"

fun UpTo :: "nat \<Rightarrow> rx \<Rightarrow> rx" where
  "UpTo 0 r = Eps"
| "UpTo (Suc n) r = Opt (Seq r (UpTo n r))"

definition AtLeast :: "nat \<Rightarrow> rx \<Rightarrow> rx" where
  "AtLeast n r = Seq (Times n r) (Star r)"

definition Between :: "nat \<Rightarrow> nat \<Rightarrow> rx \<Rightarrow> rx" where
  "Between m n r = Seq (Times m r) (UpTo (n - m) r)"

definition Any :: rx where
  \<comment> \<open>\<open>.\<close>\<close>
  "Any = Cls (\<lambda>c. c \<noteq> CHR 0x0A)"

subsection \<open>Matches stay inside the text\<close>

lemma star_ends_bounds:
  "(\<And>i j. j \<in> set (f i) \<Longrightarrow> i \<le> j \<and> (i \<le> m \<longrightarrow> j \<le> m)) \<Longrightarrow>
   j \<in> set (star_ends n f i) \<Longrightarrow> i \<le> j \<and> (i \<le> m \<longrightarrow> j \<le> m)"
proof (induction n f i arbitrary: j rule: star_ends.induct)
  case (2 n f i)
  show ?case
  proof (cases "j = i")
    case False
    with "2.prems"(2) obtain k where k: "k \<in> set (f i)" "i < k" "j \<in> set (star_ends n f k)"
      by (auto split: if_splits)
    have "k \<le> j \<and> (k \<le> m \<longrightarrow> j \<le> m)"
      by (rule "2.IH" [OF k(1,2)]) (use "2.prems"(1) k(3) in auto)
    with k "2.prems"(1) [OF k(1)] show ?thesis by auto
  qed simp
qed simp

lemma ends_bounds: "j \<in> set (ends s r i) \<Longrightarrow> i \<le> j \<and> (i \<le> length s \<longrightarrow> j \<le> length s)"
proof (induction r arbitrary: i j)
  case (Seq r1 r2)
  then obtain k where "k \<in> set (ends s r1 i)" "j \<in> set (ends s r2 k)" by auto
  with Seq.IH(1) [of k i] Seq.IH(2) [of j k] show ?case by auto
next
  case (Star r)
  from Star.prems have "j \<in> set (star_ends (length s) (ends s r) i)" by simp
  then show ?case by (rule star_ends_bounds [rotated]) (rule Star.IH)
qed (auto split: if_splits)

lemma match_at_bounds: "match_at r s i = Some j \<Longrightarrow> i \<le> length s \<Longrightarrow> i \<le> j \<and> j \<le> length s"
  using ends_bounds [of j s r i] by (auto simp: match_at_def split: list.splits)

end
