(* ===== verification/Auth_Store.thy ===== *)
theory Auth_Store
  imports PyText
begin

text \<open>
  The account tables of \<open>server/auth/store.py\<close> (users, refresh tokens, memberships, audit events),
  the read-only views of the other tables that authorization consults, the audit writer, and the
  request context of \<open>server/auth/context.py\<close> (principals, \<open>require_principal\<close>,
  \<open>principal_service\<close>).

  A handler's clock, fresh identifiers, request identifier and ambient principal are the
  \<open>call_env\<close> it runs in.
\<close>

section \<open>Principals and the request context\<close>

datatype principal =
    Authenticated ident string string        \<comment> \<open>user id, email, status\<close>
  | Local_Development ident

fun user_id_of :: "principal \<Rightarrow> ident" where
  "user_id_of (Authenticated u e s) = u"
| "user_id_of (Local_Development u) = u"

record system_context =
  sx_actor :: principal
  sx_task_id :: ident

record call_env =
  e_now :: time
  e_fresh :: "nat \<Rightarrow> ident"          \<comment> \<open>the identifiers \<open>identity()\<close> yields in this call\<close>
  e_request_id :: "string option"
  e_principal :: "principal option"  \<comment> \<open>\<open>principal_context\<close>\<close>

definition unauthenticated :: py_error where
  "unauthenticated = HTTP_Exception 401 ''Authentication required''"

definition require_principal :: "call_env \<Rightarrow> principal option \<Rightarrow> principal result" where
  "require_principal env p =
     (case (case p of Some q \<Rightarrow> Some q | None \<Rightarrow> e_principal env) of
        Some (Authenticated u e s) \<Rightarrow> Inr (Authenticated u e s)
      | _ \<Rightarrow> Inl unauthenticated)"

text \<open>
  The decorator \<open>principal_service\<close>: the execution context wins over a supplied principal, and must
  name the task of the call; with security configured the function runs as that (live) principal.
  \<open>first\<close> is the first positional argument, \<open>live\<close> the account check of \<open>as_principal\<close>; the result is
  the ambient principal under which the body runs.
\<close>

definition principal_service ::
  "call_env \<Rightarrow> bool \<Rightarrow> (ident \<Rightarrow> principal result) \<Rightarrow> principal option \<Rightarrow> system_context option \<Rightarrow>
   ident option \<Rightarrow> (principal option) result" where
  "principal_service env secured live supplied execution first =
     (let checked = (case execution of
            None \<Rightarrow> Inr supplied
          | Some x \<Rightarrow> (if first = Some (sx_task_id x) then Inr (Some (sx_actor x))
                      else Inl (HTTP_Exception 403 ''Invalid execution context'')))
      in rbind checked (\<lambda>p.
           if secured
           then rbind (require_principal env p) (\<lambda>q.
                  rbind (live (user_id_of q)) (\<lambda>_. Inr (Some q)))
           else Inr (e_principal env)))"

section \<open>Tables\<close>

datatype account_status = ACTIVE | DISABLED

datatype role = OWNER | EDITOR | VIEWER

record user =
  u_id :: ident
  u_email :: string
  u_normalized_email :: string
  u_display_name :: string
  u_password_hash :: string
  u_status :: account_status
  u_failed_login_count :: nat
  u_locked_until :: "time option"
  u_created_at :: time
  u_updated_at :: time
  u_last_login_at :: "time option"

record refresh_token =
  rt_id :: ident
  rt_user_id :: ident
  rt_token_hash :: string
  rt_family_id :: ident
  rt_parent_id :: "ident option"
  rt_expires_at :: time
  rt_created_at :: time
  rt_used_at :: "time option"
  rt_revoked_at :: "time option"
  rt_replaced_by :: "ident option"
  rt_user_agent_hash :: "string option"

record membership =
  m_workspace_id :: ident
  m_user_id :: ident
  m_role :: role
  m_created_at :: time
  m_created_by :: "ident option"

record audit_event =
  ae_id :: ident
  ae_actor :: "ident option"
  ae_workspace :: "ident option"
  ae_event_type :: string
  ae_resource_type :: string
  ae_resource_id :: "ident option"
  ae_result :: string
  ae_request_id :: "string option"
  ae_metadata :: "(string \<times> json) list"
  ae_created_at :: time

record workspace_row =
  w_id :: ident
  w_name :: string
  w_description :: string
  w_created_at :: time
  w_updated_at :: time
  w_created_by :: "ident option"

text \<open>What authorization reads of a row of the other tables.\<close>

record task_ref =
  tr_id :: ident
  tr_workspace :: ident
  tr_creator :: "ident option"

record session_ref =
  sr_id :: ident
  sr_workspace :: "ident option"
  sr_creator :: "ident option"

datatype resource =
    R_Memory (rm_owner: ident) (rm_scope_type: string) (rm_scope_id: ident)
  | R_Artifact (ra_workspace: ident) (ra_task: "ident option")
  | R_Approval (rp_task: ident) (rp_operation: string)
  | R_Execution (re_task: "ident option")
  | R_Run (rr_task: "ident option") (rr_actor: "ident option") (rr_supervisor: "ident option")
  | R_Delegation (rd_task: "ident option") (rd_supervisor: ident)

datatype resource_table =
    Long_term_memories | Artifacts | Approval_requests | Tool_executions | Agent_runs | Agent_delegations

record auth_db =
  users :: "user list"
  refresh_tokens :: "refresh_token list"
  memberships :: "membership list"
  audit_events :: "audit_event list"
  workspace_rows :: "workspace_row list"
  task_refs :: "task_ref list"
  session_refs :: "session_ref list"
  resources :: "resource_table \<Rightarrow> (ident \<times> resource) list"

section \<open>Repository operations\<close>

definition find_user :: "auth_db \<Rightarrow> ident option \<Rightarrow> string option \<Rightarrow> user option" where
  "find_user db uid email =
     (if truthy uid then find (\<lambda>u. Some (u_id u) = uid) (users db)
      else find (\<lambda>u. Some (u_normalized_email u) = email) (users db))"

definition audit_allowed :: "string list" where
  "audit_allowed = [''action'', ''role'', ''previous_role'', ''family_id'', ''error_type'', ''count'',
     ''assignment'', ''approval_id'', ''tool_execution_id'']"

definition audit_safe :: "(string \<times> json) list \<Rightarrow> (string \<times> json) list" where
  "audit_safe md = filter (\<lambda>(k, v). k \<in> set audit_allowed \<and> is_scalar_audit v) md"

record audit_args =
  aa_actor :: "ident option"
  aa_workspace :: "ident option"
  aa_resource_type :: string
  aa_resource_id :: "ident option"
  aa_result :: string
  aa_metadata :: "(string \<times> json) list"

definition audit_defaults :: audit_args where
  "audit_defaults = \<lparr>aa_actor = None, aa_workspace = None, aa_resource_type = ''user'',
     aa_resource_id = None, aa_result = ''SUCCESS'', aa_metadata = []\<rparr>"

definition audit :: "call_env \<Rightarrow> ident \<Rightarrow> string \<Rightarrow> audit_args \<Rightarrow> auth_db \<Rightarrow> auth_db" where
  "audit env fresh kind a db = db\<lparr>audit_events := audit_events db @
     [\<lparr>ae_id = fresh, ae_actor = aa_actor a, ae_workspace = aa_workspace a, ae_event_type = kind,
       ae_resource_type = aa_resource_type a, ae_resource_id = aa_resource_id a,
       ae_result = aa_result a, ae_request_id = e_request_id env,
       ae_metadata = audit_safe (aa_metadata a), ae_created_at = e_now env\<rparr>]\<rparr>"

definition principal_user :: "auth_db \<Rightarrow> ident \<Rightarrow> user option" where
  "principal_user db uid = find_user db (Some uid) None"

definition principal_for_user :: "auth_db \<Rightarrow> ident \<Rightarrow> principal result" where
  "principal_for_user db uid =
     (case principal_user db uid of
        Some u \<Rightarrow> (if u_status u = ACTIVE then Inr (Authenticated (u_id u) (u_email u) ''ACTIVE'')
                  else Inl (HTTP_Exception 401 ''Account unavailable''))
      | None \<Rightarrow> Inl (HTTP_Exception 401 ''Account unavailable''))"

section \<open>Lemmas\<close>

lemma require_principal_Inr:
  "require_principal env p = Inr q \<Longrightarrow> \<exists>u e s. q = Authenticated u e s"
  by (auto simp: require_principal_def split: option.splits principal.splits)

lemma require_principal_authenticated [simp]:
  "require_principal env (Some (Authenticated u e s)) = Inr (Authenticated u e s)"
  by (simp add: require_principal_def)

lemma require_principal_idem:
  "require_principal env p = Inr q \<Longrightarrow> require_principal env (Some q) = Inr q"
  by (auto dest: require_principal_Inr)

lemma audit_fields [simp]:
  "users (audit env f k a db) = users db"
  "refresh_tokens (audit env f k a db) = refresh_tokens db"
  "memberships (audit env f k a db) = memberships db"
  "workspace_rows (audit env f k a db) = workspace_rows db"
  "task_refs (audit env f k a db) = task_refs db"
  "session_refs (audit env f k a db) = session_refs db"
  "resources (audit env f k a db) = resources db"
  by (simp_all add: audit_def)

lemma audit_grows: "\<exists>e. audit_events (audit env f k a db) = audit_events db @ [e]"
  by (simp add: audit_def)

lemma audit_metadata_bounded:
  "(k, v) \<in> set (audit_safe md) \<Longrightarrow> k \<in> set audit_allowed \<and> is_scalar_audit v"
  by (auto simp: audit_safe_def)

lemma principal_for_user_Inr_iff:
  "principal_for_user db uid = Inr p \<longleftrightarrow>
     (\<exists>u. principal_user db uid = Some u \<and> u_status u = ACTIVE \<and>
          p = Authenticated (u_id u) (u_email u) ''ACTIVE'')"
  by (auto simp: principal_for_user_def split: option.splits)

lemma principal_for_user_error:
  "principal_for_user db uid = Inl e \<Longrightarrow> e = HTTP_Exception 401 ''Account unavailable''"
  by (auto simp: principal_for_user_def split: option.splits if_splits)

end
