(* ===== verification/Authorization.thy ===== *)
theory Authorization
  imports Auth_Store
begin

text \<open>
  \<open>server/auth/authorization.py\<close>: the role matrix, the live membership query, \<open>authorize\<close> with its
  audit of a denial (the denial row is committed before the 403 is raised), list filtering, the
  per-resource guards and membership management.
\<close>

section \<open>Actions and roles\<close>

datatype action =
    Workspace_read | Document_read | Dataset_read | Artifact_read | Memory_read | External_read
  | Session_create | Session_read | Task_read | Task_create | Task_execute | Task_cancel
  | Document_create | Document_delete | Dataset_create | Dataset_delete | Memory_write
  | Analysis_execute
  | Workspace_update | Workspace_delete | Workspace_members_manage | External_write

definition read_actions :: "action list" where
  "read_actions = [Workspace_read, Document_read, Dataset_read, Artifact_read, Memory_read,
     External_read, Session_create, Session_read, Task_read, Task_create, Task_execute, Task_cancel]"

definition editor_actions :: "action list" where
  "editor_actions = read_actions @ [Document_create, Document_delete, Dataset_create, Dataset_delete,
     Memory_write, Analysis_execute]"

definition owner_actions :: "action list" where
  "owner_actions = editor_actions @ [Workspace_update, Workspace_delete, Workspace_members_manage,
     External_write]"

fun role_matrix :: "role \<Rightarrow> action list" where
  "role_matrix OWNER = owner_actions"
| "role_matrix EDITOR = editor_actions"
| "role_matrix VIEWER = read_actions"

fun action_name :: "action \<Rightarrow> string" where
  "action_name Workspace_read = ''workspace.read''"
| "action_name Document_read = ''document.read''"
| "action_name Dataset_read = ''dataset.read''"
| "action_name Artifact_read = ''artifact.read''"
| "action_name Memory_read = ''memory.read''"
| "action_name External_read = ''external.read''"
| "action_name Session_create = ''session.create''"
| "action_name Session_read = ''session.read''"
| "action_name Task_read = ''task.read''"
| "action_name Task_create = ''task.create''"
| "action_name Task_execute = ''task.execute''"
| "action_name Task_cancel = ''task.cancel''"
| "action_name Document_create = ''document.create''"
| "action_name Document_delete = ''document.delete''"
| "action_name Dataset_create = ''dataset.create''"
| "action_name Dataset_delete = ''dataset.delete''"
| "action_name Memory_write = ''memory.write''"
| "action_name Analysis_execute = ''analysis.execute''"
| "action_name Workspace_update = ''workspace.update''"
| "action_name Workspace_delete = ''workspace.delete''"
| "action_name Workspace_members_manage = ''workspace.members.manage''"
| "action_name External_write = ''external.write''"

fun role_name :: "role \<Rightarrow> string" where
  "role_name OWNER = ''OWNER''"
| "role_name EDITOR = ''EDITOR''"
| "role_name VIEWER = ''VIEWER''"

definition parse_role :: "string option \<Rightarrow> role option" where
  "parse_role r = (case r of
     None \<Rightarrow> None
   | Some s \<Rightarrow> if s = ''OWNER'' then Some OWNER else if s = ''EDITOR'' then Some EDITOR
               else if s = ''VIEWER'' then Some VIEWER else None)"

section \<open>Decisions\<close>

text \<open>\<open>AuthorizationService.allowed\<close>; \<open>rl\<close> is the role of the membership row, if there is one.\<close>

definition allowed :: "principal \<Rightarrow> role option \<Rightarrow> action \<Rightarrow> ident option \<Rightarrow> bool" where
  "allowed p rl act creator =
     (let a0 = (case rl of None \<Rightarrow> False | Some r \<Rightarrow> act \<in> set (role_matrix r));
          mine = (creator = Some (user_id_of p));
          a1 = (if act = Session_read then a0 \<and> mine else a0);
          a2 = (if act = Task_read \<and> rl = Some VIEWER then a1 \<and> mine else a1)
      in (if act \<in> {Task_execute, Task_cancel} \<and> rl \<noteq> Some OWNER then a2 \<and> mine else a2))"

definition active_user :: "auth_db \<Rightarrow> ident \<Rightarrow> bool" where
  [guard_defs]: "active_user db uid = list_ex (\<lambda>u. u_id u = uid \<and> u_status u = ACTIVE) (users db)"

text \<open>The join of memberships with active users.\<close>

definition role_of :: "auth_db \<Rightarrow> principal \<Rightarrow> ident \<Rightarrow> role option" where
  "role_of db p ws =
     map_option m_role (find (\<lambda>m. m_workspace_id m = ws \<and> m_user_id m = user_id_of p
        \<and> active_user db (m_user_id m)) (memberships db))"

definition access_denied :: py_error where
  "access_denied = HTTP_Exception 403 ''Access denied''"

text \<open>
  \<open>authorize\<close>: the principal is required first, the role is read live, a denial is audited in its
  own transaction, which stays committed when the 403 is raised.
\<close>

definition authorize ::
  "call_env \<Rightarrow> principal option \<Rightarrow> action \<Rightarrow> ident \<Rightarrow> ident option \<Rightarrow> bool \<Rightarrow> auth_db \<Rightarrow>
   auth_db \<times> role result" where
  "authorize env p act ws creator audited db =
     (case require_principal env p of
        Inl e \<Rightarrow> (db, Inl e)
      | Inr q \<Rightarrow>
          (let rl = role_of db q ws in
           if allowed q rl act creator then (db, Inr (the rl))
           else (if audited
                 then audit env (e_fresh env 0) ''AUTHORIZATION_DENIED''
                   (audit_defaults\<lparr>aa_actor := Some (user_id_of q), aa_workspace := Some ws,
                     aa_resource_type := ''workspace'', aa_result := ''DENIED'',
                     aa_metadata := [(''action'', JStr (action_name act))]\<rparr>) db
                 else db,
                 Inl access_denied)))"

definition can :: "call_env \<Rightarrow> principal option \<Rightarrow> action \<Rightarrow> ident \<Rightarrow> ident option \<Rightarrow> auth_db \<Rightarrow> bool" where
  "can env p act ws creator db = is_ok (snd (authorize env p act ws creator False db))"

text \<open>\<open>visible\<close>: one membership query for a list; a record is what the filter reads of it.\<close>

record listed =
  l_id :: ident
  l_workspace :: "ident option"
  l_creator :: "ident option"

definition roles_of :: "auth_db \<Rightarrow> principal \<Rightarrow> (ident, role) dict" where
  "roles_of db p = dict_merge [] (map (\<lambda>m. (m_workspace_id m, m_role m))
     (filter (\<lambda>m. m_user_id m = user_id_of p \<and> active_user db (m_user_id m)) (memberships db)))"

definition visible_row :: "auth_db \<Rightarrow> principal \<Rightarrow> action \<Rightarrow> listed \<Rightarrow> bool" where
  "visible_row db p act x =
     (let ws = (if act = Workspace_read then Some (l_id x) else l_workspace x) in
      if act = Session_read \<and> \<not> truthy ws then l_creator x = Some (user_id_of p)
      else allowed p (case ws of None \<Rightarrow> None | Some w \<Rightarrow> map_of (roles_of db p) w) act (l_creator x))"

definition visible ::
  "call_env \<Rightarrow> principal option \<Rightarrow> action \<Rightarrow> listed list \<Rightarrow> auth_db \<Rightarrow> listed list result" where
  "visible env p act xs db =
     rbind (require_principal env p) (\<lambda>q.
     rbind (principal_for_user db (user_id_of q)) (\<lambda>_.
       Inr (filter (visible_row db q act) xs)))"

section \<open>Guards of single resources\<close>

definition not_found :: py_error where
  "not_found = HTTP_Exception 404 ''Resource not found''"

definition task_guard ::
  "call_env \<Rightarrow> ident \<Rightarrow> action \<Rightarrow> principal option \<Rightarrow> auth_db \<Rightarrow> auth_db \<times> task_ref result" where
  "task_guard env tid act p db =
     (case row_get tr_id tid (task_refs db) of
        None \<Rightarrow> (db, Inl not_found)
      | Some t \<Rightarrow>
          (case authorize env p act (tr_workspace t) (tr_creator t) True db of
             (db', Inl e) \<Rightarrow> (db', Inl e)
           | (db', Inr _) \<Rightarrow> (db', Inr t)))"

definition session_guard ::
  "call_env \<Rightarrow> ident \<Rightarrow> principal option \<Rightarrow> auth_db \<Rightarrow> auth_db \<times> session_ref result" where
  "session_guard env sid p db =
     (case row_get sr_id sid (session_refs db) of
        None \<Rightarrow> (db, Inl not_found)
      | Some s \<Rightarrow>
          (if truthy (sr_workspace s)
           then (case authorize env p Session_read (the (sr_workspace s)) (sr_creator s) True db of
                   (db', Inl e) \<Rightarrow> (db', Inl e)
                 | (db', Inr _) \<Rightarrow> (db', Inr s))
           else (case require_principal env p of
                   Inl e \<Rightarrow> (db, Inl e)
                 | Inr q \<Rightarrow> (if sr_creator s \<noteq> Some (user_id_of q) then (db, Inl access_denied)
                            else (db, Inr s)))))"

definition payload :: "resource_table \<Rightarrow> ident \<Rightarrow> auth_db \<Rightarrow> resource result" where
  "payload tab rid db =
     (case map_of (resources db tab) rid of None \<Rightarrow> Inl not_found | Some r \<Rightarrow> Inr r)"

definition memory_guard ::
  "call_env \<Rightarrow> ident \<Rightarrow> action \<Rightarrow> principal option \<Rightarrow> auth_db \<Rightarrow> auth_db \<times> resource result" where
  "memory_guard env mid act p db =
     (case payload Long_term_memories mid db of
        Inl e \<Rightarrow> (db, Inl e)
      | Inr v \<Rightarrow>
          (case require_principal env p of
             Inl e \<Rightarrow> (db, Inl e)
           | Inr q \<Rightarrow>
               (if rm_scope_type v = ''user''
                then (if rm_owner v \<noteq> user_id_of q \<or> rm_scope_id v \<noteq> user_id_of q
                      then (db, Inl access_denied)
                      else (case principal_for_user db (user_id_of q) of
                              Inl e \<Rightarrow> (db, Inl e) | Inr _ \<Rightarrow> (db, Inr v)))
                else (case authorize env (Some q) act (rm_scope_id v) None True db of
                        (db', Inl e) \<Rightarrow> (db', Inl e)
                      | (db', Inr _) \<Rightarrow> (db', Inr v)))))"

definition approval_guard ::
  "call_env \<Rightarrow> ident \<Rightarrow> bool \<Rightarrow> principal option \<Rightarrow> auth_db \<Rightarrow> auth_db \<times> resource result" where
  "approval_guard env aid write p db =
     (case payload Approval_requests aid db of
        Inl e \<Rightarrow> (db, Inl e)
      | Inr v \<Rightarrow>
          (case task_guard env (rp_task v) Task_read p db of
             (db1, Inl e) \<Rightarrow> (db1, Inl e)
           | (db1, Inr t) \<Rightarrow>
               (if write \<or> rp_operation v \<noteq> ''read''
                then (case authorize env p External_write (tr_workspace t) None True db1 of
                        (db2, Inl e) \<Rightarrow> (db2, Inl e) | (db2, Inr _) \<Rightarrow> (db2, Inr v))
                else (case require_principal env p of
                        Inl e \<Rightarrow> (db1, Inl e)
                      | Inr q \<Rightarrow>
                          (if tr_creator t \<noteq> Some (user_id_of q)
                           then (case authorize env p Workspace_members_manage (tr_workspace t) None True db1 of
                                   (db2, Inl e) \<Rightarrow> (db2, Inl e) | (db2, Inr _) \<Rightarrow> (db2, Inr v))
                           else (db1, Inr v))))))"

record tool_call =
  tc_provider_type :: string
  tc_operation_type :: string
  tc_capability :: string
  tc_task_id :: "ident option"
  tc_session_id :: "ident option"
  tc_workspace_id :: "ident option"

definition tool_action :: "tool_call \<Rightarrow> action" where
  "tool_action c =
     (if tc_provider_type c = ''mcp'' \<and> tc_operation_type c \<noteq> ''read'' then External_write
      else if tc_capability c \<in> {''data.analyze'', ''analysis.execute''} then Analysis_execute
      else if starts_with ''memory.'' (tc_capability c) \<and> tc_operation_type c \<noteq> ''read'' then Memory_write
      else External_read)"

definition tool_workspace ::
  "call_env \<Rightarrow> tool_call \<Rightarrow> principal option \<Rightarrow> auth_db \<Rightarrow> auth_db \<times> (ident option) result" where
  "tool_workspace env c p db =
     (if truthy (tc_task_id c)
      then (case task_guard env (the (tc_task_id c)) Task_execute p db of
              (db1, Inl e) \<Rightarrow> (db1, Inl e)
            | (db1, Inr t) \<Rightarrow>
                (case require_principal env p of
                   Inl e \<Rightarrow> (db1, Inl e)
                 | Inr q \<Rightarrow>
                     (if tr_creator t \<noteq> Some (user_id_of q)
                      then (db1, Inl (HTTP_Exception 403 ''Execution actor mismatch''))
                      else (db1, Inr (Some (tr_workspace t))))))
      else (case session_guard env (case tc_session_id c of None \<Rightarrow> [] | Some s \<Rightarrow> s) p db of
              (db1, Inl e) \<Rightarrow> (db1, Inl e)
            | (db1, Inr _) \<Rightarrow> (db1, Inr (tc_workspace_id c))))"

definition authorize_tool ::
  "call_env \<Rightarrow> tool_call \<Rightarrow> principal option \<Rightarrow> auth_db \<Rightarrow> auth_db \<times> unit result" where
  "authorize_tool env c p db =
     (case tool_workspace env c p db of
        (db1, Inl e) \<Rightarrow> (db1, Inl e)
      | (db1, Inr ws) \<Rightarrow>
          (if \<not> truthy ws then (db1, Inl (HTTP_Exception 403 ''Workspace context required''))
           else (case authorize env p (tool_action c) (the ws) None True db1 of
                   (db2, Inl e) \<Rightarrow> (db2, Inl e)
                 | (db2, Inr _) \<Rightarrow> (db2, Inr ()))))"

section \<open>Workspaces and their members\<close>

definition member_key :: "membership \<Rightarrow> ident \<times> ident" where
  "member_key m = (m_workspace_id m, m_user_id m)"

definition create_workspace ::
  "call_env \<Rightarrow> string \<Rightarrow> string \<Rightarrow> principal option \<Rightarrow> auth_db \<Rightarrow> (auth_db \<times> workspace_row) result" where
  "create_workspace env name description p db =
     rbind (require_principal env p) (\<lambda>q.
     rbind (principal_for_user db (user_id_of q)) (\<lambda>_.
       let stamp = e_now env;
           value = \<lparr>w_id = e_fresh env 0, w_name = strip name, w_description = description,
                    w_created_at = stamp, w_updated_at = stamp, w_created_by = Some (user_id_of q)\<rparr>
       in if w_name value = [] \<or> 200 < length (w_name value) then Inl (Value_Error ''name'')
          else
          rbind (row_insert w_id value (workspace_rows db)) (\<lambda>ws.
          rbind (row_insert member_key
                   \<lparr>m_workspace_id = w_id value, m_user_id = user_id_of q, m_role = OWNER,
                    m_created_at = stamp, m_created_by = Some (user_id_of q)\<rparr> (memberships db)) (\<lambda>ms.
            Inr (audit env (e_fresh env 1) ''WORKSPACE_CREATED''
                   (audit_defaults\<lparr>aa_actor := Some (user_id_of q), aa_workspace := Some (w_id value),
                     aa_resource_type := ''workspace'', aa_resource_id := Some (w_id value)\<rparr>)
                   (db\<lparr>workspace_rows := ws, memberships := ms\<rparr>), value)))))"

record member_view =
  mv_user_id :: ident
  mv_role :: role
  mv_email :: string
  mv_display_name :: string
  mv_created_at :: time

definition members ::
  "call_env \<Rightarrow> ident \<Rightarrow> principal option \<Rightarrow> auth_db \<Rightarrow> auth_db \<times> member_view list result" where
  "members env ws p db =
     (case authorize env p Workspace_members_manage ws None True db of
        (db1, Inl e) \<Rightarrow> (db1, Inl e)
      | (db1, Inr _) \<Rightarrow> (db1, Inr (concat (map (\<lambda>m.
            map (\<lambda>u. \<lparr>mv_user_id = m_user_id m, mv_role = m_role m, mv_email = u_email u,
                      mv_display_name = u_display_name u, mv_created_at = m_created_at m\<rparr>)
              (filter (\<lambda>u. u_id u = m_user_id m) (users db1)))
            (filter (\<lambda>m. m_workspace_id m = ws) (memberships db1))))))"

record member_change =
  mc_email :: "string option"
  mc_user_id :: "ident option"
  mc_role :: "string option"
  mc_remove :: bool
  mc_add :: bool

definition owner_count :: "auth_db \<Rightarrow> ident \<Rightarrow> nat" where
  "owner_count db ws =
     length (filter (\<lambda>m. m_workspace_id m = ws \<and> m_role m = OWNER) (memberships db))"

text \<open>The write of \<open>change_member\<close> once every check has passed.\<close>

definition member_write ::
  "call_env \<Rightarrow> ident \<Rightarrow> ident \<Rightarrow> role option \<Rightarrow> bool \<Rightarrow> bool \<Rightarrow> ident \<Rightarrow> membership list \<Rightarrow>
   (string \<times> membership list) result" where
  "member_write env ws uid rl remove add actor ms =
     (if remove then Inr (''MEMBER_REMOVED'', row_delete member_key (ws, uid) ms)
      else if add then
        rbind (row_insert member_key \<lparr>m_workspace_id = ws, m_user_id = uid, m_role = the rl,
                 m_created_at = e_now env, m_created_by = Some actor\<rparr> ms) (\<lambda>ms'.
          Inr (''MEMBER_ADDED'', ms'))
      else Inr (''MEMBER_ROLE_CHANGED'',
             map (\<lambda>m. if member_key m = (ws, uid) then m\<lparr>m_role := the rl\<rparr> else m) ms))"

definition change_member ::
  "call_env \<Rightarrow> ident \<Rightarrow> member_change \<Rightarrow> principal option \<Rightarrow> auth_db \<Rightarrow>
   (auth_db \<times> (ident \<times> string option)) result" where
  "change_member env ws c p db =
     rbind (require_principal env p) (\<lambda>q.
     let rl = parse_role (mc_role c) in
     if \<not> mc_remove c \<and> rl = None then Inl (HTTP_Exception 422 ''Invalid role'')
     else if role_of db q ws \<noteq> Some OWNER then Inl access_denied
     else case find_user db (mc_user_id c)
                 (if truthy (mc_email c) then Some (casefold (strip (the (mc_email c)))) else None) of
       None \<Rightarrow> Inl (HTTP_Exception 404 ''User not found'')
     | Some u \<Rightarrow>
        (let member = row_get member_key (ws, u_id u) (memberships db) in
         if mc_add c \<and> member \<noteq> None then Inl (HTTP_Exception 409 ''Member already exists'')
         else if \<not> mc_add c \<and> member = None then Inl (HTTP_Exception 404 ''Member not found'')
         else if member \<noteq> None \<and> m_role (the member) = OWNER \<and> (mc_remove c \<or> rl \<noteq> Some OWNER)
                 \<and> owner_count db ws \<le> 1
         then Inl (HTTP_Exception 409 ''Workspace must retain an OWNER'')
         else rbind (member_write env ws (u_id u) rl (mc_remove c) (mc_add c) (user_id_of q)
                       (memberships db)) (\<lambda>(event, ms).
           Inr (audit env (e_fresh env 0) event
                  (audit_defaults\<lparr>aa_actor := Some (user_id_of q), aa_workspace := Some ws,
                    aa_resource_type := ''membership'', aa_resource_id := Some (u_id u),
                    aa_metadata := [(''role'', case mc_role c of None \<Rightarrow> JNull | Some r \<Rightarrow> JStr r),
                      (''previous_role'', case member of None \<Rightarrow> JNull
                         | Some m \<Rightarrow> JStr (role_name (m_role m)))]\<rparr>)
                  (db\<lparr>memberships := ms\<rparr>),
                (u_id u, if mc_remove c then None else mc_role c)))))"

end
