(* ===== verification/Membership_Laws.thy ===== *)
theory Membership_Laws
  imports Authorization_Laws
begin

text \<open>
  Membership management as a guarded machine: every workspace keeps an OWNER through any sequence of
  workspace creations, membership changes and (audited) authorization checks, and only an active
  OWNER changes the membership table.
\<close>

definition has_owner :: "membership list \<Rightarrow> ident \<Rightarrow> bool" where
  "has_owner ms ws \<longleftrightarrow> (\<exists>m\<in>set ms. m_workspace_id m = ws \<and> m_role m = OWNER)"

definition owned :: "auth_db \<Rightarrow> bool" where
  "owned db \<longleftrightarrow> members_keyed db \<and> (\<forall>w\<in>set (workspace_rows db). has_owner (memberships db) (w_id w))"

lemma two_owners:
  assumes "members_keyed db" and "1 < owner_count db ws" and "uid = uid'"
  shows "\<exists>m\<in>set (memberships db). m_workspace_id m = ws \<and> m_role m = OWNER \<and> m_user_id m \<noteq> uid'"
proof (rule ccontr)
  assume no: "\<not> ?thesis"
  let ?own = "filter (\<lambda>m. m_workspace_id m = ws \<and> m_role m = OWNER) (memberships db)"
  have "distinct (map m_user_id ?own)"
    by (rule distinct_keys_filter_map [where f = member_key])
      (use assms(1) in \<open>auto simp: members_keyed_def member_key_def\<close>)
  then have "card (set (map m_user_id ?own)) = length ?own"
    by (simp only: distinct_card length_map)
  moreover have "set (map m_user_id ?own) \<subseteq> {uid'}" using no by auto
  then have "card (set (map m_user_id ?own)) \<le> card {uid'}" by (rule card_mono [rotated]) simp
  ultimately show False using assms(2) by (simp add: owner_count_def)
qed

lemma has_owner_delete:
  assumes "m \<in> set ms" "m_workspace_id m = ws" "m_role m = OWNER" "member_key m \<noteq> k"
  shows "has_owner (row_delete member_key k ms) ws"
  using assms by (auto simp: has_owner_def row_delete_def)

lemma has_owner_map:
  assumes "m \<in> set ms" "m_workspace_id m = ws" "m_role m = OWNER" "member_key m \<noteq> k \<or> r = OWNER"
  shows "has_owner (map (\<lambda>m. if member_key m = k then m\<lparr>m_role := r\<rparr> else m) ms) ws"
  unfolding has_owner_def set_map bex_simps
  by (rule bexI [of _ m]) (use assms in auto)

lemma map_role_keys:
  "map member_key (map (\<lambda>m. if member_key m = k then m\<lparr>m_role := r\<rparr> else m) ms) = map member_key ms"
  by (simp add: member_key_def)

lemma member_row:
  "members_keyed db \<Longrightarrow> m \<in> set (memberships db) \<Longrightarrow> member_key m = k \<Longrightarrow>
   row_get member_key k (memberships db) = Some m"
  by (auto simp: members_keyed_def row_get_in)

text \<open>The write keeps an OWNER of every workspace that had one, when the guard has passed.\<close>

lemma member_write_has_owner:
  assumes keyed: "members_keyed db"
    and wr: "member_write env ws uid rl remove add actor (memberships db) = Inr (ev, ms)"
    and guard: "\<forall>m. row_get member_key (ws, uid) (memberships db) = Some m \<longrightarrow> m_role m = OWNER \<longrightarrow>
       remove \<or> rl \<noteq> Some OWNER \<longrightarrow> 1 < owner_count db ws"
    and role: "remove \<or> rl \<noteq> None"
    and own: "has_owner (memberships db) w"
  shows "has_owner ms w"
proof -
  from own obtain m where m: "m \<in> set (memberships db)" "m_workspace_id m = w" "m_role m = OWNER"
    by (auto simp: has_owner_def)
  consider (other) "member_key m \<noteq> (ws, uid)" | (keep) "member_key m = (ws, uid)" "\<not> remove" "rl = Some OWNER"
    | (drop) "member_key m = (ws, uid)" "remove \<or> rl \<noteq> Some OWNER" by blast
  then obtain m' where m': "m' \<in> set (memberships db)" "m_workspace_id m' = w" "m_role m' = OWNER"
    "member_key m' \<noteq> (ws, uid) \<or> (\<not> remove \<and> rl = Some OWNER)"
  proof cases
    case drop
    then have "1 < owner_count db ws"
      using guard member_row [OF keyed m(1) drop(1)] m(3) by blast
    from two_owners [OF keyed this refl, of uid] that drop(1) m(2) show ?thesis
      by (auto simp: member_key_def)
  qed (use m that in auto)
  show ?thesis
  proof (cases remove)
    case True
    then show ?thesis using wr m' has_owner_delete by (auto simp: member_write_def)
  next
    case False
    then show ?thesis
      using wr m' role has_owner_map [of m' "memberships db" w "(ws, uid)" "the rl"]
      by (fastforce simp: member_write_def has_owner_def rbind_Inr_iff row_simps split: if_splits)
  qed
qed

lemma member_write_keyed:
  "members_keyed db \<Longrightarrow> member_write env ws uid rl remove add actor (memberships db) = Inr (ev, ms) \<Longrightarrow>
   distinct (map member_key ms)"
  by (auto simp: member_write_def members_keyed_def row_delete_def distinct_map_filter map_role_keys
      rbind_Inr_iff dest: row_insert_distinct simp del: map_map split: if_splits)

lemma change_member_Inr:
  assumes "change_member env ws c p db = Inr (db', res)"
  obtains q and u :: user and ms ev where "require_principal env p = Inr q" "role_of db q ws = Some OWNER"
    "mc_remove c \<or> parse_role (mc_role c) \<noteq> None"
    "\<forall>m. row_get member_key (ws, u_id u) (memberships db) = Some m \<longrightarrow> m_role m = OWNER \<longrightarrow>
       mc_remove c \<or> parse_role (mc_role c) \<noteq> Some OWNER \<longrightarrow> 1 < owner_count db ws"
    "member_write env ws (u_id u) (parse_role (mc_role c)) (mc_remove c) (mc_add c) (user_id_of q)
       (memberships db) = Inr (ev, ms)"
    "memberships db' = ms" "workspace_rows db' = workspace_rows db" "users db' = users db"
    "refresh_tokens db' = refresh_tokens db" "fst res = u_id u"
proof -
  from assms obtain q where q: "require_principal env p = Inr q"
    by (auto simp: change_member_def rbind_Inr_iff)
  let ?rl = "parse_role (mc_role c)"
  from assms q have ok: "mc_remove c \<or> ?rl \<noteq> None" and own: "role_of db q ws = Some OWNER"
    by (auto simp: change_member_def Let_def split: if_splits)
  from assms q ok own obtain u where
    u: "find_user db (mc_user_id c)
          (if truthy (mc_email c) then Some (casefold (strip (the (mc_email c)))) else None) = Some u"
    by (auto simp: change_member_def Let_def split: option.splits if_splits)
  let ?g = "\<forall>m. row_get member_key (ws, u_id u) (memberships db) = Some m \<longrightarrow> m_role m = OWNER \<longrightarrow>
       mc_remove c \<or> ?rl \<noteq> Some OWNER \<longrightarrow> 1 < owner_count db ws"
  from assms q ok own u obtain ev ms where g: ?g and
    w: "member_write env ws (u_id u) ?rl (mc_remove c) (mc_add c) (user_id_of q) (memberships db) = Inr (ev, ms)"
    and "memberships db' = ms" "workspace_rows db' = workspace_rows db" "users db' = users db"
    "refresh_tokens db' = refresh_tokens db" "fst res = u_id u"
    by (auto simp: change_member_def Let_def rbind_Inr_iff split: if_splits)
  with that [OF q own ok g w] show thesis by blast
qed

lemma change_member_owned:
  assumes "change_member env ws c p db = Inr (db', res)" and "owned db"
  shows "owned db'"
proof -
  from assms(2) have k: "members_keyed db" by (simp add: owned_def)
  from assms(1) obtain q and u :: user and ms ev where c:
    "mc_remove c \<or> parse_role (mc_role c) \<noteq> None"
    "\<forall>m. row_get member_key (ws, u_id u) (memberships db) = Some m \<longrightarrow> m_role m = OWNER \<longrightarrow>
       mc_remove c \<or> parse_role (mc_role c) \<noteq> Some OWNER \<longrightarrow> 1 < owner_count db ws"
    "member_write env ws (u_id u) (parse_role (mc_role c)) (mc_remove c) (mc_add c) (user_id_of q)
       (memberships db) = Inr (ev, ms)"
    "memberships db' = ms" "workspace_rows db' = workspace_rows db"
    by (rule change_member_Inr) blast
  have "has_owner ms (w_id w)" if "w \<in> set (workspace_rows db)" for w
    by (rule member_write_has_owner [OF k c(3) c(2) c(1)]) (use that assms(2) in \<open>auto simp: owned_def\<close>)
  with c member_write_keyed [OF k c(3)] show ?thesis
    by (simp add: owned_def members_keyed_def)
qed

lemma create_workspace_owned:
  assumes "create_workspace env n d p db = Inr (db', w)" and "owned db"
  shows "owned db'"
  using assms
  by (auto simp: create_workspace_def rbind_Inr_iff Let_def row_simps owned_def members_keyed_def
      has_owner_def row_get_None_iff split: if_splits)

lemma member_key_row [simp]:
  "member_key \<lparr>m_workspace_id = w, m_user_id = u, m_role = r, m_created_at = t, m_created_by = c\<rparr> = (w, u)"
  by (simp add: member_key_def)

section \<open>The machine\<close>

datatype auth_op =
    Op_create_workspace call_env string string "principal option"
  | Op_change_member call_env ident member_change "principal option"
  | Op_authorize call_env "principal option" action ident "ident option"

fun auth_exec :: "auth_op \<Rightarrow> auth_db \<Rightarrow> auth_db" where
  "auth_exec (Op_create_workspace env n d p) db = commit_of db (create_workspace env n d p db)"
| "auth_exec (Op_change_member env ws c p) db = commit_of db (change_member env ws c p db)"
| "auth_exec (Op_authorize env p act ws cr) db = fst (authorize env p act ws cr True db)"

lemma same_but_audit_owned: "same_but_audit a b \<Longrightarrow> owned a \<Longrightarrow> owned b"
  by (auto simp: same_but_audit_def owned_def members_keyed_def)

lemma auth_exec_owned: "owned db \<Longrightarrow> owned (auth_exec x db)"
proof (cases x)
  case (Op_authorize env p act ws cr)
  moreover assume "owned db"
  ultimately show ?thesis
    using authorize_same [of env p act ws cr True db] same_but_audit_owned
    by (cases "authorize env p act ws cr True db") auto
qed (auto intro!: commit_of_cases [where P = owned] dest: create_workspace_owned change_member_owned)

interpretation auth: guarded_machine auth_exec "\<lambda>_ _. True" owned
  by unfold_locales (rule auth_exec_owned)

text \<open>
  C1: No sequence of workspace creations, membership additions, role changes, removals and
  authorization checks - by any callers, failing or not - leaves a workspace without an OWNER.
\<close>

theorem workspaces_keep_an_owner:
  assumes "owned db" and "w \<in> set (workspace_rows (auth.run ops db))"
  shows "\<exists>m\<in>set (memberships (auth.run ops db)). m_workspace_id m = w_id w \<and> m_role m = OWNER"
proof -
  have "owned (auth.run ops db)" using assms(1) by (rule auth.run_invar_all [OF TrueI])
  with assms(2) show ?thesis by (simp add: owned_def has_owner_def)
qed

lemma owned_wit_db: "owned wit_db"
  by (simp add: owned_def has_owner_def members_keyed_def member_key_def wit_defs)

theorem workspaces_keep_an_owner_witness:
  "\<exists>m\<in>set (memberships (auth.run [Op_change_member wit_env ''w''
      \<lparr>mc_email = None, mc_user_id = Some ''a'', mc_role = None, mc_remove = True, mc_add = False\<rparr>
      (Some (wit_prin ''a''))] wit_db)). m_workspace_id m = ''w'' \<and> m_role m = OWNER"
proof -
  let ?c = "\<lparr>mc_email = None, mc_user_id = Some ''a'', mc_role = None, mc_remove = True, mc_add = False\<rparr>"
  let ?w = "\<lparr>w_id = ''w'', w_name = ''W'', w_description = [], w_created_at = 0,
       w_updated_at = 0, w_created_by = Some ''a''\<rparr>"
  have "commit_of wit_db (change_member wit_env ''w'' ?c (Some (wit_prin ''a'')) wit_db) = wit_db"
    by (simp add: change_member_def role_of_def active_user_def find_user_def truthy_def row_get_def
        member_key_def owner_count_def parse_role_def wit_defs)
  then have "?w \<in> set (workspace_rows (auth.run [Op_change_member wit_env ''w'' ?c (Some (wit_prin ''a''))] wit_db))"
    by (simp add: wit_db_def)
  from workspaces_keep_an_owner [OF owned_wit_db this] show ?thesis by simp
qed

text \<open>
  Only a caller who is an active OWNER of the workspace changes its membership table, the change
  touches no row of any other workspace and no other member's row, and a refused change leaves the
  stored state as it was.
\<close>

theorem change_member_only_by_owner:
  assumes "change_member env ws c p db = Inr (db', (uid, r))"
  shows "\<exists>q. require_principal env p = Inr q \<and> role_of db q ws = Some OWNER
    \<and> active_user db (user_id_of q)
    \<and> filter (\<lambda>m. member_key m \<noteq> (ws, uid)) (memberships db') =
        filter (\<lambda>m. member_key m \<noteq> (ws, uid)) (memberships db)"
proof -
  from assms obtain q and u :: user and ms ev where c: "require_principal env p = Inr q" "role_of db q ws = Some OWNER"
    "member_write env ws (u_id u) (parse_role (mc_role c)) (mc_remove c) (mc_add c) (user_id_of q)
       (memberships db) = Inr (ev, ms)"
    "memberships db' = ms" "u_id u = uid"
    by (rule change_member_Inr) (rule that, assumption+, simp)
  have upd: "filter (\<lambda>m. member_key m \<noteq> k) (map (\<lambda>m. if member_key m = k then m\<lparr>m_role := rr\<rparr> else m) xs) =
      filter (\<lambda>m. member_key m \<noteq> k) xs" for k rr xs
    by (induction xs) (auto simp: member_key_def)
  have "filter (\<lambda>m. member_key m \<noteq> (ws, uid)) ms = filter (\<lambda>m. member_key m \<noteq> (ws, uid)) (memberships db)"
    using c(3,5) by (auto simp: member_write_def row_delete_def rbind_Inr_iff row_simps upd split: if_splits)
  with c role_of_Some [OF c(2)] show ?thesis by auto
qed

theorem change_member_only_by_owner_witness:
  "\<exists>db' r. change_member wit_env ''w'' \<lparr>mc_email = Some '' B@X.io '', mc_user_id = None,
       mc_role = Some ''EDITOR'', mc_remove = False, mc_add = False\<rparr> (Some (wit_prin ''a'')) wit_db
     = Inr (db', r) \<and> active_user wit_db ''a''"
proof -
  let ?c = "\<lparr>mc_email = Some '' B@X.io '', mc_user_id = None,
       mc_role = Some ''EDITOR'', mc_remove = False, mc_add = False\<rparr>"
  have "is_ok (change_member wit_env ''w'' ?c (Some (wit_prin ''a'')) wit_db)"
    by code_simp
  then obtain db' uid r where a: "change_member wit_env ''w'' ?c (Some (wit_prin ''a'')) wit_db = Inr (db', (uid, r))"
    by (auto simp: is_ok_iff)
  from change_member_only_by_owner [OF a] have "active_user wit_db ''a''" by (auto simp: wit_prin_def)
  with a show ?thesis by blast
qed

end
