(* ===== verification/Accounts.thy ===== *)
theory Accounts
  imports Auth_Store
begin

text \<open>
  \<open>server/auth/service.py\<close>: password policy, registration, login with lockout, access tokens,
  refresh-token rotation with replay detection, logout and password change.

  The Argon2 hasher (\<open>pwdlib\<close>), the JWT library and SHA-256 are parameters, gathered in the record
  \<open>crypto\<close>; random tokens and identifiers come from the call's environment.
\<close>

record auth_config =
  c_password_min :: nat
  c_password_max :: nat
  c_access_minutes :: int
  c_refresh_days :: int
  c_lockout_minutes :: int
  c_max_failed :: nat
  c_jwt_secret :: string
  c_jwt_issuer :: string
  c_jwt_audience :: string

record claims =
  cl_sub :: "ident option"   \<comment> \<open>\<open>None\<close>: not a text\<close>
  cl_jti :: string
  cl_type :: string

record crypto =
  hasher_hash :: "string \<Rightarrow> string"
  hasher_verify :: "string \<Rightarrow> string \<Rightarrow> bool"        \<comment> \<open>\<open>False\<close> also where the library raises\<close>
  dummy_hash :: string
  token_hash :: "string \<Rightarrow> string"                      \<comment> \<open>SHA-256, hexadecimal\<close>
  jwt_encode :: "ident \<Rightarrow> ident \<Rightarrow> time \<Rightarrow> time \<Rightarrow> string"  \<comment> \<open>sub, jti, iat, exp\<close>
  jwt_decode :: "string \<Rightarrow> claims option"                \<comment> \<open>\<open>None\<close>: \<open>InvalidTokenError\<close>\<close>

definition minute :: time where "minute = 60 * 1000000"
definition day :: time where "day = 24 * 60 * minute"

section \<open>Passwords\<close>

definition hash_password :: "auth_config \<Rightarrow> crypto \<Rightarrow> string \<Rightarrow> string result" where
  "hash_password cfg cr pw =
     (if \<not> (c_password_min cfg \<le> length pw \<and> length pw \<le> c_password_max cfg)
      then Inl (HTTP_Exception 422 ''Password length outside policy'')
      else Inr (hasher_hash cr pw))"

definition verify_password :: "auth_config \<Rightarrow> crypto \<Rightarrow> string \<Rightarrow> string \<Rightarrow> bool" where
  "verify_password cfg cr pw h = (if c_password_max cfg < length pw then False else hasher_verify cr pw h)"

definition auth_service_init :: "auth_config \<Rightarrow> unit result" where
  "auth_service_init cfg =
     (if length (c_jwt_secret cfg) < 32 \<or> c_jwt_issuer cfg = [] \<or> c_jwt_audience cfg = []
      then Inl (Value_Error ''Authentication requires a strong signing secret and issuer/audience'')
      else Inr ())"

section \<open>Accounts\<close>

record public_user =
  pu_id :: ident
  pu_email :: string
  pu_display_name :: string
  pu_status :: account_status

definition public_of :: "user \<Rightarrow> public_user" where
  "public_of u = \<lparr>pu_id = u_id u, pu_email = u_email u, pu_display_name = u_display_name u,
     pu_status = u_status u\<rparr>"

definition not_space_at :: rx where
  "not_space_at = Cls (\<lambda>c. \<not> is_space c \<and> c \<noteq> CHR ''@'')"

definition email_rx :: rx where
  "email_rx = Seqs [Plus not_space_at, Lit ''@'', Plus not_space_at, Lit ''.'', Plus not_space_at]"

definition register ::
  "call_env \<Rightarrow> auth_config \<Rightarrow> crypto \<Rightarrow> string \<Rightarrow> string \<Rightarrow> string \<Rightarrow> auth_db \<Rightarrow> (auth_db \<times> public_user) result" where
  "register env cfg cr email pw display db =
     (let normalized = casefold (strip email) in
      if 254 < length normalized \<or> \<not> fullmatch email_rx normalized
      then Inl (HTTP_Exception 422 ''Invalid email'')
      else rbind (hash_password cfg cr pw) (\<lambda>h.
        if find_user db None (Some normalized) \<noteq> None
        then Inl (HTTP_Exception 409 ''Account could not be created'')
        else
          let u = \<lparr>u_id = e_fresh env 0, u_email = strip email, u_normalized_email = normalized,
                u_display_name = take 200 (strip display), u_password_hash = h, u_status = ACTIVE,
                u_failed_login_count = 0, u_locked_until = None, u_created_at = e_now env,
                u_updated_at = e_now env, u_last_login_at = None\<rparr>
          in rbind (row_insert u_id u (users db)) (\<lambda>us.
               Inr (audit env (e_fresh env 1) ''USER_REGISTERED''
                      (audit_defaults\<lparr>aa_actor := Some (u_id u), aa_resource_id := Some (u_id u)\<rparr>)
                      (db\<lparr>users := us\<rparr>), public_of u))))"

definition access_token :: "call_env \<Rightarrow> auth_config \<Rightarrow> crypto \<Rightarrow> ident \<Rightarrow> ident \<Rightarrow> string" where
  "access_token env cfg cr uid jti =
     jwt_encode cr uid jti (e_now env) (e_now env + c_access_minutes cfg * minute)"

definition current_principal :: "crypto \<Rightarrow> string \<Rightarrow> auth_db \<Rightarrow> principal result" where
  "current_principal cr token db =
     (case jwt_decode cr token of
        None \<Rightarrow> Inl (HTTP_Exception 401 ''Invalid access token'')
      | Some c \<Rightarrow>
          (if cl_type c \<noteq> ''access'' \<or> cl_sub c = None \<or> cl_jti c = []
           then Inl (HTTP_Exception 401 ''Invalid access token'')
           else principal_for_user db (the (cl_sub c))))"

section \<open>Refresh tokens\<close>

record tokens =
  tk_access :: string
  tk_refresh :: string

definition new_refresh ::
  "call_env \<Rightarrow> auth_config \<Rightarrow> crypto \<Rightarrow> string \<Rightarrow> ident \<Rightarrow> ident \<Rightarrow> ident \<Rightarrow> ident option \<Rightarrow> auth_db \<Rightarrow>
   auth_db result" where
  \<comment> \<open>\<open>token\<close> and \<open>tid\<close> are the random token and its identifier; \<open>family\<close> is given or fresh\<close>
  "new_refresh env cfg cr token tid uid family parent db =
     (let t = \<lparr>rt_id = tid, rt_user_id = uid, rt_token_hash = token_hash cr token, rt_family_id = family,
            rt_parent_id = parent, rt_expires_at = e_now env + c_refresh_days cfg * day,
            rt_created_at = e_now env, rt_used_at = None, rt_revoked_at = None, rt_replaced_by = None,
            rt_user_agent_hash = None\<rparr>
      in if row_get rt_token_hash (rt_token_hash t) (refresh_tokens db) \<noteq> None
         then Inl (Integrity_Error ''refresh_tokens.token_hash'')
         else rbind (row_insert rt_id t (refresh_tokens db)) (\<lambda>ts. Inr (db\<lparr>refresh_tokens := ts\<rparr>)))"

definition locked_now :: "call_env \<Rightarrow> user \<Rightarrow> bool" where
  "locked_now env u = (case u_locked_until u of None \<Rightarrow> False | Some t \<Rightarrow> e_now env < t)"

definition set_user :: "ident \<Rightarrow> (user \<Rightarrow> user) \<Rightarrow> auth_db \<Rightarrow> auth_db" where
  "set_user uid f db = db\<lparr>users := update_where (\<lambda>u. u_id u = uid) f (users db)\<rparr>"

definition invalid_credentials :: py_error where
  "invalid_credentials = HTTP_Exception 401 ''Invalid credentials''"

text \<open>
  \<open>login\<close> reads the account in one transaction, verifies the password outside any transaction, and
  decides in a second one; \<open>db0\<close> is the state the first read saw.
\<close>

definition login_valid ::
  "call_env \<Rightarrow> auth_config \<Rightarrow> crypto \<Rightarrow> string \<Rightarrow> string \<Rightarrow> auth_db \<Rightarrow> auth_db \<Rightarrow> bool" where
  "login_valid env cfg cr email pw db0 db =
     (let n = casefold (strip email);
          user = find_user db0 None (Some n);
          verified = verify_password cfg cr pw
            (case user of None \<Rightarrow> dummy_hash cr | Some u \<Rightarrow> u_password_hash u)
      in case (find_user db None (Some n), user) of
        (Some cur, Some u) \<Rightarrow> u_password_hash cur = u_password_hash u \<and> u_status cur = ACTIVE
          \<and> verified \<and> \<not> locked_now env cur
      | _ \<Rightarrow> False)"

definition login_success ::
  "call_env \<Rightarrow> auth_config \<Rightarrow> crypto \<Rightarrow> user \<Rightarrow> auth_db \<Rightarrow> (auth_db \<times> tokens) result" where
  "login_success env cfg cr cur db =
     (let db1 = set_user (u_id cur) (\<lambda>u. u\<lparr>u_failed_login_count := 0, u_locked_until := None,
            u_last_login_at := Some (e_now env), u_updated_at := e_now env\<rparr>) db;
          token = e_fresh env 0
      in rbind (new_refresh env cfg cr token (e_fresh env 1) (u_id cur) (e_fresh env 2) None db1) (\<lambda>db2.
           Inr (audit env (e_fresh env 3) ''LOGIN_SUCCEEDED''
                  (audit_defaults\<lparr>aa_actor := Some (u_id cur), aa_resource_id := Some (u_id cur)\<rparr>) db2,
                \<lparr>tk_access = access_token env cfg cr (u_id cur) (e_fresh env 4), tk_refresh = token\<rparr>)))"

definition login_failure :: "call_env \<Rightarrow> auth_config \<Rightarrow> user option \<Rightarrow> auth_db \<Rightarrow> auth_db" where
  "login_failure env cfg cur db =
     (let db1 = (case cur of
            None \<Rightarrow> db
          | Some u \<Rightarrow>
              (if u_status u = ACTIVE \<and> \<not> locked_now env u
               then let count = (if u_locked_until u \<noteq> None then 0 else u_failed_login_count u) + 1;
                        until = (if c_max_failed cfg \<le> count
                                 then Some (e_now env + c_lockout_minutes cfg * minute) else None);
                        db' = set_user (u_id u) (\<lambda>x. x\<lparr>u_failed_login_count := count,
                                u_locked_until := until, u_updated_at := e_now env\<rparr>) db
                    in if until \<noteq> None
                       then audit env (e_fresh env 0) ''USER_LOCKED''
                              (audit_defaults\<lparr>aa_actor := Some (u_id u), aa_resource_id := Some (u_id u)\<rparr>) db'
                       else db'
               else db))
      in audit env (e_fresh env 1) ''LOGIN_FAILED''
           (audit_defaults\<lparr>aa_actor := map_option u_id cur, aa_result := ''DENIED''\<rparr>) db1)"

definition login ::
  "call_env \<Rightarrow> auth_config \<Rightarrow> crypto \<Rightarrow> string \<Rightarrow> string \<Rightarrow> auth_db \<Rightarrow> auth_db \<Rightarrow> auth_db \<times> tokens result" where
  "login env cfg cr email pw db0 db =
     (let cur = find_user db None (Some (casefold (strip email))) in
      if login_valid env cfg cr email pw db0 db
      then (case login_success env cfg cr (the cur) db of
              Inl e \<Rightarrow> (db, Inl e)
            | Inr (db', tk) \<Rightarrow> (db', Inr tk))
      else (login_failure env cfg cur db, Inl invalid_credentials))"

definition revoke_where :: "call_env \<Rightarrow> (refresh_token \<Rightarrow> bool) \<Rightarrow> auth_db \<Rightarrow> auth_db" where
  "revoke_where env P db = db\<lparr>refresh_tokens :=
     update_where P (\<lambda>t. t\<lparr>rt_revoked_at := Some (e_now env)\<rparr>) (refresh_tokens db)\<rparr>"

definition invalid_refresh :: py_error where
  "invalid_refresh = HTTP_Exception 401 ''Invalid refresh token''"

definition usable :: "call_env \<Rightarrow> refresh_token \<Rightarrow> auth_db \<Rightarrow> bool" where
  "usable env row db = (rt_revoked_at row = None \<and> e_now env < rt_expires_at row \<and>
     (case find_user db (Some (rt_user_id row)) None of None \<Rightarrow> False | Some u \<Rightarrow> u_status u = ACTIVE))"

definition rotate ::
  "call_env \<Rightarrow> auth_config \<Rightarrow> crypto \<Rightarrow> refresh_token \<Rightarrow> auth_db \<Rightarrow> (auth_db \<times> tokens) result" where
  "rotate env cfg cr row db =
     (let token = e_fresh env 0; tid = e_fresh env 1 in
      rbind (new_refresh env cfg cr token tid (rt_user_id row) (rt_family_id row) (Some (rt_id row)) db) (\<lambda>db1.
        Inr (audit env (e_fresh env 2) ''TOKEN_REFRESHED''
               (audit_defaults\<lparr>aa_actor := Some (rt_user_id row),
                  aa_metadata := [(''family_id'', JStr (rt_family_id row))]\<rparr>)
               (db1\<lparr>refresh_tokens := update_where (\<lambda>t. rt_id t = rt_id row)
                  (\<lambda>t. t\<lparr>rt_used_at := Some (e_now env), rt_revoked_at := Some (e_now env),
                     rt_replaced_by := Some tid\<rparr>) (refresh_tokens db1)\<rparr>),
             \<lparr>tk_access = access_token env cfg cr (rt_user_id row) (e_fresh env 3), tk_refresh = token\<rparr>)))"

definition refresh ::
  "call_env \<Rightarrow> auth_config \<Rightarrow> crypto \<Rightarrow> string \<Rightarrow> auth_db \<Rightarrow> auth_db \<times> tokens result" where
  "refresh env cfg cr token db =
     (case row_get rt_token_hash (token_hash cr token) (refresh_tokens db) of
        None \<Rightarrow> (db, Inl invalid_refresh)
      | Some row \<Rightarrow>
          (if rt_used_at row \<noteq> None
           then (audit env (e_fresh env 0) ''TOKEN_REPLAY_DETECTED''
                   (audit_defaults\<lparr>aa_actor := Some (rt_user_id row), aa_result := ''DENIED'',
                      aa_metadata := [(''family_id'', JStr (rt_family_id row))]\<rparr>)
                   (revoke_where env (\<lambda>t. rt_family_id t = rt_family_id row) db),
                 Inl invalid_refresh)
           else if usable env row db
           then (case rotate env cfg cr row db of
                   Inl e \<Rightarrow> (db, Inl e)
                 | Inr (db', tk) \<Rightarrow> (db', Inr tk))
           else (db, Inl invalid_refresh)))"

definition logout :: "call_env \<Rightarrow> crypto \<Rightarrow> string \<Rightarrow> auth_db \<Rightarrow> auth_db" where
  "logout env cr token db =
     (case row_get rt_token_hash (token_hash cr token) (refresh_tokens db) of
        None \<Rightarrow> db
      | Some row \<Rightarrow> audit env (e_fresh env 0) ''LOGOUT'' (audit_defaults\<lparr>aa_actor := Some (rt_user_id row)\<rparr>)
                     (revoke_where env (\<lambda>t. rt_id t = rt_id row) db))"

definition logout_all :: "call_env \<Rightarrow> ident \<Rightarrow> auth_db \<Rightarrow> auth_db" where
  "logout_all env uid db =
     audit env (e_fresh env 0) ''LOGOUT''
       (audit_defaults\<lparr>aa_actor := Some uid, aa_metadata := [(''action'', JStr ''all'')]\<rparr>)
       (revoke_where env (\<lambda>t. rt_user_id t = uid) db)"

text \<open>As in \<open>login\<close>, \<open>db0\<close> is the state the first read saw.\<close>

definition change_password ::
  "call_env \<Rightarrow> auth_config \<Rightarrow> crypto \<Rightarrow> ident \<Rightarrow> string \<Rightarrow> string \<Rightarrow> auth_db \<Rightarrow> auth_db \<Rightarrow> auth_db result" where
  "change_password env cfg cr uid old new db0 db =
     (case principal_user db0 uid of
        None \<Rightarrow> Inl invalid_credentials
      | Some u \<Rightarrow>
          (if \<not> verify_password cfg cr old (u_password_hash u) then Inl invalid_credentials
           else rbind (hash_password cfg cr new) (\<lambda>h.
             case find_user db (Some uid) None of
               None \<Rightarrow> Inl Type_Error
             | Some cur \<Rightarrow>
                 (if u_password_hash cur \<noteq> u_password_hash u
                  then Inl (HTTP_Exception 409 ''Account changed'')
                  else Inr (audit env (e_fresh env 0) ''PASSWORD_CHANGED''
                         (audit_defaults\<lparr>aa_actor := Some uid\<rparr>)
                         (revoke_where env (\<lambda>t. rt_user_id t = uid)
                           (set_user uid (\<lambda>x. x\<lparr>u_password_hash := h, u_updated_at := e_now env\<rparr>) db)))))))"

end
