(* ===== verification/Accounts_Laws.thy ===== *)
theory Accounts_Laws
  imports Accounts Authorization_Laws
begin

text \<open>
  What account handling guarantees: token families stay linear (one usable token each), a replayed
  refresh token ends its whole family, repeated failures lock an account, and a password change ends
  every session of the account.
\<close>

section \<open>Token families\<close>

definition live :: "refresh_token \<Rightarrow> bool" where
  "live t \<longleftrightarrow> rt_revoked_at t = None"

definition tokens_ok :: "refresh_token list \<Rightarrow> bool" where
  "tokens_ok ts \<longleftrightarrow> distinct (map rt_id ts) \<and> distinct (map rt_token_hash ts) \<and>
     (\<forall>t\<in>set ts. rt_used_at t \<noteq> None \<longrightarrow> \<not> live t) \<and>
     (\<forall>t\<in>set ts. \<forall>u\<in>set ts. live t \<longrightarrow> live u \<longrightarrow> rt_family_id t = rt_family_id u \<longrightarrow> t = u)"

definition sessions_ok :: "auth_db \<Rightarrow> bool" where
  "sessions_ok db = tokens_ok (refresh_tokens db)"

lemma set_user_tokens [simp]:
  "refresh_tokens (set_user uid f db) = refresh_tokens db"
  "audit_events (set_user uid f db) = audit_events db"
  by (simp_all add: set_user_def)

lemma revoke_where_users [simp]: "users (revoke_where env P db) = users db"
  by (simp add: revoke_where_def)

lemma find_user_cong: "users a = users b \<Longrightarrow> find_user a i e = find_user b i e"
  by (simp add: find_user_def)

lemma revoke_tokens_ok:
  "tokens_ok ts \<Longrightarrow> tokens_ok (update_where P (\<lambda>t. t\<lparr>rt_revoked_at := Some x\<rparr>) ts)"
  by (auto simp: tokens_ok_def map_update_where set_update_where live_def)

lemma revoke_where_ok: "sessions_ok db \<Longrightarrow> sessions_ok (revoke_where env P db)"
  by (simp add: sessions_ok_def revoke_where_def revoke_tokens_ok)

lemma new_refresh_Inr:
  assumes "new_refresh env cfg cr token tid uid family parent db = Inr db'"
  obtains t where "db' = db\<lparr>refresh_tokens := refresh_tokens db @ [t]\<rparr>" "rt_id t = tid"
    "rt_token_hash t = token_hash cr token" "rt_family_id t = family" "rt_user_id t = uid"
    "rt_used_at t = None" "rt_revoked_at t = None"
    "row_get rt_token_hash (token_hash cr token) (refresh_tokens db) = None"
    "row_get rt_id tid (refresh_tokens db) = None"
  using assms by (auto simp: new_refresh_def Let_def rbind_Inr_iff row_simps split: if_splits)

lemma append_tokens_ok:
  assumes "tokens_ok ts" "rt_id t \<notin> rt_id ` set ts" "rt_token_hash t \<notin> rt_token_hash ` set ts"
    "rt_used_at t = None" "\<forall>u\<in>set ts. live u \<longrightarrow> rt_family_id u \<noteq> rt_family_id t"
  shows "tokens_ok (ts @ [t])"
proof -
  have "x = y" if m: "x \<in> set (ts @ [t])" "y \<in> set (ts @ [t])" and l: "live x" "live y"
    and f: "rt_family_id x = rt_family_id y" for x y
  proof -
    consider "x \<in> set ts" "y \<in> set ts" | "x = t" "y \<in> set ts" | "x \<in> set ts" "y = t" | "x = t" "y = t"
      using m by auto
    then show ?thesis
    proof cases
      case 1
      then show ?thesis using l f assms(1) by (simp add: tokens_ok_def)
    next
      case 2
      then show ?thesis using l f assms(5) by metis
    next
      case 3
      then show ?thesis using l f assms(5) by simp
    qed simp
  qed
  then have "\<forall>x\<in>set (ts @ [t]). \<forall>y\<in>set (ts @ [t]). live x \<longrightarrow> live y \<longrightarrow>
      rt_family_id x = rt_family_id y \<longrightarrow> x = y" by blast
  moreover have "\<forall>x\<in>set (ts @ [t]). rt_used_at x \<noteq> None \<longrightarrow> \<not> live x"
    using assms(1,4) by (simp add: tokens_ok_def)
  ultimately show ?thesis using assms(1,2,3) unfolding tokens_ok_def by simp
qed

lemma rotate_tokens_ok:
  assumes ok: "tokens_ok ts" and row: "row \<in> set ts" "live row"
    and t: "rt_id t \<notin> rt_id ` set ts" "rt_token_hash t \<notin> rt_token_hash ` set ts"
      "rt_used_at t = None" "rt_family_id t = rt_family_id row"
    and f: "\<And>x. rt_id (f x) = rt_id x" "\<And>x. rt_token_hash (f x) = rt_token_hash x" "\<And>x. \<not> live (f x)"
  shows "tokens_ok (update_where (\<lambda>x. rt_id x = rt_id row) f (ts @ [t]))"
proof -
  have ids: "rt_id t \<noteq> rt_id row" using row(1) t(1) by auto
  have only: "u = row" if "u \<in> set ts" "live u" "rt_family_id u = rt_family_id row" for u
    using ok row that by (auto simp: tokens_ok_def)
  have same: "u = row" if "u \<in> set ts" "rt_id u = rt_id row" for u
    using ok row(1) that by (auto simp: tokens_ok_def distinct_map dest: inj_onD)
  let ?us = "update_where (\<lambda>x. rt_id x = rt_id row) f (ts @ [t])"
  have keep: "(x = t \<or> x \<in> set ts) \<and> rt_id x \<noteq> rt_id row" if "x \<in> set ?us" "live x" for x
    using that f(3) by (auto simp: set_update_where)
  have "x = y" if "x \<in> set ?us" "y \<in> set ?us" "live x" "live y" "rt_family_id x = rt_family_id y" for x y
    using keep [OF that(1,3)] keep [OF that(2,4)] that(3-5) only [of x] only [of y] t(4) ok
    unfolding tokens_ok_def by metis
  moreover have "\<not> live x" if "x \<in> set ?us" "rt_used_at x \<noteq> None" for x
    using that t(3) ok f(3) by (auto simp: set_update_where tokens_ok_def)
  moreover have "distinct (map rt_id ?us)" "distinct (map rt_token_hash ?us)"
    using ok t(1,2) by (simp_all add: map_update_where f tokens_ok_def)
  ultimately show ?thesis unfolding tokens_ok_def by blast
qed

lemma row_get_hash_in:
  "row_get rt_token_hash h ts = Some row \<Longrightarrow> row \<in> set ts \<and> rt_token_hash row = h"
  by (auto dest: row_get_Some_in row_get_Some_key)

lemma rotate_Inr:
  assumes "rotate env cfg cr row db = Inr (db', tk)"
  obtains t where "refresh_tokens db' = update_where (\<lambda>x. rt_id x = rt_id row)
      (\<lambda>x. x\<lparr>rt_used_at := Some (e_now env), rt_revoked_at := Some (e_now env),
         rt_replaced_by := Some (e_fresh env 1)\<rparr>) (refresh_tokens db @ [t])"
    "rt_id t = e_fresh env 1" "rt_token_hash t = token_hash cr (tk_refresh tk)"
    "rt_family_id t = rt_family_id row" "rt_used_at t = None" "rt_user_id t = rt_user_id row"
    "rt_token_hash t \<notin> rt_token_hash ` set (refresh_tokens db)" "rt_id t \<notin> rt_id ` set (refresh_tokens db)"
    "users db' = users db"
  using assms
  by (auto simp: rotate_def Let_def rbind_Inr_iff row_get_None_iff elim!: new_refresh_Inr)

lemma refresh_ok: "sessions_ok db \<Longrightarrow> sessions_ok (fst (refresh env cfg cr token db))"
proof (cases "row_get rt_token_hash (token_hash cr token) (refresh_tokens db)")
  case (Some row)
  assume ok: "sessions_ok db"
  show ?thesis
  proof (cases "rt_used_at row \<noteq> None \<or> \<not> usable env row db")
    case True
    then show ?thesis
      using Some ok revoke_where_ok [OF ok] by (auto simp: refresh_def sessions_ok_def)
  next
    case False
    then have r: "rt_used_at row = None" "usable env row db" by auto
    show ?thesis
    proof (cases "rotate env cfg cr row db")
      case (Inr x)
      then obtain db' tk where x: "rotate env cfg cr row db = Inr (db', tk)" by (cases x) auto
      then have "tokens_ok (refresh_tokens db')"
        using ok Some r
        by (elim rotate_Inr, simp only:)
          (rule rotate_tokens_ok, auto simp: sessions_ok_def live_def usable_def dest!: row_get_hash_in)
      then show ?thesis using Some r x by (simp add: refresh_def sessions_ok_def)
    qed (use Some r ok in \<open>simp add: refresh_def\<close>)
  qed
qed (simp add: refresh_def)

lemma login_failure_tokens [simp]: "refresh_tokens (login_failure env cfg cur db) = refresh_tokens db"
  by (auto simp: login_failure_def Let_def split: option.splits)

lemma login_ok:
  assumes "sessions_ok db" and "\<forall>t\<in>set (refresh_tokens db). rt_family_id t \<noteq> e_fresh env 2"
  shows "sessions_ok (fst (login env cfg cr email pw db0 db))"
proof (cases "login_valid env cfg cr email pw db0 db")
  case True
  let ?u = "the (find_user db None (Some (casefold (strip email))))"
  show ?thesis
  proof (cases "login_success env cfg cr ?u db")
    case (Inr x)
    then obtain db' tk where x: "login_success env cfg cr ?u db = Inr (db', tk)" by (cases x) auto
    let ?db1 = "set_user (u_id ?u) (\<lambda>u. u\<lparr>u_failed_login_count := 0, u_locked_until := None,
            u_last_login_at := Some (e_now env), u_updated_at := e_now env\<rparr>) db"
    from x obtain db2 where "refresh_tokens db' = refresh_tokens db2" and
      "new_refresh env cfg cr (e_fresh env 0) (e_fresh env 1) (u_id ?u) (e_fresh env 2) None ?db1 = Inr db2"
      unfolding login_success_def Let_def rbind_Inr_iff by auto
    then obtain t where t: "refresh_tokens db' = refresh_tokens db @ [t]" "rt_id t \<notin> rt_id ` set (refresh_tokens db)"
      "rt_token_hash t \<notin> rt_token_hash ` set (refresh_tokens db)" "rt_family_id t = e_fresh env 2"
      "rt_used_at t = None"
      by (elim new_refresh_Inr) (simp add: row_get_None_iff)
    have "tokens_ok (refresh_tokens db @ [t])"
      by (rule append_tokens_ok) (use assms t in \<open>simp_all add: sessions_ok_def\<close>)
    with t(1) have "sessions_ok db'" by (simp add: sessions_ok_def)
    with True x show ?thesis by (simp add: login_def Let_def)
  qed (use True assms in \<open>simp add: login_def Let_def\<close>)
qed (use assms in \<open>simp add: login_def Let_def sessions_ok_def\<close>)

datatype account_op =
    Op_register call_env auth_config crypto string string string
  | Op_login call_env auth_config crypto string string auth_db
  | Op_refresh call_env auth_config crypto string
  | Op_logout call_env crypto string
  | Op_logout_all call_env ident
  | Op_change_password call_env auth_config crypto ident string string auth_db

fun account_exec :: "account_op \<Rightarrow> auth_db \<Rightarrow> auth_db" where
  "account_exec (Op_register env cfg cr e p d) db = commit_of db (register env cfg cr e p d db)"
| "account_exec (Op_login env cfg cr e p db0) db = fst (login env cfg cr e p db0 db)"
| "account_exec (Op_refresh env cfg cr t) db = fst (refresh env cfg cr t db)"
| "account_exec (Op_logout env cr t) db = logout env cr t db"
| "account_exec (Op_logout_all env u) db = logout_all env u db"
| "account_exec (Op_change_password env cfg cr u a b db0) db =
     (case change_password env cfg cr u a b db0 db of Inl _ \<Rightarrow> db | Inr db' \<Rightarrow> db')"

text \<open>A login's family identifier (a \<open>uuid4\<close>) is not one already in use.\<close>

fun fresh_family :: "auth_db \<Rightarrow> account_op \<Rightarrow> bool" where
  "fresh_family db (Op_login env cfg cr e p db0) =
     list_all (\<lambda>t. rt_family_id t \<noteq> e_fresh env 2) (refresh_tokens db)"
| "fresh_family db _ = True"

lemma change_password_Inr:
  assumes "change_password env cfg cr uid old new db0 db = Inr db'"
  shows "refresh_tokens db' = update_where (\<lambda>t. rt_user_id t = uid)
    (\<lambda>t. t\<lparr>rt_revoked_at := Some (e_now env)\<rparr>) (refresh_tokens db)"
  using assms by (auto simp: change_password_def rbind_Inr_iff revoke_where_def
      split: option.splits if_splits)

lemma account_exec_ok: "sessions_ok db \<Longrightarrow> fresh_family db x \<Longrightarrow> sessions_ok (account_exec x db)"
proof (cases x)
  case (Op_register env cfg cr e p d)
  assume "sessions_ok db"
  moreover have "refresh_tokens db' = refresh_tokens db"
    if "register env cfg cr e p d db = Inr (db', a)" for db' a
    using that by (auto simp: register_def Let_def rbind_Inr_iff split: if_splits)
  ultimately show ?thesis
    unfolding Op_register account_exec.simps
    by (intro commit_of_cases [where P = sessions_ok]) (auto simp: sessions_ok_def)
next
  case (Op_logout env cr t)
  assume "sessions_ok db"
  then show ?thesis
    using revoke_where_ok [of db env] by (auto simp: Op_logout logout_def sessions_ok_def split: option.splits)
next
  case (Op_logout_all env u)
  assume "sessions_ok db"
  then show ?thesis
    using revoke_where_ok [of db env] by (auto simp: Op_logout_all logout_all_def sessions_ok_def)
next
  case (Op_change_password env cfg cr u a b db0)
  assume "sessions_ok db"
  then show ?thesis
    by (auto simp: Op_change_password sessions_ok_def revoke_tokens_ok change_password_Inr split: sum.splits)
qed (auto simp: login_ok refresh_ok list_all_iff)

interpretation accounts: guarded_machine account_exec fresh_family sessions_ok
  by unfold_locales (rule account_exec_ok)

text \<open>
  C2: Through any interleaving of registrations, logins, refreshes, logouts and password changes,
  each refresh-token family has at most one token that is not revoked, and a token that was used is
  revoked.
\<close>

theorem one_live_token_per_family:
  assumes "accounts.reaches db db'" and "sessions_ok db"
    and "t \<in> set (refresh_tokens db')" and "u \<in> set (refresh_tokens db')"
    and "rt_family_id t = rt_family_id u" and "rt_revoked_at t = None" and "rt_revoked_at u = None"
  shows "t = u \<and> rt_used_at t = None"
  using accounts.reaches_invar [OF assms(1,2)] assms(3-)
  by (auto simp: sessions_ok_def tokens_ok_def live_def)

definition wit_cfg :: auth_config where
  "wit_cfg = \<lparr>c_password_min = 1, c_password_max = 128, c_access_minutes = 20, c_refresh_days = 7,
     c_lockout_minutes = 15, c_max_failed = 2, c_jwt_secret = ''s'', c_jwt_issuer = ''i'',
     c_jwt_audience = ''a''\<rparr>"

definition wit_crypto :: crypto where
  "wit_crypto = \<lparr>hasher_hash = (\<lambda>p. CHR ''#'' # p), hasher_verify = (\<lambda>p h. h = CHR ''#'' # p),
     dummy_hash = ''#'', token_hash = (\<lambda>t. CHR ''h'' # t), jwt_encode = (\<lambda>u j a b. u),
     jwt_decode = (\<lambda>t. None)\<rparr>"

definition wit_token :: refresh_token where
  "wit_token = \<lparr>rt_id = ''r0'', rt_user_id = ''a'', rt_token_hash = ''htok'', rt_family_id = ''fam'',
     rt_parent_id = None, rt_expires_at = 1000, rt_created_at = 0, rt_used_at = None,
     rt_revoked_at = None, rt_replaced_by = None, rt_user_agent_hash = None\<rparr>"

definition wit_sessions :: auth_db where
  "wit_sessions = wit_db\<lparr>refresh_tokens := [wit_token]\<rparr>"

lemma wit_sessions_ok: "sessions_ok wit_sessions"
  by (simp add: sessions_ok_def tokens_ok_def wit_sessions_def wit_token_def)

theorem one_live_token_per_family_witness:
  "rt_used_at (last (refresh_tokens
     (account_exec (Op_refresh wit_env wit_cfg wit_crypto ''tok'') wit_sessions))) = None"
proof -
  let ?x = "Op_refresh wit_env wit_cfg wit_crypto ''tok''"
  let ?ts = "refresh_tokens (account_exec ?x wit_sessions)"
  have r: "accounts.reaches wit_sessions (account_exec ?x wit_sessions)"
    by (rule accounts.reaches.step [OF accounts.reaches.refl])
      (simp add: wit_sessions_def wit_token_def wit_env_def)
  have t: "last ?ts \<in> set ?ts" and l: "rt_revoked_at (last ?ts) = None" by code_simp+
  show ?thesis using one_live_token_per_family [OF r wit_sessions_ok t t refl l l] by simp
qed

section \<open>Replay\<close>

lemma row_get_update_where:
  "(\<And>r. k (f r) = k r) \<Longrightarrow> row_get k i (update_where P f rs) =
     map_option (\<lambda>r. if P r then f r else r) (row_get k i rs)"
  unfolding row_get_def by (rule find_update_where) simp

lemma refresh_revoked:
  assumes "row_get rt_token_hash (token_hash cr token) (refresh_tokens db) = Some row"
    and "rt_revoked_at row \<noteq> None"
  shows "snd (refresh env cfg cr token db) = Inl invalid_refresh"
  using assms by (auto simp: refresh_def usable_def)

lemma refresh_Inr:
  assumes "refresh env cfg cr token db = (db', Inr tk)"
  obtains row where "row_get rt_token_hash (token_hash cr token) (refresh_tokens db) = Some row"
    "rt_used_at row = None" "usable env row db" "rotate env cfg cr row db = Inr (db', tk)"
  using assms by (auto simp: refresh_def split: option.splits if_splits sum.splits)

lemma refresh_used:
  assumes "row_get rt_token_hash (token_hash cr token) (refresh_tokens db) = Some row"
    and "rt_used_at row \<noteq> None"
  shows "snd (refresh env cfg cr token db) = Inl invalid_refresh"
    and "refresh_tokens (fst (refresh env cfg cr token db)) =
      update_where (\<lambda>t. rt_family_id t = rt_family_id row)
        (\<lambda>t. t\<lparr>rt_revoked_at := Some (e_now env)\<rparr>) (refresh_tokens db)"
  using assms by (auto simp: refresh_def revoke_where_def)

text \<open>
  C3: A refresh token works once.  After a successful refresh, presenting the same token again is
  refused, revokes every token of its family, and the successor that the first refresh had issued is
  refused from then on as well.
\<close>

theorem replay_ends_family:
  assumes "refresh env cfg cr token db = (db1, Inr tk)"
    and "db2 = fst (refresh env' cfg cr token db1)"
  shows "snd (refresh env' cfg cr token db1) = Inl invalid_refresh
    \<and> snd (refresh env'' cfg cr (tk_refresh tk) db2) = Inl invalid_refresh
    \<and> (\<exists>row. row_get rt_token_hash (token_hash cr token) (refresh_tokens db) = Some row \<and>
         (\<forall>t\<in>set (refresh_tokens db2). rt_family_id t = rt_family_id row \<longrightarrow> rt_revoked_at t \<noteq> None))"
proof -
  from assms(1) obtain row where row: "row_get rt_token_hash (token_hash cr token) (refresh_tokens db) = Some row"
    and rot: "rotate env cfg cr row db = Inr (db1, tk)" by (rule refresh_Inr)
  let ?f = "\<lambda>x. x\<lparr>rt_used_at := Some (e_now env), rt_revoked_at := Some (e_now env),
         rt_replaced_by := Some (e_fresh env 1)\<rparr>"
  from rot obtain t where
    ts: "refresh_tokens db1 = update_where (\<lambda>x. rt_id x = rt_id row) ?f (refresh_tokens db @ [t])"
    and t: "rt_token_hash t = token_hash cr (tk_refresh tk)" "rt_family_id t = rt_family_id row"
      "rt_token_hash t \<notin> rt_token_hash ` set (refresh_tokens db)"
    by (rule rotate_Inr) blast
  have old: "row_get rt_token_hash (token_hash cr token) (refresh_tokens db1) = Some (?f row)"
    unfolding ts by (subst row_get_update_where) (simp_all add: row_get_append row)
  from t(3) have "row_get rt_token_hash (token_hash cr (tk_refresh tk)) (refresh_tokens db) = None"
    by (simp add: row_get_None_iff t(1))
  then have new: "row_get rt_token_hash (token_hash cr (tk_refresh tk)) (refresh_tokens db1) =
      Some (if rt_id t = rt_id row then ?f t else t)"
    unfolding ts by (subst row_get_update_where) (simp_all add: row_get_append row_simps t(1))
  have replay: "refresh_tokens db2 = update_where (\<lambda>x. rt_family_id x = rt_family_id row)
      (\<lambda>x. x\<lparr>rt_revoked_at := Some (e_now env')\<rparr>) (refresh_tokens db1)"
    using refresh_used(2) [OF old] by (simp add: assms(2))
  have "row_get rt_token_hash (token_hash cr (tk_refresh tk)) (refresh_tokens db2) =
      Some ((if rt_id t = rt_id row then ?f t else t)\<lparr>rt_revoked_at := Some (e_now env')\<rparr>)"
    unfolding replay by (subst row_get_update_where) (simp_all add: new t(2))
  then have "snd (refresh env'' cfg cr (tk_refresh tk) db2) = Inl invalid_refresh"
    by (rule refresh_revoked) simp
  moreover have "\<forall>x\<in>set (refresh_tokens db2). rt_family_id x = rt_family_id row \<longrightarrow> rt_revoked_at x \<noteq> None"
    unfolding replay by (auto simp: set_update_where)
  ultimately show ?thesis using refresh_used(1) [OF old] row by simp
qed

theorem replay_ends_family_witness:
  "\<exists>db1 tk. refresh wit_env wit_cfg wit_crypto ''tok'' wit_sessions = (db1, Inr tk) \<and>
     snd (refresh wit_env wit_cfg wit_crypto ''tok'' db1) = Inl invalid_refresh"
proof -
  have "is_ok (snd (refresh wit_env wit_cfg wit_crypto ''tok'' wit_sessions))"
    by code_simp
  then obtain db1 tk where a: "refresh wit_env wit_cfg wit_crypto ''tok'' wit_sessions = (db1, Inr tk)"
    by (cases "refresh wit_env wit_cfg wit_crypto ''tok'' wit_sessions") (auto simp: is_ok_iff)
  from replay_ends_family [OF a refl] a show ?thesis by blast
qed

section \<open>Lockout\<close>

fun login_attempts ::
  "auth_config \<Rightarrow> crypto \<Rightarrow> string \<Rightarrow> string \<Rightarrow> call_env list \<Rightarrow> auth_db \<Rightarrow> auth_db" where
  "login_attempts cfg cr email pw [] db = db"
| "login_attempts cfg cr email pw (env # envs) db =
     login_attempts cfg cr email pw envs (fst (login env cfg cr email pw db db))"

abbreviation account_of :: "auth_db \<Rightarrow> string \<Rightarrow> user option" where
  "account_of db email \<equiv> find_user db None (Some (casefold (strip email)))"

lemma account_of_audit [simp]: "account_of (audit env f k a db) email = account_of db email"
  by (simp add: find_user_def)

lemma account_of_set_user:
  "(\<And>u. u_normalized_email (f u) = u_normalized_email u) \<Longrightarrow> account_of db email = Some u \<Longrightarrow>
   account_of (set_user (u_id u) f db) email = Some (f u)"
  by (simp add: find_user_def set_user_def truthy_def find_update_where)

lemma failed_login_step:
  assumes "account_of db email = Some u" "u_status u = ACTIVE" "u_locked_until u = None"
    and "\<not> verify_password cfg cr pw (u_password_hash u)"
  shows "\<exists>v. account_of (fst (login env cfg cr email pw db db)) email = Some v \<and>
    u_status v = ACTIVE \<and> u_password_hash v = u_password_hash u \<and>
    u_failed_login_count v = u_failed_login_count u + 1 \<and>
    u_locked_until v = (if c_max_failed cfg \<le> u_failed_login_count u + 1
      then Some (e_now env + c_lockout_minutes cfg * minute) else None)"
proof -
  have "\<not> login_valid env cfg cr email pw db db"
    using assms by (simp add: login_valid_def Let_def)
  then show ?thesis
    using assms
    by (auto simp: login_def login_failure_def Let_def locked_now_def account_of_set_user)
qed

lemma attempts_lock:
  assumes "account_of db email = Some u" "u_status u = ACTIVE" "u_locked_until u = None"
    and "\<not> verify_password cfg cr pw (u_password_hash u)"
    and "envs \<noteq> []" and "u_failed_login_count u + length envs = c_max_failed cfg"
  shows "\<exists>v. account_of (login_attempts cfg cr email pw envs db) email = Some v \<and>
    u_locked_until v = Some (e_now (last envs) + c_lockout_minutes cfg * minute)"
  using assms
proof (induction envs arbitrary: db u)
  case (Cons env envs)
  from failed_login_step [OF Cons.prems(1-4), of env] obtain v where
    v: "account_of (fst (login env cfg cr email pw db db)) email = Some v" "u_status v = ACTIVE"
    "u_password_hash v = u_password_hash u" "u_failed_login_count v = u_failed_login_count u + 1"
    "u_locked_until v = (if c_max_failed cfg \<le> u_failed_login_count u + 1
      then Some (e_now env + c_lockout_minutes cfg * minute) else None)" by blast
  show ?case
  proof (cases "envs = []")
    case True
    with v Cons.prems show ?thesis by simp
  next
    case False
    then have "u_locked_until v = None" using v(5) Cons.prems(6) by (cases envs) auto
    with False v Cons show ?thesis by simp
  qed
qed simp

lemma locked_login_refused:
  assumes "account_of db email = Some v" "u_locked_until v = Some t" "e_now env < t"
  shows "login env cfg cr email pw db0 db = (login_failure env cfg (Some v) db, Inl invalid_credentials)
    \<and> users (login_failure env cfg (Some v) db) = users db"
  using assms
  by (auto simp: login_def login_valid_def login_failure_def Let_def locked_now_def split: option.splits)

text \<open>
  Brute force stops: after as many failed logins in a row as the configuration allows, the account
  is locked for the configured time from the last failure, and until then every login is refused,
  with any password (the right one included), without touching the account or issuing a token.
\<close>

theorem failures_lock_account:
  assumes "account_of db email = Some u" and "u_status u = ACTIVE" and "u_locked_until u = None"
    and "u_failed_login_count u = 0" and "\<not> verify_password cfg cr pw (u_password_hash u)"
    and "length envs = c_max_failed cfg" and "0 < c_max_failed cfg"
    and "db' = login_attempts cfg cr email pw envs db"
    and "e_now env < e_now (last envs) + c_lockout_minutes cfg * minute"
  shows "snd (login env cfg cr email pw' db0 db') = Inl invalid_credentials
    \<and> users (fst (login env cfg cr email pw' db0 db')) = users db'
    \<and> refresh_tokens (fst (login env cfg cr email pw' db0 db')) = refresh_tokens db'"
proof -
  have "envs \<noteq> []" "u_failed_login_count u + length envs = c_max_failed cfg" using assms(4,6,7) by auto
  from attempts_lock [OF assms(1,2,3,5) this] obtain v where
    "account_of db' email = Some v" "u_locked_until v = Some (e_now (last envs) + c_lockout_minutes cfg * minute)"
    by (auto simp: assms(8))
  from locked_login_refused [OF this assms(9)] show ?thesis by simp
qed

theorem failures_lock_account_witness:
  "snd (login wit_env wit_cfg wit_crypto ''a@x.io'' ''right'' wit_db
     (login_attempts wit_cfg wit_crypto ''a@x.io'' ''wrong'' [wit_env, wit_env] wit_db))
   = Inl invalid_credentials"
proof -
  have a: "account_of wit_db ''a@x.io'' = Some (wit_user ''a'')" by code_simp
  have v: "\<not> verify_password wit_cfg wit_crypto ''wrong'' (u_password_hash (wit_user ''a''))" by code_simp
  have t: "e_now wit_env < e_now (last [wit_env, wit_env]) + c_lockout_minutes wit_cfg * minute"
    by (simp add: wit_env_def wit_cfg_def minute_def)
  show ?thesis
    using failures_lock_account [OF a _ _ _ v _ _ refl t, where ?db0.0 = wit_db and pw' = "''right''"]
    by (simp add: wit_user_def wit_cfg_def)
qed

section \<open>Password change\<close>

lemma all_revoked:
  "\<forall>t\<in>set (update_where (\<lambda>t. rt_user_id t = uid) (\<lambda>t. t\<lparr>rt_revoked_at := Some x\<rparr>) ts).
     rt_user_id t = uid \<longrightarrow> rt_revoked_at t \<noteq> None"
  by (induction ts) simp_all

text \<open>
  A password change ends every session of the account: every refresh token of the account is
  revoked and is refused when presented, and no token of another account changes.
\<close>

theorem password_change_ends_sessions:
  assumes "change_password env cfg cr uid old new db0 db = Inr db'"
  shows "(\<forall>t\<in>set (refresh_tokens db'). rt_user_id t = uid \<longrightarrow> rt_revoked_at t \<noteq> None)
    \<and> filter (\<lambda>t. rt_user_id t \<noteq> uid) (refresh_tokens db') = filter (\<lambda>t. rt_user_id t \<noteq> uid) (refresh_tokens db)
    \<and> (\<forall>token row. row_get rt_token_hash (token_hash cr token) (refresh_tokens db') = Some row \<longrightarrow>
         rt_user_id row = uid \<longrightarrow> snd (refresh env' cfg cr token db') = Inl invalid_refresh)"
proof -
  note ts = change_password_Inr [OF assms]
  have rev: "\<forall>t\<in>set (refresh_tokens db'). rt_user_id t = uid \<longrightarrow> rt_revoked_at t \<noteq> None"
    unfolding ts by (rule all_revoked)
  have "filter (\<lambda>t. rt_user_id t \<noteq> uid) (update_where (\<lambda>t. rt_user_id t = uid)
      (\<lambda>t. t\<lparr>rt_revoked_at := x\<rparr>) xs) = filter (\<lambda>t. rt_user_id t \<noteq> uid) xs" for x xs
    by (induction xs) auto
  then have keep: "filter (\<lambda>t. rt_user_id t \<noteq> uid) (refresh_tokens db') =
      filter (\<lambda>t. rt_user_id t \<noteq> uid) (refresh_tokens db)" by (simp add: ts)
  have "snd (refresh env' cfg cr token db') = Inl invalid_refresh"
    if "row_get rt_token_hash (token_hash cr token) (refresh_tokens db') = Some row" "rt_user_id row = uid"
    for token row
  proof (rule refresh_revoked [OF that(1)])
    show "rt_revoked_at row \<noteq> None" using rev row_get_Some_in [OF that(1)] that(2) by blast
  qed
  then show ?thesis using rev keep by (intro conjI allI impI)
qed

theorem password_change_ends_sessions_witness:
  "\<exists>db'. change_password wit_env wit_cfg (wit_crypto\<lparr>hasher_verify := \<lambda>p h. p = h\<rparr>) ''a'' ''h'' ''new''
     wit_sessions wit_sessions = Inr db' \<and> rt_revoked_at (hd (refresh_tokens db')) \<noteq> None"
proof -
  let ?cr = "wit_crypto\<lparr>hasher_verify := \<lambda>p h. p = h\<rparr>"
  have "is_ok (change_password wit_env wit_cfg ?cr ''a'' ''h'' ''new'' wit_sessions wit_sessions)"
    by code_simp
  then obtain db' where a: "change_password wit_env wit_cfg ?cr ''a'' ''h'' ''new'' wit_sessions wit_sessions = Inr db'"
    by (auto simp: is_ok_iff)
  have "refresh_tokens db' \<noteq> [] \<and> rt_user_id (hd (refresh_tokens db')) = ''a''"
    using change_password_Inr [OF a] by (simp add: wit_sessions_def wit_token_def)
  then show ?thesis using password_change_ends_sessions [OF a] a hd_in_set by blast
qed

end
