(* ===== verification/Tasks.thy ===== *)
theory Tasks
  imports PyText
begin

text \<open>
  \<open>server/tasks.py\<close>: the durable task store (tasks, steps, events), one definition per method, and
  \<open>TaskService.run\<close>.  A method runs in one transaction; \<open>Inl\<close> is the exception it raises, after
  which the stored state is the old one.  \<open>pg\<close> says whether the store is the PostgreSQL one, whose
  \<open>_save\<close> compares the stored version with the one the task was read at.
\<close>

section \<open>Records\<close>

datatype task_status =
    PENDING | QUEUED | RUNNING | PAUSED | WAITING_USER | COMPLETED | FAILED | CANCELLED
  | REQUIRES_RECONCILIATION

datatype source_scope = Workspace_only | Workspace_and_external | External

datatype backend = Inline | Worker

record plan_item =
  pi_description :: string
  pi_preferred_tool :: "string option"
  pi_json :: "(string \<times> json) list"

type_synonym plan = "plan_item list"   \<comment> \<open>\<open>plan['steps']\<close>\<close>

record task =
  t_id :: ident
  t_owner_id :: ident
  t_created_by_user_id :: "ident option"
  t_workspace_id :: ident
  t_session_id :: ident
  t_goal :: string
  t_description :: string
  t_status :: task_status
  t_source_scope :: source_scope
  t_plan :: "plan option"
  t_current_step_id :: "ident option"
  t_created_at :: time
  t_updated_at :: time
  t_started_at :: "time option"
  t_completed_at :: "time option"
  t_last_error :: "string option"
  t_metadata :: "(string, json) dict"
  t_queue_job_id :: "int option"
  t_queued_at :: "time option"
  t_worker_started_at :: "time option"
  t_attempt_count :: nat
  t_execution_backend :: backend
  t_version :: nat
  t_pause_requested :: bool
  t_cancel_requested :: bool

datatype step_status =
    S_PENDING | S_RUNNING | S_WAITING_USER | S_COMPLETED | S_SKIPPED | S_FAILED

record step =
  s_id :: ident
  s_task_id :: ident
  s_index :: nat
  s_description :: string
  s_preferred_tool :: "string option"
  s_status :: step_status
  s_input :: "(string \<times> json) list"
  s_output :: "(string \<times> json) list"
  s_attempt_count :: nat
  s_started_at :: "time option"
  s_completed_at :: "time option"
  s_error :: "string option"

record task_event =
  ev_id :: ident
  ev_task_id :: ident
  ev_type :: string
  ev_payload :: "(string \<times> json) list"
  ev_created_at :: time

record task_db =
  tasks :: "task list"
  steps :: "step list"
  events :: "task_event list"

record task_env =
  te_pg :: bool
  te_now :: time
  te_fresh :: "nat \<Rightarrow> ident"
  te_max_attempts :: nat

section \<open>Store primitives\<close>

definition get_task :: "ident \<Rightarrow> task_db \<Rightarrow> task option" where
  "get_task tid db = row_get t_id tid (tasks db)"

definition put_task :: "task \<Rightarrow> task_db \<Rightarrow> task_db" where
  "put_task t db = db\<lparr>tasks := row_put t_id t (tasks db)\<rparr>"

definition put_step :: "step \<Rightarrow> task_db \<Rightarrow> task_db" where
  "put_step s db = db\<lparr>steps := row_put s_id s (steps db)\<rparr>"

definition add_event :: "task_env \<Rightarrow> nat \<Rightarrow> ident \<Rightarrow> string \<Rightarrow> (string \<times> json) list \<Rightarrow> task_db \<Rightarrow> task_db" where
  "add_event env k tid kind pl db = db\<lparr>events := events db @
     [\<lparr>ev_id = te_fresh env k, ev_task_id = tid, ev_type = kind, ev_payload = pl,
       ev_created_at = te_now env\<rparr>]\<rparr>"

text \<open>
  \<open>_save\<close>: bump the version and write the row; PostgreSQL writes only where the stored version is
  still the expected one, and no row written is a conflict.
\<close>

definition save_task :: "task_env \<Rightarrow> task \<Rightarrow> task_db \<Rightarrow> (task_db \<times> task) result" where
  "save_task env t db =
     (let t' = t\<lparr>t_updated_at := te_now env, t_version := Suc (t_version t)\<rparr> in
      if te_pg env \<and> (case get_task (t_id t) db of None \<Rightarrow> True | Some r \<Rightarrow> t_version r \<noteq> t_version t)
      then Inl (TaskConflict ''Task was updated concurrently'')
      else Inr (put_task t' db, t'))"

definition create_task :: "task_env \<Rightarrow> task \<Rightarrow> task_db \<Rightarrow> (task_db \<times> task) result" where
  "create_task env t db =
     rbind (row_insert t_id t (tasks db)) (\<lambda>ts.
       Inr (add_event env 0 (t_id t) ''TASK_CREATED'' [] (db\<lparr>tasks := ts\<rparr>), t))"

definition fetch_task :: "ident \<Rightarrow> task_db \<Rightarrow> task result" where
  "fetch_task tid db = (case get_task tid db of None \<Rightarrow> Inl (RecordNotFound tid) | Some t \<Rightarrow> Inr t)"

definition list_tasks :: "ident option \<Rightarrow> task_status option \<Rightarrow> task_db \<Rightarrow> task list" where
  "list_tasks ws st db = filter (\<lambda>t. (\<not> truthy ws \<or> Some (t_workspace_id t) = ws)
     \<and> (st = None \<or> Some (t_status t) = st)) (rev (tasks db))"

definition steps_of :: "ident \<Rightarrow> task_db \<Rightarrow> step list" where
  "steps_of tid db = sort_key s_index (filter (\<lambda>s. s_task_id s = tid) (steps db))"

definition list_steps :: "ident \<Rightarrow> task_db \<Rightarrow> step list result" where
  "list_steps tid db = rbind (fetch_task tid db) (\<lambda>_. Inr (steps_of tid db))"

definition list_events :: "ident \<Rightarrow> task_db \<Rightarrow> task_event list result" where
  "list_events tid db = rbind (fetch_task tid db) (\<lambda>_. Inr (filter (\<lambda>e. ev_task_id e = tid) (events db)))"

definition step_at :: "ident \<Rightarrow> nat \<Rightarrow> task_db \<Rightarrow> step option" where
  "step_at tid i db = find (\<lambda>s. s_task_id s = tid \<and> s_index s = i) (steps db)"

section \<open>Plans\<close>

definition new_step :: "task_env \<Rightarrow> ident \<Rightarrow> nat \<Rightarrow> plan_item \<Rightarrow> step" where
  "new_step env tid i v = \<lparr>s_id = te_fresh env i, s_task_id = tid, s_index = i,
     s_description = pi_description v, s_preferred_tool = pi_preferred_tool v, s_status = S_PENDING,
     s_input = pi_json v, s_output = [], s_attempt_count = 0, s_started_at = None,
     s_completed_at = None, s_error = None\<rparr>"

text \<open>\<open>INSERT INTO task_steps\<close>: primary key \<open>id\<close>, unique \<open>(task_id, step_index)\<close>.\<close>

definition insert_step :: "step list \<Rightarrow> step \<Rightarrow> step list result" where
  "insert_step ss s =
     (if list_ex (\<lambda>r. s_task_id r = s_task_id s \<and> s_index r = s_index s) ss
      then Inl (Integrity_Error ''task_steps.task_id, task_steps.step_index'')
      else row_insert s_id s ss)"

definition set_plan :: "task_env \<Rightarrow> ident \<Rightarrow> plan \<Rightarrow> task_db \<Rightarrow> task_db result" where
  "set_plan env tid plan db =
     (case get_task tid db of
        None \<Rightarrow> Inl Type_Error
      | Some t \<Rightarrow>
          (if t_plan t \<noteq> None then Inr db
           else rbind (rfold insert_step (steps db)
                         (map (\<lambda>(i, v). new_step env tid i v) (enumerate 0 plan))) (\<lambda>ss.
                rbind (save_task env (t\<lparr>t_plan := Some plan\<rparr>) (db\<lparr>steps := ss\<rparr>)) (\<lambda>(db', _).
                  Inr (add_event env (length plan) tid ''PLAN_CREATED''
                         [(''step_count'', JInt (int (length plan)))] db')))))"

section \<open>Transitions\<close>

fun legal_from :: "task_status \<Rightarrow> task_status list" where
  "legal_from RUNNING = [PENDING, QUEUED, PAUSED, WAITING_USER, FAILED]"
| "legal_from PAUSED = [RUNNING, PENDING, QUEUED]"
| "legal_from CANCELLED = [PENDING, QUEUED, RUNNING, PAUSED, WAITING_USER, FAILED]"
| "legal_from COMPLETED = [RUNNING]"
| "legal_from FAILED = [RUNNING]"
| "legal_from WAITING_USER = [RUNNING]"
| "legal_from _ = []"

definition transition_event :: "task_status \<Rightarrow> bool \<Rightarrow> string" where
  "transition_event st planned = (case st of
     RUNNING \<Rightarrow> if planned then ''TASK_RESUMED'' else ''TASK_STARTED''
   | PAUSED \<Rightarrow> ''TASK_PAUSED'' | CANCELLED \<Rightarrow> ''TASK_CANCELLED'' | COMPLETED \<Rightarrow> ''TASK_COMPLETED''
   | FAILED \<Rightarrow> ''TASK_FAILED'' | _ \<Rightarrow> ''TASK_WAITING_USER'')"

definition transition ::
  "task_env \<Rightarrow> ident \<Rightarrow> task_status \<Rightarrow> string option \<Rightarrow> task_db \<Rightarrow> (task_db \<times> task) result" where
  "transition env tid st err db =
     rbind (fetch_task tid db) (\<lambda>t.
       if t_status t \<notin> set (legal_from st) then Inl (TaskConflict ''Cannot transition'')
       else
         let t1 = t\<lparr>t_status := st, t_last_error := err\<rparr>;
             t2 = (if st = RUNNING then t1\<lparr>t_started_at := or_time (t_started_at t1) (te_now env)\<rparr> else t1);
             t3 = (if st = COMPLETED then t2\<lparr>t_completed_at := Some (te_now env)\<rparr> else t2)
         in rbind (save_task env t3 db) (\<lambda>(db', t').
              Inr (add_event env 0 tid (transition_event st (t_plan t' \<noteq> None)) [] db', t')))"

section \<open>Steps\<close>

definition start_step :: "task_env \<Rightarrow> ident \<Rightarrow> nat \<Rightarrow> task_db \<Rightarrow> (task_db \<times> step option) result" where
  "start_step env tid i db =
     (case get_task tid db of
        None \<Rightarrow> Inl Type_Error
      | Some t \<Rightarrow>
          (if t_status t \<noteq> RUNNING then Inr (db, None)
           else case step_at tid i db of
             None \<Rightarrow> Inl (RecordNotFound ''step'')
           | Some s \<Rightarrow>
               (if s_status s = S_WAITING_USER then Inr (db, Some s)
                else if s_status s \<in> {S_COMPLETED, S_SKIPPED} then Inr (db, None)
                else if te_max_attempts env \<le> s_attempt_count s
                then Inl (TaskConflict ''Task step retry exhausted'')
                else
                  let s' = s\<lparr>s_status := S_RUNNING, s_started_at := Some (te_now env),
                             s_attempt_count := Suc (s_attempt_count s)\<rparr>
                  in rbind (save_task env (t\<lparr>t_current_step_id := Some (s_id s')\<rparr>) (put_step s' db))
                       (\<lambda>(db1, _).
                       let db2 = add_event env 0 tid ''STEP_STARTED''
                                   [(''step_id'', JStr (s_id s')),
                                    (''attempt'', JInt (int (s_attempt_count s')))] db1
                       in Inr (if truthy (s_preferred_tool s')
                               then add_event env 1 tid ''TOOL_CALLED''
                                      [(''step_id'', JStr (s_id s')),
                                       (''tool'', JStr (the (s_preferred_tool s')))] db2
                               else db2, Some s')))))"

definition wait_for_approval :: "task_env \<Rightarrow> ident \<Rightarrow> ident \<Rightarrow> task_db \<Rightarrow> task_db result" where
  "wait_for_approval env tid sid db =
     (case get_task tid db of
        None \<Rightarrow> Inl Type_Error
      | Some t \<Rightarrow>
          (case find (\<lambda>s. s_id s = sid \<and> s_task_id s = tid) (steps db) of
             None \<Rightarrow> Inl Type_Error
           | Some s \<Rightarrow>
               rbind (save_task env (t\<lparr>t_status := WAITING_USER\<rparr>) db) (\<lambda>(db1, _).
                 Inr (add_event env 0 tid ''TASK_WAITING_USER''
                        [(''step_id'', JStr (s_id s)), (''reason'', JStr ''tool_approval'')]
                        (put_step (s\<lparr>s_status := S_WAITING_USER\<rparr>) db1)))))"

definition checkpoint ::
  "task_env \<Rightarrow> ident \<Rightarrow> nat \<Rightarrow> (string \<times> json) list \<Rightarrow> bool \<Rightarrow> task_db \<Rightarrow> task_db result" where
  "checkpoint env tid i output success db =
     (case step_at tid i db of
        None \<Rightarrow> Inl Type_Error
      | Some s \<Rightarrow>
          (if s_status s = S_COMPLETED then Inr db
           else
             let s' = s\<lparr>s_status := (if success then S_COMPLETED else S_FAILED), s_output := output,
                        s_completed_at := Some (te_now env),
                        s_error := (if success then None else Some ''Step execution failed'')\<rparr>
             in Inr (add_event env 0 tid (if success then ''STEP_COMPLETED'' else ''STEP_FAILED'')
                       [(''step_id'', JStr (s_id s'))] (put_step s' db))))"

text \<open>
  \<open>recover\<close>: every RUNNING task is paused and its RUNNING steps become PENDING; the rows are read
  before the loop.
\<close>

definition recover_one :: "task_env \<Rightarrow> task_db \<Rightarrow> task \<Rightarrow> task_db result" where
  "recover_one env db t =
     rbind (save_task env (t\<lparr>t_status := PAUSED\<rparr>) db) (\<lambda>(db1, _).
       let db2 = add_event env 0 (t_id t) ''TASK_RECOVERED_AFTER_RESTART'' [] db1
       in Inr (fold (\<lambda>s d. put_step (s\<lparr>s_status := S_PENDING\<rparr>) d)
             (filter (\<lambda>s. s_task_id s = t_id t \<and> s_status s = S_RUNNING) (steps db2)) db2))"

definition recover :: "task_env \<Rightarrow> task_db \<Rightarrow> task_db result" where
  "recover env db = rfold (recover_one env) db (filter (\<lambda>t. t_status t = RUNNING) (tasks db))"

section \<open>Running a task\<close>

record approval_ref =
  ar_id :: ident
  ar_status :: string
  ar_consumed_at :: "time option"

definition outstanding :: "approval_ref list \<Rightarrow> approval_ref list" where
  "outstanding as = filter (\<lambda>a. ar_consumed_at a = None \<and>
     ar_status a \<in> {''PENDING'', ''APPROVED'', ''EDITED'', ''REJECTED''}) as"

record resume_scope =
  rs_restored :: "(string \<times> json) list"
  rs_plan :: plan
  rs_current_step :: nat

record run_scope =
  sc_task_id :: ident
  sc_step_limit :: "nat option"
  sc_owner_id :: ident
  sc_approval_resume_id :: "ident option"
  sc_task_resume :: "resume_scope option"

definition done_step :: "step \<Rightarrow> bool" where
  [guard_defs]: "done_step s = (s_status s \<in> {S_COMPLETED, S_SKIPPED})"

definition next_index :: "step list \<Rightarrow> nat" where
  "next_index ss = (case find (\<lambda>s. \<not> done_step s) ss of None \<Rightarrow> length ss | Some s \<Rightarrow> s_index s)"

definition resume_of :: "plan \<Rightarrow> step list \<Rightarrow> resume_scope" where
  "resume_of p ss = \<lparr>rs_restored = (let c = filter done_step ss in if c = [] then [] else s_output (last c)),
     rs_plan = p, rs_current_step = next_index ss\<rparr>"

record run_request =
  rq_resume :: bool
  rq_max_steps :: "nat option"
  rq_worker_claimed :: bool

text \<open>Up to the call of \<open>manager.ask\<close>; \<open>busy\<close> says whether the task's execution lock is held.\<close>

definition run_claim ::
  "task_env \<Rightarrow> bool \<Rightarrow> approval_ref list \<Rightarrow> ident \<Rightarrow> run_request \<Rightarrow> task_db \<Rightarrow>
   (task_db \<times> task \<times> run_scope) result" where
  "run_claim env busy approvals tid rq db =
     (if busy then Inl (TaskConflict ''Task already executing'')
      else rbind (fetch_task tid db) (\<lambda>t.
        if rq_resume rq \<and> \<not> rq_worker_claimed rq \<and> t_status t \<notin> {PAUSED, WAITING_USER, FAILED}
        then Inl (TaskConflict ''Task is not resumable'')
        else if \<not> rq_resume rq \<and> \<not> rq_worker_claimed rq \<and> t_status t \<noteq> PENDING
        then Inl (TaskConflict ''Use resume for an existing task'')
        else
          let out = outstanding approvals in
          if list_ex (\<lambda>a. ar_status a = ''PENDING'') out
          then Inl (TaskConflict ''Task has a pending human approval'')
          else
            rbind (if \<not> rq_worker_claimed rq
                   then rbind (transition env tid RUNNING None db) (\<lambda>(db1, _). Inr db1)
                   else if t_status t \<noteq> RUNNING then Inl (TaskConflict ''Worker has no execution claim'')
                   else Inr db) (\<lambda>db1.
              Inr (db1, t,
                \<lparr>sc_task_id = tid, sc_step_limit = rq_max_steps rq, sc_owner_id = t_owner_id t,
                 sc_approval_resume_id = (case out of [] \<Rightarrow> None | a # _ \<Rightarrow> Some (ar_id a)),
                 sc_task_resume = map_option (\<lambda>p. resume_of p (steps_of tid db1)) (t_plan t)\<rparr>))))"

text \<open>After \<open>manager.ask\<close> has answered: the final status, then the answer is stored with the task.\<close>

definition run_settle ::
  "task_env \<Rightarrow> ident \<Rightarrow> string \<Rightarrow> task_db \<Rightarrow> task_db \<times> task result" where
  "run_settle env tid answer db =
     (case fetch_task tid db of
        Inl e \<Rightarrow> (db, Inl e)
      | Inr t \<Rightarrow>
          (case (if t_status t = RUNNING
                 then let ss = steps_of tid db in
                   if list_ex (\<lambda>s. s_status s = S_FAILED) ss
                   then transition env tid FAILED (Some ''A task step failed'') db
                   else if list_ex (\<lambda>s. \<not> done_step s) ss then transition env tid PAUSED None db
                   else transition env tid COMPLETED None db
                 else Inr (db, t)) of
             Inl e \<Rightarrow> (db, Inl e)
           | Inr (db1, t1) \<Rightarrow>
               (if t_status t1 = COMPLETED
                then (case save_task env (t1\<lparr>t_metadata := dict_put ''answer'' (JStr answer) (t_metadata t1)\<rparr>) db1 of
                        Inl e \<Rightarrow> (db1, Inl e)
                      | Inr (db2, t2) \<Rightarrow> (db2, Inr t2))
                else (db1, Inr t1))))"

fun error_name :: "py_error \<Rightarrow> string" where
  "error_name (RecordNotFound i) = ''RecordNotFound''"
| "error_name (TaskConflict m) = ''TaskConflict''"
| "error_name (BudgetExhausted m) = ''BudgetExhausted''"
| "error_name (Value_Error m) = ''ValueError''"
| "error_name (Permission_Error m) = ''PermissionError''"
| "error_name (Runtime_Error m) = ''RuntimeError''"
| "error_name Type_Error = ''TypeError''"
| "error_name (Key_Error k) = ''KeyError''"
| "error_name Index_Error = ''IndexError''"
| "error_name (Tool_Unavailable m) = ''ToolUnavailable''"
| "error_name (Tool_Transport_Unavailable m) = ''ToolTransportUnavailable''"
| "error_name (Retryable_Task_Error m) = ''RetryableTaskError''"
| "error_name (HTTP_Exception n m) = ''HTTPException''"
| "error_name (Agent_Unavailable m) = ''AgentUnavailable''"
| "error_name (Capability_Unavailable m) = ''CapabilityUnavailable''"
| "error_name (Delegation_Rejected m) = ''DelegationRejected''"
| "error_name (Workspace_Not_Found i) = ''WorkspaceNotFoundError''"
| "error_name (Session_Not_Found i) = ''SessionNotFoundError''"
| "error_name (Session_Unavailable m) = ''SessionUnavailableError''"
| "error_name (Integrity_Error m) = ''IntegrityError''"
| "error_name Execution_Limit_Error = ''ExecutionLimitError''"
| "error_name Execution_Unavailable_Error = ''ExecutionUnavailableError''"
| "error_name Execution_Configuration_Error = ''ExecutionConfigurationError''"
| "error_name Execution_Timeout_Error = ''ExecutionTimeoutError''"
| "error_name (Provider_Error m) = m"
| "error_name Context_Budget_Error = ''ContextBudgetError''"
| "error_name (Structured_Output_Failure m) = ''StructuredOutputFailure''"

text \<open>The \<open>except\<close> clause: a task still RUNNING is failed with the exception's name, then re-raised.\<close>

definition run_fail :: "task_env \<Rightarrow> ident \<Rightarrow> py_error \<Rightarrow> task_db \<Rightarrow> task_db \<times> task result" where
  "run_fail env tid e db =
     (case fetch_task tid db of
        Inl e' \<Rightarrow> (db, Inl e')
      | Inr t \<Rightarrow>
          (if t_status t = RUNNING
           then (case transition env tid FAILED (Some (error_name e)) db of
                   Inl e' \<Rightarrow> (db, Inl e')
                 | Inr (db', _) \<Rightarrow> (db', Inl e))
           else (db, Inl e)))"

text \<open>
  \<open>TaskService.run\<close>: \<open>ask\<close> is the agent run (\<open>manager.ask\<close>): it may change the stored task in any way
  before it answers or raises.
\<close>

definition run_task ::
  "task_env \<Rightarrow> bool \<Rightarrow> approval_ref list \<Rightarrow> (task \<Rightarrow> run_scope \<Rightarrow> task_db \<Rightarrow> task_db \<times> string result) \<Rightarrow>
   ident \<Rightarrow> run_request \<Rightarrow> task_db \<Rightarrow> task_db \<times> task result" where
  "run_task env busy approvals ask tid rq db =
     (case run_claim env busy approvals tid rq db of
        Inl e \<Rightarrow> (db, Inl e)
      | Inr (db1, t, sc) \<Rightarrow>
          (case ask t sc db1 of
             (db2, Inl e) \<Rightarrow> run_fail env tid e db2
           | (db2, Inr answer) \<Rightarrow>
               (case run_settle env tid answer db2 of
                  (db3, Inl e) \<Rightarrow> run_fail env tid e db3
                | (db3, Inr t') \<Rightarrow> (db3, Inr t'))))"

end
