(* ===== verification/Task_Queue.thy ===== *)
theory Task_Queue
  imports Tasks Authorization PyNum
begin

text \<open>
  \<open>server/task_queue.py\<close> and \<open>server/worker_runtime.py\<close>: the durable queue in front of the task store
  and the worker that delivers its jobs.  The job queue itself (procrastinate) is a library: what
  \<open>defer_async\<close> and \<open>cancel_job_by_id_async\<close> answer, and which jobs are stalled, are inputs.
\<close>

section \<open>State\<close>

record execution_ref =        \<comment> \<open>a row of \<open>tool_executions\<close>, as the worker reads it\<close>
  xr_task_id :: ident
  xr_status :: string
  xr_operation_type :: string
  xr_provider :: string
  xr_step_id :: "ident option"
  xr_error_type :: "string option"

record approval_row =
  aw_task_id :: ident
  aw_status :: string

record queue_db =
  q_auth :: auth_db
  q_tasks :: task_db
  q_executions :: "execution_ref list"
  q_approvals :: "approval_row list"

record queue_env =
  qe_call :: call_env
  qe_fresh_event :: ident
  qe_secured :: bool                                   \<comment> \<open>\<open>manager.security\<close> is configured\<close>
  qe_phase4 :: bool
  qe_defer :: "ident \<Rightarrow> nat \<Rightarrow> int result"          \<comment> \<open>\<open>job.defer_async\<close>\<close>
  qe_cancel_job :: "int \<Rightarrow> unit result"
  qe_max_retries :: nat                                \<comment> \<open>\<open>WORKER_MAX_RETRIES\<close>\<close>

definition on_tasks :: "queue_db \<Rightarrow> task_db \<Rightarrow> queue_db" where
  "on_tasks q d = q\<lparr>q_tasks := d\<rparr>"

text \<open>\<open>locked_task\<close> is \<open>fetch_task\<close>; \<open>save_task\<close> of this module writes without comparing versions.\<close>

definition save_queued ::
  "queue_env \<Rightarrow> task \<Rightarrow> string \<Rightarrow> (string \<times> json) list \<Rightarrow> task_db \<Rightarrow> task_db \<times> task" where
  "save_queued env t kind pl d =
     (let t' = t\<lparr>t_version := Suc (t_version t), t_updated_at := e_now (qe_call env)\<rparr>;
          d' = put_task t' d
      in (d'\<lparr>events := events d' @ [\<lparr>ev_id = qe_fresh_event env, ev_task_id = t_id t, ev_type = kind,
            ev_payload = pl, ev_created_at = e_now (qe_call env)\<rparr>]\<rparr>, t'))"

text \<open>The call of \<open>security.task\<close> that precedes the transaction: a denial is audited and raised.\<close>

definition secured_task ::
  "queue_env \<Rightarrow> ident \<Rightarrow> action \<Rightarrow> queue_db \<Rightarrow> queue_db \<times> unit result" where
  "secured_task env tid act q =
     (if \<not> qe_secured env then (q, Inr ())
      else case task_guard (qe_call env) tid act None (q_auth q) of
             (a, Inl e) \<Rightarrow> (q\<lparr>q_auth := a\<rparr>, Inl e)
           | (a, Inr _) \<Rightarrow> (q\<lparr>q_auth := a\<rparr>, Inr ()))"

definition in_transaction ::
  "queue_db \<Rightarrow> (task_db \<times> 'a) result \<Rightarrow> queue_db \<times> 'a result" where
  "in_transaction q r = (case r of Inl e \<Rightarrow> (q, Inl e) | Inr (d, x) \<Rightarrow> (on_tasks q d, Inr x))"

section \<open>Enqueueing and control\<close>

definition enqueue_row ::
  "queue_env \<Rightarrow> approval_row list \<Rightarrow> ident \<Rightarrow> bool \<Rightarrow> nat option \<Rightarrow> task_db \<Rightarrow> (task_db \<times> task) result" where
  "enqueue_row env aps tid resume max_steps d =
     rbind (fetch_task tid d) (\<lambda>t.
       if t_status t \<notin> (if resume then {PAUSED, WAITING_USER, FAILED} else {PENDING})
       then Inl (TaskConflict ''Task is already queued/running or not resumable'')
       else if t_cancel_requested t then Inl (TaskConflict ''Task cancellation was requested'')
       else if qe_phase4 env \<and> list_ex (\<lambda>a. aw_task_id a = tid \<and> aw_status a = ''PENDING'') aps
       then Inl (TaskConflict ''Task has a pending human approval'')
       else rbind (qe_defer env tid (Suc (t_version t))) (\<lambda>job.
         let t' = t\<lparr>t_status := QUEUED, t_execution_backend := Worker,
                    t_queued_at := Some (e_now (qe_call env)), t_pause_requested := False,
                    t_metadata := dict_put ''queued_version'' (JInt (int (Suc (t_version t))))
                      (dict_put ''worker_max_steps''
                        (case max_steps of None \<Rightarrow> JNull | Some n \<Rightarrow> JInt (int n)) (t_metadata t)),
                    t_queue_job_id := Some job\<rparr>
         in Inr (save_queued env t' ''TASK_ENQUEUED''
                   [(''queue_job_id'', JInt job), (''resume'', JBool resume)] d)))"

definition enqueue ::
  "queue_env \<Rightarrow> ident \<Rightarrow> bool \<Rightarrow> nat option \<Rightarrow> queue_db \<Rightarrow> queue_db \<times> task result" where
  "enqueue env tid resume max_steps q =
     (case secured_task env tid Task_execute q of
        (q', Inl e) \<Rightarrow> (q', Inl e)
      | (q', Inr _) \<Rightarrow>
          in_transaction q' (enqueue_row env (q_approvals q') tid resume max_steps (q_tasks q')))"

definition control_row :: "queue_env \<Rightarrow> ident \<Rightarrow> bool \<Rightarrow> task_db \<Rightarrow> (task_db \<times> task) result" where
  "control_row env tid cancel d =
     rbind (fetch_task tid d) (\<lambda>t.
       if t_status t \<notin> {PENDING, QUEUED, RUNNING, PAUSED, WAITING_USER, FAILED}
       then Inl (TaskConflict ''Task is terminal'')
       else
         let t1 = (if cancel then t\<lparr>t_cancel_requested := True\<rparr> else t\<lparr>t_pause_requested := True\<rparr>)
         in rbind (if t_status t1 \<noteq> RUNNING
                   then rbind (case t_queue_job_id t1 of
                                 None \<Rightarrow> Inr ()
                               | Some j \<Rightarrow> (if j = 0 then Inr () else qe_cancel_job env j)) (\<lambda>_.
                          Inr (t1\<lparr>t_status := (if cancel then CANCELLED else PAUSED)\<rparr>))
                   else Inr t1) (\<lambda>t2.
              Inr (save_queued env t2
                     (if cancel then ''TASK_CANCEL_REQUESTED'' else ''TASK_PAUSE_REQUESTED'') [] d)))"

definition request_control :: "queue_env \<Rightarrow> ident \<Rightarrow> bool \<Rightarrow> queue_db \<Rightarrow> queue_db \<times> task result" where
  "request_control env tid cancel q =
     (case secured_task env tid (if cancel then Task_cancel else Task_execute) q of
        (q', Inl e) \<Rightarrow> (q', Inl e)
      | (q', Inr _) \<Rightarrow> in_transaction q' (control_row env tid cancel (q_tasks q')))"

definition cancel_task :: "queue_env \<Rightarrow> ident \<Rightarrow> queue_db \<Rightarrow> queue_db \<times> task result" where
  "cancel_task env tid q = request_control env tid True q"

definition get_status :: "ident \<Rightarrow> queue_db \<Rightarrow> (task_status \<times> int option) result" where
  "get_status tid q = rbind (fetch_task tid (q_tasks q)) (\<lambda>t. Inr (t_status t, t_queue_job_id t))"

section \<open>Failures\<close>

datatype failure_kind = RETRYABLE | NON_RETRYABLE | AMBIGUOUS_SIDE_EFFECT

fun failure_name :: "failure_kind \<Rightarrow> string" where
  "failure_name RETRYABLE = ''RETRYABLE''"
| "failure_name NON_RETRYABLE = ''NON_RETRYABLE''"
| "failure_name AMBIGUOUS_SIDE_EFFECT = ''AMBIGUOUS_SIDE_EFFECT''"

text \<open>A provider's exception is \<open>Provider_Error\<close> with its class name.\<close>

fun transient_error :: "py_error \<Rightarrow> bool" where
  "transient_error Execution_Unavailable_Error = True"
| "transient_error (Tool_Transport_Unavailable m) = True"
| "transient_error (Provider_Error n) = (n \<in> {''TimeoutError'', ''ConnectionError'', ''OperationalError'',
     ''PoolTimeout'', ''APIConnectionError'', ''InternalServerError'', ''RateLimitError''})"
| "transient_error _ = False"

definition classify_failure :: "py_error \<Rightarrow> bool \<Rightarrow> failure_kind" where
  "classify_failure e ambiguous =
     (if ambiguous then AMBIGUOUS_SIDE_EFFECT else if transient_error e then RETRYABLE else NON_RETRYABLE)"

definition ambiguous_write :: "ident \<Rightarrow> execution_ref list \<Rightarrow> bool" where
  "ambiguous_write tid xs = list_ex (\<lambda>x. xr_task_id x = tid \<and> xr_status x \<in> {''RUNNING'', ''FAILED''}
     \<and> xr_operation_type x \<noteq> ''read'' \<and> xr_provider x \<noteq> ''native'') xs"

definition retryable_read_failure :: "task \<Rightarrow> execution_ref list \<Rightarrow> bool" where
  "retryable_read_failure t xs = list_ex (\<lambda>x. xr_task_id x = t_id t \<and> xr_status x = ''FAILED''
     \<and> xr_step_id x = t_current_step_id t \<and> xr_operation_type x = ''read''
     \<and> xr_error_type x \<in> Some ` {''TimeoutError'', ''ReadTimeout'', ''ConnectTimeout'', ''APIConnectionError'',
          ''InternalServerError'', ''RateLimitError'', ''ExecutionUnavailableError'', ''ConnectionError'',
          ''ToolTransportUnavailable''}) xs"

section \<open>Delivering a job\<close>

record delivery =
  dl_job_id :: int
  dl_worker :: string
  dl_task_id :: ident
  dl_expected_version :: nat

text \<open>
  The transaction before the run: \<open>None\<close> when the delivery ends here (a stale or stopped task, or one
  that must be reconciled or fails its checks), else the claimed task and its principal.
\<close>

definition relation_ok :: "queue_env \<Rightarrow> task \<Rightarrow> auth_db \<Rightarrow> bool" where
  "relation_ok env t a =
     (list_ex (\<lambda>w. w_id w = t_workspace_id t) (workspace_rows a)
      \<and> (case row_get sr_id (t_session_id t) (session_refs a) of
           None \<Rightarrow> False | Some s \<Rightarrow> sr_workspace s = Some (t_workspace_id t))
      \<and> (qe_secured env \<or> t_owner_id t = ''local_default''))"

definition worker_principal :: "queue_env \<Rightarrow> task \<Rightarrow> auth_db \<Rightarrow> auth_db \<times> principal option result" where
  "worker_principal env t a =
     (if \<not> qe_secured env then (a, Inr None)
      else case t_created_by_user_id t of
        None \<Rightarrow> (a, Inl (HTTP_Exception 403 ''Invalid actor''))
      | Some u \<Rightarrow>
          (if u = [] \<or> t_owner_id t \<noteq> u then (a, Inl (HTTP_Exception 403 ''Invalid actor''))
           else case principal_for_user a u of
             Inl e \<Rightarrow> (a, Inl e)
           | Inr p \<Rightarrow> (case task_guard (qe_call env) (t_id t) Task_execute (Some p) a of
                 (a', Inl e) \<Rightarrow> (a', Inl e)
               | (a', Inr _) \<Rightarrow> (a', Inr (Some p)))))"

definition started_payload :: "delivery \<Rightarrow> task \<Rightarrow> rat \<Rightarrow> (string \<times> json) list" where
  "started_payload dl t wait = [(''worker_id'', JStr (dl_worker dl)), (''queue_job_id'', JInt (dl_job_id dl)),
     (''attempt'', JInt (int (t_attempt_count t))), (''queue_wait_ms'', JFloat wait)]"

definition claim_fields :: "queue_env \<Rightarrow> delivery \<Rightarrow> task \<Rightarrow> task \<times> rat" where
  "claim_fields env dl t =
     (let now = e_now (qe_call env);
          wait = round_to 3 (of_int (now - (case t_queued_at t of None \<Rightarrow> now | Some q \<Rightarrow> q)) / 1000);
          n = Suc (t_attempt_count t)
      in (t\<lparr>t_status := RUNNING, t_started_at := or_time (t_started_at t) now,
            t_worker_started_at := Some now, t_attempt_count := n,
            t_metadata := dict_put ''queue_wait_ms'' (JFloat wait) (dict_put ''attempt'' (JInt (int n))
              (dict_put ''worker_id'' (JStr (dl_worker dl)) (t_metadata t)))\<rparr>, wait))"

definition stale :: "delivery \<Rightarrow> task \<Rightarrow> bool" where
  "stale dl t = (t_queue_job_id t \<noteq> Some (dl_job_id dl)
     \<or> map_of (t_metadata t) ''queued_version'' \<noteq> Some (JInt (int (dl_expected_version dl))))"

definition claim_checked ::
  "queue_env \<Rightarrow> delivery \<Rightarrow> task \<Rightarrow> queue_db \<Rightarrow> queue_db \<times> (task \<times> principal option) option" where
  "claim_checked env dl t q =
     (if \<not> relation_ok env t (q_auth q)
      then (on_tasks q (fst (save_queued env (t\<lparr>t_status := FAILED,
              t_last_error := Some ''Invalid task owner/workspace/session relation''\<rparr>)
              ''TASK_FAILED'' [] (q_tasks q))), None)
      else case worker_principal env t (q_auth q) of
        (a, Inl e) \<Rightarrow>
          (on_tasks (q\<lparr>q_auth := a\<rparr>) (fst (save_queued env (t\<lparr>t_status := FAILED,
              t_last_error := Some ''Authorization denied before execution''\<rparr>)
              ''AUTHORIZATION_DENIED'' [(''action'', JStr ''task.execute'')] (q_tasks q))), None)
      | (a, Inr p) \<Rightarrow>
          (let (t1, wait) = claim_fields env dl t;
               (d, t2) = save_queued env t1 ''WORKER_STARTED'' (started_payload dl t1 wait) (q_tasks q)
           in (on_tasks (q\<lparr>q_auth := a\<rparr>) d, Some (t2, p))))"

definition deliver_claim ::
  "queue_env \<Rightarrow> delivery \<Rightarrow> queue_db \<Rightarrow> queue_db \<times> (task \<times> principal option) option" where
  "deliver_claim env dl q =
     (case fetch_task (dl_task_id dl) (q_tasks q) of
        Inl _ \<Rightarrow> (q, None)
      | Inr t \<Rightarrow>
          (if stale dl t then (q, None)
           else if t_status t \<notin> {QUEUED, RUNNING} then (q, None)
           else if t_cancel_requested t \<or> t_pause_requested t
           then (on_tasks q (fst (save_queued env
                  (t\<lparr>t_status := (if t_cancel_requested t then CANCELLED else PAUSED)\<rparr>)
                  (if t_cancel_requested t then ''TASK_CANCELLED'' else ''TASK_PAUSED'') [] (q_tasks q))), None)
           else if ambiguous_write (dl_task_id dl) (q_executions q)
           then (on_tasks q (fst (save_queued env (t\<lparr>t_status := REQUIRES_RECONCILIATION\<rparr>)
                  ''TASK_REQUIRES_RECONCILIATION'' [] (q_tasks q))), None)
           else claim_checked env dl t q))"

text \<open>The \<open>except\<close> clause: the failure is classified on the stored task and may requeue it.\<close>

definition failure_status :: "nat \<Rightarrow> failure_kind \<Rightarrow> task \<Rightarrow> task_status" where
  "failure_status max_retries kind t =
     (if t_cancel_requested t then CANCELLED
      else if kind = AMBIGUOUS_SIDE_EFFECT then REQUIRES_RECONCILIATION
      else if kind = RETRYABLE \<and> t_attempt_count t \<le> max_retries then QUEUED
      else if t_status t \<notin> {PAUSED, WAITING_USER, COMPLETED} then FAILED
      else t_status t)"

definition failure_of :: "ident \<Rightarrow> py_error \<Rightarrow> task \<Rightarrow> execution_ref list \<Rightarrow> failure_kind" where
  "failure_of tid e t xs =
     (let kind = classify_failure e (ambiguous_write tid xs) in
      if kind = NON_RETRYABLE \<and> retryable_read_failure t xs then RETRYABLE else kind)"

definition deliver_failure :: "queue_env \<Rightarrow> ident \<Rightarrow> py_error \<Rightarrow> queue_db \<Rightarrow> queue_db \<times> unit result" where
  "deliver_failure env tid e q =
     (case fetch_task tid (q_tasks q) of
        Inl e' \<Rightarrow> (q, Inl e')
      | Inr t \<Rightarrow>
          (let kind = failure_of tid e t (q_executions q);
               t1 = t\<lparr>t_status := failure_status (qe_max_retries env) kind t,
                      t_last_error := Some (error_name e),
                      t_metadata := dict_put ''retry_reason'' (JStr (failure_name kind)) (t_metadata t)\<rparr>;
               (d, t2) = save_queued env t1 ''WORKER_FAILURE''
                 [(''classification'', JStr (failure_name kind)), (''error_type'', JStr (error_name e)),
                  (''attempt'', JInt (int (t_attempt_count t1)))] (q_tasks q)
           in (on_tasks q d,
               if kind = RETRYABLE \<and> t_status t2 = QUEUED then Inl (Retryable_Task_Error (error_name e))
               else if t_status t2 = FAILED then Inl (Runtime_Error ''Task failed without automatic retry'')
               else Inr ())))"

text \<open>
  \<open>execute_task\<close>: \<open>runner\<close> is \<open>TaskService.run\<close> with the agent behind it, called with the claim;
  \<open>agents_cancel\<close> is \<open>phase5.store.cancel\<close>.
\<close>

definition execute_task ::
  "queue_env \<Rightarrow> (queue_db \<Rightarrow> unit result) \<Rightarrow>
   (ident \<Rightarrow> run_request \<Rightarrow> principal option \<Rightarrow> queue_db \<Rightarrow> queue_db \<times> task result) \<Rightarrow>
   delivery \<Rightarrow> queue_db \<Rightarrow> queue_db \<times> unit result" where
  "execute_task env agents_cancel runner dl q =
     (case deliver_claim env dl q of
        (q1, None) \<Rightarrow> (q1, Inr ())
      | (q1, Some (t, p)) \<Rightarrow>
          (let request = \<lparr>rq_resume = False,
                 rq_max_steps = (case map_of (t_metadata t) ''worker_max_steps'' of
                                   Some (JInt n) \<Rightarrow> Some (nat n) | _ \<Rightarrow> None),
                 rq_worker_claimed = True\<rparr>
           in case runner (dl_task_id dl) request p q1 of
             (q2, Inl e) \<Rightarrow> deliver_failure env (dl_task_id dl) e q2
           | (q2, Inr r) \<Rightarrow>
               (case (if t_status r = CANCELLED then agents_cancel q2 else Inr ()) of
                  Inl e \<Rightarrow> deliver_failure env (dl_task_id dl) e q2
                | Inr _ \<Rightarrow>
                    (if t_status r = FAILED
                     then deliver_failure env (dl_task_id dl)
                       (Value_Error (if truthy (t_last_error r) then the (t_last_error r)
                                     else ''Task execution failed'')) q2
                     else (q2, Inr ())))))"

section \<open>Stalled jobs\<close>

record stalled_job =
  sj_id :: int
  sj_task_id :: "ident option"

datatype job_fate = Retry_job | Finish_job

record recovery_counts =
  rc_retried :: nat
  rc_reconciliation :: nat
  rc_ignored :: nat

definition recover_job ::
  "queue_env \<Rightarrow> stalled_job \<Rightarrow> queue_db \<Rightarrow> queue_db \<times> job_fate \<times> bool" where
  "recover_job env j q =
     (case (case sj_task_id j of None \<Rightarrow> None | Some tid \<Rightarrow> get_task tid (q_tasks q)) of
        None \<Rightarrow> (q, Finish_job, False)
      | Some t \<Rightarrow>
          (if \<not> (t_queue_job_id t = Some (sj_id j) \<and> t_status t \<in> {QUEUED, RUNNING})
           then (q, Finish_job, False)
           else if ambiguous_write (t_id t) (q_executions q)
           then (on_tasks q (fst (save_queued env (t\<lparr>t_status := REQUIRES_RECONCILIATION\<rparr>)
                   ''TASK_REQUIRES_RECONCILIATION'' [] (q_tasks q))), Finish_job, True)
           else if qe_max_retries env < t_attempt_count t
           then (on_tasks q (fst (save_queued env (t\<lparr>t_status := FAILED,
                   t_last_error := Some ''Worker retry exhausted''\<rparr>) ''WORKER_RETRY_EXHAUSTED'' [] (q_tasks q))),
                 Finish_job, False)
           else (q, Retry_job, False)))"

fun recover_stalled ::
  "queue_env \<Rightarrow> stalled_job list \<Rightarrow> queue_db \<Rightarrow> queue_db \<times> (int \<times> job_fate) list \<times> recovery_counts" where
  "recover_stalled env [] q = (q, [], \<lparr>rc_retried = 0, rc_reconciliation = 0, rc_ignored = 0\<rparr>)"
| "recover_stalled env (j # js) q =
     (let (q1, fate, amb) = recover_job env j q;
          (q2, fates, c) = recover_stalled env js q1
      in (q2, (sj_id j, fate) # fates,
          \<lparr>rc_retried = (if fate = Retry_job then 1 else 0) + rc_retried c,
           rc_reconciliation = (if amb then 1 else 0) + rc_reconciliation c,
           rc_ignored = (if fate = Retry_job then 0 else 1) + rc_ignored c\<rparr>))"

section \<open>The inline queue\<close>

definition inline_enqueue ::
  "task_env \<Rightarrow> bool \<Rightarrow> approval_ref list \<Rightarrow> (task \<Rightarrow> run_scope \<Rightarrow> task_db \<Rightarrow> task_db \<times> string result) \<Rightarrow>
   ident \<Rightarrow> bool \<Rightarrow> nat option \<Rightarrow> task_db \<Rightarrow> task_db \<times> task result" where
  "inline_enqueue env busy approvals ask tid resume max_steps d = run_task env busy approvals ask tid
     \<lparr>rq_resume = resume, rq_max_steps = max_steps, rq_worker_claimed = False\<rparr> d"

definition inline_cancel :: "task_env \<Rightarrow> ident \<Rightarrow> task_db \<Rightarrow> (task_db \<times> task) result" where
  "inline_cancel env tid d = transition env tid CANCELLED None d"

definition inline_status :: "ident \<Rightarrow> task_db \<Rightarrow> (task_status \<times> int option) result" where
  "inline_status tid d = rbind (fetch_task tid d) (\<lambda>t. Inr (t_status t, None))"

end
