(* ===== verification/Tasks_Laws.thy ===== *)
theory Tasks_Laws
  imports Tasks
begin

text \<open>
  What the task store guarantees.  Its operations form a guarded machine; the relation between the
  state before and after a run says that attempts are bounded, finished steps and finished tasks stay
  as they are, plans are fixed once set, and versions and history only grow.
\<close>

section \<open>The store as a machine\<close>

datatype task_op =
    T_create task_env task
  | T_set_plan task_env ident plan
  | T_transition task_env ident task_status "string option"
  | T_start task_env ident nat
  | T_wait task_env ident ident
  | T_checkpoint task_env ident nat "(string \<times> json) list" bool
  | T_recover task_env

definition stored :: "task_db \<Rightarrow> task_db result \<Rightarrow> task_db" where
  "stored db r = (case r of Inl _ \<Rightarrow> db | Inr d \<Rightarrow> d)"

fun task_exec :: "task_op \<Rightarrow> task_db \<Rightarrow> task_db" where
  "task_exec (T_create env t) db = commit_of db (create_task env t db)"
| "task_exec (T_set_plan env tid p) db = stored db (set_plan env tid p db)"
| "task_exec (T_transition env tid st e) db = commit_of db (transition env tid st e db)"
| "task_exec (T_start env tid i) db = commit_of db (start_step env tid i db)"
| "task_exec (T_wait env tid sid) db = stored db (wait_for_approval env tid sid db)"
| "task_exec (T_checkpoint env tid i out ok) db = stored db (checkpoint env tid i out ok db)"
| "task_exec (T_recover env) db = stored db (recover env db)"

text \<open>
  \<open>wait_for_approval\<close> has no guard of its own: its one caller calls it for the running step of a
  RUNNING task, which is what is asked of that operation here.
\<close>

definition may_wait :: "ident \<Rightarrow> ident \<Rightarrow> task_db \<Rightarrow> bool" where
  "may_wait tid sid db =
     ((case get_task tid db of None \<Rightarrow> True | Some t \<Rightarrow> t_status t = RUNNING)
      \<and> list_all (\<lambda>s. s_id s = sid \<longrightarrow> s_status s \<noteq> S_COMPLETED) (steps db))"

fun task_ok :: "nat \<Rightarrow> task_db \<Rightarrow> task_op \<Rightarrow> bool" where
  "task_ok m db (T_wait env tid sid) = may_wait tid sid db"
| "task_ok m db (T_start env tid i) = (te_max_attempts env = m)"
| "task_ok m db _ = True"

section \<open>How steps evolve\<close>

definition step_key :: "step \<Rightarrow> ident \<times> nat" where
  "step_key s = (s_task_id s, s_index s)"

definition steps_ok :: "nat \<Rightarrow> step list \<Rightarrow> bool" where
  "steps_ok m ss = (distinct (map s_id ss) \<and> distinct (map step_key ss)
     \<and> (\<forall>s\<in>set ss. s_attempt_count s \<le> m))"

definition evolves :: "step \<Rightarrow> step \<Rightarrow> bool" where
  "evolves s s' = (s_id s' = s_id s \<and> step_key s' = step_key s
     \<and> s_attempt_count s \<le> s_attempt_count s' \<and> (s_status s = S_COMPLETED \<longrightarrow> s' = s))"

definition steps_evolve :: "nat \<Rightarrow> step list \<Rightarrow> step list \<Rightarrow> bool" where
  "steps_evolve m ss ss' = (steps_ok m ss \<longrightarrow>
     steps_ok m ss' \<and> (\<forall>s\<in>set ss. \<exists>s'\<in>set ss'. evolves s s'))"

lemma evolves_refl [simp]: "evolves s s"
  by (simp add: evolves_def)

lemma evolves_trans: "evolves s t \<Longrightarrow> evolves t u \<Longrightarrow> evolves s u"
  by (auto simp: evolves_def)

lemma steps_evolve_refl [simp]: "steps_evolve m ss ss"
  unfolding steps_evolve_def using evolves_refl by blast

lemma steps_evolve_trans:
  "steps_evolve m ss ts \<Longrightarrow> steps_evolve m ts us \<Longrightarrow> steps_evolve m ss us"
  unfolding steps_evolve_def by (meson evolves_trans)

lemma distinct_map_eq:
  "distinct (map f xs) \<Longrightarrow> x \<in> set xs \<Longrightarrow> y \<in> set xs \<Longrightarrow> f x = f y \<Longrightarrow> x = y"
  by (auto simp: distinct_map inj_on_def)

lemma steps_evolve_put:
  assumes s: "s \<in> set ss" and e: "evolves s s'" and le: "s_attempt_count s' \<le> max m (s_attempt_count s)"
  shows "steps_evolve m ss (row_put s_id s' ss)"
  unfolding steps_evolve_def
proof (intro impI conjI ballI)
  assume ok: "steps_ok m ss"
  have same: "x = s" if "x \<in> set ss" "s_id x = s_id s'" for x
    using ok that s e distinct_map_eq [of s_id ss x s] by (simp add: steps_ok_def evolves_def)
  have keys: "map step_key (row_put s_id s' ss) = map step_key ss"
    using same e by (auto simp: row_put_def evolves_def)
  have le': "\<forall>x\<in>set (row_put s_id s' ss). s_attempt_count x \<le> m"
    using ok le s row_put_sub [of s_id s' ss] by (force simp: steps_ok_def)
  show "steps_ok m (row_put s_id s' ss)"
    using ok keys le' by (simp add: steps_ok_def row_put_keys)
  fix x assume x: "x \<in> set ss"
  show "\<exists>y\<in>set (row_put s_id s' ss). evolves x y"
  proof (cases "s_id x = s_id s'")
    case True
    then have "x = s" using same x by blast
    moreover have "s' \<in> set (row_put s_id s' ss)" using x True by (auto simp: row_put_def)
    ultimately show ?thesis using e by blast
  next
    case False
    then have "x \<in> set (row_put s_id s' ss)" using x by (auto simp: row_put_def)
    then show ?thesis using evolves_refl by blast
  qed
qed

lemma steps_evolve_insert:
  assumes "insert_step ss s = Inr ss'" and "s_attempt_count s = 0"
  shows "steps_evolve m ss ss'"
proof -
  have ss': "ss' = ss @ [s]" and id: "s_id s \<notin> s_id ` set ss"
    and key: "step_key s \<notin> step_key ` set ss"
    using assms(1) by (auto simp: insert_step_def row_simps row_get_None_iff list_ex_iff step_key_def
        split: if_splits)
  have "\<exists>y\<in>set (ss @ [s]). evolves x y" if "x \<in> set ss" for x
    using that by (intro bexI [of _ x]) simp_all
  then show ?thesis unfolding steps_evolve_def ss'
    using id key assms(2) by (simp add: steps_ok_def)
qed

lemma steps_evolve_inserts:
  "rfold insert_step ss ns = Inr ss' \<Longrightarrow> \<forall>s\<in>set ns. s_attempt_count s = 0 \<Longrightarrow> steps_evolve m ss ss'"
proof (induction ns arbitrary: ss)
  case (Cons s ns)
  then obtain ts where "insert_step ss s = Inr ts" "rfold insert_step ts ns = Inr ss'"
    by (auto simp: rbind_Inr_iff)
  with Cons show ?case by (auto intro: steps_evolve_trans steps_evolve_insert)
qed simp

section \<open>How tasks evolve\<close>

definition finished :: "task_status \<Rightarrow> bool" where
  "finished st = (st \<in> {COMPLETED, CANCELLED})"

definition task_evolves :: "task \<Rightarrow> task \<Rightarrow> bool" where
  "task_evolves t t' = (t_version t \<le> t_version t' \<and> (finished (t_status t) \<longrightarrow> t_status t' = t_status t)
     \<and> (t_plan t \<noteq> None \<longrightarrow> t_plan t' = t_plan t)
     \<and> t_attempt_count t' = t_attempt_count t \<and> t_cancel_requested t' = t_cancel_requested t)"

definition tasks_evolve :: "task_db \<Rightarrow> task_db \<Rightarrow> bool" where
  "tasks_evolve db db' = ((\<exists>es. events db' = events db @ es) \<and>
     (\<forall>tid t. get_task tid db = Some t \<longrightarrow> (\<exists>t'. get_task tid db' = Some t' \<and> task_evolves t t')))"

lemma task_evolves_refl [simp]: "task_evolves t t"
  by (simp add: task_evolves_def)

lemma task_evolves_trans: "task_evolves t u \<Longrightarrow> task_evolves u v \<Longrightarrow> task_evolves t v"
  by (auto simp: task_evolves_def)

lemma tasks_evolve_refl [simp]: "tasks_evolve db db"
  by (auto simp: tasks_evolve_def)

lemma tasks_evolveE:
  assumes "tasks_evolve db db'" and "get_task tid db = Some t"
  obtains t' where "get_task tid db' = Some t'" "task_evolves t t'"
  using assms unfolding tasks_evolve_def by blast

lemma tasks_evolve_trans: "tasks_evolve a b \<Longrightarrow> tasks_evolve b c \<Longrightarrow> tasks_evolve a c"
proof -
  assume ab: "tasks_evolve a b" and bc: "tasks_evolve b c"
  then obtain es fs where "events b = events a @ es" "events c = events b @ fs"
    by (auto simp: tasks_evolve_def)
  then have "events c = events a @ (es @ fs)" by simp
  moreover have "\<exists>u. get_task tid c = Some u \<and> task_evolves t u" if "get_task tid a = Some t" for tid t
  proof -
    from ab that obtain s where s: "get_task tid b = Some s" "task_evolves t s" by (rule tasks_evolveE)
    from bc s(1) obtain u where "get_task tid c = Some u" "task_evolves s u" by (rule tasks_evolveE)
    with s(2) show ?thesis using task_evolves_trans by blast
  qed
  ultimately show ?thesis unfolding tasks_evolve_def by blast
qed

lemma get_task_put: "get_task k (put_task t db) =
    (if k = t_id t then (if get_task k db = None then None else Some t) else get_task k db)"
  by (simp add: get_task_def put_task_def rows.get_put)

lemma store_frames [simp]:
  "steps (put_task t db) = steps db" "events (put_task t db) = events db"
  "tasks (put_step s db) = tasks db" "events (put_step s db) = events db"
  "tasks (add_event env k tid kind pl db) = tasks db"
  "steps (add_event env k tid kind pl db) = steps db"
  "get_task i (put_step s db) = get_task i db"
  "get_task i (add_event env k tid kind pl db) = get_task i db"
  "steps (put_step s db) = row_put s_id s (steps db)"
  by (simp_all add: put_task_def put_step_def add_event_def get_task_def)

lemma get_task_key: "get_task k db = Some t \<Longrightarrow> t_id t = k"
  unfolding get_task_def by (rule row_get_Some_key)

lemma tasks_evolve_events:
  "tasks_evolve db (add_event env k tid kind pl db)"
  by (auto simp: tasks_evolve_def add_event_def get_task_def)

lemma tasks_evolve_put_step [simp]: "tasks_evolve db (put_step s db)"
  by (simp add: tasks_evolve_def)

lemma save_taskE:
  assumes "save_task env t db = Inr (db', t')"
  obtains "t' = t\<lparr>t_updated_at := te_now env, t_version := Suc (t_version t)\<rparr>" "db' = put_task t' db"
  using assms by (auto simp: save_task_def Let_def split: if_splits)

lemma tasks_evolve_save:
  assumes "save_task env t1 db = Inr (db', t')" and "get_task (t_id t) db = Some t"
    and "t_id t1 = t_id t" and "task_evolves t t1"
  shows "tasks_evolve db db'"
proof -
  from assms(1) have d: "t' = t1\<lparr>t_updated_at := te_now env, t_version := Suc (t_version t1)\<rparr>"
    "db' = put_task t' db" by (auto elim: save_taskE)
  have "task_evolves t t'" using assms(4) by (auto simp: d(1) task_evolves_def)
  then show ?thesis
    using assms(2,3) by (auto simp: tasks_evolve_def d(2) get_task_put) (simp add: d(1))
qed

lemma save_steps: "save_task env t db = Inr (db', t') \<Longrightarrow> steps db' = steps db"
  by (auto elim: save_taskE)

definition db_evolves :: "nat \<Rightarrow> task_db \<Rightarrow> task_db \<Rightarrow> bool" where
  "db_evolves m db db' = (tasks_evolve db db' \<and> steps_evolve m (steps db) (steps db')
     \<and> (distinct (map t_id (tasks db)) \<longrightarrow> distinct (map t_id (tasks db'))))"

lemma db_evolves_refl [simp]: "db_evolves m db db"
  by (simp add: db_evolves_def)

lemma db_evolves_trans: "db_evolves m a b \<Longrightarrow> db_evolves m b c \<Longrightarrow> db_evolves m a c"
  unfolding db_evolves_def by (meson tasks_evolve_trans steps_evolve_trans)

lemma db_evolves_event: "db_evolves m db d \<Longrightarrow> db_evolves m db (add_event env k tid kind pl d)"
  using tasks_evolve_events by (auto simp: db_evolves_def intro: tasks_evolve_trans)

lemma db_evolves_save:
  "save_task env t1 db = Inr (db', t') \<Longrightarrow> get_task (t_id t) db = Some t \<Longrightarrow> t_id t1 = t_id t \<Longrightarrow>
   task_evolves t t1 \<Longrightarrow> db_evolves m db db'"
  by (auto simp: db_evolves_def tasks_evolve_save save_steps put_task_def row_put_keys elim: save_taskE)

lemma db_evolves_put_step:
  "s \<in> set (steps db) \<Longrightarrow> evolves s s' \<Longrightarrow> s_attempt_count s' \<le> max m (s_attempt_count s) \<Longrightarrow>
   db_evolves m db (put_step s' db)"
  by (simp add: db_evolves_def steps_evolve_put)

lemma fetch_task_Inr: "fetch_task tid db = Inr t \<longleftrightarrow> get_task tid db = Some t"
  by (auto simp: fetch_task_def split: option.splits)

lemma legal_not_finished: "s \<in> set (legal_from st) \<Longrightarrow> \<not> finished s"
  by (cases st) (auto simp: finished_def)

definition moved :: "task_env \<Rightarrow> task_status \<Rightarrow> string option \<Rightarrow> task \<Rightarrow> task" where
  "moved env st err t = t\<lparr>t_status := st, t_last_error := err,
     t_started_at := (if st = RUNNING then or_time (t_started_at t) (te_now env) else t_started_at t),
     t_completed_at := (if st = COMPLETED then Some (te_now env) else t_completed_at t)\<rparr>"

lemma transition_eq:
  "transition env tid st err db = rbind (fetch_task tid db) (\<lambda>t.
     if t_status t \<notin> set (legal_from st) then Inl (TaskConflict ''Cannot transition'')
     else rbind (save_task env (moved env st err t) db) (\<lambda>(db', t').
       Inr (add_event env 0 tid (transition_event st (t_plan t' \<noteq> None)) [] db', t')))"
proof -
  have "(let t1 = t\<lparr>t_status := st, t_last_error := err\<rparr>;
             t2 = (if st = RUNNING then t1\<lparr>t_started_at := or_time (t_started_at t1) (te_now env)\<rparr> else t1)
         in if st = COMPLETED then t2\<lparr>t_completed_at := Some (te_now env)\<rparr> else t2) = moved env st err t" for t
    by (simp add: moved_def Let_def)
  from this [symmetric] show ?thesis by (simp only: transition_def Let_def)
qed

lemma transition_Inr:
  assumes "transition env tid st err db = Inr (db', t')"
  obtains (moved) t d where "get_task tid db = Some t" "t_status t \<in> set (legal_from st)"
    "save_task env (moved env st err t) db = Inr (d, t')"
    "db' = add_event env 0 tid (transition_event st (t_plan t' \<noteq> None)) [] d"
  using assms by (auto simp: transition_eq rbind_Inr_iff fetch_task_Inr split: if_splits)

lemma evolve_transition:
  assumes "transition env tid st err db = Inr (db', t')"
  shows "db_evolves m db db'"
  using assms
proof (cases rule: transition_Inr)
  case (moved t d)
  have "t_id t = tid" using moved(1) by (rule get_task_key)
  moreover have "task_evolves t (moved env st err t)"
    using legal_not_finished [OF moved(2)] by (simp add: task_evolves_def moved_def)
  ultimately show ?thesis unfolding moved(4)
    by (intro db_evolves_event db_evolves_save [OF moved(3), of t]) (simp_all add: moved(1) moved_def)
qed

lemma evolve_create:
  assumes "create_task env t db = Inr (db', t')"
  shows "db_evolves m db db'"
proof -
  have "tasks_evolve db (db\<lparr>tasks := tasks db @ [t]\<rparr>)"
    by (auto simp: tasks_evolve_def get_task_def row_get_append)
  then show ?thesis
    using assms by (auto simp: create_task_def rbind_Inr_iff row_simps row_get_None_iff db_evolves_def
        intro!: db_evolves_event [unfolded db_evolves_def])
qed

lemma evolve_set_plan:
  assumes "set_plan env tid p db = Inr db'"
  shows "db_evolves m db db'"
proof (cases "\<exists>t. get_task tid db = Some t \<and> t_plan t = None")
  case False
  then show ?thesis using assms by (auto simp: set_plan_def split: option.splits if_splits)
next
  case True
  then obtain t where t: "get_task tid db = Some t" "t_plan t = None" by blast
  let ?ns = "map (\<lambda>(i, v). new_step env tid i v) (enumerate 0 p)"
  from assms t obtain ss d t' where ss: "rfold insert_step (steps db) ?ns = Inr ss"
    and sv: "save_task env (t\<lparr>t_plan := Some p\<rparr>) (db\<lparr>steps := ss\<rparr>) = Inr (d, t')"
    and db': "db' = add_event env (length p) tid ''PLAN_CREATED'' [(''step_count'', JInt (int (length p)))] d"
    by (auto simp: set_plan_def rbind_Inr_iff)
  have "\<forall>s\<in>set ?ns. s_attempt_count s = 0" by (auto simp: new_step_def)
  then have a: "db_evolves m db (db\<lparr>steps := ss\<rparr>)"
    using steps_evolve_inserts [OF ss] by (auto simp: db_evolves_def tasks_evolve_def get_task_def)
  have "db_evolves m (db\<lparr>steps := ss\<rparr>) d"
    using t by (intro db_evolves_save [OF sv, of t]) (auto simp: task_evolves_def get_task_def dest: row_get_Some_key)
  with a show ?thesis unfolding db' by (intro db_evolves_event) (rule db_evolves_trans)
qed

lemma step_at_in: "step_at tid i db = Some s \<Longrightarrow> s \<in> set (steps db) \<and> step_key s = (tid, i)"
  by (auto simp: step_at_def find_Some_iff step_key_def)

lemma evolve_start:
  assumes "start_step env tid i db = Inr (db', r)" and "te_max_attempts env = m"
  shows "db_evolves m db db'"
proof (cases "db' = db")
  case False
  with assms(1) obtain t s where t: "get_task tid db = Some t" and s: "step_at tid i db = Some s"
    and st: "s_status s \<noteq> S_COMPLETED" and at: "s_attempt_count s < te_max_attempts env"
    by (auto simp: start_step_def split: option.splits if_splits)
  let ?s = "s\<lparr>s_status := S_RUNNING, s_started_at := Some (te_now env), s_attempt_count := Suc (s_attempt_count s)\<rparr>"
  from assms(1) t s False obtain d t' where sv: "save_task env (t\<lparr>t_current_step_id := Some (s_id ?s)\<rparr>) (put_step ?s db) = Inr (d, t')"
    and db': "db' = add_event env 0 tid ''STEP_STARTED'' [(''step_id'', JStr (s_id ?s)), (''attempt'', JInt (int (s_attempt_count ?s)))] d
      \<or> (\<exists>pl. db' = add_event env 1 tid ''TOOL_CALLED'' pl (add_event env 0 tid ''STEP_STARTED'' [(''step_id'', JStr (s_id ?s)), (''attempt'', JInt (int (s_attempt_count ?s)))] d))"
    by (auto simp: start_step_def rbind_Inr_iff Let_def split: if_splits)
  have a: "db_evolves m db (put_step ?s db)"
    using step_at_in [OF s] st at assms(2) by (intro db_evolves_put_step) (auto simp: evolves_def step_key_def)
  have "db_evolves m (put_step ?s db) d"
    using t by (intro db_evolves_save [OF sv, of t]) (auto simp: task_evolves_def get_task_key)
  with a have "db_evolves m db d" by (rule db_evolves_trans)
  with db' show ?thesis by (auto intro: db_evolves_event)
qed simp

lemma evolve_wait:
  assumes "wait_for_approval env tid sid db = Inr db'" and "may_wait tid sid db"
  shows "db_evolves m db db'"
proof -
  from assms(1) obtain t where t: "get_task tid db = Some t"
    by (auto simp: wait_for_approval_def split: option.splits)
  with assms(1) obtain s where s: "find (\<lambda>s. s_id s = sid \<and> s_task_id s = tid) (steps db) = Some s"
    by (auto simp: wait_for_approval_def split: option.splits)
  from assms(1) t s obtain d t' pl where sv: "save_task env (t\<lparr>t_status := WAITING_USER\<rparr>) db = Inr (d, t')"
    and db': "db' = add_event env 0 tid ''TASK_WAITING_USER'' pl (put_step (s\<lparr>s_status := S_WAITING_USER\<rparr>) d)"
    by (auto simp: wait_for_approval_def rbind_Inr_iff)
  have s': "s \<in> set (steps db)" "s_id s = sid" using s by (auto simp: find_Some_iff)
  have a: "db_evolves m db d"
    using t assms(2) by (intro db_evolves_save [OF sv, of t])
      (auto simp: task_evolves_def get_task_key may_wait_def finished_def)
  have "db_evolves m d (put_step (s\<lparr>s_status := S_WAITING_USER\<rparr>) d)"
    using s' assms(2) save_steps [OF sv]
    by (intro db_evolves_put_step [of s]) (auto simp: evolves_def step_key_def may_wait_def list_all_iff)
  with a show ?thesis unfolding db' by (intro db_evolves_event) (rule db_evolves_trans)
qed

lemma evolve_checkpoint:
  assumes "checkpoint env tid i out ok db = Inr db'"
  shows "db_evolves m db db'"
proof (cases "db' = db")
  case False
  with assms obtain s where s: "step_at tid i db = Some s" "s_status s \<noteq> S_COMPLETED"
    by (auto simp: checkpoint_def split: option.splits if_splits)
  let ?s = "s\<lparr>s_status := (if ok then S_COMPLETED else S_FAILED), s_output := out,
      s_completed_at := Some (te_now env), s_error := (if ok then None else Some ''Step execution failed'')\<rparr>"
  from assms s have db': "db' = add_event env 0 tid (if ok then ''STEP_COMPLETED'' else ''STEP_FAILED'')
      [(''step_id'', JStr (s_id s))] (put_step ?s db)"
    by (simp add: checkpoint_def Let_def)
  have "db_evolves m db (put_step ?s db)"
    using s step_at_in [OF s(1)] by (intro db_evolves_put_step [of s]) (auto simp: evolves_def step_key_def)
  then show ?thesis unfolding db' by (rule db_evolves_event)
qed simp

section \<open>Recovery after a restart\<close>

lemma not_in_imageD: "k x \<notin> k ` S \<Longrightarrow> y \<in> S \<Longrightarrow> k y \<noteq> k x"
  by (metis imageI)

lemma fold_row_put:
  assumes k: "\<And>x. k (f x) = k x"
  shows "distinct (map k xs) \<Longrightarrow> fold (\<lambda>x. row_put k (f x)) xs ss =
    map (\<lambda>s. case find (\<lambda>x. k x = k s) xs of None \<Rightarrow> s | Some x \<Rightarrow> f x) ss"
proof (induction xs arbitrary: ss)
  case (Cons x xs)
  have n: "find (\<lambda>y. k y = k x) xs = None" using Cons.prems by (auto simp: find_None_iff dest: not_in_imageD [of k])
  have "fold (\<lambda>x. row_put k (f x)) (x # xs) ss = map (\<lambda>s. case find (\<lambda>x. k x = k s) xs of
      None \<Rightarrow> s | Some x \<Rightarrow> f x) (row_put k (f x) ss)"
    using Cons by simp
  also have "\<dots> = map (\<lambda>s. case find (\<lambda>x. k x = k s) (x # xs) of None \<Rightarrow> s | Some x \<Rightarrow> f x) ss"
    by (simp add: row_put_def k n)
  finally show ?case .
qed simp

lemma fold_row_put_filter:
  assumes "\<And>x. k (f x) = k x" and d: "distinct (map k ss)"
  shows "fold (\<lambda>x. row_put k (f x)) (filter P ss) ss = map (\<lambda>s. if P s then f s else s) ss"
proof -
  have "find (\<lambda>x. k x = k s) (filter P ss) = (if P s then Some s else None)" if "s \<in> set ss" for s
    using that d by (induction ss) (auto simp: find_None_iff dest: not_in_imageD [of k])
  moreover have "distinct (map k (filter P ss))" using d by (rule distinct_map_filter)
  ultimately show ?thesis using assms(1) by (simp add: fold_row_put cong: map_cong)
qed

definition recovered_task :: "task_env \<Rightarrow> task \<Rightarrow> task" where
  "recovered_task env t = t\<lparr>t_status := PAUSED, t_updated_at := te_now env, t_version := Suc (t_version t)\<rparr>"

definition recovered_step :: "ident \<Rightarrow> step \<Rightarrow> step" where
  "recovered_step tid s = (if s_task_id s = tid \<and> s_status s = S_RUNNING then s\<lparr>s_status := S_PENDING\<rparr> else s)"

lemma fold_put_step: "fold (\<lambda>s d. put_step (f s) d) xs db = db\<lparr>steps := fold (\<lambda>s. row_put s_id (f s)) xs (steps db)\<rparr>"
  by (induction xs arbitrary: db) (simp_all add: put_step_def)

lemma recover_one_eq:
  assumes "get_task (t_id t) db = Some t" and "distinct (map s_id (steps db))"
  shows "recover_one env db t = Inr (db\<lparr>tasks := row_put t_id (recovered_task env t) (tasks db),
     steps := map (recovered_step (t_id t)) (steps db),
     events := events (add_event env 0 (t_id t) ''TASK_RECOVERED_AFTER_RESTART'' [] db)\<rparr>)"
proof -
  have "save_task env (t\<lparr>t_status := PAUSED\<rparr>) db = Inr (put_task (recovered_task env t) db, recovered_task env t)"
    using assms(1) by (simp add: save_task_def recovered_task_def Let_def)
  then show ?thesis
    using assms(2) by (simp add: recover_one_def fold_put_step fold_row_put_filter put_task_def add_event_def
        recovered_step_def [abs_def])
qed

lemma recover_loop:
  "distinct (map t_id ts) \<Longrightarrow> \<forall>t\<in>set ts. get_task (t_id t) db = Some t \<Longrightarrow> distinct (map s_id (steps db)) \<Longrightarrow>
   \<exists>db'. rfold (recover_one env) db ts = Inr db'
     \<and> tasks db' = fold (\<lambda>t. row_put t_id (recovered_task env t)) ts (tasks db)
     \<and> steps db' = fold (\<lambda>t. map (recovered_step (t_id t))) ts (steps db)
     \<and> map ev_type (events db') = map ev_type (events db) @ map (\<lambda>_. ''TASK_RECOVERED_AFTER_RESTART'') ts
     \<and> (\<exists>es. events db' = events db @ es)"
proof (induction ts arbitrary: db)
  case (Cons t ts)
  let ?d = "db\<lparr>tasks := row_put t_id (recovered_task env t) (tasks db),
     steps := map (recovered_step (t_id t)) (steps db),
     events := events (add_event env 0 (t_id t) ''TASK_RECOVERED_AFTER_RESTART'' [] db)\<rparr>"
  have one: "recover_one env db t = Inr ?d" using Cons.prems by (intro recover_one_eq) simp_all
  have ids: "map s_id (steps ?d) = map s_id (steps db)" by (simp add: recovered_step_def)
  have d: "distinct (map s_id (steps ?d))" unfolding ids by (rule Cons.prems(3))
  have dt: "distinct (map t_id ts)" using Cons.prems(1) by simp
  have gt: "\<forall>u\<in>set ts. get_task (t_id u) ?d = Some u"
  proof
    fix u assume that: "u \<in> set ts"
    have "t_id u \<noteq> t_id t" using that Cons.prems(1) by (auto dest: not_in_imageD [of t_id])
    moreover have "t_id (recovered_task env t) = t_id t" by (simp add: recovered_task_def)
    ultimately have "get_task (t_id u) ?d = get_task (t_id u) db"
      by (simp add: get_task_def rows.get_put_other)
    then show "get_task (t_id u) ?d = Some u" using that Cons.prems(2) by simp
  qed
  from Cons.IH [OF dt gt d] obtain db' where "rfold (recover_one env) ?d ts = Inr db'"
    "tasks db' = fold (\<lambda>t. row_put t_id (recovered_task env t)) ts (tasks ?d)"
    "steps db' = fold (\<lambda>t. map (recovered_step (t_id t))) ts (steps ?d)"
    "map ev_type (events db') = map ev_type (events ?d) @ map (\<lambda>_. ''TASK_RECOVERED_AFTER_RESTART'') ts"
    "\<exists>es. events db' = events ?d @ es"
    by blast
  then show ?case by (intro exI [of _ db']) (auto simp: one add_event_def)
qed auto

lemma fold_recovered_step: "fold (\<lambda>t. map (recovered_step (t_id t))) ts ss =
    map (\<lambda>s. if s_task_id s \<in> t_id ` set ts \<and> s_status s = S_RUNNING then s\<lparr>s_status := S_PENDING\<rparr> else s) ss"
proof (induction ts arbitrary: ss)
  case (Cons t ts)
  show ?case unfolding fold_simps comp_apply Cons.IH map_map
    by (rule map_cong) (auto simp: recovered_step_def)
qed simp

lemma recover_eq:
  assumes "distinct (map t_id (tasks db))" and "distinct (map s_id (steps db))"
  obtains db' es where "recover env db = Inr db'"
    "tasks db' = map (\<lambda>t. if t_status t = RUNNING then recovered_task env t else t) (tasks db)"
    "steps db' = map (\<lambda>s. if s_task_id s \<in> t_id ` {t \<in> set (tasks db). t_status t = RUNNING}
       \<and> s_status s = S_RUNNING then s\<lparr>s_status := S_PENDING\<rparr> else s) (steps db)"
    "events db' = events db @ es"
proof -
  let ?ts = "filter (\<lambda>t. t_status t = RUNNING) (tasks db)"
  have k: "t_id (recovered_task env t) = t_id t" for t by (simp add: recovered_task_def)
  have "\<forall>t\<in>set ?ts. get_task (t_id t) db = Some t"
    using assms(1) by (auto simp: get_task_def intro: row_get_in)
  with recover_loop [OF distinct_map_filter [OF assms(1)] this assms(2), of env]
  obtain db' where l: "rfold (recover_one env) db ?ts = Inr db'"
    "tasks db' = fold (\<lambda>t. row_put t_id (recovered_task env t)) ?ts (tasks db)"
    "steps db' = fold (\<lambda>t. map (recovered_step (t_id t))) ?ts (steps db)"
    "\<exists>es. events db' = events db @ es" by blast
  from l(4) obtain es where "events db' = events db @ es" ..
  moreover have "recover env db = Inr db'" using l(1) by (simp add: recover_def)
  ultimately show thesis
    by (intro that) (simp_all add: l(2,3) fold_recovered_step fold_row_put_filter [OF k assms(1)])
qed

lemma steps_evolve_map:
  assumes "\<And>s. s \<in> set ss \<Longrightarrow> evolves s (g s) \<and> s_attempt_count (g s) = s_attempt_count s"
  shows "steps_evolve m ss (map g ss)"
proof -
  have e: "map s_id (map g ss) = map s_id ss" "map step_key (map g ss) = map step_key ss"
    using assms by (auto simp: evolves_def)
  show ?thesis unfolding steps_evolve_def steps_ok_def e using assms by auto
qed

lemma row_get_map: "(\<And>r. k (f r) = k r) \<Longrightarrow> row_get k i (map f rs) = map_option f (row_get k i rs)"
  by (induction rs) (auto simp: row_get_def)

lemma evolve_recover:
  assumes "recover env db = Inr db'" and d: "distinct (map t_id (tasks db))" "distinct (map s_id (steps db))"
  shows "db_evolves m db db'"
proof -
  obtain es where r: "tasks db' = map (\<lambda>t. if t_status t = RUNNING then recovered_task env t else t) (tasks db)"
    "steps db' = map (\<lambda>s. if s_task_id s \<in> t_id ` {t \<in> set (tasks db). t_status t = RUNNING}
       \<and> s_status s = S_RUNNING then s\<lparr>s_status := S_PENDING\<rparr> else s) (steps db)"
    "events db' = events db @ es"
    using recover_eq [OF d, of env thesis] assms(1) by auto
  have k: "t_id (if t_status t = RUNNING then recovered_task env t else t) = t_id t" for t
    by (simp add: recovered_task_def)
  have "steps_evolve m (steps db) (steps db')"
    unfolding r(2) by (rule steps_evolve_map) (auto simp: evolves_def step_key_def)
  moreover have "map t_id (tasks db') = map t_id (tasks db)" by (simp add: r(1) k)
  moreover have "tasks_evolve db db'"
    unfolding tasks_evolve_def get_task_def r(1,3) row_get_map [of t_id, OF k]
    by (auto simp: task_evolves_def recovered_task_def finished_def)
  ultimately show ?thesis using d(1) by (simp add: db_evolves_def)
qed

text \<open>
  Recovery after a restart always succeeds and pauses exactly the tasks that were RUNNING: each
  becomes PAUSED with a new version, its RUNNING steps become PENDING, and every other task and step
  is left as it was; the history only grows.
\<close>

theorem recover_pauses_running:
  assumes "distinct (map t_id (tasks db))" and "distinct (map s_id (steps db))"
  shows "\<exists>db' es. recover env db = Inr db' \<and> events db' = events db @ es
    \<and> tasks db' = map (\<lambda>t. if t_status t = RUNNING
         then t\<lparr>t_status := PAUSED, t_updated_at := te_now env, t_version := Suc (t_version t)\<rparr> else t) (tasks db)
    \<and> steps db' = map (\<lambda>s. if s_task_id s \<in> t_id ` {t \<in> set (tasks db). t_status t = RUNNING}
         \<and> s_status s = S_RUNNING then s\<lparr>s_status := S_PENDING\<rparr> else s) (steps db)"
  by (rule recover_eq [OF assms, of env]) (auto simp: recovered_task_def [abs_def])

definition wit_task :: task where
  "wit_task = \<lparr>t_id = ''t'', t_owner_id = ''u'', t_created_by_user_id = Some ''u'', t_workspace_id = ''w'',
     t_session_id = ''s'', t_goal = ''g'', t_description = '''', t_status = RUNNING,
     t_source_scope = Workspace_only, t_plan = None, t_current_step_id = None, t_created_at = 0,
     t_updated_at = 0, t_started_at = None, t_completed_at = None, t_last_error = None,
     t_metadata = [], t_queue_job_id = None, t_queued_at = None, t_worker_started_at = None,
     t_attempt_count = 0, t_execution_backend = Inline, t_version = 0, t_pause_requested = False,
     t_cancel_requested = False\<rparr>"

definition wit_step :: step where
  "wit_step = \<lparr>s_id = ''s0'', s_task_id = ''t'', s_index = 0, s_description = ''d'', s_preferred_tool = None,
     s_status = S_RUNNING, s_input = [], s_output = [], s_attempt_count = 1, s_started_at = None,
     s_completed_at = None, s_error = None\<rparr>"

definition wit_task_db :: task_db where
  "wit_task_db = \<lparr>tasks = [wit_task], steps = [wit_step], events = []\<rparr>"

definition wit_task_env :: task_env where
  "wit_task_env = \<lparr>te_pg = True, te_now = 5, te_fresh = (\<lambda>n. ''e''), te_max_attempts = 2\<rparr>"

lemmas wit_task_defs = wit_task_def wit_step_def wit_task_db_def wit_task_env_def

theorem recover_pauses_running_witness:
  "\<exists>db'. recover wit_task_env wit_task_db = Inr db' \<and> map t_status (tasks db') = [PAUSED]
     \<and> map s_status (steps db') = [S_PENDING]"
proof -
  have "distinct (map t_id (tasks wit_task_db))" "distinct (map s_id (steps wit_task_db))"
    by (simp_all add: wit_task_db_def)
  from recover_pauses_running [OF this, of wit_task_env] obtain db' where
    r: "recover wit_task_env wit_task_db = Inr db'"
    and t: "map t_status (tasks db') = map (\<lambda>t. if t_status t = RUNNING then PAUSED else t_status t) (tasks wit_task_db)"
    and s: "map s_status (steps db') = map (\<lambda>s. if s_task_id s \<in> t_id ` {t \<in> set (tasks wit_task_db). t_status t = RUNNING}
         \<and> s_status s = S_RUNNING then S_PENDING else s_status s) (steps wit_task_db)"
    by auto
  have i: "t_id ` {t \<in> set (tasks wit_task_db). t_status t = RUNNING} = {''t''}"
    by (simp add: wit_task_db_def wit_task_def image_def)
  have "map t_status (tasks db') = [PAUSED]" "map s_status (steps db') = [S_PENDING]"
    unfolding t s i by (simp_all add: wit_task_db_def wit_task_def wit_step_def)
  with r show ?thesis by (intro exI [of _ db'] conjI)
qed

section \<open>The machine\<close>

definition task_inv :: "nat \<Rightarrow> task_db \<Rightarrow> bool" where
  "task_inv m db = (steps_ok m (steps db) \<and> distinct (map t_id (tasks db)))"

lemma task_exec_evolves:
  assumes "task_inv m db" and "task_ok m db x"
  shows "db_evolves m db (task_exec x db)"
proof -
  note cs = commit_of_def stored_def
  have d: "distinct (map t_id (tasks db))" "distinct (map s_id (steps db))"
    using assms(1) by (simp_all add: task_inv_def steps_ok_def)
  show ?thesis
  proof (cases x)
    case (T_recover env)
    then show ?thesis using evolve_recover [OF _ d] by (simp add: cs split: sum.split)
  qed (use assms(2) in \<open>auto simp: cs evolve_create evolve_set_plan evolve_transition evolve_start evolve_wait
      evolve_checkpoint split: sum.split\<close>)
qed

interpretation task_machine: guarded_machine task_exec "task_ok m" "task_inv m" for m
proof
  fix db x assume "task_inv m db" "task_ok m db x"
  then show "task_inv m (task_exec x db)"
    using task_exec_evolves [of m db x] by (auto simp: task_inv_def db_evolves_def steps_evolve_def)
qed

lemma reaches_evolves: "task_machine.reaches m db db' \<Longrightarrow> task_inv m db \<Longrightarrow> db_evolves m db db'"
  by (rule task_machine.reaches_rel [where R = "db_evolves m"])
    (auto intro: task_exec_evolves db_evolves_trans)



lemma wit_task_inv: "task_inv 2 wit_task_db"
  by (simp add: task_inv_def steps_ok_def wit_task_defs step_key_def)

lemma wit_task_reaches:
  "task_machine.reaches 2 wit_task_db (task_exec (T_checkpoint wit_task_env ''t'' 0 [] True) wit_task_db)"
  by (rule task_machine.reaches.step [OF task_machine.reaches.refl]) simp



end
