(* ===== verification/Task_Run_Laws.thy ===== *)
theory Task_Run_Laws
  imports Tasks_Laws
begin

text \<open>
  What \<open>TaskService.run\<close> guarantees whatever the agent does while it runs: the task is never left
  RUNNING, its final status is the one its steps call for, and a resumed run starts at the first step
  that is not done.
\<close>

lemma save_task_ok:
  assumes "get_task tid db = Some t" and "t_id t1 = tid" and "t_version t1 = t_version t"
  obtains t' where "save_task env t1 db = Inr (put_task t' db, t')" "get_task tid (put_task t' db) = Some t'"
    "t_status t' = t_status t1" "t_metadata t' = t_metadata t1" "t_plan t' = t_plan t1"
    "t_last_error t' = t_last_error t1"
proof -
  let ?t = "t1\<lparr>t_updated_at := te_now env, t_version := Suc (t_version t1)\<rparr>"
  have "save_task env t1 db = Inr (put_task ?t db, ?t)"
    using assms by (simp add: save_task_def Let_def)
  moreover have "get_task tid (put_task ?t db) = Some ?t"
    using assms by (simp add: get_task_put)
  ultimately show thesis by (intro that [of ?t]) simp_all
qed

lemma transition_ok:
  assumes "get_task tid db = Some t" and "t_status t \<in> set (legal_from st)"
  obtains db' t' where "transition env tid st err db = Inr (db', t')" "get_task tid db' = Some t'"
    "t_status t' = st" "t_metadata t' = t_metadata t" "t_last_error t' = err" "steps db' = steps db"
proof -
  have m: "t_id (moved env st err t) = tid" "t_version (moved env st err t) = t_version t"
    using get_task_key [OF assms(1)] by (simp_all add: moved_def)
  from save_task_ok [OF assms(1) m, of env] obtain t' where
    s: "save_task env (moved env st err t) db = Inr (put_task t' db, t')"
    and g: "get_task tid (put_task t' db) = Some t'"
    and f: "t_status t' = t_status (moved env st err t)" "t_metadata t' = t_metadata (moved env st err t)"
      "t_last_error t' = t_last_error (moved env st err t)" by auto
  have "transition env tid st err db = Inr (add_event env 0 tid (transition_event st (t_plan t' \<noteq> None)) []
      (put_task t' db), t')"
    using assms s by (simp add: transition_eq fetch_task_def)
  then show thesis by (rule that) (use g f in \<open>simp_all add: moved_def\<close>)
qed

text \<open>The status a finished agent run calls for.\<close>

definition verdict :: "step list \<Rightarrow> task_status" where
  "verdict ss = (if \<exists>s\<in>set ss. s_status s = S_FAILED then FAILED
     else if \<forall>s\<in>set ss. done_step s then COMPLETED else PAUSED)"

lemma settle_ok:
  assumes "get_task tid db = Some t"
  obtains db' t' where "run_settle env tid answer db = (db', Inr t')" "get_task tid db' = Some t'"
    "t_status t' = (if t_status t = RUNNING then verdict (steps_of tid db) else t_status t)"
    "t_status t' = COMPLETED \<longrightarrow> map_of (t_metadata t') ''answer'' = Some (JStr answer)"
    "steps db' = steps db"
proof -
  let ?st = "verdict (steps_of tid db)"
  let ?err = "if ?st = FAILED then Some ''A task step failed'' else None"
  have leg: "RUNNING \<in> set (legal_from ?st)" by (simp add: verdict_def)
  obtain db1 t1 where a: "(if t_status t = RUNNING then transition env tid ?st ?err db else Inr (db, t)) = Inr (db1, t1)"
    "get_task tid db1 = Some t1" "t_status t1 = (if t_status t = RUNNING then ?st else t_status t)"
    "steps db1 = steps db"
  proof (cases "t_status t = RUNNING")
    case True
    with leg have "t_status t \<in> set (legal_from ?st)" by simp
    then obtain d u where "transition env tid ?st ?err db = Inr (d, u)" "get_task tid d = Some u"
      "t_status u = ?st" "steps d = steps db" by (rule transition_ok [OF assms, of _ env ?err])
    then show thesis using True by (intro that [of d u]) simp_all
  qed (use assms in \<open>auto intro: that\<close>)
  have eq: "(let ss = steps_of tid db in
         if list_ex (\<lambda>s. s_status s = S_FAILED) ss
         then transition env tid FAILED (Some ''A task step failed'') db
         else if list_ex (\<lambda>s. \<not> done_step s) ss then transition env tid PAUSED None db
         else transition env tid COMPLETED None db) = transition env tid ?st ?err db"
    by (simp add: verdict_def list_ex_iff Let_def)
  have b: "(if t_status t = RUNNING
       then let ss = steps_of tid db in
         if list_ex (\<lambda>s. s_status s = S_FAILED) ss
         then transition env tid FAILED (Some ''A task step failed'') db
         else if list_ex (\<lambda>s. \<not> done_step s) ss then transition env tid PAUSED None db
         else transition env tid COMPLETED None db
       else Inr (db, t)) = Inr (db1, t1)"
    unfolding eq by (rule a(1))
  show thesis
  proof (cases "t_status t1 = COMPLETED")
    case False
    then have "run_settle env tid answer db = (db1, Inr t1)"
      using assms b by (simp add: run_settle_def fetch_task_def)
    then show thesis using that [of db1 t1] a False by simp
  next
    case True
    let ?t = "t1\<lparr>t_metadata := dict_put ''answer'' (JStr answer) (t_metadata t1)\<rparr>"
    have "t_id ?t = tid" "t_version ?t = t_version t1" using get_task_key [OF a(2)] by simp_all
    from save_task_ok [OF a(2) this, of env] obtain t' where
      s: "save_task env ?t db1 = Inr (put_task t' db1, t')" "get_task tid (put_task t' db1) = Some t'"
      "t_status t' = t_status t1" "t_metadata t' = t_metadata ?t" by auto
    then have "run_settle env tid answer db = (put_task t' db1, Inr t')"
      using assms b True by (simp add: run_settle_def fetch_task_def)
    then show thesis using that [of "put_task t' db1" t'] s a by (simp add: row_simps)
  qed
qed

lemma verdict_not_running: "verdict ss \<noteq> RUNNING"
  by (simp add: verdict_def)

lemma run_fail_ok:
  assumes "run_fail env tid e db = (db', r)" and "get_task tid db' = Some t'"
  shows "t_status t' \<noteq> RUNNING"
proof (cases "get_task tid db")
  case None
  then show ?thesis using assms by (simp add: run_fail_def fetch_task_def)
next
  case (Some t)
  show ?thesis
  proof (cases "t_status t = RUNNING")
    case True
    then have "t_status t \<in> set (legal_from FAILED)" by simp
    then obtain d u where
      d: "transition env tid FAILED (Some (error_name e)) db = Inr (d, u)" "get_task tid d = Some u"
      "t_status u = FAILED" using transition_ok [OF Some, of FAILED env "Some (error_name e)"] by metis
    then show ?thesis using assms Some True by (simp add: run_fail_def fetch_task_def)
  next
    case False
    then show ?thesis using assms Some by (simp add: run_fail_def fetch_task_def)
  qed
qed

text \<open>
  C6: A run never leaves its task RUNNING: whatever the agent does to the store and whether it answers
  or raises, once the run was admitted and has ended, the stored task is not RUNNING; and when the
  run returns a task, that is the stored one.
\<close>

theorem run_never_leaves_running:
  assumes "run_claim env busy approvals tid rq db = Inr c"
    and "run_task env busy approvals ask tid rq db = (db', r)"
    and "get_task tid db' = Some t'"
  shows "t_status t' \<noteq> RUNNING \<and> (case r of Inl e \<Rightarrow> True | Inr u \<Rightarrow> u = t')"
proof -
  obtain db1 t sc where c: "c = (db1, t, sc)" by (cases c) auto
  obtain db2 a where a: "ask t sc db1 = (db2, a)" by fastforce
  show ?thesis
  proof (cases a)
    case (Inl e)
    then have f: "run_fail env tid e db2 = (db', r)"
      using assms(1,2) c a by (simp add: run_task_def)
    then have "\<exists>e'. r = Inl e'" by (auto simp: run_fail_def fetch_task_def split: sum.splits if_splits option.splits)
    then show ?thesis using run_fail_ok [OF f assms(3)] by auto
  next
    case (Inr answer)
    show ?thesis
    proof (cases "get_task tid db2")
      case None
      then have "run_settle env tid answer db2 = (db2, Inl (RecordNotFound tid))"
        by (simp add: run_settle_def fetch_task_def)
      then have "db' = db2" using assms(1,2) c a Inr None
        by (simp add: run_task_def run_fail_def fetch_task_def)
      then show ?thesis using assms(3) None by simp
    next
      case (Some u)
      obtain db3 v where
        "run_settle env tid answer db2 = (db3, Inr v)" "get_task tid db3 = Some v"
        "t_status v = (if t_status u = RUNNING then verdict (steps_of tid db2) else t_status u)"
        using settle_ok [OF Some, of env answer] by blast
      then show ?thesis using assms c a Inr verdict_not_running by (auto simp: run_task_def)
    qed
  qed
qed

text \<open>
  The outcome of an answered run is decided by the steps alone: a task that is still RUNNING when
  the agent answers becomes FAILED if one of its steps failed, COMPLETED exactly when every step is
  completed or skipped (and then the answer is stored with it), and PAUSED otherwise.
\<close>

theorem run_outcome_follows_steps:
  assumes "run_claim env busy approvals tid rq db = Inr (db1, t, sc)"
    and "ask t sc db1 = (db2, Inr answer)"
    and "get_task tid db2 = Some u" and "t_status u = RUNNING"
  shows "\<exists>db' t'. run_task env busy approvals ask tid rq db = (db', Inr t') \<and> get_task tid db' = Some t'
    \<and> (t_status t' = FAILED \<longleftrightarrow> (\<exists>s\<in>set (steps db2). s_task_id s = tid \<and> s_status s = S_FAILED))
    \<and> (t_status t' = COMPLETED \<longleftrightarrow> (\<forall>s\<in>set (steps db2). s_task_id s = tid \<longrightarrow> done_step s))
    \<and> (t_status t' = COMPLETED \<longrightarrow> map_of (t_metadata t') ''answer'' = Some (JStr answer))
    \<and> t_status t' \<in> {FAILED, COMPLETED, PAUSED}"
proof -
  have ss: "set (steps_of tid db2) = {s \<in> set (steps db2). s_task_id s = tid}"
    by (simp add: steps_of_def)
  obtain db3 v where
    v: "run_settle env tid answer db2 = (db3, Inr v)" "get_task tid db3 = Some v"
    "t_status v = (if t_status u = RUNNING then verdict (steps_of tid db2) else t_status u)"
    "t_status v = COMPLETED \<longrightarrow> map_of (t_metadata v) ''answer'' = Some (JStr answer)"
    using settle_ok [OF assms(3), of env answer] by blast
  have st: "t_status v = verdict (steps_of tid db2)" using v(3) assms(4) by simp
  have "run_task env busy approvals ask tid rq db = (db3, Inr v)"
    using assms(1,2) v(1) by (simp add: run_task_def)
  moreover have "(t_status v = FAILED) = (\<exists>s\<in>set (steps db2). s_task_id s = tid \<and> s_status s = S_FAILED)"
    unfolding st verdict_def ss by auto
  moreover have "(t_status v = COMPLETED) = (\<forall>s\<in>set (steps db2). s_task_id s = tid \<longrightarrow> done_step s)"
    unfolding st verdict_def ss by (auto simp: done_step_def)
  moreover have "t_status v \<in> {FAILED, COMPLETED, PAUSED}" unfolding st verdict_def by simp
  ultimately show ?thesis using v(2,4) by blast
qed

lemma claim_Inr:
  assumes "run_claim env busy approvals tid rq db = Inr (db1, t, sc)"
  shows "sc_task_resume sc = map_option (\<lambda>p. resume_of p (steps_of tid db1)) (t_plan t)"
  using assms by (auto simp: run_claim_def rbind_Inr_iff Let_def split: if_splits)

lemma next_index_spec:
  assumes "map s_index ss = [0..<length ss]"
  shows "next_index ss \<le> length ss \<and> (\<forall>i<next_index ss. done_step (ss ! i))
    \<and> (next_index ss < length ss \<longrightarrow> \<not> done_step (ss ! next_index ss))"
proof (cases "find (\<lambda>s. \<not> done_step s) ss")
  case None
  then have "next_index ss = length ss" by (simp add: next_index_def)
  moreover have "\<forall>s\<in>set ss. done_step s" using None by (auto simp: find_None_iff)
  ultimately show ?thesis by simp
next
  case (Some s)
  then obtain i where i: "i < length ss" "s = ss ! i" "\<not> done_step (ss ! i)" "\<forall>j<i. done_step (ss ! j)"
    by (auto simp: find_Some_iff)
  have "s_index (ss ! i) = i" using arg_cong [OF assms, of "\<lambda>xs. xs ! i"] i(1) by simp
  then show ?thesis using i Some by (simp add: next_index_def)
qed

text \<open>
  A planned task resumes where it stopped: when its steps are numbered from 0, the step the run is
  told to start at is the first one that is not done, every step before it is COMPLETED or SKIPPED,
  and past the last step when nothing is left to do.
\<close>

theorem resume_at_first_unfinished:
  assumes "run_claim env busy approvals tid rq db = Inr (db1, t, sc)"
    and "sc_task_resume sc = Some rs"
    and "map s_index (steps_of tid db1) = [0..<length (steps_of tid db1)]"
  shows "rs_current_step rs \<le> length (steps_of tid db1)
    \<and> (\<forall>i<rs_current_step rs. done_step (steps_of tid db1 ! i))
    \<and> (rs_current_step rs < length (steps_of tid db1) \<longrightarrow>
         \<not> done_step (steps_of tid db1 ! rs_current_step rs))"
proof -
  obtain p where "rs = resume_of p (steps_of tid db1)"
    using claim_Inr [OF assms(1)] assms(2) by (cases "t_plan t") auto
  then have "rs_current_step rs = next_index (steps_of tid db1)" by (simp add: resume_of_def)
  then show ?thesis using next_index_spec [OF assms(3)] by simp
qed

section \<open>Witnesses\<close>

definition wit_paused_db :: task_db where
  "wit_paused_db = \<lparr>tasks = [wit_task\<lparr>t_status := PAUSED, t_plan := Some []\<rparr>],
     steps = [wit_step\<lparr>s_status := S_COMPLETED\<rparr>], events = []\<rparr>"

definition wit_request :: run_request where
  "wit_request = \<lparr>rq_resume = True, rq_max_steps = None, rq_worker_claimed = False\<rparr>"

definition wit_ask :: "task \<Rightarrow> run_scope \<Rightarrow> task_db \<Rightarrow> task_db \<times> string result" where
  "wit_ask t sc db = (db, Inr ''done'')"

lemma wit_claim: "\<exists>db1 t sc. run_claim wit_task_env False [] ''t'' wit_request wit_paused_db = Inr (db1, t, sc)
    \<and> (\<exists>u. get_task ''t'' db1 = Some u \<and> t_status u = RUNNING) \<and> steps db1 = steps wit_paused_db
    \<and> t_plan t = Some []"
  by (simp add: run_claim_def wit_paused_db_def wit_request_def wit_task_defs fetch_task_def get_task_def
      row_get_def outstanding_def rbind_Inr_iff transition_def save_task_def put_task_def row_put_def
      add_event_def Let_def)

theorem run_never_leaves_running_witness:
  "\<exists>db' r t'. run_task wit_task_env False [] wit_ask ''t'' wit_request wit_paused_db = (db', r)
     \<and> get_task ''t'' db' = Some t' \<and> t_status t' \<noteq> RUNNING"
proof -
  obtain c where c: "run_claim wit_task_env False [] ''t'' wit_request wit_paused_db = Inr c"
    using wit_claim by blast
  obtain db' r where r: "run_task wit_task_env False [] wit_ask ''t'' wit_request wit_paused_db = (db', r)"
    by fastforce
  have "get_task ''t'' (fst (run_task wit_task_env False [] wit_ask ''t'' wit_request wit_paused_db)) \<noteq> None"
    by code_simp
  then obtain t' where t: "get_task ''t'' db' = Some t'" using r by auto
  from run_never_leaves_running [OF c r t] r t show ?thesis by blast
qed

theorem run_outcome_follows_steps_witness:
  "\<exists>db' t'. run_task wit_task_env False [] wit_ask ''t'' wit_request wit_paused_db = (db', Inr t')
     \<and> t_status t' = COMPLETED"
proof -
  obtain db1 t sc u where c: "run_claim wit_task_env False [] ''t'' wit_request wit_paused_db = Inr (db1, t, sc)"
    and u: "get_task ''t'' db1 = Some u" "t_status u = RUNNING" and s: "steps db1 = steps wit_paused_db"
    using wit_claim by blast
  from run_outcome_follows_steps [OF c _ u, of wit_ask] s
  show ?thesis by (auto simp: wit_ask_def wit_paused_db_def done_step_def)
qed

theorem resume_at_first_unfinished_witness:
  "\<exists>db1 t sc rs. run_claim wit_task_env False [] ''t'' wit_request wit_paused_db = Inr (db1, t, sc)
     \<and> sc_task_resume sc = Some rs \<and> rs_current_step rs \<le> 1"
proof -
  obtain db1 t sc where c: "run_claim wit_task_env False [] ''t'' wit_request wit_paused_db = Inr (db1, t, sc)"
    and p: "t_plan t = Some []" and s: "steps db1 = steps wit_paused_db"
    using wit_claim by blast
  obtain rs where rs: "sc_task_resume sc = Some rs" using claim_Inr [OF c] p by simp
  have l: "steps_of ''t'' db1 = [wit_step\<lparr>s_status := S_COMPLETED\<rparr>]"
    using s by (simp add: steps_of_def wit_paused_db_def wit_step_def)
  have "map s_index (steps_of ''t'' db1) = [0..<length (steps_of ''t'' db1)]"
    unfolding l by (simp add: wit_step_def)
  from resume_at_first_unfinished [OF c rs this] c rs l show ?thesis by auto
qed

section \<open>A status check that is missing\<close>

text \<open>
  \<open>wait_for_approval\<close> writes WAITING_USER whatever the stored status is; its caller looks at the status
  in an earlier transaction, so a cancellation that lands between the two is undone.
\<close>

lemma wait_for_approval_revives:
  assumes "get_task tid db = Some t"
    and "find (\<lambda>s. s_id s = sid \<and> s_task_id s = tid) (steps db) = Some s"
  shows "\<exists>db' t'. wait_for_approval env tid sid db = Inr db' \<and> get_task tid db' = Some t'
    \<and> t_status t' = WAITING_USER"
proof -
  have "t_id (t\<lparr>t_status := WAITING_USER\<rparr>) = tid" "t_version (t\<lparr>t_status := WAITING_USER\<rparr>) = t_version t"
    using get_task_key [OF assms(1)] by simp_all
  then obtain t' where "save_task env (t\<lparr>t_status := WAITING_USER\<rparr>) db = Inr (put_task t' db, t')"
    "get_task tid (put_task t' db) = Some t'" "t_status t' = t_status (t\<lparr>t_status := WAITING_USER\<rparr>)"
    by (rule save_task_ok [OF assms(1), of _ env])
  then show ?thesis using assms by (simp add: wait_for_approval_def)
qed

end
