(* ===== verification/Task_Queue_Laws.thy ===== *)
theory Task_Queue_Laws
  imports Task_Queue Task_Run_Laws Authorization_Laws
begin

text \<open>
  What the queue and its worker guarantee: a cancellation is final, automatic retries are bounded by
  the configuration, and a task with an unreconciled external write is never run again automatically.
\<close>

section \<open>Writes of the queue\<close>

lemma save_queued_task:
  assumes "save_queued env t kind pl d = (d', t')"
  shows "d' = (put_task t' d)\<lparr>events := events d @ [\<lparr>ev_id = qe_fresh_event env, ev_task_id = t_id t,
      ev_type = kind, ev_payload = pl, ev_created_at = e_now (qe_call env)\<rparr>]\<rparr>"
    and "t' = t\<lparr>t_version := Suc (t_version t), t_updated_at := e_now (qe_call env)\<rparr>"
  using assms by (auto simp: save_queued_def Let_def)

text \<open>What every queue operation keeps of a task.\<close>

definition queue_keeps :: "task \<Rightarrow> task \<Rightarrow> bool" where
  "queue_keeps t t' = (t_attempt_count t \<le> t_attempt_count t' \<and> (t_cancel_requested t \<longrightarrow> t_cancel_requested t'))"

definition tasks_keep :: "task_db \<Rightarrow> task_db \<Rightarrow> bool" where
  "tasks_keep d d' = (\<forall>tid t. get_task tid d = Some t \<longrightarrow> (\<exists>t'. get_task tid d' = Some t' \<and> queue_keeps t t'))"

lemma queue_keeps_refl [simp]: "queue_keeps t t"
  by (simp add: queue_keeps_def)

lemma tasks_keep_refl [simp]: "tasks_keep d d"
  by (auto simp: tasks_keep_def)

lemma tasks_keepE:
  assumes "tasks_keep d d'" and "get_task tid d = Some t"
  obtains t' where "get_task tid d' = Some t'" "queue_keeps t t'"
  using assms unfolding tasks_keep_def by blast

lemma tasks_keep_trans: "tasks_keep a b \<Longrightarrow> tasks_keep b c \<Longrightarrow> tasks_keep a c"
proof -
  assume ab: "tasks_keep a b" and bc: "tasks_keep b c"
  have "\<exists>u. get_task tid c = Some u \<and> queue_keeps t u" if "get_task tid a = Some t" for tid t
  proof -
    from ab that obtain s where s: "get_task tid b = Some s" "queue_keeps t s" by (rule tasks_keepE)
    from bc s(1) obtain u where "get_task tid c = Some u" "queue_keeps s u" by (rule tasks_keepE)
    with s(2) show ?thesis by (auto simp: queue_keeps_def)
  qed
  then show ?thesis unfolding tasks_keep_def by blast
qed

lemma evolves_keeps: "tasks_evolve d d' \<Longrightarrow> tasks_keep d d'"
  unfolding tasks_keep_def tasks_evolve_def task_evolves_def queue_keeps_def by fastforce

text \<open>A stored task rewritten with its queue fields kept leaves the store well formed.\<close>

definition good_write :: "nat \<Rightarrow> task_db \<Rightarrow> task_db \<Rightarrow> bool" where
  "good_write m d d' = (tasks_keep d d' \<and> (task_inv m d \<longrightarrow> task_inv m d'))"

lemma good_write_refl [simp]: "good_write m d d"
  by (simp add: good_write_def)

lemma good_write_trans: "good_write m a b \<Longrightarrow> good_write m b c \<Longrightarrow> good_write m a c"
  unfolding good_write_def using tasks_keep_trans by blast

lemma good_write_save:
  assumes "save_queued env t1 kind pl d = (d', t')" and "get_task (t_id t) d = Some t"
    and "t_id t1 = t_id t" and "queue_keeps t t1"
  shows "good_write m d d'"
proof -
  note s = save_queued_task [OF assms(1)]
  have id: "t_id t' = t_id t" "queue_keeps t t'" using assms(3,4) by (simp_all add: s(2) queue_keeps_def)
  have g: "get_task i d' = (if i = t_id t then Some t' else get_task i d)" for i
    using assms(2) id(1) get_task_put [of i t' d] by (simp add: s(1) get_task_def)
  have "tasks_keep d d'"
    unfolding tasks_keep_def g using assms(2) id(2) queue_keeps_refl by auto
  moreover have "map t_id (tasks d') = map t_id (tasks d)" "steps d' = steps d"
    by (simp_all add: s(1) put_task_def row_put_keys)
  ultimately show ?thesis by (simp add: good_write_def task_inv_def)
qed

lemma good_write_saved:
  assumes "get_task (t_id t) d = Some t" and "t_id t1 = t_id t" and "queue_keeps t t1"
  shows "good_write m d (fst (save_queued env t1 kind pl d))"
  using good_write_save [OF _ assms] by (metis prod.collapse)

lemma fetched: "fetch_task tid d = Inr t \<Longrightarrow> get_task (t_id t) d = Some t"
  by (auto simp: fetch_task_Inr dest: get_task_key)

lemma secured_tasks [simp]: "q_tasks (fst (secured_task env tid act q)) = q_tasks q"
  by (auto simp: secured_task_def split: prod.split sum.split)

lemma on_tasks_sel [simp]: "q_tasks (on_tasks q d) = d" "q_executions (on_tasks q d) = q_executions q"
  "q_auth (on_tasks q d) = q_auth q" "q_approvals (on_tasks q d) = q_approvals q"
  by (simp_all add: on_tasks_def)

lemma in_transaction_tasks: "q_tasks (fst (in_transaction q r)) = (case r of Inl e \<Rightarrow> q_tasks q | Inr (d, x) \<Rightarrow> d)"
  by (simp add: in_transaction_def split: sum.splits prod.splits)

lemma enqueue_row_good:
  assumes "enqueue_row env aps tid resume ms d = Inr (d', t')"
  shows "good_write m d d'"
proof -
  from assms obtain t t1 pl where t: "fetch_task tid d = Inr t"
    and s: "save_queued env t1 ''TASK_ENQUEUED'' pl d = (d', t')" and "t_id t1 = t_id t" "queue_keeps t t1"
    by (auto simp: enqueue_row_def rbind_Inr_iff queue_keeps_def split: if_splits)
  then show ?thesis using good_write_save [OF s fetched [OF t]] by simp
qed

lemma control_row_good:
  assumes "control_row env tid c d = Inr (d', t')"
  shows "good_write m d d'"
proof -
  from assms obtain t t1 kind pl where t: "fetch_task tid d = Inr t"
    and s: "save_queued env t1 kind pl d = (d', t')" and "t_id t1 = t_id t" "queue_keeps t t1"
    by (auto simp: control_row_def rbind_Inr_iff queue_keeps_def Let_def split: if_splits)
  then show ?thesis using good_write_save [OF s fetched [OF t]] by simp
qed

lemma enqueue_good: "good_write m (q_tasks q) (q_tasks (fst (enqueue env tid resume ms q)))"
proof -
  obtain q' r where s: "secured_task env tid Task_execute q = (q', r)" by fastforce
  then have "q_tasks q' = q_tasks q" by (metis secured_tasks fst_conv)
  with s show ?thesis
    by (auto simp: enqueue_def in_transaction_tasks enqueue_row_good split: sum.splits prod.splits)
qed

lemma control_good: "good_write m (q_tasks q) (q_tasks (fst (request_control env tid c q)))"
proof -
  obtain q' r where s: "secured_task env tid (if c then Task_cancel else Task_execute) q = (q', r)" by fastforce
  then have "q_tasks q' = q_tasks q" by (metis secured_tasks fst_conv)
  with s show ?thesis
    by (auto simp: request_control_def in_transaction_tasks control_row_good split: sum.splits prod.splits)
qed

lemma claim_checked_good:
  assumes "get_task (t_id t) (q_tasks q) = Some t"
  shows "good_write m (q_tasks q) (q_tasks (fst (claim_checked env dl t q)))"
proof (cases "relation_ok env t (q_auth q)")
  case False
  then show ?thesis using assms by (auto simp: claim_checked_def queue_keeps_def intro!: good_write_saved)
next
  case True
  obtain a r where w: "worker_principal env t (q_auth q) = (a, r)" by fastforce
  show ?thesis
  proof (cases r)
    case (Inl e)
    then show ?thesis using True w assms
      by (auto simp: claim_checked_def queue_keeps_def intro!: good_write_saved)
  next
    case (Inr p)
    obtain t1 wait where f: "claim_fields env dl t = (t1, wait)" by fastforce
    obtain d t2 where s: "save_queued env t1 ''WORKER_STARTED'' (started_payload dl t1 wait) (q_tasks q) = (d, t2)"
      by fastforce
    have "t_id t1 = t_id t" "queue_keeps t t1"
      using f by (auto simp: claim_fields_def Let_def queue_keeps_def)
    then have "good_write m (q_tasks q) d" using good_write_save [OF s assms] by simp
    then show ?thesis using True w Inr f s by (simp add: claim_checked_def)
  qed
qed

lemma claim_good: "good_write m (q_tasks q) (q_tasks (fst (deliver_claim env dl q)))"
proof (cases "fetch_task (dl_task_id dl) (q_tasks q)")
  case (Inr t)
  note g = fetched [OF Inr]
  show ?thesis using Inr g claim_checked_good [OF g]
    by (auto simp: deliver_claim_def queue_keeps_def intro!: good_write_saved)
qed (simp add: deliver_claim_def)

lemma failure_good: "good_write m (q_tasks q) (q_tasks (fst (deliver_failure env tid e q)))"
proof (cases "fetch_task tid (q_tasks q)")
  case (Inr t)
  let ?kind = "failure_of tid e t (q_executions q)"
  let ?t = "t\<lparr>t_status := failure_status (qe_max_retries env) ?kind t, t_last_error := Some (error_name e),
      t_metadata := dict_put ''retry_reason'' (JStr (failure_name ?kind)) (t_metadata t)\<rparr>"
  obtain d t2 where s: "save_queued env ?t ''WORKER_FAILURE''
      [(''classification'', JStr (failure_name ?kind)), (''error_type'', JStr (error_name e)),
       (''attempt'', JInt (int (t_attempt_count ?t)))] (q_tasks q) = (d, t2)" by fastforce
  have "good_write m (q_tasks q) d"
    using good_write_save [OF s fetched [OF Inr]] by (simp add: queue_keeps_def)
  then show ?thesis using Inr s by (simp add: deliver_failure_def Let_def)
qed (simp add: deliver_failure_def)

lemma recover_job_good: "good_write m (q_tasks q) (q_tasks (fst (recover_job env j q)))"
proof (cases "case sj_task_id j of None \<Rightarrow> None | Some tid \<Rightarrow> get_task tid (q_tasks q)")
  case (Some t)
  then have "get_task (t_id t) (q_tasks q) = Some t" by (auto split: option.splits dest: get_task_key)
  then show ?thesis using Some
    by (auto simp: recover_job_def queue_keeps_def intro!: good_write_saved)
qed (simp add: recover_job_def)

lemma recover_stalled_good: "good_write m (q_tasks q) (q_tasks (fst (recover_stalled env js q)))"
proof (induction js arbitrary: q)
  case (Cons j js)
  obtain q1 fate amb where r: "recover_job env j q = (q1, fate, amb)" by (cases "recover_job env j q")
  then have "good_write m (q_tasks q) (q_tasks q1)" using recover_job_good [of m q env j] by simp
  moreover have "good_write m (q_tasks q1) (q_tasks (fst (recover_stalled env js q1)))" by (rule Cons)
  ultimately show ?case using r
    by (auto simp: Let_def split: prod.splits dest: good_write_trans)
qed simp

section \<open>The queue as a machine\<close>

text \<open>
  The queue's own operations, the two transactions of a delivery, and the store operations of running
  agents, in any interleaving; tool executions and accounts may change in any way between them.
\<close>

datatype queue_op =
    Q_enqueue queue_env ident bool "nat option"
  | Q_control queue_env ident bool
  | Q_claim queue_env delivery
  | Q_fail queue_env ident py_error
  | Q_recover queue_env "stalled_job list"
  | Q_store task_op
  | Q_other auth_db "execution_ref list" "approval_row list"

fun queue_exec :: "queue_op \<Rightarrow> queue_db \<Rightarrow> queue_db" where
  "queue_exec (Q_enqueue env tid resume ms) q = fst (enqueue env tid resume ms q)"
| "queue_exec (Q_control env tid c) q = fst (request_control env tid c q)"
| "queue_exec (Q_claim env dl) q = fst (deliver_claim env dl q)"
| "queue_exec (Q_fail env tid e) q = fst (deliver_failure env tid e q)"
| "queue_exec (Q_recover env js) q = fst (recover_stalled env js q)"
| "queue_exec (Q_store x) q = on_tasks q (task_exec x (q_tasks q))"
| "queue_exec (Q_other a xs aps) q = q\<lparr>q_auth := a, q_executions := xs, q_approvals := aps\<rparr>"

fun queue_ok :: "nat \<Rightarrow> queue_db \<Rightarrow> queue_op \<Rightarrow> bool" where
  "queue_ok m q (Q_store x) = task_ok m (q_tasks q) x"
| "queue_ok m q _ = True"

lemma queue_exec_good:
  assumes "task_inv m (q_tasks q)" and "queue_ok m q x"
  shows "good_write m (q_tasks q) (q_tasks (queue_exec x q))"
proof (cases x)
  case (Q_store y)
  then show ?thesis
    using assms task_exec_evolves [of m "q_tasks q" y] task_machine.exec_invar [of m "q_tasks q" y]
    by (auto simp: good_write_def db_evolves_def evolves_keeps)
qed (simp_all add: enqueue_good control_good claim_good failure_good recover_stalled_good)

interpretation queue_machine: guarded_machine queue_exec "queue_ok m" "\<lambda>q. task_inv m (q_tasks q)" for m
proof
  fix q x assume "task_inv m (q_tasks q)" "queue_ok m q x"
  then show "task_inv m (q_tasks (queue_exec x q))"
    using queue_exec_good [of m q x] by (simp add: good_write_def)
qed

lemma queue_reaches_keep:
  "queue_machine.reaches m q q' \<Longrightarrow> task_inv m (q_tasks q) \<Longrightarrow> tasks_keep (q_tasks q) (q_tasks q')"
  by (rule queue_machine.reaches_rel [where R = "\<lambda>a b. tasks_keep (q_tasks a) (q_tasks b)"])
    (use queue_exec_good in \<open>auto simp: good_write_def intro: tasks_keep_trans\<close>)

section \<open>Cancellation\<close>

lemma claim_refused:
  assumes "get_task (dl_task_id dl) (q_tasks q) = Some t"
    and "t_cancel_requested t \<or> ambiguous_write (dl_task_id dl) (q_executions q)"
  shows "snd (deliver_claim env dl q) = None"
  using assms by (auto simp: deliver_claim_def fetch_task_def)

lemma enqueue_refused:
  assumes "get_task tid (q_tasks q) = Some t" and "t_cancel_requested t"
  shows "\<not> is_ok (snd (enqueue env tid resume ms q))"
proof -
  obtain q' r where s: "secured_task env tid Task_execute q = (q', r)" by fastforce
  then have "q_tasks q' = q_tasks q" by (metis secured_tasks fst_conv)
  then have "\<not> is_ok (enqueue_row env (q_approvals q') tid resume ms (q_tasks q'))"
    using assms by (auto simp: enqueue_row_def fetch_task_def is_ok_iff)
  then show ?thesis using s
    by (auto simp: enqueue_def in_transaction_def split: sum.splits)
qed

lemma failure_task:
  assumes "get_task tid (q_tasks q) = Some t"
  obtains t' where "get_task tid (q_tasks (fst (deliver_failure env tid e q))) = Some t'"
    "t_status t' = failure_status (qe_max_retries env) (failure_of tid e t (q_executions q)) t"
    "t_attempt_count t' = t_attempt_count t"
    "\<exists>n. snd (deliver_failure env tid e q) = Inl (Retryable_Task_Error n) \<Longrightarrow>
       failure_of tid e t (q_executions q) = RETRYABLE \<and> t_status t' = QUEUED"
proof -
  let ?kind = "failure_of tid e t (q_executions q)"
  let ?t = "t\<lparr>t_status := failure_status (qe_max_retries env) ?kind t, t_last_error := Some (error_name e),
      t_metadata := dict_put ''retry_reason'' (JStr (failure_name ?kind)) (t_metadata t)\<rparr>"
  obtain d t2 where s: "save_queued env ?t ''WORKER_FAILURE''
      [(''classification'', JStr (failure_name ?kind)), (''error_type'', JStr (error_name e)),
       (''attempt'', JInt (int (t_attempt_count ?t)))] (q_tasks q) = (d, t2)" by fastforce
  note w = save_queued_task [OF s]
  have id: "t_id t2 = tid" using get_task_key [OF assms] by (simp add: w(2))
  have d: "deliver_failure env tid e q = (on_tasks q d,
      if ?kind = RETRYABLE \<and> t_status t2 = QUEUED then Inl (Retryable_Task_Error (error_name e))
      else if t_status t2 = FAILED then Inl (Runtime_Error ''Task failed without automatic retry'')
      else Inr ())"
    using assms s by (simp add: deliver_failure_def fetch_task_def Let_def)
  have "get_task tid d = Some t2"
    using assms id get_task_put [of tid t2 "q_tasks q"] by (simp add: w(1) get_task_def)
  then show thesis
    by (intro that [of t2]) (auto simp: d w(2) split: if_splits)
qed


section \<open>External writes\<close>

text \<open>
  C8: An external write whose outcome is unknown is never repeated automatically: while the task has a
  RUNNING or FAILED non-read execution of a non-native tool, no delivery starts the task, a failure
  never requeues it, and recovery of stalled jobs never retries its job.
\<close>

theorem external_write_never_repeated:
  assumes "ambiguous_write tid (q_executions q)" and "get_task tid (q_tasks q) = Some t"
  shows "(dl_task_id dl = tid \<longrightarrow> snd (deliver_claim env dl q) = None)
    \<and> (\<exists>t'. get_task tid (q_tasks (fst (deliver_failure env tid e q))) = Some t'
         \<and> t_status t' \<in> {REQUIRES_RECONCILIATION, CANCELLED}
         \<and> \<not> (\<exists>n. snd (deliver_failure env tid e q) = Inl (Retryable_Task_Error n)))
    \<and> (sj_task_id j = Some tid \<longrightarrow> fst (snd (recover_job env j q)) = Finish_job)"
proof -
  have k: "failure_of tid e t (q_executions q) = AMBIGUOUS_SIDE_EFFECT"
    using assms(1) by (simp add: failure_of_def classify_failure_def)
  obtain t' where t': "get_task tid (q_tasks (fst (deliver_failure env tid e q))) = Some t'"
    "t_status t' = failure_status (qe_max_retries env) AMBIGUOUS_SIDE_EFFECT t"
    "\<not> (\<exists>n. snd (deliver_failure env tid e q) = Inl (Retryable_Task_Error n))"
    by (rule failure_task [OF assms(2), of env e]) (use k in auto)
  have "t_status t' \<in> {REQUIRES_RECONCILIATION, CANCELLED}"
    unfolding t'(2) by (simp add: failure_status_def)
  moreover have "sj_task_id j = Some tid \<longrightarrow> fst (snd (recover_job env j q)) = Finish_job"
    using assms get_task_key [OF assms(2)] by (auto simp: recover_job_def)
  ultimately show ?thesis using t' claim_refused [OF _ disjI2] assms by blast
qed

section \<open>Retries\<close>

definition attempts :: "ident \<Rightarrow> queue_db \<Rightarrow> nat" where
  "attempts tid q = (case get_task tid (q_tasks q) of None \<Rightarrow> 0 | Some t \<Rightarrow> t_attempt_count t)"

lemma claim_counts:
  assumes "deliver_claim env dl q = (q1, Some c)"
  shows "attempts (dl_task_id dl) q1 = Suc (attempts (dl_task_id dl) q)"
proof -
  from assms obtain t where t: "fetch_task (dl_task_id dl) (q_tasks q) = Inr t"
    and c: "claim_checked env dl t q = (q1, Some c)"
    by (auto simp: deliver_claim_def split: sum.splits if_splits)
  obtain t1 wait where f: "claim_fields env dl t = (t1, wait)" by fastforce
  obtain d t2 where s: "save_queued env t1 ''WORKER_STARTED'' (started_payload dl t1 wait) (q_tasks q) = (d, t2)"
    by fastforce
  have d: "q_tasks q1 = d"
    using c f s by (auto simp: claim_checked_def split: if_splits prod.splits sum.splits)
  note w = save_queued_task [OF s]
  have g: "get_task (dl_task_id dl) (q_tasks q) = Some t" using t by (simp add: fetch_task_Inr)
  have t1: "t_id t1 = dl_task_id dl" "t_attempt_count t1 = Suc (t_attempt_count t)"
    using f get_task_key [OF g] by (auto simp: claim_fields_def Let_def)
  have "get_task (dl_task_id dl) d = Some t2"
    using g t1(1) get_task_put [of "dl_task_id dl" t2 "q_tasks q"] by (simp add: w get_task_def)
  then show ?thesis using g t1(2) by (simp add: attempts_def d w(2))
qed

lemma retryable_delivery:
  assumes run: "\<And>i rq p s. attempts i s \<le> attempts i (fst (runner i rq p s))"
    and "execute_task env ac runner dl q = (q', Inl (Retryable_Task_Error n))"
  shows "Suc (attempts (dl_task_id dl) q) \<le> attempts (dl_task_id dl) q'
    \<and> attempts (dl_task_id dl) q' \<le> qe_max_retries env"
proof -
  let ?i = "dl_task_id dl"
  obtain q1 c where d: "deliver_claim env dl q = (q1, c)" by fastforce
  then obtain t p where c: "c = Some (t, p)"
    using assms(2) by (cases c) (auto simp: execute_task_def)
  obtain rq where rq: "execute_task env ac runner dl q = (case runner ?i rq p q1 of
             (q2, Inl e) \<Rightarrow> deliver_failure env ?i e q2
           | (q2, Inr r) \<Rightarrow>
               (case (if t_status r = CANCELLED then ac q2 else Inr ()) of
                  Inl e \<Rightarrow> deliver_failure env ?i e q2
                | Inr _ \<Rightarrow> (if t_status r = FAILED then deliver_failure env ?i
                     (Value_Error (if truthy (t_last_error r) then the (t_last_error r)
                                     else ''Task execution failed'')) q2 else (q2, Inr ()))))"
    using d c by (simp add: execute_task_def Let_def)
  obtain q2 a where r: "runner ?i rq p q1 = (q2, a)" by fastforce
  have up: "Suc (attempts ?i q) \<le> attempts ?i q2"
    using run [of ?i q1 rq p] r claim_counts [OF d [unfolded c]] by simp
  obtain e where f: "deliver_failure env ?i e q2 = (q', Inl (Retryable_Task_Error n))"
    using assms(2) rq r by (auto split: sum.splits if_splits)
  then obtain u where u: "get_task ?i (q_tasks q2) = Some u"
    using up by (cases "get_task ?i (q_tasks q2)") (auto simp: attempts_def)
  obtain u' where u': "get_task ?i (q_tasks (fst (deliver_failure env ?i e q2))) = Some u'"
    "t_status u' = failure_status (qe_max_retries env) (failure_of ?i e u (q_executions q2)) u"
    "t_attempt_count u' = t_attempt_count u"
    "failure_of ?i e u (q_executions q2) = RETRYABLE \<and> t_status u' = QUEUED"
    by (rule failure_task [OF u, of env e]) (use f in auto)
  have "t_attempt_count u \<le> qe_max_retries env \<or> t_status u = QUEUED"
    using u'(2,4) by (auto simp: failure_status_def split: if_splits)
  then have "t_attempt_count u \<le> qe_max_retries env"
    using u'(2,4) by (auto simp: failure_status_def split: if_splits)
  then show ?thesis using f u u' up by (simp add: attempts_def)
qed

fun asks_retry :: "unit result \<Rightarrow> bool" where
  "asks_retry (Inl (Retryable_Task_Error n)) = True"
| "asks_retry _ = False"

lemma asks_retry_iff: "asks_retry r \<longleftrightarrow> (\<exists>n. r = Inl (Retryable_Task_Error n))"
  by (cases r rule: asks_retry.cases) simp_all

fun deliver_all ::
  "queue_env \<Rightarrow> (queue_db \<Rightarrow> unit result) \<Rightarrow>
   (ident \<Rightarrow> run_request \<Rightarrow> principal option \<Rightarrow> queue_db \<Rightarrow> queue_db \<times> task result) \<Rightarrow>
   delivery list \<Rightarrow> queue_db \<Rightarrow> queue_db \<times> unit result list" where
  "deliver_all env ac runner [] q = (q, [])"
| "deliver_all env ac runner (dl # dls) q =
     (let (q1, r) = execute_task env ac runner dl q;
          (q2, rs) = deliver_all env ac runner dls q1
      in (q2, r # rs))"

lemma deliver_all_retries:
  assumes run: "\<And>i rq p s. attempts i s \<le> attempts i (fst (runner i rq p s))"
  shows "list_all (\<lambda>dl. dl_task_id dl = tid) dls \<Longrightarrow> deliver_all env ac runner dls q = (q', rs) \<Longrightarrow>
    list_all asks_retry rs \<Longrightarrow> dls \<noteq> [] \<Longrightarrow>
    attempts tid q + length dls \<le> qe_max_retries env"
proof (induction dls arbitrary: q rs)
  case (Cons dl dls)
  obtain q1 r where e: "execute_task env ac runner dl q = (q1, r)" by fastforce
  obtain q2 rs' where d: "deliver_all env ac runner dls q1 = (q2, rs')" by fastforce
  obtain n where r: "r = Inl (Retryable_Task_Error n)" and rs: "rs = r # rs'" and q2: "q2 = q'"
    using Cons.prems(2,3) e d by (auto simp: asks_retry_iff)
  have s: "Suc (attempts tid q) \<le> attempts tid q1" "attempts tid q1 \<le> qe_max_retries env"
    using retryable_delivery [OF run e [unfolded r]] Cons.prems(1) by auto
  show ?case
  proof (cases "dls = []")
    case True
    then show ?thesis using s by simp
  next
    case False
    then have "attempts tid q1 + length dls \<le> qe_max_retries env"
      using Cons.IH [of q1 rs'] Cons.prems d rs q2 by simp
    then show ?thesis using s by simp
  qed
qed simp

text \<open>
  Automatic retries are bounded: a task is delivered at most \<open>WORKER_MAX_RETRIES\<close> times with the
  retryable failure that asks for another delivery, whatever its runs do to the store (short of
  resetting its attempt counter).
\<close>

theorem automatic_retries_bounded:
  assumes "\<And>i rq p s. attempts i s \<le> attempts i (fst (runner i rq p s))"
    and "list_all (\<lambda>dl. dl_task_id dl = tid) dls"
    and "deliver_all env ac runner dls q = (q', rs)"
    and "list_all asks_retry rs"
  shows "length dls \<le> qe_max_retries env"
proof (cases "dls = []")
  case False
  then show ?thesis using deliver_all_retries [OF assms(1-4)] by simp
qed simp

section \<open>Witnesses\<close>

definition wit_queue_env :: queue_env where
  "wit_queue_env = \<lparr>qe_call = wit_env, qe_fresh_event = ''e'', qe_secured = False, qe_phase4 = True,
     qe_defer = (\<lambda>t v. Inr 7), qe_cancel_job = (\<lambda>j. Inr ()), qe_max_retries = 2\<rparr>"

definition wit_queue :: queue_db where
  "wit_queue = \<lparr>q_auth = wit_db, q_tasks = \<lparr>tasks = [wit_task\<lparr>t_status := QUEUED, t_cancel_requested := True\<rparr>],
       steps = [], events = []\<rparr>,
     q_executions = [\<lparr>xr_task_id = ''t'', xr_status = ''RUNNING'', xr_operation_type = ''write'',
       xr_provider = ''mcp:x'', xr_step_id = None, xr_error_type = None\<rparr>], q_approvals = []\<rparr>"

definition wit_delivery :: delivery where
  "wit_delivery = \<lparr>dl_job_id = 7, dl_worker = ''w1'', dl_task_id = ''t'', dl_expected_version = 1\<rparr>"

lemma wit_queue_task: "get_task ''t'' (q_tasks wit_queue) = Some (wit_task\<lparr>t_status := QUEUED, t_cancel_requested := True\<rparr>)"
  by (simp add: wit_queue_def get_task_def row_get_def wit_task_def)


theorem external_write_never_repeated_witness:
  "snd (deliver_claim wit_queue_env wit_delivery wit_queue) = None"
proof -
  have a: "ambiguous_write ''t'' (q_executions wit_queue)" by (simp add: ambiguous_write_def wit_queue_def)
  show ?thesis using external_write_never_repeated [OF a wit_queue_task, of wit_delivery]
    by (simp add: wit_delivery_def)
qed

definition wit_runner :: "ident \<Rightarrow> run_request \<Rightarrow> principal option \<Rightarrow> queue_db \<Rightarrow> queue_db \<times> task result" where
  "wit_runner i rq p q = (q, Inl (Provider_Error ''TimeoutError''))"

definition wit_queued :: queue_db where
  "wit_queued = \<lparr>q_auth = wit_db\<lparr>session_refs := [\<lparr>sr_id = ''s'', sr_workspace = Some ''w'', sr_creator = None\<rparr>]\<rparr>,
     q_tasks = \<lparr>tasks = [wit_task\<lparr>t_status := QUEUED, t_owner_id := ''local_default'', t_queue_job_id := Some 7,
         t_metadata := [(''queued_version'', JInt 1)]\<rparr>], steps = [], events = []\<rparr>,
     q_executions = [], q_approvals = []\<rparr>"

theorem automatic_retries_bounded_witness:
  "length [wit_delivery, wit_delivery] \<le> qe_max_retries wit_queue_env"
proof -
  let ?d = "deliver_all wit_queue_env (\<lambda>q. Inr ()) wit_runner [wit_delivery, wit_delivery] wit_queued"
  have l: "list_all asks_retry (snd ?d)" by code_simp
  have a: "attempts i s \<le> attempts i (fst (wit_runner i rq p s))" for i rq p s
    by (simp add: wit_runner_def)
  have "list_all (\<lambda>dl. dl_task_id dl = ''t'') [wit_delivery, wit_delivery]"
    by (simp add: wit_delivery_def)
  from automatic_retries_bounded [OF a this prod.collapse [symmetric] l] show ?thesis .
qed

end
