(* ===== verification/PyJson.thy ===== *)
theory PyJson
  imports PyText "HOL-Library.Multiset"
begin

text \<open>
  How Python writes values: decimal integers, \<open>str\<close> and \<open>repr\<close> of JSON values, and the canonical
  \<open>json.dumps(..., sort_keys=True, separators=(',', ':'), ensure_ascii=False)\<close>.  \<open>fl\<close> writes a float.
\<close>

section \<open>Numbers\<close>

fun nat_text :: "nat \<Rightarrow> string" where
  "nat_text n = (if n < 10 then [char_of (48 + n)] else nat_text (n div 10) @ [char_of (48 + n mod 10)])"

declare nat_text.simps [simp del]

definition int_text :: "int \<Rightarrow> string" where
  "int_text i = (if i < 0 then CHR ''-'' # nat_text (nat (- i)) else nat_text (nat i))"

section \<open>Order of texts\<close>

fun str_le :: "string \<Rightarrow> string \<Rightarrow> bool" where
  "str_le [] t = True"
| "str_le (c # s) [] = False"
| "str_le (c # s) (d # t) = ((of_char c :: nat) < of_char d \<or> (c = d \<and> str_le s t))"

fun insert_by :: "('a \<Rightarrow> 'a \<Rightarrow> bool) \<Rightarrow> 'a \<Rightarrow> 'a list \<Rightarrow> 'a list" where
  "insert_by le x [] = [x]"
| "insert_by le x (y # ys) = (if le x y then x # y # ys else y # insert_by le x ys)"

definition sort_by :: "('a \<Rightarrow> 'a \<Rightarrow> bool) \<Rightarrow> 'a list \<Rightarrow> 'a list" where
  \<comment> \<open>stable: an element goes before the later ones it is not above\<close>
  "sort_by le xs = foldr (insert_by le) xs []"

lemma mset_insert_by [simp]: "mset (insert_by le x ys) = add_mset x (mset ys)"
  by (induction ys) auto

lemma mset_sort_by [simp]: "mset (sort_by le xs) = mset xs"
  by (induction xs) (simp_all add: sort_by_def)

lemma set_sort_by [simp]: "set (sort_by le xs) = set xs"
  using mset_eq_setD [OF mset_sort_by] .

lemma length_sort_by [simp]: "length (sort_by le xs) = length xs"
  using mset_eq_length [OF mset_sort_by] .

lemma distinct_sort_by [simp]: "distinct (sort_by le xs) = distinct xs"
  by (rule mset_eq_imp_distinct_iff) simp

lemma sorted_insert_by:
  assumes total: "\<And>a b. le a b \<or> le b a" and trans: "\<And>a b c. le a b \<Longrightarrow> le b c \<Longrightarrow> le a c"
    and s: "sorted_wrt le ys"
  shows "sorted_wrt le (insert_by le x ys)"
  using s
proof (induction ys)
  case (Cons y ys)
  have sub: "set (insert_by le x ys) = insert x (set ys)"
    by (rule mset_eq_setD [of _ "x # ys", simplified]) simp
  show ?case
  proof (cases "le x y")
    case True
    then show ?thesis using Cons.prems trans by auto
  next
    case False
    then have "le y x" using total by blast
    then show ?thesis using False Cons sub by auto
  qed
qed simp

lemma sorted_sort_by:
  assumes "\<And>a b. le a b \<or> le b a" and "\<And>a b c. le a b \<Longrightarrow> le b c \<Longrightarrow> le a c"
  shows "sorted_wrt le (sort_by le xs)"
  by (induction xs) (simp_all add: sort_by_def sorted_insert_by [OF assms])

lemma str_le_total: "str_le s t \<or> str_le t s"
proof (induction s t rule: str_le.induct)
  case (3 c s d t)
  show ?case
  proof (cases "(of_char c :: nat) = of_char d")
    case True
    then have "c = d" by (metis char_of_char)
    then show ?thesis using "3" by auto
  next
    case False
    then have "(of_char c :: nat) < of_char d \<or> (of_char d :: nat) < of_char c" by (rule nat_neq_iff [THEN iffD1])
    then show ?thesis by auto
  qed
qed auto

lemma str_le_trans: "str_le r s \<Longrightarrow> str_le s t \<Longrightarrow> str_le r t"
proof (induction r s arbitrary: t rule: str_le.induct)
  case (3 c s d t')
  then show ?case by (cases t) auto
next
  case (2 c s)
  then show ?case by simp
qed simp

lemma str_le_refl [simp]: "str_le s s"
  by (induction s) auto

section \<open>repr\<close>

definition hex_digit :: "nat \<Rightarrow> char" where
  "hex_digit n = (if n < 10 then char_of (48 + n) else char_of (87 + n))"

definition repr_char :: "char \<Rightarrow> char \<Rightarrow> string" where
  "repr_char q c = (let n = (of_char c :: nat) in
     if c = q \<or> n = 92 then [char_of (92::nat), c]
     else if n = 10 then [char_of (92::nat), CHR ''n'']
     else if n = 13 then [char_of (92::nat), CHR ''r'']
     else if n = 9 then [char_of (92::nat), CHR ''t'']
     else if n < 32 \<or> n = 127
     then [char_of (92::nat), CHR ''x'', hex_digit (n div 16), hex_digit (n mod 16)]
     else [c])"

definition repr_str :: "string \<Rightarrow> string" where
  "repr_str s =
     (let q = (if CHR 0x27 \<in> set s \<and> CHR 0x22 \<notin> set s then CHR 0x22 else CHR 0x27)
      in [q] @ concat (map (repr_char q) s) @ [q])"

fun py_repr :: "(rat \<Rightarrow> string) \<Rightarrow> json \<Rightarrow> string" where
  "py_repr fl JNull = ''None''"
| "py_repr fl (JBool b) = (if b then ''True'' else ''False'')"
| "py_repr fl (JInt i) = int_text i"
| "py_repr fl (JFloat r) = fl r"
| "py_repr fl (JStr s) = repr_str s"
| "py_repr fl (JList vs) = ''['' @ join '', '' (map (py_repr fl) vs) @ '']''"
| "py_repr fl (JObj kvs) = ''{'' @ join '', '' (map (\<lambda>(k, v). repr_str k @ '': '' @ py_repr fl v) kvs) @ ''}''"

definition py_str :: "(rat \<Rightarrow> string) \<Rightarrow> json \<Rightarrow> string" where
  "py_str fl v = (case v of JStr s \<Rightarrow> s | _ \<Rightarrow> py_repr fl v)"

section \<open>json.dumps\<close>

definition json_char :: "char \<Rightarrow> string" where
  "json_char c = (let n = (of_char c :: nat) in
     if n = 34 \<or> n = 92 then [char_of (92::nat), c]
     else if n = 10 then [char_of (92::nat), CHR ''n'']
     else if n = 13 then [char_of (92::nat), CHR ''r'']
     else if n = 9 then [char_of (92::nat), CHR ''t'']
     else if n = 12 then [char_of (92::nat), CHR ''f'']
     else if n = 8 then [char_of (92::nat), CHR ''b'']
     else if n < 32 then char_of (92::nat) # ''u00'' @ [hex_digit (n div 16), hex_digit (n mod 16)]
     else [c])"

definition json_str :: "string \<Rightarrow> string" where
  "json_str s = [CHR 0x22] @ concat (map json_char s) @ [CHR 0x22]"

fun dumps :: "(rat \<Rightarrow> string) \<Rightarrow> json \<Rightarrow> string" where
  "dumps fl JNull = ''null''"
| "dumps fl (JBool b) = (if b then ''true'' else ''false'')"
| "dumps fl (JInt i) = int_text i"
| "dumps fl (JFloat r) = fl r"
| "dumps fl (JStr s) = json_str s"
| "dumps fl (JList vs) = ''['' @ join '','' (map (dumps fl) vs) @ '']''"
| "dumps fl (JObj kvs) = ''{'' @ join '',''
     (map snd (sort_by (\<lambda>a b. str_le (fst a) (fst b))
        (map (\<lambda>(k, v). (k, json_str k @ '':'' @ dumps fl v)) kvs))) @ ''}''"

fun dumps_plain :: "(rat \<Rightarrow> string) \<Rightarrow> json \<Rightarrow> string" where
  \<comment> \<open>\<open>json.dumps(value, ensure_ascii=False)\<close>: insertion order, blanks after separators\<close>
  "dumps_plain fl JNull = ''null''"
| "dumps_plain fl (JBool b) = (if b then ''true'' else ''false'')"
| "dumps_plain fl (JInt i) = int_text i"
| "dumps_plain fl (JFloat r) = fl r"
| "dumps_plain fl (JStr s) = json_str s"
| "dumps_plain fl (JList vs) = ''['' @ join '', '' (map (dumps_plain fl) vs) @ '']''"
| "dumps_plain fl (JObj kvs) = ''{'' @ join '', '' (map (\<lambda>(k, v). json_str k @ '': '' @ dumps_plain fl v) kvs) @ ''}''"

text \<open>The order of an object's keys does not matter to the canonical form.\<close>

lemma str_le_antisym: "str_le s t \<Longrightarrow> str_le t s \<Longrightarrow> s = t"
proof (induction s t rule: str_le.induct)
  case (1 t)
  then show ?case by (cases t) auto
qed auto

lemma sort_by_keys_unique:
  fixes xs ys :: "(string \<times> 'a) list"
  assumes "mset xs = mset ys" and "distinct (map fst xs)"
  shows "sort_by (\<lambda>a b. str_le (fst a) (fst b)) xs = sort_by (\<lambda>a b. str_le (fst a) (fst b)) ys"
    (is "?f xs = ?f ys")
proof -
  let ?le = "\<lambda>a b. str_le (fst a) (fst b)"
  have so: "sorted_wrt ?le (?f zs)" for zs :: "(string \<times> 'a) list"
    by (rule sorted_sort_by) (rule str_le_total, rule str_le_trans)
  have m: "mset (?f xs) = mset (?f ys)" using assms(1) by simp
  have d: "distinct (map fst (?f xs))"
    using assms(2) by (metis distinct_map mset_sort_by distinct_sort_by set_sort_by)
  have "sorted_wrt ?le us \<Longrightarrow> sorted_wrt ?le vs \<Longrightarrow> mset us = mset vs \<Longrightarrow> distinct (map fst us) \<Longrightarrow> us = vs"
    for us vs :: "(string \<times> 'a) list"
  proof (induction us arbitrary: vs)
    case (Cons u us)
    then obtain v vs' where vs: "vs = v # vs'" by (cases vs) auto
    have "u \<in> set vs" "v \<in> set (u # us)"
      using Cons.prems(3) vs by (metis list.set_intros(1) mset_eq_setD)+
    have "fst u = fst v"
    proof (cases "u = v")
      case False
      then have "v \<in> set us" "u \<in> set vs'" using \<open>v \<in> set (u # us)\<close> \<open>u \<in> set vs\<close> vs by auto
      then have "?le u v" "?le v u" using Cons.prems(1,2) vs by auto
      then show ?thesis by (rule str_le_antisym)
    qed simp
    then have "u = v" using \<open>v \<in> set (u # us)\<close> Cons.prems(4) by (auto simp: rev_image_eqI)
    then show ?case using Cons vs by simp
  qed simp
  from this [OF so so m d] show ?thesis .
qed

theorem dumps_key_order:
  assumes "mset kvs = mset kvs'" and "distinct (map fst kvs)"
  shows "dumps fl (JObj kvs) = dumps fl (JObj kvs')"
proof -
  let ?g = "\<lambda>(k, v). (k, json_str k @ '':'' @ dumps fl v)"
  have m: "mset (map ?g kvs) = mset (map ?g kvs')" using assms(1) by simp
  have k: "map fst (map ?g kvs) = map fst kvs" by auto
  have "distinct (map fst (map ?g kvs))" unfolding k by (rule assms(2))
  from sort_by_keys_unique [OF m this] show ?thesis by simp
qed

section \<open>Truth values\<close>

fun json_truthy :: "json \<Rightarrow> bool" where
  "json_truthy JNull = False"
| "json_truthy (JBool b) = b"
| "json_truthy (JInt i) = (i \<noteq> 0)"
| "json_truthy (JFloat r) = (r \<noteq> 0)"
| "json_truthy (JStr s) = (s \<noteq> [])"
| "json_truthy (JList vs) = (vs \<noteq> [])"
| "json_truthy (JObj kvs) = (kvs \<noteq> [])"

end
