(* ===== verification/Tool_Registry.thy ===== *)
theory Tool_Registry
  imports PyJson
begin

text \<open>
  \<open>server/tool_registry.py\<close>: tool descriptors, schema checks, and the registry that discovery fills.
  The JSON-schema library is a parameter; what a provider lists and answers are inputs.
\<close>

section \<open>Descriptors\<close>

datatype provider_type = Native | Mcp

datatype operation = Op_read | Op_write | Op_delete | Op_execute

datatype risk = Low | Medium | High | Critical

record tool =
  tl_name :: string
  tl_provider :: ident
  tl_provider_type :: provider_type
  tl_description :: string
  tl_input_schema :: json
  tl_capability :: string
  tl_operation :: operation
  tl_risk :: risk
  tl_requires_approval :: bool
  tl_enabled :: bool
  tl_metadata :: "(string, json) dict"

definition remote_name :: "tool \<Rightarrow> string option" where
  "remote_name t = (case map_of (tl_metadata t) ''remote_name'' of Some (JStr s) \<Rightarrow> Some s | _ \<Rightarrow> None)"

record tool_result =
  tx_success :: bool
  tx_structured :: json
  tx_error_type :: "string option"

section \<open>Schemas\<close>

record schema_lib =
  sl_check :: "json \<Rightarrow> bool"             \<comment> \<open>the meta-schema check\<close>
  sl_valid :: "json \<Rightarrow> json \<Rightarrow> bool"     \<comment> \<open>\<open>validate\<close> of an instance\<close>

definition bad_ref :: "(string \<times> json) list \<Rightarrow> string \<Rightarrow> bool" where
  "bad_ref kvs kw = (case map_of kvs kw of
     None \<Rightarrow> False | Some (JStr s) \<Rightarrow> \<not> starts_with ''#'' s | Some _ \<Rightarrow> True)"

fun external_ref :: "json \<Rightarrow> bool" where
  "external_ref (JObj kvs) =
     (list_ex (bad_ref kvs) [''$ref'', ''$dynamicRef'', ''$recursiveRef'']
      \<or> list_ex (\<lambda>(k, v). external_ref v) kvs)"
| "external_ref (JList vs) = list_ex external_ref vs"
| "external_ref _ = False"

definition check_schema :: "schema_lib \<Rightarrow> json \<Rightarrow> unit result" where
  "check_schema lib schema =
     (if external_ref schema then Inl (Value_Error ''External schema references are disabled'')
      else guard (sl_check lib schema) (Provider_Error ''SchemaError''))"

definition validate_arguments :: "schema_lib \<Rightarrow> tool \<Rightarrow> json \<Rightarrow> unit result" where
  "validate_arguments lib t args =
     rbind (check_schema lib (tl_input_schema t)) (\<lambda>_.
       guard (sl_valid lib (tl_input_schema t) args) (Provider_Error ''ValidationError''))"

section \<open>The registry\<close>

record registry =
  rg_providers :: "ident list"
  rg_definitions :: "(string, tool) dict"
  rg_health :: "(ident, string) dict"

definition empty_registry :: registry where
  "empty_registry = \<lparr>rg_providers = [], rg_definitions = [], rg_health = []\<rparr>"

definition register_provider :: "ident \<Rightarrow> registry \<Rightarrow> registry result" where
  "register_provider p reg =
     (if p \<in> set (rg_providers reg) then Inl (Value_Error ''Provider already registered'')
      else Inr (reg\<lparr>rg_providers := rg_providers reg @ [p],
                    rg_health := dict_put p ''not_connected'' (rg_health reg)\<rparr>))"

text \<open>The discovered tools of one provider, checked one by one.\<close>

fun propose :: "schema_lib \<Rightarrow> ident \<Rightarrow> (string, tool) dict \<Rightarrow> tool list \<Rightarrow> (string, tool) dict result" where
  "propose lib key acc [] = Inr acc"
| "propose lib key acc (t # ts) =
     rbind (check_schema lib (tl_input_schema t)) (\<lambda>_.
       if tl_provider t \<noteq> key \<or> tl_name t \<in> fst ` set acc
       then Inl (Value_Error ''Invalid or duplicate discovery name'')
       else propose lib key (acc @ [(tl_name t, t)]) ts)"

definition adopt :: "ident \<Rightarrow> (string, tool) dict \<Rightarrow> (string, tool) dict \<Rightarrow> (string, tool) dict result" where
  "adopt key proposed defs =
     (let foreign = filter (\<lambda>(n, d). tl_provider d \<noteq> key) defs in
      if list_ex (\<lambda>(n, d). n \<in> fst ` set proposed) foreign
      then Inl (Value_Error ''Canonical name collision'')
      else Inr (foreign @ proposed))"

text \<open>\<open>refresh\<close>: a failed discovery marks the provider and keeps the definitions it had.\<close>

definition refresh_one ::
  "schema_lib \<Rightarrow> (ident \<Rightarrow> tool list result) \<Rightarrow> ident \<Rightarrow> registry \<Rightarrow> registry result" where
  "refresh_one lib discover key reg =
     (if key \<notin> set (rg_providers reg) then Inl (Tool_Unavailable ''Unknown provider'')
      else case rbind (discover key) (\<lambda>ts. rbind (propose lib key [] ts) (\<lambda>p. adopt key p (rg_definitions reg))) of
             Inl _ \<Rightarrow> Inr (reg\<lparr>rg_health := dict_put key ''unavailable'' (rg_health reg)\<rparr>)
           | Inr defs \<Rightarrow> Inr (reg\<lparr>rg_definitions := defs,
                                 rg_health := dict_put key ''connected'' (rg_health reg)\<rparr>))"

definition list_tools :: "(string, tool) dict \<Rightarrow> bool \<Rightarrow> tool list" where
  "list_tools defs enabled_only = filter (\<lambda>t. \<not> enabled_only \<or> tl_enabled t) (map snd defs)"

definition refresh_registry ::
  "schema_lib \<Rightarrow> (ident \<Rightarrow> tool list result) \<Rightarrow> ident option \<Rightarrow> registry \<Rightarrow> (registry \<times> tool list) result" where
  "refresh_registry lib discover pid reg =
     rbind (rfold (\<lambda>r key. refresh_one lib discover key r) reg
              (if truthy pid then [the pid] else rg_providers reg)) (\<lambda>r.
       Inr (r, list_tools (rg_definitions r) False))"

definition get_tool :: "(string, tool) dict \<Rightarrow> string \<Rightarrow> tool result" where
  "get_tool defs name = (case map_of defs name of
     Some t \<Rightarrow> (if tl_enabled t then Inr t else Inl (Tool_Unavailable ''Tool is unavailable or disabled''))
   | None \<Rightarrow> Inl (Tool_Unavailable ''Tool is unavailable or disabled''))"

definition find_by_capability :: "(string, tool) dict \<Rightarrow> string \<Rightarrow> tool list result" where
  "find_by_capability defs cap =
     (let r = filter (\<lambda>t. tl_capability t = cap) (list_tools defs True) in
      if r = [] then Inl (Tool_Unavailable (''Capability unavailable: '' @ cap))
      else Inr (sort_by (\<lambda>a b. str_le (tl_name a) (tl_name b)) r))"

text \<open>
  \<open>call_tool\<close>: \<open>call_guard\<close> is the registry's guard, \<open>provider_call\<close> the provider's answer.  Without a
  snapshot the current definitions are used.
\<close>

definition call_tool ::
  "schema_lib \<Rightarrow> (tool \<Rightarrow> json \<Rightarrow> ident option \<Rightarrow> unit result) \<Rightarrow>
   (ident \<Rightarrow> string \<Rightarrow> json \<Rightarrow> tool_result result) \<Rightarrow> registry \<Rightarrow> string \<Rightarrow> json \<Rightarrow>
   (string, tool) dict option \<Rightarrow> ident option \<Rightarrow> tool_result result" where
  "call_tool lib call_guard provider_call reg name args snapshot execution_id =
     rbind (get_tool (case snapshot of Some s \<Rightarrow> s | None \<Rightarrow> rg_definitions reg) name) (\<lambda>t.
     rbind (validate_arguments lib t args) (\<lambda>_.
     rbind (call_guard t args execution_id) (\<lambda>_.
       if tl_provider t \<notin> set (rg_providers reg)
          \<or> map_of (rg_health reg) (tl_provider t) \<noteq> Some ''connected''
       then Inl (Tool_Unavailable ''Provider unavailable'')
       else provider_call (tl_provider t)
              (case remote_name t of None \<Rightarrow> name | Some r \<Rightarrow> r) args)))"

section \<open>Native tools\<close>

definition native_capabilities :: "(string \<times> string) list" where
  "native_capabilities =
     [(''search_workspace'', ''workspace.search''), (''search_pdf'', ''document.search''),
      (''search_web'', ''web.search''), (''search_arxiv'', ''arxiv.search''),
      (''inspect_dataset'', ''dataset.inspect''), (''analyze_data'', ''data.analyze'')]"

definition native_descriptor :: "string \<times> string \<times> json \<Rightarrow> tool" where
  "native_descriptor x = (case x of (name, desc, schema) \<Rightarrow>
     \<lparr>tl_name = ''native.'' @ name, tl_provider = ''native'', tl_provider_type = Native,
      tl_description = desc, tl_input_schema = schema,
      tl_capability = dict_get native_capabilities name (''native.'' @ name),
      tl_operation = (if name = ''analyze_data'' then Op_execute else Op_read),
      tl_risk = (if name = ''analyze_data'' then Medium else Low),
      tl_requires_approval = False, tl_enabled = True, tl_metadata = [(''remote_name'', JStr name)]\<rparr>)"

section \<open>Registry lemmas\<close>

text \<open>Every definition is filed under its own name, once, and belongs to a registered provider.\<close>

definition registry_ok :: "registry \<Rightarrow> bool" where
  "registry_ok reg = (distinct (map fst (rg_definitions reg))
     \<and> (\<forall>(n, t)\<in>set (rg_definitions reg). tl_name t = n \<and> tl_provider t \<in> set (rg_providers reg)))"

lemma propose_ok:
  "propose lib key acc ts = Inr p \<Longrightarrow> distinct (map fst acc) \<Longrightarrow>
   \<forall>(n, t)\<in>set acc. tl_name t = n \<and> tl_provider t = key \<Longrightarrow>
   distinct (map fst p) \<and> (\<forall>(n, t)\<in>set p. tl_name t = n \<and> tl_provider t = key)"
  by (induction lib key acc ts rule: propose.induct) (auto simp: rbind_Inr_iff split: if_splits)

lemma adopt_ok:
  assumes "adopt key p defs = Inr defs'" and "distinct (map fst defs)" and "distinct (map fst p)"
  shows "defs' = filter (\<lambda>(n, d). tl_provider d \<noteq> key) defs @ p" and "distinct (map fst defs')"
proof -
  let ?f = "filter (\<lambda>(n, d). tl_provider d \<noteq> key) defs"
  from assms(1) show eq: "defs' = ?f @ p"
    by (auto simp: adopt_def Let_def split: if_splits)
  have "\<forall>(n, d)\<in>set ?f. n \<notin> fst ` set p"
    using assms(1) by (auto simp: adopt_def Let_def list_ex_iff split: if_splits)
  then have "fst ` set ?f \<inter> fst ` set p = {}" by force
  moreover have "distinct (map fst ?f)" using assms(2) by (rule distinct_map_filter)
  ultimately show "distinct (map fst defs')" using assms(3) by (simp add: eq)
qed

lemma refresh_one_Inr:
  assumes "refresh_one lib discover key reg = Inr reg'"
  obtains (failed) "rg_definitions reg' = rg_definitions reg" "rg_providers reg' = rg_providers reg"
    | (adopted) p ts where "discover key = Inr ts" "propose lib key [] ts = Inr p"
        "adopt key p (rg_definitions reg) = Inr (rg_definitions reg')" "rg_providers reg' = rg_providers reg"
        "key \<in> set (rg_providers reg)"
  using assms by (auto simp: refresh_one_def rbind_Inr_iff split: if_splits sum.splits)

lemma refresh_one_ok:
  assumes "refresh_one lib discover key reg = Inr reg'" and "registry_ok reg"
  shows "registry_ok reg' \<and> rg_providers reg' = rg_providers reg"
  using assms(1)
proof (cases rule: refresh_one_Inr)
  case (adopted p ts)
  have "distinct (map fst p)" "\<forall>(n, t)\<in>set p. tl_name t = n \<and> tl_provider t = key"
    using propose_ok [OF adopted(2)] by simp_all
  with adopt_ok [OF adopted(3)] assms(2) adopted(4,5) show ?thesis
    by (auto simp: registry_ok_def)
qed (use assms(2) in \<open>simp add: registry_ok_def\<close>)

lemma find_map_of: "(k, v) \<in> set xs \<Longrightarrow> distinct (map fst xs) \<Longrightarrow> map_of xs k = Some v"
  by simp

section \<open>Discovery as a machine\<close>

datatype registry_op =
    G_register ident
  | G_refresh schema_lib "ident \<Rightarrow> tool list result" ident

fun registry_exec :: "registry_op \<Rightarrow> registry \<Rightarrow> registry" where
  "registry_exec (G_register p) reg = (case register_provider p reg of Inl _ \<Rightarrow> reg | Inr r \<Rightarrow> r)"
| "registry_exec (G_refresh lib discover key) reg =
     (case refresh_one lib discover key reg of Inl _ \<Rightarrow> reg | Inr r \<Rightarrow> r)"

lemma registry_exec_ok: "registry_ok reg \<Longrightarrow> registry_ok (registry_exec x reg)"
proof (cases x)
  case (G_register p)
  then show "registry_ok reg \<Longrightarrow> ?thesis"
    by (auto simp: register_provider_def registry_ok_def)
next
  case (G_refresh lib discover key)
  then show "registry_ok reg \<Longrightarrow> ?thesis" by (auto simp: refresh_one_ok split: sum.split)
qed

interpretation registry: guarded_machine registry_exec "\<lambda>reg x. True" registry_ok
  by unfold_locales (rule registry_exec_ok)

lemma get_tool_Inr: "get_tool defs name = Inr t \<longleftrightarrow> map_of defs name = Some t \<and> tl_enabled t"
  by (auto simp: get_tool_def split: option.splits)

text \<open>
  Discovery is isolated per provider.  In every reachable registry each tool is filed once, under
  its own name and a registered provider; a refresh of one provider keeps the other providers' tools
  exactly as they were, in order; whatever it adds belongs to that provider; and a discovery that fails
  changes no definition at all.
\<close>

theorem discovery_is_isolated:
  assumes "registry.reaches empty_registry reg" and "refresh_one lib discover key reg = Inr reg'"
  shows "distinct (map fst (rg_definitions reg'))
    \<and> (\<forall>(n, t)\<in>set (rg_definitions reg'). tl_name t = n \<and> tl_provider t \<in> set (rg_providers reg'))
    \<and> filter (\<lambda>(n, t). tl_provider t \<noteq> key) (rg_definitions reg') =
       filter (\<lambda>(n, t). tl_provider t \<noteq> key) (rg_definitions reg)
    \<and> (\<not> is_ok (discover key) \<longrightarrow> rg_definitions reg' = rg_definitions reg)"
proof -
  have "registry_ok empty_registry" by (simp add: registry_ok_def empty_registry_def)
  then have ok: "registry_ok reg" by (rule registry.reaches_invar [OF assms(1)])
  have ok': "registry_ok reg'" using refresh_one_ok [OF assms(2) ok] by simp
  have "filter (\<lambda>(n, t). tl_provider t \<noteq> key) (rg_definitions reg') =
       filter (\<lambda>(n, t). tl_provider t \<noteq> key) (rg_definitions reg)
    \<and> (\<not> is_ok (discover key) \<longrightarrow> rg_definitions reg' = rg_definitions reg)"
    using assms(2)
  proof (cases rule: refresh_one_Inr)
    case (adopted p ts)
    have p: "distinct (map fst p)" "\<forall>(n, t)\<in>set p. tl_name t = n \<and> tl_provider t = key"
      using propose_ok [OF adopted(2)] by simp_all
    have "rg_definitions reg' = filter (\<lambda>(n, d). tl_provider d \<noteq> key) (rg_definitions reg) @ p"
      using adopt_ok(1) [OF adopted(3) _ p(1)] ok by (simp add: registry_ok_def)
    moreover have "filter (\<lambda>(n, t). tl_provider t \<noteq> key) p = []"
      using p(2) by (auto simp: filter_empty_conv)
    ultimately show ?thesis using adopted(1) by (simp add: case_prod_unfold)
  qed simp
  then show ?thesis using ok' unfolding registry_ok_def by blast
qed

theorem discovery_is_isolated_witness:
  "\<exists>reg'. refresh_one \<lparr>sl_check = (\<lambda>s. True), sl_valid = (\<lambda>s v. True)\<rparr>
      (\<lambda>k. Inr [native_descriptor (''search_pdf'', ''d'', JObj [])]) ''native''
      (registry_exec (G_register ''native'') empty_registry) = Inr reg'
    \<and> distinct (map fst (rg_definitions reg')) \<and> map fst (rg_definitions reg') = [''native.search_pdf'']"
proof -
  let ?l = "\<lparr>sl_check = (\<lambda>s. True), sl_valid = (\<lambda>s v. True)\<rparr>"
  let ?d = "\<lambda>k. Inr [native_descriptor (''search_pdf'', ''d'', JObj [])]"
  let ?g = "registry_exec (G_register ''native'') empty_registry"
  have "(case refresh_one ?l ?d ''native'' ?g of Inl _ \<Rightarrow> False
     | Inr r \<Rightarrow> map fst (rg_definitions r) = [''native.search_pdf''])" by code_simp
  then obtain r where r: "refresh_one ?l ?d ''native'' ?g = Inr r" "map fst (rg_definitions r) = [''native.search_pdf'']"
    by (auto split: sum.splits)
  have "registry.reaches empty_registry ?g" by (rule registry.reaches.step [OF registry.reaches.refl]) simp
  from discovery_is_isolated [OF this r(1)] have "distinct (map fst (rg_definitions r))" by (elim conjE)
  with r show ?thesis by (intro exI [of _ r] conjI)
qed

end
