(* ===== verification/Tool_Policy.thy ===== *)
theory Tool_Policy
  imports Tool_Registry
begin

text \<open>
  \<open>server/tool_policy.py\<close>: redaction of secrets, the local capability profile of MCP tools, and the
  decision of the policy.  A message of the agent framework is cleaned field by field, that is, as the
  JSON object of its fields; it is not modelled separately.
\<close>

section \<open>Redaction\<close>

definition mask :: string where
  "mask = ''[REDACTED]''"

definition secret_name_rx :: rx where
  "secret_name_rx = Alts [ILit ''token'', ILit ''secret'', ILit ''password'', ILit ''api_key'']"

definition secret_values :: "(string, json) dict \<Rightarrow> (string, json) dict \<Rightarrow> string list" where
  "secret_values environ config =
     sort_by (\<lambda>a b. length b \<le> length a)
       (fromkeys (concat (map (\<lambda>(k, v). case v of
            JStr s \<Rightarrow> if 8 \<le> length s \<and> found secret_name_rx k then [s] else [] | _ \<Rightarrow> [])
          (dict_merge environ config))))"

definition key_char :: "char \<Rightarrow> bool" where
  "key_char c = (is_alnum c \<or> c = CHR ''_'')"

definition token_rx :: rx where
  "token_rx = Seqs [WordB, Alts
     [Seqs [Lit ''gh'', Cls (\<lambda>c. c \<in> set ''pousr''), Lit ''_'', AtLeast 8 (Cls key_char)],
      Seqs [Lit ''github_pat_'', AtLeast 8 (Cls key_char)],
      Seqs [Lit ''sk-'', AtLeast 12 (Cls (\<lambda>c. key_char c \<or> c = CHR ''-''))]], WordB]"

definition secret_key_rx :: rx where
  "secret_key_rx = Seqs [Bol, Alts (map ILit [''authorization'', ''password'', ''api_key'',
     ''access_token'', ''token'', ''secret'']), Eol]"

definition clean_text :: "string list \<Rightarrow> string \<Rightarrow> string" where
  "clean_text vs s = sub token_rx (\<lambda>_. mask) (fold (\<lambda>p t. replace p mask t) vs s)"

fun clean :: "string list \<Rightarrow> json \<Rightarrow> json" where
  "clean vs (JStr s) = JStr (clean_text vs s)"
| "clean vs (JObj kvs) = JObj (map (\<lambda>(k, v). (k,
     if found secret_key_rx k \<and> (case v of JStr s \<Rightarrow> s \<noteq> [] | _ \<Rightarrow> False) then JStr mask
     else clean vs v)) kvs)"
| "clean vs (JList xs) = JList (map (clean vs) xs)"
| "clean vs v = v"

definition clean_entries :: "string list \<Rightarrow> (string, json) dict \<Rightarrow> (string, json) dict" where
  "clean_entries vs d = (case clean vs (JObj d) of JObj e \<Rightarrow> e | _ \<Rightarrow> d)"

definition require_safe :: "string list \<Rightarrow> json \<Rightarrow> unit result" where
  "require_safe vs args =
     guard (clean vs args = args) (Value_Error ''Secret-bearing tool arguments are prohibited'')"

section \<open>The local profile\<close>

definition github_reads :: "(string \<times> string) list" where
  "github_reads =
    [(''get_me'', ''github.context.read''), (''get_repository'', ''github.repo.read''),
     (''search_repositories'', ''github.repo.search''), (''get_file_contents'', ''github.file.read''),
     (''search_code'', ''github.code.search''), (''list_issues'', ''github.issue.list''),
     (''search_issues'', ''github.issue.search''), (''issue_read'', ''github.issue.read''),
     (''get_issue'', ''github.issue.read''), (''get_issue_comments'', ''github.issue.comments.read''),
     (''list_pull_requests'', ''github.pr.list''), (''search_pull_requests'', ''github.pr.search''),
     (''pull_request_read'', ''github.pr.read''), (''get_pull_request'', ''github.pr.read''),
     (''get_pull_request_files'', ''github.pr.files.read''), (''get_pull_request_diff'', ''github.pr.diff.read'')]"

definition github_writes :: "(string \<times> string) list" where
  "github_writes = [(''issue_write'', ''github.issue.create''), (''create_issue'', ''github.issue.create''),
     (''add_issue_comment'', ''github.issue.comment'')]"

definition local_profile :: "string \<Rightarrow> string \<Rightarrow> string \<times> operation \<times> risk \<times> bool" where
  "local_profile server name =
     (if server = ''github''
      then (case map_of github_reads name of
              Some c \<Rightarrow> (c, Op_read, Low, True)
            | None \<Rightarrow> (case map_of github_writes name of
                Some c \<Rightarrow> (c, Op_write, High, True)
              | None \<Rightarrow> (''github.unavailable.'' @ name, Op_execute, Critical, False)))
      else (server @ ''.'' @ name, Op_execute, High, True))"

section \<open>The policy\<close>

record policy_config =
  pc_read_only :: bool          \<comment> \<open>\<open>GITHUB_MCP_READ_ONLY\<close>\<close>
  pc_repositories :: string     \<comment> \<open>\<open>GITHUB_ALLOWED_REPOSITORIES\<close>\<close>
  pc_approve_writes :: bool
  pc_approve_deletes :: bool
  pc_auto_read :: bool
  pc_approval_enabled :: bool
  pc_secrets :: "string list"
  pc_float :: "rat \<Rightarrow> string"

record policy_decision =
  pd_requires_approval :: bool
  pd_reason :: string

fun operation_name :: "operation \<Rightarrow> string" where
  "operation_name Op_read = ''read''" | "operation_name Op_write = ''write''"
| "operation_name Op_delete = ''delete''" | "operation_name Op_execute = ''execute''"

fun risk_name :: "risk \<Rightarrow> string" where
  "risk_name Low = ''low''" | "risk_name Medium = ''medium''"
| "risk_name High = ''high''" | "risk_name Critical = ''critical''"

definition arg :: "(string \<times> json) list \<Rightarrow> string \<Rightarrow> json" where
  "arg args k = dict_get args k (JStr [])"

definition repository_of :: "policy_config \<Rightarrow> (string \<times> json) list \<Rightarrow> string" where
  "repository_of cfg args = casefold (py_str (pc_float cfg) (arg args ''owner'') @ ''/''
     @ py_str (pc_float cfg) (arg args ''repo''))"

definition allowed_repositories :: "policy_config \<Rightarrow> string list" where
  "allowed_repositories cfg =
     map (\<lambda>r. casefold (strip r)) (filter (\<lambda>r. strip r \<noteq> []) (split_on (CHR '','') [] (pc_repositories cfg)))"

definition write_fields :: "string \<Rightarrow> string list" where
  "write_fields name =
     (if name = ''create_issue'' then [''owner'', ''repo'', ''title'', ''body'']
      else if name = ''issue_write'' then [''owner'', ''repo'', ''title'', ''body'', ''method'']
      else [''owner'', ''repo'', ''issue_number'', ''body''])"

definition github_write :: "policy_config \<Rightarrow> tool \<Rightarrow> (string \<times> json) list \<Rightarrow> unit result" where
  "github_write cfg t args =
     (if pc_read_only cfg then Inl (Tool_Unavailable ''GitHub write tools disabled by read-only mode'')
      else if repository_of cfg args \<notin> set (allowed_repositories cfg)
      then Inl (Permission_Error ''Repository is outside the write allowlist'')
      else case remote_name t of
        None \<Rightarrow> Inl (Key_Error ''remote_name'')
      | Some name \<Rightarrow>
          guard (set (map fst args) \<subseteq> set (write_fields name)
                 \<and> (name = ''issue_write'' \<longrightarrow> map_of args ''method'' = Some (JStr ''create'')))
            (Permission_Error ''Only issue creation and comments are enabled''))"

definition effective_profile :: "tool \<Rightarrow> (operation \<times> risk) result" where
  "effective_profile t =
     (if tl_provider_type t = Mcp
      then (case remote_name t of
              None \<Rightarrow> Inl (Key_Error ''remote_name'')
            | Some name \<Rightarrow>
                (case local_profile (tl_provider t) name of (c, oper, rk, enabled) \<Rightarrow>
                   if enabled then Inr (oper, rk)
                   else Inl (Tool_Unavailable ''Tool is outside the local capability profile'')))
      else Inr (tl_operation t, tl_risk t))"

definition approval_required :: "policy_config \<Rightarrow> tool \<Rightarrow> operation \<Rightarrow> risk \<Rightarrow> bool" where
  "approval_required cfg t oper rk =
     (let r = (oper \<in> {Op_write, Op_delete, Op_execute} \<or> rk \<in> {High, Critical} \<or> tl_requires_approval t);
          r' = (if tl_provider_type t = Native \<and> tl_name t = ''native.analyze_data'' \<and> rk = Medium
                then False else r)
      in r' \<or> (oper = Op_read \<and> \<not> pc_auto_read cfg))"

definition evaluate :: "policy_config \<Rightarrow> tool \<Rightarrow> (string \<times> json) list \<Rightarrow> policy_decision result" where
  "evaluate cfg t args =
     rbind (require_safe (pc_secrets cfg) (JObj args)) (\<lambda>_.
       if \<not> tl_enabled t then Inl (Tool_Unavailable ''Tool disabled by local policy'')
       else rbind (effective_profile t) (\<lambda>(oper, rk).
         rbind (if tl_provider t = ''github'' \<and> oper \<noteq> Op_read then github_write cfg t args else Inr ()) (\<lambda>_.
           if oper = Op_write \<and> \<not> pc_approve_writes cfg
           then Inl (Permission_Error ''Write approvals disabled: writes are unavailable'')
           else if oper = Op_delete \<and> \<not> pc_approve_deletes cfg
           then Inl (Permission_Error ''Delete approvals disabled: deletes are unavailable'')
           else
             let required = approval_required cfg t oper rk in
             if required \<and> \<not> pc_approval_enabled cfg
             then Inl (Permission_Error ''Approval disabled: sensitive tools fail closed'')
             else Inr \<lparr>pd_requires_approval = required,
                       pd_reason = (if required
                         then operation_name oper @ ''/'' @ risk_name rk @ '': human approval required''
                         else ''Low-risk read permitted'')\<rparr>)))"

end
