(* ===== verification/Tool_Actions.thy ===== *)
theory Tool_Actions
  imports Tool_Policy
begin

text \<open>
  \<open>server/tool_actions.py\<close>: the durable ledger of tool intents, human approvals and single-claim
  executions.  SHA-256 and the writing of floats are parameters (\<open>hasher\<close>).
\<close>

section \<open>Records\<close>

record hasher =
  h_sha256 :: "string \<Rightarrow> string"
  h_float :: "rat \<Rightarrow> string"

definition arguments_hash :: "hasher \<Rightarrow> json \<Rightarrow> string" where
  "arguments_hash h v = h_sha256 h (dumps (h_float h) v)"

datatype exec_status =
    X_REQUESTED | X_WAITING_APPROVAL | X_RUNNING | X_SUCCEEDED | X_FAILED | X_REJECTED | X_CANCELLED

datatype approval_status = P_PENDING | P_APPROVED | P_REJECTED | P_EDITED | P_EXPIRED | P_CANCELLED

record execution =
  x_id :: ident
  x_intent_key :: string
  x_task_id :: "ident option"
  x_step_id :: "ident option"
  x_session_id :: "ident option"
  x_tool_name :: string
  x_provider :: ident
  x_capability :: string
  x_operation :: operation
  x_risk :: risk
  x_arguments_hash :: string
  x_approval_id :: "ident option"
  x_status :: exec_status
  x_requested_at :: time
  x_started_at :: "time option"
  x_completed_at :: "time option"
  x_duration_ms :: "rat option"
  x_result :: json
  x_error_type :: "string option"
  x_metadata :: "(string, json) dict"

record approval =
  p_id :: ident
  p_task_id :: ident
  p_step_id :: ident
  p_session_id :: "ident option"
  p_tool :: tool                        \<comment> \<open>\<open>descriptor\<close>, with the tool's name, provider, risk\<close>
  p_arguments :: "(string \<times> json) list"
  p_reason :: string
  p_status :: approval_status
  p_requested_at :: time
  p_decided_at :: "time option"
  p_decision :: "approval_status option"
  p_edited :: "(string \<times> json) list option"
  p_consumed_at :: "time option"
  p_execution_id :: ident

record action_db =
  ad_executions :: "execution list"
  ad_approvals :: "approval list"

record action_env =
  ae_now :: time
  ae_fresh :: "nat \<Rightarrow> ident"

record action_context =
  cx_task_id :: "ident option"
  cx_step_id :: "ident option"
  cx_session_id :: "ident option"
  cx_run_id :: string
  cx_tool_run_id :: "string option"
  cx_agent :: "(string \<times> string option) list"   \<comment> \<open>\<open>agent_id\<close>, \<open>delegation_id\<close>, \<open>supervisor_run_id\<close>\<close>

section \<open>Reading\<close>

definition get_execution :: "ident \<Rightarrow> action_db \<Rightarrow> execution result" where
  "get_execution i db = (case row_get x_id i (ad_executions db) of
     None \<Rightarrow> Inl (RecordNotFound i) | Some x \<Rightarrow> Inr x)"

definition get_approval :: "ident \<Rightarrow> action_db \<Rightarrow> approval result" where
  "get_approval i db = (case row_get p_id i (ad_approvals db) of
     None \<Rightarrow> Inl (RecordNotFound i) | Some p \<Rightarrow> Inr p)"

definition executions_of :: "ident option \<Rightarrow> action_db \<Rightarrow> execution list" where
  "executions_of tid db = filter (\<lambda>x. \<not> truthy tid \<or> x_task_id x = tid) (rev (ad_executions db))"

definition approvals_of :: "ident option \<Rightarrow> approval_status option \<Rightarrow> action_db \<Rightarrow> approval list" where
  "approvals_of tid st db = filter (\<lambda>p. (\<not> truthy tid \<or> Some (p_task_id p) = tid)
     \<and> (st = None \<or> Some (p_status p) = st)) (rev (ad_approvals db))"

definition put_execution :: "execution \<Rightarrow> action_db \<Rightarrow> action_db" where
  "put_execution x db = db\<lparr>ad_executions := row_put x_id x (ad_executions db)\<rparr>"

definition put_approval :: "approval \<Rightarrow> action_db \<Rightarrow> action_db" where
  "put_approval p db = db\<lparr>ad_approvals := row_put p_id p (ad_approvals db)\<rparr>"

section \<open>Requesting\<close>

definition opt_json :: "string option \<Rightarrow> json" where
  "opt_json x = (case x of None \<Rightarrow> JNull | Some s \<Rightarrow> JStr s)"

text \<open>Only an unapproved read or native call may repeat its intent (a fresh nonce in the key).\<close>

definition intent_key ::
  "hasher \<Rightarrow> action_env \<Rightarrow> tool \<Rightarrow> (string \<times> json) list \<Rightarrow> action_context \<Rightarrow> policy_decision \<Rightarrow> string" where
  "intent_key h env t args cx d = arguments_hash h (JList
     [JStr (if truthy (cx_task_id cx) then the (cx_task_id cx) else cx_run_id cx),
      opt_json (cx_step_id cx), JStr (tl_name t), JStr (arguments_hash h (JObj args)),
      if \<not> pd_requires_approval d \<and> (tl_operation t = Op_read \<or> tl_provider_type t = Native)
      then JStr (ae_fresh env 0) else JNull])"

definition new_execution ::
  "hasher \<Rightarrow> action_env \<Rightarrow> tool \<Rightarrow> (string \<times> json) list \<Rightarrow> action_context \<Rightarrow> string \<Rightarrow> execution" where
  "new_execution h env t args cx key = \<lparr>x_id = ae_fresh env 1, x_intent_key = key,
     x_task_id = cx_task_id cx, x_step_id = cx_step_id cx, x_session_id = cx_session_id cx,
     x_tool_name = tl_name t, x_provider = tl_provider t, x_capability = tl_capability t,
     x_operation = tl_operation t, x_risk = tl_risk t, x_arguments_hash = arguments_hash h (JObj args),
     x_approval_id = None, x_status = X_REQUESTED, x_requested_at = ae_now env, x_started_at = None,
     x_completed_at = None, x_duration_ms = None, x_result = JNull, x_error_type = None,
     x_metadata = (''run_id'', JStr (case cx_tool_run_id cx of None \<Rightarrow> cx_run_id cx | Some r \<Rightarrow> r))
       # concat (map (\<lambda>(k, v). if truthy v then [(k, JStr (the v))] else []) (cx_agent cx))\<rparr>"

definition new_approval ::
  "action_env \<Rightarrow> tool \<Rightarrow> (string \<times> json) list \<Rightarrow> policy_decision \<Rightarrow> execution \<Rightarrow> approval" where
  "new_approval env t args d x = \<lparr>p_id = ae_fresh env 2, p_task_id = the (x_task_id x),
     p_step_id = the (x_step_id x), p_session_id = x_session_id x, p_tool = t, p_arguments = args,
     p_reason = pd_reason d, p_status = P_PENDING, p_requested_at = ae_now env, p_decided_at = None,
     p_decision = None, p_edited = None, p_consumed_at = None, p_execution_id = x_id x\<rparr>"

text \<open>\<open>INSERT INTO approval_requests\<close>: primary key \<open>id\<close>, unique \<open>tool_execution_id\<close>.\<close>

definition insert_approval :: "approval \<Rightarrow> approval list \<Rightarrow> approval list result" where
  "insert_approval p ps =
     (if list_ex (\<lambda>q. p_execution_id q = p_execution_id p) ps
      then Inl (Integrity_Error ''approval_requests.tool_execution_id'') else row_insert p_id p ps)"

definition request_execution ::
  "hasher \<Rightarrow> action_env \<Rightarrow> tool \<Rightarrow> (string \<times> json) list \<Rightarrow> action_context \<Rightarrow> policy_decision \<Rightarrow> action_db \<Rightarrow>
   (action_db \<times> execution) result" where
  "request_execution h env t args cx d db =
     (let key = intent_key h env t args cx d in
      case find (\<lambda>x. x_intent_key x = key) (ad_executions db) of
        Some old \<Rightarrow> Inr (db, old)
      | None \<Rightarrow>
          (let x = new_execution h env t args cx key in
           rbind (row_insert x_id x (ad_executions db)) (\<lambda>xs.
             if \<not> pd_requires_approval d then Inr (db\<lparr>ad_executions := xs\<rparr>, x)
             else if \<not> truthy (x_task_id x) \<or> \<not> truthy (x_step_id x)
             then Inl (TaskConflict ''Sensitive tools require a Persistent Task'')
             else
               let p = new_approval env t args d x;
                   x' = x\<lparr>x_approval_id := Some (p_id p), x_status := X_WAITING_APPROVAL\<rparr>
               in rbind (insert_approval p (ad_approvals db)) (\<lambda>ps.
                    Inr (\<lparr>ad_executions = row_put x_id x' xs, ad_approvals = ps\<rparr>, x')))))"

section \<open>Deciding\<close>

text \<open>The arguments a decision approves: checked against the schema and the policy again.\<close>

definition recheck ::
  "schema_lib \<Rightarrow> policy_config \<Rightarrow> tool \<Rightarrow> (string \<times> json) list \<Rightarrow> unit result" where
  "recheck lib cfg t args =
     rbind (validate_arguments lib t (JObj args)) (\<lambda>_. rbind (evaluate cfg t args) (\<lambda>_. Inr ()))"

definition decided_approval ::
  "schema_lib \<Rightarrow> policy_config \<Rightarrow> approval_status \<Rightarrow> (string \<times> json) list \<Rightarrow> approval \<Rightarrow> approval result" where
  "decided_approval lib cfg decision edits p =
     (if decision = P_EDITED
      then (if edits = [] \<or> \<not> set (map fst edits) \<subseteq> {''title'', ''body''}
            then Inl (Value_Error ''Only title/body may be edited'')
            else let args = dict_merge (p_arguments p) edits in
              rbind (recheck lib cfg (p_tool p) args) (\<lambda>_. Inr (p\<lparr>p_edited := Some args\<rparr>)))
      else if decision = P_APPROVED
      then rbind (recheck lib cfg (p_tool p) (p_arguments p)) (\<lambda>_. Inr p)
      else Inr p)"

definition decide_approval ::
  "action_env \<Rightarrow> schema_lib \<Rightarrow> policy_config \<Rightarrow> ident \<Rightarrow> approval_status \<Rightarrow> (string \<times> json) list \<Rightarrow>
   action_db \<Rightarrow> (action_db \<times> approval) result" where
  "decide_approval env lib cfg aid decision edits db =
     rbind (get_approval aid db) (\<lambda>p.
       if p_status p \<noteq> P_PENDING \<or> p_consumed_at p \<noteq> None
       then Inl (TaskConflict ''Approval already decided or consumed'')
       else if decision \<notin> {P_APPROVED, P_EDITED, P_REJECTED}
       then Inl (Value_Error ''Invalid approval decision'')
       else rbind (decided_approval lib cfg decision edits p) (\<lambda>q.
         let q' = q\<lparr>p_status := decision, p_decision := Some decision, p_decided_at := Some (ae_now env)\<rparr>
         in Inr (put_approval q' db, q')))"

section \<open>Claiming and finishing\<close>

definition consume_approval ::
  "hasher \<Rightarrow> action_env \<Rightarrow> approval \<Rightarrow> execution \<Rightarrow> approval \<times> execution" where
  "consume_approval h env p x =
     (p\<lparr>p_consumed_at := Some (ae_now env)\<rparr>,
      case p_edited p of
        Some (kv # kvs) \<Rightarrow> x\<lparr>x_metadata := dict_put ''requested_arguments_hash''
                               (JStr (x_arguments_hash x)) (x_metadata x),
                            x_arguments_hash := arguments_hash h (JObj (kv # kvs))\<rparr>
      | _ \<Rightarrow> x)"

definition start_execution :: "action_env \<Rightarrow> execution \<Rightarrow> execution" where
  "start_execution env x = x\<lparr>x_status := X_RUNNING, x_started_at := Some (ae_now env)\<rparr>"

definition claim_execution ::
  "hasher \<Rightarrow> action_env \<Rightarrow> ident \<Rightarrow> action_db \<Rightarrow> (action_db \<times> (bool \<times> execution)) result" where
  "claim_execution h env i db =
     rbind (get_execution i db) (\<lambda>x.
       if x_status x \<in> {X_SUCCEEDED, X_REJECTED, X_CANCELLED} then Inr (db, False, x)
       else if x_status x \<in> {X_RUNNING, X_FAILED}
       then Inl (TaskConflict ''Prior action may have executed; reconcile before retrying'')
       else if \<not> truthy (x_approval_id x)
       then Inr (put_execution (start_execution env x) db, True, start_execution env x)
       else rbind (get_approval (the (x_approval_id x)) db) (\<lambda>p.
         if p_consumed_at p \<noteq> None \<or> p_status p = P_PENDING
         then Inl (TaskConflict ''Approval unavailable for consumption'')
         else if p_status p \<notin> {P_APPROVED, P_EDITED, P_REJECTED}
         then Inl (TaskConflict ''Approval cancelled or expired'')
         else
           let (p', x1) = consume_approval h env p x;
               db1 = put_approval p' db
           in if p_status p = P_REJECTED
              then let x2 = x1\<lparr>x_status := X_REJECTED, x_completed_at := Some (ae_now env),
                                x_result := JObj [(''status'', JStr ''REJECTED'')]\<rparr>
                   in Inr (put_execution x2 db1, False, x2)
              else Inr (put_execution (start_execution env x1) db1, True, start_execution env x1)))"

definition finish_execution ::
  "action_env \<Rightarrow> ident \<Rightarrow> bool \<Rightarrow> json \<Rightarrow> rat \<Rightarrow> string option \<Rightarrow> action_db \<Rightarrow> (action_db \<times> execution) result" where
  "finish_execution env i success summary duration err db =
     rbind (get_execution i db) (\<lambda>x.
       if x_status x \<noteq> X_RUNNING then Inl (TaskConflict ''Execution has no active claim'')
       else let x' = x\<lparr>x_status := (if success then X_SUCCEEDED else X_FAILED),
                       x_completed_at := Some (ae_now env), x_result := summary,
                       x_duration_ms := Some duration, x_error_type := err\<rparr>
            in Inr (put_execution x' db, x'))"

definition open_approval :: "approval \<Rightarrow> bool" where
  "open_approval p = (p_consumed_at p = None \<and> p_status p \<in> {P_PENDING, P_APPROVED, P_EDITED, P_REJECTED})"

definition cancel_one :: "action_env \<Rightarrow> action_db \<Rightarrow> approval \<Rightarrow> action_db result" where
  "cancel_one env db p =
     (if \<not> open_approval p then Inr db
      else let db1 = put_approval (p\<lparr>p_status := P_CANCELLED, p_decided_at := Some (ae_now env)\<rparr>) db
           in rbind (get_execution (p_execution_id p) db1) (\<lambda>x.
                Inr (if x_status x \<noteq> X_RUNNING
                     then put_execution (x\<lparr>x_status := X_CANCELLED, x_completed_at := Some (ae_now env)\<rparr>) db1
                     else db1)))"

definition cancel_pending :: "action_env \<Rightarrow> ident \<Rightarrow> action_db \<Rightarrow> action_db result" where
  "cancel_pending env tid db =
     rfold (cancel_one env) db (filter (\<lambda>p. p_task_id p = tid) (ad_approvals db))"

section \<open>The guard of sensitive calls\<close>

text \<open>\<open>guard_call\<close> of \<open>phase4.py\<close>, the registry's call guard.\<close>

definition guard_call ::
  "hasher \<Rightarrow> policy_config \<Rightarrow> action_db \<Rightarrow> tool \<Rightarrow> (string \<times> json) list \<Rightarrow> ident option \<Rightarrow> unit result" where
  "guard_call h cfg db t args execution_id =
     rbind (evaluate cfg t args) (\<lambda>d.
       if \<not> pd_requires_approval d then Inr ()
       else if \<not> truthy execution_id
       then Inl (TaskConflict ''Sensitive provider calls require a durable execution claim'')
       else rbind (get_execution (the execution_id) db) (\<lambda>x.
         if x_status x \<noteq> X_RUNNING \<or> x_tool_name x \<noteq> tl_name t
            \<or> x_arguments_hash x \<noteq> arguments_hash h (JObj args)
         then Inl (TaskConflict ''Execution claim does not match the call'')
         else case x_approval_id x of
           None \<Rightarrow> Inl (RecordNotFound [])
         | Some a \<Rightarrow> rbind (get_approval a db) (\<lambda>p.
             guard (p_consumed_at p \<noteq> None \<and> p_status p \<in> {P_APPROVED, P_EDITED})
               (TaskConflict ''Approval has not been consumed for this execution''))))"

end
