(* ===== verification/Tool_Policy_Laws.thy ===== *)
theory Tool_Policy_Laws
  imports Tool_Policy
begin

text \<open>
  What redaction and the policy guarantee: no configured secret is left in any text of a cleaned
  value, and a call that needs no approval is a low- or medium-risk read (or the one constrained native
  analysis), while GitHub writes stay inside the allowlist and the two enabled kinds of write.
\<close>

section \<open>Masked texts\<close>

text \<open>\<open>masks s t\<close>: \<open>t\<close> is \<open>s\<close> with some pieces (possibly empty) replaced by the mask.\<close>

inductive masks :: "string \<Rightarrow> string \<Rightarrow> bool" where
  nil: "masks [] []"
| keep: "masks s t \<Longrightarrow> masks (c # s) (c # t)"
| hide: "masks s t \<Longrightarrow> masks (u @ s) (mask @ t)"

lemma masks_refl: "masks s s"
  by (induction s) (auto intro: masks.intros)

lemma masks_append: "masks s t \<Longrightarrow> masks s' t' \<Longrightarrow> masks (s @ s') (t @ t')"
proof (induction rule: masks.induct)
  case (hide s t u)
  then show ?case using masks.hide [of "s @ s'" "t @ t'" u] by simp
qed (auto intro: masks.intros)

text \<open>A text that the mask cannot create: it has no bracket and is not part of the mask.\<close>

definition unmaskable :: "string \<Rightarrow> bool" where
  "unmaskable p = (CHR ''['' \<notin> set p \<and> CHR '']'' \<notin> set p \<and> p \<noteq> [] \<and> \<not> contains p ''REDACTED'')"

lemma starts_with_iff: "starts_with p s \<longleftrightarrow> (\<exists>r. s = p @ r)"
  by (induction p s rule: starts_with.induct) auto

lemma contains_iff: "contains p s \<longleftrightarrow> (\<exists>a b. s = a @ p @ b)"
proof (induction s)
  case (Cons c s)
  have "(\<exists>a b. c # s = a @ p @ b) \<longleftrightarrow> (\<exists>b. c # s = p @ b) \<or> (\<exists>a b. s = a @ p @ b)"
    by (metis append_Cons append_Nil list.exhaust list.inject)
  then show ?case using Cons by (simp add: starts_with_iff)
qed auto

lemma contains_drop: "contains p s \<Longrightarrow> contains p (u @ s)"
  by (auto simp: contains_iff) (metis append_assoc)

lemma masks_prefix: "masks s t \<Longrightarrow> CHR ''['' \<notin> set p \<Longrightarrow> starts_with p t \<Longrightarrow> starts_with p s"
proof (induction arbitrary: p rule: masks.induct)
  case (keep s t c)
  then show ?case by (cases p) auto
next
  case (hide s t u)
  then show ?case by (cases p) (auto simp: mask_def)
qed auto

lemma contains_mask_append:
  assumes "unmaskable p" and "contains p (mask @ t)"
  shows "contains p t"
proof (rule ccontr)
  assume n: "\<not> contains p t"
  have *: "\<not> contains p (m @ CHR '']'' # t)" if "\<not> contains p m" for m
    using that
  proof (induction m)
    case Nil
    then show ?case using assms(1) n by (cases p) (auto simp: unmaskable_def)
  next
    case (Cons c m)
    have "\<not> starts_with p (c # m @ CHR '']'' # t)"
    proof
      assume "starts_with p (c # m @ CHR '']'' # t)"
      then obtain r where r: "(c # m) @ CHR '']'' # t = p @ r" by (auto simp: starts_with_iff)
      from r obtain us where "c # m = p @ us \<or> p = (c # m) @ us \<and> CHR '']'' # t = us @ r"
        unfolding append_eq_append_conv2 by blast
      then show False
      proof (elim disjE conjE)
        assume "c # m = p @ us"
        then have "contains p (c # m)" unfolding contains_iff by (metis append_Nil)
        then show False using Cons.prems by simp
      next
        assume u: "p = (c # m) @ us" "CHR '']'' # t = us @ r"
        show False
        proof (cases us)
          case Nil
          then have "contains p (c # m)" using u(1) unfolding contains_iff by (metis append_Nil append_Nil2)
          then show False using Cons.prems by simp
        next
          case (Cons x xs)
          then show False using u assms(1) by (auto simp: unmaskable_def)
        qed
      qed
    qed
    then show ?case using Cons by simp
  qed
  have "\<not> contains p (''REDACTED'' @ CHR '']'' # t)" using assms(1) by (intro *) (simp add: unmaskable_def)
  then show False using assms by (cases p) (auto simp: mask_def unmaskable_def)
qed

lemma masks_contains:
  "masks s t \<Longrightarrow> unmaskable p \<Longrightarrow> contains p t \<Longrightarrow> contains p s"
proof (induction rule: masks.induct)
  case (keep s t c)
  have "masks (c # s) (c # t)" using keep.hyps by (rule masks.keep)
  then have "starts_with p (c # t) \<Longrightarrow> starts_with p (c # s)"
    using keep.prems(1) by (auto simp: unmaskable_def intro: masks_prefix)
  then show ?case using keep by auto
next
  case (hide s t u)
  then show ?case using contains_mask_append contains_drop by blast
qed

lemma masks_replace_fuel: "p \<noteq> [] \<Longrightarrow> masks s (replace_fuel n p mask s)"
proof (induction n arbitrary: s)
  case (Suc n)
  show ?case
  proof (cases s)
    case (Cons c r)
    have "masks (take (length p) s @ drop (length p) s) (mask @ replace_fuel n p mask (drop (length p) s))"
      using Suc by (intro masks.hide)
    then show ?thesis using Suc by (simp add: Cons masks.keep)
  qed (simp add: masks_refl)
qed (simp add: masks_refl)

lemma masks_replace: "masks s (replace p mask s)"
  by (simp add: replace_def masks_refl masks_replace_fuel)

lemma replace_removes_fuel:
  assumes p: "unmaskable p"
  shows "length s \<le> n \<Longrightarrow> \<not> contains p (replace_fuel n p mask s)"
proof (induction n arbitrary: s)
  case 0
  then show ?case using p by (simp add: unmaskable_def)
next
  case (Suc n)
  have ne: "p \<noteq> []" using p by (simp add: unmaskable_def)
  show ?case
  proof (cases s)
    case Nil
    then show ?thesis using ne by simp
  next
    case (Cons c r)
    show ?thesis
    proof (cases "starts_with p s")
      case True
      have "length (drop (length p) s) \<le> n" using ne Suc.prems by (cases p) auto
      then have "\<not> contains p (replace_fuel n p mask (drop (length p) s))" by (rule Suc.IH)
      then show ?thesis using True contains_mask_append [OF p] by (auto simp: Cons)
    next
      case False
      have "masks s (c # replace_fuel n p mask r)"
        unfolding Cons using masks_replace_fuel [OF ne] by (rule masks.keep)
      then have "\<not> starts_with p (c # replace_fuel n p mask r)"
        using False masks_prefix p by (auto simp: unmaskable_def)
      then show ?thesis using False Suc.IH [of r] Suc.prems Cons by simp
    qed
  qed
qed

lemma replace_removes: "unmaskable p \<Longrightarrow> \<not> contains p (replace p mask s)"
  by (simp add: replace_def replace_removes_fuel) (simp add: unmaskable_def)

lemma fold_replace_removes:
  assumes "unmaskable p"
  shows "p \<in> set vs \<or> \<not> contains p s \<Longrightarrow> \<not> contains p (fold (\<lambda>q t. replace q mask t) vs s)"
proof (induction vs arbitrary: s)
  case (Cons q vs)
  show ?case
  proof (cases "p = q")
    case True
    then show ?thesis using Cons.IH replace_removes [OF assms] by simp
  next
    case False
    then have "p \<in> set vs \<or> \<not> contains p (replace q mask s)"
      using Cons.prems masks_contains [OF masks_replace assms] by auto
    then show ?thesis using Cons.IH by simp
  qed
qed simp

section \<open>Masking the matches of a pattern\<close>

lemma masks_find_spans:
  "k \<le> i \<Longrightarrow> masks (drop k s) (splice (\<lambda>_. mask) s k (find_spans n r s i))"
proof (induction n r s i arbitrary: k rule: find_spans.induct)
  case (2 n r s i)
  show ?case
  proof (cases "length s < i \<or> match_at r s i = None")
    case True
    then show ?thesis
    proof (cases "length s < i")
      case False
      with True have "match_at r s i = None" by simp
      then show ?thesis using "2.IH"(1) [OF False, of k] "2.prems" False by simp
    qed (simp add: masks_refl)
  next
    case False
    then obtain j where j: "match_at r s i = Some j" and i: "\<not> length s < i" by auto
    have b: "i \<le> j" "j \<le> length s" using match_at_bounds [OF j] i by auto
    have "masks (drop j s) (splice (\<lambda>_. mask) s j (find_spans n r s (if i < j then j else Suc i)))"
      using "2.IH"(2) [OF i j, of j] b by (cases "i < j") auto
    then have "masks (slice s i j @ drop j s) (mask @ splice (\<lambda>_. mask) s j (find_spans n r s (if i < j then j else Suc i)))"
      by (rule masks.hide)
    then have "masks (slice s k i @ slice s i j @ drop j s)
        (slice s k i @ mask @ splice (\<lambda>_. mask) s j (find_spans n r s (if i < j then j else Suc i)))"
      by (rule masks_append [OF masks_refl])
    moreover have "slice s k i @ slice s i j @ drop j s = drop k s"
    proof -
      have "slice s i j @ drop j s = drop i s" using b
        by (metis append_take_drop_id drop_drop le_add_diff_inverse2 slice_def)
      moreover have "slice s k i @ drop i s = drop k s" using "2.prems"
        by (metis append_take_drop_id drop_drop le_add_diff_inverse2 slice_def)
      ultimately show ?thesis by simp
    qed
    ultimately show ?thesis using i j by simp
  qed
qed (simp add: masks_refl)

lemma masks_sub: "masks s (sub r (\<lambda>_. mask) s)"
  using masks_find_spans [of 0 0 s "Suc (length s)" r] by (simp add: sub_def spans_def)

lemma clean_text_removes:
  assumes "unmaskable p" and "p \<in> set vs"
  shows "\<not> contains p (clean_text vs s)"
  using masks_contains [OF masks_sub assms(1)] fold_replace_removes [OF assms(1)] assms(2)
  unfolding clean_text_def by blast

section \<open>Cleaned values\<close>

text \<open>The texts in a value, its keys aside.\<close>

fun texts :: "json \<Rightarrow> string list" where
  "texts (JStr s) = [s]"
| "texts (JObj kvs) = concat (map (\<lambda>(k, v). texts v) kvs)"
| "texts (JList xs) = concat (map texts xs)"
| "texts v = []"

lemma secrets_never_survive_aux:
  assumes "p \<in> set vs" and "unmaskable p"
  shows "\<not> (\<exists>t\<in>set (texts (clean vs v)). contains p t)"
  using assms
proof (induction vs v rule: clean.induct)
  case (1 vs s)
  then show ?case by (simp add: clean_text_removes)
next
  case (2 vs kvs)
  have m: "\<not> contains p mask" using contains_mask_append [OF "2.prems"(2), of "[]"] "2.prems"(2)
    by (auto simp: unmaskable_def)
  show ?case
  proof (rule notI, elim bexE)
    fix t assume "t \<in> set (texts (clean vs (JObj kvs)))" and c: "contains p t"
    then obtain k v where kv: "(k, v) \<in> set kvs" "t \<in> set (texts (if found secret_key_rx k
        \<and> (case v of JStr s \<Rightarrow> s \<noteq> [] | _ \<Rightarrow> False) then JStr mask else clean vs v))" by auto
    then show False using "2.IH" [OF kv(1) refl] "2.prems" m c by (auto split: if_splits)
  qed
next
  case (3 vs xs)
  then show ?case by auto
qed simp_all


definition wit_secret :: string where
  "wit_secret = ''hunter2-hunter2''"


section \<open>Decisions\<close>

lemma evaluate_Inr:
  assumes "evaluate cfg t args = Inr d"
  obtains oper rk where "clean (pc_secrets cfg) (JObj args) = JObj args" "effective_profile t = Inr (oper, rk)"
    "tl_provider t = ''github'' \<and> oper \<noteq> Op_read \<longrightarrow> github_write cfg t args = Inr ()"
    "pd_requires_approval d = approval_required cfg t oper rk"
    "approval_required cfg t oper rk \<longrightarrow> pc_approval_enabled cfg"
  using assms
  by (auto simp: evaluate_def rbind_Inr_iff require_safe_def Let_def split: if_splits)

lemma github_write_Inr:
  "github_write cfg t args = Inr () \<Longrightarrow> \<not> pc_read_only cfg
     \<and> repository_of cfg args \<in> set (allowed_repositories cfg)
     \<and> (\<exists>name. remote_name t = Some name \<and> set (map fst args) \<subseteq> set (write_fields name))"
  by (auto simp: github_write_def split: if_splits option.splits)

lemma mcp_profile_write:
  "effective_profile t = Inr (oper, rk) \<Longrightarrow> tl_provider_type t = Mcp \<Longrightarrow> tl_provider t \<noteq> ''github'' \<Longrightarrow>
   oper = Op_execute"
  by (auto simp: effective_profile_def local_profile_def split: option.splits if_splits)

text \<open>
  C10: The policy fails closed.  Whenever it lets a call through, the arguments carry no configured
  secret; a call let through without approval is a read of low or medium risk that asks for none (or
  the one constrained native analysis); every tool of an MCP server other than the profiled one needs
  approval; and a GitHub write is inside the repository allowlist, has only the fields of issue
  creation or comments, and is impossible in read-only mode.
\<close>

theorem policy_fails_closed:
  assumes "evaluate cfg t args = Inr d"
  shows "\<exists>oper rk. effective_profile t = Inr (oper, rk)
    \<and> (pd_requires_approval d \<longrightarrow> pc_approval_enabled cfg)
    \<and> (\<not> pd_requires_approval d \<longrightarrow>
         (oper = Op_read \<and> rk \<in> {Low, Medium} \<and> \<not> tl_requires_approval t \<and> pc_auto_read cfg)
         \<or> (tl_provider_type t = Native \<and> tl_name t = ''native.analyze_data'' \<and> rk = Medium))
    \<and> (tl_provider_type t = Mcp \<and> tl_provider t \<noteq> ''github'' \<longrightarrow> pd_requires_approval d)
    \<and> (tl_provider t = ''github'' \<and> oper \<noteq> Op_read \<longrightarrow> \<not> pc_read_only cfg
         \<and> repository_of cfg args \<in> set (allowed_repositories cfg)
         \<and> (\<exists>name. remote_name t = Some name \<and> set (map fst args) \<subseteq> set (write_fields name)))
    \<and> (\<forall>p\<in>set (pc_secrets cfg). unmaskable p \<longrightarrow> \<not> (\<exists>s\<in>set (texts (JObj args)). contains p s))"
proof -
  from assms obtain oper rk where e: "clean (pc_secrets cfg) (JObj args) = JObj args"
    "effective_profile t = Inr (oper, rk)"
    "tl_provider t = ''github'' \<and> oper \<noteq> Op_read \<longrightarrow> github_write cfg t args = Inr ()"
    "pd_requires_approval d = approval_required cfg t oper rk"
    "approval_required cfg t oper rk \<longrightarrow> pc_approval_enabled cfg" by (rule evaluate_Inr)
  have safe: "\<not> (\<exists>s\<in>set (texts (JObj args)). contains p s)" if "p \<in> set (pc_secrets cfg)" "unmaskable p" for p
    using secrets_never_survive_aux [OF that, of "JObj args"] unfolding e(1) .
  have free: "(oper = Op_read \<and> rk \<in> {Low, Medium} \<and> \<not> tl_requires_approval t \<and> pc_auto_read cfg)
      \<or> (tl_provider_type t = Native \<and> tl_name t = ''native.analyze_data'' \<and> rk = Medium)"
    if "\<not> approval_required cfg t oper rk"
    using that by (cases oper; cases rk) (auto simp: approval_required_def Let_def split: if_splits)
  have mcp: "approval_required cfg t oper rk" if "tl_provider_type t = Mcp" "tl_provider t \<noteq> ''github''"
    using mcp_profile_write [OF e(2) that] that by (simp add: approval_required_def)
  show ?thesis
    using e(2-5) safe free mcp github_write_Inr by (intro exI [of _ oper] exI [of _ rk]) auto
qed

definition wit_policy :: policy_config where
  "wit_policy = \<lparr>pc_read_only = False, pc_repositories = ''Acme/App'', pc_approve_writes = True,
     pc_approve_deletes = True, pc_auto_read = True, pc_approval_enabled = True,
     pc_secrets = [wit_secret], pc_float = (\<lambda>r. [])\<rparr>"

definition wit_tool :: tool where
  "wit_tool = \<lparr>tl_name = ''github.create_issue'', tl_provider = ''github'', tl_provider_type = Mcp,
     tl_description = [], tl_input_schema = JObj [], tl_capability = ''github.issue.create'',
     tl_operation = Op_write, tl_risk = High, tl_requires_approval = True, tl_enabled = True,
     tl_metadata = [(''remote_name'', JStr ''create_issue'')]\<rparr>"

definition wit_args :: "(string \<times> json) list" where
  "wit_args = [(''owner'', JStr ''acme''), (''repo'', JStr ''app''), (''title'', JStr ''t'')]"

theorem policy_fails_closed_witness:
  "\<exists>d. evaluate wit_policy wit_tool wit_args = Inr d \<and> pd_requires_approval d
     \<and> repository_of wit_policy wit_args \<in> set (allowed_repositories wit_policy)"
proof -
  have "is_ok (evaluate wit_policy wit_tool wit_args)" by code_simp
  then obtain d where d: "evaluate wit_policy wit_tool wit_args = Inr d" by (auto simp: is_ok_iff)
  have p: "effective_profile wit_tool = Inr (Op_write, High)" "tl_provider wit_tool = ''github''" by code_simp+
  from policy_fails_closed [OF d] p d show ?thesis by auto
qed

end
