(* ===== verification/Tool_Actions_Laws.thy ===== *)
theory Tool_Actions_Laws
  imports Tool_Actions Tool_Policy_Laws
begin

text \<open>
  What the ledger guarantees: an execution is claimed at most once, and whatever was executed under an
  approval was decided on by a human, consumed exactly then, and had exactly the arguments approved.
\<close>

section \<open>The ledger as a machine\<close>

datatype action_op =
    A_request action_env tool "(string \<times> json) list" action_context policy_decision
  | A_decide action_env schema_lib policy_config ident approval_status "(string \<times> json) list"
  | A_claim action_env ident
  | A_finish action_env ident bool json rat "string option"
  | A_cancel action_env ident

fun action_exec :: "hasher \<Rightarrow> action_op \<Rightarrow> action_db \<Rightarrow> action_db" where
  "action_exec h (A_request env t args cx d) db = commit_of db (request_execution h env t args cx d db)"
| "action_exec h (A_decide env lib cfg a dec edits) db = commit_of db (decide_approval env lib cfg a dec edits db)"
| "action_exec h (A_claim env i) db = commit_of db (claim_execution h env i db)"
| "action_exec h (A_finish env i ok s du e) db = commit_of db (finish_execution env i ok s du e db)"
| "action_exec h (A_cancel env tid) db = (case cancel_pending env tid db of Inl _ \<Rightarrow> db | Inr d \<Rightarrow> d)"

text \<open>Identifiers are never empty, which is what \<open>if value['approval_request_id']\<close> tests.\<close>

fun action_ok :: "action_db \<Rightarrow> action_op \<Rightarrow> bool" where
  "action_ok db (A_request env t args cx d) = (ae_fresh env 2 \<noteq> [])"
| "action_ok db _ = True"

section \<open>The invariant\<close>

definition approved_arguments :: "approval \<Rightarrow> (string \<times> json) list" where
  "approved_arguments p = (case p_edited p of Some (kv # kvs) \<Rightarrow> kv # kvs | _ \<Rightarrow> p_arguments p)"

definition approval_ok :: "approval \<Rightarrow> bool" where
  "approval_ok p =
     ((p_status p = P_PENDING \<longrightarrow> p_edited p = None \<and> p_consumed_at p = None)
      \<and> (p_status p \<in> {P_APPROVED, P_EDITED, P_REJECTED} \<longrightarrow>
            p_decision p = Some (p_status p) \<and> p_decided_at p \<noteq> None)
      \<and> (p_consumed_at p \<noteq> None \<longrightarrow> p_status p \<in> {P_APPROVED, P_EDITED, P_REJECTED})
      \<and> (\<forall>args. p_edited p = Some args \<longrightarrow>
            (\<forall>k. k \<notin> {''title'', ''body''} \<longrightarrow> map_of args k = map_of (p_arguments p) k)))"

fun status_ok :: "hasher \<Rightarrow> execution \<Rightarrow> approval \<Rightarrow> exec_status \<Rightarrow> bool" where
  "status_ok h x p X_REQUESTED = False"
| "status_ok h x p X_WAITING_APPROVAL =
     (p_consumed_at p = None \<and> x_arguments_hash x = arguments_hash h (JObj (p_arguments p)))"
| "status_ok h x p X_REJECTED = (p_consumed_at p \<noteq> None \<and> p_status p = P_REJECTED)"
| "status_ok h x p X_CANCELLED = (p_consumed_at p = None \<and> p_status p = P_CANCELLED)"
| "status_ok h x p st = (p_consumed_at p \<noteq> None \<and> p_status p \<in> {P_APPROVED, P_EDITED}
     \<and> x_arguments_hash x = arguments_hash h (JObj (approved_arguments p)))"

definition linked :: "hasher \<Rightarrow> execution \<Rightarrow> approval \<Rightarrow> bool" where
  "linked h x p = (p_execution_id p = x_id x \<and> x_approval_id x = Some (p_id p) \<and> p_id p \<noteq> []
     \<and> approval_ok p \<and> status_ok h x p (x_status x))"

definition actions_inv :: "hasher \<Rightarrow> action_db \<Rightarrow> bool" where
  "actions_inv h db =
     (distinct (map x_id (ad_executions db)) \<and> distinct (map p_id (ad_approvals db))
      \<and> (\<forall>x\<in>set (ad_executions db). case x_approval_id x of
            None \<Rightarrow> x_status x \<noteq> X_WAITING_APPROVAL
          | Some a \<Rightarrow> (\<exists>p\<in>set (ad_approvals db). linked h x p))
      \<and> (\<forall>p\<in>set (ad_approvals db). \<exists>x\<in>set (ad_executions db). linked h x p))"

lemma actions_invD:
  assumes "actions_inv h db"
  shows "distinct (map x_id (ad_executions db))" and "distinct (map p_id (ad_approvals db))"
    and "x \<in> set (ad_executions db) \<Longrightarrow> x_approval_id x = None \<Longrightarrow> x_status x \<noteq> X_WAITING_APPROVAL"
    and "x \<in> set (ad_executions db) \<Longrightarrow> x_approval_id x = Some a \<Longrightarrow> \<exists>p\<in>set (ad_approvals db). linked h x p"
    and "p \<in> set (ad_approvals db) \<Longrightarrow> \<exists>x\<in>set (ad_executions db). linked h x p"
  using assms unfolding actions_inv_def by (auto split: option.splits dest: bspec)

lemma distinct_key_eq:
  "distinct (map f xs) \<Longrightarrow> x \<in> set xs \<Longrightarrow> y \<in> set xs \<Longrightarrow> f x = f y \<Longrightarrow> x = y"
  by (auto simp: distinct_map inj_on_def)

lemma set_row_put:
  assumes "distinct (map k rs)" and "r \<in> set rs" and "k r' = k r"
  shows "set (row_put k r' rs) = insert r' (set rs - {r})"
proof -
  have "x = r" if "x \<in> set rs" "k x = k r'" for x
    using distinct_key_eq [OF assms(1) that(1) assms(2)] that(2) assms(3) by simp
  then show ?thesis using assms(2,3) by (auto simp: row_put_def)
qed

lemma get_execution_Inr: "get_execution i db = Inr x \<longleftrightarrow> row_get x_id i (ad_executions db) = Some x"
  by (simp add: get_execution_def split: option.splits)

lemma get_approval_Inr: "get_approval i db = Inr p \<longleftrightarrow> row_get p_id i (ad_approvals db) = Some p"
  by (simp add: get_approval_def split: option.splits)

lemma got_execution: "get_execution i db = Inr x \<Longrightarrow> x \<in> set (ad_executions db) \<and> x_id x = i"
  by (auto simp: get_execution_Inr dest: row_get_Some_in row_get_Some_key)

lemma got_approval: "get_approval i db = Inr p \<Longrightarrow> p \<in> set (ad_approvals db) \<and> p_id p = i"
  by (auto simp: get_approval_Inr dest: row_get_Some_in row_get_Some_key)

text \<open>The execution and the approval of a link determine each other.\<close>

lemma linked_unique:
  assumes "actions_inv h db" and "x \<in> set (ad_executions db)" and "p \<in> set (ad_approvals db)" and "linked h x p"
  shows "y \<in> set (ad_executions db) \<Longrightarrow> linked h' y p \<Longrightarrow> y = x"
    and "q \<in> set (ad_approvals db) \<Longrightarrow> linked h' x q \<Longrightarrow> q = p"
  using assms distinct_key_eq [OF actions_invD(1) [OF assms(1)], of y x]
    distinct_key_eq [OF actions_invD(2) [OF assms(1)], of q p]
  by (auto simp: linked_def)

lemma actions_invI:
  assumes "distinct (map x_id (ad_executions db))" and "distinct (map p_id (ad_approvals db))"
    and "set (ad_executions db) = X" and "set (ad_approvals db) = P"
    and "\<And>y. y \<in> X \<Longrightarrow> case x_approval_id y of None \<Rightarrow> x_status y \<noteq> X_WAITING_APPROVAL
        | Some a \<Rightarrow> \<exists>q\<in>P. linked h y q"
    and "\<And>q. q \<in> P \<Longrightarrow> \<exists>y\<in>X. linked h y q"
  shows "actions_inv h db"
  unfolding actions_inv_def assms(3,4) by (intro conjI ballI assms(1,2,5,6))

lemma put_sel [simp]:
  "ad_executions (put_execution x db) = row_put x_id x (ad_executions db)"
  "ad_approvals (put_execution x db) = ad_approvals db"
  "ad_executions (put_approval p db) = ad_executions db"
  "ad_approvals (put_approval p db) = row_put p_id p (ad_approvals db)"
  by (simp_all add: put_execution_def put_approval_def)

lemma inv_put_pair:
  assumes inv: "actions_inv h db" and x: "x \<in> set (ad_executions db)" and p: "p \<in> set (ad_approvals db)"
    and l: "linked h x p" and l': "linked h x' p'" and k: "x_id x' = x_id x" "p_id p' = p_id p"
  shows "actions_inv h (put_execution x' (put_approval p' db))"
proof -
  note d = actions_invD(1,2) [OF inv]
  have xs: "set (row_put x_id x' (ad_executions db)) = insert x' (set (ad_executions db) - {x})"
    by (rule set_row_put [OF d(1) x k(1)])
  have ps: "set (row_put p_id p' (ad_approvals db)) = insert p' (set (ad_approvals db) - {p})"
    by (rule set_row_put [OF d(2) p k(2)])
  show ?thesis
  proof (rule actions_invI)
    show "distinct (map x_id (ad_executions (put_execution x' (put_approval p' db))))"
      "distinct (map p_id (ad_approvals (put_execution x' (put_approval p' db))))"
      using d by (simp_all add: row_put_keys)
    show "set (ad_executions (put_execution x' (put_approval p' db))) = insert x' (set (ad_executions db) - {x})"
      "set (ad_approvals (put_execution x' (put_approval p' db))) = insert p' (set (ad_approvals db) - {p})"
      using xs ps by simp_all
  next
    fix y assume y: "y \<in> insert x' (set (ad_executions db) - {x})"
    show "case x_approval_id y of None \<Rightarrow> x_status y \<noteq> X_WAITING_APPROVAL
        | Some a \<Rightarrow> \<exists>q\<in>insert p' (set (ad_approvals db) - {p}). linked h y q"
    proof (cases "y = x'")
      case True
      then show ?thesis using l' by (auto simp: linked_def)
    next
      case False
      with y have y': "y \<in> set (ad_executions db)" "y \<noteq> x" by auto
      show ?thesis
      proof (cases "x_approval_id y")
        case None
        then show ?thesis using actions_invD(3) [OF inv y'(1)] by simp
      next
        case (Some a)
        then obtain q where q: "q \<in> set (ad_approvals db)" "linked h y q"
          using actions_invD(4) [OF inv y'(1)] by blast
        then have "q \<noteq> p" using linked_unique(1) [OF inv x p l y'(1)] y'(2) by blast
        then show ?thesis using Some q by auto
      qed
    qed
  next
    fix q assume q: "q \<in> insert p' (set (ad_approvals db) - {p})"
    show "\<exists>y\<in>insert x' (set (ad_executions db) - {x}). linked h y q"
    proof (cases "q = p'")
      case True
      then show ?thesis using l' by blast
    next
      case False
      with q have q': "q \<in> set (ad_approvals db)" "q \<noteq> p" by auto
      then obtain y where y: "y \<in> set (ad_executions db)" "linked h y q" using actions_invD(5) [OF inv] by blast
      then have "y \<noteq> x" using linked_unique(2) [OF inv x p l q'(1)] q'(2) by blast
      then show ?thesis using y by blast
    qed
  qed
qed

lemma put_execution_id: "x \<in> set xs \<Longrightarrow> distinct (map k xs) \<Longrightarrow> row_put k x xs = xs"
  unfolding row_put_def by (rule map_idI) (auto dest: distinct_key_eq)

lemma inv_put_approval:
  assumes inv: "actions_inv h db" and x: "x \<in> set (ad_executions db)" and p: "p \<in> set (ad_approvals db)"
    and l: "linked h x p" and l': "linked h x p'" and k: "p_id p' = p_id p"
  shows "actions_inv h (put_approval p' db)"
proof -
  have "put_execution x (put_approval p' db) = put_approval p' db"
    using put_execution_id [OF x actions_invD(1) [OF inv]] by (simp add: put_execution_def put_approval_def)
  then show ?thesis using inv_put_pair [OF inv x p l l' refl k] by simp
qed

lemma inv_put_execution:
  assumes inv: "actions_inv h db" and x: "x \<in> set (ad_executions db)" and p: "p \<in> set (ad_approvals db)"
    and l: "linked h x p" and l': "linked h x' p" and k: "x_id x' = x_id x"
  shows "actions_inv h (put_execution x' db)"
proof -
  have "put_approval p db = db"
    using put_execution_id [OF p actions_invD(2) [OF inv]] by (simp add: put_approval_def)
  then show ?thesis using inv_put_pair [OF inv x p l l' k refl] by simp
qed

lemma inv_put_free:
  assumes inv: "actions_inv h db" and x: "x \<in> set (ad_executions db)" and n: "x_approval_id x = None"
    and k: "x_id x' = x_id x" "x_approval_id x' = None" "x_status x' \<noteq> X_WAITING_APPROVAL"
  shows "actions_inv h (put_execution x' db)"
proof -
  note d = actions_invD(1,2) [OF inv]
  have xs: "set (row_put x_id x' (ad_executions db)) = insert x' (set (ad_executions db) - {x})"
    by (rule set_row_put [OF d(1) x k(1)])
  show ?thesis
  proof (rule actions_invI)
    show "distinct (map x_id (ad_executions (put_execution x' db)))"
      "distinct (map p_id (ad_approvals (put_execution x' db)))"
      using d by (simp_all add: row_put_keys)
    show "set (ad_executions (put_execution x' db)) = insert x' (set (ad_executions db) - {x})"
      "set (ad_approvals (put_execution x' db)) = set (ad_approvals db)"
      using xs by simp_all
  next
    fix y assume "y \<in> insert x' (set (ad_executions db) - {x})"
    then show "case x_approval_id y of None \<Rightarrow> x_status y \<noteq> X_WAITING_APPROVAL
        | Some a \<Rightarrow> \<exists>q\<in>set (ad_approvals db). linked h y q"
      using k actions_invD(3,4) [OF inv] by (auto split: option.splits)
  next
    fix q assume "q \<in> set (ad_approvals db)"
    then obtain y where y: "y \<in> set (ad_executions db)" "linked h y q" using actions_invD(5) [OF inv] by blast
    then have "y \<noteq> x" using n by (auto simp: linked_def)
    then show "\<exists>y\<in>insert x' (set (ad_executions db) - {x}). linked h y q" using y by blast
  qed
qed

section \<open>What an operation may change\<close>

definition settled :: "execution \<Rightarrow> bool" where
  "settled x = (x_status x \<notin> {X_REQUESTED, X_WAITING_APPROVAL})"

definition ledger_grows :: "action_db \<Rightarrow> action_db \<Rightarrow> bool" where
  "ledger_grows db db' =
     ((\<forall>i x. row_get x_id i (ad_executions db) = Some x \<and> settled x \<longrightarrow>
         (\<exists>x'. row_get x_id i (ad_executions db') = Some x' \<and> settled x'))
      \<and> (\<forall>p\<in>set (ad_approvals db). p_consumed_at p \<noteq> None \<longrightarrow> p \<in> set (ad_approvals db')))"

lemma ledger_grows_refl [simp]: "ledger_grows db db"
  by (simp add: ledger_grows_def)

lemma ledger_grows_trans: "ledger_grows a b \<Longrightarrow> ledger_grows b c \<Longrightarrow> ledger_grows a c"
  unfolding ledger_grows_def by blast

definition safe_step :: "hasher \<Rightarrow> action_db \<Rightarrow> action_db \<Rightarrow> bool" where
  "safe_step h db db' = (actions_inv h db \<longrightarrow> actions_inv h db' \<and> ledger_grows db db')"

lemma safe_step_refl [simp]: "safe_step h db db"
  by (simp add: safe_step_def)

lemma safe_step_trans: "safe_step h a b \<Longrightarrow> safe_step h b c \<Longrightarrow> safe_step h a c"
  unfolding safe_step_def using ledger_grows_trans by blast

lemma grows_put_execution: "settled x' \<Longrightarrow> ledger_grows db (put_execution x' db)"
  by (auto simp: ledger_grows_def rows.get_put)

lemma ledger_growsI:
  assumes "ad_executions db' = ad_executions db"
    and "\<And>q. q \<in> set (ad_approvals db) \<Longrightarrow> p_consumed_at q \<noteq> None \<Longrightarrow> q \<in> set (ad_approvals db')"
  shows "ledger_grows db db'"
  unfolding ledger_grows_def assms(1) using assms(2) by blast

lemma grows_put_approval:
  assumes "actions_inv h db" and "p \<in> set (ad_approvals db)" and "p_consumed_at p = None" and "p_id p' = p_id p"
  shows "ledger_grows db (put_approval p' db)"
proof (rule ledger_growsI)
  show "ad_executions (put_approval p' db) = ad_executions db" by simp
  have s: "set (ad_approvals (put_approval p' db)) = insert p' (set (ad_approvals db) - {p})"
    using set_row_put [OF actions_invD(2) [OF assms(1)] assms(2,4)] by simp
  fix q assume "q \<in> set (ad_approvals db)" "p_consumed_at q \<noteq> None"
  moreover from this assms(3) have "q \<noteq> p" by (metis option.distinct(1))
  ultimately show "q \<in> set (ad_approvals (put_approval p' db))" unfolding s by simp
qed

section \<open>The operations\<close>

lemma row_put_absent: "k r \<notin> k ` set rs \<Longrightarrow> row_put k r rs = rs"
  unfolding row_put_def by (rule map_idI) (metis imageI)

lemma row_put_snoc: "row_put k r (rs @ [q]) = row_put k r rs @ [if k q = k r then r else q]"
  by (simp add: row_put_def)

lemma safe_request:
  assumes "request_execution h env t args cx d db = Inr (db', x')" and "ae_fresh env 2 \<noteq> []"
  shows "safe_step h db db'"
proof (cases "db' = db")
  case False
  let ?key = "intent_key h env t args cx d"
  let ?x = "new_execution h env t args cx ?key"
  have "find (\<lambda>x. x_intent_key x = ?key) (ad_executions db) = None"
    using assms(1) False by (auto simp: request_execution_def Let_def split: option.splits)
  then have r: "rbind (row_insert x_id ?x (ad_executions db)) (\<lambda>xs.
      if \<not> pd_requires_approval d then Inr (db\<lparr>ad_executions := xs\<rparr>, ?x)
      else if \<not> truthy (x_task_id ?x) \<or> \<not> truthy (x_step_id ?x)
      then Inl (TaskConflict ''Sensitive tools require a Persistent Task'')
      else let p = new_approval env t args d ?x;
               x' = ?x\<lparr>x_approval_id := Some (p_id p), x_status := X_WAITING_APPROVAL\<rparr>
        in rbind (insert_approval p (ad_approvals db)) (\<lambda>ps.
             Inr (\<lparr>ad_executions = row_put x_id x' xs, ad_approvals = ps\<rparr>, x'))) = Inr (db', x')"
    using assms(1) by (simp add: request_execution_def Let_def)
  then have new: "x_id ?x \<notin> x_id ` set (ad_executions db)"
    by (auto simp: rbind_Inr_iff row_simps row_get_None_iff)
  have grows: "ledger_grows db db'" if "ad_executions db' = ad_executions db @ [y]"
    "set (ad_approvals db) \<subseteq> set (ad_approvals db')" for y
    using that by (auto simp: ledger_grows_def row_get_append)
  have free: "x_approval_id ?x = None" "x_status ?x \<noteq> X_WAITING_APPROVAL"
    by (simp_all add: new_execution_def)
  show ?thesis unfolding safe_step_def
  proof (intro impI)
    assume inv: "actions_inv h db"
    note D = actions_invD [OF inv]
    show "actions_inv h db' \<and> ledger_grows db db'"
    proof (cases "pd_requires_approval d")
      case False
      then have db': "db' = db\<lparr>ad_executions := ad_executions db @ [?x]\<rparr>"
        using r by (auto simp: rbind_Inr_iff row_simps)
      have "actions_inv h db'"
      proof (rule actions_invI)
        show "distinct (map x_id (ad_executions db'))" "distinct (map p_id (ad_approvals db'))"
          using D(1,2) new by (simp_all add: db')
        show "set (ad_executions db') = insert ?x (set (ad_executions db))"
          "set (ad_approvals db') = set (ad_approvals db)" by (simp_all add: db')
      next
        fix y assume "y \<in> insert ?x (set (ad_executions db))"
        then show "case x_approval_id y of None \<Rightarrow> x_status y \<noteq> X_WAITING_APPROVAL
            | Some a \<Rightarrow> \<exists>q\<in>set (ad_approvals db). linked h y q"
          using D(3,4) free by (auto split: option.splits)
      qed (use D(5) in blast)
      then show ?thesis using grows by (simp add: db')
    next
      case True
      let ?p = "new_approval env t args d ?x"
      let ?y = "?x\<lparr>x_approval_id := Some (p_id ?p), x_status := X_WAITING_APPROVAL\<rparr>"
      from True r obtain ps where ps: "insert_approval ?p (ad_approvals db) = Inr ps"
        and db0: "db' = \<lparr>ad_executions = row_put x_id ?y (ad_executions db @ [?x]), ad_approvals = ps\<rparr>"
        by (auto simp: rbind_Inr_iff row_simps Let_def split: if_splits)
      have ps': "ps = ad_approvals db @ [?p]" "p_id ?p \<notin> p_id ` set (ad_approvals db)"
        using ps by (auto simp: insert_approval_def row_simps row_get_None_iff split: if_splits)
      have "row_put x_id ?y (ad_executions db @ [?x]) = ad_executions db @ [?y]"
        unfolding row_put_snoc using row_put_absent [of x_id ?y] new by simp
      then have db': "db' = \<lparr>ad_executions = ad_executions db @ [?y], ad_approvals = ad_approvals db @ [?p]\<rparr>"
        by (simp add: db0 ps'(1))
      have l: "linked h ?y ?p"
        using assms(2) by (simp add: linked_def new_approval_def approval_ok_def new_execution_def)
      have "actions_inv h db'"
      proof (rule actions_invI)
        show "distinct (map x_id (ad_executions db'))" "distinct (map p_id (ad_approvals db'))"
          using D(1,2) new ps'(2) by (simp_all add: db')
        show "set (ad_executions db') = insert ?y (set (ad_executions db))"
          "set (ad_approvals db') = insert ?p (set (ad_approvals db))" by (simp_all add: db')
      next
        fix y assume "y \<in> insert ?y (set (ad_executions db))"
        then show "case x_approval_id y of None \<Rightarrow> x_status y \<noteq> X_WAITING_APPROVAL
            | Some a \<Rightarrow> \<exists>q\<in>insert ?p (set (ad_approvals db)). linked h y q"
          using D(3,4) l by (fastforce split: option.splits)
      next
        fix q assume "q \<in> insert ?p (set (ad_approvals db))"
        then show "\<exists>y\<in>insert ?y (set (ad_executions db)). linked h y q"
          using D(5) l by blast
      qed
      moreover have "ledger_grows db db'" by (rule grows [of ?y]) (auto simp: db')
      ultimately show ?thesis by blast
    qed
  qed
qed simp

lemma pending_waits: "linked h x p \<Longrightarrow> p_status p = P_PENDING \<Longrightarrow> x_status x = X_WAITING_APPROVAL"
  by (cases "x_status x") (auto simp: linked_def)

lemma unconsumed_waits:
  "linked h x p \<Longrightarrow> p_consumed_at p = None \<Longrightarrow> p_status p \<noteq> P_CANCELLED \<Longrightarrow> x_status x = X_WAITING_APPROVAL"
  by (cases "x_status x") (auto simp: linked_def)

lemma decided_frame:
  assumes "decided_approval lib cfg dec edits p = Inr q" and "p_edited p = None"
  shows "p_id q = p_id p" "p_execution_id q = p_execution_id p" "p_consumed_at q = p_consumed_at p"
    "p_arguments q = p_arguments p"
    "\<forall>args. p_edited q = Some args \<longrightarrow> (\<forall>k. k \<notin> {''title'', ''body''} \<longrightarrow> map_of args k = map_of (p_arguments p) k)"
proof -
  show "p_id q = p_id p" "p_execution_id q = p_execution_id p" "p_consumed_at q = p_consumed_at p"
    "p_arguments q = p_arguments p"
    using assms by (auto simp: decided_approval_def rbind_Inr_iff Let_def split: if_splits)
  show "\<forall>args. p_edited q = Some args \<longrightarrow> (\<forall>k. k \<notin> {''title'', ''body''} \<longrightarrow> map_of args k = map_of (p_arguments p) k)"
  proof (intro allI impI)
    fix args k assume a: "p_edited q = Some args" and k: "k \<notin> {''title'', ''body''}"
    then have "args = dict_merge (p_arguments p) edits" "set (map fst edits) \<subseteq> {''title'', ''body''}"
      using assms by (auto simp: decided_approval_def rbind_Inr_iff Let_def split: if_splits)
    moreover from this k have "map_of (rev edits) k = None" by (auto simp: map_of_eq_None_iff)
    ultimately show "map_of args k = map_of (p_arguments p) k" by (simp add: map_of_dict_merge)
  qed
qed

lemma safe_decide:
  assumes "decide_approval env lib cfg aid dec edits db = Inr (db', q')"
  shows "safe_step h db db'"
  unfolding safe_step_def
proof (intro impI)
  assume inv: "actions_inv h db"
  from assms obtain p q where g: "get_approval aid db = Inr p" and pend: "p_status p = P_PENDING" "p_consumed_at p = None"
    and dec: "dec \<in> {P_APPROVED, P_EDITED, P_REJECTED}" and q: "decided_approval lib cfg dec edits p = Inr q"
    and q': "q' = q\<lparr>p_status := dec, p_decision := Some dec, p_decided_at := Some (ae_now env)\<rparr>"
    and db': "db' = put_approval q' db"
    by (auto simp: decide_approval_def rbind_Inr_iff Let_def split: if_splits)
  have p: "p \<in> set (ad_approvals db)" using got_approval [OF g] by simp
  obtain x where x: "x \<in> set (ad_executions db)" and l: "linked h x p"
    using actions_invD(5) [OF inv p] by blast
  have e: "p_edited p = None" using l pend by (simp add: linked_def approval_ok_def)
  note f = decided_frame [OF q e]
  have ok: "approval_ok q'" unfolding approval_ok_def q' using f pend dec by auto
  have "linked h x q'"
    using l pending_waits [OF l pend(1)] ok f pend by (simp add: linked_def q')
  moreover have id: "p_id q' = p_id p" using f(1) by (simp add: q')
  ultimately show "actions_inv h db' \<and> ledger_grows db db'"
    unfolding db' using inv_put_approval [OF inv x p l] grows_put_approval [OF inv p pend(2) id] by blast
qed

lemma approved_arguments_consumed [simp]:
  "approved_arguments (p\<lparr>p_consumed_at := c\<rparr>) = approved_arguments p"
  by (simp add: approved_arguments_def split: option.split list.split)

lemma consume_frame:
  assumes "consume_approval h env p x = (p', x1)"
  shows "p' = p\<lparr>p_consumed_at := Some (ae_now env)\<rparr>" "x_id x1 = x_id x" "x_approval_id x1 = x_approval_id x"
    "x_arguments_hash x = arguments_hash h (JObj (p_arguments p)) \<Longrightarrow>
       x_arguments_hash x1 = arguments_hash h (JObj (approved_arguments p))"
  using assms by (auto simp: consume_approval_def approved_arguments_def split: option.splits list.splits)

text \<open>The approval a claim consumes is the one linked to its execution, which is still waiting.\<close>

lemma claim_linked:
  assumes inv: "actions_inv h db" and g: "get_execution i db = Inr x"
    and a: "truthy (x_approval_id x)" and gp: "get_approval (the (x_approval_id x)) db = Inr p"
  shows "linked h x p" "p \<in> set (ad_approvals db)"
proof -
  have x: "x \<in> set (ad_executions db)" using got_execution [OF g] by simp
  obtain i' where i': "x_approval_id x = Some i'" using a by (auto simp: truthy_def split: option.splits)
  obtain p2 where p2: "p2 \<in> set (ad_approvals db)" "linked h x p2" using actions_invD(4) [OF inv x i'] by blast
  show p: "p \<in> set (ad_approvals db)" using got_approval [OF gp] by simp
  have "p_id p = i'" "p_id p2 = i'" using got_approval [OF gp] i' p2(2) by (simp_all add: linked_def)
  then have "p = p2" using distinct_key_eq [OF actions_invD(2) [OF inv] p p2(1)] by simp
  then show "linked h x p" using p2(2) by simp
qed

lemma claim_cases:
  assumes "claim_execution h env i db = Inr (db', b, y)"
  obtains (settled) "db' = db" "\<not> b"
    | (free) x where "get_execution i db = Inr x" "\<not> truthy (x_approval_id x)" "b" "y = start_execution env x"
        "x_status x \<in> {X_REQUESTED, X_WAITING_APPROVAL}" "db' = put_execution y db"
    | (approved) x p p' x1 where "get_execution i db = Inr x" "truthy (x_approval_id x)"
        "get_approval (the (x_approval_id x)) db = Inr p" "p_consumed_at p = None"
        "p_status p \<in> {P_APPROVED, P_EDITED}" "consume_approval h env p x = (p', x1)" "b"
        "y = start_execution env x1" "x_status x \<in> {X_REQUESTED, X_WAITING_APPROVAL}"
        "db' = put_execution y (put_approval p' db)"
    | (rejected) x p p' x1 where "get_execution i db = Inr x" "truthy (x_approval_id x)"
        "get_approval (the (x_approval_id x)) db = Inr p" "p_consumed_at p = None"
        "p_status p = P_REJECTED" "consume_approval h env p x = (p', x1)" "\<not> b"
        "x_status x \<in> {X_REQUESTED, X_WAITING_APPROVAL}"
        "y = x1\<lparr>x_status := X_REJECTED, x_completed_at := Some (ae_now env),
                x_result := JObj [(''status'', JStr ''REJECTED'')]\<rparr>"
        "db' = put_execution y (put_approval p' db)"
proof -
  obtain x where g: "get_execution i db = Inr x" using assms by (auto simp: claim_execution_def rbind_Inr_iff)
  show thesis
  proof (cases "x_status x \<in> {X_SUCCEEDED, X_REJECTED, X_CANCELLED}")
    case True
    then show thesis using assms g settled by (auto simp: claim_execution_def)
  next
    case n1: False
    have n2: "x_status x \<notin> {X_RUNNING, X_FAILED}" using assms g n1 by (auto simp: claim_execution_def)
    have st: "x_status x \<in> {X_REQUESTED, X_WAITING_APPROVAL}" using n1 n2 by (cases "x_status x") auto
    show thesis
    proof (cases "truthy (x_approval_id x)")
      case False
      then show thesis using assms g n1 n2 st free by (auto simp: claim_execution_def)
    next
      case True
      with assms g n1 n2 obtain p where gp: "get_approval (the (x_approval_id x)) db = Inr p"
        and c: "p_consumed_at p = None" "p_status p \<in> {P_APPROVED, P_EDITED, P_REJECTED}"
        by (auto simp: claim_execution_def rbind_Inr_iff split: if_splits)
      obtain p' x1 where cs: "consume_approval h env p x = (p', x1)" by fastforce
      have r: "(if p_status p = P_REJECTED
              then let x2 = x1\<lparr>x_status := X_REJECTED, x_completed_at := Some (ae_now env),
                                x_result := JObj [(''status'', JStr ''REJECTED'')]\<rparr>
                   in Inr (put_execution x2 (put_approval p' db), False, x2)
              else Inr (put_execution (start_execution env x1) (put_approval p' db), True, start_execution env x1))
         = Inr (db', b, y)"
        using assms g n1 n2 True gp c cs by (auto simp: claim_execution_def Let_def)
      show thesis
      proof (cases "p_status p = P_REJECTED")
        case True
        with r have e: "db' = put_execution y (put_approval p' db)" "\<not> b"
          "y = x1\<lparr>x_status := X_REJECTED, x_completed_at := Some (ae_now env),
             x_result := JObj [(''status'', JStr ''REJECTED'')]\<rparr>" by (auto simp: Let_def)
        show thesis by (rule rejected [OF g \<open>truthy (x_approval_id x)\<close> gp c(1) True cs e(2) st e(3,1)])
      next
        case False
        then have "p_status p \<in> {P_APPROVED, P_EDITED}" using c(2) by simp
        moreover have "b" "y = start_execution env x1" "db' = put_execution y (put_approval p' db)"
          using r False by auto
        ultimately show thesis using approved [OF g \<open>truthy (x_approval_id x)\<close> gp c(1) _ cs _ _ st] by blast
      qed
    qed
  qed
qed

lemma waiting_of: "linked h x p \<Longrightarrow> x_status x \<in> {X_REQUESTED, X_WAITING_APPROVAL} \<Longrightarrow>
    x_status x = X_WAITING_APPROVAL \<and> x_arguments_hash x = arguments_hash h (JObj (p_arguments p))
    \<and> p_consumed_at p = None"
  by (cases "x_status x") (auto simp: linked_def)

lemma safe_pair:
  assumes inv: "actions_inv h db" and x: "x \<in> set (ad_executions db)" and p: "p \<in> set (ad_approvals db)"
    and l: "linked h x p" and l': "linked h x' p'" and k: "x_id x' = x_id x" "p_id p' = p_id p"
    and s: "settled x'" and n: "p_consumed_at p = None"
  shows "actions_inv h (put_execution x' (put_approval p' db)) \<and> ledger_grows db (put_execution x' (put_approval p' db))"
  using inv_put_pair [OF inv x p l l' k] grows_put_approval [OF inv p n k(2)] grows_put_execution [OF s]
    ledger_grows_trans by blast

lemma safe_claim:
  assumes "claim_execution h env i db = Inr (db', b, y)"
  shows "safe_step h db db'"
  unfolding safe_step_def
proof (intro impI)
  assume inv: "actions_inv h db"
  from assms show "actions_inv h db' \<and> ledger_grows db db'"
  proof (cases rule: claim_cases)
    case (free x)
    have x: "x \<in> set (ad_executions db)" using got_execution [OF free(1)] by simp
    have n: "x_approval_id x = None"
    proof (cases "x_approval_id x")
      case (Some a)
      then obtain p where "linked h x p" using actions_invD(4) [OF inv x] by blast
      then show ?thesis using Some free(2) by (simp add: linked_def truthy_def)
    qed
    have "settled y" by (simp add: free(4) start_execution_def settled_def)
    moreover have "actions_inv h db'"
      unfolding free(6) using inv_put_free [OF inv x n, of y] n by (simp add: free(4) start_execution_def)
    ultimately show ?thesis using grows_put_execution by (simp add: free(6))
  next
    case (approved x p p' x1)
    note l = claim_linked [OF inv approved(1,2,3)]
    have x: "x \<in> set (ad_executions db)" using got_execution [OF approved(1)] by simp
    note f = consume_frame [OF approved(6)] and w = waiting_of [OF l(1) approved(9)]
    have "linked h y p'"
      using l(1) approved(5) f(2-4) w
      by (auto simp: linked_def approved(8) start_execution_def f(1) approval_ok_def)
    then show ?thesis unfolding approved(10)
      using safe_pair [OF inv x l(2,1), of y p'] f approved(4)
      by (simp add: approved(8) start_execution_def settled_def)
  next
    case (rejected x p p' x1)
    note l = claim_linked [OF inv rejected(1,2,3)]
    have x: "x \<in> set (ad_executions db)" using got_execution [OF rejected(1)] by simp
    note f = consume_frame [OF rejected(6)]
    have "linked h y p'"
      using l(1) rejected(5) f(2,3) by (auto simp: linked_def rejected(9) f(1) approval_ok_def)
    then show ?thesis unfolding rejected(10)
      using safe_pair [OF inv x l(2,1), of y p'] f rejected(4) by (simp add: rejected(9) settled_def)
  qed (use inv in simp)
qed

lemma safe_finish:
  assumes "finish_execution env i ok s du e db = Inr (db', y)"
  shows "safe_step h db db'"
  unfolding safe_step_def
proof (intro impI)
  assume inv: "actions_inv h db"
  from assms obtain x where g: "get_execution i db = Inr x" and run: "x_status x = X_RUNNING"
    and y: "y = x\<lparr>x_status := (if ok then X_SUCCEEDED else X_FAILED), x_completed_at := Some (ae_now env),
       x_result := s, x_duration_ms := Some du, x_error_type := e\<rparr>" and db': "db' = put_execution y db"
    by (auto simp: finish_execution_def rbind_Inr_iff Let_def split: if_splits)
  have x: "x \<in> set (ad_executions db)" using got_execution [OF g] by simp
  have st: "settled y" by (simp add: y settled_def)
  have "actions_inv h db'"
  proof (cases "x_approval_id x")
    case None
    then show ?thesis unfolding db' using inv_put_free [OF inv x None, of y] by (simp add: y)
  next
    case (Some a)
    then obtain p where p: "p \<in> set (ad_approvals db)" "linked h x p" using actions_invD(4) [OF inv x] by blast
    then have "linked h y p" using run by (simp add: linked_def y)
    then show ?thesis unfolding db' using inv_put_execution [OF inv x p, of y] by (simp add: y)
  qed
  then show "actions_inv h db' \<and> ledger_grows db db'" using grows_put_execution [OF st] by (simp add: db')
qed

lemma cancel_one_Inr:
  assumes inv: "actions_inv h db" and p: "p \<in> set (ad_approvals db)" and r: "cancel_one env db p = Inr db'"
  shows "actions_inv h db' \<and> ledger_grows db db'
    \<and> set (ad_approvals db) - {p} \<subseteq> set (ad_approvals db')"
proof (cases "open_approval p")
  case False
  then show ?thesis using r inv by (auto simp: cancel_one_def)
next
  case True
  let ?p = "p\<lparr>p_status := P_CANCELLED, p_decided_at := Some (ae_now env)\<rparr>"
  obtain x where x: "x \<in> set (ad_executions db)" and l: "linked h x p" using actions_invD(5) [OF inv p] by blast
  have c: "p_consumed_at p = None" "p_status p \<noteq> P_CANCELLED" using True by (auto simp: open_approval_def)
  have st: "x_status x = X_WAITING_APPROVAL" by (rule unconsumed_waits [OF l c])
  have g: "get_execution (p_execution_id p) (put_approval ?p db) = Inr x"
    using l row_get_in [OF x actions_invD(1) [OF inv]] by (simp add: get_execution_Inr linked_def)
  let ?x = "x\<lparr>x_status := X_CANCELLED, x_completed_at := Some (ae_now env)\<rparr>"
  have db': "db' = put_execution ?x (put_approval ?p db)"
    using r True g st by (simp add: cancel_one_def)
  have "linked h ?x ?p" using l c by (auto simp: linked_def approval_ok_def)
  then have "actions_inv h db' \<and> ledger_grows db db'"
    unfolding db' using safe_pair [OF inv x p l, of ?x ?p] c by (simp add: settled_def)
  moreover have "set (ad_approvals db) - {p} \<subseteq> set (ad_approvals db')"
    using set_row_put [OF actions_invD(2) [OF inv] p, of ?p] by (auto simp: db')
  ultimately show ?thesis by blast
qed

lemma safe_cancel_loop:
  "rfold (cancel_one env) db ps = Inr db' \<Longrightarrow> actions_inv h db \<Longrightarrow> distinct ps \<Longrightarrow>
   set ps \<subseteq> set (ad_approvals db) \<Longrightarrow> actions_inv h db' \<and> ledger_grows db db'"
proof (induction ps arbitrary: db)
  case (Cons p ps)
  then obtain d where d: "cancel_one env db p = Inr d" "rfold (cancel_one env) d ps = Inr db'"
    by (auto simp: rbind_Inr_iff)
  have p: "p \<in> set (ad_approvals db)" using Cons.prems by simp
  note c = cancel_one_Inr [OF Cons.prems(2) p d(1)]
  have "set ps \<subseteq> set (ad_approvals db) - {p}" using Cons.prems(3,4) by auto
  then have "set ps \<subseteq> set (ad_approvals d)" using c by blast
  then have "actions_inv h db' \<and> ledger_grows d db'" using Cons.IH [OF d(2)] c Cons.prems(3) by simp
  then show ?case using c ledger_grows_trans by blast
qed simp

lemma safe_cancel:
  assumes "cancel_pending env tid db = Inr db'"
  shows "safe_step h db db'"
  unfolding safe_step_def
proof (intro impI)
  assume inv: "actions_inv h db"
  have "distinct (ad_approvals db)" using actions_invD(2) [OF inv] by (simp add: distinct_map)
  then show "actions_inv h db' \<and> ledger_grows db db'"
    using safe_cancel_loop [OF assms [unfolded cancel_pending_def] inv] by auto
qed

lemma action_exec_safe:
  assumes "action_ok db x"
  shows "safe_step h db (action_exec h x db)"
proof (cases x)
  case (A_request env t args cx d)
  then show ?thesis using assms by (auto simp: safe_request intro!: commit_of_cases [where P = "safe_step h db"])
next
  case (A_claim env i)
  then show ?thesis by (auto intro!: commit_of_cases [where P = "safe_step h db"] dest: safe_claim)
next
  case (A_cancel env tid)
  then show ?thesis by (auto simp: safe_cancel split: sum.split)
qed (auto intro!: commit_of_cases [where P = "safe_step h db"] simp: safe_decide safe_finish)

interpretation actions: guarded_machine "action_exec h" action_ok "actions_inv h" for h
proof
  fix db x assume "actions_inv h db" "action_ok db x"
  then show "actions_inv h (action_exec h x db)" using action_exec_safe [of db x h] by (simp add: safe_step_def)
qed

lemma actions_grow: "actions.reaches h db db' \<Longrightarrow> actions_inv h db \<Longrightarrow> ledger_grows db db'"
  by (rule actions.reaches_rel [where R = ledger_grows])
    (use action_exec_safe in \<open>auto simp: safe_step_def intro: ledger_grows_trans\<close>)

section \<open>Properties\<close>

lemma approved_edit:
  assumes "approval_ok p" and "k \<notin> {''title'', ''body''}"
  shows "map_of (approved_arguments p) k = map_of (p_arguments p) k"
proof (cases "p_edited p")
  case (Some args)
  then have "map_of args k = map_of (p_arguments p) k" using assms unfolding approval_ok_def by blast
  then show ?thesis using Some by (cases args) (simp_all add: approved_arguments_def)
qed (simp add: approved_arguments_def)

text \<open>
  C11: An execution is claimed at most once: after a successful claim, whatever requests, decisions,
  claims, results and cancellations follow, no further claim of that execution succeeds - a retry, a
  replayed graph node or a second worker never repeats the call.
\<close>

theorem executed_at_most_once:
  assumes "claim_execution h env i db = Inr (db1, True, x)" and "actions_inv h db"
    and "actions.reaches h db1 db2"
  shows "\<not> (\<exists>db3 y. claim_execution h env' i db2 = Inr (db3, True, y))"
proof -
  have inv1: "actions_inv h db1" using safe_claim [OF assms(1)] assms(2) by (simp add: safe_step_def)
  have "\<exists>z. row_get x_id i (ad_executions db1) = Some z \<and> settled z"
    using assms(1)
  proof (cases rule: claim_cases)
    case (free y)
    then have "x_id x = i" using got_execution [OF free(1)] by (simp add: start_execution_def)
    then show ?thesis using free(1)
      by (auto simp: free(6) rows.get_put get_execution_Inr settled_def start_execution_def free(4))
  next
    case (approved y p p' x1)
    then have "x_id x = i" using got_execution [OF approved(1)] consume_frame(2) [OF approved(6)]
      by (simp add: start_execution_def)
    then show ?thesis using approved(1)
      by (auto simp: approved(10) rows.get_put get_execution_Inr settled_def start_execution_def approved(8))
  qed auto
  then obtain z where "row_get x_id i (ad_executions db2) = Some z" "settled z"
    using actions_grow [OF assms(3) inv1] unfolding ledger_grows_def by blast
  then show ?thesis by (cases "x_status z") (auto simp: claim_execution_def get_execution_def settled_def)
qed

text \<open>
  C12: What ran under an approval is what was approved.  In every reachable ledger, an execution that
  has an approval and is running, succeeded or failed belongs to an approval that was decided as
  APPROVED or EDITED and consumed, its recorded arguments are the approved (or edited) ones, an edit
  differs from the request in title and body alone, and the consumed approval never changes again.
\<close>

theorem approved_arguments_only:
  assumes "actions.reaches h db db1" and "actions_inv h db"
    and "x \<in> set (ad_executions db1)" and "x_approval_id x = Some a"
    and "x_status x \<in> {X_RUNNING, X_SUCCEEDED, X_FAILED}" and "actions.reaches h db1 db2"
  shows "\<exists>p\<in>set (ad_approvals db1). p_id p = a \<and> p_decision p = Some (p_status p)
    \<and> p_status p \<in> {P_APPROVED, P_EDITED} \<and> p_consumed_at p \<noteq> None
    \<and> x_arguments_hash x = arguments_hash h (JObj (approved_arguments p))
    \<and> (\<forall>k. k \<notin> {''title'', ''body''} \<longrightarrow> map_of (approved_arguments p) k = map_of (p_arguments p) k)
    \<and> p \<in> set (ad_approvals db2)"
proof -
  have inv: "actions_inv h db1" by (rule actions.reaches_invar [OF assms(1,2)])
  obtain p where p: "p \<in> set (ad_approvals db1)" and l: "linked h x p"
    using actions_invD(4) [OF inv assms(3,4)] by blast
  have s: "p_consumed_at p \<noteq> None" "p_status p \<in> {P_APPROVED, P_EDITED}"
    "x_arguments_hash x = arguments_hash h (JObj (approved_arguments p))"
    using l assms(5) by (auto simp: linked_def)
  have ok: "approval_ok p" "p_id p = a" using l assms(4) by (auto simp: linked_def)
  have d: "p_decision p = Some (p_status p)" using ok(1) s(2) by (auto simp: approval_ok_def)
  have e: "map_of (approved_arguments p) k = map_of (p_arguments p) k" if "k \<notin> {''title'', ''body''}" for k
    by (rule approved_edit [OF ok(1) that])
  have "p \<in> set (ad_approvals db2)"
    using actions_grow [OF assms(6) inv] p s(1) unfolding ledger_grows_def by simp
  then show ?thesis using p s ok(2) d e by (intro bexI [of _ p] conjI allI impI)
qed

definition wit_hasher :: hasher where
  "wit_hasher = \<lparr>h_sha256 = (\<lambda>s. s), h_float = (\<lambda>r. [])\<rparr>"

definition wit_action_env :: action_env where
  "wit_action_env = \<lparr>ae_now = 3, ae_fresh = (\<lambda>n. if n = 0 then ''n'' else if n = 1 then ''x'' else ''a'')\<rparr>"

definition wit_context :: action_context where
  "wit_context = \<lparr>cx_task_id = Some ''t'', cx_step_id = Some ''s0'', cx_session_id = None, cx_run_id = ''r'',
     cx_tool_run_id = None, cx_agent = []\<rparr>"

definition wit_lib :: schema_lib where
  "wit_lib = \<lparr>sl_check = (\<lambda>s. True), sl_valid = (\<lambda>s v. True)\<rparr>"

definition wit_ops :: "action_op list" where
  "wit_ops = [A_request wit_action_env wit_tool wit_args wit_context
       \<lparr>pd_requires_approval = True, pd_reason = ''write/high''\<rparr>,
     A_decide wit_action_env wit_lib wit_policy ''a'' P_EDITED [(''title'', JStr ''T'')]]"

definition wit_ledger :: action_db where
  "wit_ledger = actions.run wit_hasher wit_ops \<lparr>ad_executions = [], ad_approvals = []\<rparr>"

lemma wit_ledger_reached: "actions.reaches wit_hasher \<lparr>ad_executions = [], ad_approvals = []\<rparr> wit_ledger"
proof -
  have "action_ok db x" if "x \<in> set wit_ops" for x db
    using that by (auto simp: wit_ops_def wit_action_env_def)
  then have "actions.reaches wit_hasher s (actions.run wit_hasher xs s)" if "set xs \<subseteq> set wit_ops" for xs s
    using that
  proof (induction xs arbitrary: s)
    case (Cons x xs)
    have "actions.reaches wit_hasher s (action_exec wit_hasher x s)"
      using Cons.prems by (intro actions.reaches.step [OF actions.reaches.refl] Cons(2)) simp_all
    then show ?case using Cons by (auto intro: actions.reaches_trans)
  qed (simp add: actions.reaches.refl)
  then show ?thesis by (simp add: wit_ledger_def)
qed

lemma wit_empty_inv: "actions_inv h \<lparr>ad_executions = [], ad_approvals = []\<rparr>"
  by (simp add: actions_inv_def)

lemma wit_ledger_inv: "actions_inv wit_hasher wit_ledger"
  by (rule actions.reaches_invar [OF wit_ledger_reached wit_empty_inv])

lemma wit_claim_ok: "\<exists>db1 x. claim_execution wit_hasher wit_action_env ''x'' wit_ledger = Inr (db1, True, x)
    \<and> x_approval_id x = Some ''a'' \<and> x_status x = X_RUNNING \<and> x \<in> set (ad_executions db1)"
proof -
  have "(case claim_execution wit_hasher wit_action_env ''x'' wit_ledger of Inl e \<Rightarrow> False
     | Inr (db1, b, x) \<Rightarrow> b \<and> x_approval_id x = Some ''a'' \<and> x_status x = X_RUNNING
         \<and> map x_status (ad_executions db1) = [X_RUNNING])"
    unfolding wit_ledger_def wit_ops_def actions.run.simps by code_simp
  then obtain db1 x where c: "claim_execution wit_hasher wit_action_env ''x'' wit_ledger = Inr (db1, True, x)"
    and s: "x_approval_id x = Some ''a''" "x_status x = X_RUNNING" "map x_status (ad_executions db1) = [X_RUNNING]"
    by (auto split: sum.splits)
  have "x \<in> set (ad_executions db1)"
    using c
  proof (cases rule: claim_cases)
    case (approved y p p' x1)
    then show ?thesis using got_execution [OF approved(1)] consume_frame(2) [OF approved(6)]
      by (force simp: row_put_def start_execution_def)
  next
    case (free y)
    then show ?thesis using got_execution [OF free(1)] by (force simp: row_put_def start_execution_def)
  qed simp_all
  then show ?thesis using c s by blast
qed

theorem executed_at_most_once_witness:
  "\<exists>db1 x. claim_execution wit_hasher wit_action_env ''x'' wit_ledger = Inr (db1, True, x)
    \<and> \<not> (\<exists>db3 y. claim_execution wit_hasher wit_action_env ''x'' db1 = Inr (db3, True, y))"
proof -
  obtain db1 x where c: "claim_execution wit_hasher wit_action_env ''x'' wit_ledger = Inr (db1, True, x)"
    using wit_claim_ok by blast
  show ?thesis using executed_at_most_once [OF c wit_ledger_inv actions.reaches.refl] c by blast
qed

theorem approved_arguments_only_witness:
  "\<exists>db1 :: action_db. \<exists>p\<in>set (ad_approvals db1). p_id p = ''a'' \<and> p_consumed_at p \<noteq> None"
proof -
  obtain db1 x where c: "claim_execution wit_hasher wit_action_env ''x'' wit_ledger = Inr (db1, True, x)"
    and x: "x_approval_id x = Some ''a''" "x_status x = X_RUNNING" "x \<in> set (ad_executions db1)"
    using wit_claim_ok by blast
  have "actions.reaches wit_hasher wit_ledger (action_exec wit_hasher (A_claim wit_action_env ''x'') wit_ledger)"
    by (rule actions.reaches.step [OF actions.reaches.refl]) simp
  then have r: "actions.reaches wit_hasher wit_ledger db1" by (simp add: c)
  have "x_status x \<in> {X_RUNNING, X_SUCCEEDED, X_FAILED}" using x(2) by simp
  from approved_arguments_only [OF r wit_ledger_inv x(3,1) this actions.reaches.refl]
  obtain p where "p \<in> set (ad_approvals db1)" "p_id p = ''a''" "p_consumed_at p \<noteq> None" by (elim bexE conjE)
  then show ?thesis by (intro exI [of _ db1] bexI [of _ p] conjI)
qed

end
