(* ===== verification/Mcp_Tools.thy ===== *)
theory Mcp_Tools
  imports Tool_Policy
begin

text \<open>
  \<open>server/mcp_client.py\<close>: what discovery makes of the tools a remote MCP server lists, and how an answer
  of such a server is bounded.  The protocol and its transports are a library; their answers are inputs.
\<close>

section \<open>Discovery\<close>

record mcp_item =
  mi_name :: string
  mi_description :: "string option"
  mi_value :: "(string, json) dict"      \<comment> \<open>\<open>item.model_dump(by_alias=True)\<close>\<close>

record mcp_config =
  mc_allowlist :: string
  mc_read_only :: bool
  mc_secrets :: "string list"

definition tool_name_rx :: rx where
  "tool_name_rx = Between 1 128 (Cls (\<lambda>c. is_alnum c \<or> c \<in> set ''_.-''))"

fun paginate ::
  "nat \<Rightarrow> (string option \<Rightarrow> mcp_item list \<times> string option) \<Rightarrow> string option \<Rightarrow> mcp_item list \<Rightarrow>
   mcp_item list result" where
  "paginate 0 page cursor acc = Inl (Value_Error ''Discovery pagination limit exceeded'')"
| "paginate (Suc n) page cursor acc =
     (case page cursor of (items, next_cursor) \<Rightarrow>
        if truthy next_cursor then paginate n page next_cursor (acc @ items) else Inr (acc @ items))"

definition list_operation :: "(string option \<Rightarrow> mcp_item list \<times> string option) \<Rightarrow> mcp_item list result" where
  "list_operation page = paginate 100 page None []"

definition item_schema :: "mcp_item \<Rightarrow> json" where
  "item_schema i = dict_get (mi_value i) ''inputSchema''
     (dict_get (mi_value i) ''input_schema'' (JObj []))"

definition names_of :: "string \<Rightarrow> string list" where
  "names_of s = filter (\<lambda>n. n \<noteq> []) (map strip (split_on (CHR '','') [] s))"

definition mcp_enabled :: "mcp_config \<Rightarrow> ident \<Rightarrow> string \<Rightarrow> operation \<Rightarrow> bool \<Rightarrow> bool" where
  "mcp_enabled cfg server name oper enabled =
     (enabled \<and> (server = ''github'' \<longrightarrow>
        (names_of (mc_allowlist cfg) = [] \<or> name \<in> set (names_of (mc_allowlist cfg)))
        \<and> \<not> (oper \<noteq> Op_read \<and> mc_read_only cfg)))"

definition clean_string :: "string list \<Rightarrow> string \<Rightarrow> string" where
  "clean_string vs s = (case clean vs (JStr s) of JStr t \<Rightarrow> t | _ \<Rightarrow> s)"

definition mcp_descriptor :: "schema_lib \<Rightarrow> mcp_config \<Rightarrow> ident \<Rightarrow> mcp_item \<Rightarrow> tool option" where
  "mcp_descriptor lib cfg server i =
     (if \<not> fullmatch tool_name_rx (mi_name i) \<or> \<not> is_ok (check_schema lib (item_schema i)) then None
      else (case local_profile server (mi_name i) of (cap, oper, rk, enabled) \<Rightarrow>
        Some \<lparr>tl_name = ''mcp.'' @ server @ ''.'' @ mi_name i, tl_provider = server,
              tl_provider_type = Mcp,
              tl_description = take 2000 (clean_string (mc_secrets cfg)
                (case mi_description i of None \<Rightarrow> [] | Some d \<Rightarrow> d)),
              tl_input_schema = clean (mc_secrets cfg) (item_schema i),
              tl_capability = cap, tl_operation = oper, tl_risk = rk,
              tl_requires_approval = (oper \<noteq> Op_read),
              tl_enabled = mcp_enabled cfg server (mi_name i) oper enabled,
              tl_metadata = [(''remote_name'', JStr (mi_name i)),
                (''raw_input_schema'', clean (mc_secrets cfg) (item_schema i)),
                (''annotations'', clean (mc_secrets cfg) (dict_get (mi_value i) ''annotations'' JNull)),
                (''untrusted'', JBool True)]\<rparr>))"

definition mcp_list_tools :: "schema_lib \<Rightarrow> mcp_config \<Rightarrow> ident \<Rightarrow> mcp_item list \<Rightarrow> tool list" where
  "mcp_list_tools lib cfg server items = List.map_filter (mcp_descriptor lib cfg server) items"

section \<open>Answers\<close>

text \<open>Blocks of content without binary data, their texts cut to 32000 characters.\<close>

definition normal_block :: "(string, json) dict \<Rightarrow> (string, json) dict" where
  "normal_block b = map (\<lambda>(k, v). (k, case v of JStr s \<Rightarrow> if k = ''text'' then JStr (take 32000 s) else v | _ \<Rightarrow> v))
     (filter (\<lambda>(k, v). k \<noteq> ''data'') b)"

text \<open>\<open>dump\<close> is \<open>json.dumps(v, ensure_ascii=False)\<close>.\<close>

definition bounded_structured :: "(json \<Rightarrow> string) \<Rightarrow> json \<Rightarrow> json" where
  "bounded_structured dump v =
     (if 32000 < length (dump v)
      then JObj [(''truncated'', JBool True), (''text'', JStr (take 32000 (dump v)))] else v)"

section \<open>Lemmas\<close>

lemma paginate_bound: "paginate n page c acc = Inr items \<Longrightarrow> 0 < n"
  by (cases n) simp_all

text \<open>What discovery says of a tool is what the policy will decide on, whatever the server claims.\<close>

lemma mcp_descriptor_profile:
  assumes "mcp_descriptor lib cfg server i = Some t"
  shows "remote_name t = Some (mi_name i) \<and> tl_provider t = server \<and> tl_provider_type t = Mcp
    \<and> (tl_enabled t \<longrightarrow> effective_profile t = Inr (tl_operation t, tl_risk t))
    \<and> (tl_requires_approval t \<longleftrightarrow> tl_operation t \<noteq> Op_read)"
proof -
  obtain cap oper rk en where p: "local_profile server (mi_name i) = (cap, oper, rk, en)"
    by (cases "local_profile server (mi_name i)")
  then show ?thesis using assms
    by (auto simp: mcp_descriptor_def remote_name_def effective_profile_def mcp_enabled_def split: if_splits)
qed

end
