(* ===== verification/Budget.thy ===== *)
theory Budget
  imports PyNum PyText
begin

text \<open>
  \<open>BudgetManager\<close> of \<open>server/agent/efficiency.py\<close>: the budget a supervisor's agents share.  Seconds are
  rationals; \<open>MultiAgentBudget\<close> is the record of limits, with the bounds its fields declare.
\<close>

section \<open>Limits and state\<close>

record limits =
  l_delegations :: nat
  l_parallel :: nat
  l_llm_calls :: nat
  l_tool_calls :: nat
  l_total_tokens :: "nat option"
  l_wall_seconds :: rat
  l_review_rounds :: nat
  l_redelegations :: nat

definition limits_ok :: "limits \<Rightarrow> bool" where
  "limits_ok l = (1 \<le> l_delegations l \<and> 1 \<le> l_parallel l \<and> 1 \<le> l_llm_calls l \<and> 1 \<le> l_tool_calls l
     \<and> (case l_total_tokens l of None \<Rightarrow> True | Some n \<Rightarrow> 1 \<le> n) \<and> 0 < l_wall_seconds l
     \<and> l_review_rounds l \<le> 1 \<and> l_redelegations l \<le> 2)"

record budget =
  b_limits :: limits
  b_started_at :: time
  b_completed_at :: "time option"
  b_paused_at :: "time option"
  b_paused_seconds :: rat
  b_llm_calls :: nat
  b_tool_calls :: nat
  b_tokens :: "int option"
  b_known_tokens :: int
  b_token_samples :: nat
  b_delegations :: nat
  b_redelegations :: nat
  b_review_rounds :: nat
  b_exhausted :: bool
  b_reasons :: "string list"
  b_phase_calls :: "(string, nat) dict"

definition initial :: "time \<Rightarrow> limits \<Rightarrow> budget result" where
  "initial now l =
     (if \<not> limits_ok l then Inl (Provider_Error ''ValidationError'')
      else Inr \<lparr>b_limits = l, b_started_at = now, b_completed_at = None, b_paused_at = None,
        b_paused_seconds = 0, b_llm_calls = 0, b_tool_calls = 0, b_tokens = None, b_known_tokens = 0,
        b_token_samples = 0, b_delegations = 0, b_redelegations = 0, b_review_rounds = 0,
        b_exhausted = False, b_reasons = [], b_phase_calls = []\<rparr>)"

definition seconds :: "time \<Rightarrow> time \<Rightarrow> rat" where
  "seconds a b = of_int (b - a) / 1000000"

definition ended :: "time \<Rightarrow> budget \<Rightarrow> time" where
  "ended now b = (case b_completed_at b of None \<Rightarrow> now | Some t \<Rightarrow> t)"

definition elapsed :: "time \<Rightarrow> budget \<Rightarrow> rat" where
  "elapsed now b =
     (let paused = b_paused_seconds b + (case b_paused_at b of
            None \<Rightarrow> 0 | Some p \<Rightarrow> max 0 (seconds p (ended now b)))
      in max 0 (seconds (b_started_at b) (ended now b) - paused))"

definition utilization :: "time \<Rightarrow> budget \<Rightarrow> rat" where
  "utilization now b =
     (let l = b_limits b;
          ratios = [of_nat (b_llm_calls b) / of_nat (l_llm_calls l),
            of_nat (b_tool_calls b) / of_nat (l_tool_calls l),
            of_nat (b_delegations b) / of_nat (l_delegations l), elapsed now b / l_wall_seconds l]
            @ (case (l_total_tokens l, b_tokens b) of
                 (Some n, Some t) \<Rightarrow> if n = 0 then [] else [of_int t / of_nat n] | _ \<Rightarrow> [])
      in Max (set ratios))"

record budget_view =
  v_elapsed :: rat
  v_utilization :: rat
  v_soft_reached :: bool
  v_token_status :: string

definition snapshot :: "time \<Rightarrow> rat \<Rightarrow> budget \<Rightarrow> budget_view" where
  "snapshot now ratio b = \<lparr>v_elapsed = elapsed now b, v_utilization = utilization now b,
     v_soft_reached = (ratio \<le> utilization now b),
     v_token_status = (if b_tokens b = None then ''unavailable'' else ''available'')\<rparr>"

definition pause :: "time \<Rightarrow> budget \<Rightarrow> budget" where
  "pause now b = b\<lparr>b_paused_at := or_time (b_paused_at b) now\<rparr>"

definition resume :: "time \<Rightarrow> budget \<Rightarrow> budget" where
  "resume now b = (case b_paused_at b of
     None \<Rightarrow> b
   | Some p \<Rightarrow> b\<lparr>b_paused_at := None, b_paused_seconds := b_paused_seconds b + max 0 (seconds p now)\<rparr>)"

section \<open>Reservations\<close>

datatype resource_kind = Llm_calls | Tool_calls | Delegations

definition finalizer_phases :: "string list" where
  "finalizer_phases = [''final_synthesis'', ''grounding'', ''answer_revision'', ''memory'']"

definition kept_calls :: "limits \<Rightarrow> nat" where
  \<comment> \<open>the model calls only the finalizer phases may take\<close>
  "kept_calls l = min 4 (l_llm_calls l - 1)"

definition refusal :: "time \<Rightarrow> resource_kind \<Rightarrow> string \<Rightarrow> budget \<Rightarrow> string option" where
  "refusal now kind phase b =
     (let l = b_limits b; finalizer = phase \<in> set finalizer_phases in
      if b_exhausted b \<and> \<not> finalizer then Some (hd (b_reasons b))
      else if kind = Llm_calls \<and> int (l_llm_calls l) - (if finalizer then 0 else int (kept_calls l)) \<le> int (b_llm_calls b)
      then Some ''llm_calls''
      else if kind = Tool_calls \<and> l_tool_calls l \<le> b_tool_calls b then Some ''tool_calls''
      else if kind = Delegations \<and> l_delegations l \<le> b_delegations b then Some ''delegations''
      else if kind = Delegations \<and> phase = ''reviewer'' \<and> l_review_rounds l \<le> b_review_rounds b
      then Some ''review_rounds''
      else if kind = Delegations \<and> phase = ''supplementary'' \<and> l_redelegations l \<le> b_redelegations b
      then Some ''redelegations''
      else if l_wall_seconds l \<le> elapsed now b then Some ''wall_time''
      else if (case l_total_tokens l of None \<Rightarrow> False | Some n \<Rightarrow> n \<noteq> 0 \<and> int n \<le> b_known_tokens b)
      then Some ''tokens''
      else None)"

definition charge :: "resource_kind \<Rightarrow> string \<Rightarrow> budget \<Rightarrow> budget" where
  "charge kind phase b = (case kind of
     Llm_calls \<Rightarrow> b\<lparr>b_llm_calls := Suc (b_llm_calls b),
        b_phase_calls := dict_put phase (Suc (dict_get (b_phase_calls b) phase 0)) (b_phase_calls b)\<rparr>
   | Tool_calls \<Rightarrow> b\<lparr>b_tool_calls := Suc (b_tool_calls b)\<rparr>
   | Delegations \<Rightarrow> b\<lparr>b_delegations := Suc (b_delegations b),
        b_review_rounds := (if phase = ''reviewer'' then Suc (b_review_rounds b) else b_review_rounds b),
        b_redelegations := (if phase = ''supplementary'' then Suc (b_redelegations b)
                            else b_redelegations b)\<rparr>)"

definition reserve :: "time \<Rightarrow> resource_kind \<Rightarrow> string \<Rightarrow> budget \<Rightarrow> budget \<times> string option" where
  "reserve now kind phase b = (case refusal now kind phase b of
     Some reason \<Rightarrow> (b\<lparr>b_exhausted := True, b_reasons := fromkeys (b_reasons b @ [reason])\<rparr>, Some reason)
   | None \<Rightarrow> (charge kind phase b, None))"

end
