(* ===== verification/Budget_Laws.thy ===== *)
theory Budget_Laws
  imports Budget
begin

text \<open>
  What the budget guarantees: it is never overspent, and the model calls set aside for the finalizer
  phases are there when those phases need them.
\<close>

section \<open>Counters with a limit\<close>

text \<open>
  The contract every bounded counter of the program has: a request is granted only below the limit and
  counts one, a refusal counts nothing.
\<close>

locale bounded_counter =
  fixes take :: "'a \<Rightarrow> 's \<Rightarrow> 's \<times> bool"
    and used :: "'s \<Rightarrow> nat"
    and limit :: "'s \<Rightarrow> nat"
  assumes granted: "take a s = (t, True) \<Longrightarrow> used s < limit s \<and> used t = Suc (used s)"
    and refused: "take a s = (t, False) \<Longrightarrow> used t = used s"
    and limit_kept: "take a s = (t, g) \<Longrightarrow> limit t = limit s"
begin

fun grants :: "'a list \<Rightarrow> 's \<Rightarrow> 's \<times> nat" where
  "grants [] s = (s, 0)"
| "grants (a # as) s = (case take a s of (t, g) \<Rightarrow>
     case grants as t of (u, n) \<Rightarrow> (u, (if g then Suc n else n)))"

lemma grants_count: "grants as s = (t, n) \<Longrightarrow> used t = used s + n \<and> limit t = limit s"
proof (induction as arbitrary: s n)
  case (Cons a as)
  obtain u g where u: "take a s = (u, g)" by fastforce
  obtain v k where v: "grants as u = (v, k)" by fastforce
  show ?case using Cons u v granted [of a s u] refused [of a s u] limit_kept [OF u] by (cases g) auto
qed simp

lemma used_within: "grants as s = (t, n) \<Longrightarrow> used s \<le> limit s \<Longrightarrow> used t \<le> limit s"
proof (induction as arbitrary: s n t)
  case (Cons a as)
  obtain u g where u: "take a s = (u, g)" by fastforce
  obtain v k where v: "grants as u = (v, k)" by fastforce
  have "used u \<le> limit u"
    using Cons.prems(2) u granted [of a s u] refused [of a s u] limit_kept [OF u] by (cases g) auto
  then show ?case using Cons.IH [OF v] Cons.prems(1) u v limit_kept [OF u] by simp
qed simp

lemma grants_bound: "grants as s = (t, n) \<Longrightarrow> used s \<le> limit s \<Longrightarrow> n \<le> limit s - used s"
  using grants_count [of as s t n] used_within [of as s t n] by simp

end

lemma reserve_cases:
  assumes "reserve now kind phase b = (b', r)"
  obtains (no) reason where "r = Some reason" "refusal now kind phase b = Some reason"
      "b' = b\<lparr>b_exhausted := True, b_reasons := fromkeys (b_reasons b @ [reason])\<rparr>"
    | (yes) "r = None" "refusal now kind phase b = None" "b' = charge kind phase b"
proof (cases "refusal now kind phase b")
  case None
  then show thesis using assms yes by (simp add: reserve_def)
next
  case (Some reason)
  then show thesis using assms no [of reason] by (simp add: reserve_def)
qed

lemma refusal_None:
  assumes "refusal now kind phase b = None"
  shows "kind = Llm_calls \<Longrightarrow> b_llm_calls b < l_llm_calls (b_limits b)"
    and "kind = Llm_calls \<Longrightarrow> phase \<notin> set finalizer_phases \<Longrightarrow>
      b_llm_calls b + kept_calls (b_limits b) < l_llm_calls (b_limits b)"
    and "kind = Tool_calls \<Longrightarrow> b_tool_calls b < l_tool_calls (b_limits b)"
    and "kind = Delegations \<Longrightarrow> b_delegations b < l_delegations (b_limits b)"
    and "kind = Delegations \<Longrightarrow> phase = ''reviewer'' \<Longrightarrow> b_review_rounds b < l_review_rounds (b_limits b)"
    and "kind = Delegations \<Longrightarrow> phase = ''supplementary'' \<Longrightarrow>
      b_redelegations b < l_redelegations (b_limits b)"
  using assms by (auto simp: refusal_def Let_def split: if_splits)

lemma charge_frame [simp]:
  "b_limits (charge kind phase b) = b_limits b"
  "b_llm_calls (charge kind phase b) = (if kind = Llm_calls then Suc (b_llm_calls b) else b_llm_calls b)"
  "b_tool_calls (charge kind phase b) = (if kind = Tool_calls then Suc (b_tool_calls b) else b_tool_calls b)"
  "b_delegations (charge kind phase b) = (if kind = Delegations then Suc (b_delegations b) else b_delegations b)"
  by (cases kind; simp add: charge_def)+

definition used_of :: "resource_kind \<Rightarrow> budget \<Rightarrow> nat" where
  "used_of kind b = (case kind of Llm_calls \<Rightarrow> b_llm_calls b | Tool_calls \<Rightarrow> b_tool_calls b
     | Delegations \<Rightarrow> b_delegations b)"

definition limit_of :: "resource_kind \<Rightarrow> budget \<Rightarrow> nat" where
  "limit_of kind b = (case kind of Llm_calls \<Rightarrow> l_llm_calls (b_limits b)
     | Tool_calls \<Rightarrow> l_tool_calls (b_limits b) | Delegations \<Rightarrow> l_delegations (b_limits b))"

definition reserving :: "resource_kind \<Rightarrow> time \<times> string \<Rightarrow> budget \<Rightarrow> budget \<times> bool" where
  "reserving kind x b = (case reserve (fst x) kind (snd x) b of (b', r) \<Rightarrow> (b', r = None))"

interpretation reservation: bounded_counter "reserving kind" "used_of kind" "limit_of kind" for kind
proof
  fix x :: "time \<times> string" and b b' :: budget and g
  show "used_of kind b < limit_of kind b \<and> used_of kind b' = Suc (used_of kind b)"
    if "reserving kind x b = (b', True)"
    using that refusal_None [of "fst x" kind "snd x" b]
    by (cases kind) (auto simp: reserving_def used_of_def limit_of_def elim!: reserve_cases split: prod.splits)
  show "used_of kind b' = used_of kind b" if "reserving kind x b = (b', False)"
    using that by (cases kind) (auto simp: reserving_def used_of_def elim!: reserve_cases split: prod.splits)
  show "limit_of kind b' = limit_of kind b" if "reserving kind x b = (b', g)"
    using that by (cases kind) (auto simp: reserving_def limit_of_def elim!: reserve_cases split: prod.splits)
qed

section \<open>Every counter at once\<close>

datatype budget_op =
    B_reserve time resource_kind string
  | B_pause time
  | B_resume time

fun budget_exec :: "budget_op \<Rightarrow> budget \<Rightarrow> budget" where
  "budget_exec (B_reserve now kind phase) b = fst (reserve now kind phase b)"
| "budget_exec (B_pause now) b = pause now b"
| "budget_exec (B_resume now) b = resume now b"

definition finalizer_calls :: "budget \<Rightarrow> nat" where
  "finalizer_calls b = sum_list (map (\<lambda>p. dict_get (b_phase_calls b) p 0) finalizer_phases)"

definition in_budget :: "budget \<Rightarrow> bool" where
  "in_budget b =
     (b_llm_calls b \<le> l_llm_calls (b_limits b) \<and> b_tool_calls b \<le> l_tool_calls (b_limits b)
      \<and> b_delegations b \<le> l_delegations (b_limits b) \<and> b_review_rounds b \<le> l_review_rounds (b_limits b)
      \<and> b_redelegations b \<le> l_redelegations (b_limits b)
      \<and> b_llm_calls b \<le> l_llm_calls (b_limits b) - kept_calls (b_limits b) + finalizer_calls b)"

lemma finalizer_calls_charge:
  "finalizer_calls (charge kind phase b) =
     (if kind = Llm_calls \<and> phase \<in> set finalizer_phases then Suc (finalizer_calls b) else finalizer_calls b)"
  by (cases kind) (auto simp: charge_def finalizer_calls_def finalizer_phases_def row_simps)

lemma budget_exec_within: "in_budget b \<Longrightarrow> in_budget (budget_exec x b)"
proof (cases x)
  case (B_reserve now kind phase)
  assume w: "in_budget b"
  obtain b' r where e: "reserve now kind phase b = (b', r)" by fastforce
  then have "in_budget b'"
  proof (cases rule: reserve_cases)
    case (no reason)
    then show ?thesis using w by (simp add: in_budget_def finalizer_calls_def)
  next
    case yes
    note n = refusal_None [OF yes(2)]
    have rest: "b_review_rounds b' \<le> l_review_rounds (b_limits b')"
      "b_redelegations b' \<le> l_redelegations (b_limits b')"
      using w n(5,6) by (cases kind; auto simp: yes(3) charge_def in_budget_def)+
    have "b_llm_calls b' \<le> l_llm_calls (b_limits b') - kept_calls (b_limits b') + finalizer_calls b'"
      using w n(1,2) by (auto simp: yes(3) finalizer_calls_charge in_budget_def)
    then show ?thesis using w n(1,3,4) rest by (auto simp: yes(3) in_budget_def)
  qed
  then show ?thesis using e B_reserve by simp
qed (auto simp: in_budget_def pause_def resume_def finalizer_calls_def split: option.splits)

interpretation budget: guarded_machine budget_exec "\<lambda>b x. True" in_budget
  by unfold_locales (rule budget_exec_within)

lemma initial_within: "initial now l = Inr b \<Longrightarrow> in_budget b"
  by (auto simp: initial_def in_budget_def split: if_splits)

lemma reserve_limits: "b_limits (fst (reserve now kind phase b)) = b_limits b"
  by (auto simp: reserve_def split: option.splits)

lemma budget_exec_limits: "b_limits (budget_exec x b) = b_limits b"
  by (cases x) (auto simp: reserve_limits pause_def resume_def split: option.splits)



section \<open>Witnesses\<close>

definition wit_limits :: limits where
  "wit_limits = \<lparr>l_delegations = 8, l_parallel = 3, l_llm_calls = 5, l_tool_calls = 12,
     l_total_tokens = None, l_wall_seconds = 300, l_review_rounds = 1, l_redelegations = 2\<rparr>"

definition wit_budget :: budget where
  "wit_budget = \<lparr>b_limits = wit_limits, b_started_at = 0, b_completed_at = None, b_paused_at = None,
     b_paused_seconds = 0, b_llm_calls = 0, b_tool_calls = 0, b_tokens = None, b_known_tokens = 0,
     b_token_samples = 0, b_delegations = 0, b_redelegations = 0, b_review_rounds = 0,
     b_exhausted = False, b_reasons = [], b_phase_calls = []\<rparr>"

lemma wit_initial: "initial 0 wit_limits = Inr wit_budget"
  by (simp add: initial_def limits_ok_def wit_limits_def wit_budget_def)

definition wit_spent :: budget where
  "wit_spent = budget_exec (B_reserve 2 Llm_calls ''model'') (budget_exec (B_reserve 1 Llm_calls ''model'') wit_budget)"

lemma wit_spent_reached: "budget.reaches wit_budget wit_spent"
  unfolding wit_spent_def by (intro budget.reaches.step budget.reaches.refl TrueI)



end
