(* ===== verification/Agent_Schemas.thy ===== *)
theory Agent_Schemas
  imports PyJson
begin

text \<open>
  \<open>server/agent/orchestration_schemas.py\<close>: the contracts between the supervisor and its workers, with
  the checks their fields declare.
\<close>

datatype scope = Scope_workspace | Scope_workspace_external | Scope_external

record agent_descriptor =
  ag_id :: ident
  ag_name :: string
  ag_description :: string
  ag_capabilities :: "string list"
  ag_tool_capabilities :: "string list"
  ag_can_delegate :: bool
  ag_enabled :: bool
  ag_max_iterations :: nat
  ag_max_tool_calls :: nat
  ag_context_policy :: string
  ag_output_contract :: string

definition agent_descriptor_ok :: "agent_descriptor \<Rightarrow> bool" where
  "agent_descriptor_ok a = (1 \<le> ag_max_iterations a \<and> ag_max_iterations a \<le> 12 \<and> ag_max_tool_calls a \<le> 16)"

record delegation_context =
  dc_goal :: string
  dc_constraints :: "string list"
  dc_workspace_id :: "ident option"
  dc_scope :: scope
  dc_memory_ids :: "ident list"
  dc_evidence_ids :: "ident list"
  dc_dataset_ids :: "ident list"
  dc_artifact_ids :: "ident list"
  dc_notes :: "string list"

record delegation_request =
  dq_id :: ident
  dq_task_id :: "ident option"
  dq_parent_step_id :: "ident option"
  dq_supervisor_run_id :: ident
  dq_agent_id :: ident
  dq_objective :: string
  dq_required :: "string list"
  dq_context :: delegation_context
  dq_expected_output :: string
  dq_priority :: nat
  dq_allowed_tools :: "string list"
  dq_max_iterations :: nat
  dq_max_tool_calls :: nat
  dq_depth :: nat
  dq_group :: nat
  dq_revision_of :: "ident option"
  dq_supplementary :: "(string \<times> json) list option"
  dq_force_refresh :: bool

definition request_valid :: "delegation_request \<Rightarrow> bool" where
  "request_valid r = (dq_objective r \<noteq> [] \<and> length (dq_objective r) \<le> 6000 \<and> dq_priority r \<le> 10
     \<and> 1 \<le> dq_max_iterations r \<and> 1 \<le> dq_depth r)"

record finding =
  fi_claim :: string
  fi_evidence_ids :: "ident list"
  fi_confidence :: rat

datatype result_status = Rs_completed | Rs_partial | Rs_failed | Rs_cancelled

record delegation_result =
  rs_delegation_id :: ident
  rs_agent_id :: ident
  rs_revision_of :: "ident option"
  rs_status :: result_status
  rs_summary :: string
  rs_evidence_ids :: "ident list"
  rs_artifact_ids :: "ident list"
  rs_questions :: "string list"
  rs_confidence :: rat
  rs_payload :: "(string, json) dict"

definition result_valid :: "delegation_result \<Rightarrow> bool" where
  "result_valid r = (length (rs_summary r) \<le> 3000 \<and> 0 \<le> rs_confidence r \<and> rs_confidence r \<le> 1)"

record shared_context =
  sh_task_id :: "ident option"
  sh_goal :: string
  sh_constraints :: "string list"
  sh_workspace_id :: "ident option"
  sh_scope :: scope
  sh_facts :: "finding list"
  sh_assets :: "json list"
  sh_evidence_ids :: "ident list"
  sh_artifact_ids :: "ident list"
  sh_results :: "delegation_result list"
  sh_completed :: "ident list"
  sh_questions :: "string list"
  sh_created_at :: time
  sh_updated_at :: time

datatype orchestration_mode = Existing_workflow | Single_agent | Multi_agent

datatype dependency = Dep_none | Dep_parallel | Dep_sequential | Dep_mixed

datatype level = Lv_low | Lv_medium | Lv_high

record orchestration_decision =
  od_mode :: orchestration_mode
  od_reason :: string
  od_capabilities :: "string list"
  od_agents :: "ident list"
  od_subtasks :: nat
  od_dependency :: dependency
  od_agent_count :: nat
  od_value :: level
  od_cost :: level

record delegation_spec =
  ds_key :: string
  ds_capability :: string
  ds_objective :: string
  ds_depends_on :: "string list"

record agent_tool_call =
  ac_capability :: string
  ac_arguments :: "(string \<times> json) list"

record supervisor_plan =
  sp_goal :: string
  sp_delegations :: "delegation_spec list"
  sp_groups :: "string list list"
  sp_reviewer :: bool
  sp_actions :: "agent_tool_call list"

section \<open>Reading a finding\<close>

text \<open>\<open>Finding.model_validate\<close>: no extra field, a text claim, a list of texts, a confidence in [0, 1].\<close>

fun strings_of :: "json list \<Rightarrow> string list option" where
  "strings_of [] = Some []"
| "strings_of (JStr s # vs) = map_option (\<lambda>r. s # r) (strings_of vs)"
| "strings_of (v # vs) = None"

definition confidence_of :: "json \<Rightarrow> rat option" where
  "confidence_of v = (case v of
     JInt i \<Rightarrow> if 0 \<le> i \<and> i \<le> 1 then Some (of_int i) else None
   | JFloat r \<Rightarrow> if 0 \<le> r \<and> r \<le> 1 then Some r else None
   | _ \<Rightarrow> None)"

definition parse_finding :: "(string \<times> json) list \<Rightarrow> finding result" where
  "parse_finding kvs =
     (case (map_of kvs ''claim'',
            (case map_of kvs ''evidence_ids'' of None \<Rightarrow> Some [] | Some (JList vs) \<Rightarrow> strings_of vs | Some _ \<Rightarrow> None),
            (case map_of kvs ''confidence'' of None \<Rightarrow> Some 0 | Some v \<Rightarrow> confidence_of v)) of
        (Some (JStr c), Some es, Some x) \<Rightarrow>
          (if set (map fst kvs) \<subseteq> {''claim'', ''evidence_ids'', ''confidence''}
           then Inr \<lparr>fi_claim = c, fi_evidence_ids = es, fi_confidence = x\<rparr>
           else Inl (Provider_Error ''ValidationError''))
      | _ \<Rightarrow> Inl (Provider_Error ''ValidationError''))"

end
