(* ===== verification/Delegation_Context.thy ===== *)
theory Delegation_Context
  imports Agent_Schemas
begin

text \<open>
  How the results of delegations come together: \<open>merge_context\<close> of \<open>server/agent_runs.py\<close> folds them
  into the shared context, \<open>combine_results\<close> of \<open>orchestration_schemas.py\<close> merges parallel updates.
\<close>

definition sorted_set :: "string list \<Rightarrow> string list" where
  \<comment> \<open>\<open>sorted({...})\<close>\<close>
  "sorted_set xs = sort_by str_le (fromkeys xs)"

section \<open>merge_context\<close>

definition absorb ::
  "ident set \<Rightarrow> ident set \<Rightarrow> (ident, delegation_result) dict \<Rightarrow> delegation_result \<Rightarrow>
   (ident, delegation_result) dict result" where
  "absorb evidence artifacts existing r =
     (if \<not> result_valid r then Inl (Provider_Error ''ValidationError'')
      else if \<not> set (rs_evidence_ids r) \<subseteq> evidence \<or> \<not> set (rs_artifact_ids r) \<subseteq> artifacts
      then Inl (Value_Error ''Result references unknown evidence or artifacts'')
      else case map_of existing (rs_delegation_id r) of
        Some p \<Rightarrow> (if p \<noteq> r then Inl (Value_Error ''Conflicting delegation results'')
                   else Inr (dict_put (rs_delegation_id r) r existing))
      | None \<Rightarrow> Inr (dict_put (rs_delegation_id r) r existing))"

definition payload_findings :: "delegation_result \<Rightarrow> json list" where
  "payload_findings r = (case map_of (rs_payload r) ''findings'' of Some (JList vs) \<Rightarrow> vs | _ \<Rightarrow> [])"

definition cited :: "ident set \<Rightarrow> json \<Rightarrow> bool" where
  \<comment> \<open>\<open>f.get('evidence_ids') and not set(f['evidence_ids']) - known\<close>\<close>
  "cited known f = (case f of
     JObj kvs \<Rightarrow> (case map_of kvs ''evidence_ids'' of
        Some (JList (v # vs)) \<Rightarrow> (case strings_of (v # vs) of Some ids \<Rightarrow> set ids \<subseteq> known | None \<Rightarrow> False)
      | _ \<Rightarrow> False)
   | _ \<Rightarrow> False)"

fun collect_facts :: "json list \<Rightarrow> finding list result" where
  "collect_facts [] = Inr []"
| "collect_facts (JObj kvs # vs) = rbind (parse_finding kvs) (\<lambda>f. rbind (collect_facts vs) (\<lambda>fs. Inr (f # fs)))"
| "collect_facts (v # vs) = Inl (Provider_Error ''AttributeError'')"

definition repaired :: "delegation_result list \<Rightarrow> ident list" where
  "repaired rs = concat (map (\<lambda>r. if rs_status r = Rs_completed \<and> truthy (rs_revision_of r)
     then [the (rs_revision_of r)] else []) rs)"

definition summarize_results ::
  "time \<Rightarrow> ident set \<Rightarrow> shared_context \<Rightarrow> delegation_result list \<Rightarrow> shared_context result" where
  "summarize_results now evidence c rs =
     rbind (collect_facts (filter (cited evidence) (concat (map payload_findings rs)))) (\<lambda>facts.
       Inr (c\<lparr>sh_results := rs,
         sh_completed := map rs_delegation_id (filter (\<lambda>r. rs_status r = Rs_completed) rs),
         sh_evidence_ids := sorted_set (concat (map rs_evidence_ids rs)),
         sh_artifact_ids := sorted_set (concat (map rs_artifact_ids rs)),
         sh_facts := facts,
         sh_questions := fromkeys (concat (map rs_questions
           (filter (\<lambda>r. rs_delegation_id r \<notin> set (repaired rs)) rs))),
         sh_updated_at := now\<rparr>))"

definition by_delegation :: "delegation_result list \<Rightarrow> (ident, delegation_result) dict" where
  "by_delegation rs = dict_merge [] (map (\<lambda>r. (rs_delegation_id r, r)) rs)"

definition merge_context ::
  "time \<Rightarrow> shared_context \<Rightarrow> delegation_result list \<Rightarrow> ident list \<Rightarrow> ident list \<Rightarrow> shared_context result" where
  "merge_context now c results evidence artifacts =
     rbind (rfold (absorb (set evidence) (set artifacts)) (by_delegation (sh_results c)) results) (\<lambda>existing.
       summarize_results now (set evidence) c (map snd existing))"

section \<open>combine_results\<close>

definition combine_one ::
  "(ident, delegation_result) dict \<Rightarrow> delegation_result \<Rightarrow> (ident, delegation_result) dict result" where
  "combine_one by_id r =
     (case map_of by_id (rs_delegation_id r) of
        Some p \<Rightarrow> (if p \<noteq> r then Inl (Value_Error ''Conflicting parallel results'')
                   else Inr (dict_put (rs_delegation_id r) r by_id))
      | None \<Rightarrow> Inr (dict_put (rs_delegation_id r) r by_id))"

definition combine_results :: "delegation_result list \<Rightarrow> delegation_result list \<Rightarrow> delegation_result list result" where
  "combine_results left right =
     rbind (rfold combine_one (by_delegation left) right) (\<lambda>by_id.
       Inr (map snd (sort_by (\<lambda>a b. str_le (fst a) (fst b)) by_id)))"

end
