(* ===== verification/Retrieval.thy ===== *)
theory Retrieval
  imports PyJson PyNum
begin

text \<open>
  \<open>server/rag/retrieval.py\<close>: the BM25 index, reciprocal rank fusion, the reranker and the retriever of
  one document.  The vector store, the cross-encoder and \<open>math.log1p\<close> on floats are parameters; a score
  is a rational, and a score of the encoder that is not finite is \<open>None\<close>.  Texts are ASCII, so NFKC
  normalisation is the identity and the tokenizer's Chinese alternative never applies.
\<close>

record document =
  d_content :: string
  d_metadata :: "(string, json) dict"

definition tokenize :: "string \<Rightarrow> string list" where
  "tokenize text = findall (Plus (Cls is_alnum)) (casefold text)"

text \<open>\<open>_key\<close> is only compared for equality; its separators (\<open>json.dumps\<close>'s defaults) do not matter.\<close>

definition doc_key :: "(rat \<Rightarrow> string) \<Rightarrow> document \<Rightarrow> string \<times> string" where
  "doc_key float d = (d_content d, dumps float (JObj (d_metadata d)))"

section \<open>BM25\<close>

record bm25_index =
  bm_documents :: "document list"
  bm_postings :: "(string, (nat \<times> nat) list) dict"
  bm_lengths :: "nat list"
  bm_average :: rat

definition counter :: "'a list \<Rightarrow> ('a, nat) dict" where
  "counter xs = map (\<lambda>x. (x, count_list xs x)) (fromkeys xs)"

fun add_postings ::
  "nat \<Rightarrow> (string, nat) dict \<Rightarrow> (string, (nat \<times> nat) list) dict \<Rightarrow> (string, (nat \<times> nat) list) dict" where
  "add_postings i [] ps = ps"
| "add_postings i ((t, f) # cs) ps = add_postings i cs (dict_put t (dict_get ps t [] @ [(i, f)]) ps)"

fun index_from ::
  "nat \<Rightarrow> document list \<Rightarrow> (string, (nat \<times> nat) list) dict \<times> nat list \<Rightarrow>
   (string, (nat \<times> nat) list) dict \<times> nat list" where
  "index_from i [] acc = acc"
| "index_from i (d # ds) (ps, ls) =
     (let counts = counter (tokenize (d_content d))
      in index_from (Suc i) ds (add_postings i counts ps, ls @ [sum_list (map snd counts)]))"

definition build_index :: "document list \<Rightarrow> bm25_index" where
  "build_index ds = (case index_from 0 ds ([], []) of (ps, ls) \<Rightarrow>
     \<lparr>bm_documents = ds, bm_postings = ps, bm_lengths = ls,
      bm_average = of_nat (sum_list ls) / of_nat (max 1 (length ls))\<rparr>)"

definition idf :: "(rat \<Rightarrow> rat) \<Rightarrow> nat \<Rightarrow> nat \<Rightarrow> rat" where
  "idf log1p n df = log1p ((of_nat n - of_nat df + 1/2) / (of_nat df + 1/2))"

definition term_weight :: "bm25_index \<Rightarrow> nat \<Rightarrow> nat \<Rightarrow> rat" where
  "term_weight ix i f =
     (let norm = 3/2 * (1/4 + 3/4 * of_nat (bm_lengths ix ! i) / bm_average ix)
      in of_nat f * (5/2) / (of_nat f + norm))"

definition add_term ::
  "(rat \<Rightarrow> rat) \<Rightarrow> bm25_index \<Rightarrow> (nat, rat) dict \<Rightarrow> string \<Rightarrow> (nat, rat) dict" where
  "add_term log1p ix scores t =
     (let posting = dict_get (bm_postings ix) t [];
          w = idf log1p (length (bm_documents ix)) (length posting)
      in foldl (\<lambda>s (i, f). dict_put i (dict_get s i 0 + w * term_weight ix i f) s) scores posting)"

definition bm25_scores :: "(rat \<Rightarrow> rat) \<Rightarrow> bm25_index \<Rightarrow> string \<Rightarrow> (nat, rat) dict" where
  "bm25_scores log1p ix query =
     foldl (add_term log1p ix) [] (sort_by str_le (fromkeys (tokenize query)))"

definition before_by_score :: "(nat, rat) dict \<Rightarrow> nat \<Rightarrow> nat \<Rightarrow> bool" where
  "before_by_score scores i j =
     (let a = dict_get scores i 0; b = dict_get scores j 0 in b < a \<or> (a = b \<and> i \<le> j))"

definition bm25_search :: "(rat \<Rightarrow> rat) \<Rightarrow> bm25_index \<Rightarrow> string \<Rightarrow> nat \<Rightarrow> document list" where
  "bm25_search log1p ix query k =
     (if bm_average ix = 0 then []
      else let scores = bm25_scores log1p ix query;
               order = sort_by (before_by_score scores) (map fst scores)
           in map (\<lambda>i. bm_documents ix ! i) (take k order))"

section \<open>Reciprocal rank fusion\<close>

record fusion =
  fu_scores :: "(string \<times> string, rat) dict"
  fu_documents :: "(string \<times> string, document) dict"

definition fuse_hit :: "(rat \<Rightarrow> string) \<Rightarrow> nat \<Rightarrow> document \<Rightarrow> fusion \<Rightarrow> fusion" where
  "fuse_hit float rank d fu =
     (let key = doc_key float d
      in fu\<lparr>fu_documents := (if map_of (fu_documents fu) key = None
                              then dict_put key d (fu_documents fu) else fu_documents fu),
            fu_scores := dict_put key (dict_get (fu_scores fu) key 0 + 1 / of_nat (60 + rank)) (fu_scores fu)\<rparr>)"

fun fuse_ranking ::
  "(rat \<Rightarrow> string) \<Rightarrow> nat \<Rightarrow> (string \<times> string) list \<Rightarrow> document list \<Rightarrow> fusion \<Rightarrow> fusion" where
  "fuse_ranking float rank seen [] fu = fu"
| "fuse_ranking float rank seen (d # ds) fu =
     (if doc_key float d \<in> set seen then fuse_ranking float (Suc rank) seen ds fu
      else fuse_ranking float (Suc rank) (doc_key float d # seen) ds (fuse_hit float rank d fu))"

definition fuse :: "(rat \<Rightarrow> string) \<Rightarrow> document list list \<Rightarrow> fusion" where
  "fuse float rankings =
     foldl (\<lambda>fu ranking. fuse_ranking float 1 [] ranking fu) \<lparr>fu_scores = [], fu_documents = []\<rparr> rankings"

definition with_score :: "string \<Rightarrow> rat \<Rightarrow> document \<Rightarrow> document" where
  "with_score name x d = d\<lparr>d_metadata := dict_put name (JFloat x) (d_metadata d)\<rparr>"

definition fused_order :: "fusion \<Rightarrow> (string \<times> string) list" where
  "fused_order fu = sort_by (\<lambda>a b. dict_get (fu_scores fu) b 0 \<le> dict_get (fu_scores fu) a 0) (map fst (fu_scores fu))"

definition reciprocal_rank_fusion ::
  "(rat \<Rightarrow> string) \<Rightarrow> bool \<Rightarrow> document list list \<Rightarrow> nat \<Rightarrow> document list" where
  "reciprocal_rank_fusion float include_scores rankings k =
     (let fu = fuse float rankings
      in map (\<lambda>key. let d = the (map_of (fu_documents fu) key)
                     in if include_scores then with_score ''retrieval_score'' (dict_get (fu_scores fu) key 0) d else d)
           (take k (fused_order fu)))"

section \<open>Reranking\<close>

type_synonym encoder = "(string \<times> string) list \<Rightarrow> rat option list result"

definition all_finite :: "rat option list \<Rightarrow> rat list result" where
  "all_finite xs = (if None \<in> set xs then Inl (Value_Error ''Reranker returned non-finite scores'')
     else Inr (map the xs))"

definition rerank :: "encoder \<Rightarrow> bool \<Rightarrow> string \<Rightarrow> document list \<Rightarrow> document list result" where
  "rerank predict include_scores query ds =
     (if ds = [] then Inr []
      else rbind (predict (map (\<lambda>d. (query, d_content d)) ds)) (\<lambda>scores.
        if length scores \<noteq> length ds then Inl (Value_Error ''Reranker must return one score per document'')
        else rbind (all_finite scores) (\<lambda>values.
          Inr (map (\<lambda>i. if include_scores then with_score ''rerank_score'' (values ! i) (ds ! i) else ds ! i)
            (sort_by (\<lambda>i j. values ! j \<le> values ! i) [0..<length ds])))))"

section \<open>The retriever of one document\<close>

record pdf_retriever =
  pr_dense :: "string \<Rightarrow> nat \<Rightarrow> document list"
  pr_top_k :: nat
  pr_candidate_k :: nat
  pr_reranker :: "(string \<Rightarrow> document list \<Rightarrow> document list result) option"
  pr_fallback :: bool
  pr_include_scores :: bool
  pr_bm25 :: "bm25_index option"

definition usable_records :: "(string \<times> (string, json) dict) list \<Rightarrow> document list" where
  "usable_records rs = map (\<lambda>(text, m). \<lparr>d_content = text, d_metadata = m\<rparr>) (filter (\<lambda>(text, m). strip text \<noteq> []) rs)"

definition make_retriever ::
  "(string \<Rightarrow> nat \<Rightarrow> document list) \<Rightarrow> (string \<times> (string, json) dict) list \<Rightarrow> int \<Rightarrow> int \<Rightarrow> bool \<Rightarrow>
   (string \<Rightarrow> document list \<Rightarrow> document list result) option \<Rightarrow> bool \<Rightarrow> bool \<Rightarrow> pdf_retriever result" where
  "make_retriever dense records top_k candidate_k hybrid reranker fallback include_scores =
     (if top_k \<le> 0 \<or> candidate_k < top_k then Inl (Value_Error ''candidate_k must be >= top_k > 0'')
      else Inr \<lparr>pr_dense = dense, pr_top_k = nat top_k, pr_candidate_k = nat candidate_k,
        pr_reranker = reranker, pr_fallback = fallback, pr_include_scores = include_scores,
        pr_bm25 = (if hybrid then Some (build_index (usable_records records)) else None)\<rparr>)"

definition candidates :: "(rat \<Rightarrow> string) \<Rightarrow> (rat \<Rightarrow> rat) \<Rightarrow> pdf_retriever \<Rightarrow> string \<Rightarrow> document list" where
  "candidates float log1p r query =
     reciprocal_rank_fusion float (pr_include_scores r)
       (pr_dense r query (pr_candidate_k r)
        # (case pr_bm25 r of None \<Rightarrow> [] | Some ix \<Rightarrow> [bm25_search log1p ix query (pr_candidate_k r)]))
       (pr_candidate_k r)"

definition invoke_retriever ::
  "(rat \<Rightarrow> string) \<Rightarrow> (rat \<Rightarrow> rat) \<Rightarrow> pdf_retriever \<Rightarrow> string \<Rightarrow> document list result" where
  "invoke_retriever float log1p r query =
     (if strip query = [] then Inr []
      else let cs = candidates float log1p r query
           in rbind (case pr_reranker r of
                None \<Rightarrow> Inr cs
              | Some rk \<Rightarrow> if cs = [] then Inr cs
                  else (case rk query cs of
                      Inr ds \<Rightarrow> Inr ds
                    | Inl e \<Rightarrow> if pr_fallback r then Inr cs else Inl e))
              (\<lambda>ds. Inr (take (pr_top_k r) ds)))"

end
