(* ===== verification/Workspace_Store.thy ===== *)
theory Workspace_Store
  imports PyJson
begin

text \<open>
  \<open>server/workspaces.py\<close>: the registry of workspaces and of the documents each one holds.  Deleting a
  workspace deletes its documents (\<open>ON DELETE CASCADE\<close>, with \<open>PRAGMA foreign_keys=ON\<close>).
\<close>

record workspace_row =
  wk_id :: ident
  wk_name :: string
  wk_description :: string
  wk_created_at :: time
  wk_updated_at :: time

record document_record =
  dr_id :: ident
  dr_workspace_id :: ident
  dr_filename :: string
  dr_display_name :: string
  dr_fingerprint :: string
  dr_index_id :: string
  dr_status :: string
  dr_page_count :: "nat option"
  dr_created_at :: time
  dr_metadata :: "(string, json) dict"

record workspace_db =
  wd_workspaces :: "workspace_row list"
  wd_documents :: "document_record list"

definition create_registry_row :: "time \<Rightarrow> ident \<Rightarrow> string \<Rightarrow> string \<Rightarrow> workspace_db \<Rightarrow> (workspace_db \<times> workspace_row) result" where
  "create_registry_row now new_id name description db =
     (let r = \<lparr>wk_id = new_id, wk_name = strip name, wk_description = description,
            wk_created_at = now, wk_updated_at = now\<rparr>
      in if wk_name r = [] \<or> 200 < length (wk_name r) then Inl (Provider_Error ''ValidationError'')
         else rbind (row_insert wk_id r (wd_workspaces db)) (\<lambda>rows.
           Inr (db\<lparr>wd_workspaces := rows\<rparr>, r)))"

definition registry_rows :: "workspace_db \<Rightarrow> workspace_row list" where
  \<comment> \<open>\<open>ORDER BY updated_at DESC\<close>\<close>
  "registry_rows db = sort_by (\<lambda>a b. wk_updated_at b \<le> wk_updated_at a) (wd_workspaces db)"

definition get_workspace :: "ident \<Rightarrow> workspace_db \<Rightarrow> workspace_row result" where
  "get_workspace w db = (case row_get wk_id w (wd_workspaces db) of
     None \<Rightarrow> Inl (Workspace_Not_Found w) | Some r \<Rightarrow> Inr r)"

definition delete_workspace :: "ident \<Rightarrow> workspace_db \<Rightarrow> workspace_db result" where
  "delete_workspace w db = rbind (get_workspace w db) (\<lambda>_.
     Inr (db\<lparr>wd_workspaces := row_delete wk_id w (wd_workspaces db),
            wd_documents := filter (\<lambda>d. dr_workspace_id d \<noteq> w) (wd_documents db)\<rparr>))"

definition documents_in :: "ident \<Rightarrow> workspace_db \<Rightarrow> document_record list" where
  "documents_in w db = filter (\<lambda>d. dr_workspace_id d = w) (wd_documents db)"

definition document_before :: "document_record \<Rightarrow> document_record \<Rightarrow> bool" where
  \<comment> \<open>\<open>ORDER BY created_at, id\<close>\<close>
  "document_before a b = (dr_created_at a < dr_created_at b
     \<or> (dr_created_at a = dr_created_at b \<and> str_le (dr_id a) (dr_id b)))"

definition documents :: "ident \<Rightarrow> workspace_db \<Rightarrow> document_record list result" where
  "documents w db = rbind (get_workspace w db) (\<lambda>_. Inr (sort_by document_before (documents_in w db)))"

definition same_document :: "document_record \<Rightarrow> document_record \<Rightarrow> bool" where
  "same_document r d = (dr_workspace_id d = dr_workspace_id r \<and> dr_fingerprint d = dr_fingerprint r
     \<and> dr_index_id d = dr_index_id r)"

definition register_document ::
  "nat \<Rightarrow> document_record \<Rightarrow> workspace_db \<Rightarrow> (workspace_db \<times> document_record) result" where
  "register_document maximum r db =
     (if row_get wk_id (dr_workspace_id r) (wd_workspaces db) = None
      then Inl (Workspace_Not_Found (dr_workspace_id r))
      else case find (same_document r) (wd_documents db) of
        Some d \<Rightarrow> Inr (db, d)
      | None \<Rightarrow>
          if maximum \<le> length (documents_in (dr_workspace_id r) db)
          then Inl (Value_Error ''Workspace document limit reached'')
          else rbind (row_insert dr_id r (wd_documents db)) (\<lambda>ds.
            Inr (db\<lparr>wd_documents := ds,
                   wd_workspaces := update_where (\<lambda>k. wk_id k = dr_workspace_id r)
                     (\<lambda>k. k\<lparr>wk_updated_at := dr_created_at r\<rparr>) (wd_workspaces db)\<rparr>, r)))"

definition delete_document :: "ident \<Rightarrow> ident \<Rightarrow> workspace_db \<Rightarrow> workspace_db result" where
  "delete_document w i db = rbind (get_workspace w db) (\<lambda>_.
     if filter (\<lambda>d. dr_workspace_id d = w \<and> dr_id d = i) (wd_documents db) = [] then Inl (Workspace_Not_Found i)
     else Inr (db\<lparr>wd_documents := filter (\<lambda>d. \<not> (dr_workspace_id d = w \<and> dr_id d = i)) (wd_documents db)\<rparr>))"

section \<open>The registry as a machine\<close>

datatype workspace_op =
    Create_Registry time ident string string
  | Delete_Registry ident
  | Register document_record
  | Remove ident ident

fun workspace_exec :: "nat \<Rightarrow> workspace_op \<Rightarrow> workspace_db \<Rightarrow> workspace_db" where
  "workspace_exec m (Create_Registry now i n d) db = commit_of db (create_registry_row now i n d db)"
| "workspace_exec m (Delete_Registry w) db = (case delete_workspace w db of Inl e \<Rightarrow> db | Inr db' \<Rightarrow> db')"
| "workspace_exec m (Register r) db = commit_of db (register_document m r db)"
| "workspace_exec m (Remove w i) db = (case delete_document w i db of Inl e \<Rightarrow> db | Inr db' \<Rightarrow> db')"

definition document_identity :: "document_record \<Rightarrow> ident \<times> string \<times> string" where
  "document_identity d = (dr_workspace_id d, dr_fingerprint d, dr_index_id d)"

definition registry_ok :: "nat \<Rightarrow> workspace_db \<Rightarrow> bool" where
  "registry_ok m db \<longleftrightarrow>
     distinct (map document_identity (wd_documents db)) \<and> distinct (map dr_id (wd_documents db))
     \<and> distinct (map wk_id (wd_workspaces db))
     \<and> (\<forall>w. length (documents_in w db) \<le> m)
     \<and> dr_workspace_id ` set (wd_documents db) \<subseteq> wk_id ` set (wd_workspaces db)"

lemma distinct_map_filter_rows: "distinct (map f xs) \<Longrightarrow> distinct (map f (filter P xs))"
  by (auto simp: distinct_map inj_on_def)

lemma register_Inr:
  assumes "register_document m r db = Inr (db', d)"
  obtains "db' = db" and "find (same_document r) (wd_documents db) = Some d"
  | "find (same_document r) (wd_documents db) = None" and "d = r"
    and "row_get wk_id (dr_workspace_id r) (wd_workspaces db) \<noteq> None"
    and "length (documents_in (dr_workspace_id r) db) < m" and "dr_id r \<notin> dr_id ` set (wd_documents db)"
    and "wd_documents db' = wd_documents db @ [r]"
    and "map wk_id (wd_workspaces db') = map wk_id (wd_workspaces db)"
  using assms
  by (auto simp: register_document_def rbind_Inr_iff row_simps row_get_None_iff map_update_where
      split: if_splits option.splits)

lemma same_document_iff: "same_document r d \<longleftrightarrow> document_identity d = document_identity r"
  by (auto simp: same_document_def document_identity_def)

lemma no_same_document:
  "find (same_document r) ds = None \<longleftrightarrow> document_identity r \<notin> set (map document_identity ds)"
proof -
  have "document_identity r \<notin> set (map document_identity ds) \<longleftrightarrow> (\<forall>d\<in>set ds. document_identity d \<noteq> document_identity r)"
    unfolding set_map image_iff by metis
  then show ?thesis by (auto simp: find_None_iff same_document_iff)
qed

lemma filter_filter_length: "length (filter (\<lambda>x. P x \<and> Q x) xs) \<le> length (filter Q xs)"
  by (induction xs) auto

lemma registry_ok_filter:
  assumes "registry_ok m db" and "wd_documents db' = filter P (wd_documents db)"
    and "wd_workspaces db' = filter Q (wd_workspaces db)"
    and "\<And>d. d \<in> set (wd_documents db) \<Longrightarrow> P d \<Longrightarrow> dr_workspace_id d \<in> wk_id ` {k \<in> set (wd_workspaces db). Q k}"
  shows "registry_ok m db'"
proof -
  have "length (documents_in w db') \<le> m" for w
  proof -
    have "length (documents_in w db') \<le> length (documents_in w db)"
      unfolding documents_in_def assms(2) by (simp add: filter_filter_length)
    then show ?thesis using assms(1) by (meson le_trans registry_ok_def)
  qed
  then show ?thesis using assms unfolding registry_ok_def
    by (auto intro: distinct_map_filter_rows)
qed

lemma register_ok:
  assumes "registry_ok m db" and "register_document m r db = Inr (db', d)"
  shows "registry_ok m db'"
  using assms(2)
proof (cases rule: register_Inr)
  case 1
  then show ?thesis using assms(1) by simp
next
  case 2
  have "length (documents_in w db') \<le> m" for w
  proof (cases "w = dr_workspace_id r")
    case True
    then show ?thesis using 2(4,6) by (simp add: documents_in_def)
  next
    case False
    then show ?thesis using 2(6) assms(1) by (simp add: documents_in_def registry_ok_def)
  qed
  moreover have "dr_workspace_id r \<in> wk_id ` set (wd_workspaces db)"
    using 2(3) by (simp add: row_get_None_iff)
  moreover have "wk_id ` set (wd_workspaces db') = wk_id ` set (wd_workspaces db)"
    using 2(7) by (metis list.set_map)
  ultimately show ?thesis
    using assms(1) 2(1,5,6,7) unfolding registry_ok_def no_same_document by auto
qed

lemma workspace_exec_ok: "registry_ok m db \<Longrightarrow> registry_ok m (workspace_exec m x db)"
proof (cases x)
  case (Create_Registry now i n d)
  assume ok: "registry_ok m db"
  show ?thesis unfolding Create_Registry workspace_exec.simps
  proof (rule commit_of_cases)
    show "registry_ok m db" by (rule ok)
    fix db' r
    assume "create_registry_row now i n d db = Inr (db', r)"
    then have "wd_documents db' = wd_documents db" and "\<exists>k. wd_workspaces db' = wd_workspaces db @ [k]
        \<and> wk_id k \<notin> wk_id ` set (wd_workspaces db)"
      by (auto simp: create_registry_row_def Let_def rbind_Inr_iff row_simps row_get_None_iff split: if_splits)
    then show "registry_ok m db'" using ok by (auto simp: registry_ok_def documents_in_def)
  qed
next
  case (Delete_Registry w)
  assume ok: "registry_ok m db"
  show ?thesis
  proof (cases "delete_workspace w db")
    case (Inr db')
    then have "registry_ok m db'"
      by (intro registry_ok_filter [OF ok, where P = "\<lambda>d. dr_workspace_id d \<noteq> w" and Q = "\<lambda>k. wk_id k \<noteq> w"])
        (use ok in \<open>auto simp: delete_workspace_def rbind_Inr_iff row_delete_def registry_ok_def\<close>)
    with Inr show ?thesis by (simp add: Delete_Registry)
  qed (simp add: Delete_Registry ok)
next
  case (Register r)
  assume ok: "registry_ok m db"
  then show ?thesis unfolding Register workspace_exec.simps
    by (rule commit_of_cases) (rule register_ok [OF ok])
next
  case (Remove w i)
  assume ok: "registry_ok m db"
  show ?thesis
  proof (cases "delete_document w i db")
    case (Inr db')
    then have "registry_ok m db'"
      by (intro registry_ok_filter [OF ok, where P = "\<lambda>d. \<not> (dr_workspace_id d = w \<and> dr_id d = i)" and Q = "\<lambda>k. True"])
        (use ok in \<open>auto simp: delete_document_def rbind_Inr_iff registry_ok_def split: if_splits\<close>)
    with Inr show ?thesis by (simp add: Remove)
  qed (simp add: Remove ok)
qed

interpretation registry_rows: guarded_machine "workspace_exec m" "\<lambda>db x. True" "registry_ok m" for m
  by unfold_locales (rule workspace_exec_ok)

text \<open>
  However workspaces and documents come and go, no workspace ever holds more than the configured
  number of documents, no workspace lists the same file under the same index twice, and no document
  outlives its workspace.
\<close>

theorem workspaces_hold_bounded_documents:
  assumes "registry_rows.reaches m \<lparr>wd_workspaces = [], wd_documents = []\<rparr> db"
  shows "length (documents_in w db) \<le> m \<and> distinct (map document_identity (wd_documents db))
     \<and> dr_workspace_id ` set (wd_documents db) \<subseteq> wk_id ` set (wd_workspaces db)"
proof -
  have "registry_ok m \<lparr>wd_workspaces = [], wd_documents = []\<rparr>"
    by (simp add: registry_ok_def documents_in_def)
  then have "registry_ok m db" using registry_rows.reaches_invar assms by blast
  then show ?thesis by (simp add: registry_ok_def)
qed

definition wit_document :: "ident \<Rightarrow> document_record" where
  "wit_document i = \<lparr>dr_id = i, dr_workspace_id = ''w'', dr_filename = ''a.pdf'', dr_display_name = ''a.pdf'',
     dr_fingerprint = i, dr_index_id = ''x'', dr_status = ''ready'', dr_page_count = Some 3,
     dr_created_at = 5, dr_metadata = []\<rparr>"

definition wit_registry :: workspace_db where
  "wit_registry = foldl (\<lambda>db x. workspace_exec 1 x db) \<lparr>wd_workspaces = [], wd_documents = []\<rparr>
     [Create_Registry 1 ''w'' ''Lab'' [], Register (wit_document ''d''), Register (wit_document ''e'')]"

theorem workspaces_hold_bounded_documents_witness:
  "length (documents_in ''w'' wit_registry) \<le> 1 \<and> documents_in ''w'' wit_registry = [wit_document ''d'']"
proof -
  have "registry_rows.reaches 1 \<lparr>wd_workspaces = [], wd_documents = []\<rparr> wit_registry"
    unfolding wit_registry_def foldl.simps
    by (intro registry_rows.reaches.intros TrueI)
  from workspaces_hold_bounded_documents [OF this, of "''w''"]
  have "length (documents_in ''w'' wit_registry) \<le> 1" by simp
  moreover have "documents_in ''w'' wit_registry = [wit_document ''d'']" by code_simp
  ultimately show ?thesis by blast
qed

end
