(* ===== verification/Workspace_Retrieval.thy ===== *)
theory Workspace_Retrieval
  imports Retrieval Workspace_Store
begin

text \<open>
  \<open>server/rag/workspace_retrieval.py\<close>: the documents of a workspace are searched one by one, their hits
  interleaved, reranked once and cut so that every paper of a comparison stays represented.  Loading an
  index is a parameter; the thread pool's schedule is a parameter that says, for each document, whether
  its search was admitted and came back before the deadline.
\<close>

section \<open>Which papers a question compares\<close>

definition ws :: rx where
  "ws = Plus (Cls is_space)"

definition compare_rx :: rx where
  "compare_rx = Alts
     [Seqs [WordB, ILit ''compar'', Alts (map ILit [''e'', ''es'', ''ing'', ''ison'', ''isons'']), WordB],
      Seqs [ILit ''across'', ws, ILit ''documents''], Seqs [ILit ''each'', ws, ILit ''paper''],
      Seqs [ILit ''all'', ws, ILit ''papers'']]"

definition every_paper_rx :: rx where
  "every_paper_rx = Alts
     [Seqs [ILit ''all'', ws, Opt (Seqs [Plus (Cls is_word), ws]), ILit ''papers''],
      Seqs [ILit ''each'', ws, ILit ''paper''], Seqs [ILit ''across'', ws, ILit ''documents'']]"

definition path_name :: "string \<Rightarrow> string" where
  \<comment> \<open>\<open>Path(s).name\<close>\<close>
  "path_name s = (case filter (\<lambda>c. c \<noteq> [] \<and> c \<noteq> ''.'') (split_on (CHR ''/'') [] s) of
     [] \<Rightarrow> [] | cs \<Rightarrow> last cs)"

definition path_stem :: "string \<Rightarrow> string" where
  \<comment> \<open>\<open>Path(s).stem\<close>: up to the last dot, unless it is the first or the last character\<close>
  "path_stem s =
     (let name = path_name s; tail = takeWhile (\<lambda>c. c \<noteq> CHR ''.'') (rev name);
          i = length name - Suc (length tail)
      in if CHR ''.'' \<in> set name \<and> 0 < i \<and> tail \<noteq> [] then take i name else name)"

definition alias_rx :: "string \<Rightarrow> rx" where
  "alias_rx a = Seqs [NotBefore is_word, ILit a, NotAfter is_word]"

definition names_record :: "string \<Rightarrow> document_record \<Rightarrow> bool" where
  "names_record query r =
     (\<exists>a\<in>set [path_stem (dr_filename r), path_stem (dr_display_name r)]. a \<noteq> [] \<and> found (alias_rx a) query)"

definition comparison_targets :: "string \<Rightarrow> document_record list \<Rightarrow> ident list" where
  "comparison_targets query rs =
     (if \<not> found compare_rx query then []
      else if found every_paper_rx query then fromkeys (map dr_id rs)
      else let named = fromkeys (map dr_id (filter (names_record query) rs))
           in if 2 \<le> length named then named else fromkeys (map dr_id rs))"

section \<open>Coverage of the targets\<close>

definition hit_target :: "ident list \<Rightarrow> document \<Rightarrow> ident option" where
  "hit_target targets h = (case map_of (d_metadata h) ''document_id'' of
     Some (JStr i) \<Rightarrow> if i \<in> set targets then Some i else None | _ \<Rightarrow> None)"

fun first_hits :: "ident list \<Rightarrow> ident list \<Rightarrow> nat \<Rightarrow> document list \<Rightarrow> nat list" where
  "first_hits targets covered i [] = []"
| "first_hits targets covered i (h # hs) = (case hit_target targets h of
     None \<Rightarrow> first_hits targets covered (Suc i) hs
   | Some t \<Rightarrow> if t \<in> set covered then first_hits targets covered (Suc i) hs
               else i # first_hits targets (t # covered) (Suc i) hs)"

fun fill_up :: "nat \<Rightarrow> nat list \<Rightarrow> nat list \<Rightarrow> nat list" where
  "fill_up k selected [] = selected"
| "fill_up k selected (i # is) =
     (if k \<le> length selected then selected
      else fill_up k (if i \<in> set selected then selected else selected @ [i]) is)"

definition select_coverage_hits :: "document list \<Rightarrow> ident list \<Rightarrow> nat \<Rightarrow> document list" where
  "select_coverage_hits ranked targets k =
     (if targets = [] then take k ranked
      else let required = first_hits targets [] 0 ranked;
               selected = fill_up (max k (length required)) required [0..<length ranked]
           in map ((!) ranked) (filter (\<lambda>i. i \<in> set selected) [0..<length ranked]))"

section \<open>Searching one document\<close>

record workspace_config =
  wc_per_doc_k :: int
  wc_candidate_k :: int
  wc_hybrid :: bool
  wc_global_k :: nat
  wc_fallback :: bool
  wc_reranker :: "(string \<Rightarrow> document list \<Rightarrow> document list result) option"
  wc_load_index :: "document_record \<Rightarrow> ((string \<Rightarrow> nat \<Rightarrow> document list) \<times> (string \<times> (string, json) dict) list) result"
  wc_float :: "rat \<Rightarrow> string"
  wc_log1p :: "rat \<Rightarrow> rat"
  wc_sha256 :: "string \<Rightarrow> string"

type_synonym index_cache = "(string, pdf_retriever) dict"

definition retriever_for :: "workspace_config \<Rightarrow> document_record \<Rightarrow> index_cache \<Rightarrow> (index_cache \<times> pdf_retriever) result" where
  "retriever_for cfg r cache = (case map_of cache (dr_index_id r) of
     Some ret \<Rightarrow> Inr (cache, ret)
   | None \<Rightarrow> rbind (wc_load_index cfg r) (\<lambda>(dense, records).
       rbind (make_retriever dense records (wc_per_doc_k cfg) (max (wc_per_doc_k cfg) (wc_candidate_k cfg))
                (wc_hybrid cfg) None True True) (\<lambda>ret.
         Inr (dict_put (dr_index_id r) ret cache, ret))))"

definition chunk_digest :: "workspace_config \<Rightarrow> document_record \<Rightarrow> document \<Rightarrow> string" where
  "chunk_digest cfg r h = take 24 (wc_sha256 cfg (dr_index_id r @ '':''
     @ py_str (wc_float cfg) (dict_get (d_metadata h) ''page'' JNull) @ '':'' @ d_content h))"

definition page_json :: "nat option \<Rightarrow> json" where
  "page_json n = (case n of None \<Rightarrow> JNull | Some k \<Rightarrow> JInt (int k))"

definition tag_hit :: "workspace_config \<Rightarrow> document_record \<Rightarrow> document \<Rightarrow> document" where
  "tag_hit cfg r h =
     (let m = dict_merge (d_metadata h) [(''document_id'', JStr (dr_id r)), (''document_name'', JStr (dr_display_name r)),
            (''page_count'', page_json (dr_page_count r)), (''source_type'', JStr ''workspace'')]
      in h\<lparr>d_metadata := (if map_of m ''chunk_id'' = None then dict_put ''chunk_id'' (JStr (chunk_digest cfg r h)) m else m)\<rparr>)"

definition retrieve_one ::
  "workspace_config \<Rightarrow> document_record \<Rightarrow> string \<Rightarrow> index_cache \<Rightarrow> index_cache \<times> document list result" where
  "retrieve_one cfg r query cache = (case retriever_for cfg r cache of
     Inl e \<Rightarrow> (cache, Inl e)
   | Inr (cache', ret) \<Rightarrow> (cache', rbind (invoke_retriever (wc_float cfg) (wc_log1p cfg) ret query) (\<lambda>hits.
        Inr (map (tag_hit cfg r) hits))))"

section \<open>The whole workspace\<close>

datatype admission = Refused_Slot | Timed_Out | In_Time

fun gather ::
  "workspace_config \<Rightarrow> (document_record \<Rightarrow> admission) \<Rightarrow> string \<Rightarrow> document_record list \<Rightarrow> index_cache \<Rightarrow>
   index_cache \<times> document list list" where
  "gather cfg sched query [] cache = (cache, [])"
| "gather cfg sched query (r # rs) cache = (case sched r of
     Refused_Slot \<Rightarrow> (cache, [])
   | Timed_Out \<Rightarrow> gather cfg sched query rs cache
   | In_Time \<Rightarrow> (case retrieve_one cfg r query cache of (cache', answer) \<Rightarrow>
       (case gather cfg sched query rs cache' of (cache'', rest) \<Rightarrow>
          (cache'', (case answer of Inl e \<Rightarrow> rest | Inr hits \<Rightarrow> hits # rest)))))"

definition hit_key :: "document \<Rightarrow> json option \<times> json option" where
  "hit_key h = (map_of (d_metadata h) ''document_id'', map_of (d_metadata h) ''chunk_id'')"

fun merge_new :: "document list \<Rightarrow> document list \<Rightarrow> document list" where
  "merge_new merged [] = merged"
| "merge_new merged (h # hs) =
     merge_new (if hit_key h \<in> hit_key ` set merged then merged else merged @ [h]) hs"

definition rank_row :: "document list list \<Rightarrow> nat \<Rightarrow> document list" where
  "rank_row rankings i = map (\<lambda>hits. hits ! i) (filter (\<lambda>hits. i < length hits) rankings)"

definition interleave :: "document list list \<Rightarrow> document list" where
  "interleave rankings = merge_new [] (concat (map (rank_row rankings) [0..<Max (insert 0 (length ` set rankings))]))"

definition targeted :: "ident list option \<Rightarrow> document_record list \<Rightarrow> document_record list result" where
  "targeted ids rs = (case ids of
     None \<Rightarrow> Inr rs
   | Some is \<Rightarrow> if is = [] \<or> \<not> set is \<subseteq> set (map dr_id rs)
       then Inl (Value_Error ''Unknown targeted workspace document'')
       else Inr (filter (\<lambda>r. dr_id r \<in> set is) rs))"

definition invoke_workspace ::
  "workspace_config \<Rightarrow> (document_record \<Rightarrow> admission) \<Rightarrow> workspace_db \<Rightarrow> ident \<Rightarrow> index_cache \<Rightarrow> string \<Rightarrow>
   string option \<Rightarrow> ident list option \<Rightarrow> index_cache \<times> document list result" where
  "invoke_workspace cfg sched db w cache query coverage_query ids =
     (if strip query = [] then (cache, Inr [])
      else case rbind (documents w db) (targeted ids) of
        Inl e \<Rightarrow> (cache, Inl e)
      | Inr rs \<Rightarrow> (case gather cfg sched query rs cache of (cache', rankings) \<Rightarrow>
          (cache', rbind (let merged = interleave rankings in
             (case wc_reranker cfg of
                None \<Rightarrow> Inr merged
              | Some rk \<Rightarrow> if merged = [] then Inr merged
                  else (case rk query merged of
                      Inr ds \<Rightarrow> Inr ds
                    | Inl e \<Rightarrow> if wc_fallback cfg then Inr merged else Inl e)))
             (\<lambda>ds. Inr (select_coverage_hits ds
                (comparison_targets (if truthy coverage_query then the coverage_query else query) rs)
                (wc_global_k cfg))))))"

end
