(* ===== verification/Ordering.thy ===== *)
theory Ordering
  imports PyJson
begin

text \<open>
  What \<open>sorted(..., key=...)\<close> promises: a permutation in order, and the only one when no two
  elements tie.  The two contracts are locales; the orders of the model interpret them.
\<close>

locale total_preorder_by =
  fixes le :: "'a \<Rightarrow> 'a \<Rightarrow> bool"
  assumes total: "le a b \<or> le b a"
    and trans: "le a b \<Longrightarrow> le b c \<Longrightarrow> le a c"
begin

lemma sorted_result: "sorted_wrt le (sort_by le xs)"
  by (rule sorted_sort_by) (rule total, rule trans)

lemma reflexive: "le a a"
  using total by blast

text \<open>Whatever a cut keeps is not below what it drops.\<close>

lemma kept_before_dropped:
  assumes "a \<in> set (take k (sort_by le xs))" and "b \<in> set (drop k (sort_by le xs))"
  shows "le a b"
proof -
  have "sorted_wrt le (take k (sort_by le xs) @ drop k (sort_by le xs))"
    unfolding append_take_drop_id by (rule sorted_result)
  then show ?thesis using assms unfolding sorted_wrt_append by blast
qed

lemma best_first: "a \<in> set xs \<Longrightarrow> le (hd (sort_by le xs)) a"
proof -
  assume "a \<in> set xs"
  then have a: "a \<in> set (sort_by le xs)" by simp
  then obtain y ys where e: "sort_by le xs = y # ys" by (cases "sort_by le xs") auto
  with sorted_result [of xs] a show ?thesis by (auto simp: reflexive)
qed

lemma stable_when_sorted: "sorted_wrt le xs \<Longrightarrow> sort_by le xs = xs"
proof (induction xs)
  case (Cons x xs)
  then have "sort_by le xs = xs" by simp
  then have "sort_by le (x # xs) = insert_by le x xs" by (simp add: sort_by_def)
  with Cons.prems show ?case by (cases xs) auto
qed (simp add: sort_by_def)

end

locale total_order_by = total_preorder_by +
  assumes antisym: "le a b \<Longrightarrow> le b a \<Longrightarrow> a = b"
begin

lemma sorted_unique:
  "sorted_wrt le us \<Longrightarrow> sorted_wrt le vs \<Longrightarrow> mset us = mset vs \<Longrightarrow> us = vs"
proof (induction us arbitrary: vs)
  case (Cons u us)
  then obtain v vs' where vs: "vs = v # vs'" by (cases vs) auto
  have uv: "u \<in> set vs" "v \<in> set (u # us)"
    using Cons.prems(3) vs by (metis list.set_intros(1) mset_eq_setD)+
  have "le u v" using uv(2) Cons.prems(1) reflexive by auto
  moreover have "le v u" using uv(1) Cons.prems(2) vs reflexive by auto
  ultimately have "u = v" by (rule antisym)
  then show ?case using Cons vs by simp
qed simp

lemma sort_unique: "mset xs = mset ys \<Longrightarrow> sort_by le xs = sort_by le ys"
  by (rule sorted_unique) (auto simp: sorted_result)

lemma sort_set_unique: "set xs = set ys \<Longrightarrow> distinct xs \<Longrightarrow> distinct ys \<Longrightarrow> sort_by le xs = sort_by le ys"
  by (rule sort_unique) (simp add: set_eq_iff_mset_eq_distinct)

end

interpretation texts: total_order_by str_le
  by unfold_locales (rule str_le_total, rule str_le_trans, assumption+, rule str_le_antisym)

text \<open>\<open>sorted(xs, key=f)\<close> and \<open>sorted(xs, key=f, reverse=True)\<close> over numbers.\<close>

interpretation ascending: total_preorder_by "\<lambda>a b. f a \<le> f b" for f :: "'a \<Rightarrow> 'b::linorder"
  by unfold_locales auto

interpretation descending: total_preorder_by "\<lambda>a b. f b \<le> f a" for f :: "'a \<Rightarrow> 'b::linorder"
  by unfold_locales auto

lemma sorted_map_texts: "sorted_wrt (\<lambda>a b. str_le (f a) (f b)) (sort_by (\<lambda>a b. str_le (f a) (f b)) xs)"
  by (rule sorted_sort_by) (rule str_le_total, rule str_le_trans)

lemma insert_by_cong: "(\<And>b. b \<in> set xs \<Longrightarrow> le a b = le' a b) \<Longrightarrow> insert_by le a xs = insert_by le' a xs"
  by (induction xs) auto

lemma sort_by_cong:
  "(\<And>a b. a \<in> set xs \<Longrightarrow> b \<in> set xs \<Longrightarrow> le a b = le' a b) \<Longrightarrow> sort_by le xs = sort_by le' xs"
proof (induction xs)
  case (Cons x xs)
  then have "sort_by le xs = sort_by le' xs" by simp
  then have "sort_by le (x # xs) = insert_by le x (sort_by le' xs)" by (simp add: sort_by_def)
  also have "\<dots> = insert_by le' x (sort_by le' xs)" by (rule insert_by_cong) (simp add: Cons.prems)
  finally show ?case by (simp add: sort_by_def)
qed (simp add: sort_by_def)

text \<open>Reading back what a loop stored under a key.\<close>

lemma dict_keys_put: "fst ` set (dict_put k v d) = insert k (fst ` set d)"
  by (auto simp: dict_put_def dom_map_of_conv_image_fst [symmetric] row_simps update_conv' split: if_splits)

end
