(* ===== verification/Retrieval_Laws.thy ===== *)
theory Retrieval_Laws
  imports Retrieval Ordering
begin

text \<open>
  The inverted index computes the Okapi scores, fusion ranks by the sum of reciprocal ranks, and the
  retriever answers with a bounded part of its candidates.
\<close>

section \<open>Scores accumulated in a dictionary\<close>

lemma sum_list_if_mem:
  "distinct xs \<Longrightarrow> (\<Sum>x\<leftarrow>xs. if x = a then g x else (0::rat)) = (if a \<in> set xs then g a else 0)"
  by (induction xs) auto

lemma foldl_add_pairs:
  "distinct (map fst ps) \<Longrightarrow>
   dict_get (foldl (\<lambda>s (i, f). dict_put i (dict_get s i 0 + g i f) s) s ps) j (0::rat)
     = dict_get s j 0 + (case map_of ps j of None \<Rightarrow> 0 | Some f \<Rightarrow> g j f)"
proof (induction ps arbitrary: s)
  case (Cons p ps)
  obtain i f where p: "p = (i, f)" by (cases p)
  have "map_of ps i = None" using Cons.prems p by (simp add: map_of_eq_None_iff)
  then show ?case using Cons p by (auto simp: row_simps)
qed simp

lemma foldl_pairs_keys:
  "fst ` set (foldl (\<lambda>s (i, f). dict_put i (h s i f) s) s ps) = fst ` set s \<union> fst ` set ps"
proof (induction ps arbitrary: s)
  case (Cons p ps)
  obtain i f where p: "p = (i, f)" by (cases p)
  have "fst ` set (foldl (\<lambda>s (i, f). dict_put i (h s i f) s) s (p # ps))
      = fst ` set (dict_put i (h s i f) s) \<union> fst ` set ps"
    using Cons [of "dict_put i (h s i f) s"] p by simp
  then show ?case using p by (simp add: dict_keys_put)
qed simp

lemma foldl_pairs_distinct:
  "distinct (map fst s) \<Longrightarrow> distinct (map fst (foldl (\<lambda>s (i, f). dict_put i (h s i f) s) s ps))"
  by (induction ps arbitrary: s) (auto simp: distinct_dict_put)

section \<open>The inverted index\<close>

abbreviation tokens_at :: "document list \<Rightarrow> nat \<Rightarrow> string list" where
  "tokens_at ds i \<equiv> tokenize (d_content (ds ! i))"

lemma map_of_counter: "map_of (counter xs) x = (if x \<in> set xs then Some (count_list xs x) else None)"
  by (auto simp: counter_def map_of_map_restrict [where f = "count_list xs"] restrict_map_def)

lemma counter_keys: "distinct (map fst (counter xs))" "fst ` set (counter xs) = set xs"
  by (simp_all add: counter_def comp_def image_image)

lemma counter_total: "sum_list (map snd (counter xs)) = length xs"
proof -
  have "sum_list (map snd (counter xs)) = (\<Sum>x\<leftarrow>fromkeys xs. count_list xs x)"
    by (simp add: counter_def comp_def)
  also have "\<dots> = (\<Sum>x\<in>set xs. count_list xs x)"
    by (simp add: sum_list_distinct_conv_sum_set)
  finally show ?thesis by (simp add: sum_count_set)
qed

lemma add_postings_get:
  "distinct (map fst cs) \<Longrightarrow>
   dict_get (add_postings i cs ps) t [] = dict_get ps t [] @ (case map_of cs t of None \<Rightarrow> [] | Some f \<Rightarrow> [(i, f)])"
proof (induction i cs ps rule: add_postings.induct)
  case (2 i u f cs ps)
  have "map_of cs u = None" using 2(2) by (simp add: map_of_eq_None_iff)
  with 2 show ?case by (auto simp: row_simps)
qed simp

fun postings_from :: "nat \<Rightarrow> document list \<Rightarrow> string \<Rightarrow> (nat \<times> nat) list" where
  "postings_from i [] t = []"
| "postings_from i (d # ds) t = (let ts = tokenize (d_content d) in
     (if t \<in> set ts then [(i, count_list ts t)] else []) @ postings_from (Suc i) ds t)"

lemma nth_shift: "i < j \<Longrightarrow> (d # ds) ! (j - i) = ds ! (j - Suc i)"
  by (metis Suc_diff_Suc nth_Cons_Suc)

lemma index_from_get:
  "index_from i ds (ps, ls) = (ps', ls') \<Longrightarrow>
   ls' = ls @ map (\<lambda>d. length (tokenize (d_content d))) ds
   \<and> dict_get ps' t [] = dict_get ps t [] @ postings_from i ds t"
proof (induction ds arbitrary: i ps ls)
  case (Cons d ds)
  let ?c = "counter (tokenize (d_content d))"
  have "index_from (Suc i) ds (add_postings i ?c ps, ls @ [length (tokenize (d_content d))]) = (ps', ls')"
    using Cons.prems by (simp add: Let_def counter_total)
  from Cons.IH [OF this] show ?case
    by (simp add: Let_def add_postings_get counter_keys map_of_counter)
qed simp

lemma postings_keys: "map fst (postings_from i ds t) =
    filter (\<lambda>j. t \<in> set (tokens_at ds (j - i))) [i..<i + length ds]"
proof (induction ds arbitrary: i)
  case (Cons d ds)
  have "[i..<i + length (d # ds)] = i # [Suc i..<Suc i + length ds]"
    by (subst upt_rec) simp
  moreover have "filter (\<lambda>j. t \<in> set (tokens_at ds (j - Suc i))) [Suc i..<Suc i + length ds]
      = filter (\<lambda>j. t \<in> set (tokens_at (d # ds) (j - i))) [Suc i..<Suc i + length ds]"
  proof (rule filter_cong [OF refl])
    fix j assume "j \<in> set [Suc i..<Suc i + length ds]"
    then have "i < j" by (simp only: set_upt atLeastLessThan_iff Suc_le_eq)
    then show "(t \<in> set (tokens_at ds (j - Suc i))) = (t \<in> set (tokens_at (d # ds) (j - i)))"
      by (simp only: nth_shift)
  qed
  ultimately show ?case using Cons [of "Suc i"] by (simp add: Let_def)
qed simp

lemma map_of_postings: "map_of (postings_from i ds t) j =
    (if i \<le> j \<and> j < i + length ds \<and> t \<in> set (tokens_at ds (j - i))
     then Some (count_list (tokens_at ds (j - i)) t) else None)"
proof (induction ds arbitrary: i j)
  case (Cons d ds)
  have none: "map_of (postings_from (Suc i) ds t) i = None" unfolding Cons by simp
  show ?case
  proof (cases "j = i")
    case True
    with none show ?thesis by (simp add: Let_def)
  next
    case False
    then have e: "map_of (postings_from i (d # ds) t) j = map_of (postings_from (Suc i) ds t) j"
      by (simp add: Let_def)
    show ?thesis unfolding e Cons using False nth_shift [of i j d ds] by auto
  qed
qed simp

section \<open>BM25 against its formula\<close>

definition doc_freq :: "document list \<Rightarrow> string \<Rightarrow> nat" where
  "doc_freq ds t = length (filter (\<lambda>d. t \<in> set (tokenize (d_content d))) ds)"

definition mean_length :: "document list \<Rightarrow> rat" where
  "mean_length ds = of_nat (\<Sum>d\<leftarrow>ds. length (tokenize (d_content d))) / of_nat (max 1 (length ds))"

definition okapi :: "(rat \<Rightarrow> rat) \<Rightarrow> document list \<Rightarrow> string \<Rightarrow> nat \<Rightarrow> rat" where
  \<comment> \<open>the sum, over the query terms the text has, of idf times the saturated frequency\<close>
  "okapi log1p ds query i = (\<Sum>t\<in>set (tokenize query) \<inter> set (tokens_at ds i).
     idf log1p (length ds) (doc_freq ds t)
     * (of_nat (count_list (tokens_at ds i) t) * (5/2)
        / (of_nat (count_list (tokens_at ds i) t)
           + 3/2 * (1/4 + 3/4 * of_nat (length (tokens_at ds i)) / mean_length ds))))"

definition has_term :: "document list \<Rightarrow> string \<Rightarrow> nat \<Rightarrow> bool" where
  "has_term ds query i = (\<exists>t\<in>set (tokenize query). t \<in> set (tokens_at ds i))"

lemma build_index_fields:
  "bm_documents (build_index ds) = ds"
  "bm_lengths (build_index ds) = map (\<lambda>d. length (tokenize (d_content d))) ds"
  "dict_get (bm_postings (build_index ds)) t [] = postings_from 0 ds t"
  "bm_average (build_index ds) = mean_length ds"
proof -
  obtain ps ls where e: "index_from 0 ds ([], []) = (ps, ls)" by fastforce
  from index_from_get [OF e, of t]
  show "bm_documents (build_index ds) = ds"
    "bm_lengths (build_index ds) = map (\<lambda>d. length (tokenize (d_content d))) ds"
    "dict_get (bm_postings (build_index ds)) t [] = postings_from 0 ds t"
    "bm_average (build_index ds) = mean_length ds"
    by (simp_all add: build_index_def e dict_get_def mean_length_def comp_def)
qed

lemma length_postings: "length (postings_from i ds t) = doc_freq ds t"
  by (induction ds arbitrary: i) (auto simp: doc_freq_def Let_def)

lemma postings_distinct: "distinct (map fst (postings_from 0 ds t))"
  by (simp add: postings_keys)

definition gain_of :: "(rat \<Rightarrow> rat) \<Rightarrow> document list \<Rightarrow> nat \<Rightarrow> string \<Rightarrow> rat" where
  "gain_of log1p ds i t = (if i < length ds \<and> t \<in> set (tokens_at ds i)
     then idf log1p (length ds) (doc_freq ds t) * term_weight (build_index ds) i (count_list (tokens_at ds i) t)
     else 0)"

lemma add_term_get:
  "dict_get (add_term log1p (build_index ds) s t) i 0 = dict_get s i 0 + gain_of log1p ds i t"
  by (simp add: add_term_def Let_def build_index_fields length_postings
      foldl_add_pairs [OF postings_distinct] map_of_postings gain_of_def)

lemma add_term_keys:
  "fst ` set (add_term log1p (build_index ds) s t)
    = fst ` set s \<union> {i. i < length ds \<and> t \<in> set (tokens_at ds i)}"
proof -
  have "fst ` set (postings_from 0 ds t) = set (map fst (postings_from 0 ds t))" by simp
  also have "\<dots> = {i. i < length ds \<and> t \<in> set (tokens_at ds i)}" unfolding postings_keys by auto
  finally show ?thesis
    by (simp add: add_term_def Let_def build_index_fields foldl_pairs_keys)
qed

lemma add_term_distinct:
  "distinct (map fst s) \<Longrightarrow> distinct (map fst (add_term log1p ix s t))"
  by (simp add: add_term_def Let_def foldl_pairs_distinct)

lemma fold_terms_get:
  "dict_get (foldl (add_term log1p (build_index ds)) s ts) i 0 = dict_get s i 0 + (\<Sum>t\<leftarrow>ts. gain_of log1p ds i t)"
  by (induction ts arbitrary: s) (auto simp: add_term_get)

lemma fold_terms_keys:
  "fst ` set (foldl (add_term log1p (build_index ds)) s ts)
    = fst ` set s \<union> {i. i < length ds \<and> (\<exists>t\<in>set ts. t \<in> set (tokens_at ds i))}"
  by (induction ts arbitrary: s) (auto simp: add_term_keys)

lemma fold_terms_distinct:
  "distinct (map fst s) \<Longrightarrow> distinct (map fst (foldl (add_term log1p (build_index ds)) s ts))"
  by (induction ts arbitrary: s) (auto simp: add_term_distinct)


lemma gain_is_okapi:
  assumes "i < length ds"
  shows "(\<Sum>t\<leftarrow>sort_by str_le (fromkeys (tokenize query)). gain_of log1p ds i t) = okapi log1p ds query i"
proof -
  have "(\<Sum>t\<leftarrow>sort_by str_le (fromkeys (tokenize query)). gain_of log1p ds i t)
      = (\<Sum>t\<in>set (tokenize query). gain_of log1p ds i t)"
    by (simp add: sum_list_distinct_conv_sum_set)
  also have "\<dots> = (\<Sum>t\<in>set (tokenize query) \<inter> set (tokens_at ds i). gain_of log1p ds i t)"
    by (rule sum.mono_neutral_right) (auto simp: gain_of_def)
  also have "\<dots> = okapi log1p ds query i"
    unfolding okapi_def using assms
    by (intro sum.cong refl) (simp add: gain_of_def term_weight_def Let_def build_index_fields)
  finally show ?thesis .
qed

lemma bm25_scores_get:
  "i < length ds \<Longrightarrow> dict_get (bm25_scores log1p (build_index ds) query) i 0 = okapi log1p ds query i"
  by (simp add: bm25_scores_def fold_terms_get gain_is_okapi) (simp add: dict_get_def)

lemma bm25_scores_keys:
  "set (map fst (bm25_scores log1p (build_index ds) query)) = set (filter (has_term ds query) [0..<length ds])"
  by (auto simp: bm25_scores_def fold_terms_keys has_term_def)

lemma bm25_scores_distinct: "distinct (map fst (bm25_scores log1p (build_index ds) query))"
  by (simp add: bm25_scores_def fold_terms_distinct)

definition okapi_before :: "(rat \<Rightarrow> rat) \<Rightarrow> document list \<Rightarrow> string \<Rightarrow> nat \<Rightarrow> nat \<Rightarrow> bool" where
  "okapi_before log1p ds query i j =
     (okapi log1p ds query j < okapi log1p ds query i
      \<or> (okapi log1p ds query i = okapi log1p ds query j \<and> i \<le> j))"

interpretation okapi: total_order_by "okapi_before log1p ds query" for log1p ds query
  by unfold_locales (auto simp: okapi_before_def)

lemma no_tokens: "mean_length ds = 0 \<Longrightarrow> filter (has_term ds query) [0..<length ds] = []"
proof -
  assume "mean_length ds = 0"
  then have "\<forall>d\<in>set ds. tokenize (d_content d) = []"
    by (auto simp: mean_length_def divide_eq_0_iff)
  then show ?thesis by (auto simp: has_term_def filter_empty_conv)
qed

text \<open>
  C15: searching the inverted index is ranking by the Okapi BM25 formula.  The answer is the first
  k documents, by decreasing score and by position among equals, of those that share a term with the
  query, where the score of a document is computed from the texts alone: neither the order in which
  postings were stored nor that in which the query terms are visited shows.
\<close>

theorem bm25_search_is_okapi:
  "bm25_search log1p (build_index ds) query k =
     map ((!) ds) (take k (sort_by (okapi_before log1p ds query) (filter (has_term ds query) [0..<length ds])))"
proof (cases "mean_length ds = 0")
  case True
  then show ?thesis by (simp add: bm25_search_def build_index_fields no_tokens sort_by_def)
next
  case False
  let ?s = "bm25_scores log1p (build_index ds) query"
  have "sort_by (before_by_score ?s) (map fst ?s) = sort_by (okapi_before log1p ds query) (map fst ?s)"
    using bm25_scores_keys [of log1p ds query]
    by (intro sort_by_cong) (auto simp: before_by_score_def okapi_before_def Let_def bm25_scores_get)
  also have "\<dots> = sort_by (okapi_before log1p ds query) (filter (has_term ds query) [0..<length ds])"
    by (rule okapi.sort_set_unique [OF bm25_scores_keys bm25_scores_distinct]) simp
  finally show ?thesis using False
    by (simp add: bm25_search_def Let_def build_index_fields)
qed

section \<open>Reciprocal rank fusion\<close>

fun reciprocal_gain :: "(rat \<Rightarrow> string) \<Rightarrow> string \<times> string \<Rightarrow> nat \<Rightarrow> document list \<Rightarrow> rat" where
  \<comment> \<open>the share a ranking gives to a text: by the rank at which it first appears\<close>
  "reciprocal_gain float key rank [] = 0"
| "reciprocal_gain float key rank (d # ds) =
     (if doc_key float d = key then 1 / of_nat (60 + rank) else reciprocal_gain float key (Suc rank) ds)"

definition rrf_score :: "(rat \<Rightarrow> string) \<Rightarrow> document list list \<Rightarrow> string \<times> string \<Rightarrow> rat" where
  "rrf_score float rankings key = (\<Sum>r\<leftarrow>rankings. reciprocal_gain float key 1 r)"

definition fusion_ok :: "(rat \<Rightarrow> string) \<Rightarrow> fusion \<Rightarrow> bool" where
  "fusion_ok float fu \<longleftrightarrow> map fst (fu_documents fu) = map fst (fu_scores fu)
     \<and> (\<forall>key d. map_of (fu_documents fu) key = Some d \<longrightarrow> doc_key float d = key)"

lemma keys_put: "map fst (dict_put k v d) = ordered_from (map fst d) [k]"
  by (simp add: dict_put_def update_keys)

lemma put_present_keys: "map_of d k \<noteq> None \<Longrightarrow> map fst (dict_put k v d) = map fst d"
  by (auto simp: dict_put_def update_keys map_of_eq_None_iff)

lemma fuse_hit_scores: "dict_get (fu_scores (fuse_hit float rank d fu)) key 0 =
    dict_get (fu_scores fu) key 0 + (if doc_key float d = key then 1 / of_nat (60 + rank) else 0)"
  by (simp add: fuse_hit_def Let_def row_simps)

lemma fuse_hit_keys:
  "map fst (fu_scores (fuse_hit float rank d fu)) = ordered_from (map fst (fu_scores fu)) [doc_key float d]"
  by (simp add: fuse_hit_def Let_def keys_put)

lemma fuse_hit_ok: "fusion_ok float fu \<Longrightarrow> fusion_ok float (fuse_hit float rank d fu)"
proof -
  assume ok: "fusion_ok float fu"
  let ?k = "doc_key float d"
  have e: "map_of (fu_documents fu) ?k = None \<longleftrightarrow> ?k \<notin> set (map fst (fu_scores fu))"
    using ok by (metis fusion_ok_def map_of_eq_None_iff list.set_map)
  show ?thesis
  proof (cases "map_of (fu_documents fu) ?k")
    case None
    then show ?thesis using ok e
      by (auto simp: fusion_ok_def fuse_hit_def Let_def keys_put row_simps)
  next
    case (Some x)
    then show ?thesis using ok e
      by (auto simp: fusion_ok_def fuse_hit_def Let_def keys_put)
  qed
qed

lemma fuse_ranking_keys:
  "set seen \<subseteq> set (map fst (fu_scores fu)) \<Longrightarrow>
   map fst (fu_scores (fuse_ranking float rank seen ds fu))
     = ordered_from (map fst (fu_scores fu)) (map (doc_key float) ds)"
proof (induction ds arbitrary: rank seen fu)
  case (Cons d ds)
  show ?case
  proof (cases "doc_key float d \<in> set seen")
    case True
    then have "doc_key float d \<in> set (map fst (fu_scores fu))" using Cons.prems by blast
    then show ?thesis using True Cons.IH [OF Cons.prems] by simp
  next
    case False
    have "set (doc_key float d # seen) \<subseteq> set (map fst (fu_scores (fuse_hit float rank d fu)))"
      using Cons.prems unfolding fuse_hit_keys by (auto simp: set_ordered_from)
    from Cons.IH [OF this] False show ?thesis unfolding fuse_hit_keys by simp
  qed
qed simp

lemma fuse_ranking_scores:
  "dict_get (fu_scores (fuse_ranking float rank seen ds fu)) key 0 =
   dict_get (fu_scores fu) key 0 + (if key \<in> set seen then 0 else reciprocal_gain float key rank ds)"
  by (induction ds arbitrary: rank seen fu) (auto simp: fuse_hit_scores)

lemma fuse_ranking_ok: "fusion_ok float fu \<Longrightarrow> fusion_ok float (fuse_ranking float rank seen ds fu)"
  by (induction ds arbitrary: rank seen fu) (auto simp: fuse_hit_ok)

lemma ordered_from_append: "ordered_from acc (xs @ ys) = ordered_from (ordered_from acc xs) ys"
  by (induction acc xs rule: ordered_from.induct) auto

abbreviation fuse_step :: "(rat \<Rightarrow> string) \<Rightarrow> fusion \<Rightarrow> document list \<Rightarrow> fusion" where
  "fuse_step float fu ranking \<equiv> fuse_ranking float 1 [] ranking fu"

lemma fuse_all_keys: "map fst (fu_scores (foldl (fuse_step float) fu rs)) =
    ordered_from (map fst (fu_scores fu)) (map (doc_key float) (concat rs))"
  by (induction rs arbitrary: fu) (simp_all add: fuse_ranking_keys ordered_from_append)

lemma fuse_all_scores: "dict_get (fu_scores (foldl (fuse_step float) fu rs)) key 0 =
    dict_get (fu_scores fu) key 0 + rrf_score float rs key"
  by (induction rs arbitrary: fu) (simp_all add: fuse_ranking_scores rrf_score_def)

lemma fuse_all_ok: "fusion_ok float fu \<Longrightarrow> fusion_ok float (foldl (fuse_step float) fu rs)"
  by (induction rs arbitrary: fu) (simp_all add: fuse_ranking_ok)

definition seen_keys :: "(rat \<Rightarrow> string) \<Rightarrow> document list list \<Rightarrow> (string \<times> string) list" where
  "seen_keys float rankings = fromkeys (map (doc_key float) (concat rankings))"

lemma fuse_fields:
  "map fst (fu_scores (fuse float rankings)) = seen_keys float rankings"
  "dict_get (fu_scores (fuse float rankings)) key 0 = rrf_score float rankings key"
  "fusion_ok float (fuse float rankings)"
proof -
  have "fusion_ok float \<lparr>fu_scores = [], fu_documents = []\<rparr>" by (simp add: fusion_ok_def)
  then show "fusion_ok float (fuse float rankings)" unfolding fuse_def by (rule fuse_all_ok)
  show "map fst (fu_scores (fuse float rankings)) = seen_keys float rankings"
    unfolding fuse_def fuse_all_keys by (simp add: seen_keys_def fromkeys_def)
  show "dict_get (fu_scores (fuse float rankings)) key 0 = rrf_score float rankings key"
    unfolding fuse_def fuse_all_scores by (simp add: dict_get_def)
qed

lemma fused_document:
  assumes "key \<in> set (map fst (fu_scores (fuse float rankings)))"
  obtains d where "map_of (fu_documents (fuse float rankings)) key = Some d" and "doc_key float d = key"
proof -
  have ok: "fusion_ok float (fuse float rankings)" by (rule fuse_fields)
  then have "key \<in> fst ` set (fu_documents (fuse float rankings))"
    using assms by (metis fusion_ok_def list.set_map)
  then obtain d where "map_of (fu_documents (fuse float rankings)) key = Some d"
    by (metis map_of_eq_None_iff not_None_eq)
  moreover have "doc_key float d = key" using ok calculation unfolding fusion_ok_def by blast
  ultimately show ?thesis by (rule that)
qed

text \<open>
  C16: fusion ranks texts by the sum, over the rankings, of the reciprocal of 60 plus the rank at which
  the text first appears there.  The fused list holds each text once, best score first, texts of equal
  score in the order in which the rankings first mention them, cut to the first k; repeated hits of one
  ranking count once.
\<close>

theorem fusion_ranks_by_reciprocal_rank:
  "map (doc_key float) (reciprocal_rank_fusion float False rankings k) =
     take k (sort_by (\<lambda>a b. rrf_score float rankings b \<le> rrf_score float rankings a)
       (fromkeys (map (doc_key float) (concat rankings))))"
proof -
  let ?fu = "fuse float rankings"
  have order: "fused_order ?fu = sort_by (\<lambda>a b. rrf_score float rankings b \<le> rrf_score float rankings a)
      (seen_keys float rankings)"
    by (simp add: fused_order_def fuse_fields)
  have key: "doc_key float (the (map_of (fu_documents ?fu) key)) = key" if "key \<in> set (take k (fused_order ?fu))" for key
  proof -
    have "key \<in> set (map fst (fu_scores ?fu))"
      using set_take_subset [of k "fused_order ?fu"] that by (auto simp: fused_order_def)
    then obtain d where "map_of (fu_documents ?fu) key = Some d" "doc_key float d = key"
      by (rule fused_document)
    then show ?thesis by simp
  qed
  have "map (doc_key float) (reciprocal_rank_fusion float False rankings k) = map (\<lambda>key. key) (take k (fused_order ?fu))"
    unfolding reciprocal_rank_fusion_def Let_def if_False map_map comp_def
    by (rule map_cong [OF refl]) (rule key)
  then show ?thesis by (simp add: order seen_keys_def)
qed

end
