(* ===== verification/Workspace_Retrieval_Laws.thy ===== *)
theory Workspace_Retrieval_Laws
  imports Workspace_Retrieval Retrieval_Laws "HOL-Library.Sublist" "HOL-Library.Multiset"
begin

text \<open>
  A reranker only permutes: that contract is a locale, the cross-encoder's wrapper is its instance, and
  the retriever of a document rests on it.  The cut after the rerank keeps every target of a comparison.
\<close>

section \<open>Rerankers\<close>

lemma mset_take_le: "mset xs = mset ys \<Longrightarrow> mset (take k xs) \<subseteq># mset ys"
  by (metis append_take_drop_id mset_append mset_subset_eq_add_left)

locale reranker =
  fixes rk :: "string \<Rightarrow> document list \<Rightarrow> document list result"
  assumes keeps_texts: "rk q ds = Inr es \<Longrightarrow> mset (map d_content es) = mset (map d_content ds)"
begin

lemma keeps_length: "rk q ds = Inr es \<Longrightarrow> length es = length ds"
  using keeps_texts by (metis length_map size_mset)

lemma answer_from_candidates:
  assumes "pr_reranker r = Some rk" and "invoke_retriever float log1p r query = Inr ds"
  shows "length ds \<le> pr_top_k r" and "mset (map d_content ds) \<subseteq># mset (map d_content (candidates float log1p r query))"
proof -
  let ?cs = "candidates float log1p r query"
  have "ds = [] \<or> (\<exists>es. ds = take (pr_top_k r) es \<and> (es = ?cs \<or> rk query ?cs = Inr es))"
    using assms by (fastforce simp: invoke_retriever_def Let_def rbind_Inr_iff split: if_splits sum.splits)
  then have "ds = [] \<or> (\<exists>es. ds = take (pr_top_k r) es \<and> mset (map d_content es) = mset (map d_content ?cs))"
    using keeps_texts by blast
  then show "length ds \<le> pr_top_k r" and "mset (map d_content ds) \<subseteq># mset (map d_content ?cs)"
    by (auto simp: take_map [symmetric] simp del: mset_map intro: mset_take_le)
qed

end

lemma rerank_Inr:
  assumes "rerank predict inc query ds = Inr es"
  shows "mset (map d_content es) = mset (map d_content ds)"
proof (cases "ds = []")
  case True
  then show ?thesis using assms by (simp add: rerank_def)
next
  case False
  with assms obtain vs where es: "es = map (\<lambda>i. if inc then with_score ''rerank_score'' (vs ! i) (ds ! i) else ds ! i)
      (sort_by (\<lambda>i j. vs ! j \<le> vs ! i) [0..<length ds])"
    by (auto simp: rerank_def rbind_Inr_iff split: if_splits)
  have c: "map d_content es = map (\<lambda>i. d_content (ds ! i)) (sort_by (\<lambda>i j. vs ! j \<le> vs ! i) [0..<length ds])"
    unfolding es by (simp add: with_score_def)
  have "mset (map d_content es) = image_mset (\<lambda>i. d_content (ds ! i)) (mset [0..<length ds])"
    unfolding c mset_map mset_sort_by ..
  also have "\<dots> = mset (map (\<lambda>i. d_content (ds ! i)) [0..<length ds])" unfolding mset_map ..
  also have "map (\<lambda>i. d_content (ds ! i)) [0..<length ds] = map d_content ds"
    by (rule nth_equalityI) auto
  finally show ?thesis .
qed

interpretation encoder: reranker "rerank predict inc" for predict inc
  by unfold_locales (rule rerank_Inr)

text \<open>
  with the fallback on, retrieval answers whatever the cross-encoder does (raise, return too few
  scores or scores that are not finite), with at most the configured number of passages, every one of
  them a fused candidate and none of them more often.
\<close>

theorem retrieval_survives_reranker:
  assumes "pr_reranker r = Some (rerank predict inc)" and "pr_fallback r"
  shows "\<exists>ds. invoke_retriever float log1p r query = Inr ds \<and> length ds \<le> pr_top_k r
     \<and> mset (map d_content ds) \<subseteq># mset (map d_content (candidates float log1p r query))"
proof -
  have "\<exists>ds. invoke_retriever float log1p r query = Inr ds"
    by (cases "rerank predict inc query (candidates float log1p r query)")
      (simp_all add: invoke_retriever_def Let_def assms)
  then obtain ds where "invoke_retriever float log1p r query = Inr ds" by blast
  with encoder.answer_from_candidates [OF assms(1) this] show ?thesis by blast
qed

section \<open>Coverage\<close>

lemma nths_filter: "map ((!) xs) (filter (\<lambda>i. i \<in> S) [0..<length xs]) = nths xs S"
proof -
  have "zip xs [0..<length xs] = map (\<lambda>i. (xs ! i, i)) [0..<length xs]"
    by (rule nth_equalityI) auto
  then show ?thesis by (simp add: nths_def filter_map comp_def)
qed

lemma fill_up_keeps: "set selected \<subseteq> set (fill_up k selected is)"
  by (induction k selected "is" rule: fill_up.induct) auto

lemma fill_up_length: "length (fill_up k selected is) \<le> max k (length selected)"
  by (induction k selected "is" rule: fill_up.induct) auto

lemma first_hits_range: "set (first_hits targets covered i hs) \<subseteq> {i..<i + length hs}"
proof (induction targets covered i hs rule: first_hits.induct)
  case (2 targets covered i h hs)
  then show ?case by (fastforce split: option.splits if_splits)
qed simp

lemma first_hits_covers:
  "t \<in> set targets \<Longrightarrow> t \<notin> set covered \<Longrightarrow> Some t \<in> hit_target targets ` set hs \<Longrightarrow>
   \<exists>j\<in>set (first_hits targets covered i hs). hit_target targets (hs ! (j - i)) = Some t"
proof (induction hs arbitrary: covered i)
  case (Cons h hs)
  have later: ?case if "t \<notin> set c" "Some t \<in> hit_target targets ` set hs"
    and sub: "set (first_hits targets c (Suc i) hs) \<subseteq> set (first_hits targets covered i (h # hs))" for c
  proof -
    from Cons.IH [OF Cons.prems(1) that(1,2)] obtain j
      where j: "j \<in> set (first_hits targets c (Suc i) hs)" "hit_target targets (hs ! (j - Suc i)) = Some t" by blast
    have "i < j" using first_hits_range [of targets c "Suc i" hs] j(1) by auto
    then have "hit_target targets ((h # hs) ! (j - i)) = Some t" using j(2) by (simp add: nth_shift)
    then show ?thesis using j(1) sub by blast
  qed
  show ?case
  proof (cases "hit_target targets h")
    case None
    then show ?thesis using Cons.prems by (intro later [of covered]) auto
  next
    case (Some u)
    show ?thesis
    proof (cases "u = t")
      case True
      then show ?thesis using Some Cons.prems(2) by auto
    next
      case False
      then have m: "Some t \<in> hit_target targets ` set hs" using Cons.prems(3) Some by auto
      show ?thesis
      proof (cases "u \<in> set covered")
        case True
        show ?thesis by (rule later [OF Cons.prems(2) m]) (simp add: Some True)
      next
        case False
        show ?thesis by (rule later [of "u # covered", OF _ m])
          (use Some False \<open>u \<noteq> t\<close> Cons.prems(2) in auto)
      qed
    qed
  qed
qed simp

lemma hit_target_mem: "hit_target targets h = Some t \<Longrightarrow> t \<in> set targets"
  by (auto simp: hit_target_def split: option.splits json.splits if_splits)

lemma first_hits_length: "length (first_hits targets covered i hs) \<le> card (set targets - set covered)"
proof (induction hs arbitrary: covered i)
  case (Cons h hs)
  show ?case
  proof (cases "\<exists>t. hit_target targets h = Some t \<and> t \<notin> set covered")
    case True
    then obtain t where t: "hit_target targets h = Some t" "t \<notin> set covered" by blast
    have eq: "set targets - set covered = insert t (set targets - set (t # covered))"
      using t(2) hit_target_mem [OF t(1)] by auto
    have "card (insert t (set targets - set (t # covered))) = Suc (card (set targets - set (t # covered)))"
      by (rule card_insert_disjoint) auto
    from trans [OF arg_cong [OF eq, of card] this] show ?thesis using t Cons [of "t # covered" "Suc i"] by simp
  next
    case False
    then have "first_hits targets covered i (h # hs) = first_hits targets covered (Suc i) hs"
      by (cases "hit_target targets h") auto
    then show ?thesis using Cons by simp
  qed
qed simp

definition wit_retriever :: pdf_retriever where
  "wit_retriever = \<lparr>pr_dense = (\<lambda>q k. [\<lparr>d_content = ''graph recall'', d_metadata = []\<rparr>]), pr_top_k = 1, pr_candidate_k = 2,
     pr_reranker = Some (rerank (\<lambda>ps. Inl (Runtime_Error ''offline'')) True), pr_fallback = True,
     pr_include_scores = False,
     pr_bm25 = Some (build_index [\<lparr>d_content = ''recall'', d_metadata = []\<rparr>, \<lparr>d_content = ''graph'', d_metadata = []\<rparr>])\<rparr>"

theorem retrieval_survives_reranker_witness:
  "\<exists>ds. invoke_retriever (\<lambda>x. []) (\<lambda>x. x) wit_retriever ''recall'' = Inr ds \<and> length ds \<le> 1"
proof -
  have "pr_reranker wit_retriever = Some (rerank (\<lambda>ps. Inl (Runtime_Error ''offline'')) True)"
    and "pr_fallback wit_retriever" and "pr_top_k wit_retriever = 1"
    by (simp_all add: wit_retriever_def)
  with retrieval_survives_reranker [OF this(1,2), of "\<lambda>x. []" "\<lambda>x. x" "''recall''"] show ?thesis
    by auto
qed

text \<open>
  Cutting the ranked hits keeps their order and, for a comparison, a hit of every compared paper that
  has one, even past the configured number of hits; it never keeps more than that number or the number
  of papers, whichever is larger.
\<close>

theorem selection_covers_targets:
  "subseq (select_coverage_hits ranked targets k) ranked
   \<and> hit_target targets ` set (select_coverage_hits ranked targets k) - {None} = hit_target targets ` set ranked - {None}
   \<and> length (select_coverage_hits ranked targets k) \<le> max k (card (set targets))"
proof -
  define required where "required = first_hits targets [] 0 ranked"
  define S where "S = set (fill_up (max k (length required)) required [0..<length ranked])"
  have sel: "select_coverage_hits ranked targets k = (if targets = [] then take k ranked else nths ranked S)"
    by (simp add: select_coverage_hits_def Let_def required_def S_def nths_filter)
  have sub: "subseq (select_coverage_hits ranked targets k) ranked"
    unfolding sel by (auto simp: take_is_prefix intro: prefix_imp_subseq) (auto simp: subseq_conv_nths)
  have "length (nths ranked S) \<le> card S"
    unfolding length_nths S_def by (intro card_mono) auto
  also have "\<dots> \<le> length (fill_up (max k (length required)) required [0..<length ranked])"
    unfolding S_def by (rule card_length)
  also have "\<dots> \<le> max k (card (set targets))"
    using fill_up_length [of "max k (length required)" required "[0..<length ranked]"]
      first_hits_length [of targets "[]" 0 ranked] by (simp add: required_def)
  finally have len: "length (select_coverage_hits ranked targets k) \<le> max k (card (set targets))"
    unfolding sel by simp
  have none: "hit_target [] h = None" for h
    by (auto simp: hit_target_def split: option.splits json.splits)
  have "Some t \<in> hit_target targets ` set (nths ranked S)" if t: "Some t \<in> hit_target targets ` set ranked" for t
  proof -
    have "t \<in> set targets" using t hit_target_mem by fastforce
    from first_hits_covers [OF this _ t, of "[]" 0]
    obtain j where j: "j \<in> set required" "hit_target targets (ranked ! j) = Some t" by (auto simp: required_def)
    have "j < length ranked" using first_hits_range [of targets "[]" 0 ranked] j(1) by (auto simp: required_def)
    moreover have "j \<in> S" unfolding S_def using fill_up_keeps j(1) by blast
    ultimately have "ranked ! j \<in> set (nths ranked S)" by (auto simp: set_nths)
    then show ?thesis using j(2) by (metis imageI)
  qed
  moreover have "set (nths ranked S) \<subseteq> set ranked" by (rule set_nths_subset)
  ultimately have "hit_target targets ` set (nths ranked S) - {None} = hit_target targets ` set ranked - {None}"
    by (auto simp: not_None_eq) (metis image_eqI)+
  then have "hit_target targets ` set (select_coverage_hits ranked targets k) - {None} = hit_target targets ` set ranked - {None}"
    unfolding sel using none by auto
  with sub len show ?thesis by blast
qed

end
