(* ===== verification/Retrieval_Metrics.thy ===== *)
theory Retrieval_Metrics
  imports Retrieval_Laws
begin

text \<open>
  \<open>evaluation/retrieval_eval\<close>: page-level ranking metrics, percentiles and the bootstrap interval, and
  the four strategies the evaluation compares.  \<open>math.log2\<close> on floats and the random generator's draws
  are parameters; the strategies' stage timings are left out.
\<close>

section \<open>Metrics\<close>

fun gains_from :: "nat list \<Rightarrow> nat list \<Rightarrow> nat set \<Rightarrow> nat list" where
  "gains_from seen [] gold = []"
| "gains_from seen (p # ps) gold =
     (if p \<in> gold \<and> p \<notin> set seen then 1 # gains_from (p # seen) ps gold else 0 # gains_from seen ps gold)"

definition relevance_gains :: "nat list \<Rightarrow> nat set \<Rightarrow> nat \<Rightarrow> nat list" where
  "relevance_gains pages gold cutoff = gains_from [] (take cutoff pages) gold"

fun first_gain :: "nat \<Rightarrow> nat list \<Rightarrow> nat option" where
  "first_gain rank [] = None"
| "first_gain rank (g # gs) = (if g \<noteq> 0 then Some rank else first_gain (Suc rank) gs)"

fun dcg_from :: "(nat \<Rightarrow> rat) \<Rightarrow> nat \<Rightarrow> nat list \<Rightarrow> rat" where
  "dcg_from log2 rank [] = 0"
| "dcg_from log2 rank (g # gs) = of_nat g / log2 (Suc rank) + dcg_from log2 (Suc rank) gs"

definition ideal_dcg :: "(nat \<Rightarrow> rat) \<Rightarrow> nat \<Rightarrow> rat" where
  "ideal_dcg log2 n = (\<Sum>rank\<leftarrow>[1..<Suc n]. 1 / log2 (Suc rank))"

record ranking_metrics =
  mt_hit_1 :: rat
  mt_hit_3 :: rat
  mt_hit_5 :: rat
  mt_recall :: rat
  mt_mrr :: rat
  mt_ndcg :: rat
  mt_first :: "nat option"

definition hit_within :: "nat \<Rightarrow> nat list \<Rightarrow> nat list \<Rightarrow> rat" where
  "hit_within n pages gold = (if set (take n pages) \<inter> set gold \<noteq> {} then 1 else 0)"

definition evaluate_ranking :: "(nat \<Rightarrow> rat) \<Rightarrow> nat list \<Rightarrow> nat list \<Rightarrow> int \<Rightarrow> ranking_metrics result" where
  \<comment> \<open>\<open>gold\<close> is the set of gold pages, listed without repetition\<close>
  "evaluate_ranking log2 pages gold cutoff =
     (if cutoff \<le> 0 then Inl (Value_Error ''cutoff must be positive'')
      else if gold = [] then Inl (Value_Error ''gold_pages cannot be empty'')
      else
        let c = nat cutoff; gains = relevance_gains pages (set gold) c; first = first_gain 1 gains;
            dcg = dcg_from log2 1 gains; idcg = ideal_dcg log2 (min (length gold) c)
        in Inr \<lparr>mt_hit_1 = hit_within 1 pages gold, mt_hit_3 = hit_within 3 pages gold,
          mt_hit_5 = hit_within 5 pages gold,
          mt_recall = of_nat (card (set (take c pages) \<inter> set gold)) / of_nat (length gold),
          mt_mrr = (case first of None \<Rightarrow> 0 | Some r \<Rightarrow> 1 / of_nat r),
          mt_ndcg = (if idcg = 0 then 0 else dcg / idcg), mt_first = first\<rparr>)"

fun evaluate_all :: "(nat \<Rightarrow> rat) \<Rightarrow> (nat list \<times> nat list) list \<Rightarrow> ranking_metrics list result" where
  "evaluate_all log2 [] = Inr []"
| "evaluate_all log2 ((pages, gold) # rs) =
     rbind (evaluate_ranking log2 pages gold 5) (\<lambda>m. rbind (evaluate_all log2 rs) (\<lambda>ms. Inr (m # ms)))"

definition fmean :: "rat list \<Rightarrow> rat" where
  "fmean xs = sum_list xs / of_nat (length xs)"

definition metric_keys :: "(string \<times> (ranking_metrics \<Rightarrow> rat)) list" where
  "metric_keys = [(''hit_at_1'', mt_hit_1), (''hit_at_3'', mt_hit_3), (''hit_at_5'', mt_hit_5),
     (''recall_at_5'', mt_recall), (''mrr_at_5'', mt_mrr), (''ndcg_at_5'', mt_ndcg)]"

definition summarize_rankings ::
  "(nat \<Rightarrow> rat) \<Rightarrow> (nat list \<times> nat list) list \<Rightarrow> ((string, rat) dict \<times> ranking_metrics list) result" where
  "summarize_rankings log2 rs = rbind (evaluate_all log2 rs) (\<lambda>ms.
     if ms = [] then Inl (Value_Error ''At least one ranking is required'')
     else Inr (map (\<lambda>(k, f). (k, fmean (map f ms))) metric_keys, ms))"

section \<open>Percentiles and the bootstrap\<close>

definition sorted_rats :: "rat list \<Rightarrow> rat list" where
  "sorted_rats xs = sort_by (\<lambda>a b. a \<le> b) xs"

definition percentile :: "rat list \<Rightarrow> rat \<Rightarrow> rat result" where
  "percentile xs q =
     (if xs = [] then Inl (Value_Error ''Cannot compute a percentile of an empty sequence'')
      else if \<not> (0 \<le> q \<and> q \<le> 1) then Inl (Value_Error ''quantile must be between 0 and 1'')
      else let ordered = sorted_rats xs; position = of_nat (length ordered - 1) * q;
               lower = \<lfloor>position\<rfloor>; upper = \<lceil>position\<rceil>; weight = position - of_int lower
           in if lower = upper then Inr (ordered ! nat lower)
              else Inr (ordered ! nat lower * (1 - weight) + ordered ! nat upper * weight))"

record interval =
  iv_mean :: rat
  iv_lower :: rat
  iv_upper :: rat

definition resample_mean :: "(nat \<Rightarrow> nat \<Rightarrow> nat) \<Rightarrow> rat list \<Rightarrow> nat \<Rightarrow> rat" where
  \<comment> \<open>\<open>draw s j\<close> is the index the generator's \<open>choice\<close> takes for item \<open>j\<close> of sample \<open>s\<close>\<close>
  "resample_mean draw xs s = fmean (map (\<lambda>j. xs ! (draw s j)) [0..<length xs])"

definition bootstrap_mean_ci ::
  "(nat \<Rightarrow> nat \<Rightarrow> nat) \<Rightarrow> rat list \<Rightarrow> int \<Rightarrow> rat \<Rightarrow> interval result" where
  "bootstrap_mean_ci draw xs samples confidence =
     (if xs = [] then Inl (Value_Error ''Cannot bootstrap an empty sequence'')
      else if samples \<le> 0 then Inl (Value_Error ''samples must be positive'')
      else if \<not> (0 < confidence \<and> confidence < 1) then Inl (Value_Error ''confidence must be between 0 and 1'')
      else let means = map (resample_mean draw xs) [0..<nat samples]; tail = (1 - confidence) / 2
           in rbind (percentile means tail) (\<lambda>lo. rbind (percentile means (1 - tail)) (\<lambda>hi.
                Inr \<lparr>iv_mean = fmean xs, iv_lower = lo, iv_upper = hi\<rparr>)))"

section \<open>Strategies\<close>

record retrieval_result =
  re_documents :: "document list"
  re_dense :: "document list"
  re_fused :: "document list"

definition dense_strategy :: "(string \<Rightarrow> nat \<Rightarrow> document list) \<Rightarrow> nat \<Rightarrow> string \<Rightarrow> retrieval_result" where
  "dense_strategy lookup top_k query =
     (let ds = lookup query top_k in \<lparr>re_documents = ds, re_dense = ds, re_fused = []\<rparr>)"

definition bm25_strategy :: "(rat \<Rightarrow> rat) \<Rightarrow> bm25_index \<Rightarrow> nat \<Rightarrow> string \<Rightarrow> retrieval_result" where
  "bm25_strategy log1p ix top_k query =
     \<lparr>re_documents = bm25_search log1p ix query top_k, re_dense = [], re_fused = []\<rparr>"

record hybrid =
  hy_search :: "string \<Rightarrow> nat \<Rightarrow> document list"
  hy_index :: bm25_index
  hy_candidate_k :: nat
  hy_top_k :: nat

definition make_hybrid :: "(string \<Rightarrow> nat \<Rightarrow> document list) \<Rightarrow> bm25_index \<Rightarrow> int \<Rightarrow> int \<Rightarrow> hybrid result" where
  "make_hybrid lookup ix candidate_k top_k =
     (if top_k \<le> 0 \<or> candidate_k < top_k then Inl (Value_Error ''candidate_k must be >= top_k > 0'')
      else Inr \<lparr>hy_search = lookup, hy_index = ix, hy_candidate_k = nat candidate_k, hy_top_k = nat top_k\<rparr>)"

definition hybrid_candidates ::
  "(rat \<Rightarrow> string) \<Rightarrow> (rat \<Rightarrow> rat) \<Rightarrow> hybrid \<Rightarrow> string \<Rightarrow> document list \<times> document list" where
  "hybrid_candidates float log1p h query =
     (let dense = hy_search h query (hy_candidate_k h); lexical = bm25_search log1p (hy_index h) query (hy_candidate_k h)
      in (dense, reciprocal_rank_fusion float False [dense, lexical] (hy_candidate_k h)))"

definition hybrid_rrf :: "(rat \<Rightarrow> string) \<Rightarrow> (rat \<Rightarrow> rat) \<Rightarrow> hybrid \<Rightarrow> string \<Rightarrow> retrieval_result" where
  "hybrid_rrf float log1p h query = (case hybrid_candidates float log1p h query of (dense, fused) \<Rightarrow>
     \<lparr>re_documents = take (hy_top_k h) fused, re_dense = dense, re_fused = fused\<rparr>)"

definition hybrid_rerank ::
  "(rat \<Rightarrow> string) \<Rightarrow> (rat \<Rightarrow> rat) \<Rightarrow> (string \<Rightarrow> document list \<Rightarrow> document list result) \<Rightarrow> hybrid \<Rightarrow> string \<Rightarrow>
   retrieval_result result" where
  "hybrid_rerank float log1p rk h query = (case hybrid_candidates float log1p h query of (dense, fused) \<Rightarrow>
     rbind (rk query fused) (\<lambda>ranked.
       Inr \<lparr>re_documents = take (hy_top_k h) ranked, re_dense = dense, re_fused = fused\<rparr>))"

section \<open>Every metric is a fraction\<close>

lemma gains_01: "set (gains_from seen ps gold) \<subseteq> {0, 1}"
  by (induction seen ps gold rule: gains_from.induct) auto

lemma gains_count:
  "set seen \<subseteq> gold \<Longrightarrow> finite gold \<Longrightarrow> distinct seen \<Longrightarrow>
   sum_list (gains_from seen ps gold) + length seen \<le> card gold"
proof (induction seen ps gold rule: gains_from.induct)
  case (1 seen gold)
  then show ?case by (simp add: card_mono distinct_card [symmetric])
qed auto

lemma gains_length: "length (gains_from seen ps gold) = length ps"
  by (induction seen ps gold rule: gains_from.induct) auto

lemma sum_list_01: "set gs \<subseteq> {0, 1} \<Longrightarrow> sum_list gs \<le> length gs" for gs :: "nat list"
  by (induction gs) auto

text \<open>Moving the gains to the front can only raise a sum of decreasing weights.\<close>

lemma front_loaded:
  fixes w :: "nat \<Rightarrow> rat"
  assumes "\<And>i j. i \<le> j \<Longrightarrow> w j \<le> w i" and "set gs \<subseteq> {0, 1}"
  shows "(\<Sum>i<length gs. of_nat (gs ! i) * w (a + i)) \<le> (\<Sum>i<sum_list gs. w (a + i))"
  using assms(2)
proof (induction gs rule: rev_induct)
  case (snoc g gs)
  have IH: "(\<Sum>i<length gs. of_nat (gs ! i) * w (a + i)) \<le> (\<Sum>i<sum_list gs. w (a + i))"
    using snoc by simp
  have e: "(\<Sum>i<length (gs @ [g]). of_nat ((gs @ [g]) ! i) * w (a + i))
      = (\<Sum>i<length gs. of_nat (gs ! i) * w (a + i)) + of_nat g * w (a + length gs)"
    by (simp add: nth_append)
  have "g = 0 \<or> g = 1" using snoc.prems by auto
  moreover have "w (a + length gs) \<le> w (a + sum_list gs)"
    using assms(1) sum_list_01 [of gs] snoc.prems by simp
  ultimately show ?case unfolding e using IH by auto
qed simp

lemma dcg_sum: "dcg_from log2 rank gs = (\<Sum>i<length gs. of_nat (gs ! i) * (1 / log2 (Suc (rank + i))))"
proof (induction gs arbitrary: rank)
  case (Cons g gs)
  have "(\<Sum>i<length (g # gs). of_nat ((g # gs) ! i) * (1 / log2 (Suc (rank + i))))
      = of_nat g * (1 / log2 (Suc rank)) + (\<Sum>i<length gs. of_nat (gs ! i) * (1 / log2 (Suc (rank + Suc i))))"
    by (simp del: sum.lessThan_Suc add: sum.lessThan_Suc_shift)
  then show ?case using Cons [of "Suc rank"] by simp
qed simp

lemma ideal_sum: "ideal_dcg log2 n = (\<Sum>i<n. 1 / log2 (Suc (1 + i)))"
  by (induction n) (simp_all add: ideal_dcg_def)

definition log_like :: "(nat \<Rightarrow> rat) \<Rightarrow> bool" where
  \<comment> \<open>what the metrics use of \<open>math.log2\<close>: positive from 2 on, and never decreasing\<close>
  "log_like log2 \<longleftrightarrow> (\<forall>n\<ge>2. 0 < log2 n) \<and> (\<forall>m n. m \<le> n \<longrightarrow> log2 m \<le> log2 n)"

lemma dcg_at_most_ideal:
  assumes log: "log_like log2" and gs: "set gs \<subseteq> {0, 1}" and n: "sum_list gs \<le> n"
  shows "dcg_from log2 1 gs \<le> ideal_dcg log2 n"
proof -
  let ?w = "\<lambda>i. 1 / log2 (Suc (Suc i))"
  have pos: "0 < log2 (Suc (Suc i))" for i using log by (simp add: log_like_def)
  have w: "?w j \<le> ?w i" "0 \<le> ?w i" if "i \<le> j" for i j
  proof -
    have "log2 (Suc (Suc i)) \<le> log2 (Suc (Suc j))" using log that by (simp add: log_like_def)
    then show "?w j \<le> ?w i" using pos by (intro frac_le) simp_all
    show "0 \<le> ?w i" using pos [of i] by simp
  qed
  have "dcg_from log2 1 gs = (\<Sum>i<length gs. of_nat (gs ! i) * ?w (0 + i))"
    by (simp add: dcg_sum)
  also have "\<dots> \<le> (\<Sum>i<sum_list gs. ?w (0 + i))" using w(1) gs by (rule front_loaded)
  also have "\<dots> \<le> (\<Sum>i<n. ?w (0 + i))" using n w(2) by (intro sum_mono2) auto
  finally show ?thesis by (simp add: ideal_sum)
qed

lemma dcg_nonneg: "log_like log2 \<Longrightarrow> 1 \<le> rank \<Longrightarrow> 0 \<le> dcg_from log2 rank gs"
  by (induction log2 rank gs rule: dcg_from.induct) (auto simp: log_like_def intro!: add_nonneg_nonneg divide_nonneg_pos)

lemma first_gain_rank: "first_gain rank gs = Some r \<Longrightarrow> rank \<le> r"
  by (induction rank gs rule: first_gain.induct) (auto split: if_splits)

definition unit :: "rat \<Rightarrow> bool" where
  "unit x \<longleftrightarrow> 0 \<le> x \<and> x \<le> 1"

lemma fraction_unit: "0 \<le> a \<Longrightarrow> a \<le> b \<Longrightarrow> unit (if b = 0 then 0 else a / b)"
  by (auto simp: unit_def divide_le_eq_1)

lemma evaluate_unit:
  assumes log: "log_like log2" and gold: "distinct gold" and e: "evaluate_ranking log2 pages gold cutoff = Inr m"
  shows "unit (mt_hit_1 m) \<and> unit (mt_hit_3 m) \<and> unit (mt_hit_5 m) \<and> unit (mt_recall m) \<and> unit (mt_mrr m) \<and> unit (mt_ndcg m)"
proof -
  let ?c = "nat cutoff" and ?gs = "relevance_gains pages (set gold) (nat cutoff)"
  have m: "m = \<lparr>mt_hit_1 = hit_within 1 pages gold, mt_hit_3 = hit_within 3 pages gold,
      mt_hit_5 = hit_within 5 pages gold,
      mt_recall = of_nat (card (set (take ?c pages) \<inter> set gold)) / of_nat (length gold),
      mt_mrr = (case first_gain 1 ?gs of None \<Rightarrow> 0 | Some r \<Rightarrow> 1 / of_nat r),
      mt_ndcg = (let idcg = ideal_dcg log2 (min (length gold) ?c) in if idcg = 0 then 0 else dcg_from log2 1 ?gs / idcg),
      mt_first = first_gain 1 ?gs\<rparr>" and "gold \<noteq> []"
    using e by (auto simp: evaluate_ranking_def Let_def split: if_splits)
  have hit: "unit (hit_within n pages gold)" for n by (simp add: hit_within_def unit_def)
  have "card (set (take ?c pages) \<inter> set gold) \<le> length gold"
    using card_mono [of "set gold"] card_length [of gold] by (meson List.finite_set inf_le2 le_trans)
  then have recall: "unit (mt_recall m)" using \<open>gold \<noteq> []\<close> by (simp add: m unit_def)
  have mrr: "unit (mt_mrr m)"
    using first_gain_rank [of 1 ?gs] by (auto simp: m unit_def divide_le_eq_1 split: option.splits)
  have "sum_list ?gs \<le> card (set gold)" using gains_count [of "[]" "set gold" "take ?c pages"]
    by (simp add: relevance_gains_def)
  moreover have "sum_list ?gs \<le> ?c"
    using sum_list_01 [OF gains_01 [of "[]" "take ?c pages" "set gold"]]
    by (simp add: relevance_gains_def gains_length)
  ultimately have "dcg_from log2 1 ?gs \<le> ideal_dcg log2 (min (length gold) ?c)"
    using gold gains_01 [of "[]" "take ?c pages" "set gold"]
    by (intro dcg_at_most_ideal [OF log]) (simp_all only: relevance_gains_def distinct_card min.bounded_iff)
  then have "unit (mt_ndcg m)" using dcg_nonneg [OF log, of 1 ?gs]
    by (simp add: m Let_def fraction_unit)
  with recall mrr hit show ?thesis by (simp add: m)
qed

lemma fmean_unit: "xs \<noteq> [] \<Longrightarrow> \<forall>x\<in>set xs. unit x \<Longrightarrow> unit (fmean xs)"
proof -
  assume ne: "xs \<noteq> []" and u: "\<forall>x\<in>set xs. unit x"
  have "0 \<le> sum_list xs \<and> sum_list xs \<le> of_nat (length xs)"
    using u by (induction xs) (auto simp: unit_def)
  then show ?thesis using ne by (simp add: fmean_def unit_def divide_le_eq_1)
qed

lemma metric_unit:
  assumes "log_like log2" and "distinct gold" and "evaluate_ranking log2 pages gold cutoff = Inr m"
    and "f \<in> snd ` set metric_keys"
  shows "unit (f m)"
  using evaluate_unit [OF assms(1-3)] assms(4) by (auto simp: metric_keys_def)

lemma evaluate_all_unit:
  assumes "log_like log2" and "f \<in> snd ` set metric_keys"
  shows "list_all (\<lambda>r. distinct (snd r)) rs \<Longrightarrow> evaluate_all log2 rs = Inr ms \<Longrightarrow> \<forall>m\<in>set ms. unit (f m)"
proof (induction rs arbitrary: ms)
  case (Cons r rs)
  obtain pages gold where r: "r = (pages, gold)" by (cases r)
  from Cons.prems(2) obtain m ms' where "evaluate_ranking log2 pages gold 5 = Inr m"
    and "evaluate_all log2 rs = Inr ms'" and "ms = m # ms'"
    by (auto simp: r rbind_Inr_iff)
  with Cons assms show ?case by (auto simp: r intro: metric_unit)
qed simp

text \<open>
  Every aggregate of a retrieval evaluation (hit rates, recall, reciprocal rank, normalised
  discounted gain) lies between 0 and 1, whatever pages were retrieved, repeated or irrelevant.
\<close>

theorem retrieval_metrics_are_fractions:
  assumes "log_like log2" and "list_all (\<lambda>r. distinct (snd r)) rs"
    and "summarize_rankings log2 rs = Inr (aggregate, ms)"
  shows "list_all (\<lambda>(k, x). unit x) aggregate"
proof -
  from assms(3) have ms: "evaluate_all log2 rs = Inr ms" "ms \<noteq> []"
    and agg: "aggregate = map (\<lambda>(k, f). (k, fmean (map f ms))) metric_keys"
    by (auto simp: summarize_rankings_def rbind_Inr_iff split: if_splits)
  have "unit (fmean (map f ms))" if "(k, f) \<in> set metric_keys" for k f
  proof -
    have "f \<in> snd ` set metric_keys" using that by (metis imageI snd_conv)
    from evaluate_all_unit [OF assms(1) this assms(2) ms(1)] ms(2) show ?thesis
      by (intro fmean_unit) auto
  qed
  then show ?thesis unfolding agg by (auto simp: list_all_iff)
qed

lemma log_like_id: "log_like rat_of_nat"
  by (simp add: log_like_def)

theorem retrieval_metrics_are_fractions_witness:
  "\<exists>aggregate ms. summarize_rankings rat_of_nat [([3, 3, 7], [7, 9]), ([1], [2])] = Inr (aggregate, ms)
     \<and> list_all (\<lambda>(k, x). unit x) aggregate"
proof -
  have "is_ok (summarize_rankings rat_of_nat [([3, 3, 7], [7, 9]), ([1], [2])])" by code_simp
  then obtain aggregate ms where s: "summarize_rankings rat_of_nat [([3, 3, 7], [7, 9]), ([1], [2])] = Inr (aggregate, ms)"
    by (auto simp: is_ok_iff)
  have "list_all (\<lambda>r. distinct (snd r)) [([3, 3, 7], [7, 9]), ([1], [2 :: nat])]" by simp
  from retrieval_metrics_are_fractions [OF log_like_id _ s] this s show ?thesis by blast
qed

section \<open>Percentiles\<close>

definition interpolate :: "rat list \<Rightarrow> rat \<Rightarrow> rat" where
  "interpolate ys p = ys ! nat \<lfloor>p\<rfloor> * (1 - (p - of_int \<lfloor>p\<rfloor>)) + ys ! nat \<lceil>p\<rceil> * (p - of_int \<lfloor>p\<rfloor>)"

lemma percentile_interpolate:
  assumes "xs \<noteq> []" and "0 \<le> q" and "q \<le> 1"
  shows "percentile xs q = Inr (interpolate (sorted_rats xs) (of_nat (length xs - 1) * q))"
proof -
  let ?p = "of_nat (length xs - 1) * q"
  have "?p - of_int \<lfloor>?p\<rfloor> = 0" if eq: "\<lfloor>?p\<rfloor> = \<lceil>?p\<rceil>"
  proof -
    have "?p \<le> of_int \<lfloor>?p\<rfloor>" using le_of_int_ceiling [of ?p] unfolding eq .
    with of_int_floor_le [of ?p] have "?p = of_int \<lfloor>?p\<rfloor>" by (rule antisym [rotated])
    then show ?thesis by linarith
  qed
  then show ?thesis using assms
    by (auto simp: percentile_def Let_def interpolate_def sorted_rats_def)
qed

lemma sorted_rats_mono: "i \<le> j \<Longrightarrow> j < length xs \<Longrightarrow> sorted_rats xs ! i \<le> sorted_rats xs ! j"
  using ascending.sorted_result [of "\<lambda>x. x" xs]
  by (cases "i = j") (auto simp: sorted_rats_def sorted_wrt_iff_nth_less)

lemma between:
  fixes a b t :: rat
  assumes "a \<le> b" and "0 \<le> t" and "t \<le> 1"
  shows "a \<le> a * (1 - t) + b * t" and "a * (1 - t) + b * t \<le> b"
proof -
  have e: "a * (1 - t) + b * t = a + (b - a) * t" by (simp add: algebra_simps)
  have "0 \<le> (b - a) * t" "(b - a) * t \<le> (b - a) * 1"
    using assms mult_left_mono [of t 1 "b - a"] by auto
  then show "a \<le> a * (1 - t) + b * t" and "a * (1 - t) + b * t \<le> b" unfolding e by simp_all
qed

lemma index_bounds:
  assumes "0 \<le> p" and "p \<le> of_nat (length xs - 1)" and "xs \<noteq> []"
  shows "nat \<lfloor>p\<rfloor> \<le> nat \<lceil>p\<rceil>" and "nat \<lceil>p\<rceil> < length xs"
proof -
  have "\<lceil>p\<rceil> \<le> int (length xs - 1)" using assms(2) by (simp add: ceiling_le_iff)
  then show "nat \<lceil>p\<rceil> < length xs" using assms(3) by (cases xs) auto
  show "nat \<lfloor>p\<rfloor> \<le> nat \<lceil>p\<rceil>" by (simp add: floor_le_ceiling nat_mono)
qed

lemma interpolate_bounds:
  assumes "0 \<le> p" and "p \<le> of_nat (length xs - 1)" and "xs \<noteq> []"
  shows "sorted_rats xs ! nat \<lfloor>p\<rfloor> \<le> interpolate (sorted_rats xs) p"
    and "interpolate (sorted_rats xs) p \<le> sorted_rats xs ! nat \<lceil>p\<rceil>"
proof -
  have "sorted_rats xs ! nat \<lfloor>p\<rfloor> \<le> sorted_rats xs ! nat \<lceil>p\<rceil>"
    using index_bounds [OF assms] by (rule sorted_rats_mono)
  moreover have "0 \<le> p - of_int \<lfloor>p\<rfloor>" "p - of_int \<lfloor>p\<rfloor> \<le> 1" by linarith+
  ultimately show "sorted_rats xs ! nat \<lfloor>p\<rfloor> \<le> interpolate (sorted_rats xs) p"
    and "interpolate (sorted_rats xs) p \<le> sorted_rats xs ! nat \<lceil>p\<rceil>"
    unfolding interpolate_def by (rule between)+
qed

lemma interpolate_mono:
  assumes "0 \<le> p" and "p \<le> r" and "r \<le> of_nat (length xs - 1)" and "xs \<noteq> []"
  shows "interpolate (sorted_rats xs) p \<le> interpolate (sorted_rats xs) r"
proof -
  have rp: "0 \<le> r" "p \<le> of_nat (length xs - 1)" using assms by linarith+
  note bp = interpolate_bounds [OF assms(1) rp(2) assms(4)] and br = interpolate_bounds [OF rp(1) assms(3,4)]
  consider "\<lfloor>p\<rfloor> < \<lfloor>r\<rfloor>" | "\<lfloor>p\<rfloor> = \<lfloor>r\<rfloor>" using floor_mono [OF assms(2)] by linarith
  then show ?thesis
  proof cases
    case 1
    then have "\<lceil>p\<rceil> \<le> \<lfloor>r\<rfloor>" by linarith
    then have "nat \<lceil>p\<rceil> \<le> nat \<lfloor>r\<rfloor>" by (rule nat_mono)
    moreover have "nat \<lfloor>r\<rfloor> < length xs" using index_bounds [OF rp(1) assms(3,4)] by linarith
    ultimately have "sorted_rats xs ! nat \<lceil>p\<rceil> \<le> sorted_rats xs ! nat \<lfloor>r\<rfloor>" by (rule sorted_rats_mono)
    with bp(2) br(1) show ?thesis by linarith
  next
    case 2
    show ?thesis
    proof (cases "p = of_int \<lfloor>p\<rfloor>")
      case True
      then have "interpolate (sorted_rats xs) p = sorted_rats xs ! nat \<lfloor>r\<rfloor>"
        using 2 by (simp add: interpolate_def)
      with br(1) show ?thesis by simp
    next
      case False
      let ?k = "\<lfloor>r\<rfloor>" and ?a = "sorted_rats xs ! nat \<lfloor>r\<rfloor>" and ?b = "sorted_rats xs ! nat \<lceil>r\<rceil>"
      have "of_int ?k \<noteq> r" using False 2 assms(2) of_int_floor_le [of p] by linarith
      then have c: "\<lceil>p\<rceil> = \<lceil>r\<rceil>" using False 2 by (simp add: ceiling_altdef)
      have "?a \<le> ?b" using index_bounds [OF rp(1) assms(3,4)] by (rule sorted_rats_mono)
      then have "(?b - ?a) * (p - of_int ?k) \<le> (?b - ?a) * (r - of_int ?k)"
        using assms(2) by (intro mult_left_mono) auto
      moreover have "interpolate (sorted_rats xs) p = ?a + (?b - ?a) * (p - of_int ?k)"
        by (simp add: interpolate_def 2 c algebra_simps)
      moreover have "interpolate (sorted_rats xs) r = ?a + (?b - ?a) * (r - of_int ?k)"
        by (simp add: interpolate_def algebra_simps)
      ultimately show ?thesis by linarith
    qed
  qed
qed

lemma interpolate_range:
  assumes "0 \<le> p" and "p \<le> of_nat (length xs - 1)" and "xs \<noteq> []"
    and "\<forall>x\<in>set xs. lo \<le> x \<and> x \<le> hi"
  shows "lo \<le> interpolate (sorted_rats xs) p" and "interpolate (sorted_rats xs) p \<le> hi"
proof -
  have "set (sorted_rats xs) = set xs" "length (sorted_rats xs) = length xs" by (simp_all add: sorted_rats_def)
  then have "lo \<le> sorted_rats xs ! i \<and> sorted_rats xs ! i \<le> hi" if "i < length xs" for i
    using assms(4) that by (metis nth_mem)
  moreover have "nat \<lfloor>p\<rfloor> < length xs" "nat \<lceil>p\<rceil> < length xs" using index_bounds [OF assms(1-3)] by linarith+
  ultimately show "lo \<le> interpolate (sorted_rats xs) p" and "interpolate (sorted_rats xs) p \<le> hi"
    using interpolate_bounds [OF assms(1-3)] by (meson order_trans)+
qed

lemma fmean_range:
  assumes "xs \<noteq> []" and "\<forall>x\<in>set xs. lo \<le> x \<and> x \<le> hi"
  shows "lo \<le> fmean xs \<and> fmean xs \<le> hi"
proof -
  have "of_nat (length xs) * lo \<le> sum_list xs \<and> sum_list xs \<le> of_nat (length xs) * hi"
    using assms(2) by (induction xs) (auto simp: algebra_simps)
  then show ?thesis using assms(1) by (simp add: fmean_def field_simps)
qed

text \<open>
  The bootstrap interval of a sample is ordered and, like the mean, stays within the range of the
  sample's values, whatever indices the generator draws.
\<close>

theorem bootstrap_interval_in_range:
  assumes "bootstrap_mean_ci draw xs samples confidence = Inr iv"
    and "\<And>s j. draw s j < length xs" and "\<And>x. x \<in> set xs \<Longrightarrow> lo \<le> x \<and> x \<le> hi"
  shows "lo \<le> iv_lower iv \<and> iv_lower iv \<le> iv_upper iv \<and> iv_upper iv \<le> hi \<and> lo \<le> iv_mean iv \<and> iv_mean iv \<le> hi"
proof -
  let ?ms = "map (resample_mean draw xs) [0..<nat samples]" and ?t = "(1 - confidence) / 2"
  let ?p = "of_nat (length ?ms - 1) * ?t" and ?r = "of_nat (length ?ms - 1) * (1 - ?t)"
  have c: "xs \<noteq> []" "0 < samples" "0 < confidence" "confidence < 1"
    using assms(1) by (auto simp: bootstrap_mean_ci_def split: if_splits)
  have t: "0 \<le> ?t" "?t \<le> 1 - ?t" "1 - ?t \<le> 1" using c by (simp_all add: field_simps)
  have ne: "?ms \<noteq> []" using c(2) by simp
  have iv: "iv_mean iv = fmean xs" "iv_lower iv = interpolate (sorted_rats ?ms) ?p" "iv_upper iv = interpolate (sorted_rats ?ms) ?r"
    using assms(1) percentile_interpolate [OF ne, of ?t] percentile_interpolate [OF ne, of "1 - ?t"] t c
    by (auto simp: bootstrap_mean_ci_def Let_def simp del: length_map)
  have xs: "\<forall>x\<in>set xs. lo \<le> x \<and> x \<le> hi" using assms(3) by blast
  have "lo \<le> resample_mean draw xs s \<and> resample_mean draw xs s \<le> hi" for s
    unfolding resample_mean_def using assms(2) c(1) xs by (intro fmean_range) auto
  then have ms: "\<forall>x\<in>set ?ms. lo \<le> x \<and> x \<le> hi" by auto
  have pr: "0 \<le> ?p" "?p \<le> ?r" "?r \<le> of_nat (length ?ms - 1)"
  proof -
    have n: "0 \<le> rat_of_nat (length ?ms - 1)" by simp
    show "0 \<le> ?p" using n t(1) by (rule mult_nonneg_nonneg)
    show "?p \<le> ?r" using t(2) n by (rule mult_left_mono)
    show "?r \<le> of_nat (length ?ms - 1)" using mult_left_mono [OF t(3) n] by simp
  qed
  then have "?p \<le> of_nat (length ?ms - 1)" "0 \<le> ?r" by linarith+
  then show ?thesis unfolding iv
    using interpolate_range(1) [OF pr(1) _ ne ms] interpolate_range(2) [OF _ pr(3) ne ms]
      interpolate_mono [OF pr ne] fmean_range [OF c(1) xs] by blast
qed

theorem bootstrap_interval_in_range_witness:
  "\<exists>iv. bootstrap_mean_ci (\<lambda>s j. (s + j) mod 3) [1, 4, 2] 10 (9/10) = Inr iv \<and> 1 \<le> iv_lower iv \<and> iv_upper iv \<le> 4"
proof -
  have "is_ok (bootstrap_mean_ci (\<lambda>s j. (s + j) mod 3) [1, 4, 2] 10 (9/10))" by code_simp
  then obtain iv where iv: "bootstrap_mean_ci (\<lambda>s j. (s + j) mod 3) [1, 4, 2] 10 (9/10) = Inr iv"
    by (auto simp: is_ok_iff)
  have "(s + j) mod 3 < length [1, 4, 2 :: rat]" for s j :: nat by simp
  moreover have "1 \<le> x \<and> x \<le> 4" if "x \<in> set [1, 4, 2]" for x :: rat using that by auto
  ultimately show ?thesis using bootstrap_interval_in_range [OF iv] iv by blast
qed

end
