(* ===== verification/Evidence.thy ===== *)
theory Evidence
  imports Retrieval
begin

text \<open>
  \<open>server/agent/evidence.py\<close>: the identity of a piece of evidence, the merge of evidence collected over
  several rounds, and the citations an answer may carry.  SHA-256 is a parameter.  Raw items are the
  records here, with the bounds the model's fields declare as \<open>evidence_valid\<close>.
\<close>

datatype source_type = Src_workspace | Src_pdf | Src_web | Src_arxiv | Src_analysis | Src_mcp | Src_github

definition source_names :: "(string \<times> source_type) list" where
  "source_names = [(''workspace'', Src_workspace), (''pdf'', Src_pdf), (''web'', Src_web), (''arxiv'', Src_arxiv),
     (''analysis'', Src_analysis), (''mcp'', Src_mcp), (''github'', Src_github)]"

record evidence =
  ev_id :: ident
  ev_source :: source_type
  ev_metadata :: "(string, json) dict"
  ev_execution_id :: "ident option"
  ev_dataset_ids :: "ident list"
  ev_artifact_ids :: "ident list"
  ev_document_id :: "ident option"
  ev_document_name :: "string option"
  ev_page :: "int option"
  ev_page_count :: "int option"
  ev_chunk_id :: "string option"
  ev_title :: "string option"
  ev_url :: "string option"
  ev_content :: string
  ev_retrieval_score :: "rat option"
  ev_rerank_score :: "rat option"
  ev_extraction_method :: "string option"
  ev_table_labels :: "string list"

definition bare_evidence :: "ident \<Rightarrow> source_type \<Rightarrow> string \<Rightarrow> evidence" where
  \<comment> \<open>the defaults of every field but the three\<close>
  "bare_evidence i src text = \<lparr>ev_id = i, ev_source = src, ev_metadata = [], ev_execution_id = None, ev_dataset_ids = [],
     ev_artifact_ids = [], ev_document_id = None, ev_document_name = None, ev_page = None, ev_page_count = None,
     ev_chunk_id = None, ev_title = None, ev_url = None, ev_content = text, ev_retrieval_score = None,
     ev_rerank_score = None, ev_extraction_method = None, ev_table_labels = []\<rparr>"

definition evidence_valid :: "evidence \<Rightarrow> bool" where
  "evidence_valid e = ((case ev_page e of None \<Rightarrow> True | Some p \<Rightarrow> 1 \<le> p)
     \<and> (case ev_page_count e of None \<Rightarrow> True | Some p \<Rightarrow> 1 \<le> p))"

definition validate_evidence :: "evidence \<Rightarrow> evidence result" where
  "validate_evidence e = (if evidence_valid e then Inr e else Inl (Provider_Error ''ValidationError''))"

section \<open>Merging\<close>

definition stable_part :: "evidence \<Rightarrow> evidence" where
  \<comment> \<open>every field but the two scores\<close>
  "stable_part e = e\<lparr>ev_retrieval_score := None, ev_rerank_score := None\<rparr>"

definition merge_item :: "(ident, evidence) dict \<Rightarrow> evidence \<Rightarrow> (ident, evidence) dict result" where
  "merge_item merged raw = rbind (validate_evidence raw) (\<lambda>item.
     case map_of merged (ev_id item) of
       Some previous \<Rightarrow> if stable_part previous \<noteq> stable_part item
         then Inl (Value_Error ''Evidence identity/content conflict'')
         else Inr (dict_put (ev_id item) item merged)
     | None \<Rightarrow> Inr (dict_put (ev_id item) item merged))"

definition merge_evidence_items :: "evidence list list \<Rightarrow> evidence list result" where
  "merge_evidence_items groups = rbind (rfold merge_item [] (concat groups)) (\<lambda>merged. Inr (map snd merged))"

section \<open>Evidence from a retrieval hit\<close>

fun digits_value :: "nat \<Rightarrow> string \<Rightarrow> nat" where
  "digits_value acc [] = acc"
| "digits_value acc (c # cs) = digits_value (10 * acc + (of_char c - 48)) cs"

definition int_of_text :: "string \<Rightarrow> int result" where
  \<comment> \<open>\<open>int(s)\<close>: blanks around, an optional sign, digits\<close>
  "int_of_text s =
     (let t = strip s; neg = (t \<noteq> [] \<and> hd t = CHR ''-''); ds = (if t \<noteq> [] \<and> hd t \<in> {CHR ''-'', CHR ''+''} then tl t else t)
      in if ds = [] \<or> \<not> list_all is_digit ds then Inl (Value_Error ''invalid literal for int()'')
         else Inr (if neg then - int (digits_value 0 ds) else int (digits_value 0 ds)))"

fun int_of_json :: "json \<Rightarrow> int result" where
  "int_of_json (JInt i) = Inr i"
| "int_of_json (JBool b) = Inr (if b then 1 else 0)"
| "int_of_json (JFloat r) = Inr (if 0 \<le> r then \<lfloor>r\<rfloor> else \<lceil>r\<rceil>)"
| "int_of_json (JStr s) = int_of_text s"
| "int_of_json _ = Inl Type_Error"

fun optional_text :: "json option \<Rightarrow> string option result" where
  "optional_text None = Inr None"
| "optional_text (Some JNull) = Inr None"
| "optional_text (Some (JStr s)) = Inr (Some s)"
| "optional_text (Some _) = Inl (Provider_Error ''ValidationError'')"

fun optional_int :: "json option \<Rightarrow> int option result" where
  "optional_int None = Inr None"
| "optional_int (Some JNull) = Inr None"
| "optional_int (Some (JInt i)) = Inr (Some i)"
| "optional_int (Some _) = Inl (Provider_Error ''ValidationError'')"

fun optional_score :: "json option \<Rightarrow> rat option result" where
  "optional_score None = Inr None"
| "optional_score (Some JNull) = Inr None"
| "optional_score (Some (JInt i)) = Inr (Some (of_int i))"
| "optional_score (Some (JFloat r)) = Inr (Some r)"
| "optional_score (Some _) = Inl (Provider_Error ''ValidationError'')"

fun texts_of :: "json list \<Rightarrow> string list result" where
  "texts_of [] = Inr []"
| "texts_of (JStr s # vs) = rbind (texts_of vs) (\<lambda>ts. Inr (s # ts))"
| "texts_of (v # vs) = Inl (Provider_Error ''ValidationError'')"

definition labels_of :: "json option \<Rightarrow> string list result" where
  "labels_of j = (case j of None \<Rightarrow> Inr [] | Some (JList vs) \<Rightarrow> texts_of vs
     | Some _ \<Rightarrow> Inl (Provider_Error ''ValidationError''))"

definition public_page :: "json option \<Rightarrow> int option result" where
  \<comment> \<open>physical pages count from zero, public ones from one\<close>
  "public_page j = (case j of None \<Rightarrow> Inr None | Some JNull \<Rightarrow> Inr None
     | Some v \<Rightarrow> rbind (int_of_json v) (\<lambda>i. Inr (Some (i + 1))))"

definition page_text :: "int option \<Rightarrow> string" where
  "page_text p = (case p of None \<Rightarrow> ''None'' | Some i \<Rightarrow> int_text i)"

definition chunk_of :: "(string \<Rightarrow> string) \<Rightarrow> document \<Rightarrow> string result" where
  "chunk_of sha hit = (let c = dict_get (d_metadata hit) ''chunk_id'' JNull in
     if json_truthy c then rbind (optional_text (Some c)) (\<lambda>s. Inr (the s)) else Inr (take 24 (sha (d_content hit))))"

definition source_of :: "(string, json) dict \<Rightarrow> string \<Rightarrow> source_type result" where
  "source_of m default_name = (case dict_get m ''source_type'' (JStr default_name) of
     JStr s \<Rightarrow> (case map_of source_names s of Some t \<Rightarrow> Inr t | None \<Rightarrow> Inl (Provider_Error ''ValidationError''))
   | _ \<Rightarrow> Inl (Provider_Error ''ValidationError''))"

definition evidence_from_hit ::
  "(string \<Rightarrow> string) \<Rightarrow> (rat \<Rightarrow> string) \<Rightarrow> document \<Rightarrow> string \<Rightarrow> evidence result" where
  "evidence_from_hit sha float hit default_name =
     (let m = d_metadata hit in
      rbind (public_page (map_of m ''page'')) (\<lambda>page.
      rbind (chunk_of sha hit) (\<lambda>chunk.
      rbind (source_of m default_name) (\<lambda>src.
      rbind (optional_text (map_of m ''document_id'')) (\<lambda>doc.
      rbind (optional_text (map_of m ''document_name'')) (\<lambda>name.
      rbind (optional_int (case map_of m ''page_count'' of None \<Rightarrow> map_of m ''total_pages'' | Some v \<Rightarrow> Some v)) (\<lambda>count.
      rbind (optional_score (map_of m ''retrieval_score'')) (\<lambda>rs.
      rbind (optional_score (map_of m ''rerank_score'')) (\<lambda>rr.
      rbind (optional_text (map_of m ''extraction_method'')) (\<lambda>method.
      rbind (labels_of (map_of m ''table_labels'')) (\<lambda>labels.
        let ident = py_str float (dict_get m ''document_id'' (dict_get m ''source'' JNull)) @ '':''
              @ page_text page @ '':'' @ chunk
        in validate_evidence \<lparr>ev_id = ''ev_'' @ take 24 (sha ident), ev_source = src, ev_metadata = [],
             ev_execution_id = None, ev_dataset_ids = [], ev_artifact_ids = [], ev_document_id = doc,
             ev_document_name = name, ev_page = page, ev_page_count = count, ev_chunk_id = Some chunk,
             ev_title = None, ev_url = None, ev_content = d_content hit, ev_retrieval_score = rs,
             ev_rerank_score = rr, ev_extraction_method = method, ev_table_labels = labels\<rparr>)))))))))))"

definition external_evidence ::
  "(string \<Rightarrow> string) \<Rightarrow> string \<Rightarrow> string \<Rightarrow> string \<Rightarrow> string option \<Rightarrow> evidence result" where
  "external_evidence sha source title content url =
     rbind (source_of [] source) (\<lambda>src. Inr \<lparr>ev_id = ''ev_'' @ take 24 (sha (source @ '':''
         @ (case url of None \<Rightarrow> ''None'' | Some u \<Rightarrow> u) @ '':'' @ title @ '':'' @ content)),
       ev_source = src, ev_metadata = [], ev_execution_id = None, ev_dataset_ids = [], ev_artifact_ids = [],
       ev_document_id = None, ev_document_name = None, ev_page = None, ev_page_count = None, ev_chunk_id = None,
       ev_title = Some title, ev_url = url, ev_content = content, ev_retrieval_score = None,
       ev_rerank_score = None, ev_extraction_method = None, ev_table_labels = []\<rparr>)"

section \<open>Citations\<close>

record citation =
  ct_citation_id :: string
  ct_evidence_id :: ident
  ct_document_name :: "string option"
  ct_page :: "int option"
  ct_title :: "string option"
  ct_url :: "string option"
  ct_execution_id :: "ident option"
  ct_dataset_ids :: "ident list"
  ct_artifact_ids :: "ident list"

definition evidence_store :: "evidence list \<Rightarrow> ident \<Rightarrow> evidence option" where
  \<comment> \<open>\<open>{item.evidence_id: item for item in evidence}\<close>: the last of equal ids\<close>
  "evidence_store evs = map_of (rev (map (\<lambda>e. (ev_id e, e)) evs))"

definition same_source :: "citation \<Rightarrow> evidence \<Rightarrow> bool" where
  "same_source c e = (ct_document_name c = ev_document_name e \<and> ct_page c = ev_page e \<and> ct_title c = ev_title e
     \<and> ct_url c = ev_url e \<and> ct_execution_id c = ev_execution_id e \<and> ct_dataset_ids c = ev_dataset_ids e
     \<and> ct_artifact_ids c = ev_artifact_ids e)"

definition paged :: "evidence \<Rightarrow> bool" where
  "paged e = (ev_source e \<in> {Src_pdf, Src_workspace})"

definition page_known :: "(ident, int option) dict option \<Rightarrow> evidence \<Rightarrow> bool" where
  "page_known documents e =
     (truthy (ev_document_id e) \<and> truthy (ev_document_name e) \<and> ev_page e \<noteq> None
      \<and> (case documents of
           None \<Rightarrow> (case ev_page_count e of None \<Rightarrow> False | Some n \<Rightarrow> the (ev_page e) \<le> n)
         | Some ds \<Rightarrow> (case map_of ds (the (ev_document_id e)) of
             Some (Some n) \<Rightarrow> the (ev_page e) \<le> n | _ \<Rightarrow> False)))"

definition url_rx :: rx where
  "url_rx = Seqs [Lit ''http'', Opt (Lit ''s''), Lit ''://'', Plus (Cls (\<lambda>c. \<not> is_space c)), Eol]"

definition url_ok :: "string option \<Rightarrow> bool" where
  "url_ok u = (\<not> truthy u \<or> match_at url_rx (the u) 0 \<noteq> None)"

definition citation_valid :: "evidence list \<Rightarrow> (ident, int option) dict option \<Rightarrow> citation \<Rightarrow> bool" where
  "citation_valid evs documents c = (case evidence_store evs (ct_evidence_id c) of
     None \<Rightarrow> False
   | Some e \<Rightarrow> same_source c e \<and> (paged e \<longrightarrow> page_known documents e) \<and> url_ok (ev_url e))"

definition validate_citations ::
  "citation list \<Rightarrow> evidence list \<Rightarrow> (ident, int option) dict option \<Rightarrow> citation list" where
  "validate_citations cs evs documents = filter (citation_valid evs documents) cs"

section \<open>Rendering\<close>

definition not_break :: "char \<Rightarrow> bool" where
  "not_break c = (c \<noteq> CHR '']'' \<and> c \<noteq> CHR 0x0A)"

definition page_ref_rx :: rx where
  "page_ref_rx = Alts [Seqs [ILit ''page'', Plus (Cls is_space)], Seqs [ILit ''p'', Lit ''.'', Star (Cls is_space)]]"

definition document_page_rx :: rx where
  "document_page_rx = Seqs [Plus (Cls (\<lambda>c. \<not> is_space c \<and> c \<notin> set ''[],;'')), Lit ''.'', ILit ''pdf'', Plus (Cls is_space),
     page_ref_rx, Plus (Cls is_digit), WordB]"

definition table_rx :: rx where
  "table_rx = Seqs [WordB, ILit ''table'', Plus (Cls is_space),
     Alts [Plus (Cls (\<lambda>c. to_lower c \<in> set ''ivxlcdm'')), Plus (Cls is_digit)], WordB]"

definition link_rx :: rx where
  "link_rx = Seqs [Lit ''http'', Opt (Lit ''s''), Lit ''://'', Plus (Cls (\<lambda>c. \<not> is_space c \<and> c \<notin> set ''])>''))]"

definition marker_rx :: rx where
  "marker_rx = Seqs [Lit ''[ev_'', Plus (Cls (\<lambda>c. is_alnum c \<or> c = CHR ''_'' \<or> c = CHR ''-'')), Lit '']'']"

definition label_rx :: rx where
  "label_rx = Seqs [Lit ''['', Alts [Plus (Cls is_digit),
     Seqs [ILit ''web'', Plus (Cls is_space), Plus (Cls is_digit)],
     Seqs [ILit ''arxiv'', Plus (Cls is_space), Plus (Cls is_digit)],
     Seqs [Star (Cls not_break), Lit ''.'', ILit ''pdf'', Star (Cls not_break)],
     Seqs [Star (Cls not_break), Lit '','', Star (Cls is_space), ILit ''p'', Lit ''.'', Star (Cls is_space), Plus (Cls is_digit)]],
     Lit '']'']"

definition page_mention_rx :: rx where
  "page_mention_rx = Seqs [WordB, page_ref_rx, Plus (Cls is_digit), WordB]"

definition trailing_number :: "string \<Rightarrow> int" where
  \<comment> \<open>the last group of the page patterns: the digits at the end of the match\<close>
  "trailing_number s = int (digits_value 0 (rev (takeWhile is_digit (rev s))))"

definition marker_id :: "string \<Rightarrow> string" where
  \<comment> \<open>the group of the marker pattern: the match without its brackets\<close>
  "marker_id s = take (length s - 2) (drop 1 s)"

definition check_references :: "evidence list \<Rightarrow> string \<Rightarrow> string" where
  "check_references evs answer =
     (let document_pages = concat (map (\<lambda>e. if truthy (ev_document_name e) then [(the (ev_document_name e), ev_page e)] else []) evs);
          tables = concat (map (\<lambda>e. map casefold (ev_table_labels e)) evs);
          urls = concat (map (\<lambda>e. if truthy (ev_url e) then [the (ev_url e)] else []) evs);
          a1 = sub document_page_rx (\<lambda>m. if (takeWhile (\<lambda>c. \<not> is_space c) m, Some (trailing_number m)) \<in> set document_pages
                 then m else ''[document/page reference unavailable]'') answer;
          a2 = sub table_rx (\<lambda>m. if casefold m \<in> set tables then m else ''[table reference unavailable]'') a1
      in sub link_rx (\<lambda>m. if m \<in> set urls then m else ''[unverified URL removed]'') a2)"

fun cite :: "evidence list \<Rightarrow> citation list \<Rightarrow> ident list \<Rightarrow> citation list" where
  "cite evs acc [] = acc"
| "cite evs acc (i # is) = (case evidence_store evs i of
     None \<Rightarrow> cite evs acc is
   | Some e \<Rightarrow> cite evs (acc @ [\<lparr>ct_citation_id = nat_text (Suc (length acc)), ct_evidence_id = i,
        ct_document_name = ev_document_name e, ct_page = ev_page e, ct_title = ev_title e, ct_url = ev_url e,
        ct_execution_id = ev_execution_id e, ct_dataset_ids = ev_dataset_ids e, ct_artifact_ids = ev_artifact_ids e\<rparr>]) is)"

definition kind_name :: "source_type \<Rightarrow> string" where
  "kind_name s = (case s of Src_web \<Rightarrow> ''Web'' | Src_arxiv \<Rightarrow> ''arXiv'' | Src_github \<Rightarrow> ''GitHub'' | _ \<Rightarrow> ''MCP'')"

fun label_all ::
  "evidence list \<Rightarrow> (string, nat) dict \<Rightarrow> (ident, string) dict \<Rightarrow> citation list \<Rightarrow> (ident, string) dict" where
  "label_all evs counters labels [] = labels"
| "label_all evs counters labels (c # cs) =
     (let e = the (evidence_store evs (ct_evidence_id c)) in
      if paged e
      then label_all evs counters (dict_put (ev_id e) (''['' @ (case ev_document_name e of None \<Rightarrow> ''None'' | Some n \<Rightarrow> n)
             @ '', p.'' @ page_text (ev_page e) @ '']'') labels) cs
      else if ev_source e = Src_analysis
      then label_all evs counters (dict_put (ev_id e) (''[Analysis '' @ (case ev_execution_id e of None \<Rightarrow> ''None'' | Some x \<Rightarrow> x)
             @ '']'') labels) cs
      else let kind = kind_name (ev_source e); n = Suc (dict_get counters kind 0)
           in label_all evs (dict_put kind n counters)
                (dict_put (ev_id e) (''['' @ kind @ '' '' @ nat_text n @ '']'') labels) cs)"

definition marked_ids :: "string \<Rightarrow> ident list" where
  "marked_ids answer = fromkeys (map marker_id (findall marker_rx answer))"

definition render_citations ::
  "string \<Rightarrow> evidence list \<Rightarrow> (ident, int option) dict option \<Rightarrow> string \<times> citation list" where
  "render_citations answer evs documents =
     (let checked = check_references evs answer;
          valid = validate_citations (cite evs [] (marked_ids checked)) evs documents;
          labels = label_all evs [] [] valid;
          pages = concat (map (\<lambda>e. case ev_page e of None \<Rightarrow> [] | Some p \<Rightarrow> [p]) evs);
          a1 = sub label_rx (\<lambda>_. []) checked;
          a2 = sub page_mention_rx (\<lambda>m. if trailing_number m \<in> set pages then m else ''[page reference unavailable]'') a1
      in (sub marker_rx (\<lambda>m. dict_get labels (marker_id m) []) a2, valid))"

end
