(* ===== verification/Evidence_Laws.thy ===== *)
theory Evidence_Laws
  imports Evidence "HOL-Library.Sublist"
begin

text \<open>Merging keeps identities stable; what an answer cites is evidence of the turn.\<close>

section \<open>Merging\<close>

lemma ev_id_stable: "stable_part a = stable_part b \<Longrightarrow> ev_id a = ev_id b"
  by (drule arg_cong [where f = ev_id]) (simp add: stable_part_def)

definition merged_from :: "evidence list \<Rightarrow> (ident, evidence) dict \<Rightarrow> bool" where
  "merged_from xs d \<longleftrightarrow> map fst d = fromkeys (map ev_id xs) \<and> (\<forall>(k, e)\<in>set d. k = ev_id e \<and> evidence_valid e)
     \<and> (\<forall>x\<in>set xs. \<exists>e. map_of d (ev_id x) = Some e \<and> stable_part e = stable_part x)"

lemma fromkeys_snoc: "fromkeys (xs @ [x]) = (if x \<in> set xs then fromkeys xs else fromkeys xs @ [x])"
proof -
  have "ordered_from acc (xs @ [x]) = ordered_from (ordered_from acc xs) [x]" for acc
    by (induction acc xs rule: ordered_from.induct) auto
  then show ?thesis by (simp add: fromkeys_def set_ordered_from)
qed

lemma merge_item_Inr:
  assumes "merge_item d x = Inr d'"
  shows "d' = dict_put (ev_id x) x d" and "evidence_valid x"
    and "map_of d (ev_id x) = Some p \<Longrightarrow> stable_part p = stable_part x"
  using assms by (auto simp: merge_item_def rbind_Inr_iff validate_evidence_def split: if_splits option.splits)

lemma set_dict_put_sub: "set (dict_put k v d) \<subseteq> insert (k, v) (set d)"
  by (induction d) (auto simp: dict_put_def split: if_splits)

lemma merge_item_from:
  assumes mf: "merged_from xs d" and step: "merge_item d x = Inr d'"
  shows "merged_from (xs @ [x]) d'"
proof -
  note m = merge_item_Inr [OF step]
  have keys: "fst ` set d = ev_id ` set xs" using mf by (metis merged_from_def list.set_map set_fromkeys)
  have "map fst d' = fromkeys (map ev_id (xs @ [x]))"
    using mf keys unfolding m(1) by (simp add: merged_from_def dict_put_def update_keys fromkeys_snoc)
  moreover have "\<forall>(k, e)\<in>set d'. k = ev_id e \<and> evidence_valid e"
    using mf m(2) set_dict_put_sub [of "ev_id x" x d] unfolding m(1) merged_from_def by fast
  moreover have "\<exists>e. map_of d' (ev_id y) = Some e \<and> stable_part e = stable_part y" if "y \<in> set (xs @ [x])" for y
  proof (cases "ev_id y = ev_id x")
    case True
    have "stable_part x = stable_part y"
    proof (cases "y = x")
      case False
      then have "y \<in> set xs" using that by simp
      then obtain p where "map_of d (ev_id y) = Some p" "stable_part p = stable_part y"
        using mf by (auto simp: merged_from_def)
      then show ?thesis using m(3) True by simp
    qed simp
    then show ?thesis using True unfolding m(1) by (simp add: row_simps)
  next
    case False
    then have "y \<in> set xs" using that by auto
    then show ?thesis using False mf unfolding m(1) by (auto simp: merged_from_def row_simps)
  qed
  ultimately show ?thesis unfolding merged_from_def by blast
qed

lemma rfold_merge_from:
  "rfold merge_item d ys = Inr d' \<Longrightarrow> merged_from xs d \<Longrightarrow> merged_from (xs @ ys) d'"
proof (induction ys arbitrary: d xs)
  case (Cons y ys)
  then obtain d1 where "merge_item d y = Inr d1" "rfold merge_item d1 ys = Inr d'"
    by (auto simp: rbind_Inr_iff)
  with Cons merge_item_from [of xs d y d1] have "merged_from ((xs @ [y]) @ ys) d'" by blast
  then show ?case by simp
qed simp

lemma merge_again:
  assumes "list_all evidence_valid ys" and "\<And>y. y \<in> set ys \<Longrightarrow> map_of d (ev_id y) = Some y"
  shows "rfold merge_item d ys = Inr d"
  using assms
proof (induction ys)
  case (Cons y ys)
  have "dict_put (ev_id y) y d = d" using Cons.prems(2) [of y]
    by (simp add: dict_put_def update_triv)
  then have "merge_item d y = Inr d" using Cons.prems
    by (simp add: merge_item_def validate_evidence_def)
  then show ?case using Cons by simp
qed simp

abbreviation keyed :: "evidence list \<Rightarrow> (ident, evidence) dict" where
  "keyed es \<equiv> map (\<lambda>e. (ev_id e, e)) es"

lemma rfold_append: "rfold f s (xs @ ys) = rbind (rfold f s xs) (\<lambda>t. rfold f t ys)"
proof (induction xs arbitrary: s)
  case (Cons x xs)
  then show ?case by (cases "f s x") auto
qed simp

lemma merge_fresh:
  "distinct (map ev_id (as @ bs)) \<Longrightarrow> list_all evidence_valid bs \<Longrightarrow>
   rfold merge_item (keyed as) bs = Inr (keyed (as @ bs))"
proof (induction bs arbitrary: as)
  case (Cons b bs)
  have new: "ev_id b \<notin> fst ` set (keyed as)" using Cons.prems(1) by (auto simp: image_image)
  then have none: "map_of (keyed as) (ev_id b) = None" by (simp only: map_of_eq_None_iff not_False_eq_True)
  have put: "dict_put (ev_id b) b (keyed as) = keyed (as @ [b])" using new by (simp add: put_fresh)
  have "evidence_valid b" using Cons.prems(2) by simp
  then have "merge_item (keyed as) b = Inr (keyed (as @ [b]))"
    by (simp only: merge_item_def validate_evidence_def if_True rbind.simps none option.case put)
  moreover have "rfold merge_item (keyed (as @ [b])) bs = Inr (keyed ((as @ [b]) @ bs))"
    using Cons.prems by (intro Cons.IH) auto
  ultimately show ?case by simp
qed simp

text \<open>
  Merging evidence keeps one item per identity, in the order the identities first appeared, and that
  item agrees with every collected item of its identity in all but the scores; merging the outcome
  with itself changes nothing.
\<close>

theorem merge_keeps_identities:
  assumes "merge_evidence_items groups = Inr out"
  shows "map ev_id out = fromkeys (map ev_id (concat groups))
    \<and> (\<forall>x\<in>set (concat groups). \<exists>e\<in>set out. ev_id e = ev_id x \<and> stable_part e = stable_part x)
    \<and> merge_evidence_items [out, out] = Inr out"
proof -
  from assms obtain d where d: "rfold merge_item [] (concat groups) = Inr d" and out: "out = map snd d"
    by (auto simp: merge_evidence_items_def rbind_Inr_iff)
  have "merged_from [] []" by (simp add: merged_from_def fromkeys_def)
  from rfold_merge_from [OF d this] have mf: "merged_from (concat groups) d" by simp
  have ids: "map ev_id out = map fst d" and pair: "d = keyed out" and valid: "list_all evidence_valid out"
  proof -
    have k: "\<forall>(k, e)\<in>set d. k = ev_id e \<and> evidence_valid e" using mf by (simp add: merged_from_def)
    then show "map ev_id out = map fst d" unfolding out by (auto simp: case_prod_beta)
    show "d = keyed out" unfolding out map_map comp_def by (rule map_idI [symmetric]) (use k in auto)
    show "list_all evidence_valid out" using k by (auto simp: out list_all_iff)
  qed
  have dist: "distinct (map ev_id out)" using mf by (simp add: merged_from_def ids)
  have again: "rfold merge_item (keyed out) out = Inr (keyed out)"
  proof (rule merge_again [OF valid])
    fix y assume "y \<in> set out"
    then show "map_of (keyed out) (ev_id y) = Some y" using dist
      by (intro map_of_is_SomeI) (auto simp: comp_def)
  qed
  have first: "rfold merge_item [] out = Inr (keyed out)"
    using merge_fresh [of "[]" out] dist valid by simp
  have "merge_evidence_items [out, out] = Inr out"
    by (simp add: merge_evidence_items_def rfold_append first again comp_def)
  moreover have "\<exists>e\<in>set out. ev_id e = ev_id x \<and> stable_part e = stable_part x" if x: "x \<in> set (concat groups)" for x
  proof -
    from mf x obtain e where e: "map_of d (ev_id x) = Some e" "stable_part e = stable_part x"
      unfolding merged_from_def by blast
    have "e \<in> set out" using map_of_SomeD [OF e(1)] by (force simp: out)
    with e(2) ev_id_stable [OF e(2)] show ?thesis by blast
  qed
  moreover have "map ev_id out = fromkeys (map ev_id (concat groups))" using mf by (simp add: merged_from_def ids)
  ultimately show ?thesis by blast
qed

definition wit_evidence :: "rat \<Rightarrow> evidence" where
  "wit_evidence score = \<lparr>ev_id = ''ev_1'', ev_source = Src_pdf, ev_metadata = [], ev_execution_id = None,
     ev_dataset_ids = [], ev_artifact_ids = [], ev_document_id = Some ''d'', ev_document_name = Some ''a.pdf'',
     ev_page = Some 2, ev_page_count = Some 9, ev_chunk_id = Some ''c'', ev_title = None, ev_url = None,
     ev_content = ''text'', ev_retrieval_score = Some score, ev_rerank_score = None,
     ev_extraction_method = None, ev_table_labels = [''Table 1'']\<rparr>"

theorem merge_keeps_identities_witness:
  "\<exists>e. merge_evidence_items [[wit_evidence 1], [wit_evidence 2]] = Inr [e] \<and> ev_id e = ''ev_1''
     \<and> merge_evidence_items [[e], [e]] = Inr [e]"
proof -
  have m: "merge_evidence_items [[wit_evidence 1], [wit_evidence 2]] = Inr [wit_evidence 2]"
    by (simp add: merge_evidence_items_def merge_item_def validate_evidence_def evidence_valid_def wit_evidence_def
        stable_part_def dict_put_def)
  from merge_keeps_identities [OF m] have "merge_evidence_items [[wit_evidence 2], [wit_evidence 2]] = Inr [wit_evidence 2]"
    by blast
  moreover have "ev_id (wit_evidence 2) = ''ev_1''" by (simp add: wit_evidence_def)
  ultimately show ?thesis using m by blast
qed

section \<open>Citations\<close>

lemma cite_ids: "map ct_evidence_id (cite evs acc is) = map ct_evidence_id acc @ filter (\<lambda>i. evidence_store evs i \<noteq> None) is"
  by (induction evs acc "is" rule: cite.induct) (auto split: option.splits)

lemma store_mem: "evidence_store evs i = Some e \<Longrightarrow> e \<in> set evs \<and> ev_id e = i"
  unfolding evidence_store_def by (drule map_of_SomeD) auto

definition cites_evidence :: "evidence list \<Rightarrow> (ident, int option) dict option \<Rightarrow> citation \<Rightarrow> evidence \<Rightarrow> bool" where
  "cites_evidence evs documents c e \<longleftrightarrow> e \<in> set evs \<and> ct_evidence_id c = ev_id e \<and> same_source c e
     \<and> (paged e \<longrightarrow> page_known documents e) \<and> url_ok (ev_url e)"

lemma subseq_distinct: "subseq xs ys \<Longrightarrow> distinct ys \<Longrightarrow> distinct xs"
  by (auto simp: subseq_conv_nths intro: distinct_nthsI)

lemma citation_valid_cites: "citation_valid evs documents c \<Longrightarrow> \<exists>e. cites_evidence evs documents c e"
proof (cases "evidence_store evs (ct_evidence_id c)")
  case (Some e)
  assume "citation_valid evs documents c"
  with Some store_mem [OF Some] have "cites_evidence evs documents c e"
    by (simp add: citation_valid_def cites_evidence_def)
  then show ?thesis ..
qed (simp add: citation_valid_def)

text \<open>
  C17: every citation of a rendered answer names a piece of this turn's evidence, with that evidence's
  own document, page, title, link and execution; a page is cited only inside a document of known
  length, a link only when it is a web address.  Each piece is cited once, in the order of the
  markers the answer carries.
\<close>

theorem rendered_citations_are_grounded:
  assumes "render_citations answer evs documents = (text, cs)"
  shows "list_all (\<lambda>c. \<exists>e. cites_evidence evs documents c e) cs \<and> distinct (map ct_evidence_id cs)
    \<and> subseq (map ct_evidence_id cs) (marked_ids (check_references evs answer))"
proof -
  let ?ids = "marked_ids (check_references evs answer)"
  have cs: "cs = filter (citation_valid evs documents) (cite evs [] ?ids)"
    using assms by (simp add: render_citations_def Let_def validate_citations_def)
  have "list_all (\<lambda>c. \<exists>e. cites_evidence evs documents c e) cs"
    unfolding cs list_all_iff by (simp add: citation_valid_cites)
  moreover have "subseq (map ct_evidence_id cs) (map ct_evidence_id (cite evs [] ?ids))"
    unfolding cs by (intro subseq_map subseq_filter_left)
  moreover have "subseq (map ct_evidence_id (cite evs [] ?ids)) ?ids"
    by (simp add: cite_ids)
  moreover have "distinct ?ids" by (simp add: marked_ids_def)
  ultimately show ?thesis by (meson subseq_order.order_trans subseq_distinct)
qed

theorem rendered_citations_are_grounded_witness:
  "\<exists>c. render_citations ''[ev_1][ev_9]'' [wit_evidence 1] None = (''[a.pdf, p.2]'', [c])
     \<and> (\<exists>e. cites_evidence [wit_evidence 1] None c e)"
proof -
  have "map_prod (\<lambda>s. s) length (render_citations ''[ev_1][ev_9]'' [wit_evidence 1] None) = (''[a.pdf, p.2]'', 1)"
    by code_simp
  then obtain c where r: "render_citations ''[ev_1][ev_9]'' [wit_evidence 1] None = (''[a.pdf, p.2]'', [c])"
    by (cases "render_citations ''[ev_1][ev_9]'' [wit_evidence 1] None") (auto simp: length_Suc_conv)
  from rendered_citations_are_grounded [OF r] r show ?thesis by auto
qed

end
