(* ===== verification/Execution_Harness.thy ===== *)
theory Execution_Harness
  imports Prelude
begin

text \<open>
  \<open>server/agent/execution_harness.py\<close>: running an agent under explicit limits.  What an invocation of the
  agent does is a parameter, one outcome per attempt (the exceptions of the provider's library are
  sorted into the classes the code catches); so is whether the run was cancelled when the flag is read.
  Waiting for a future is the choice \<open>timed_out\<close>; the lock of a session and the thread pool order runs
  and decide nothing else.
\<close>

record harness =
  eh_graph_steps :: int
  eh_attempts :: nat
  eh_retry_base :: rat
  eh_timeout :: rat

definition make_harness :: "int \<Rightarrow> int \<Rightarrow> rat \<Rightarrow> rat \<Rightarrow> harness result" where
  "make_harness steps attempts base timeout =
     (if steps \<le> 0 then Inl (Value_Error ''Maximum graph steps must be positive'')
      else if attempts \<le> 0 then Inl (Value_Error ''Maximum attempts must be positive'')
      else if base < 0 then Inl (Value_Error ''Retry delay cannot be negative'')
      else if timeout \<le> 0 then Inl (Value_Error ''Execution timeout must be positive'')
      else Inr \<lparr>eh_graph_steps = steps, eh_attempts = nat attempts, eh_retry_base = base, eh_timeout = timeout\<rparr>)"

datatype 'o invocation =
    Answered 'o
  | Recursion_Limit
  | Rejected         \<comment> \<open>authentication, bad request, not found, permission denied\<close>
  | Transient        \<comment> \<open>connection, internal server error, rate limit\<close>
  | Raised py_error

record 'o attempt_log =
  al_result :: "('o \<times> nat) result"
  al_invocations :: nat
  al_delays :: "rat list"

text \<open>
  \<open>cancelled n\<close> is the flag before attempt \<open>n\<close>, \<open>cancelled_after n\<close> the flag when a transient failure of
  attempt \<open>n\<close> is handled.  \<open>left\<close> counts the attempts the loop still has.
\<close>

fun run_attempts ::
  "harness \<Rightarrow> (nat \<Rightarrow> 'o invocation) \<Rightarrow> (nat \<Rightarrow> bool) \<Rightarrow> (nat \<Rightarrow> bool) \<Rightarrow> nat \<Rightarrow> nat \<Rightarrow> rat list \<Rightarrow> 'o attempt_log" where
  "run_attempts h agent cancelled cancelled_after 0 n delays =
     \<lparr>al_result = Inl (Runtime_Error ''Execution attempt loop ended unexpectedly''), al_invocations = n, al_delays = delays\<rparr>"
| "run_attempts h agent cancelled cancelled_after (Suc left) n delays =
     (if cancelled (Suc n)
      then \<lparr>al_result = Inl Execution_Timeout_Error, al_invocations = n, al_delays = delays\<rparr>
      else case agent (Suc n) of
        Answered out \<Rightarrow> \<lparr>al_result = Inr (out, Suc n), al_invocations = Suc n, al_delays = delays\<rparr>
      | Recursion_Limit \<Rightarrow> \<lparr>al_result = Inl Execution_Limit_Error, al_invocations = Suc n, al_delays = delays\<rparr>
      | Rejected \<Rightarrow> \<lparr>al_result = Inl Execution_Configuration_Error, al_invocations = Suc n, al_delays = delays\<rparr>
      | Raised e \<Rightarrow> \<lparr>al_result = Inl e, al_invocations = Suc n, al_delays = delays\<rparr>
      | Transient \<Rightarrow>
          if cancelled_after (Suc n)
          then \<lparr>al_result = Inl Execution_Timeout_Error, al_invocations = Suc n, al_delays = delays\<rparr>
          else if eh_attempts h \<le> Suc n
          then \<lparr>al_result = Inl Execution_Unavailable_Error, al_invocations = Suc n, al_delays = delays\<rparr>
          else run_attempts h agent cancelled cancelled_after left (Suc n) (delays @ [eh_retry_base h * 2 ^ n]))"

definition run_locked ::
  "harness \<Rightarrow> (nat \<Rightarrow> 'o invocation) \<Rightarrow> (nat \<Rightarrow> bool) \<Rightarrow> (nat \<Rightarrow> bool) \<Rightarrow> 'o attempt_log" where
  "run_locked h agent cancelled cancelled_after =
     run_attempts h agent cancelled cancelled_after (eh_attempts h) 0 []"

definition run_for_session ::
  "harness \<Rightarrow> (nat \<Rightarrow> 'o invocation) \<Rightarrow> bool \<Rightarrow> (nat \<Rightarrow> bool) \<Rightarrow> (nat \<Rightarrow> bool) \<Rightarrow> 'o attempt_log" where
  \<comment> \<open>the flag is read again once the session's lock is held\<close>
  "run_for_session h agent cancelled_first cancelled cancelled_after =
     (if cancelled_first then \<lparr>al_result = Inl Execution_Timeout_Error, al_invocations = 0, al_delays = []\<rparr>
      else run_locked h agent cancelled cancelled_after)"

record 'o execution_result =
  er_output :: 'o
  er_run_id :: ident
  er_attempts :: nat
  er_graph_steps :: int

definition run_agent ::
  "harness \<Rightarrow> ident \<Rightarrow> string \<Rightarrow> bool \<Rightarrow> 'o attempt_log \<Rightarrow> 'o execution_result result" where
  "run_agent h run_id session_id timed_out lg =
     (if session_id = [] then Inl (Value_Error ''Session ID is required'')
      else if timed_out then Inl Execution_Timeout_Error
      else rbind (al_result lg) (\<lambda>(out, n).
        Inr \<lparr>er_output = out, er_run_id = run_id, er_attempts = n, er_graph_steps = eh_graph_steps h\<rparr>))"

section \<open>The loop ends, and when\<close>

lemma run_attempts_spec:
  assumes "run_attempts h agent c ca left n delays = lg" and "n + left = eh_attempts h" and "0 < left"
    and "delays = map (\<lambda>i. eh_retry_base h * 2 ^ i) [0..<n]" and "\<forall>i\<in>{1..n}. agent i = Transient"
  shows "al_invocations lg \<le> eh_attempts h
     \<and> al_delays lg = map (\<lambda>i. eh_retry_base h * 2 ^ i) [0..<length (al_delays lg)]
     \<and> length (al_delays lg) \<le> al_invocations lg \<and> length (al_delays lg) < eh_attempts h
     \<and> (\<forall>out k. al_result lg = Inr (out, k) \<longrightarrow> k = al_invocations lg \<and> 1 \<le> k \<and> agent k = Answered out
          \<and> (\<forall>i\<in>{1..<k}. agent i = Transient))
     \<and> (\<forall>m. al_result lg = Inl (Runtime_Error m) \<longrightarrow> (\<exists>i\<in>{1..eh_attempts h}. agent i = Raised (Runtime_Error m)))"
  using assms
proof (induction left arbitrary: n delays)
  case (Suc left)
  show ?case
  proof (cases "\<not> c (Suc n) \<and> agent (Suc n) = Transient \<and> \<not> ca (Suc n) \<and> Suc n < eh_attempts h")
    case True
    have "lg = run_attempts h agent c ca left (Suc n) (delays @ [eh_retry_base h * 2 ^ n])"
      using Suc.prems(1) True by simp
    moreover have "0 < left" using True Suc.prems(2) by linarith
    moreover have "\<forall>i\<in>{1..Suc n}. agent i = Transient" using True Suc.prems(5) by (auto simp: le_Suc_eq)
    ultimately show ?thesis using Suc.prems(2,4) by (intro Suc.IH) auto
  next
    case False
    have "Suc n \<le> eh_attempts h" using Suc.prems(2) by linarith
    with False Suc.prems show ?thesis
      by (cases "agent (Suc n)") (auto split: if_splits)
  qed
qed simp

lemma geometric_delays: "(\<Sum>i<k. b * 2 ^ i) = b * (2 ^ k - 1)" for b :: rat
  by (induction k) (simp_all add: algebra_simps)

text \<open>
  A run always ends after at most the configured number of attempts.  It answers with the first
  attempt that did not fail transiently, and says which; it never falls out of its retry loop; the
  delays double from the base, so the time spent waiting is the base times two to the number of
  delays, less one.
\<close>

theorem retries_are_bounded:
  assumes "make_harness steps attempts base timeout = Inr h"
    and "run_locked h agent cancelled cancelled_after = lg"
  shows "al_invocations lg \<le> nat attempts \<and> length (al_delays lg) < nat attempts
    \<and> sum_list (al_delays lg) = base * (2 ^ length (al_delays lg) - 1)
    \<and> (\<forall>out k. al_result lg = Inr (out, k) \<longrightarrow> k = al_invocations lg \<and> agent k = Answered out
         \<and> (\<forall>i\<in>{1..<k}. agent i = Transient))
    \<and> (\<forall>m. al_result lg = Inl (Runtime_Error m) \<longrightarrow> (\<exists>i. agent i = Raised (Runtime_Error m)))"
proof -
  have h: "eh_attempts h = nat attempts" "eh_retry_base h = base" "0 < eh_attempts h"
    using assms(1) by (auto simp: make_harness_def split: if_splits)
  have s: "run_attempts h agent cancelled cancelled_after (eh_attempts h) 0 [] = lg"
    using assms(2) by (simp add: run_locked_def)
  note spec = run_attempts_spec [OF s _ h(3), simplified]
  have "sum_list (al_delays lg) = (\<Sum>i<length (al_delays lg). base * 2 ^ i)"
    using spec by (metis h(2) sum_set_upt_conv_sum_list_nat atLeast0LessThan atLeast_upt set_upt sum_list_distinct_conv_sum_set distinct_upt)
  with spec show ?thesis unfolding geometric_delays by (auto simp: h)
qed

definition wit_agent :: "nat \<Rightarrow> nat invocation" where
  "wit_agent n = (if n < 3 then Transient else Answered 7)"

theorem retries_are_bounded_witness:
  "\<exists>h lg. make_harness 25 4 (1/4) 120 = Inr h \<and> run_locked h wit_agent (\<lambda>_. False) (\<lambda>_. False) = lg
     \<and> al_result lg = Inr (7, 3) \<and> al_invocations lg \<le> 4 \<and> sum_list (al_delays lg) = 3/4"
proof -
  obtain h where h: "make_harness 25 4 (1/4) 120 = Inr h" by (simp add: make_harness_def)
  obtain lg where lg: "run_locked h wit_agent (\<lambda>_. False) (\<lambda>_. False) = lg" by blast
  have v: "al_result lg = Inr (7, 3) \<and> length (al_delays lg) = 2"
    using h lg by (auto simp: make_harness_def run_locked_def wit_agent_def eval_nat_numeral)
  from retries_are_bounded [OF h lg] h lg v show ?thesis by auto
qed

end
