(* ===== verification/Context_Harness.thy ===== *)
theory Context_Harness
  imports PyJson
begin

text \<open>
  \<open>server/agent/context_harness.py\<close>: fitting a conversation into the model's input budget.  The token
  estimate of the message library is a parameter \<open>estimate\<close>; tokens are integers, characters per token a
  rational.  The ellipsis of an excerpt is one character.
\<close>

datatype role = System | Human | Assistant | Tool_Answer

record message =
  m_role :: role
  m_content :: json
  m_tool_calls :: bool

definition content_text :: "(rat \<Rightarrow> string) \<Rightarrow> message \<Rightarrow> string" where
  "content_text fl m = (case m_content m of JStr s \<Rightarrow> s | v \<Rightarrow> dumps_plain fl v)"

section \<open>Configuration\<close>

record context_harness =
  ch_window :: int
  ch_input :: int
  ch_output :: int
  ch_safety :: int
  ch_summary :: int
  ch_recent :: nat
  ch_cpt :: rat

definition make_context_harness :: "int \<Rightarrow> int \<Rightarrow> int \<Rightarrow> int \<Rightarrow> int \<Rightarrow> int \<Rightarrow> rat \<Rightarrow> context_harness result" where
  "make_context_harness window input_budget output safety summary recent cpt =
     (if window \<le> output + safety then Inl (Value_Error ''Context window must exceed output and safety reservations'')
      else if input_budget \<le> 0 then Inl (Value_Error ''Input token budget must be positive'')
      else if summary \<le> 0 then Inl (Value_Error ''Summary token budget must be positive'')
      else if recent \<le> 0 then Inl (Value_Error ''Recent turn estimate must be positive'')
      else if cpt \<le> 0 then Inl (Value_Error ''Characters per token must be positive'')
      else let budget = min input_budget (window - output - safety)
           in Inr \<lparr>ch_window = window, ch_input = budget, ch_output = output, ch_safety = safety,
                ch_summary = min summary (budget div 2), ch_recent = nat recent, ch_cpt = cpt\<rparr>)"

section \<open>Texts\<close>

definition newline :: char where
  "newline = CHR 0x0A"

definition truncation_marker :: string where
  "truncation_marker = [newline] @ ''[... truncated by Context Harness ...]'' @ [newline]"

definition memory_header :: string where
  "memory_header = ''[Context Harness memory: older conversation compacted]''"

definition ellipsis :: char where
  "ellipsis = CHR 0x85"

definition excerpt :: "nat \<Rightarrow> string \<Rightarrow> string" where
  "excerpt n text = (let compact = join '' '' (split_ws [] text) in
     if length compact \<le> n then compact else rstrip (take (n - 1) compact) @ [ellipsis])"

definition truncate_text :: "rat \<Rightarrow> int \<Rightarrow> string \<Rightarrow> string" where
  "truncate_text cpt target text =
     (let target_chars = max (int (length truncation_marker) + 12) \<lfloor>of_int target * cpt\<rfloor> in
      if int (length text) \<le> target_chars then text
      else let remaining = target_chars - int (length truncation_marker);
               prefix = max 6 \<lfloor>of_int remaining * (65/100 :: rat)\<rfloor>;
               suffix = max 6 (remaining - prefix)
           in rstrip (take (nat prefix) text) @ truncation_marker
              @ lstrip (drop (length text - nat suffix) text))"

section \<open>Turns\<close>

fun turns_from :: "message list \<Rightarrow> message list \<Rightarrow> message list list" where
  "turns_from current [] = (if current = [] then [] else [current])"
| "turns_from current (m # ms) =
     (if m_role m = Human \<and> current \<noteq> [] then current # turns_from [m] ms else turns_from (current @ [m]) ms)"

definition group_turns :: "message list \<Rightarrow> message list list" where
  "group_turns ms = turns_from [] ms"

definition count_tokens :: "(message list \<Rightarrow> int) \<Rightarrow> message list \<Rightarrow> int" where
  "count_tokens estimate ms = (if ms = [] then 0 else estimate ms)"

text \<open>
  The loop over the recent turns, newest first: \<open>n\<close> turns are left to look at, \<open>selected\<close> is the index of
  the first turn kept so far.
\<close>

fun select_turns ::
  "context_harness \<Rightarrow> (message list \<Rightarrow> int) \<Rightarrow> message list list \<Rightarrow> nat \<Rightarrow> nat \<Rightarrow> nat \<Rightarrow> int \<Rightarrow> nat" where
  "select_turns h estimate recent start 0 selected used = selected"
| "select_turns h estimate recent start (Suc i) selected used =
     (let turn = count_tokens estimate (recent ! i);
          reserve = (if 0 < start + i then min (ch_summary h) (max 0 ((ch_input h - used) div 3)) else 0);
          available = ch_input h - used - reserve
      in if turn \<le> available then select_turns h estimate recent start i i (used + turn)
         else if selected = length recent then i else selected)"

section \<open>Shortening messages\<close>

definition shortenable :: "(rat \<Rightarrow> string) \<Rightarrow> message list \<Rightarrow> nat list" where
  "shortenable fl ms = filter (\<lambda>i. length truncation_marker + 12 < length (content_text fl (ms ! i))) [0..<length ms]"

fun longest :: "(nat \<Rightarrow> nat) \<Rightarrow> nat \<Rightarrow> nat list \<Rightarrow> nat" where
  \<comment> \<open>\<open>max\<close> of the pairs (length, index), over ascending indices\<close>
  "longest len best [] = best"
| "longest len best (i # is) = longest len (if len best \<le> len i then i else best) is"

definition shorten :: "(rat \<Rightarrow> string) \<Rightarrow> context_harness \<Rightarrow> int \<Rightarrow> int \<Rightarrow> message \<Rightarrow> string" where
  "shorten fl h current budget m =
     (let text = content_text fl m; excess = current - budget;
          content_tokens = \<lceil>of_nat (length text) / ch_cpt h\<rceil>;
          target = max 24 (content_tokens - excess - 4)
      in truncate_text (ch_cpt h) target text)"

fun fit_loop ::
  "(rat \<Rightarrow> string) \<Rightarrow> context_harness \<Rightarrow> (message list \<Rightarrow> int) \<Rightarrow> int \<Rightarrow> nat \<Rightarrow> message list \<Rightarrow> nat list \<Rightarrow>
   message list \<times> nat list" where
  "fit_loop fl h estimate budget 0 ms truncated = (ms, truncated)"
| "fit_loop fl h estimate budget (Suc n) ms truncated =
     (let current = count_tokens estimate ms in
      if current \<le> budget then (ms, truncated)
      else case shortenable fl ms of
        [] \<Rightarrow> (ms, truncated)
      | i # is \<Rightarrow>
          let index = longest (\<lambda>j. length (content_text fl (ms ! j))) i is;
              shortened = shorten fl h current budget (ms ! index)
          in if shortened = content_text fl (ms ! index) then (ms, truncated)
             else fit_loop fl h estimate budget n (ms[index := (ms ! index)\<lparr>m_content := JStr shortened\<rparr>])
                    (List.insert index truncated))"

definition fit_messages ::
  "(rat \<Rightarrow> string) \<Rightarrow> context_harness \<Rightarrow> (message list \<Rightarrow> int) \<Rightarrow> int \<Rightarrow> message list \<Rightarrow> (message list \<times> nat) result" where
  "fit_messages fl h estimate budget ms =
     (case fit_loop fl h estimate budget (max 1 (length ms * 3)) ms [] of (fitted, truncated) \<Rightarrow>
        if budget < count_tokens estimate fitted then Inl Context_Budget_Error
        else Inr (fitted, length truncated))"

definition memory_line :: "(rat \<Rightarrow> string) \<Rightarrow> message \<Rightarrow> string list" where
  "memory_line fl m =
     (let text = strip (content_text fl m) in
      if text = [] then []
      else if m_role m = Human then [''- User: '' @ excerpt 360 text]
      else if m_role m = Assistant \<and> \<not> m_tool_calls m then [''- Assistant: '' @ excerpt 360 text]
      else [])"

definition build_memory ::
  "(rat \<Rightarrow> string) \<Rightarrow> context_harness \<Rightarrow> (message list \<Rightarrow> int) \<Rightarrow> message list list \<Rightarrow> int \<Rightarrow> message option result" where
  "build_memory fl h estimate turns budget =
     (let lines = concat (map (memory_line fl) (concat turns)) in
      if lines = [] then Inr None
      else rbind (fit_messages fl h estimate budget
                    [\<lparr>m_role = System, m_content = JStr (join [newline] (memory_header # lines)), m_tool_calls = False\<rparr>])
             (\<lambda>(fitted, n). Inr (case fitted of [] \<Rightarrow> None | m # _ \<Rightarrow> Some m)))"

section \<open>Preparing a context\<close>

record context_report =
  cr_window :: int
  cr_budget :: int
  cr_output :: int
  cr_safety :: int
  cr_before :: int
  cr_after :: int
  cr_compacted :: nat
  cr_truncated :: nat
  cr_full :: bool      \<comment> \<open>strategy \<open>full\<close>, otherwise \<open>compacted\<close>\<close>

definition report :: "context_harness \<Rightarrow> int \<Rightarrow> int \<Rightarrow> nat \<Rightarrow> nat \<Rightarrow> bool \<Rightarrow> context_report" where
  "report h before after compacted truncated full =
     \<lparr>cr_window = ch_window h, cr_budget = ch_input h, cr_output = ch_output h, cr_safety = ch_safety h,
      cr_before = before, cr_after = after, cr_compacted = compacted, cr_truncated = truncated, cr_full = full\<rparr>"

lemma cr_after_report [simp]: "cr_after (report h b a c t f) = a"
  by (simp add: report_def)

record prepared_context =
  pc_messages :: "message list"
  pc_report :: context_report

definition recent_turns :: "context_harness \<Rightarrow> message list list \<Rightarrow> nat" where
  "recent_turns h turns = length turns - ch_recent h"

definition kept_from :: "context_harness \<Rightarrow> (message list \<Rightarrow> int) \<Rightarrow> message list \<Rightarrow> message list list \<Rightarrow> nat" where
  "kept_from h estimate systems turns =
     (let start = recent_turns h turns; recent = drop start turns
      in start + select_turns h estimate recent start (length recent) (length recent) (count_tokens estimate systems))"

definition prepare ::
  "(rat \<Rightarrow> string) \<Rightarrow> context_harness \<Rightarrow> (message list \<Rightarrow> int) \<Rightarrow> message list \<Rightarrow> prepared_context result" where
  "prepare fl h estimate source =
     (let before = count_tokens estimate source in
      if before \<le> ch_input h
      then Inr \<lparr>pc_messages = source,
             pc_report = report h before before 0 0 True\<rparr>
      else
        let systems = filter (\<lambda>m. m_role m = System) source;
            turns = group_turns (filter (\<lambda>m. m_role m \<noteq> System) source);
            first = kept_from h estimate systems turns;
            selected = concat (drop first turns); omitted = take first turns;
            room = max 0 (ch_input h - count_tokens estimate (systems @ selected))
        in rbind (if omitted \<noteq> [] \<and> 12 < room then build_memory fl h estimate omitted (min (ch_summary h) room) else Inr None)
             (\<lambda>memory. rbind (fit_messages fl h estimate (ch_input h)
                (systems @ (case memory of None \<Rightarrow> [] | Some m \<Rightarrow> [m]) @ selected)) (\<lambda>(fitted, truncated).
              Inr \<lparr>pc_messages = fitted,
                pc_report = report h before (count_tokens estimate fitted) (sum_list (map length omitted)) truncated False\<rparr>)))"

section \<open>What a prepared context keeps\<close>

definition shape :: "message \<Rightarrow> role \<times> bool" where
  "shape m = (m_role m, m_tool_calls m)"

lemma longest_mem: "longest len best is \<in> insert best (set is)"
  by (induction len best "is" rule: longest.induct) auto

lemma shape_update: "i < length ms \<Longrightarrow> map shape (ms[i := (ms ! i)\<lparr>m_content := c\<rparr>]) = map shape ms"
  by (rule nth_equalityI) (auto simp: nth_list_update shape_def)

lemma fit_loop_shape: "fit_loop fl h estimate budget n ms tr = (ms', tr') \<Longrightarrow> map shape ms' = map shape ms"
proof (induction n arbitrary: ms tr)
  case (Suc n)
  show ?case
  proof (cases "shortenable fl ms")
    case Nil
    then show ?thesis using Suc.prems by (auto simp: Let_def split: if_splits)
  next
    case (Cons i "is")
    define j where "j = longest (\<lambda>j. length (content_text fl (ms ! j))) i is"
    have "j \<in> set (shortenable fl ms)" using longest_mem [of "\<lambda>j. length (content_text fl (ms ! j))" i "is"]
      by (auto simp: j_def Cons)
    then have j: "j < length ms" by (auto simp: shortenable_def)
    from Suc.prems Cons have "ms' = ms \<or> (\<exists>c. fit_loop fl h estimate budget n (ms[j := (ms ! j)\<lparr>m_content := c\<rparr>]) (List.insert j tr) = (ms', tr'))"
      by (auto simp: Let_def j_def split: if_splits)
    then show ?thesis using Suc.IH shape_update [OF j] by fastforce
  qed
qed simp

lemma fit_messages_Inr:
  assumes "fit_messages fl h estimate budget ms = Inr (ms', n)"
  shows "count_tokens estimate ms' \<le> budget" and "map shape ms' = map shape ms"
  using assms fit_loop_shape by (auto simp: fit_messages_def split: prod.splits if_splits)

lemma concat_turns_from: "concat (turns_from current ms) = current @ ms"
  by (induction current ms rule: turns_from.induct) auto

lemma concat_drop_turns: "\<exists>k. concat (drop n (group_turns ms)) = drop k ms"
proof
  have "concat (take n (group_turns ms)) @ concat (drop n (group_turns ms)) = ms"
    by (metis append_take_drop_id concat_append concat_turns_from append_Nil group_turns_def)
  then show "concat (drop n (group_turns ms)) = drop (length (concat (take n (group_turns ms)))) ms"
    by (metis append_eq_conv_conj)
qed


text \<open>A conversation of four messages of ten tokens each, for a budget of 25: the older turn is left out.\<close>

definition small_harness :: context_harness where
  "small_harness = \<lparr>ch_window = 40, ch_input = 25, ch_output = 10, ch_safety = 5, ch_summary = 12, ch_recent = 1, ch_cpt = 2\<rparr>"

definition small_conversation :: "message list" where
  "small_conversation = map (\<lambda>(r, c). \<lparr>m_role = r, m_content = JStr c, m_tool_calls = False\<rparr>)
     [(System, ''s''), (Human, ''q''), (Assistant, ''a''), (Human, ''r'')]"

definition ten_each :: "message list \<Rightarrow> int" where
  "ten_each ms = 10 * int (length ms)"


end
