(* ===== verification/Agent_Runs.thy ===== *)
theory Agent_Runs
  imports Delegation_Context Budget Tool_Policy
begin

text \<open>
  \<open>AgentRunStore\<close> of \<open>server/agent_runs.py\<close>: the ledger of agent runs and delegations.  The two tables
  are lists of records in row order; a record holds the columns and the fields of the stored payload.
  Each operation is one transaction: it answers with the database it leaves and a result.  It rolls
  back when it raises, except that a refused budget reservation is committed before it raises.

  Cleaning reaches the free texts of a record; identifiers, statuses and clock readings are not secrets.
\<close>

section \<open>Records\<close>

datatype run_status =
    Run_pending | Run_running | Run_completed | Run_partial | Run_failed | Run_cancelled | Run_interrupted

definition run_status_of :: "result_status \<Rightarrow> run_status" where
  "run_status_of s = (case s of Rs_completed \<Rightarrow> Run_completed | Rs_partial \<Rightarrow> Run_partial
     | Rs_failed \<Rightarrow> Run_failed | Rs_cancelled \<Rightarrow> Run_cancelled)"

datatype usage_status = Usage_unavailable | Usage_partial | Usage_available

record run_view =
  ar_id :: ident
  ar_task :: "ident option"
  ar_delegation :: "ident option"
  ar_agent :: ident
  ar_status :: run_status
  ar_objective :: string
  ar_input :: string
  ar_output :: string
  ar_started :: "time option"
  ar_completed :: "time option"
  ar_duration :: "rat option"
  ar_llm :: nat
  ar_tools :: nat
  ar_iterations :: nat
  ar_tokens :: "int option"
  ar_usage :: usage_status
  ar_error :: "string option"
  ar_mode :: "string option"
  ar_group :: "nat option"
  ar_namespace :: "string option"
  ar_revision_of :: "ident option"
  ar_evidence_count :: "nat option"
  ar_artifact_count :: "nat option"
  ar_memory_started :: bool
  ar_budget :: "budget option"
  ar_notes :: "(string, json) dict"    \<comment> \<open>the other entries of the run's metadata\<close>

text \<open>What a run holds beside what \<open>public_run\<close> shows; a counter of 0 is an absent metadata entry.\<close>

record agent_run = run_view +
  ar_message :: "string option"
  ar_supervisor :: "ident option"
  ar_progress :: "(string, json) dict option"
  ar_attempts :: nat
  ar_samples :: nat
  ar_prompt :: "int \<times> nat"
  ar_completion :: "int \<times> nat"
  ar_phases :: "(string, nat) dict"

record delegation_view =
  dl_id :: ident
  dl_task :: "ident option"
  dl_supervisor :: ident
  dl_run :: ident
  dl_agent :: ident
  dl_objective :: string
  dl_status :: run_status
  dl_group :: nat
  dl_created :: time
  dl_started :: "time option"
  dl_completed :: "time option"
  dl_result :: "delegation_result option"

record delegation = delegation_view +
  dl_request :: delegation_request

record agents_db =
  runs_table :: "agent_run list"
  delegations_table :: "delegation list"

section \<open>Cleaning\<close>

definition clean_run :: "string list \<Rightarrow> agent_run \<Rightarrow> agent_run" where
  "clean_run vs r = r\<lparr>ar_objective := clean_text vs (ar_objective r), ar_input := clean_text vs (ar_input r),
     ar_output := clean_text vs (ar_output r), ar_error := map_option (clean_text vs) (ar_error r),
     ar_notes := clean_entries vs (ar_notes r), ar_message := map_option (clean_text vs) (ar_message r),
     ar_progress := map_option (clean_entries vs) (ar_progress r)\<rparr>"

definition clean_result :: "string list \<Rightarrow> delegation_result \<Rightarrow> delegation_result" where
  "clean_result vs r = r\<lparr>rs_summary := clean_text vs (rs_summary r),
     rs_questions := map (clean_text vs) (rs_questions r), rs_payload := clean_entries vs (rs_payload r)\<rparr>"

definition request_safe :: "string list \<Rightarrow> delegation_request \<Rightarrow> bool" where
  \<comment> \<open>\<open>require_safe(request.model_dump())\<close>: cleaning changes no text of the request\<close>
  "request_safe vs q =
     (let c = dq_context q; same = (\<lambda>t. clean_text vs t = t) in
      list_all same ([dq_objective q, dq_expected_output q, dc_goal c] @ dq_required q @ dq_allowed_tools q
        @ dc_constraints c @ dc_notes c)
      \<and> (case dq_supplementary q of None \<Rightarrow> True | Some d \<Rightarrow> clean_entries vs d = d))"

section \<open>Reading\<close>

definition get_run :: "agents_db \<Rightarrow> ident \<Rightarrow> agent_run result" where
  "get_run db i = (case row_get ar_id i (runs_table db) of None \<Rightarrow> Inl (RecordNotFound i) | Some r \<Rightarrow> Inr r)"

definition get_delegation :: "agents_db \<Rightarrow> ident \<Rightarrow> delegation result" where
  "get_delegation db i =
     (case row_get dl_id i (delegations_table db) of None \<Rightarrow> Inl (RecordNotFound i) | Some d \<Rightarrow> Inr d)"

definition save_run :: "string list \<Rightarrow> agent_run \<Rightarrow> agents_db \<Rightarrow> agents_db" where
  "save_run vs r db = db\<lparr>runs_table := row_put ar_id (clean_run vs r) (runs_table db)\<rparr>"

definition save_delegation :: "delegation \<Rightarrow> agents_db \<Rightarrow> agents_db" where
  "save_delegation d db = db\<lparr>delegations_table := row_put dl_id d (delegations_table db)\<rparr>"

definition runs_of :: "agents_db \<Rightarrow> ident \<Rightarrow> agent_run list" where
  "runs_of db task = filter (\<lambda>r. ar_task r = Some task) (runs_table db)"

definition supervisors_of :: "agents_db \<Rightarrow> ident \<Rightarrow> agent_run list" where
  "supervisors_of db task = filter (\<lambda>r. ar_agent r = ''supervisor'') (runs_of db task)"

definition supervisor :: "agents_db \<Rightarrow> ident \<Rightarrow> agent_run option" where
  \<comment> \<open>\<open>ORDER BY rowid DESC LIMIT 1\<close>\<close>
  "supervisor db task = (case supervisors_of db task of [] \<Rightarrow> None | rs \<Rightarrow> Some (last rs))"

definition delegations :: "agents_db \<Rightarrow> ident option \<Rightarrow> ident option \<Rightarrow> delegation list" where
  "delegations db supervisor_run task =
     filter (\<lambda>d. (\<not> truthy supervisor_run \<or> Some (dl_supervisor d) = supervisor_run)
        \<and> (\<not> truthy task \<or> dl_task d = task)) (delegations_table db)"

definition public_keys :: "string list" where
  "public_keys = [''memory_extraction_completed'', ''memory_written'', ''cost_trace'', ''decision'',
     ''review_status'', ''review_skip_reason'', ''cache_hit'', ''cache_hits'', ''duplicate_delegations_prevented'',
     ''context_measurements'', ''context_reduction'', ''review_context_reduction'', ''execution_group_metrics'']"

definition public_run :: "agent_run \<Rightarrow> run_view" where
  "public_run r = run_view.truncate r\<lparr>ar_notes := filter (\<lambda>(k, v). k \<in> set public_keys) (ar_notes r)\<rparr>"

definition public_delegation :: "delegation \<Rightarrow> delegation_view" where
  "public_delegation d = delegation_view.truncate d"

section \<open>Transactions\<close>

text \<open>\<open>transact\<close> commits what the body leaves when it returns, and keeps the old state when it raises.\<close>

definition transact :: "'s \<Rightarrow> ('s \<times> 'a) result \<Rightarrow> 's \<times> 'a result" where
  "transact s r = (case r of Inl e \<Rightarrow> (s, Inl e) | Inr (t, x) \<Rightarrow> (t, Inr x))"

section \<open>Budget reservations\<close>

definition budget_owner :: "agents_db \<Rightarrow> agent_run \<Rightarrow> agent_run option result" where
  "budget_owner db r =
     (if ar_agent r = ''supervisor'' then rbind (get_run db (ar_id r)) (\<lambda>s. Inr (Some s))
      else rbind
        (if \<not> truthy (ar_supervisor r) \<and> truthy (ar_delegation r)
         then rbind (get_delegation db (the (ar_delegation r))) (\<lambda>d. Inr (Some (dl_supervisor d)))
         else Inr (ar_supervisor r)) (\<lambda>owner.
         if truthy owner then rbind (get_run db (the owner)) (\<lambda>s. Inr (Some s)) else Inr None))"

definition reserve_budget ::
  "string list \<Rightarrow> time \<Rightarrow> agent_run \<Rightarrow> resource_kind \<Rightarrow> string \<Rightarrow> agents_db \<Rightarrow> agents_db \<times> unit result" where
  "reserve_budget vs now r kind phase db =
     (case budget_owner db r of
        Inl e \<Rightarrow> (db, Inl e)
      | Inr None \<Rightarrow> (db, Inr ())
      | Inr (Some s) \<Rightarrow> (case ar_budget s of
          None \<Rightarrow> (db, Inr ())
        | Some b \<Rightarrow> (case reserve now kind phase (resume now b) of (b', reason) \<Rightarrow>
            (save_run vs (s\<lparr>ar_budget := Some b'\<rparr>) db,
             (case reason of
                None \<Rightarrow> Inr ()
              | Some t \<Rightarrow> Inl (BudgetExhausted (''Multi-agent budget exhausted: '' @ t)))))))"

text \<open>
  After a reservation: when it was refused the commit stays and the operation raises; otherwise the
  rest of the transaction runs, and takes the reservation back when it raises.
\<close>

definition after_reserve :: "'s \<Rightarrow> 's \<times> unit result \<Rightarrow> ('s \<Rightarrow> ('s \<times> 'a) result) \<Rightarrow> 's \<times> 'a result" where
  "after_reserve db res body = (case res of
     (db', Inl e) \<Rightarrow> (db', Inl e)
   | (db', Inr _) \<Rightarrow> transact db (body db'))"

section \<open>Creating runs\<close>

definition new_run :: "ident \<Rightarrow> ident option \<Rightarrow> ident option \<Rightarrow> ident \<Rightarrow> string \<Rightarrow> agent_run" where
  "new_run fresh task delegation_id agent objective =
     \<lparr>ar_id = fresh, ar_task = task, ar_delegation = delegation_id, ar_agent = agent, ar_status = Run_pending,
      ar_objective = objective, ar_input = take 600 objective, ar_output = [], ar_started = None,
      ar_completed = None, ar_duration = None, ar_llm = 0, ar_tools = 0, ar_iterations = 0,
      ar_tokens = None, ar_usage = Usage_unavailable, ar_error = None, ar_mode = None, ar_group = None,
      ar_namespace = None, ar_revision_of = None, ar_evidence_count = None, ar_artifact_count = None,
      ar_memory_started = False, ar_budget = None, ar_notes = [], ar_message = None, ar_supervisor = None,
      ar_progress = None, ar_attempts = 0, ar_samples = 0, ar_prompt = (0, 0), ar_completion = (0, 0),
      ar_phases = []\<rparr>"

definition create_supervisor ::
  "string list \<Rightarrow> limits option \<Rightarrow> time \<Rightarrow> ident \<Rightarrow> ident option \<Rightarrow> string \<Rightarrow> string \<Rightarrow> (string, json) dict \<Rightarrow>
   agents_db \<Rightarrow> agents_db \<times> agent_run result" where
  "create_supervisor vs efficiency now fresh task goal mode metadata db =
     transact db
       (rbind (require_safe vs (JObj [(''goal'', JStr goal), (''metadata'', JObj metadata)])) (\<lambda>_.
        case (if truthy task then supervisors_of db (the task) else []) of
          s # _ \<Rightarrow> Inr (db, s)
        | [] \<Rightarrow>
            rbind (case efficiency of None \<Rightarrow> Inr None | Some l \<Rightarrow> rbind (initial now l) (\<lambda>b. Inr (Some b))) (\<lambda>b.
            let r = (new_run fresh task None ''supervisor'' goal)
                  \<lparr>ar_status := Run_running, ar_started := Some now, ar_mode := Some mode, ar_notes := metadata,
                   ar_budget := b\<rparr>
            in rbind (row_insert ar_id r (runs_table db)) (\<lambda>rs. Inr (db\<lparr>runs_table := rs\<rparr>, r)))))"

definition update_supervisor ::
  "string list \<Rightarrow> ident \<Rightarrow> (string, json) dict \<Rightarrow> budget option \<Rightarrow> agents_db \<Rightarrow> agents_db \<times> agent_run result" where
  \<comment> \<open>also \<open>annotate_run\<close>; a budget among the updates replaces the stored one\<close>
  "update_supervisor vs i updates b db =
     transact db (rbind (get_run db i) (\<lambda>r.
       let r' = r\<lparr>ar_notes := dict_merge (ar_notes r) updates,
                 ar_budget := (case b of None \<Rightarrow> ar_budget r | Some x \<Rightarrow> Some x)\<rparr>
       in Inr (save_run vs r' db, r')))"

definition delegation_phase :: "delegation_request \<Rightarrow> string" where
  "delegation_phase q = (if dq_agent_id q = ''reviewer'' then ''reviewer''
     else if truthy (dq_revision_of q) then ''supplementary'' else ''model'')"

definition no_progress :: "(string, json) dict" where
  "no_progress = [(''cursor'', JInt 0), (''evidence'', JList []), (''artifacts'', JList []),
     (''outputs'', JList []), (''actions'', JList [])]"

definition delegated_run :: "ident \<Rightarrow> delegation_request \<Rightarrow> agent_run" where
  "delegated_run fresh q = (new_run fresh (dq_task_id q) (Some (dq_id q)) (dq_agent_id q) (dq_objective q))
     \<lparr>ar_supervisor := Some (dq_supervisor_run_id q), ar_group := Some (dq_group q),
      ar_namespace := Some (dq_agent_id q @ '':'' @ dq_id q), ar_revision_of := dq_revision_of q,
      ar_progress := Some no_progress\<rparr>"

definition delegation_of :: "time \<Rightarrow> ident \<Rightarrow> delegation_request \<Rightarrow> delegation" where
  "delegation_of now fresh q = \<lparr>dl_id = dq_id q, dl_task = dq_task_id q, dl_supervisor = dq_supervisor_run_id q,
     dl_run = fresh, dl_agent = dq_agent_id q, dl_objective = dq_objective q, dl_status = Run_pending,
     dl_group = dq_group q, dl_created = now, dl_started = None, dl_completed = None, dl_result = None,
     dl_request = q\<rparr>"

definition insert_delegation ::
  "time \<Rightarrow> ident \<Rightarrow> delegation_request \<Rightarrow> agents_db \<Rightarrow> (agents_db \<times> delegation) result" where
  "insert_delegation now fresh q db =
     rbind (row_insert ar_id (delegated_run fresh q) (runs_table db)) (\<lambda>rs.
     rbind (guard (list_all (\<lambda>r. ar_delegation r \<noteq> Some (dq_id q)) (runs_table db)) (Integrity_Error ''UNIQUE'')) (\<lambda>_.
     rbind (row_insert dl_id (delegation_of now fresh q) (delegations_table db)) (\<lambda>ds.
       Inr (db\<lparr>runs_table := rs, delegations_table := ds\<rparr>, delegation_of now fresh q))))"

definition create_delegation ::
  "string list \<Rightarrow> time \<Rightarrow> ident \<Rightarrow> delegation_request \<Rightarrow> int \<Rightarrow> agents_db \<Rightarrow> agents_db \<times> delegation result" where
  "create_delegation vs now fresh q maximum db =
     (if \<not> request_valid q then (db, Inl (Provider_Error ''ValidationError''))
      else if \<not> request_safe vs q then (db, Inl (Value_Error ''Secret-bearing tool arguments are prohibited''))
      else case row_get dl_id (dq_id q) (delegations_table db) of
        Some d \<Rightarrow> (db, Inr d)
      | None \<Rightarrow>
          if maximum \<le> int (length (filter (\<lambda>d. dl_supervisor d = dq_supervisor_run_id q) (delegations_table db)))
          then (db, Inl (TaskConflict ''Delegation budget exhausted''))
          else case get_run db (dq_supervisor_run_id q) of
            Inl e \<Rightarrow> (db, Inl e)
          | Inr s \<Rightarrow> after_reserve db (reserve_budget vs now s Delegations (delegation_phase q) db)
              (insert_delegation now fresh q))"

section \<open>Work on a delegation\<close>

definition start_run :: "string list \<Rightarrow> time \<Rightarrow> ident \<Rightarrow> agents_db \<Rightarrow> agents_db \<times> agent_run result" where
  "start_run vs now i db =
     transact db (rbind (get_delegation db i) (\<lambda>d. rbind (get_run db (dl_run d)) (\<lambda>r.
       if dl_result d \<noteq> None then Inr (db, r)
       else
         let r' = r\<lparr>ar_status := Run_running, ar_started := or_time (ar_started r) now,
                   ar_attempts := Suc (ar_attempts r)\<rparr>
         in if 3 < ar_attempts r' then Inl (TaskConflict ''Agent recovery attempts exhausted'')
            else Inr (save_delegation (d\<lparr>dl_status := Run_running, dl_started := ar_started r'\<rparr>) (save_run vs r' db), r'))))"

definition progress :: "string list \<Rightarrow> ident \<Rightarrow> (string, json) dict \<Rightarrow> agents_db \<Rightarrow> agents_db \<times> unit result" where
  "progress vs i updates db =
     transact db (rbind (get_run db i) (\<lambda>r. case ar_progress r of
        None \<Rightarrow> Inl (Key_Error ''progress'')
      | Some p \<Rightarrow> Inr (save_run vs (r\<lparr>ar_progress := Some (dict_merge p updates)\<rparr>) db, ())))"

datatype call_kind = Call_llm | Call_tools | Call_iterations

definition calls :: "call_kind \<Rightarrow> agent_run \<Rightarrow> nat" where
  "calls k r = (case k of Call_llm \<Rightarrow> ar_llm r | Call_tools \<Rightarrow> ar_tools r | Call_iterations \<Rightarrow> ar_iterations r)"

definition add_call :: "call_kind \<Rightarrow> agent_run \<Rightarrow> agent_run" where
  "add_call k r = (case k of Call_llm \<Rightarrow> r\<lparr>ar_llm := Suc (ar_llm r)\<rparr>
     | Call_tools \<Rightarrow> r\<lparr>ar_tools := Suc (ar_tools r)\<rparr>
     | Call_iterations \<Rightarrow> r\<lparr>ar_iterations := Suc (ar_iterations r)\<rparr>)"

definition kind_text :: "call_kind \<Rightarrow> string" where
  "kind_text k = (case k of Call_llm \<Rightarrow> ''llm_calls'' | Call_tools \<Rightarrow> ''tool_calls'' | Call_iterations \<Rightarrow> ''iterations'')"

definition add_saved :: "string list \<Rightarrow> ident \<Rightarrow> (agent_run \<Rightarrow> agent_run) \<Rightarrow> agents_db \<Rightarrow> (agents_db \<times> unit) result" where
  \<comment> \<open>reading the run again, after the reservation, and saving the change\<close>
  "add_saved vs i f db = rbind (get_run db i) (\<lambda>r. Inr (save_run vs (f r) db, ()))"

definition count_call ::
  "string list \<Rightarrow> time \<Rightarrow> ident \<Rightarrow> call_kind \<Rightarrow> int \<Rightarrow> agents_db \<Rightarrow> agents_db \<times> unit result" where
  "count_call vs now i k limit db =
     (case get_run db i of
        Inl e \<Rightarrow> (db, Inl e)
      | Inr r \<Rightarrow>
          if limit \<le> int (calls k r) then (db, Inl (TaskConflict (''Agent '' @ kind_text k @ '' budget exhausted'')))
          else after_reserve db (if k = Call_tools then reserve_budget vs now r Tool_calls ''model'' db else (db, Inr ()))
                 (add_saved vs i (add_call k)))"

definition reserve_llm ::
  "string list \<Rightarrow> time \<Rightarrow> ident \<Rightarrow> int \<Rightarrow> int \<Rightarrow> string \<Rightarrow> agents_db \<Rightarrow> agents_db \<times> unit result" where
  \<comment> \<open>an \<open>iteration_limit\<close> of 0 stands for none\<close>
  "reserve_llm vs now i call_limit iteration_limit phase db =
     (case get_run db i of
        Inl e \<Rightarrow> (db, Inl e)
      | Inr r \<Rightarrow>
          if call_limit \<le> int (ar_llm r) \<or> iteration_limit \<noteq> 0 \<and> iteration_limit \<le> int (ar_iterations r)
          then (db, Inl (TaskConflict ''Agent model budget exhausted''))
          else after_reserve db (reserve_budget vs now r Llm_calls phase db)
            (add_saved vs i (\<lambda>r. r\<lparr>ar_llm := Suc (ar_llm r),
               ar_phases := dict_put phase (Suc (dict_get (ar_phases r) phase 0)) (ar_phases r),
               ar_iterations := (if iteration_limit \<noteq> 0 then Suc (ar_iterations r) else ar_iterations r)\<rparr>)))"

section \<open>Token usage\<close>

record usage =
  us_total :: "int option"
  us_input :: "int option"
  us_output :: "int option"

definition add_sample :: "int option \<Rightarrow> int \<times> nat \<Rightarrow> int \<times> nat" where
  "add_sample v s = (case v of None \<Rightarrow> s | Some n \<Rightarrow> (fst s + n, Suc (snd s)))"

definition run_usage :: "usage \<Rightarrow> agent_run \<Rightarrow> agent_run" where
  "run_usage u r =
     (let r1 = (case us_total u of None \<Rightarrow> r
                | Some t \<Rightarrow> r\<lparr>ar_tokens := Some ((case ar_tokens r of None \<Rightarrow> 0 | Some n \<Rightarrow> n) + t),
                    ar_samples := Suc (ar_samples r)\<rparr>);
          r2 = r1\<lparr>ar_prompt := add_sample (us_input u) (ar_prompt r1),
                 ar_completion := add_sample (us_output u) (ar_completion r1)\<rparr>
      in r2\<lparr>ar_usage := (if ar_samples r2 = ar_llm r2 then Usage_available
                        else if ar_tokens r2 \<noteq> None then Usage_partial else ar_usage r2)\<rparr>)"

definition budget_usage :: "int option \<Rightarrow> budget \<Rightarrow> budget" where
  "budget_usage sample b =
     (let b1 = (case sample of None \<Rightarrow> b
                | Some t \<Rightarrow> b\<lparr>b_known_tokens := b_known_tokens b + t, b_token_samples := Suc (b_token_samples b)\<rparr>)
      in b1\<lparr>b_tokens := (if b_token_samples b1 = b_llm_calls b1 then Some (b_known_tokens b1) else None)\<rparr>)"

definition add_usage :: "string list \<Rightarrow> ident \<Rightarrow> usage option \<Rightarrow> agents_db \<Rightarrow> agents_db \<times> unit result" where
  "add_usage vs i reported db =
     (let u = (case reported of None \<Rightarrow> \<lparr>us_total = None, us_input = None, us_output = None\<rparr> | Some u \<Rightarrow> u) in
      transact db (rbind (get_run db i) (\<lambda>r.
        let r' = run_usage u r; db1 = save_run vs r' db in
        rbind (budget_owner db1 r') (\<lambda>owner. case owner of
          None \<Rightarrow> Inr (db1, ())
        | Some s \<Rightarrow> (case ar_budget s of
            None \<Rightarrow> Inr (db1, ())
          | Some b \<Rightarrow> Inr (save_run vs (s\<lparr>ar_budget := Some (budget_usage (us_total u) b)\<rparr>) db1, ()))))))"

definition record_pre_calls :: "string list \<Rightarrow> ident \<Rightarrow> nat \<Rightarrow> nat \<Rightarrow> agents_db \<Rightarrow> agents_db \<times> unit result" where
  "record_pre_calls vs i analyzer router db =
     (let phases = filter (\<lambda>(k, n). n \<noteq> 0) [(''query_analyzer'', analyzer), (''router'', router)];
          added = sum_list (map snd phases) in
      transact db (rbind (get_run db i) (\<lambda>r.
        Inr (save_run vs (r\<lparr>ar_llm := ar_llm r + added, ar_phases := phases,
          ar_budget := map_option (\<lambda>b.
            let b1 = b\<lparr>b_llm_calls := b_llm_calls b + added, b_phase_calls := phases\<rparr> in
            if l_llm_calls (b_limits b1) \<le> b_llm_calls b1
            then b1\<lparr>b_exhausted := True, b_reasons := b_reasons b1 @ [''llm_calls'']\<rparr> else b1) (ar_budget r)\<rparr>) db, ()))))"

definition pause_budget :: "string list \<Rightarrow> time \<Rightarrow> ident \<Rightarrow> agents_db \<Rightarrow> agents_db \<times> unit result" where
  "pause_budget vs now i db =
     transact db (rbind (get_run db i) (\<lambda>r. case ar_budget r of
        None \<Rightarrow> Inr (db, ())
      | Some b \<Rightarrow> Inr (save_run vs (r\<lparr>ar_budget := Some (pause now b)\<rparr>) db, ())))"

section \<open>Results, recovery, cancellation\<close>

definition cached :: "agents_db \<Rightarrow> ident option \<Rightarrow> ident \<Rightarrow> string \<Rightarrow> delegation option result" where
  "cached db task supervisor_run key =
     rfold (\<lambda>hit d.
       if hit \<noteq> None \<or> dl_status d \<noteq> Run_completed then Inr hit
       else rbind (get_run db (dl_run d)) (\<lambda>r.
         Inr (if map_of (ar_notes r) ''cache_key'' = Some (JStr key) then Some d else None)))
       None (delegations db (if truthy task then None else Some supervisor_run) task)"

definition run_duration :: "time option \<Rightarrow> time \<Rightarrow> rat" where
  "run_duration started completed =
     round_to 2 (of_int (completed - (case started of None \<Rightarrow> completed | Some t \<Rightarrow> t)) / 1000)"

definition finish ::
  "string list \<Rightarrow> time \<Rightarrow> ident \<Rightarrow> delegation_result \<Rightarrow> string option \<Rightarrow> agents_db \<Rightarrow>
   agents_db \<times> delegation_result result" where
  "finish vs now i res failure db =
     (if \<not> result_valid res then (db, Inl (Provider_Error ''ValidationError''))
      else transact db (rbind (get_delegation db i) (\<lambda>d. case dl_result d of
        Some old \<Rightarrow> Inr (db, old)
      | None \<Rightarrow>
          if rs_delegation_id res \<noteq> i \<or> rs_agent_id res \<noteq> dl_agent d
          then Inl (Value_Error ''Result identity mismatch'')
          else rbind (get_run db (dl_run d)) (\<lambda>r.
            let st = run_status_of (rs_status res);
                r' = r\<lparr>ar_status := st, ar_completed := Some now,
                  ar_duration := Some (run_duration (ar_started r) now), ar_output := rs_summary res,
                  ar_error := failure, ar_message := failure,
                  ar_evidence_count := Some (length (rs_evidence_ids res)),
                  ar_artifact_count := Some (length (rs_artifact_ids res))\<rparr>;
                d' = d\<lparr>dl_status := st, dl_completed := Some now, dl_result := Some (clean_result vs res)\<rparr>
            in Inr (save_delegation d' (save_run vs r' db), clean_result vs res)))))"

definition recover_runs :: "string list \<Rightarrow> agents_db \<Rightarrow> agents_db" where
  "recover_runs vs db = db\<lparr>runs_table := update_where (\<lambda>r. ar_status r = Run_running)
     (\<lambda>r. clean_run vs (r\<lparr>ar_status := Run_interrupted\<rparr>)) (runs_table db)\<rparr>"

definition cancel_delegation :: "string list \<Rightarrow> agents_db \<Rightarrow> delegation \<Rightarrow> agents_db result" where
  "cancel_delegation vs db d =
     rbind (get_run db (dl_run d)) (\<lambda>r.
       Inr (save_delegation (d\<lparr>dl_status := Run_cancelled\<rparr>) (save_run vs (r\<lparr>ar_status := Run_cancelled\<rparr>) db)))"

definition cancel_runs :: "string list \<Rightarrow> ident \<Rightarrow> agents_db \<Rightarrow> agents_db \<times> unit result" where
  "cancel_runs vs task db =
     transact db (rbind (rfold (cancel_delegation vs) db
         (filter (\<lambda>d. dl_task d = Some task \<and> dl_status d \<in> {Run_pending, Run_running}) (delegations_table db)))
       (\<lambda>db1. Inr (db1\<lparr>runs_table := update_where
            (\<lambda>r. ar_task r = Some task \<and> ar_status r \<in> {Run_pending, Run_running, Run_interrupted})
            (\<lambda>r. clean_run vs (r\<lparr>ar_status := Run_cancelled\<rparr>)) (runs_table db1)\<rparr>, ())))"

definition claim_memory :: "string list \<Rightarrow> ident \<Rightarrow> agents_db \<Rightarrow> agents_db \<times> bool result" where
  "claim_memory vs i db =
     transact db (rbind (get_run db i) (\<lambda>r.
       if ar_memory_started r then Inr (db, False)
       else Inr (save_run vs (r\<lparr>ar_memory_started := True\<rparr>) db, True)))"

end
