(* ===== verification/Agent_Runs_Laws.thy ===== *)
theory Agent_Runs_Laws
  imports Agent_Runs Budget_Laws
begin

text \<open>
  The ledger of delegations refines a small abstract specification: a delegation is opened once, gets at
  most three attempts, and is settled once.  The abstraction forgets everything else a run holds;
  most operations do not move the abstract ledger at all.
\<close>

section \<open>Machines that refine a specification\<close>

locale refined_machine = guarded_machine exec ok_op invar
  for exec :: "'op \<Rightarrow> 's \<Rightarrow> 's" and ok_op :: "'s \<Rightarrow> 'op \<Rightarrow> bool" and invar :: "'s \<Rightarrow> bool" +
  fixes abs :: "'s \<Rightarrow> 'a" and moves :: "'a \<Rightarrow> 'a \<Rightarrow> bool"
  assumes simulated: "invar s \<Longrightarrow> ok_op s x \<Longrightarrow> abs (exec x s) = abs s \<or> moves (abs s) (abs (exec x s))"
begin

lemma reaches_refines: "reaches s t \<Longrightarrow> invar s \<Longrightarrow> moves\<^sup>*\<^sup>* (abs s) (abs t)"
proof (induction rule: reaches.induct)
  case (step s t x)
  then have "invar t" by (blast intro: reaches_invar)
  then show ?case using step simulated [of t x] by (auto intro: rtranclp.rtrancl_into_rtrancl)
qed simp

lemma run_reaches:
  assumes "\<And>t x. ok_op t x" shows "reaches s (run xs s)"
proof (induction xs arbitrary: s)
  case Nil
  show ?case by (simp add: reaches.refl)
next
  case (Cons x xs)
  have "reaches s (exec x s)" using reaches.step [OF reaches.refl assms] .
  then show ?case unfolding run.simps using Cons.IH [of "exec x s"] by (rule reaches_trans [rotated])
qed

end

section \<open>The abstract ledger\<close>

datatype stage = Open nat | Settled delegation_result

inductive stage_step :: "stage option \<Rightarrow> stage option \<Rightarrow> bool" where
  created: "stage_step None (Some (Open 0))"
| attempted: "n < 3 \<Longrightarrow> stage_step (Some (Open n)) (Some (Open (Suc n)))"
| settled: "stage_step (Some (Open n)) (Some (Settled r))"

inductive_simps stage_step_settled [simp]: "stage_step (Some (Settled r)) s"

inductive ledger_step :: "(ident \<Rightarrow> stage option) \<Rightarrow> (ident \<Rightarrow> stage option) \<Rightarrow> bool" where
  moved: "stage_step (f i) s \<Longrightarrow> ledger_step f (f(i := s))"

lemma settled_stays_settled:
  "ledger_step\<^sup>*\<^sup>* f g \<Longrightarrow> f i = Some (Settled r) \<Longrightarrow> g i = Some (Settled r)"
  by (induction rule: rtranclp_induct) (auto elim!: ledger_step.cases)

section \<open>The abstraction\<close>

definition run_entries :: "agents_db \<Rightarrow> ident \<Rightarrow> (ident option \<times> nat) option" where
  "run_entries db k = map_option (\<lambda>r. (ar_delegation r, ar_attempts r)) (row_get ar_id k (runs_table db))"

definition delegation_entries :: "agents_db \<Rightarrow> ident \<Rightarrow> (ident \<times> delegation_result option) option" where
  "delegation_entries db i = map_option (\<lambda>d. (dl_run d, dl_result d)) (row_get dl_id i (delegations_table db))"

definition stage :: "agents_db \<Rightarrow> ident \<Rightarrow> stage option" where
  "stage db i = (case delegation_entries db i of
     None \<Rightarrow> None
   | Some (k, Some r) \<Rightarrow> Some (Settled r)
   | Some (k, None) \<Rightarrow> Some (Open (case run_entries db k of None \<Rightarrow> 0 | Some (_, n) \<Rightarrow> n)))"

definition ledger_ok :: "agents_db \<Rightarrow> bool" where
  \<comment> \<open>a delegation has a run of its own, with at most three attempts\<close>
  "ledger_ok db = (distinct (map dl_id (delegations_table db)) \<and> (\<forall>i k r. delegation_entries db i = Some (k, r) \<longrightarrow> (\<exists>n\<le>3. run_entries db k = Some (Some i, n))))"

definition same_ledger :: "agents_db \<Rightarrow> agents_db \<Rightarrow> bool" where
  "same_ledger db db' = (run_entries db' = run_entries db \<and> delegation_entries db' = delegation_entries db
     \<and> map dl_id (delegations_table db') = map dl_id (delegations_table db))"

named_theorems ledger_frame \<open>operations that leave the abstract ledger alone\<close>

lemma same_ledger_refl [simp]: "same_ledger db db"
  by (simp add: same_ledger_def)

lemma same_ledger_trans: "same_ledger a b \<Longrightarrow> same_ledger b c \<Longrightarrow> same_ledger a c"
  by (simp add: same_ledger_def)

lemma same_ledger_stage: "same_ledger db db' \<Longrightarrow> stage db' = stage db"
  unfolding same_ledger_def stage_def by (elim conjE) (simp only:)

lemma same_ledger_ok: "same_ledger db db' \<Longrightarrow> ledger_ok db' = ledger_ok db"
  by (simp add: same_ledger_def ledger_ok_def)

lemma delegation_ids_save [simp]:
  "map dl_id (delegations_table (save_run vs r db)) = map dl_id (delegations_table db)"
  "map dl_id (delegations_table (save_delegation d db)) = map dl_id (delegations_table db)"
  by (simp_all add: save_run_def save_delegation_def rows.keys_put del: map_eq_conv)

lemma clean_run_core [simp]:
  "ar_id (clean_run vs r) = ar_id r" "ar_delegation (clean_run vs r) = ar_delegation r"
  "ar_attempts (clean_run vs r) = ar_attempts r"
  by (simp_all add: clean_run_def)

lemma get_run_Inr: "get_run db i = Inr r \<longleftrightarrow> row_get ar_id i (runs_table db) = Some r"
  by (auto simp: get_run_def split: option.splits)

lemma get_delegation_Inr: "get_delegation db i = Inr d \<longleftrightarrow> row_get dl_id i (delegations_table db) = Some d"
  by (auto simp: get_delegation_def split: option.splits)

lemma get_run_id: "get_run db i = Inr r \<Longrightarrow> ar_id r = i"
  by (auto simp: get_run_Inr dest: row_get_Some_key)

lemma run_entries_save:
  assumes "get_run db (ar_id r) = Inr r0"
  shows "run_entries (save_run vs r db) = (run_entries db)(ar_id r \<mapsto> (ar_delegation r, ar_attempts r))"
  using assms by (auto simp: run_entries_def save_run_def rows.get_put get_run_Inr fun_eq_iff)

lemma delegation_entries_save_run [simp]: "delegation_entries (save_run vs r db) = delegation_entries db"
  by (simp add: fun_eq_iff delegation_entries_def save_run_def)

lemma run_entries_save_delegation [simp]: "run_entries (save_delegation d db) = run_entries db"
  by (simp add: fun_eq_iff run_entries_def save_delegation_def)

lemma delegation_entries_save:
  assumes "get_delegation db (dl_id d) = Inr d0"
  shows "delegation_entries (save_delegation d db) = (delegation_entries db)(dl_id d \<mapsto> (dl_run d, dl_result d))"
  using assms by (auto simp: delegation_entries_def save_delegation_def rows.get_put get_delegation_Inr fun_eq_iff)

text \<open>Saving a run whose delegation and attempts did not change.\<close>

lemma same_save_run:
  assumes "get_run db i = Inr r0" "ar_id r = i" "ar_delegation r = ar_delegation r0" "ar_attempts r = ar_attempts r0"
  shows "same_ledger db (save_run vs r db)"
  using assms by (auto simp: same_ledger_def run_entries_save fun_eq_iff run_entries_def get_run_Inr simp del: map_eq_conv)

lemma same_save_delegation:
  assumes "get_delegation db i = Inr d0" "dl_id d = i" "dl_run d = dl_run d0" "dl_result d = dl_result d0"
  shows "same_ledger db (save_delegation d db)"
  using assms by (auto simp: same_ledger_def delegation_entries_save fun_eq_iff delegation_entries_def get_delegation_Inr simp del: map_eq_conv)

lemma transact_same:
  assumes "\<And>t x. res = Inr (t, x) \<Longrightarrow> same_ledger db t"
  shows "same_ledger db (fst (transact db res))"
  using assms by (auto simp: transact_def split: sum.splits)

section \<open>Operations that leave the ledger alone\<close>

lemma budget_owner_get: "budget_owner db r = Inr (Some s) \<Longrightarrow> get_run db (ar_id s) = Inr s"
  by (auto simp: budget_owner_def rbind_Inr_iff get_run_id split: if_splits)

lemma reserve_budget_same: "same_ledger db (fst (reserve_budget vs now r kind phase db))"
  using budget_owner_get [of db r]
  by (auto simp: reserve_budget_def split: sum.splits option.splits prod.splits intro: same_save_run)

lemma after_reserve_same:
  assumes "same_ledger db (fst res)" and "\<And>t x. body (fst res) = Inr (t, x) \<Longrightarrow> same_ledger (fst res) t"
  shows "same_ledger db (fst (after_reserve db res body))"
  using assms by (auto simp: after_reserve_def transact_def split: prod.splits sum.splits intro: same_ledger_trans)

lemma add_saved_same:
  assumes "\<And>r. ar_id (f r) = ar_id r \<and> ar_delegation (f r) = ar_delegation r \<and> ar_attempts (f r) = ar_attempts r"
    and "add_saved vs i f db = Inr (t, x)"
  shows "same_ledger db t"
  using assms(2) by (auto simp: add_saved_def rbind_Inr_iff get_run_id assms(1) intro!: same_save_run)

lemma update_supervisor_same [ledger_frame]: "same_ledger db (fst (update_supervisor vs i updates b db))"
  unfolding update_supervisor_def
  by (rule transact_same) (auto simp: rbind_Inr_iff Let_def get_run_id intro!: same_save_run)

lemma progress_same [ledger_frame]: "same_ledger db (fst (progress vs i updates db))"
  unfolding progress_def
  by (rule transact_same) (auto simp: rbind_Inr_iff get_run_id split: option.splits intro!: same_save_run)

lemma add_call_core: "ar_id (add_call k r) = ar_id r \<and> ar_delegation (add_call k r) = ar_delegation r
    \<and> ar_attempts (add_call k r) = ar_attempts r"
  by (cases k) (simp_all add: add_call_def)

lemma count_call_same [ledger_frame]: "same_ledger db (fst (count_call vs now i k limit db))"
  by (auto simp: count_call_def reserve_budget_same split: sum.splits
      intro!: after_reserve_same dest: add_saved_same [OF add_call_core])

lemma reserve_llm_same [ledger_frame]: "same_ledger db (fst (reserve_llm vs now i call_limit iteration_limit phase db))"
  by (auto simp: reserve_llm_def reserve_budget_same split: sum.splits
      intro!: after_reserve_same elim!: add_saved_same [rotated])

lemma run_usage_core [simp]: "ar_id (run_usage u r) = ar_id r" "ar_delegation (run_usage u r) = ar_delegation r"
  "ar_attempts (run_usage u r) = ar_attempts r"
  by (simp_all add: run_usage_def Let_def split: option.splits)

lemma add_usage_same [ledger_frame]: "same_ledger db (fst (add_usage vs i u db))"
  unfolding add_usage_def Let_def
proof (rule transact_same, unfold rbind_Inr_iff, elim exE conjE)
  fix t x r owner
  let ?r = "run_usage (case u of None \<Rightarrow> \<lparr>us_total = None, us_input = None, us_output = None\<rparr> | Some u \<Rightarrow> u) r"
  assume "get_run db i = Inr r" and o: "budget_owner (save_run vs ?r db) ?r = Inr owner"
    and res: "(case owner of None \<Rightarrow> Inr (save_run vs ?r db, ())
      | Some s \<Rightarrow> (case ar_budget s of None \<Rightarrow> Inr (save_run vs ?r db, ())
          | Some b \<Rightarrow> Inr (save_run vs (s\<lparr>ar_budget := Some (budget_usage
              (us_total (case u of None \<Rightarrow> \<lparr>us_total = None, us_input = None, us_output = None\<rparr> | Some u \<Rightarrow> u)) b)\<rparr>)
              (save_run vs ?r db), ()))) = Inr (t, x)"
  then have one: "same_ledger db (save_run vs ?r db)" by (intro same_save_run [of db i r]) (simp_all add: get_run_id)
  show "same_ledger db t"
    using one res o budget_owner_get [of "save_run vs ?r db" ?r]
    by (auto split: option.splits intro!: same_ledger_trans [OF one] same_save_run)
qed

lemma record_pre_calls_same [ledger_frame]: "same_ledger db (fst (record_pre_calls vs i a b db))"
  unfolding record_pre_calls_def Let_def
  by (rule transact_same) (auto simp: rbind_Inr_iff get_run_id intro!: same_save_run)

lemma pause_budget_same [ledger_frame]: "same_ledger db (fst (pause_budget vs now i db))"
  unfolding pause_budget_def
  by (rule transact_same) (auto simp: rbind_Inr_iff get_run_id split: option.splits intro!: same_save_run)

lemma claim_memory_same [ledger_frame]: "same_ledger db (fst (claim_memory vs i db))"
  unfolding claim_memory_def
  by (rule transact_same) (auto simp: rbind_Inr_iff get_run_id split: if_splits intro!: same_save_run)

lemma update_runs_same:
  assumes "\<And>r. ar_id (f r) = ar_id r \<and> ar_delegation (f r) = ar_delegation r \<and> ar_attempts (f r) = ar_attempts r"
  shows "same_ledger db (db\<lparr>runs_table := update_where P f (runs_table db)\<rparr>)"
  using assms
  by (auto simp: same_ledger_def run_entries_def delegation_entries_def row_get_def fun_eq_iff
      find_update_where option.map_comp o_def intro!: option.map_cong)

lemma recover_runs_same [ledger_frame]: "same_ledger db (recover_runs vs db)"
  unfolding recover_runs_def by (rule update_runs_same) simp

lemma cancel_delegation_same:
  assumes "cancel_delegation vs db d = Inr t" and "get_delegation db (dl_id d) = Inr e"
    "dl_run e = dl_run d" "dl_result e = dl_result d"
  shows "same_ledger db t"
proof -
  from assms(1) obtain r where r: "get_run db (dl_run d) = Inr r"
    and t: "t = save_delegation (d\<lparr>dl_status := Run_cancelled\<rparr>) (save_run vs (r\<lparr>ar_status := Run_cancelled\<rparr>) db)"
    by (auto simp: cancel_delegation_def rbind_Inr_iff)
  have "same_ledger db (save_run vs (r\<lparr>ar_status := Run_cancelled\<rparr>) db)"
    by (rule same_save_run [OF r]) (simp_all add: get_run_id [OF r])
  moreover have "get_delegation (save_run vs (r\<lparr>ar_status := Run_cancelled\<rparr>) db) (dl_id d) = Inr e"
    using assms(2) by (simp add: get_delegation_def save_run_def)
  then have "same_ledger (save_run vs (r\<lparr>ar_status := Run_cancelled\<rparr>) db) t"
    unfolding t by (rule same_save_delegation) (use assms in simp_all)
  ultimately show ?thesis by (rule same_ledger_trans)
qed

lemma cancel_delegations_same:
  assumes "rfold (cancel_delegation vs) db ds = Inr t"
    and "\<forall>d\<in>set ds. delegation_entries db (dl_id d) = Some (dl_run d, dl_result d)"
  shows "same_ledger db t"
  using assms
proof (induction ds arbitrary: db)
  case (Cons d ds)
  then obtain u where u: "cancel_delegation vs db d = Inr u" "rfold (cancel_delegation vs) u ds = Inr t"
    by (auto simp: rbind_Inr_iff)
  obtain e where "get_delegation db (dl_id d) = Inr e" "dl_run e = dl_run d" "dl_result e = dl_result d"
    using Cons.prems(2) by (auto simp: delegation_entries_def get_delegation_Inr)
  then have s: "same_ledger db u" by (rule cancel_delegation_same [OF u(1)])
  then have "\<forall>d\<in>set ds. delegation_entries u (dl_id d) = Some (dl_run d, dl_result d)"
    using Cons.prems(2) by (simp add: same_ledger_def)
  then show ?case using Cons.IH [OF u(2)] s by (blast intro: same_ledger_trans)
qed simp

lemma cancel_runs_same [ledger_frame]:
  assumes "distinct (map dl_id (delegations_table db))"
  shows "same_ledger db (fst (cancel_runs vs task db))"
  unfolding cancel_runs_def
proof (rule transact_same, unfold rbind_Inr_iff, elim exE conjE)
  fix t x u
  assume "rfold (cancel_delegation vs) db (filter (\<lambda>d. dl_task d = Some task \<and> dl_status d \<in> {Run_pending, Run_running})
      (delegations_table db)) = Inr u"
    and t: "Inr (u\<lparr>runs_table := update_where
            (\<lambda>r. ar_task r = Some task \<and> ar_status r \<in> {Run_pending, Run_running, Run_interrupted})
            (\<lambda>r. clean_run vs (r\<lparr>ar_status := Run_cancelled\<rparr>)) (runs_table u)\<rparr>, ()) = Inr (t, x)"
  then have "same_ledger db u"
    using assms by (intro cancel_delegations_same) (auto simp: delegation_entries_def row_get_in)
  then show "same_ledger db t" using t by (auto intro!: same_ledger_trans [OF _ update_runs_same])
qed

section \<open>Operations that move one delegation\<close>

definition refines :: "agents_db \<Rightarrow> agents_db \<Rightarrow> bool" where
  "refines db db' = (ledger_ok db' \<and> (stage db' = stage db \<or> ledger_step (stage db) (stage db')))"

lemma same_refines: "ledger_ok db \<Longrightarrow> same_ledger db db' \<Longrightarrow> refines db db'"
  by (simp add: refines_def same_ledger_ok same_ledger_stage)

lemma transact_refines:
  assumes "ledger_ok db" and "\<And>t x. res = Inr (t, x) \<Longrightarrow> refines db t"
  shows "refines db (fst (transact db res))"
  using assms by (auto simp: transact_def refines_def split: sum.splits)

lemma ledger_step_at: "stage_step (f i) s \<Longrightarrow> g = f(i := s) \<Longrightarrow> ledger_step f g"
  by (simp add: ledger_step.moved)

lemma append_run_refines:
  assumes ok: "ledger_ok db" and fresh: "row_get ar_id (ar_id r) (runs_table db) = None"
  shows "refines db (db\<lparr>runs_table := runs_table db @ [r]\<rparr>)"
proof -
  let ?t = "db\<lparr>runs_table := runs_table db @ [r]\<rparr>"
  have rs: "run_entries ?t = (run_entries db)(ar_id r \<mapsto> (ar_delegation r, ar_attempts r))"
    using fresh by (auto simp: fun_eq_iff run_entries_def row_get_append row_get_single split: option.splits)
  have ds: "delegation_entries ?t = delegation_entries db" by (simp add: fun_eq_iff delegation_entries_def)
  have other: "k \<noteq> ar_id r" if "delegation_entries db i = Some (k, x)" for i k x
    using ok that fresh by (fastforce simp: ledger_ok_def run_entries_def)
  have "stage ?t i = stage db i" for i
    using other [of i] by (auto simp: stage_def rs ds split: option.splits)
  then have "stage ?t = stage db" by (rule ext)
  moreover have "ledger_ok ?t" using ok other by (auto simp: ledger_ok_def rs ds)
  ultimately show ?thesis by (simp add: refines_def)
qed

lemma create_supervisor_refines:
  assumes ok: "ledger_ok db"
  shows "refines db (fst (create_supervisor vs eff now fresh task goal mode metadata db))"
  unfolding create_supervisor_def Let_def
proof (rule transact_refines [OF ok], unfold rbind_Inr_iff, elim exE conjE)
  fix t x u
  assume "(case if truthy task then supervisors_of db (the task) else [] of
       [] \<Rightarrow> rbind (case eff of None \<Rightarrow> Inr None | Some l \<Rightarrow> rbind (initial now l) (\<lambda>b. Inr (Some b)))
         (\<lambda>b. rbind (row_insert ar_id ((new_run fresh task None ''supervisor'' goal)
                \<lparr>ar_status := Run_running, ar_started := Some now, ar_mode := Some mode, ar_notes := metadata, ar_budget := b\<rparr>)
              (runs_table db))
           (\<lambda>rs. Inr (db\<lparr>runs_table := rs\<rparr>, (new_run fresh task None ''supervisor'' goal)
                \<lparr>ar_status := Run_running, ar_started := Some now, ar_mode := Some mode, ar_notes := metadata, ar_budget := b\<rparr>)))
     | s # _ \<Rightarrow> Inr (db, s)) = Inr (t, x)"
  then show "refines db t"
    using ok by (cases "if truthy task then supervisors_of db (the task) else []")
      (auto simp: rbind_Inr_iff row_insert_Inr same_refines intro!: append_run_refines)
qed

lemma insert_delegation_refines:
  assumes ok: "ledger_ok db" and ins: "insert_delegation now fresh q db = Inr (t, x)"
  shows "refines db t"
proof -
  let ?r = "delegated_run fresh q" and ?d = "delegation_of now fresh q"
  have t: "t = db\<lparr>runs_table := runs_table db @ [?r], delegations_table := delegations_table db @ [?d]\<rparr>"
    and new: "row_get ar_id fresh (runs_table db) = None" "row_get dl_id (dq_id q) (delegations_table db) = None"
    using ins by (auto simp: insert_delegation_def rbind_Inr_iff row_insert_Inr delegated_run_def new_run_def
        delegation_of_def split: if_splits)
  have id: "ar_id ?r = fresh" "ar_delegation ?r = Some (dq_id q)" "ar_attempts ?r = 0"
    "dl_id ?d = dq_id q" "dl_run ?d = fresh" "dl_result ?d = None"
    by (simp_all add: delegated_run_def new_run_def delegation_of_def)
  have rs: "run_entries t = (run_entries db)(fresh \<mapsto> (Some (dq_id q), 0))"
    using new by (auto simp: fun_eq_iff t id run_entries_def row_get_append row_get_single split: option.splits)
  have ds: "delegation_entries t = (delegation_entries db)(dq_id q \<mapsto> (fresh, None))"
    using new by (auto simp: fun_eq_iff t id delegation_entries_def row_get_append row_get_single split: option.splits)
  have none: "delegation_entries db (dq_id q) = None" using new by (simp add: delegation_entries_def)
  have other: "k \<noteq> fresh" if "delegation_entries db i = Some (k, y)" for i k y
    using ok that new(1) by (fastforce simp: ledger_ok_def run_entries_def)
  have to: "stage t = (stage db)(dq_id q := Some (Open 0))"
    using other by (auto simp: fun_eq_iff stage_def rs ds split: option.splits)
  have was: "stage db (dq_id q) = None" by (simp add: stage_def none)
  have "ledger_step (stage db) (stage t)" by (rule ledger_step_at [OF _ to]) (simp add: was stage_step.created)
  moreover have "ledger_ok t"
  proof -
    have "distinct (map dl_id (delegations_table t))" using ok new(2) by (auto simp: ledger_ok_def row_get_None_iff t id)
    then show ?thesis using ok other unfolding ledger_ok_def rs ds by auto
  qed
  ultimately show ?thesis by (simp add: refines_def)
qed

lemma create_delegation_refines:
  assumes ok: "ledger_ok db"
  shows "refines db (fst (create_delegation vs now fresh q maximum db))"
proof -
  have "refines db (fst (after_reserve db (reserve_budget vs now s Delegations ph db) (insert_delegation now fresh q)))" for s ph
  proof -
    let ?res = "reserve_budget vs now s Delegations ph db"
    have s: "same_ledger db (fst ?res)" by (rule reserve_budget_same)
    then have "ledger_ok (fst ?res)" using ok by (simp add: same_ledger_ok)
    then have "refines db t" if "insert_delegation now fresh q (fst ?res) = Inr (t, x)" for t x
      using insert_delegation_refines [OF _ that] s by (simp add: refines_def same_ledger_stage)
    then show ?thesis using s ok
      by (auto simp: after_reserve_def transact_def same_refines split: prod.splits sum.splits)
  qed
  then show ?thesis using ok by (simp add: create_delegation_def same_refines split: option.splits sum.splits)
qed

lemma start_run_refines:
  assumes ok: "ledger_ok db"
  shows "refines db (fst (start_run vs now i db))"
  unfolding start_run_def Let_def
proof (rule transact_refines [OF ok], unfold rbind_Inr_iff, elim exE conjE)
  fix t x and d :: delegation and r :: agent_run
  let ?r = "r\<lparr>ar_status := Run_running, ar_started := or_time (ar_started r) now, ar_attempts := Suc (ar_attempts r)\<rparr>"
  let ?d = "d\<lparr>dl_status := Run_running, dl_started := ar_started ?r\<rparr>"
  assume d: "get_delegation db i = Inr d" and r: "get_run db (dl_run d) = Inr r"
    and res: "(if dl_result d \<noteq> None then Inr (db, r)
         else if 3 < ar_attempts ?r then Inl (TaskConflict ''Agent recovery attempts exhausted'')
         else Inr (save_delegation ?d (save_run vs ?r db), ?r)) = Inr (t, x)"
  show "refines db t"
  proof (cases "dl_result d = None")
    case False
    then show ?thesis using res ok by (simp add: same_refines)
  next
    case True
    then have t: "t = save_delegation ?d (save_run vs ?r db)" and n: "ar_attempts r < 3"
      using res by (auto split: if_splits)
    have id: "dl_id d = i" using d by (auto simp: get_delegation_Inr dest: row_get_Some_key)
    have en: "delegation_entries db i = Some (dl_run d, None)" "run_entries db (dl_run d) = Some (ar_delegation r, ar_attempts r)"
      using d r True by (simp_all add: delegation_entries_def run_entries_def get_delegation_Inr get_run_Inr)
    have rs: "run_entries t = (run_entries db)(dl_run d \<mapsto> (ar_delegation r, Suc (ar_attempts r)))"
      using run_entries_save [of db ?r r vs] r by (simp add: t get_run_id [OF r])
    have "get_delegation (save_run vs ?r db) (dl_id ?d) = Inr d" using d id by (simp add: get_delegation_def save_run_def)
    then have ds: "delegation_entries t = delegation_entries db"
      unfolding t by (subst delegation_entries_save) (auto simp: fun_eq_iff id en True)
    have own: "ar_delegation r = Some i" using ok en unfolding ledger_ok_def by fastforce
    have other: "k \<noteq> dl_run d" if "delegation_entries db j = Some (k, y)" "j \<noteq> i" for j k y
      using ok that en(2) own unfolding ledger_ok_def by fastforce
    have to: "stage t = (stage db)(i := Some (Open (Suc (ar_attempts r))))"
      using en other by (auto simp: fun_eq_iff stage_def rs ds split: option.splits)
    have was: "stage db i = Some (Open (ar_attempts r))" by (simp add: stage_def en)
    have "ledger_step (stage db) (stage t)"
      by (rule ledger_step_at [OF _ to]) (simp add: was stage_step.attempted n)
    moreover have "ledger_ok t"
    proof -
      have "map dl_id (delegations_table t) = map dl_id (delegations_table db)" unfolding t by (simp only: delegation_ids_save)
      moreover have "\<exists>m\<le>3. run_entries t k = Some (Some j, m)" if "delegation_entries t j = Some (k, y)" for j k y
        using ok that n own other [of j k y] en unfolding rs ds ledger_ok_def by (cases "j = i") auto
      ultimately show ?thesis using ok by (simp add: ledger_ok_def)
    qed
    ultimately show ?thesis by (simp add: refines_def)
  qed
qed

lemma finish_refines:
  assumes ok: "ledger_ok db"
  shows "refines db (fst (finish vs now i res failure db))"
proof (cases "result_valid res")
  case True
  show ?thesis unfolding finish_def Let_def using True
  proof (simp only: not_True_eq_False if_False, intro transact_refines [OF ok], unfold rbind_Inr_iff, elim exE conjE)
    fix t x and d :: delegation
    let ?r = "\<lambda>r::agent_run. r\<lparr>ar_status := run_status_of (rs_status res), ar_completed := Some now,
                  ar_duration := Some (run_duration (ar_started r) now), ar_output := rs_summary res,
                  ar_error := failure, ar_message := failure,
                  ar_evidence_count := Some (length (rs_evidence_ids res)),
                  ar_artifact_count := Some (length (rs_artifact_ids res))\<rparr>"
    let ?d = "d\<lparr>dl_status := run_status_of (rs_status res), dl_completed := Some now, dl_result := Some (clean_result vs res)\<rparr>"
    assume d: "get_delegation db i = Inr d"
      and res: "(case dl_result d of
          None \<Rightarrow> if rs_delegation_id res \<noteq> i \<or> rs_agent_id res \<noteq> dl_agent d then Inl (Value_Error ''Result identity mismatch'')
             else rbind (get_run db (dl_run d)) (\<lambda>r. Inr (save_delegation ?d (save_run vs (?r r) db), clean_result vs res))
        | Some old \<Rightarrow> Inr (db, old)) = Inr (t, x)"
    show "refines db t"
    proof (cases "dl_result d")
      case (Some old)
      then show ?thesis using res ok by (simp add: same_refines)
    next
      case None
      then obtain r where r: "get_run db (dl_run d) = Inr r" and t: "t = save_delegation ?d (save_run vs (?r r) db)"
        using res by (auto simp: rbind_Inr_iff split: if_splits)
      have id: "dl_id d = i" using d by (auto simp: get_delegation_Inr dest: row_get_Some_key)
      have en: "delegation_entries db i = Some (dl_run d, None)"
        using d None by (simp add: delegation_entries_def get_delegation_Inr)
      have s: "same_ledger db (save_run vs (?r r) db)" by (rule same_save_run [OF r]) (simp_all add: get_run_id [OF r])
      then have rs: "run_entries t = run_entries db" by (simp add: t same_ledger_def)
      have "get_delegation (save_run vs (?r r) db) (dl_id ?d) = Inr d" using d id by (simp add: get_delegation_def save_run_def)
      then have ds: "delegation_entries t = (delegation_entries db)(i \<mapsto> (dl_run d, Some (clean_result vs res)))"
        unfolding t by (subst delegation_entries_save) (auto simp: id)
      have to: "stage t = (stage db)(i := Some (Settled (clean_result vs res)))"
        by (auto simp: fun_eq_iff stage_def rs ds split: option.splits)
      obtain n where was: "stage db i = Some (Open n)" by (simp add: stage_def en)
      have "ledger_step (stage db) (stage t)" by (rule ledger_step_at [OF _ to]) (simp add: was stage_step.settled)
      moreover have "ledger_ok t"
      proof -
        have "map dl_id (delegations_table t) = map dl_id (delegations_table db)" unfolding t by (simp only: delegation_ids_save)
        then show ?thesis using ok en unfolding ledger_ok_def rs ds by (auto split: if_splits)
      qed
      ultimately show ?thesis by (simp add: refines_def)
    qed
  qed
qed (simp add: finish_def same_refines ok)

section \<open>The ledger as a machine\<close>

datatype ledger_op =
    L_supervisor "limits option" time ident "ident option" string string "(string, json) dict"
  | L_update ident "(string, json) dict" "budget option"
  | L_delegate time ident delegation_request int
  | L_start time ident
  | L_progress ident "(string, json) dict"
  | L_count time ident call_kind int
  | L_llm time ident int int string
  | L_usage ident "usage option"
  | L_pre_calls ident nat nat
  | L_pause time ident
  | L_finish time ident delegation_result "string option"
  | L_recover
  | L_cancel ident
  | L_memory ident

fun ledger_exec :: "string list \<Rightarrow> ledger_op \<Rightarrow> agents_db \<Rightarrow> agents_db" where
  "ledger_exec vs (L_supervisor eff now i task goal mode d) db = fst (create_supervisor vs eff now i task goal mode d db)"
| "ledger_exec vs (L_update i updates b) db = fst (update_supervisor vs i updates b db)"
| "ledger_exec vs (L_delegate now i q m) db = fst (create_delegation vs now i q m db)"
| "ledger_exec vs (L_start now i) db = fst (start_run vs now i db)"
| "ledger_exec vs (L_progress i updates) db = fst (progress vs i updates db)"
| "ledger_exec vs (L_count now i k n) db = fst (count_call vs now i k n db)"
| "ledger_exec vs (L_llm now i n m phase) db = fst (reserve_llm vs now i n m phase db)"
| "ledger_exec vs (L_usage i u) db = fst (add_usage vs i u db)"
| "ledger_exec vs (L_pre_calls i a b) db = fst (record_pre_calls vs i a b db)"
| "ledger_exec vs (L_pause now i) db = fst (pause_budget vs now i db)"
| "ledger_exec vs (L_finish now i r e) db = fst (finish vs now i r e db)"
| "ledger_exec vs L_recover db = recover_runs vs db"
| "ledger_exec vs (L_cancel task) db = fst (cancel_runs vs task db)"
| "ledger_exec vs (L_memory i) db = fst (claim_memory vs i db)"

lemma ledger_exec_refines: "ledger_ok db \<Longrightarrow> refines db (ledger_exec vs x db)"
  by (cases x) (simp_all add: same_refines ledger_frame create_supervisor_refines create_delegation_refines
      start_run_refines finish_refines ledger_ok_def [THEN iffD1, THEN conjunct1])

interpretation ledger: refined_machine "ledger_exec vs" "\<lambda>db x. True" ledger_ok stage ledger_step for vs
proof unfold_locales
  fix s x assume "ledger_ok s"
  then have "refines s (ledger_exec vs x s)" by (rule ledger_exec_refines)
  then show "ledger_ok (ledger_exec vs x s)"
    and "stage (ledger_exec vs x s) = stage s \<or> ledger_step (stage s) (stage (ledger_exec vs x s))"
    by (simp_all add: refines_def)
qed

text \<open>
  C30: the ledger of delegations implements its specification.  Whatever sequence of operations runs on it,
  raising or not, its abstraction only makes the moves of the specification: a delegation is opened once, is
  attempted at most three times, and is settled once; a settled result is never changed.
\<close>

theorem ledger_refines_specification:
  assumes "ledger.reaches vs db db'" and "ledger_ok db"
  shows "ledger_step\<^sup>*\<^sup>* (stage db) (stage db') \<and> ledger_ok db'
    \<and> {(i, r). stage db i = Some (Settled r)} \<subseteq> {(i, r). stage db' i = Some (Settled r)}"
proof -
  have r: "ledger_step\<^sup>*\<^sup>* (stage db) (stage db')" using assms by (rule ledger.reaches_refines)
  moreover have "ledger_ok db'" using assms by (rule ledger.reaches_invar)
  ultimately show ?thesis using settled_stays_settled [OF r] by auto
qed

text \<open>A supervisor and a delegation requested twice; then two operations that raise.\<close>

definition empty_ledger :: agents_db where
  "empty_ledger = \<lparr>runs_table = [], delegations_table = []\<rparr>"

definition sample_request :: delegation_request where
  "sample_request = \<lparr>dq_id = ''d'', dq_task_id = Some ''t'', dq_parent_step_id = None, dq_supervisor_run_id = ''s'',
     dq_agent_id = ''w'', dq_objective = ''f'', dq_required = [],
     dq_context = \<lparr>dc_goal = ''g'', dc_constraints = [], dc_workspace_id = None, dc_scope = Scope_workspace,
        dc_memory_ids = [], dc_evidence_ids = [], dc_dataset_ids = [], dc_artifact_ids = [], dc_notes = []\<rparr>,
     dq_expected_output = ''e'', dq_priority = 0, dq_allowed_tools = [], dq_max_iterations = 4,
     dq_max_tool_calls = 4, dq_depth = 1, dq_group = 0, dq_revision_of = None, dq_supplementary = None,
     dq_force_refresh = False\<rparr>"

definition sample_ops :: "ledger_op list" where
  "sample_ops = [L_supervisor None 0 ''s'' None ''g'' ''m'' [], L_delegate 1 ''r'' sample_request 8,
     L_delegate 2 ''q'' sample_request 8, L_start 3 ''x'', L_count 4 ''r'' Call_llm 0]"

lemma sample_run_eval:
  "stage (fold (ledger_exec []) sample_ops empty_ledger) ''d'' = Some (Open 0)"
  by code_simp

lemma empty_ledger_ok: "ledger_ok empty_ledger"
  by (simp add: empty_ledger_def ledger_ok_def delegation_entries_def)

theorem ledger_refines_specification_witness:
  "ledger_step\<^sup>*\<^sup>* (stage empty_ledger) (stage (ledger.run [] sample_ops empty_ledger))
   \<and> stage (ledger.run [] sample_ops empty_ledger) ''d'' = Some (Open 0)"
proof -
  have "ledger.reaches [] empty_ledger (ledger.run [] sample_ops empty_ledger)" by (rule ledger.run_reaches) simp
  from ledger_refines_specification [OF this empty_ledger_ok]
  have "ledger_step\<^sup>*\<^sup>* (stage empty_ledger) (stage (ledger.run [] sample_ops empty_ledger))" by (rule conjunct1)
  moreover have "ledger.run [] xs s = fold (ledger_exec []) xs s" for xs s by (induction xs arbitrary: s) simp_all
  ultimately show ?thesis using sample_run_eval by simp
qed

end
