(* ===== verification/Agent_Registry.thy ===== *)
theory Agent_Registry
  imports Agent_Schemas Ordering
begin

text \<open>
  \<open>server/agent_registry.py\<close>: the agents the operator registered, and the check every delegation request
  passes before it is stored and again before it runs.  A snapshot is the registry's dictionary at that
  moment.  Configuration values are looked up by name; an absent value is \<open>None\<close>.
\<close>

type_synonym agents = "(ident, agent_descriptor) dict"
type_synonym int_config = "string \<Rightarrow> int option"

definition setting :: "int_config \<Rightarrow> string \<Rightarrow> int \<Rightarrow> int" where
  "setting cfg k v = (case cfg k of None \<Rightarrow> v | Some n \<Rightarrow> n)"

definition register :: "agent_descriptor \<Rightarrow> agents \<Rightarrow> agents result" where
  "register a reg =
     (if \<not> agent_descriptor_ok a then Inl (Provider_Error ''ValidationError'')
      else if ag_can_delegate a \<and> ag_id a \<noteq> ''supervisor''
      then Inl (Delegation_Rejected ''Only the supervisor may delegate'')
      else if map_of reg (ag_id a) \<noteq> None then Inl (Value_Error ''Agent already registered'')
      else Inr (dict_put (ag_id a) a reg))"

definition list_agents :: "agents \<Rightarrow> agent_descriptor list" where
  "list_agents reg = map snd reg"

definition get_agent :: "agents \<Rightarrow> ident \<Rightarrow> agent_descriptor result" where
  "get_agent reg i = (case map_of reg i of
     None \<Rightarrow> Inl (Agent_Unavailable (''Agent unavailable: '' @ i))
   | Some a \<Rightarrow> if ag_enabled a then Inr a else Inl (Agent_Unavailable (''Agent unavailable: '' @ i)))"

definition capable :: "agents \<Rightarrow> string \<Rightarrow> agent_descriptor list" where
  "capable reg c = filter (\<lambda>a. ag_enabled a \<and> c \<in> set (ag_capabilities a)) (list_agents reg)"

definition find_by_capability :: "agents \<Rightarrow> string \<Rightarrow> agent_descriptor list result" where
  "find_by_capability reg c =
     (if capable reg c = [] then Inl (Capability_Unavailable (''Agent capability unavailable: '' @ c))
      else Inr (sort_by (\<lambda>a b. str_le (ag_id a) (ag_id b)) (capable reg c)))"

definition specialist :: "agents \<Rightarrow> string \<Rightarrow> agent_descriptor result" where
  \<comment> \<open>\<open>find_by_capability(c, snapshot)[0]\<close>\<close>
  "specialist reg c = rbind (find_by_capability reg c) (\<lambda>as. Inr (hd as))"

definition set_enabled :: "ident \<Rightarrow> bool \<Rightarrow> agents \<Rightarrow> agents result" where
  "set_enabled i on reg = (case map_of reg i of
     None \<Rightarrow> Inl (Agent_Unavailable i)
   | Some a \<Rightarrow> Inr (dict_put i (a\<lparr>ag_enabled := on\<rparr>) reg))"

definition validate_request :: "agents \<Rightarrow> int_config \<Rightarrow> bool \<Rightarrow> nat \<Rightarrow> delegation_request \<Rightarrow> delegation_request result" where
  "validate_request reg cfg cancelled delegation_count q =
     (if \<not> request_valid q then Inl (Provider_Error ''ValidationError'')
      else rbind (get_agent reg (dq_agent_id q)) (\<lambda>a.
        if cancelled \<or> dq_agent_id q = ''supervisor''
        then Inl (Delegation_Rejected ''Task cancelled or recursive delegation'')
        else if dq_required q = [] \<or> \<not> set (dq_required q) \<subseteq> set (ag_capabilities a)
        then Inl (Capability_Unavailable ''Agent capability mismatch'')
        else if \<not> set (dq_allowed_tools q) \<subseteq> set (ag_tool_capabilities a)
        then Inl (Delegation_Rejected ''Tool permission violation'')
        else if ag_max_iterations a < dq_max_iterations q \<or> ag_max_tool_calls a < dq_max_tool_calls q
        then Inl (Delegation_Rejected ''Agent budget exceeded'')
        else if min 1 (setting cfg ''MULTI_AGENT_MAX_DEPTH'' 1) < int (dq_depth q)
        then Inl (Delegation_Rejected ''Delegation depth exceeded'')
        else if setting cfg ''MULTI_AGENT_MAX_DELEGATIONS'' 8 \<le> int delegation_count
        then Inl (Delegation_Rejected ''Delegation count exceeded'')
        else if dq_expected_output q \<noteq> ag_output_contract a
        then Inl (Delegation_Rejected ''Output contract mismatch'')
        else Inr q))"

section \<open>The default registry\<close>

definition default_agents :: "(ident \<times> string \<times> string list \<times> string list \<times> string) list" where
  "default_agents =
     [(''supervisor'', ''Supervisor'', [''orchestrate.route'', ''orchestrate.delegate'', ''orchestrate.synthesize''], [],
       ''SupervisorPlan''),
      (''research'', ''Research Agent'',
       [''research.document'', ''research.web'', ''research.academic'', ''research.github'', ''research.compare''],
       [''workspace.search'', ''document.search'', ''web.search'', ''arxiv.search'', ''github.repo.read'',
        ''github.file.read'', ''github.code.search'', ''github.issue.read'', ''github.pr.read'', ''github.issue.list'',
        ''github.pr.list''], ''ResearchAgentResult''),
      (''data'', ''Data Agent'', [''data.inspect'', ''data.analyze'', ''data.visualize'', ''data.compare''],
       [''dataset.inspect'', ''data.analyze''], ''DataAgentResult''),
      (''coding'', ''Coding Agent'', [''code.inspect'', ''code.explain'', ''code.review'', ''code.propose_patch''],
       [''github.repo.read'', ''github.file.read'', ''github.code.search''], ''CodingAgentResult''),
      (''reviewer'', ''Reviewer Agent'',
       [''review.evidence'', ''review.completeness'', ''review.consistency'', ''review.requirements''],
       [''evidence.read'', ''artifact.read''], ''ReviewerResult'')]"

definition default_descriptor ::
  "int_config \<Rightarrow> ident \<times> string \<times> string list \<times> string list \<times> string \<Rightarrow> agent_descriptor result" where
  "default_descriptor cfg d =
     (case d of (i, name, caps, tools, contract) \<Rightarrow>
        let prefix = to_upper i @ ''_AGENT'';
            iterations = setting cfg (prefix @ ''_MAX_ITERATIONS'')
              (if i = ''supervisor'' then setting cfg ''MULTI_AGENT_SUPERVISOR_MAX_LLM_CALLS'' 10
               else if i \<noteq> ''reviewer'' then 4 else 2);
            tool_calls = setting cfg (prefix @ ''_MAX_TOOL_CALLS'') (if i \<noteq> ''reviewer'' then 4 else 0)
        in if iterations < 1 \<or> 12 < iterations \<or> tool_calls < 0 \<or> 16 < tool_calls
           then Inl (Provider_Error ''ValidationError'')
           else Inr \<lparr>ag_id = i, ag_name = name, ag_description = name @ '' with bounded structured results'',
             ag_capabilities = caps, ag_tool_capabilities = tools, ag_can_delegate = (i = ''supervisor''),
             ag_enabled = True, ag_max_iterations = nat iterations, ag_max_tool_calls = nat tool_calls,
             ag_context_policy = ''selected_structured_context'', ag_output_contract = contract\<rparr>)"

definition default_registry :: "int_config \<Rightarrow> agents result" where
  "default_registry cfg =
     rfold (\<lambda>reg d. rbind (default_descriptor cfg d) (\<lambda>a. register a reg)) [] default_agents"

section \<open>What lookups return\<close>

lemma specialist_Inr:
  assumes "specialist reg c = Inr a"
  shows "a \<in> set (list_agents reg)" and "ag_enabled a" and "c \<in> set (ag_capabilities a)"
proof -
  from assms have "capable reg c \<noteq> []" and a: "a = hd (sort_by (\<lambda>a b. str_le (ag_id a) (ag_id b)) (capable reg c))"
    by (auto simp: specialist_def find_by_capability_def rbind_Inr_iff split: if_splits)
  then have "a \<in> set (capable reg c)"
    by (metis hd_in_set length_0_conv length_sort_by set_sort_by)
  then show "a \<in> set (list_agents reg)" and "ag_enabled a" and "c \<in> set (ag_capabilities a)"
    by (auto simp: capable_def)
qed

lemma validate_request_Inr:
  assumes "validate_request reg cfg cancelled n q = Inr r"
  obtains a where "r = q" "map_of reg (dq_agent_id q) = Some a" "ag_enabled a" "dq_agent_id q \<noteq> ''supervisor''"
    "dq_required q \<noteq> []" "set (dq_required q) \<subseteq> set (ag_capabilities a)"
    "set (dq_allowed_tools q) \<subseteq> set (ag_tool_capabilities a)" "dq_max_iterations q \<le> ag_max_iterations a"
    "dq_max_tool_calls q \<le> ag_max_tool_calls a" "dq_depth q = 1" "dq_expected_output q = ag_output_contract a"
    "int n < setting cfg ''MULTI_AGENT_MAX_DELEGATIONS'' 8" "\<not> cancelled"
proof -
  from assms obtain a where a: "get_agent reg (dq_agent_id q) = Inr a" and "request_valid q"
    by (auto simp: validate_request_def rbind_Inr_iff split: if_splits)
  then have "map_of reg (dq_agent_id q) = Some a" "ag_enabled a" "1 \<le> dq_depth q"
    by (auto simp: get_agent_def request_valid_def split: option.splits if_splits)
  then show thesis using assms a
    by (intro that [of a]) (auto simp: validate_request_def split: if_splits)
qed

end
