(* ===== verification/Efficiency.thy ===== *)
theory Efficiency
  imports Agent_Schemas Context_Harness Evidence Budget "HOL-Library.Sublist"
begin

text \<open>
  The deterministic decisions of \<open>server/agent/efficiency.py\<close>: cache identities, the cost decision, the
  removal of overlapping delegations, and the evidence a worker is given.  SHA-256 and the writing of
  floats are parameters.  On ASCII goals the alternatives of a pattern that hold other characters cannot
  match; they are left out of the patterns.
\<close>

section \<open>Identities\<close>

fun sort_keys :: "json \<Rightarrow> json" where
  "sort_keys (JObj kvs) = JObj (sort_by (\<lambda>a b. str_le (fst a) (fst b)) (map (\<lambda>(k, v). (k, sort_keys v)) kvs))"
| "sort_keys (JList vs) = JList (map sort_keys vs)"
| "sort_keys v = v"

definition digest :: "(string \<Rightarrow> string) \<Rightarrow> (rat \<Rightarrow> string) \<Rightarrow> json \<Rightarrow> string" where
  "digest sha fl v = sha (dumps_plain fl (sort_keys v))"

definition normalized_objective :: "string \<Rightarrow> string" where
  "normalized_objective text = sub (Plus (Cls is_space)) (\<lambda>_. '' '') (casefold (strip text))"

definition scope_name :: "scope \<Rightarrow> string" where
  "scope_name s = (case s of Scope_workspace \<Rightarrow> ''workspace_only'' | Scope_workspace_external \<Rightarrow> ''workspace_and_external''
     | Scope_external \<Rightarrow> ''external'')"

definition opt_json :: "string option \<Rightarrow> json" where
  "opt_json v = (case v of None \<Rightarrow> JNull | Some s \<Rightarrow> JStr s)"

definition texts_json :: "string list \<Rightarrow> json" where
  "texts_json ts = JList (map JStr ts)"

definition context_json :: "delegation_context \<Rightarrow> json" where
  \<comment> \<open>\<open>model_dump(exclude={'notes'})\<close>\<close>
  "context_json c = JObj [(''user_goal'', JStr (dc_goal c)), (''constraints'', texts_json (dc_constraints c)),
     (''workspace_id'', opt_json (dc_workspace_id c)), (''source_scope'', JStr (scope_name (dc_scope c))),
     (''relevant_memory_ids'', texts_json (dc_memory_ids c)), (''evidence_ids'', texts_json (dc_evidence_ids c)),
     (''dataset_ids'', texts_json (dc_dataset_ids c)), (''artifact_ids'', texts_json (dc_artifact_ids c))]"

record worker_scope =
  ws_sources :: json       \<comment> \<open>\<open>source_versions\<close>\<close>
  ws_tools :: json         \<comment> \<open>\<open>tool_snapshot\<close>\<close>
  ws_evidence :: "evidence list"
  ws_memory :: "(ident \<times> string) list"
  ws_datasets :: "(string, json) dict list"

definition cache_identity :: "delegation_request \<Rightarrow> worker_scope \<Rightarrow> json" where
  "cache_identity q scope = JObj
     [(''task_id'', JStr (if truthy (dq_task_id q) then the (dq_task_id q) else dq_supervisor_run_id q)),
      (''agent_id'', JStr (dq_agent_id q)), (''objective'', JStr (normalized_objective (dq_objective q))),
      (''context'', context_json (dq_context q)), (''sources'', ws_sources scope),
      (''contract'', JStr (dq_expected_output q)), (''schema_version'', JInt 2), (''tools'', ws_tools scope),
      (''allowed'', texts_json (dq_allowed_tools q)),
      (''budget'', JList [JInt (int (dq_max_iterations q)), JInt (int (dq_max_tool_calls q))]),
      (''supplementary'', (case dq_supplementary q of None \<Rightarrow> JNull | Some d \<Rightarrow> JObj d))]"

definition cache_key :: "(string \<Rightarrow> string) \<Rightarrow> (rat \<Rightarrow> string) \<Rightarrow> delegation_request \<Rightarrow> worker_scope \<Rightarrow> string" where
  "cache_key sha fl q scope = digest sha fl (cache_identity q scope)"

section \<open>The cost decision\<close>

definition sequential_rx :: rx where
  "sequential_rx = Seqs [ILit ''first'', Between 0 100 Any, ILit ''extract'', Between 0 100 Any, ILit ''then'',
     Between 0 80 Any, Alts [ILit ''calculat'', ILit ''comput'']]"

definition cost_decision :: "orchestration_decision \<Rightarrow> string \<Rightarrow> orchestration_decision" where
  "cost_decision d goal =
     (let sequential = found sequential_rx goal; n = length (od_capabilities d) in
      d\<lparr>od_mode := (if sequential then Existing_workflow else od_mode d),
        od_subtasks := (if sequential then 0 else n),
        od_dependency := (if sequential then Dep_sequential else if 1 < n then Dep_parallel else Dep_none),
        od_agent_count := (if sequential then 0 else n),
        od_value := (if 1 < n \<and> \<not> sequential then Lv_high else Lv_low),
        od_cost := (if 1 < n then Lv_medium else Lv_low),
        od_reason := (if sequential
          then ''Extracted source values are an input to later computation; use one sequential workflow.''
          else if 1 < n then ''Distinct required source/tool boundaries can run independently.''
          else ''One specialty suffices; avoid cross-specialty orchestration.'')\<rparr>)"

definition ambiguous_rx :: rx where
  "ambiguous_rx = Alts (map ILit [''check consistency'', ''investigate'', ''evaluate the project''])"

definition ambiguous :: "string \<Rightarrow> orchestration_decision \<Rightarrow> bool" where
  "ambiguous goal d = (od_mode d = Existing_workflow \<and> found ambiguous_rx goal)"

section \<open>Overlapping delegations\<close>

definition verb_rx :: rx where
  "verb_rx = Seqs [WordB, Alts (map Lit [''analyze'', ''compare'', ''inspect'', ''examine'', ''review'']), WordB]"

definition spec_tokens :: "string \<Rightarrow> string list" where
  "spec_tokens text = filter (\<lambda>w. w \<notin> {''the'', ''in'', ''of'', ''and'', ''same'', ''these''})
     (fromkeys (findall (Plus (Cls (\<lambda>c. is_word c \<or> c = CHR ''.''))) (sub verb_rx (\<lambda>_. ''inspect'') (casefold text))))"

definition target_rx :: rx where
  "target_rx = Alts
     [Seqs [Plus (Cls (\<lambda>c. is_word c \<or> c \<in> set ''./-'')), Lit ''.'', Alts (map Lit [''pdf'', ''csv'', ''xlsx'', ''py'', ''md'']), WordB],
      Seqs [Lit ''http'', Opt (Lit ''s''), Lit ''://'', Plus (Cls (\<lambda>c. \<not> is_space c))],
      Seqs [WordB, Lit ''paper'', Plus (Cls is_space), Cls (\<lambda>c. is_lower c \<or> is_digit c), WordB],
      Seqs [WordB, Lit ''sheet'', Star (Cls is_space), Plus (Cls is_word), WordB]]"

definition spec_targets :: "string \<Rightarrow> string set" where
  "spec_targets text = set (findall target_rx (casefold text))"

definition similar_tokens :: "string list \<Rightarrow> string list \<Rightarrow> bool" where
  "similar_tokens a b = (let shared = length (filter (\<lambda>w. w \<in> set b) a); whole = length a + length b - shared in
     (85/100 :: rat) \<le> of_nat shared / of_nat (max 1 whole))"

definition overlaps :: "delegation_spec \<Rightarrow> delegation_spec \<Rightarrow> bool" where
  "overlaps spec r =
     (ds_capability r = ds_capability spec \<and> spec_targets (ds_objective r) = spec_targets (ds_objective spec)
      \<and> (normalized_objective (ds_objective r) = normalized_objective (ds_objective spec)
         \<or> similar_tokens (spec_tokens (ds_objective spec)) (spec_tokens (ds_objective r)))
      \<and> ds_depends_on r = ds_depends_on spec)"

definition add_spec ::
  "delegation_spec \<Rightarrow> delegation_spec list \<times> (string \<times> string) list \<Rightarrow> delegation_spec list \<times> (string \<times> string) list" where
  "add_spec spec acc = (case acc of (kept, removed) \<Rightarrow>
     case find (overlaps spec) kept of
       Some r \<Rightarrow> (kept, removed @ [(ds_key spec, ds_key r)])
     | None \<Rightarrow> (kept @ [spec], removed))"

definition overlap_specs :: "delegation_spec list \<Rightarrow> delegation_spec list \<times> (string \<times> string) list" where
  "overlap_specs specs = fold add_spec specs ([], [])"

section \<open>The evidence of a worker\<close>

definition words :: "string \<Rightarrow> string list" where
  "words text = fromkeys (findall (Plus (Cls is_word)) (casefold text))"

definition allowed_sources :: "ident \<Rightarrow> source_type list option" where
  "allowed_sources agent = map_of
     [(''research'', [Src_workspace, Src_pdf, Src_web, Src_arxiv]), (''data'', [Src_analysis]),
      (''coding'', [Src_github, Src_mcp])] agent"

definition target_sources :: "delegation_request \<Rightarrow> string list" where
  "target_sources q = (case dq_supplementary q of
     Some d \<Rightarrow> (case map_of d ''target_sources'' of
        Some (JList vs) \<Rightarrow> (case strings_of vs of Some ts \<Rightarrow> ts | None \<Rightarrow> []) | _ \<Rightarrow> [])
   | None \<Rightarrow> [])"

definition evidence_score :: "string list \<Rightarrow> string list \<Rightarrow> evidence \<Rightarrow> nat" where
  "evidence_score terms targets e =
     (let target = (case ev_document_id e of None \<Rightarrow> False | Some i \<Rightarrow> i \<in> set targets)
        \<or> (case ev_document_name e of None \<Rightarrow> False | Some i \<Rightarrow> i \<in> set targets)
      in (if target then 1000 else 0) + length (filter (\<lambda>w. w \<in> set (words (ev_content e))) terms))"

definition projected :: "nat \<Rightarrow> evidence \<Rightarrow> evidence" where
  "projected n e = e\<lparr>ev_dataset_ids := [], ev_artifact_ids := [], ev_page_count := None, ev_chunk_id := None,
     ev_title := None, ev_url := None, ev_content := take n (ev_content e), ev_retrieval_score := None,
     ev_rerank_score := None, ev_extraction_method := None, ev_table_labels := []\<rparr>"

definition build_scope :: "delegation_request \<Rightarrow> worker_scope \<Rightarrow> worker_scope" where
  "build_scope q scope =
     (let terms = words (dq_objective q); targets = target_sources q;
          candidates = (case allowed_sources (dq_agent_id q) of
             None \<Rightarrow> ws_evidence scope
           | Some ss \<Rightarrow> filter (\<lambda>e. ev_source e \<in> set ss) (ws_evidence scope));
          selected = take 4 (sort_by (\<lambda>a b. evidence_score terms targets b \<le> evidence_score terms targets a) candidates)
      in scope\<lparr>ws_evidence := map (projected 700) selected, ws_memory := take 2 (ws_memory scope),
           ws_datasets := map (\<lambda>a. concat (map (\<lambda>k. case map_of a k of None \<Rightarrow> [] | Some v \<Rightarrow> [(k, v)])
             [''id'', ''filename'', ''schema''])) (ws_datasets scope)\<rparr>)"

section \<open>Gaps\<close>

definition gap_satisfied :: "string \<Rightarrow> finding list \<Rightarrow> ident list \<Rightarrow> bool" where
  "gap_satisfied item facts evidence_ids =
     (let terms = set (words item) - {''the'', ''a'', ''of'', ''for'', ''in'', ''missing'', ''evidence''} in
      list_ex (\<lambda>f. fi_evidence_ids f \<noteq> [] \<and> set (fi_evidence_ids f) \<subseteq> set evidence_ids
        \<and> terms \<noteq> {} \<and> terms \<subseteq> set (words (fi_claim f))) facts)"

section \<open>What these decisions keep\<close>

text \<open>Removing overlaps keeps a sublist of the specs; a removed one names a kept one of the same specialty.\<close>

lemma overlap_specs_kept:
  assumes "overlap_specs specs = (kept, removed)"
  shows "subseq kept specs"
    and "\<forall>(k, r)\<in>set removed. \<exists>s\<in>set specs. \<exists>t\<in>set kept. ds_key s = k \<and> ds_key t = r \<and> ds_capability s = ds_capability t"
proof -
  let ?ok = "\<lambda>specs (kept, removed). subseq kept specs \<and> (\<forall>(k, r)\<in>set removed. \<exists>s\<in>set specs. \<exists>t\<in>set kept.
      ds_key s = k \<and> ds_key t = r \<and> ds_capability s = ds_capability t)"
  have step: "?ok (done @ [s]) (add_spec s acc)" if ok: "?ok done acc" for "done" s acc
  proof -
    obtain kept removed where acc: "acc = (kept, removed)" by fastforce
    have old: "subseq kept done" "\<forall>(k, r)\<in>set removed. \<exists>s\<in>set done. \<exists>t\<in>set kept.
        ds_key s = k \<and> ds_key t = r \<and> ds_capability s = ds_capability t"
      using ok by (simp_all add: acc)
    show ?thesis
    proof (cases "find (overlaps s) kept")
      case None
      have "subseq (kept @ [s]) (done @ [s])" using list_emb_append_mono [OF old(1), of "[s]" "[s]"] by simp
      then show ?thesis using None old(2) unfolding acc add_spec_def by fastforce
    next
      case (Some r)
      then have r: "r \<in> set kept" "ds_capability s = ds_capability r"
        by (auto simp: find_Some_iff overlaps_def)
      have "subseq kept (done @ [s])" using list_emb_append_mono [OF old(1), of "[]" "[s]"] by simp
      then show ?thesis using Some old(2) r unfolding acc add_spec_def by fastforce
    qed
  qed
  have "?ok (done @ specs) (fold add_spec specs acc)" if "?ok done acc" for "done" acc
    using that
  proof (induction specs arbitrary: "done" acc)
    case (Cons s specs)
    then show ?case using Cons.IH [of "done @ [s]" "add_spec s acc"] step [OF Cons.prems] by simp
  qed simp
  from this [of "[]" "([], [])"] assms show "subseq kept specs"
    and "\<forall>(k, r)\<in>set removed. \<exists>s\<in>set specs. \<exists>t\<in>set kept. ds_key s = k \<and> ds_key t = r \<and> ds_capability s = ds_capability t"
    by (auto simp: overlap_specs_def)
qed

lemma worker_evidence_is_bounded: "length (ws_evidence (build_scope q scope)) \<le> 4"
  by (simp add: build_scope_def Let_def)

end
