(* ===== verification/Orchestration.thy ===== *)
theory Orchestration
  imports Agent_Registry Agent_Runs Efficiency
begin

text \<open>
  The deterministic part of \<open>server/agent/orchestration.py\<close>: which requests are worth several agents, which
  plans of the supervisor are accepted, how delegations are requested, merged and reviewed, and what a
  review may send back.  What a model proposes is an input; \<open>None\<close> is a call that raised.
\<close>

section \<open>Routing\<close>

definition data_rx :: rx where
  "data_rx = Alts
     [Seqs [WordB, Alts (map ILit [''dataset'', ''data'', ''csv'', ''xlsx'', ''excel'', ''chart'', ''plot'']), WordB],
      Seqs [ILit ''experiment'', Opt (ILit ''s''),
        Alts [Lit ''.'', Seq (Plus (Cls is_space)) (Alts (map ILit [''data'', ''results'', ''spreadsheet'']))]],
      Seqs [WordB, ILit ''our'', Plus (Cls is_space), ILit ''experiment'']]"

definition code_rx :: rx where
  "code_rx = Seqs [WordB, Alts (map ILit [''code'', ''implementation'', ''repository'', ''workflow implementation'',
     ''architecture risk'']), WordB]"

definition research_rx :: rx where
  "research_rx = Alts [Seqs [ILit ''paper'', Opt (ILit ''s'')], ILit ''literature'', ILit ''documentation'',
     ILit ''documents'', ILit ''reported methods'']"

definition compare_rx :: rx where
  "compare_rx = Alts (map ILit [''compare'', ''across''])"

definition no_decision :: "orchestration_mode \<Rightarrow> string \<Rightarrow> string list \<Rightarrow> orchestration_decision" where
  \<comment> \<open>\<open>OrchestrationDecision\<close> with the defaults of its other fields\<close>
  "no_decision mode reason caps = \<lparr>od_mode = mode, od_reason = reason, od_capabilities = caps, od_agents = [],
     od_subtasks = 0, od_dependency = Dep_none, od_agent_count = 0, od_value = Lv_low, od_cost = Lv_low\<rparr>"

definition routing_candidate :: "string \<Rightarrow> bool \<Rightarrow> orchestration_decision" where
  "routing_candidate goal has_data =
     (let data = has_data \<and> found data_rx goal; code = found code_rx goal; research = found research_rx goal;
          caps = (if research \<and> (data \<or> code \<or> found compare_rx goal) then [''research.compare''] else [])
            @ (if data then [''data.analyze''] else []) @ (if code then [''code.review''] else [])
      in no_decision (if 1 < length caps then Multi_agent else if caps \<noteq> [] then Single_agent else Existing_workflow)
           (if caps \<noteq> [] then ''Independent research, data or code capabilities.''
            else ''Existing workflow handles this request.'') caps)"

definition unique_agents :: "string list \<Rightarrow> ident list \<Rightarrow> (ident, string) dict" where
  \<comment> \<open>\<open>unique.setdefault(agent_id, capability)\<close> over the pairs\<close>
  "unique_agents caps agents =
     fold (\<lambda>(c, a) d. if map_of d a = None then d @ [(a, c)] else d) (zip caps agents) []"

definition accept_proposal ::
  "agents \<Rightarrow> orchestration_decision \<Rightarrow> orchestration_decision option \<Rightarrow> orchestration_decision" where
  "accept_proposal reg candidate proposed =
     (case proposed of None \<Rightarrow> candidate
      | Some p \<Rightarrow> (case rfold (\<lambda>acc c. rbind (specialist reg c) (\<lambda>a. Inr (acc @ [ag_id a]))) [] (od_capabilities p) of
          Inl _ \<Rightarrow> candidate
        | Inr selected \<Rightarrow>
            if od_mode p = od_mode candidate \<and> set selected = set (od_agents candidate)
            then let unique = unique_agents (od_capabilities p) selected
                 in p\<lparr>od_agents := map fst unique, od_capabilities := map snd unique\<rparr>
            else candidate))"

section \<open>Plans of the supervisor\<close>

fun group_index :: "string list list \<Rightarrow> string \<Rightarrow> nat" where
  "group_index [] k = 0"
| "group_index (g # gs) k = (if k \<in> set g then 0 else Suc (group_index gs k))"

definition groups_ok :: "supervisor_plan \<Rightarrow> bool" where
  "groups_ok p = (let flattened = concat (sp_groups p) in
     sp_groups p \<noteq> [] \<and> [] \<notin> set (sp_groups p) \<and> distinct flattened
     \<and> set flattened = set (map ds_key (sp_delegations p)))"

definition spec_ok :: "agents \<Rightarrow> supervisor_plan \<Rightarrow> delegation_spec \<Rightarrow> ident result" where
  "spec_ok reg p s = rbind (specialist reg (ds_capability s)) (\<lambda>a.
     if ag_id a \<in> {''supervisor'', ''reviewer''}
     then Inl (Delegation_Rejected ''Specialized work must not recurse or trigger review itself'')
     else if list_ex (\<lambda>d. d \<notin> set (map ds_key (sp_delegations p))
          \<or> group_index (sp_groups p) (ds_key s) \<le> group_index (sp_groups p) d) (ds_depends_on s)
     then Inl (Delegation_Rejected ''Dependency must precede its delegation'')
     else Inr (ag_id a))"

definition validate_plan ::
  "agents \<Rightarrow> orchestration_decision \<Rightarrow> int \<Rightarrow> supervisor_plan \<Rightarrow> supervisor_plan result" where
  "validate_plan reg decision maximum p =
     (if sp_delegations p = [] \<or> maximum < int (length (sp_delegations p))
      then Inl (Delegation_Rejected ''Supervisor delegation budget exceeded'')
      else if \<not> distinct (map ds_key (sp_delegations p)) then Inl (Delegation_Rejected ''Duplicate delegation key'')
      else if \<not> groups_ok p then Inl (Delegation_Rejected ''Invalid execution groups'')
      else rbind (rmap (spec_ok reg p) (sp_delegations p)) (\<lambda>selected.
           rbind (rmap (\<lambda>c. rbind (specialist reg c) (\<lambda>a. Inr (ag_id a))) (od_capabilities decision)) (\<lambda>required.
             if set selected \<noteq> set required \<or> length (sp_delegations p) \<noteq> card (set selected)
             then Inl (Delegation_Rejected ''Supervisor changed required capability boundaries'')
             else Inr p)))"

definition objective_prefix :: "string \<Rightarrow> string" where
  "objective_prefix c = dict_get
     [(''research.compare'', ''Collect paper/document methodology and reported experimental evidence. ''),
      (''data.analyze'', ''Analyze only the uploaded dataset. ''),
      (''code.review'', ''Inspect actual repository code and identify architecture risks or mismatches. '')] c []"

definition fallback_specs :: "orchestration_decision \<Rightarrow> string \<Rightarrow> delegation_spec list" where
  "fallback_specs decision goal = map (\<lambda>(i, c). \<lparr>ds_key = ''work_'' @ nat_text i, ds_capability = c,
       ds_objective = take 3000 (objective_prefix c @ goal), ds_depends_on = []\<rparr>)
     (zip [0..<length (od_capabilities decision)] (od_capabilities decision))"

definition fallback_plan :: "orchestration_decision \<Rightarrow> string \<Rightarrow> supervisor_plan" where
  "fallback_plan decision goal = (let specs = fallback_specs decision goal in
     \<lparr>sp_goal = goal, sp_delegations = specs, sp_groups = [map ds_key specs],
      sp_reviewer = (od_mode decision = Multi_agent), sp_actions = []\<rparr>)"

definition plan_safe :: "string list \<Rightarrow> supervisor_plan \<Rightarrow> bool" where
  \<comment> \<open>\<open>require_safe(plan.model_dump())\<close>: cleaning changes no text of the plan\<close>
  "plan_safe vs p = (let same = (\<lambda>t. clean_text vs t = t) in
     same (sp_goal p) \<and> list_all (list_all same) (sp_groups p)
     \<and> list_all (\<lambda>s. list_all same ([ds_key s, ds_capability s, ds_objective s] @ ds_depends_on s)) (sp_delegations p)
     \<and> list_all (\<lambda>a. same (ac_capability a) \<and> clean_entries vs (ac_arguments a) = ac_arguments a) (sp_actions p))"

definition write_request_rx :: rx where
  "write_request_rx = Alts [Seqs [ILit ''create'', Between 0 45 Any, ILit ''issue''],
     Seqs [ILit ''add'', Between 0 45 Any, ILit ''comment'']]"

definition check_action :: "policy_config \<Rightarrow> (string, tool) dict \<Rightarrow> agent_tool_call \<Rightarrow> unit result" where
  "check_action pol tools a =
     rbind (Tool_Registry.find_by_capability tools (ac_capability a)) (\<lambda>found_tools.
       let t = hd found_tools in
       if tl_provider t \<noteq> ''github'' \<or> tl_operation t \<noteq> Op_write
       then Inl (Delegation_Rejected ''Only approved GitHub proposals are supported as actions'')
       else rbind (evaluate pol t (ac_arguments a)) (\<lambda>_. Inr ()))"

definition check_actions ::
  "policy_config \<Rightarrow> (string, tool) dict \<Rightarrow> bool \<Rightarrow> string \<Rightarrow> supervisor_plan \<Rightarrow> unit result" where
  "check_actions pol tools has_task goal p =
     (if sp_actions p \<noteq> [] \<and> (\<not> has_task \<or> \<not> found write_request_rx goal)
      then Inl (Delegation_Rejected ''External actions need an explicit user request and Persistent Task'')
      else if 2 < length (sp_actions p) then Inl (Delegation_Rejected ''Supervisor action budget exceeded'')
      else rfold (\<lambda>_ a. check_action pol tools a) () (sp_actions p))"

definition choose_plan ::
  "agents \<Rightarrow> int_config \<Rightarrow> orchestration_decision \<Rightarrow> string \<Rightarrow> supervisor_plan option \<Rightarrow> supervisor_plan" where
  "choose_plan reg cfg decision goal proposed =
     (case proposed of None \<Rightarrow> fallback_plan decision goal
      | Some p \<Rightarrow> if is_ok (validate_plan reg decision (max 1 (setting cfg ''MULTI_AGENT_MAX_DELEGATIONS'' 8 - 3)) p)
          then p else fallback_plan decision goal)"

definition adjust_plan :: "orchestration_decision \<Rightarrow> supervisor_plan \<Rightarrow> supervisor_plan" where
  "adjust_plan decision p =
     (let p1 = (if od_mode decision = Single_agent then p\<lparr>sp_reviewer := False\<rparr> else p) in
      if list_all (\<lambda>s. ds_depends_on s = []) (sp_delegations p1)
      then p1\<lparr>sp_groups := [map ds_key (sp_delegations p1)]\<rparr> else p1)"

definition settle_plan ::
  "agents \<Rightarrow> int_config \<Rightarrow> policy_config \<Rightarrow> (string, tool) dict \<Rightarrow> bool \<Rightarrow> orchestration_decision \<Rightarrow> string \<Rightarrow>
   supervisor_plan option \<Rightarrow> supervisor_plan result" where
  \<comment> \<open>the plan of \<open>supervisor_plan\<close>, up to the requests it makes\<close>
  "settle_plan reg cfg pol tools has_task decision goal proposed =
     rbind (validate_plan reg decision
         (max (int (length (od_capabilities decision))) (setting cfg ''MULTI_AGENT_MAX_DELEGATIONS'' 8))
         (choose_plan reg cfg decision goal proposed)) (\<lambda>p.
       let p' = adjust_plan decision p in
       if \<not> plan_safe (pc_secrets pol) p' then Inl (Value_Error ''Secret-bearing tool arguments are prohibited'')
       else rbind (check_actions pol tools has_task goal p') (\<lambda>_. Inr p'))"

section \<open>Requesting delegations\<close>

record request_env =
  re_task_id :: "ident option"
  re_supervisor :: ident
  re_cancelled :: bool                     \<comment> \<open>the task exists and is CANCELLED\<close>
  re_datasets :: "ident list"
  re_memories :: "ident list"
  re_secrets :: "string list"

definition make_request ::
  "request_env \<Rightarrow> agent_descriptor \<Rightarrow> shared_context \<Rightarrow> ident \<Rightarrow> delegation_spec \<Rightarrow> nat \<Rightarrow> ident option \<Rightarrow>
   (string \<times> json) list option \<Rightarrow> delegation_request" where
  "make_request env a shared fresh s grp revision_of supplementary =
     \<lparr>dq_id = fresh, dq_task_id = re_task_id env, dq_parent_step_id = None, dq_supervisor_run_id = re_supervisor env,
      dq_agent_id = ag_id a, dq_objective = ds_objective s, dq_required = [ds_capability s],
      dq_context = \<lparr>dc_goal = sh_goal shared, dc_constraints = sh_constraints shared,
        dc_workspace_id = sh_workspace_id shared, dc_scope = sh_scope shared, dc_memory_ids = take 3 (re_memories env),
        dc_evidence_ids = (if truthy revision_of then take 12 (sh_evidence_ids shared) else []),
        dc_dataset_ids = (if ag_id a = ''data'' then re_datasets env else []),
        dc_artifact_ids = take 10 (sh_artifact_ids shared),
        dc_notes = [''Read-only specialist; all cross-agent scheduling belongs to Supervisor.'']\<rparr>,
      dq_expected_output = ag_output_contract a, dq_priority = 0, dq_allowed_tools = ag_tool_capabilities a,
      dq_max_iterations = ag_max_iterations a, dq_max_tool_calls = ag_max_tool_calls a, dq_depth = 1,
      dq_group = grp, dq_revision_of = revision_of, dq_supplementary = supplementary, dq_force_refresh = False\<rparr>"

definition request_delegation ::
  "agents \<Rightarrow> int_config \<Rightarrow> request_env \<Rightarrow> shared_context \<Rightarrow> time \<Rightarrow> ident \<Rightarrow> ident \<Rightarrow> delegation_spec \<Rightarrow> nat \<Rightarrow>
   ident option \<Rightarrow> (string \<times> json) list option \<Rightarrow> agents_db \<Rightarrow> agents_db \<times> delegation result" where
  \<comment> \<open>\<open>fresh\<close> names the delegation, \<open>fresh_run\<close> its run\<close>
  "request_delegation reg cfg env shared now fresh fresh_run s grp revision_of supplementary db =
     (case specialist reg (ds_capability s) of
        Inl e \<Rightarrow> (db, Inl e)
      | Inr a \<Rightarrow>
          (let q = make_request env a shared fresh s grp revision_of supplementary;
               stored = length (delegations db (Some (re_supervisor env)) None) in
           case validate_request reg cfg (re_cancelled env) stored q of
             Inl e \<Rightarrow> (db, Inl e)
           | Inr q' \<Rightarrow> create_delegation (re_secrets env) now fresh_run q'
                        (setting cfg ''MULTI_AGENT_MAX_DELEGATIONS'' 8) db))"

fun request_all ::
  "agents \<Rightarrow> int_config \<Rightarrow> request_env \<Rightarrow> shared_context \<Rightarrow> time \<Rightarrow> (string \<Rightarrow> ident \<times> ident) \<Rightarrow> string list list \<Rightarrow>
   delegation_spec list \<Rightarrow> agents_db \<Rightarrow> agents_db \<times> ((string, ident) dict \<times> string list) result" where
  \<comment> \<open>the requests of \<open>supervisor_plan\<close>: an exhausted budget stops them and is noted as an open question;
    \<open>fresh\<close> gives the identifiers drawn for a key\<close>
  "request_all reg cfg env shared now fresh groups [] db = (db, Inr ([], []))"
| "request_all reg cfg env shared now fresh groups (s # ss) db =
     (case request_delegation reg cfg env shared now (fst (fresh (ds_key s))) (snd (fresh (ds_key s))) s
             (group_index groups (ds_key s)) None None db of
        (db1, Inl (BudgetExhausted m)) \<Rightarrow> (db1, Inr ([], [''Budget stopped required delegation: '' @ ds_capability s]))
      | (db1, Inl e) \<Rightarrow> (db1, Inl e)
      | (db1, Inr d) \<Rightarrow> (case request_all reg cfg env shared now fresh groups ss db1 of
            (db2, Inl e) \<Rightarrow> (db2, Inl e)
          | (db2, Inr (records, questions)) \<Rightarrow> (db2, Inr ((ds_key s, dl_id d) # records, questions))))"

definition stored_groups :: "string list list \<Rightarrow> (string, ident) dict \<Rightarrow> ident list list" where
  "stored_groups groups records =
     (let gs = filter (\<lambda>g. g \<noteq> []) (map (\<lambda>g. concat (map (\<lambda>k. case map_of records k of None \<Rightarrow> [] | Some i \<Rightarrow> [i]) g)) groups)
      in if gs = [] then [[]] else gs)"

definition dispatched :: "shared_context \<Rightarrow> ident option \<Rightarrow> delegation_request \<Rightarrow> delegation_request" where
  \<comment> \<open>the request \<open>send_agents\<close> gives a worker: later groups see the merged evidence\<close>
  "dispatched shared step q =
     (let q1 = q\<lparr>dq_parent_step_id := step\<rparr> in
      if 0 < dq_group q1 then q1\<lparr>dq_context := (dq_context q1)\<lparr>dc_evidence_ids := take 12 (sh_evidence_ids shared)\<rparr>\<rparr>
      else q1)"

section \<open>Merging a group\<close>

record worker_progress =
  wp_evidence :: "evidence list"
  wp_artifacts :: "ident list"

definition merge_agents ::
  "time \<Rightarrow> shared_context \<Rightarrow> (delegation \<times> worker_progress) list \<Rightarrow> (shared_context \<times> evidence list \<times> ident list) result" where
  \<comment> \<open>the stored delegations of the supervisor, each with the progress of its run\<close>
  "merge_agents now shared records =
     (let finished = filter (\<lambda>(d, w). dl_agent d \<noteq> ''reviewer'' \<and> dl_result d \<noteq> None) records in
      rbind (rfold (\<lambda>es (d, w). rfold (\<lambda>es e. rbind (validate_evidence e) (\<lambda>v. merge_evidence_items [es, [v]])) es (wp_evidence w))
               [] finished) (\<lambda>es.
        let artifacts = fromkeys (concat (map (\<lambda>(d, w). wp_artifacts w) finished)) in
        rbind (merge_context now shared (map (\<lambda>(d, w). the (dl_result d)) finished) (map ev_id es) artifacts)
          (\<lambda>c. Inr (c, es, artifacts))))"

section \<open>The deterministic review\<close>

datatype verdict = Pass | Needs_revision | Insufficient

record suggestion =
  sg_capability :: string
  sg_objective :: string
  sg_missing :: string

record review =
  rv_verdict :: verdict
  rv_missing :: "string list"
  rv_contradictions :: "string list"
  rv_unsupported :: "string list"
  rv_suggested :: "suggestion list"
  rv_confidence :: rat

definition claim_of :: "json \<Rightarrow> string result" where
  \<comment> \<open>\<open>finding['claim']\<close>\<close>
  "claim_of f = (case f of
     JObj kvs \<Rightarrow> (case map_of kvs ''claim'' of Some (JStr s) \<Rightarrow> Inr s | Some _ \<Rightarrow> Inl Type_Error | None \<Rightarrow> Inl (Key_Error ''claim''))
   | _ \<Rightarrow> Inl Type_Error)"

definition gap_capability :: "ident \<Rightarrow> string option" where
  "gap_capability agent = map_of [(''research'', ''research.document''), (''data'', ''data.analyze''), (''coding'', ''code.inspect'')] agent"

definition incomplete :: "delegation_result \<Rightarrow> bool" where
  "incomplete r = (rs_status r \<noteq> Rs_completed \<or> rs_evidence_ids r = [])"

definition gap_item :: "delegation_result \<Rightarrow> string" where
  "gap_item r = rs_agent_id r @ '': missing evidence or incomplete analysis''"

definition missing_of :: "ident set \<Rightarrow> delegation_result \<Rightarrow> string list" where
  "missing_of artifacts r = (if incomplete r then [gap_item r] else [])
     @ (if set (rs_artifact_ids r) \<subseteq> artifacts then [] else [rs_agent_id r @ '': missing artifact''])"

definition suggestions_of :: "delegation_result \<Rightarrow> suggestion list" where
  "suggestions_of r = (case (incomplete r, gap_capability (rs_agent_id r)) of
     (True, Some c) \<Rightarrow> [\<lparr>sg_capability = c,
        sg_objective = ''Address only: '' @ gap_item r @ ''. '' @ take 600 (join ''; '' (rs_questions r)),
        sg_missing = gap_item r\<rparr>]
   | _ \<Rightarrow> [])"

definition reviewed_results :: "delegation_result list \<Rightarrow> delegation_result list" where
  "reviewed_results rs = filter (\<lambda>r. rs_agent_id r \<noteq> ''reviewer'' \<and> rs_delegation_id r \<notin> set (repaired rs)) rs"

definition opposed :: "string \<Rightarrow> string \<Rightarrow> bool" where
  "opposed claim other = (claim \<noteq> other
     \<and> (other = ''not '' @ claim \<or> replace '' does not '' '' does '' other = claim))"

definition contradictions_of :: "string list \<Rightarrow> string list" where
  "contradictions_of claims = concat (map (\<lambda>c. map (\<lambda>d. c @ '' / '' @ d) (filter (opposed c) claims)) claims)"

definition deterministic_review :: "ident set \<Rightarrow> ident set \<Rightarrow> shared_context \<Rightarrow> review result" where
  "deterministic_review evidence artifacts c =
     (let rs = reviewed_results (sh_results c); fs = concat (map payload_findings rs) in
      rbind (rmap claim_of fs) (\<lambda>claims.
        let missing = fromkeys (concat (map (missing_of artifacts) rs));
            unsupported = fromkeys (concat (map (\<lambda>(f, claim). if cited evidence f then [] else [claim]) (zip fs claims)));
            contradictions = fromkeys (contradictions_of (map (\<lambda>t. casefold (strip t)) claims))
        in Inr \<lparr>rv_verdict = (if missing \<noteq> [] \<or> unsupported \<noteq> [] \<or> contradictions \<noteq> [] then Needs_revision else Pass),
             rv_missing = missing, rv_contradictions = contradictions, rv_unsupported = unsupported,
             rv_suggested = concat (map suggestions_of rs),
             rv_confidence = (if sh_results c = [] then 0 else 8/10)\<rparr>))"

definition combine_reviews :: "review \<Rightarrow> review \<Rightarrow> review" where
  "combine_reviews deterministic proposed =
     \<lparr>rv_verdict = (if rv_verdict deterministic \<noteq> Pass \<or> rv_verdict proposed \<noteq> Pass then Needs_revision else Pass),
      rv_missing = fromkeys (rv_missing deterministic @ rv_missing proposed),
      rv_contradictions = fromkeys (rv_contradictions deterministic @ rv_contradictions proposed),
      rv_unsupported = fromkeys (rv_unsupported deterministic @ rv_unsupported proposed),
      rv_suggested = rv_suggested proposed @ rv_suggested deterministic, rv_confidence = rv_confidence proposed\<rparr>"

section \<open>What a review sends back\<close>

definition passed_over :: "py_error \<Rightarrow> bool" where
  \<comment> \<open>\<open>except (ValueError, KeyError)\<close>, with the classes derived from them\<close>
  "passed_over e = (case e of
     Value_Error _ \<Rightarrow> True | Key_Error _ \<Rightarrow> True | RecordNotFound _ \<Rightarrow> True | TaskConflict _ \<Rightarrow> True
   | BudgetExhausted _ \<Rightarrow> True | Agent_Unavailable _ \<Rightarrow> True | Capability_Unavailable _ \<Rightarrow> True
   | Delegation_Rejected _ \<Rightarrow> True | Provider_Error n \<Rightarrow> n = ''ValidationError'' | _ \<Rightarrow> False)"

fun send_back ::
  "agents \<Rightarrow> int_config \<Rightarrow> request_env \<Rightarrow> shared_context \<Rightarrow> time \<Rightarrow> (nat \<Rightarrow> ident \<times> ident) \<Rightarrow> nat \<Rightarrow> string set \<Rightarrow>
   suggestion list \<Rightarrow> ident list \<Rightarrow> string list \<Rightarrow> agents_db \<Rightarrow> agents_db \<times> ident list result" where
  \<comment> \<open>the loop of \<open>redelegate\<close>: \<open>records\<close> are the delegations made so far, \<open>handled\<close> the gaps they fill\<close>
  "send_back reg cfg env shared now fresh grp unresolved [] records handled db = (db, Inr records)"
| "send_back reg cfg env shared now fresh grp unresolved (s # ss) records handled db =
     (let skip = send_back reg cfg env shared now fresh grp unresolved ss records handled;
          maximum = min 2 (setting cfg ''MULTI_AGENT_REDELEGATION_MAX'' 2) in
      if maximum \<le> int (length records) \<or> sg_missing s \<notin> unresolved \<or> sg_missing s \<in> set handled then skip db
      else case specialist reg (sg_capability s) of
        Inl e \<Rightarrow> skip db
      | Inr a \<Rightarrow>
          if ag_id a \<in> {''supervisor'', ''reviewer''} then skip db
          else let objective = ''Fill only this review gap: '' @ sg_missing s @ ''. '' @ sg_objective s;
                   previous = map_option rs_delegation_id (find (\<lambda>r. rs_agent_id r = ag_id a) (sh_results shared)) in
            if list_ex (\<lambda>d. dl_objective d = objective) (delegations db (Some (re_supervisor env)) None) then skip db
            else case request_delegation reg cfg env shared now (fst (fresh (length records))) (snd (fresh (length records)))
                (\<lparr>ds_key = ''revision_'' @ nat_text (length records), ds_capability = sg_capability s,
                  ds_objective = take 3000 objective, ds_depends_on = []\<rparr>) grp previous None db of
              (db1, Inr d) \<Rightarrow> send_back reg cfg env shared now fresh grp unresolved ss (records @ [dl_id d])
                              (handled @ [sg_missing s]) db1
            | (db1, Inl e) \<Rightarrow> if passed_over e then skip db1 else (db1, Inl e))"

definition review_rounds_max :: "int_config \<Rightarrow> int" where
  "review_rounds_max cfg = min 1 (setting cfg ''MULTI_AGENT_REVIEW_MAX_ROUNDS'' 1)"

definition redelegate ::
  "agents \<Rightarrow> int_config \<Rightarrow> request_env \<Rightarrow> shared_context \<Rightarrow> time \<Rightarrow> (nat \<Rightarrow> ident \<times> ident) \<Rightarrow> nat \<Rightarrow> review option \<Rightarrow> nat \<Rightarrow>
   ident list option \<Rightarrow> agents_db \<Rightarrow> agents_db \<times> ident list option result" where
  \<comment> \<open>\<open>None\<close>: nothing is sent back and no round is counted; otherwise the delegations of the new round,
    possibly none.  \<open>stored\<close> are the delegations of a round recorded before a restart.\<close>
  "redelegate reg cfg env shared now fresh grp reviewed review_round stored db =
     (case reviewed of
        None \<Rightarrow> (db, Inr None)
      | Some r \<Rightarrow>
          if rv_verdict r = Pass \<or> review_rounds_max cfg \<le> int review_round then (db, Inr None)
          else if stored \<noteq> None \<and> stored \<noteq> Some [] then (db, Inr stored)
          else (case send_back reg cfg env shared now fresh grp
                    (set (rv_missing r @ rv_unsupported r @ rv_contradictions r)) (rv_suggested r) [] [] db of
              (db1, Inl e) \<Rightarrow> (db1, Inl e)
            | (db1, Inr records) \<Rightarrow> (db1, Inr (Some records))))"

section \<open>What the synthesis sees\<close>

record synthesis_result =
  sy_agent :: ident
  sy_status :: result_status
  sy_evidence :: "ident list"
  sy_artifacts :: "ident list"
  sy_revision_of :: "ident option"
  sy_summary :: string
  sy_questions :: "string list"
  sy_findings :: "(string \<times> json) list"
  sy_metrics :: "(string, json) dict"
  sy_code :: "json list"
  sy_changes :: "json list"

definition payload_list :: "delegation_result \<Rightarrow> string \<Rightarrow> json list" where
  "payload_list r k = (case map_of (rs_payload r) k of Some (JList vs) \<Rightarrow> vs | _ \<Rightarrow> [])"

definition payload_dict :: "delegation_result \<Rightarrow> string \<Rightarrow> (string, json) dict" where
  "payload_dict r k = (case map_of (rs_payload r) k of Some (JObj d) \<Rightarrow> d | _ \<Rightarrow> [])"

definition cut_field :: "nat \<Rightarrow> string \<Rightarrow> json \<Rightarrow> json" where
  \<comment> \<open>\<open>{**f, k: f[k][:n]}\<close>\<close>
  "cut_field n k f = (case f of
     JObj kvs \<Rightarrow> (case map_of kvs k of Some (JStr s) \<Rightarrow> JObj (dict_put k (JStr (take n s)) kvs) | _ \<Rightarrow> f)
   | _ \<Rightarrow> f)"

definition bounded_metric :: "(rat \<Rightarrow> string) \<Rightarrow> json \<Rightarrow> json" where
  "bounded_metric fl v = (if length (dumps_plain fl v) \<le> 400 then v
     else JObj [(''excerpt'', JStr (take 400 (dumps_plain fl v)))])"

definition brief_finding :: "json \<Rightarrow> string \<times> json" where
  "brief_finding f = (case f of
     JObj kvs \<Rightarrow> ((case map_of kvs ''claim'' of Some (JStr s) \<Rightarrow> take 300 s | _ \<Rightarrow> []), dict_get kvs ''evidence_ids'' JNull)
   | _ \<Rightarrow> ([], JNull))"

definition with_default :: "string \<Rightarrow> json \<Rightarrow> json \<Rightarrow> json" where
  "with_default k v f = (case f of JObj kvs \<Rightarrow> JObj (if map_of kvs k = None then kvs @ [(k, v)] else kvs) | _ \<Rightarrow> f)"

definition synthesis_result_of :: "(rat \<Rightarrow> string) \<Rightarrow> delegation_result \<Rightarrow> synthesis_result" where
  "synthesis_result_of fl r = \<lparr>sy_agent = rs_agent_id r, sy_status = rs_status r, sy_evidence = rs_evidence_ids r,
     sy_artifacts = rs_artifact_ids r, sy_revision_of = rs_revision_of r, sy_summary = take 800 (rs_summary r),
     sy_questions = map (take 200) (take 3 (rs_questions r)),
     sy_findings = map brief_finding (take 4 (payload_list r ''findings'')),
     sy_metrics = map (\<lambda>(k, v). (k, bounded_metric fl v)) (take 3 (payload_dict r ''metrics'')),
     sy_code = map (cut_field 300 ''claim'') (take 3 (payload_list r ''code_findings'')),
     sy_changes = map (\<lambda>p. cut_field 600 ''patch_proposal'' (with_default ''patch_proposal'' (JStr [])
        (cut_field 300 ''description'' p))) (take 2 (payload_list r ''proposed_changes''))\<rparr>"

definition synthesis_context :: "(rat \<Rightarrow> string) \<Rightarrow> shared_context \<Rightarrow> synthesis_result list" where
  "synthesis_context fl c = map (synthesis_result_of fl) (filter (\<lambda>r. rs_agent_id r \<noteq> ''reviewer'') (sh_results c))"

end
