(* ===== verification/Orchestration_Laws.thy ===== *)
theory Orchestration_Laws
  imports Orchestration
begin

text \<open>
  What the supervisor may act on: a settled plan is a schedule of delegations to different specialists,
  and a review sends back a bounded number of delegations.
\<close>

section \<open>Lists of results\<close>

lemma rmap_Inr_length: "rmap f xs = Inr ys \<Longrightarrow> length ys = length xs"
  by (induction xs arbitrary: ys) (auto simp: rbind_Inr_iff)

lemma rmap_Inr_nth: "rmap f xs = Inr ys \<Longrightarrow> i < length xs \<Longrightarrow> f (xs ! i) = Inr (ys ! i)"
  by (induction xs arbitrary: ys i) (auto simp: rbind_Inr_iff less_Suc_eq_0_disj)

lemma rmap_Inr_mem:
  assumes "rmap f xs = Inr ys" and "x \<in> set xs"
  shows "\<exists>y\<in>set ys. f x = Inr y"
proof -
  obtain i where "i < length xs" "xs ! i = x" using assms(2) by (auto simp: in_set_conv_nth)
  then show ?thesis using rmap_Inr_nth [OF assms(1)] rmap_Inr_length [OF assms(1)] by (metis nth_mem)
qed

lemma rmap_Inr_from:
  assumes "rmap f xs = Inr ys" and "y \<in> set ys"
  shows "\<exists>x\<in>set xs. f x = Inr y"
proof -
  obtain i where "i < length ys" "ys ! i = y" using assms(2) by (auto simp: in_set_conv_nth)
  then show ?thesis using rmap_Inr_nth [OF assms(1)] rmap_Inr_length [OF assms(1)] by (metis nth_mem)
qed

lemma rmap_cong_Inr: "rmap f xs = Inr ys \<Longrightarrow> (\<And>x y. x \<in> set xs \<Longrightarrow> f x = Inr y \<Longrightarrow> g x = Inr y) \<Longrightarrow> rmap g xs = Inr ys"
  by (induction xs arbitrary: ys) (auto simp: rbind_Inr_iff)

section \<open>Plans\<close>

definition agents_of :: "agents \<Rightarrow> supervisor_plan \<Rightarrow> ident list result" where
  "agents_of reg p = rmap (\<lambda>s. rbind (specialist reg (ds_capability s)) (\<lambda>a. Inr (ag_id a))) (sp_delegations p)"

definition earlier :: "string list list \<Rightarrow> string \<Rightarrow> string \<Rightarrow> bool" where
  "earlier gs d k = (\<exists>j<length gs. k \<in> set (gs ! j) \<and> (\<exists>i<j. d \<in> set (gs ! i)))"

definition scheduled :: "supervisor_plan \<Rightarrow> bool" where
  \<comment> \<open>every delegation is in exactly one group, after everything it depends on\<close>
  "scheduled p = (distinct (map ds_key (sp_delegations p)) \<and> [] \<notin> set (sp_groups p)
     \<and> distinct (concat (sp_groups p)) \<and> set (concat (sp_groups p)) = set (map ds_key (sp_delegations p))
     \<and> (\<forall>s\<in>set (sp_delegations p). \<forall>d\<in>set (ds_depends_on s). earlier (sp_groups p) d (ds_key s)))"

lemma group_index_mem:
  "k \<in> set (concat gs) \<Longrightarrow> group_index gs k < length gs \<and> k \<in> set (gs ! group_index gs k)"
  by (induction gs) auto

lemma group_index_earlier:
  assumes "group_index gs d < group_index gs k" and "d \<in> set (concat gs)" and "k \<in> set (concat gs)"
  shows "earlier gs d k"
  using assms group_index_mem [of d gs] group_index_mem [of k gs] unfolding earlier_def by blast

lemma spec_ok_Inr: "spec_ok reg p s = Inr i \<Longrightarrow>
    rbind (specialist reg (ds_capability s)) (\<lambda>a. Inr (ag_id a)) = Inr i \<and> i \<notin> {''supervisor'', ''reviewer''}
    \<and> list_all (\<lambda>d. d \<in> set (map ds_key (sp_delegations p))
        \<and> group_index (sp_groups p) d < group_index (sp_groups p) (ds_key s)) (ds_depends_on s)"
  by (auto simp: spec_ok_def rbind_Inr_iff list_all_iff list_ex_iff not_le split: if_splits)

lemma validate_plan_Inr:
  assumes "validate_plan reg decision m p = Inr q"
  shows "q = p" and "scheduled p" and "sp_delegations p \<noteq> []"
    and "\<exists>ids required. agents_of reg p = Inr ids \<and> distinct ids \<and> set ids \<inter> {''supervisor'', ''reviewer''} = {}
      \<and> rmap (\<lambda>c. rbind (specialist reg c) (\<lambda>a. Inr (ag_id a))) (od_capabilities decision) = Inr required
      \<and> set ids = set required"
proof -
  let ?required = "rmap (\<lambda>c. rbind (specialist reg c) (\<lambda>a. Inr (ag_id a))) (od_capabilities decision)"
  have g: "sp_delegations p \<noteq> []" "distinct (map ds_key (sp_delegations p))" "groups_ok p"
    using assms by (simp_all add: validate_plan_def split: if_splits)
  have "rbind (rmap (spec_ok reg p) (sp_delegations p)) (\<lambda>selected. rbind ?required (\<lambda>required.
      if set selected \<noteq> set required \<or> length (sp_delegations p) \<noteq> card (set selected)
      then Inl (Delegation_Rejected ''Supervisor changed required capability boundaries'') else Inr p)) = Inr q"
    using assms g by (simp only: validate_plan_def split: if_splits) simp_all
  then obtain ids required where ids: "rmap (spec_ok reg p) (sp_delegations p) = Inr ids"
    and req: "?required = Inr required"
    and last: "(if set ids \<noteq> set required \<or> length (sp_delegations p) \<noteq> card (set ids)
      then Inl (Delegation_Rejected ''Supervisor changed required capability boundaries'') else Inr p) = Inr q"
    unfolding rbind_Inr_iff by blast
  from last have eq: "set ids = set required" "length (sp_delegations p) = card (set ids)" "q = p"
    by (simp_all split: if_splits)
  show "q = p" and "sp_delegations p \<noteq> []" by fact+
  have in_groups: "k \<in> set (concat (sp_groups p)) \<longleftrightarrow> k \<in> set (map ds_key (sp_delegations p))" for k
    using g(3) by (simp add: groups_ok_def Let_def del: set_concat)
  have "earlier (sp_groups p) d (ds_key s)" if s: "s \<in> set (sp_delegations p)" and d: "d \<in> set (ds_depends_on s)" for s d
  proof -
    have "d \<in> set (map ds_key (sp_delegations p)) \<and> group_index (sp_groups p) d < group_index (sp_groups p) (ds_key s)"
      using rmap_Inr_mem [OF ids s] spec_ok_Inr d by (fastforce simp: list_all_iff)
    then show ?thesis using s by (intro group_index_earlier) (simp_all add: in_groups del: set_concat)
  qed
  then show "scheduled p" using g by (simp add: scheduled_def groups_ok_def Let_def del: set_concat set_map)
  have "agents_of reg p = Inr ids"
    unfolding agents_of_def using ids by (rule rmap_cong_Inr) (use spec_ok_Inr in blast)
  moreover have "distinct ids" using eq(2) rmap_Inr_length [OF ids] by (metis card_distinct)
  moreover have "set ids \<inter> {''supervisor'', ''reviewer''} = {}" using rmap_Inr_from [OF ids] spec_ok_Inr by blast
  ultimately show "\<exists>ids required. agents_of reg p = Inr ids \<and> distinct ids \<and> set ids \<inter> {''supervisor'', ''reviewer''} = {}
      \<and> rmap (\<lambda>c. rbind (specialist reg c) (\<lambda>a. Inr (ag_id a))) (od_capabilities decision) = Inr required
      \<and> set ids = set required" using req eq(1) by blast
qed

lemma adjust_plan_delegations [simp]:
  "sp_delegations (adjust_plan decision p) = sp_delegations p" "sp_actions (adjust_plan decision p) = sp_actions p"
  by (simp_all add: adjust_plan_def Let_def)

lemma adjust_plan_scheduled:
  assumes "scheduled p" and "sp_delegations p \<noteq> []"
  shows "scheduled (adjust_plan decision p)"
proof (cases "list_all (\<lambda>s. ds_depends_on s = []) (sp_delegations p)")
  case True
  with assms show ?thesis by (auto simp: scheduled_def adjust_plan_def Let_def list_all_iff)
next
  case False
  with assms show ?thesis by (auto simp: scheduled_def adjust_plan_def Let_def)
qed

lemma check_actions_Inr:
  "check_actions pol tools has_task goal p = Inr () \<Longrightarrow> length (sp_actions p) \<le> 2 \<and> (sp_actions p = [] \<or> has_task)"
  by (auto simp: check_actions_def split: if_splits)

text \<open>
  C31: the plan the supervisor acts on, whoever proposed it, is well formed.  Its delegations have distinct
  keys, every one of them is in exactly one execution group, after everything it depends on, and they go to
  different specialists, neither the supervisor nor the reviewer, which are just those the decision
  requires.  It has at most two actions, and none outside a task.
\<close>

theorem settled_plan_is_well_formed:
  assumes "settle_plan reg cfg pol tools has_task decision goal proposed = Inr p"
  shows "scheduled p \<and> sp_delegations p \<noteq> []
    \<and> (\<exists>ids required. agents_of reg p = Inr ids \<and> distinct ids \<and> set ids \<inter> {''supervisor'', ''reviewer''} = {}
      \<and> rmap (\<lambda>c. rbind (specialist reg c) (\<lambda>a. Inr (ag_id a))) (od_capabilities decision) = Inr required
      \<and> set ids = set required)
    \<and> length (sp_actions p) \<le> 2 \<and> (sp_actions p = [] \<or> has_task)"
proof -
  from assms obtain q m where q: "validate_plan reg decision m (choose_plan reg cfg decision goal proposed) = Inr q"
    and p: "p = adjust_plan decision q" and a: "check_actions pol tools has_task goal p = Inr ()"
    by (auto simp: settle_plan_def Let_def rbind_Inr_iff split: if_splits)
  have eq: "q = choose_plan reg cfg decision goal proposed" by (rule validate_plan_Inr(1) [OF q])
  note v = validate_plan_Inr(2-4) [OF q, folded eq]
  have "agents_of reg p = agents_of reg q" by (simp add: agents_of_def p)
  then show ?thesis
    using v adjust_plan_scheduled [OF v(1,2), of decision] check_actions_Inr [OF a] unfolding p by simp
qed

text \<open>The plan of the default registry for a question about data and code, proposed with a dependency.\<close>

definition sample_agents :: agents where
  "sample_agents = projr (default_registry (\<lambda>k. None))"

definition sample_decision :: orchestration_decision where
  "sample_decision = no_decision Multi_agent [] [''data.analyze'', ''code.review'']"

definition sample_plan :: supervisor_plan where
  "sample_plan = \<lparr>sp_goal = ''g'', sp_delegations =
      [\<lparr>ds_key = ''a'', ds_capability = ''data.analyze'', ds_objective = ''x'', ds_depends_on = []\<rparr>,
       \<lparr>ds_key = ''b'', ds_capability = ''code.inspect'', ds_objective = ''y'', ds_depends_on = [''a'']\<rparr>],
     sp_groups = [[''a''], [''b'']], sp_reviewer = True, sp_actions = []\<rparr>"

definition sample_policy :: policy_config where
  "sample_policy = \<lparr>pc_read_only = True, pc_repositories = [], pc_approve_writes = False, pc_approve_deletes = False,
     pc_auto_read = True, pc_approval_enabled = True, pc_secrets = [], pc_float = (\<lambda>r. [])\<rparr>"

theorem settled_plan_is_well_formed_witness:
  "settle_plan sample_agents (\<lambda>k. None) sample_policy [] False sample_decision ''g'' (Some sample_plan) = Inr sample_plan
   \<and> scheduled sample_plan"
proof -
  have s: "settle_plan sample_agents (\<lambda>k. None) sample_policy [] False sample_decision ''g'' (Some sample_plan) = Inr sample_plan"
    by code_simp
  then show ?thesis using settled_plan_is_well_formed [OF s] by simp
qed

section \<open>Reviews\<close>

lemma send_back_bounded:
  "send_back reg cfg env shared now fresh grp unresolved ss records handled db = (db', Inr records') \<Longrightarrow>
   length records \<le> 2 \<Longrightarrow> length records' \<le> 2"
proof (induction ss arbitrary: records handled db)
  case (Cons s ss)
  show ?case
  proof (cases "length records = 2")
    case True
    then have "send_back reg cfg env shared now fresh grp unresolved ss records handled db = (db', Inr records')"
      using Cons.prems(1) by (simp add: Let_def)
    then show ?thesis using Cons.IH Cons.prems(2) by blast
  next
    case False
    then have "length (records @ [i]) \<le> 2" for i using Cons.prems(2) by simp
    then show ?thesis using Cons.prems Cons.IH
      by (auto simp: Let_def split: if_splits sum.splits prod.splits)
  qed
qed simp

text \<open>A review sends back at most two delegations, once.\<close>

lemma redelegate_bounded:
  assumes "redelegate reg cfg env shared now fresh grp reviewed review_round None db = (db', Inr (Some records))"
  shows "length records \<le> 2" and "review_round = 0"
proof -
  from assms obtain r :: review where r: "send_back reg cfg env shared now fresh grp
      (set (rv_missing r @ rv_unsupported r @ rv_contradictions r)) (rv_suggested r) [] [] db = (db', Inr records)"
    and n: "\<not> review_rounds_max cfg \<le> int review_round"
    by (cases reviewed) (auto simp: redelegate_def simp del: set_append split: if_splits prod.splits sum.splits)
  show "length records \<le> 2" using send_back_bounded [OF r] by simp
  show "review_round = 0" using n by (simp add: review_rounds_max_def)
qed

end
