(* ===== verification/Workflow_Nodes.thy ===== *)
theory Workflow_Nodes
  imports Context_Harness Evidence
begin

text \<open>
  \<open>AgentWorkflowNodes\<close> of \<open>server/agent/nodes.py\<close> and its graph: analysing a question, planning
  retrieval, retrieving, grading, refining and answering.  What the model, the tools and the preparation
  of a prompt answer are inputs of the nodes; prompts are not modelled.  A node returns the state with
  its updates applied.
\<close>

section \<open>Sources and schemas\<close>

datatype source_name = Sn_workspace | Sn_pdf | Sn_web | Sn_arxiv

datatype query_type = Qt_direct | Qt_document | Qt_web | Qt_arxiv | Qt_research

definition tool_name :: "source_name \<Rightarrow> string" where
  "tool_name s = (case s of Sn_pdf \<Rightarrow> ''search_pdf'' | Sn_workspace \<Rightarrow> ''search_workspace''
     | Sn_web \<Rightarrow> ''search_web'' | Sn_arxiv \<Rightarrow> ''search_arxiv'')"

definition source_order :: "source_name list" where
  "source_order = [Sn_workspace, Sn_pdf, Sn_web, Sn_arxiv]"

definition max_plan_steps :: nat where
  "max_plan_steps = 3"

record retrieval_step =
  st_query :: string
  st_sources :: "source_name list"

definition step_valid :: "retrieval_step \<Rightarrow> bool" where
  "step_valid s = (st_query s \<noteq> [] \<and> 1 \<le> length (st_sources s) \<and> length (st_sources s) \<le> 3)"

definition plan_valid :: "retrieval_step list \<Rightarrow> bool" where
  "plan_valid p = (1 \<le> length p \<and> length p \<le> 3 \<and> list_all step_valid p)"

record query_analysis =
  qa_query :: string
  qa_type :: query_type
  qa_needs :: bool
  qa_sources :: "source_name list"

definition analysis_valid :: "query_analysis \<Rightarrow> bool" where
  "analysis_valid a = (qa_query a \<noteq> [] \<and> length (qa_sources a) \<le> 3)"

record evidence_grade =
  gr_relevance :: rat
  gr_coverage :: rat
  gr_sufficient :: bool
  gr_missing :: "string list"

definition grade_valid :: "evidence_grade \<Rightarrow> bool" where
  "grade_valid g = (0 \<le> gr_relevance g \<and> gr_relevance g \<le> 1 \<and> 0 \<le> gr_coverage g \<and> gr_coverage g \<le> 1
     \<and> length (gr_missing g) \<le> 5)"

record refinement =
  rf_query :: string
  rf_sources :: "source_name list"

definition refinement_valid :: "refinement \<Rightarrow> bool" where
  "refinement_valid r = (rf_query r \<noteq> [] \<and> 1 \<le> length (rf_sources r) \<and> length (rf_sources r) \<le> 3)"

section \<open>Structured answers\<close>

text \<open>
  What a structured model returns: an instance of the schema, an envelope with a parsing error or a parsed
  value, or a bare value; \<open>None\<close> is Python's.
\<close>

datatype 'a reply = Instance 'a | Envelope "string option" "'a option" | Bare "'a option"

definition checked :: "('a \<Rightarrow> bool) \<Rightarrow> 'a option \<Rightarrow> 'a result" where
  "checked valid v = (case v of
     None \<Rightarrow> Inl (Structured_Output_Failure ''nothing was returned'')
   | Some x \<Rightarrow> if valid x then Inr x else Inl (Structured_Output_Failure ''validation''))"

definition invoke_structured :: "('a \<Rightarrow> bool) \<Rightarrow> 'a reply result \<Rightarrow> 'a result" where
  "invoke_structured valid answered = rbind answered (\<lambda>r. case r of
     Instance x \<Rightarrow> Inr x
   | Envelope (Some e) v \<Rightarrow> Inl (Structured_Output_Failure e)
   | Envelope None v \<Rightarrow> checked valid v
   | Bare v \<Rightarrow> checked valid v)"

definition parse_failure :: "py_error \<Rightarrow> bool" where
  \<comment> \<open>\<open>except (StructuredOutputFailure, OutputParserException, ValidationError)\<close>\<close>
  "parse_failure e = (case e of
     Structured_Output_Failure _ \<Rightarrow> True
   | Provider_Error n \<Rightarrow> n = ''OutputParserException'' \<or> n = ''ValidationError''
   | _ \<Rightarrow> False)"

definition recovered :: "'a result \<Rightarrow> 'a \<Rightarrow> 'a result" where
  "recovered r v = (case r of Inl e \<Rightarrow> if parse_failure e then Inr v else Inl e | Inr x \<Rightarrow> Inr x)"

section \<open>State\<close>

datatype item_status = Item_success | Item_unavailable | Item_error

record pool_item =
  pi_source :: source_name
  pi_query :: string
  pi_content :: string
  pi_round :: nat
  pi_status :: item_status

record workflow_state =
  wf_messages :: "message list"
  wf_original :: string
  wf_standalone :: string
  wf_type :: query_type
  wf_needs :: bool
  wf_plan :: "retrieval_step list"
  wf_selected :: "source_name list"
  wf_pool :: "pool_item list"
  wf_sufficient :: bool
  wf_relevance :: rat
  wf_coverage :: rat
  wf_missing :: "string list"
  wf_grading_failed :: bool
  wf_retry_count :: nat
  wf_refined :: string
  wf_answer :: string

record nodes =
  nd_available :: "source_name list"
  nd_max_retries :: nat

definition make_nodes :: "string list \<Rightarrow> int \<Rightarrow> nodes result" where
  "make_nodes tool_names retries =
     (if retries < 0 then Inl (Value_Error ''Maximum retrieval retries cannot be negative'')
      else Inr \<lparr>nd_available = filter (\<lambda>s. tool_name s \<in> set tool_names) source_order, nd_max_retries = nat retries\<rparr>)"

section \<open>Helpers\<close>

fun first_user_text :: "(rat \<Rightarrow> string) \<Rightarrow> message list \<Rightarrow> string result" where
  "first_user_text fl [] = Inl (Value_Error ''Agent input must contain a non-empty user message'')"
| "first_user_text fl (m # ms) =
     (let q = strip (content_text fl m) in
      if m_role m = Human \<and> q \<noteq> [] then Inr q else first_user_text fl ms)"

definition latest_user_query :: "(rat \<Rightarrow> string) \<Rightarrow> message list \<Rightarrow> string result" where
  "latest_user_query fl ms = first_user_text fl (rev ms)"

definition conversation_messages :: "message list \<Rightarrow> message list" where
  "conversation_messages ms = filter (\<lambda>m. m_role m = Human \<or> m_role m = Assistant \<and> \<not> m_tool_calls m) ms"

fun clean_from :: "nat \<Rightarrow> string list \<Rightarrow> string list \<Rightarrow> string list" where
  "clean_from limit acc [] = acc"
| "clean_from limit acc (v # vs) =
     (let t = strip v; acc' = (if t \<noteq> [] \<and> t \<notin> set acc then acc @ [t] else acc) in
      if limit \<le> length acc' then acc' else clean_from limit acc' vs)"

definition clean_strings :: "nat \<Rightarrow> string list \<Rightarrow> string list" where
  "clean_strings limit vs = clean_from limit [] vs"

definition tool_content :: "string \<Rightarrow> string" where
  "tool_content c = (if strip c = [] then ''The retrieval source returned no content.'' else strip c)"

section \<open>Analysis\<close>

definition fallback_analysis :: "nodes \<Rightarrow> string \<Rightarrow> query_analysis" where
  "fallback_analysis nd q =
     (if Sn_pdf \<in> set (nd_available nd)
      then \<lparr>qa_query = q, qa_type = Qt_document, qa_needs = True, qa_sources = [Sn_pdf]\<rparr>
      else case nd_available nd of
        s # _ \<Rightarrow> \<lparr>qa_query = q, qa_type = (if s = Sn_arxiv then Qt_arxiv else Qt_web), qa_needs = True, qa_sources = [s]\<rparr>
      | [] \<Rightarrow> \<lparr>qa_query = q, qa_type = Qt_direct, qa_needs = False, qa_sources = []\<rparr>)"

definition sources_for_query_type :: "nodes \<Rightarrow> query_type \<Rightarrow> source_name list \<Rightarrow> source_name list" where
  "sources_for_query_type nd t proposed =
     (if t = Qt_direct then []
      else let candidates = (case t of Qt_document \<Rightarrow> [Sn_pdf] | Qt_web \<Rightarrow> [Sn_web] | Qt_arxiv \<Rightarrow> [Sn_arxiv] | _ \<Rightarrow> proposed);
               sources = filter (\<lambda>s. s \<in> set (nd_available nd)) candidates
           in fromkeys (if t = Qt_research \<and> sources = [] then nd_available nd else sources))"

definition query_analyzer ::
  "(rat \<Rightarrow> string) \<Rightarrow> nodes \<Rightarrow> query_analysis reply result \<Rightarrow> 'z workflow_state_scheme \<Rightarrow> 'z workflow_state_scheme result" where
  "query_analyzer fl nd answered s =
     rbind (latest_user_query fl (wf_messages s)) (\<lambda>original.
     rbind (recovered (invoke_structured analysis_valid answered) (fallback_analysis nd original)) (\<lambda>a.
       let sources = sources_for_query_type nd (qa_type a) (qa_sources a);
           direct = (qa_type a = Qt_direct)
       in Inr (s\<lparr>wf_original := original,
            wf_standalone := (if strip (qa_query a) = [] then original else strip (qa_query a)),
            wf_type := qa_type a, wf_needs := qa_needs a \<and> sources \<noteq> [] \<and> \<not> direct,
            wf_selected := (if direct then [] else sources), wf_plan := [], wf_pool := [], wf_sufficient := False,
            wf_relevance := 0, wf_coverage := 0, wf_missing := [], wf_grading_failed := False, wf_retry_count := 0,
            wf_refined := [], wf_answer := []\<rparr>)))"

section \<open>Planning\<close>

definition fallback_retrieval :: "'z workflow_state_scheme \<Rightarrow> retrieval_step list" where
  "fallback_retrieval s = (if wf_selected s = [] then []
     else [\<lparr>st_query = wf_standalone s, st_sources = wf_selected s\<rparr>])"

fun sanitize_steps ::
  "source_name set \<Rightarrow> (string \<times> source_name list) set \<Rightarrow> retrieval_step list \<Rightarrow> retrieval_step list" where
  "sanitize_steps usable seen [] = []"
| "sanitize_steps usable seen (st # sts) =
     (let q = strip (st_query st); ss = fromkeys (filter (\<lambda>x. x \<in> usable) (st_sources st)); key = (casefold q, ss) in
      if q \<noteq> [] \<and> ss \<noteq> [] \<and> key \<notin> seen
      then \<lparr>st_query = q, st_sources = ss\<rparr> # sanitize_steps usable (insert key seen) sts
      else sanitize_steps usable seen sts)"

definition sanitize_plan :: "nodes \<Rightarrow> retrieval_step list \<Rightarrow> 'z workflow_state_scheme \<Rightarrow> retrieval_step list" where
  "sanitize_plan nd proposed s =
     (if wf_type s \<noteq> Qt_research then fallback_retrieval s
      else let plan = sanitize_steps (set (nd_available nd) \<inter> set (wf_selected s)) {} (take max_plan_steps proposed);
               covered = set (concat (map st_sources plan));
               missing = filter (\<lambda>x. x \<notin> covered) (wf_selected s)
           in take max_plan_steps
                (if missing \<noteq> [] \<and> length plan < max_plan_steps
                 then plan @ [\<lparr>st_query = wf_standalone s, st_sources = missing\<rparr>] else plan))"

definition planner ::
  "nodes \<Rightarrow> retrieval_step list reply result \<Rightarrow> 'z workflow_state_scheme \<Rightarrow> 'z workflow_state_scheme result" where
  "planner nd answered s =
     rbind (recovered (rbind (invoke_structured plan_valid answered) (\<lambda>p.
              Inr (if sanitize_plan nd p s = [] then fallback_retrieval s else sanitize_plan nd p s)))
            (fallback_retrieval s)) (\<lambda>plan.
       Inr (s\<lparr>wf_plan := plan, wf_selected := fromkeys (concat (map st_sources plan))\<rparr>))"

section \<open>Retrieval\<close>

text \<open>A tool answers a content or raises; the name of the exception's class is what is recorded.\<close>

type_synonym search_tools = "source_name \<Rightarrow> string \<Rightarrow> string + string"

definition planned_searches :: "retrieval_step list \<Rightarrow> (string \<times> source_name) list" where
  "planned_searches plan = fromkeys (concat (map (\<lambda>st. let q = strip (st_query st) in
     if q = [] then [] else map (Pair q) (st_sources st)) plan))"

definition retrieve_one :: "nodes \<Rightarrow> search_tools \<Rightarrow> nat \<Rightarrow> string \<times> source_name \<Rightarrow> pool_item" where
  "retrieve_one nd tools rnd x = (case x of (q, src) \<Rightarrow>
     let item = (\<lambda>c st. \<lparr>pi_source = src, pi_query = q, pi_content = c, pi_round = rnd, pi_status = st\<rparr>) in
     if src \<notin> set (nd_available nd) then item (tool_name src @ '' is not available in this runtime.'') Item_error
     else case tools src q of
       Inl e \<Rightarrow> item (to_upper (tool_name src) @ ''_UNAVAILABLE: '' @ e) Item_unavailable
     | Inr c \<Rightarrow> item (tool_content c)
         (if contains ''UNAVAILABLE'' (to_upper (tool_content c)) then Item_unavailable else Item_success))"

definition retriever :: "nodes \<Rightarrow> search_tools \<Rightarrow> 'z workflow_state_scheme \<Rightarrow> 'z workflow_state_scheme" where
  "retriever nd tools s = s\<lparr>wf_pool := wf_pool s
     @ map (retrieve_one nd tools (wf_retry_count s)) (planned_searches (wf_plan s))\<rparr>"

section \<open>Grading and refining\<close>

definition evidence_grader ::
  "evidence_grade reply result \<Rightarrow> 'z workflow_state_scheme \<Rightarrow> 'z workflow_state_scheme result" where
  "evidence_grader answered s =
     (let found_any = list_ex (\<lambda>i. pi_status i = Item_success) (wf_pool s) in
      recovered (rbind (invoke_structured grade_valid answered) (\<lambda>g.
          Inr (s\<lparr>wf_sufficient := gr_sufficient g, wf_relevance := gr_relevance g, wf_coverage := gr_coverage g,
            wf_missing := clean_strings 5 (gr_missing g), wf_grading_failed := False\<rparr>)))
        (s\<lparr>wf_sufficient := found_any, wf_relevance := (if found_any then 1/2 else 0),
           wf_coverage := (if found_any then 1/2 else 0),
           wf_missing := (if found_any then [] else [''No retrieval source returned usable evidence.'']),
           wf_grading_failed := True\<rparr>))"

definition refinement_sources :: "nodes \<Rightarrow> 'z workflow_state_scheme \<Rightarrow> source_name list \<Rightarrow> source_name list" where
  "refinement_sources nd s proposed =
     (let candidates = (case wf_type s of Qt_document \<Rightarrow> [Sn_pdf] | Qt_web \<Rightarrow> [Sn_web] | Qt_arxiv \<Rightarrow> [Sn_arxiv] | _ \<Rightarrow> proposed);
          sources = fromkeys (filter (\<lambda>x. x \<in> set (nd_available nd)) candidates)
      in if sources = [] then wf_selected s else sources)"

definition em_dash :: char where
  "em_dash = CHR 0x97"

definition fallback_refined_query :: "'z workflow_state_scheme \<Rightarrow> string" where
  "fallback_refined_query s =
     (let missing = join ''; '' (clean_strings 3 (wf_missing s)) in
      strip (wf_standalone s) @ '' '' @ [em_dash] @ '' missing evidence: ''
        @ (if missing = [] then ''additional supporting details'' else missing))"

definition query_refiner ::
  "nodes \<Rightarrow> refinement reply result \<Rightarrow> 'z workflow_state_scheme \<Rightarrow> 'z workflow_state_scheme result" where
  "query_refiner nd answered s =
     rbind (recovered (rbind (invoke_structured refinement_valid answered) (\<lambda>r.
              let q = strip (rf_query r); ss = refinement_sources nd s (rf_sources r) in
              if q = [] \<or> ss = [] then Inl (Structured_Output_Failure ''Query refinement was empty'') else Inr (q, ss)))
            (fallback_refined_query s, refinement_sources nd s (wf_selected s))) (\<lambda>(q, ss).
       let previous = set (map (\<lambda>i. casefold (strip (pi_query i))) (wf_pool s));
           refined = (if casefold q \<in> previous then fallback_refined_query s else q)
       in Inr (s\<lparr>wf_retry_count := Suc (wf_retry_count s), wf_refined := refined,
            wf_plan := [\<lparr>st_query = refined, st_sources = ss\<rparr>], wf_selected := fromkeys (wf_selected s @ ss)\<rparr>))"

section \<open>Answering\<close>

definition generator :: "string result \<Rightarrow> 'z workflow_state_scheme \<Rightarrow> 'z workflow_state_scheme result" where
  "generator answered s = rbind answered (\<lambda>text.
     if strip text = [] then Inl (Runtime_Error ''Final generator returned an empty answer'')
     else Inr (s\<lparr>wf_messages := wf_messages s @ [\<lparr>m_role = Assistant, m_content = JStr (strip text), m_tool_calls = False\<rparr>],
            wf_answer := strip text\<rparr>))"

section \<open>The graph\<close>

definition wants_refinement :: "nodes \<Rightarrow> 'z workflow_state_scheme \<Rightarrow> bool" where
  \<comment> \<open>\<open>route_after_grading\<close> answers \<open>query_refiner\<close>\<close>
  "wants_refinement nd s = (\<not> wf_grading_failed s \<and> \<not> wf_sufficient s \<and> wf_retry_count s < nd_max_retries nd)"

text \<open>The answers to a run: those to the grader and the refiner are given per round.\<close>

record run_answers =
  an_analysis :: "query_analysis reply result"
  an_plan :: "retrieval_step list reply result"
  an_tools :: search_tools
  an_grade :: "nat \<Rightarrow> evidence_grade reply result"
  an_refine :: "nat \<Rightarrow> refinement reply result"
  an_text :: "string result"

lemma recovered_cases: "recovered r v = Inr x \<Longrightarrow> r = Inr x \<or> x = v"
  by (auto simp: recovered_def split: sum.splits if_splits)

lemma evidence_grader_retry: "evidence_grader g s = Inr t \<Longrightarrow> wf_retry_count t = wf_retry_count s"
  by (auto simp: evidence_grader_def Let_def rbind_Inr_iff dest!: recovered_cases)

lemma query_refiner_retry: "query_refiner nd r s = Inr t \<Longrightarrow> wf_retry_count t = Suc (wf_retry_count s)"
  by (auto simp: query_refiner_def Let_def rbind_Inr_iff)

function retrieval_loop :: "nodes \<Rightarrow> run_answers \<Rightarrow> workflow_state \<Rightarrow> workflow_state result" where
  "retrieval_loop nd an s =
     (case evidence_grader (an_grade an (wf_retry_count s)) (retriever nd (an_tools an) s) of
        Inl e \<Rightarrow> Inl e
      | Inr s1 \<Rightarrow>
          if \<not> wants_refinement nd s1 then Inr s1
          else (case query_refiner nd (an_refine an (wf_retry_count s)) s1 of
              Inl e \<Rightarrow> Inl e
            | Inr s2 \<Rightarrow> retrieval_loop nd an s2))"
  by pat_completeness auto

termination
proof (relation "measure (\<lambda>(nd, an, s). nd_max_retries nd - wf_retry_count s)", goal_cases)
  case (2 nd an s s1 s2)
  then have "wf_retry_count s1 = wf_retry_count s"
    using evidence_grader_retry [of "an_grade an (wf_retry_count s)" "retriever nd (an_tools an) s" s1]
    by (simp add: retriever_def)
  moreover have "wf_retry_count s2 = Suc (wf_retry_count s1)" using 2 query_refiner_retry by blast
  ultimately show ?case using 2 by (simp add: wants_refinement_def diff_less_mono2)
qed simp

definition run_workflow :: "(rat \<Rightarrow> string) \<Rightarrow> nodes \<Rightarrow> run_answers \<Rightarrow> workflow_state \<Rightarrow> workflow_state result" where
  "run_workflow fl nd an s =
     rbind (query_analyzer fl nd (an_analysis an) s) (\<lambda>s1.
     rbind (if wf_needs s1 then rbind (planner nd (an_plan an) s1) (retrieval_loop nd an) else Inr s1)
       (generator (an_text an)))"

end
