(* ===== verification/Research_Workflow.thy ===== *)
theory Research_Workflow
  imports Workflow_Nodes Agent_Schemas
begin

text \<open>
  \<open>ResearchWorkflowNodes\<close> of \<open>server/agent/research_workflow.py\<close> and the graph \<open>graph.py\<close> builds from
  them: source policy, bounded planning and execution, self-correction, and the grounded final answer.
  The answers of models and tools are the inputs of a step; \<open>GraphInterrupt\<close> is a tool outcome.
\<close>

section \<open>Configuration and state\<close>

record research_config =
  rc_planner :: bool              \<comment> \<open>\<open>PLANNER_ENABLED\<close>\<close>
  rc_max_steps :: int
  rc_max_iterations :: int
  rc_max_replan :: int
  rc_rewrite_max :: int
  rc_self_correct :: bool
  rc_grounding :: bool
  rc_revision_max :: int

datatype plan_status = Step_pending | Step_running | Step_completed | Step_failed

record plan_step =
  ps_id :: string
  ps_description :: string
  ps_query :: string
  ps_sources :: "source_name list"
  ps_status :: plan_status
  ps_tool :: "string option"

record task_plan =
  tp_goal :: string
  tp_summary :: string
  tp_steps :: "plan_step list"

definition task_plan_valid :: "task_plan \<Rightarrow> bool" where
  "task_plan_valid p = (length (tp_summary p) \<le> 500 \<and> tp_steps p \<noteq> []
     \<and> list_all (\<lambda>s. ps_description s \<noteq> [] \<and> ps_query s \<noteq> []) (tp_steps p))"

record retrieval_grade =
  rg_relevant :: bool
  rg_sufficient :: bool
  rg_confidence :: rat
  rg_reason :: string

definition retrieval_grade_valid :: "retrieval_grade \<Rightarrow> bool" where
  "retrieval_grade_valid g = (0 \<le> rg_confidence g \<and> rg_confidence g \<le> 1)"

record verification =
  vf_grounded :: bool
  vf_unsupported :: "string list"
  vf_confidence :: rat

definition verification_valid :: "verification \<Rightarrow> bool" where
  "verification_valid v = (0 \<le> vf_confidence v \<and> vf_confidence v \<le> 1)"

definition unsupported :: "verification \<Rightarrow> bool" where
  "unsupported v = (\<not> vf_grounded v \<or> vf_unsupported v \<noteq> [])"

record research_state = workflow_state +
  rw_scope :: scope
  rw_complex :: bool
  rw_goal :: string
  rw_task_plan :: "task_plan option"
  rw_step :: nat
  rw_results :: "(nat \<times> bool) list"     \<comment> \<open>index and whether the step completed\<close>
  rw_attempts :: nat
  rw_rewrites :: nat
  rw_replans :: nat
  rw_tool_calls :: nat
  rw_tools_used :: "string list"
  rw_evidence :: "(ident, evidence) dict"
  rw_citations :: "citation list"
  rw_verification :: "verification option"
  rw_revisions :: nat
  rw_fallback_done :: bool
  rw_plan_is_task :: bool
  rw_documents :: "(ident, int option) dict option"
  rw_document :: "(ident \<times> string \<times> int option) option"   \<comment> \<open>\<open>document_metadata\<close>\<close>

definition allowed :: "nodes \<Rightarrow> research_state \<Rightarrow> source_name list \<Rightarrow> source_name list" where
  "allowed nd s sources =
     (let ss = (if Sn_workspace \<in> set (nd_available nd)
                then map (\<lambda>x. if x = Sn_pdf then Sn_workspace else x) sources else sources)
      in fromkeys (filter (\<lambda>x. x \<in> set (nd_available nd)
           \<and> (rw_scope s \<noteq> Scope_workspace \<or> x \<in> {Sn_pdf, Sn_workspace})
           \<and> (rw_scope s \<noteq> Scope_external \<or> x \<in> {Sn_web, Sn_arxiv})) ss))"

definition any_answer :: "'a result \<Rightarrow> 'a \<Rightarrow> 'a" where
  \<comment> \<open>\<open>try: ... except Exception: ...\<close>\<close>
  "any_answer r v = (case r of Inl e \<Rightarrow> v | Inr x \<Rightarrow> x)"

section \<open>Analysis and planning\<close>

definition only_rx :: rx where
  "only_rx = Seqs [ILit ''only'', Between 0 35 Any, Alts (map ILit [''uploaded'', ''documents'', ''papers''])]"

definition complex_rx :: rx where
  "complex_rx = Alts [ILit ''compare'', ILit ''contrast'', ILit ''synthesi'', ILit ''evolution'',
     Seqs [ILit ''across'', Plus (Cls is_space), ILit ''documents''], Seqs [ILit ''each'', Plus (Cls is_space), ILit ''paper''],
     Seqs [ILit ''all'', Plus (Cls is_space), ILit ''papers'']]"

definition research_analyzer ::
  "(rat \<Rightarrow> string) \<Rightarrow> nodes \<Rightarrow> query_analysis reply result \<Rightarrow> research_state \<Rightarrow> research_state result" where
  "research_analyzer fl nd answered s =
     rbind (query_analyzer fl nd answered s) (\<lambda>u.
       let query = wf_original u;
           scope = (if found only_rx query then Scope_workspace else rw_scope s);
           scoped = u\<lparr>rw_scope := scope\<rparr>;
           local = allowed nd scoped [Sn_workspace, Sn_pdf];
           proposed = allowed nd scoped (wf_selected u);
           sources = (if local \<noteq> [] then local
             else if scope = Scope_external \<and> proposed = [] then allowed nd scoped [Sn_web, Sn_arxiv] else proposed);
           needs = (sources \<noteq> [] \<and> wf_type u \<noteq> Qt_direct);
           complex = (needs \<and> (found complex_rx query \<or> wf_type u = Qt_research))
       in Inr (scoped\<lparr>wf_selected := sources, wf_needs := needs, rw_complex := complex, rw_goal := query,
            rw_task_plan := None, rw_step := 0, rw_results := [], rw_attempts := 0, rw_rewrites := 0, rw_replans := 0,
            rw_tool_calls := 0, rw_tools_used := [], rw_evidence := [], rw_citations := [], rw_verification := None,
            rw_revisions := 0, rw_fallback_done := False, rw_plan_is_task := False\<rparr>))"

definition simple_plan :: "research_state \<Rightarrow> research_state" where
  "simple_plan s = s\<lparr>wf_plan := [\<lparr>st_query = wf_standalone s, st_sources = wf_selected s\<rparr>], rw_step := 0,
     rw_plan_is_task := False\<rparr>"

definition py_take :: "int \<Rightarrow> 'a list \<Rightarrow> 'a list" where
  \<comment> \<open>\<open>xs[:n]\<close>\<close>
  "py_take n xs = (if 0 \<le> n then take (nat n) xs else take (length xs - nat (- n)) xs)"

definition external_left :: "nodes \<Rightarrow> research_state \<Rightarrow> bool" where
  "external_left nd s = (allowed nd s [Sn_web, Sn_arxiv] \<noteq> [] \<and> \<not> rw_fallback_done s)"

definition planned_step :: "nodes \<Rightarrow> research_state \<Rightarrow> nat \<times> plan_step \<Rightarrow> plan_step list" where
  "planned_step nd s x = (case x of (i, st) \<Rightarrow>
     let ss = filter (\<lambda>y. y \<in> set (wf_selected s)) (allowed nd s (if ps_sources st = [] then wf_selected s else ps_sources st))
     in if ss = [] then []
        else [st\<lparr>ps_id := ''step_'' @ nat_text (Suc i), ps_sources := ss, ps_status := Step_pending,
               ps_tool := Some (tool_name (hd ss))\<rparr>])"

definition planned_steps :: "research_config \<Rightarrow> nodes \<Rightarrow> research_state \<Rightarrow> task_plan \<Rightarrow> plan_step list" where
  "planned_steps cfg nd s p =
     (let reserve = (if external_left nd s then 1 else 0);
          remaining = max 1 (rc_max_iterations cfg - int (rw_attempts s) - reserve);
          steps = py_take (min (rc_max_steps cfg) remaining) (tp_steps p)
      in concat (map (planned_step nd s) (zip [0..<length steps] steps)))"

definition direct_plan :: "research_state \<Rightarrow> task_plan" where
  "direct_plan s = \<lparr>tp_goal = rw_goal s, tp_summary = ''Planner unavailable; retrieving evidence directly.'',
     tp_steps = [\<lparr>ps_id = ''step_1'', ps_description = ''Retrieve supporting evidence'', ps_query = wf_standalone s,
       ps_sources = wf_selected s, ps_status = Step_pending, ps_tool = None\<rparr>]\<rparr>"

definition research_planner ::
  "research_config \<Rightarrow> nodes \<Rightarrow> task_plan reply result \<Rightarrow> research_state \<Rightarrow> research_state" where
  "research_planner cfg nd answered s =
     any_answer (rbind (invoke_structured task_plan_valid answered) (\<lambda>p.
         let steps = planned_steps cfg nd s p in
         if steps = [] then Inl (Value_Error ''Planner returned no allowed steps'')
         else Inr (s\<lparr>rw_task_plan := Some (p\<lparr>tp_steps := steps\<rparr>),
                wf_plan := map (\<lambda>st. \<lparr>st_query = ps_query st, st_sources = ps_sources st\<rparr>) steps, rw_step := 0,
                rw_plan_is_task := True\<rparr>)))
       ((simple_plan s)\<lparr>rw_task_plan := Some (direct_plan s), rw_plan_is_task := True\<rparr>)"

section \<open>Execution\<close>

datatype tool_outcome =
    Tool_items "evidence list"
  | Tool_text string
  | Tool_raised
  | Tool_interrupted

type_synonym research_tools = "source_name \<Rightarrow> string \<Rightarrow> tool_outcome"

record execution =
  ex_evidence :: "(ident, evidence) dict"
  ex_pool :: "pool_item list"
  ex_used :: "string list"
  ex_failures :: nat

definition with_document :: "research_state \<Rightarrow> source_name \<Rightarrow> evidence \<Rightarrow> evidence" where
  "with_document s src e = (case rw_document s of
     Some (i, name, pages) \<Rightarrow> if src = Sn_pdf
       then e\<lparr>ev_document_id := Some i, ev_document_name := Some name, ev_page_count := pages\<rparr> else e
   | None \<Rightarrow> e)"

definition execute_source ::
  "(evidence list \<Rightarrow> string) \<Rightarrow> research_state \<Rightarrow> string \<Rightarrow> research_tools \<Rightarrow> execution \<Rightarrow> source_name \<Rightarrow> execution result" where
  "execute_source dump s query tools ex src =
     (let record_item = (\<lambda>ev c st. ex\<lparr>ex_evidence := ev,
            ex_pool := ex_pool ex @ [\<lparr>pi_source = src, pi_query = query, pi_content = c, pi_round = rw_rewrites s, pi_status = st\<rparr>],
            ex_used := ex_used ex @ [tool_name src],
            ex_failures := (if st = Item_success then ex_failures ex else Suc (ex_failures ex))\<rparr>);
          raised = record_item (ex_evidence ex) (tool_name src @ ''_UNAVAILABLE'') Item_error
      in case tools src query of
        Tool_interrupted \<Rightarrow> Inl (Provider_Error ''GraphInterrupt'')
      | Tool_raised \<Rightarrow> Inr raised
      | Tool_text c \<Rightarrow> Inr (record_item (ex_evidence ex) c
            (if contains ''UNAVAILABLE'' (to_upper c) then Item_unavailable else Item_success))
      | Tool_items es \<Rightarrow>
          if list_all evidence_valid es
          then let items = map (with_document s src) es in
               Inr (record_item (fold (\<lambda>e d. dict_put (ev_id e) e d) items (ex_evidence ex)) (dump items)
                     (if items = [] then Item_unavailable else Item_success))
          else Inr raised)"

definition exhausted :: "research_config \<Rightarrow> research_state \<Rightarrow> bool" where
  "exhausted cfg s = (rc_max_iterations cfg \<le> int (rw_attempts s))"

definition executor ::
  "(evidence list \<Rightarrow> string) \<Rightarrow> research_config \<Rightarrow> nodes \<Rightarrow> research_tools \<Rightarrow> research_state \<Rightarrow> research_state result" where
  "executor dump cfg nd tools s =
     (if length (wf_plan s) \<le> rw_step s \<or> exhausted cfg s then Inr (s\<lparr>rw_step := length (wf_plan s)\<rparr>)
      else
        let step = wf_plan s ! rw_step s; sources = allowed nd s (st_sources step) in
        rbind (rfold (execute_source dump s (st_query step) tools)
            \<lparr>ex_evidence = rw_evidence s, ex_pool = wf_pool s, ex_used = rw_tools_used s, ex_failures = 0\<rparr> sources)
          (\<lambda>ex. Inr (s\<lparr>rw_evidence := ex_evidence ex, wf_pool := ex_pool ex,
             rw_results := rw_results s @ [(rw_step s, ex_failures ex \<noteq> length sources)],
             rw_tool_calls := rw_tool_calls s + length sources, rw_tools_used := ex_used ex,
             rw_attempts := Suc (rw_attempts s)\<rparr>)))"

definition step_statuses :: "research_config \<Rightarrow> research_state \<Rightarrow> plan_step list \<Rightarrow> plan_step list" where
  "step_statuses cfg s steps =
     (let i = rw_step s;
          marked = (if i < length steps \<and> rw_results s \<noteq> []
            then steps[i := (steps ! i)\<lparr>ps_status := (if snd (last (rw_results s)) then Step_completed else Step_failed)\<rparr>]
            else steps)
      in if exhausted cfg s
         then take (Suc i) marked @ map (\<lambda>st. st\<lparr>ps_status := Step_failed\<rparr>) (drop (Suc i) marked) else marked)"

definition step_evaluator :: "research_config \<Rightarrow> research_state \<Rightarrow> research_state" where
  "step_evaluator cfg s = s\<lparr>rw_step := Suc (rw_step s),
     rw_task_plan := (case rw_task_plan s of
        None \<Rightarrow> None
      | Some p \<Rightarrow> Some (if rw_plan_is_task s then p\<lparr>tp_steps := step_statuses cfg s (tp_steps p)\<rparr> else p))\<rparr>"

section \<open>Correction\<close>

definition research_grader :: "retrieval_grade reply result \<Rightarrow> research_state \<Rightarrow> research_state" where
  "research_grader answered s =
     any_answer (rbind (invoke_structured retrieval_grade_valid answered) (\<lambda>g.
         Inr (s\<lparr>wf_sufficient := rg_sufficient g \<and> rg_relevant g \<and> rw_evidence s \<noteq> [],
                wf_relevance := (if rg_relevant g then rg_confidence g else 0),
                wf_missing := (if rg_sufficient g then [] else [rg_reason g]), wf_grading_failed := False\<rparr>)))
       (s\<lparr>wf_sufficient := False, wf_grading_failed := True,
          wf_missing := [''Evidence sufficiency could not be verified'']\<rparr>)"

definition policed :: "nodes \<Rightarrow> research_state \<Rightarrow> retrieval_step \<Rightarrow> retrieval_step" where
  "policed nd s st = (let local = allowed nd s [Sn_workspace, Sn_pdf] in
     st\<lparr>st_sources := (if local \<noteq> [] \<and> \<not> rw_fallback_done s then local else allowed nd s (st_sources st))\<rparr>)"

definition research_refiner :: "nodes \<Rightarrow> refinement reply result \<Rightarrow> research_state \<Rightarrow> research_state" where
  "research_refiner nd answered s =
     (let u = any_answer (query_refiner nd answered s)
            (s\<lparr>wf_retry_count := Suc (wf_retry_count s),
               wf_plan := [\<lparr>st_query = fallback_refined_query s, st_sources = wf_selected s\<rparr>]\<rparr>)
      in u\<lparr>wf_plan := map (policed nd s) (wf_plan u), rw_step := 0, rw_rewrites := Suc (rw_rewrites s),
           rw_plan_is_task := False, wf_selected := allowed nd s (wf_selected s)\<rparr>)"

definition research_replanner ::
  "research_config \<Rightarrow> nodes \<Rightarrow> task_plan reply result \<Rightarrow> research_state \<Rightarrow> research_state" where
  "research_replanner cfg nd answered s = (research_planner cfg nd answered s)\<lparr>rw_replans := Suc (rw_replans s)\<rparr>"

definition academic_rx :: rx where
  "academic_rx = Alts (map ILit [''paper'', ''research'', ''arxiv''])"

definition external_fallback :: "nodes \<Rightarrow> research_state \<Rightarrow> research_state" where
  "external_fallback nd s =
     (let academic = found academic_rx (wf_original s);
          first = allowed nd s [if academic then Sn_arxiv else Sn_web];
          sources = (if first = [] then allowed nd s [if academic then Sn_web else Sn_arxiv] else first)
      in s\<lparr>wf_plan := [\<lparr>st_query = wf_standalone s, st_sources = sources\<rparr>], rw_step := 0, rw_fallback_done := True,
           rw_plan_is_task := False\<rparr>)"

section \<open>The final answer\<close>

definition verifier :: "research_config \<Rightarrow> verification reply result \<Rightarrow> research_state \<Rightarrow> research_state" where
  "verifier cfg answered s =
     (if \<not> wf_needs s \<or> \<not> rc_grounding cfg then s\<lparr>rw_verification := None\<rparr>
      else if rw_evidence s = []
      then s\<lparr>rw_verification := Some \<lparr>vf_grounded = False, vf_unsupported = [''No supporting tool evidence''], vf_confidence = 0\<rparr>\<rparr>
      else s\<lparr>rw_verification := Some (any_answer (invoke_structured verification_valid answered)
             \<lparr>vf_grounded = False, vf_unsupported = [''Answer could not be verified''], vf_confidence = 0\<rparr>)\<rparr>)"

definition answer_revision :: "string result \<Rightarrow> research_state \<Rightarrow> research_state" where
  "answer_revision answered s =
     s\<lparr>wf_answer := any_answer (rbind answered (\<lambda>t. if strip t = [] then Inl (Value_Error ''Empty answer revision'') else Inr (strip t)))
          ''The retrieved evidence does not support a verified answer to this question.'',
       rw_revisions := Suc (rw_revisions s)\<rparr>"

definition unverified_answer :: string where
  "unverified_answer = ''A complete answer could not be verified from the retrieved evidence.''"

definition final_text :: "research_state \<Rightarrow> string" where
  "final_text s = (case rw_verification s of
     Some v \<Rightarrow> if unsupported v then unverified_answer else wf_answer s
   | None \<Rightarrow> wf_answer s)"

definition citation_validator :: "research_state \<Rightarrow> research_state result" where
  "citation_validator s =
     (let es = map snd (rw_evidence s) in
      if \<not> list_all evidence_valid es then Inl (Provider_Error ''ValidationError'')
      else if wf_messages s = [] then Inl Index_Error
      else case render_citations (final_text s) es (rw_documents s) of (answer, cited) \<Rightarrow>
        Inr (s\<lparr>wf_answer := answer,
          wf_messages := butlast (wf_messages s) @ [\<lparr>m_role = Assistant, m_content = JStr answer, m_tool_calls = False\<rparr>],
          rw_citations := cited\<rparr>))"

section \<open>The graph\<close>

datatype research_node =
    N_analyzer | N_simple | N_planner | N_executor | N_evaluator | N_grader | N_refiner | N_replanner
  | N_fallback | N_generator | N_verifier | N_revision | N_citations | N_end

definition route_after_analysis :: "research_config \<Rightarrow> research_state \<Rightarrow> research_node" where
  "route_after_analysis cfg s =
     (if \<not> wf_needs s then N_generator else if rw_complex s \<and> rc_planner cfg then N_planner else N_simple)"

definition route_after_step :: "research_config \<Rightarrow> research_state \<Rightarrow> research_node" where
  "route_after_step cfg s =
     (if rw_step s < length (wf_plan s) \<and> \<not> exhausted cfg s then N_executor else N_grader)"

definition route_after_grading :: "research_config \<Rightarrow> nodes \<Rightarrow> research_state \<Rightarrow> research_node" where
  "route_after_grading cfg nd s =
     (if wf_sufficient s \<or> wf_grading_failed s \<or> exhausted cfg s then N_generator
      else
        let reserve = (if external_left nd s then 1 else 0);
            remaining = rc_max_iterations cfg - int (rw_attempts s) in
        if rc_self_correct cfg \<and> int (rw_rewrites s) < min 2 (rc_rewrite_max cfg) \<and> reserve < remaining then N_refiner
        else if rw_complex s \<and> int (rw_replans s) < rc_max_replan cfg \<and> rc_planner cfg \<and> reserve < remaining
        then N_replanner
        else if external_left nd s then N_fallback else N_generator)"

definition route_after_verification :: "research_config \<Rightarrow> research_state \<Rightarrow> research_node" where
  "route_after_verification cfg s =
     (case rw_verification s of
        Some v \<Rightarrow> if unsupported v \<and> int (rw_revisions s) < min 1 (rc_revision_max cfg) then N_revision else N_citations
      | None \<Rightarrow> N_citations)"

text \<open>The answers one step may need.\<close>

record step_answers =
  sa_analysis :: "query_analysis reply result"
  sa_plan :: "task_plan reply result"
  sa_tools :: research_tools
  sa_grade :: "retrieval_grade reply result"
  sa_refine :: "refinement reply result"
  sa_verify :: "verification reply result"
  sa_text :: "string result"

record runtime =
  rt_floats :: "rat \<Rightarrow> string"
  rt_dump :: "evidence list \<Rightarrow> string"      \<comment> \<open>\<open>_json_text\<close> of the items a tool returned\<close>
  rt_nodes :: nodes
  rt_config :: research_config

fun research_step ::
  "runtime \<Rightarrow> step_answers \<Rightarrow> research_node \<times> research_state \<Rightarrow> (research_node \<times> research_state) result" where
  "research_step rt a (N_analyzer, s) =
     rbind (research_analyzer (rt_floats rt) (rt_nodes rt) (sa_analysis a) s) (\<lambda>t. Inr (route_after_analysis (rt_config rt) t, t))"
| "research_step rt a (N_simple, s) = Inr (N_executor, simple_plan s)"
| "research_step rt a (N_planner, s) = Inr (N_executor, research_planner (rt_config rt) (rt_nodes rt) (sa_plan a) s)"
| "research_step rt a (N_executor, s) =
     rbind (executor (rt_dump rt) (rt_config rt) (rt_nodes rt) (sa_tools a) s) (\<lambda>t. Inr (N_evaluator, t))"
| "research_step rt a (N_evaluator, s) =
     (let t = step_evaluator (rt_config rt) s in Inr (route_after_step (rt_config rt) t, t))"
| "research_step rt a (N_grader, s) =
     (let t = research_grader (sa_grade a) s in Inr (route_after_grading (rt_config rt) (rt_nodes rt) t, t))"
| "research_step rt a (N_refiner, s) = Inr (N_executor, research_refiner (rt_nodes rt) (sa_refine a) s)"
| "research_step rt a (N_replanner, s) =
     Inr (N_executor, research_replanner (rt_config rt) (rt_nodes rt) (sa_plan a) s)"
| "research_step rt a (N_fallback, s) = Inr (N_executor, external_fallback (rt_nodes rt) s)"
| "research_step rt a (N_generator, s) = rbind (generator (sa_text a) s) (\<lambda>t. Inr (N_verifier, t))"
| "research_step rt a (N_verifier, s) =
     (let t = verifier (rt_config rt) (sa_verify a) s in Inr (route_after_verification (rt_config rt) t, t))"
| "research_step rt a (N_revision, s) = Inr (N_verifier, answer_revision (sa_text a) s)"
| "research_step rt a (N_citations, s) = rbind (citation_validator s) (\<lambda>t. Inr (N_end, t))"
| "research_step rt a (N_end, s) = Inr (N_end, s)"

fun research_run ::
  "runtime \<Rightarrow> step_answers list \<Rightarrow> research_node \<times> research_state \<Rightarrow> (research_node \<times> research_state) result" where
  "research_run rt [] c = Inr c"
| "research_run rt (a # as) c = rbind (research_step rt a c) (research_run rt as)"

end
