(* ===== verification/Research_Workflow_Laws.thy ===== *)
theory Research_Workflow_Laws
  imports Research_Workflow
begin

text \<open>
  The research graph ends within an explicit number of nodes (the default configuration needs 32, two
  memory nodes and a spare one make \<open>AGENT_MAX_GRAPH_STEPS = 35\<close>), and no answer of a model makes it
  search a source outside the policy of the run.
\<close>

section \<open>What a node leaves alone\<close>

named_theorems node_frame

lemma query_refiner_frame:
  assumes "query_refiner nd r s = Inr u"
  shows "workflow_state.more u = workflow_state.more s" "length (wf_plan u) = 1" "wf_pool u = wf_pool s"
  using assms by (auto simp: query_refiner_def Let_def rbind_Inr_iff)

lemma query_refiner_keeps:
  assumes "query_refiner nd r s = Inr u"
  shows "rw_scope u = rw_scope s" "rw_rewrites u = rw_rewrites s" "rw_replans u = rw_replans s"
    "rw_attempts u = rw_attempts s" "rw_revisions u = rw_revisions s" "rw_fallback_done u = rw_fallback_done s"
    "rw_tools_used u = rw_tools_used s" "wf_pool u = wf_pool s" "length (wf_plan u) = 1"
  using assms by (auto simp: query_refiner_def Let_def rbind_Inr_iff)

lemma any_answer_cases: "any_answer r v = x \<Longrightarrow> r = Inr x \<or> x = v"
  by (auto simp: any_answer_def split: sum.splits)

lemma research_refiner_keeps [node_frame]:
  "rw_scope (research_refiner nd r s) = rw_scope s" "rw_rewrites (research_refiner nd r s) = Suc (rw_rewrites s)"
  "rw_replans (research_refiner nd r s) = rw_replans s" "rw_attempts (research_refiner nd r s) = rw_attempts s"
  "rw_revisions (research_refiner nd r s) = rw_revisions s"
  "rw_fallback_done (research_refiner nd r s) = rw_fallback_done s"
  "rw_tools_used (research_refiner nd r s) = rw_tools_used s"
  "wf_pool (research_refiner nd r s) = wf_pool s" "length (wf_plan (research_refiner nd r s)) = 1"
  "rw_step (research_refiner nd r s) = 0"
  "wf_selected (research_refiner nd r s) = allowed nd s (wf_selected s)"
  by (cases "query_refiner nd r s";
      simp add: research_refiner_def any_answer_def Let_def query_refiner_keeps)+

lemma research_planner_keeps [node_frame]:
  "rw_scope (research_planner cfg nd p s) = rw_scope s" "rw_rewrites (research_planner cfg nd p s) = rw_rewrites s"
  "rw_replans (research_planner cfg nd p s) = rw_replans s" "rw_attempts (research_planner cfg nd p s) = rw_attempts s"
  "rw_revisions (research_planner cfg nd p s) = rw_revisions s"
  "rw_fallback_done (research_planner cfg nd p s) = rw_fallback_done s"
  "rw_tools_used (research_planner cfg nd p s) = rw_tools_used s"
  "wf_pool (research_planner cfg nd p s) = wf_pool s" "wf_plan (research_planner cfg nd p s) \<noteq> []"
  "rw_step (research_planner cfg nd p s) = 0" "wf_selected (research_planner cfg nd p s) = wf_selected s"
  by (cases "invoke_structured task_plan_valid p"; auto simp: research_planner_def any_answer_def simple_plan_def Let_def)+

lemma executor_cases:
  assumes "executor dump cfg nd tools s = Inr t"
  obtains "length (wf_plan s) \<le> rw_step s \<or> exhausted cfg s" "t = s\<lparr>rw_step := length (wf_plan s)\<rparr>"
  | ex where "rw_step s < length (wf_plan s)" "\<not> exhausted cfg s"
      "rfold (execute_source dump s (st_query (wf_plan s ! rw_step s)) tools)
         \<lparr>ex_evidence = rw_evidence s, ex_pool = wf_pool s, ex_used = rw_tools_used s, ex_failures = 0\<rparr>
         (allowed nd s (st_sources (wf_plan s ! rw_step s))) = Inr ex"
      "wf_pool t = ex_pool ex" "rw_tools_used t = ex_used ex" "rw_attempts t = Suc (rw_attempts s)"
      "wf_plan t = wf_plan s" "wf_selected t = wf_selected s" "rw_scope t = rw_scope s" "rw_step t = rw_step s"
      "rw_rewrites t = rw_rewrites s" "rw_replans t = rw_replans s" "rw_revisions t = rw_revisions s"
      "rw_fallback_done t = rw_fallback_done s"
proof (cases "length (wf_plan s) \<le> rw_step s \<or> exhausted cfg s")
  case True
  then show thesis using assms that(1) by (simp add: executor_def)
next
  case False
  with assms obtain ex where
    ex: "rfold (execute_source dump s (st_query (wf_plan s ! rw_step s)) tools)
         \<lparr>ex_evidence = rw_evidence s, ex_pool = wf_pool s, ex_used = rw_tools_used s, ex_failures = 0\<rparr>
         (allowed nd s (st_sources (wf_plan s ! rw_step s))) = Inr ex"
    and t: "t = s\<lparr>rw_evidence := ex_evidence ex, wf_pool := ex_pool ex,
       rw_results := rw_results s @ [(rw_step s, ex_failures ex \<noteq> length (allowed nd s (st_sources (wf_plan s ! rw_step s))))],
       rw_tool_calls := rw_tool_calls s + length (allowed nd s (st_sources (wf_plan s ! rw_step s))),
       rw_tools_used := ex_used ex, rw_attempts := Suc (rw_attempts s)\<rparr>"
    by (simp only: executor_def Let_def if_False rbind_Inr_iff Inr_inject) blast
  show thesis using False ex by (intro that(2) [of ex]) (simp_all add: t)
qed

section \<open>A sample run\<close>

definition sample_limits :: research_config where
  "sample_limits = \<lparr>rc_planner = False, rc_max_steps = 2, rc_max_iterations = 1, rc_max_replan = 0, rc_rewrite_max = 0,
     rc_self_correct = False, rc_grounding = False, rc_revision_max = 0\<rparr>"

definition sample_runtime :: runtime where
  "sample_runtime = \<lparr>rt_floats = (\<lambda>_. []), rt_dump = (\<lambda>_. []),
     rt_nodes = \<lparr>nd_available = [Sn_workspace, Sn_web], nd_max_retries = 1\<rparr>, rt_config = sample_limits\<rparr>"

definition sample_answers :: step_answers where
  "sample_answers = \<lparr>sa_analysis = Inr (Instance \<lparr>qa_query = ''q'', qa_type = Qt_web, qa_needs = True, qa_sources = [Sn_web]\<rparr>),
     sa_plan = Inl Index_Error, sa_tools = (\<lambda>_ _. Tool_text ''n''), sa_grade = Inl Index_Error, sa_refine = Inl Index_Error,
     sa_verify = Inl Index_Error, sa_text = Inr ''a''\<rparr>"

definition sample_state :: research_state where
  "sample_state = \<lparr>wf_messages = [\<lparr>m_role = Human, m_content = JStr ''q'', m_tool_calls = False\<rparr>], wf_original = [],
     wf_standalone = [], wf_type = Qt_direct, wf_needs = False, wf_plan = [], wf_selected = [], wf_pool = [],
     wf_sufficient = False, wf_relevance = 0, wf_coverage = 0, wf_missing = [], wf_grading_failed = False,
     wf_retry_count = 0, wf_refined = [], wf_answer = [], rw_scope = Scope_workspace_external, rw_complex = False,
     rw_goal = [], rw_task_plan = None, rw_step = 0, rw_results = [], rw_attempts = 0, rw_rewrites = 0, rw_replans = 0,
     rw_tool_calls = 0, rw_tools_used = [], rw_evidence = [], rw_citations = [], rw_verification = None,
     rw_revisions = 0, rw_fallback_done = False, rw_plan_is_task = False, rw_documents = None, rw_document = None\<rparr>"

section \<open>The graph ends\<close>

definition revisions_left :: "research_config \<Rightarrow> research_state \<Rightarrow> nat" where
  "revisions_left cfg s = nat (min 1 (rc_revision_max cfg)) - rw_revisions s"

definition corrections_left :: "research_config \<Rightarrow> research_state \<Rightarrow> nat" where
  "corrections_left cfg s = (nat (min 2 (rc_rewrite_max cfg)) - rw_rewrites s) + (nat (rc_max_replan cfg) - rw_replans s)
     + (if rw_fallback_done s then 0 else 1)"

definition work_left :: "research_config \<Rightarrow> research_state \<Rightarrow> nat" where
  "work_left cfg s = 2 * corrections_left cfg s + 2 * (nat (rc_max_iterations cfg) - rw_attempts s)
     + 2 * revisions_left cfg s + 3"

definition graph_steps :: "research_config \<Rightarrow> nat" where
  \<comment> \<open>the longest run of the graph: analysis, planning, grading and the final answer take 6 nodes and each
      iteration, correction and revision two more\<close>
  "graph_steps cfg = 2 * (nat (min 2 (rc_rewrite_max cfg)) + nat (rc_max_replan cfg) + 1)
     + 2 * nat (rc_max_iterations cfg) + 2 * nat (min 1 (rc_revision_max cfg)) + 6"

fun steps_left :: "research_config \<Rightarrow> research_node \<times> research_state \<Rightarrow> nat" where
  "steps_left cfg (N_analyzer, s) = graph_steps cfg"
| "steps_left cfg (N_simple, s) = work_left cfg s + 2"
| "steps_left cfg (N_planner, s) = work_left cfg s + 2"
| "steps_left cfg (N_executor, s) = work_left cfg s + 1"
| "steps_left cfg (N_evaluator, s) = work_left cfg s + 2"
| "steps_left cfg (N_grader, s) = work_left cfg s + 1"
| "steps_left cfg (N_refiner, s) = work_left cfg s"
| "steps_left cfg (N_replanner, s) = work_left cfg s"
| "steps_left cfg (N_fallback, s) = work_left cfg s"
| "steps_left cfg (N_generator, s) = 2 * revisions_left cfg s + 3"
| "steps_left cfg (N_verifier, s) = 2 * revisions_left cfg s + 2"
| "steps_left cfg (N_revision, s) = 2 * revisions_left cfg s + 1"
| "steps_left cfg (N_citations, s) = 1"
| "steps_left cfg (N_end, s) = 0"

fun on_course :: "research_config \<Rightarrow> research_node \<times> research_state \<Rightarrow> bool" where
  "on_course cfg (N_simple, s) = (\<not> exhausted cfg s)"
| "on_course cfg (N_planner, s) = (\<not> exhausted cfg s)"
| "on_course cfg (N_executor, s) = (\<not> exhausted cfg s \<and> rw_step s < length (wf_plan s))"
| "on_course cfg (N_refiner, s) = (\<not> exhausted cfg s \<and> int (rw_rewrites s) < min 2 (rc_rewrite_max cfg))"
| "on_course cfg (N_replanner, s) = (\<not> exhausted cfg s \<and> int (rw_replans s) < rc_max_replan cfg)"
| "on_course cfg (N_fallback, s) = (\<not> exhausted cfg s \<and> \<not> rw_fallback_done s)"
| "on_course cfg (N_revision, s) = (int (rw_revisions s) < min 1 (rc_revision_max cfg))"
| "on_course cfg (n, s) = True"

lemmas left_defs = work_left_def corrections_left_def revisions_left_def graph_steps_def

lemma exhausted_cong: "rw_attempts t = rw_attempts s \<Longrightarrow> exhausted cfg t = exhausted cfg s"
  by (simp add: exhausted_def)

lemma analyzer_resets:
  assumes "research_analyzer fl nd a s = Inr t"
  shows "rw_attempts t = 0" "rw_rewrites t = 0" "rw_replans t = 0" "rw_revisions t = 0" "\<not> rw_fallback_done t"
    "wf_pool t = []" "rw_tools_used t = []"
  using assms by (auto simp: research_analyzer_def query_analyzer_def Let_def rbind_Inr_iff)

lemma grader_keeps [node_frame]:
  "rw_scope (research_grader g s) = rw_scope s" "rw_rewrites (research_grader g s) = rw_rewrites s"
  "rw_replans (research_grader g s) = rw_replans s" "rw_attempts (research_grader g s) = rw_attempts s"
  "rw_revisions (research_grader g s) = rw_revisions s" "rw_fallback_done (research_grader g s) = rw_fallback_done s"
  "rw_tools_used (research_grader g s) = rw_tools_used s" "wf_pool (research_grader g s) = wf_pool s"
  "wf_plan (research_grader g s) = wf_plan s" "wf_selected (research_grader g s) = wf_selected s"
  by (cases "invoke_structured retrieval_grade_valid g"; simp add: research_grader_def any_answer_def)+

lemma verifier_keeps [node_frame]:
  "rw_scope (verifier cfg v s) = rw_scope s" "rw_revisions (verifier cfg v s) = rw_revisions s"
  "rw_fallback_done (verifier cfg v s) = rw_fallback_done s" "rw_tools_used (verifier cfg v s) = rw_tools_used s"
  "wf_pool (verifier cfg v s) = wf_pool s" "wf_plan (verifier cfg v s) = wf_plan s"
  "wf_selected (verifier cfg v s) = wf_selected s"
  by (simp_all add: verifier_def)

lemma research_step_progress:
  assumes step: "research_step rt a (n, s) = Inr (n', t)" and going: "n \<noteq> N_end" and ok: "on_course (rt_config rt) (n, s)"
    and positive: "1 \<le> rc_max_iterations (rt_config rt)"
  shows "on_course (rt_config rt) (n', t) \<and> steps_left (rt_config rt) (n', t) < steps_left (rt_config rt) (n, s)"
proof (cases n)
  case N_analyzer
  then have "research_analyzer (rt_floats rt) (rt_nodes rt) (sa_analysis a) s = Inr t" "n' = route_after_analysis (rt_config rt) t"
    using step by (auto simp: rbind_Inr_iff)
  then show ?thesis using positive analyzer_resets [of _ _ _ s t] N_analyzer
    by (auto simp: route_after_analysis_def left_defs exhausted_def)
next
  case N_executor
  then have ex: "executor (rt_dump rt) (rt_config rt) (rt_nodes rt) (sa_tools a) s = Inr t" and n': "n' = N_evaluator"
    using step by (auto simp: rbind_Inr_iff)
  from ex show ?thesis
  proof (cases rule: executor_cases)
    case 1
    then show ?thesis using ok N_executor by auto
  next
    case (2 ex)
    then show ?thesis using N_executor n' by (auto simp: left_defs exhausted_def)
  qed
next
  case N_evaluator
  then show ?thesis using step
    by (auto simp: route_after_step_def step_evaluator_def Let_def left_defs exhausted_def split: if_splits)
next
  case N_grader
  then show ?thesis using step
    by (auto simp: route_after_grading_def external_left_def Let_def left_defs exhausted_def node_frame split: if_splits)
next
  case N_verifier
  then show ?thesis using step
    by (auto simp: route_after_verification_def Let_def left_defs node_frame split: option.splits if_splits)
next
  case N_refiner
  then show ?thesis using step ok by (auto simp: left_defs exhausted_def node_frame)
next
  case N_replanner
  then show ?thesis using step ok by (auto simp: research_replanner_def left_defs exhausted_def node_frame)
next
  case N_planner
  then show ?thesis using step ok by (auto simp: left_defs exhausted_def node_frame)
next
  case N_generator
  then show ?thesis using step by (auto simp: rbind_Inr_iff generator_def left_defs split: if_splits)
next
  case N_citations
  then show ?thesis using step by (auto simp: rbind_Inr_iff)
next
  case N_revision
  then show ?thesis using step ok by (auto simp: answer_revision_def left_defs)
next
  case N_simple
  then show ?thesis using step ok by (auto simp: simple_plan_def left_defs exhausted_def)
next
  case N_fallback
  then show ?thesis using step ok by (auto simp: external_fallback_def Let_def left_defs exhausted_def)
qed (use going in simp)

lemma research_run_end: "research_run rt as (N_end, s) = Inr (N_end, s)"
  by (induction as) simp_all

lemma research_run_ends:
  assumes "research_run rt as (n, s) = Inr (n', t)" "on_course (rt_config rt) (n, s)"
    "1 \<le> rc_max_iterations (rt_config rt)" "steps_left (rt_config rt) (n, s) \<le> length as"
  shows "n' = N_end"
  using assms
proof (induction as arbitrary: n s)
  case Nil
  then show ?case by (cases n) (simp_all add: left_defs)
next
  case (Cons a as)
  show ?case
  proof (cases "n = N_end")
    case True
    then show ?thesis using Cons.prems research_run_end [of rt "a # as" s] by simp
  next
    case False
    obtain m u where step: "research_step rt a (n, s) = Inr (m, u)" and rest: "research_run rt as (m, u) = Inr (n', t)"
      using Cons.prems(1) by (auto simp: rbind_Inr_iff)
    from research_step_progress [OF step False Cons.prems(2,3)] Cons.prems(4)
    show ?thesis by (intro Cons.IH [OF rest _ Cons.prems(3)]) auto
  qed
qed

section \<open>Where the graph searches\<close>

lemma set_allowed: "set (allowed nd s ss) = {x. x \<in> set (nd_available nd)
     \<and> (rw_scope s = Scope_workspace \<longrightarrow> x \<in> {Sn_pdf, Sn_workspace})
     \<and> (rw_scope s = Scope_external \<longrightarrow> x \<in> {Sn_web, Sn_arxiv})
     \<and> (if Sn_workspace \<in> set (nd_available nd)
        then x \<in> (\<lambda>y. if y = Sn_pdf then Sn_workspace else y) ` set ss else x \<in> set ss)}"
  by (auto simp: allowed_def Let_def)

lemma allowed_cong: "rw_scope t = rw_scope s \<Longrightarrow> allowed nd t = allowed nd s"
  by (simp add: allowed_def fun_eq_iff)

definition local_sources :: "nodes \<Rightarrow> research_state \<Rightarrow> source_name list" where
  "local_sources nd s = allowed nd s [Sn_workspace, Sn_pdf]"

lemma local_sources_local: "set (local_sources nd s) \<subseteq> {Sn_pdf, Sn_workspace}"
  by (auto simp: local_sources_def set_allowed split: if_splits)

lemma allowed_local:
  assumes "set ss \<subseteq> {Sn_pdf, Sn_workspace}" shows "set (allowed nd s ss) \<subseteq> set (local_sources nd s)"
  using assms by (auto simp: local_sources_def set_allowed split: if_splits)

lemma allowed_local_sources:
  "set ss \<subseteq> set (local_sources nd s) \<Longrightarrow> set (allowed nd s ss) \<subseteq> set (local_sources nd s)"
  using local_sources_local [of nd s] by (intro allowed_local) blast

lemma local_sources_cong: "rw_scope t = rw_scope s \<Longrightarrow> local_sources nd t = local_sources nd s"
  using allowed_cong [of t s nd] by (simp add: local_sources_def)

definition permitted :: "nodes \<Rightarrow> research_state \<Rightarrow> source_name \<Rightarrow> bool" where
  "permitted nd s x \<longleftrightarrow> x \<in> set (nd_available nd) \<and> (rw_scope s = Scope_workspace \<longrightarrow> x \<in> {Sn_pdf, Sn_workspace})
     \<and> (rw_scope s = Scope_external \<longrightarrow> x \<in> {Sn_web, Sn_arxiv})"

lemma allowed_permitted: "x \<in> set (allowed nd s ss) \<Longrightarrow> permitted nd s x"
  unfolding set_allowed permitted_def by blast

lemma permitted_cong: "rw_scope t = rw_scope s \<Longrightarrow> permitted nd t = permitted nd s"
  by (simp add: permitted_def fun_eq_iff)

text \<open>Local sources, where the policy leaves any, are the only ones searched until the external fallback.\<close>

definition searches_ok :: "nodes \<Rightarrow> research_state \<Rightarrow> bool" where
  "searches_ok nd s = (let locals = local_sources nd s in
     (\<forall>i\<in>set (wf_pool s). permitted nd s (pi_source i)
        \<and> (locals \<noteq> [] \<and> \<not> rw_fallback_done s \<longrightarrow> pi_source i \<in> set locals))
     \<and> rw_tools_used s = map (\<lambda>i. tool_name (pi_source i)) (wf_pool s)
     \<and> (locals \<noteq> [] \<longrightarrow> set (wf_selected s) \<subseteq> set locals)
     \<and> (locals \<noteq> [] \<and> \<not> rw_fallback_done s \<longrightarrow> (\<forall>p\<in>set (wf_plan s). set (st_sources p) \<subseteq> set locals)))"

lemma execute_source_pool:
  assumes "execute_source dump s q tools ex src = Inr ex'"
  shows "\<exists>i. ex_pool ex' = ex_pool ex @ [i] \<and> pi_source i = src \<and> ex_used ex' = ex_used ex @ [tool_name src]"
proof (cases "tools src q")
  case (Tool_items es)
  then show ?thesis using assms unfolding execute_source_def Let_def
    by (cases "list_all evidence_valid es"; simp) (erule subst; simp)+
next
  case (Tool_text c)
  then show ?thesis using assms unfolding execute_source_def Let_def
    by simp (erule subst, simp)
next
  case Tool_raised
  then show ?thesis using assms unfolding execute_source_def Let_def
    by simp (erule subst, simp)
next
  case Tool_interrupted
  then show ?thesis using assms unfolding execute_source_def Let_def
    by simp
qed

lemma execute_sources_pool:
  assumes "rfold (execute_source dump s q tools) ex sources = Inr ex'"
  shows "\<exists>js. ex_pool ex' = ex_pool ex @ js \<and> map pi_source js = sources
     \<and> ex_used ex' = ex_used ex @ map (\<lambda>i. tool_name (pi_source i)) js"
  using assms
proof (induction sources arbitrary: ex)
  case (Cons x xs)
  then obtain ex1 where ex1: "execute_source dump s q tools ex x = Inr ex1"
    and rest: "rfold (execute_source dump s q tools) ex1 xs = Inr ex'" by (auto simp: rbind_Inr_iff)
  from execute_source_pool [OF ex1] obtain i where
    i: "ex_pool ex1 = ex_pool ex @ [i]" "pi_source i = x" "ex_used ex1 = ex_used ex @ [tool_name x]" by blast
  from Cons.IH [OF rest] obtain js where js: "ex_pool ex' = ex_pool ex1 @ js" "map pi_source js = xs"
    "ex_used ex' = ex_used ex1 @ map (\<lambda>i. tool_name (pi_source i)) js" by blast
  show ?case by (intro exI [of _ "i # js"]) (simp add: i js)
qed simp

lemma planner_sources:
  assumes "set (wf_selected s) \<subseteq> A" "p \<in> set (wf_plan (research_planner cfg nd a s))"
  shows "set (st_sources p) \<subseteq> A"
proof -
  have steps: "set (ps_sources st) \<subseteq> A" if "st \<in> set (planned_steps cfg nd s tp)" for st tp
    using that assms(1) by (auto simp: planned_steps_def planned_step_def Let_def split: if_splits)
  show ?thesis
    using assms by (cases "invoke_structured task_plan_valid a")
      (auto simp: research_planner_def any_answer_def simple_plan_def Let_def split: if_splits dest: subsetD [OF steps])
qed

lemma refiner_sources:
  assumes "local_sources nd s \<noteq> []" "\<not> rw_fallback_done s" "p \<in> set (wf_plan (research_refiner nd a s))"
  shows "set (st_sources p) \<subseteq> set (local_sources nd s)"
  using assms by (auto simp: research_refiner_def policed_def local_sources_def Let_def)

lemma searches_okI:
  assumes "rw_scope t = rw_scope s" "rw_fallback_done t = rw_fallback_done s" "rw_tools_used t = rw_tools_used s"
    "wf_pool t = wf_pool s" "searches_ok nd s"
    "local_sources nd s \<noteq> [] \<Longrightarrow> set (wf_selected t) \<subseteq> set (local_sources nd s)"
    "\<And>p. local_sources nd s \<noteq> [] \<Longrightarrow> \<not> rw_fallback_done s \<Longrightarrow> p \<in> set (wf_plan t)
       \<Longrightarrow> set (st_sources p) \<subseteq> set (local_sources nd s)"
  shows "searches_ok nd t"
  using assms by (auto simp: searches_ok_def local_sources_cong [OF assms(1)] permitted_cong [OF assms(1)] Let_def)

lemma searches_okD:
  assumes "searches_ok nd s" "local_sources nd s \<noteq> []"
  shows "set (wf_selected s) \<subseteq> set (local_sources nd s)"
    and "\<not> rw_fallback_done s \<Longrightarrow> p \<in> set (wf_plan s) \<Longrightarrow> set (st_sources p) \<subseteq> set (local_sources nd s)"
  using assms by (auto simp: searches_ok_def Let_def)

lemma searches_ok_frame:
  assumes "searches_ok nd s" "rw_scope t = rw_scope s" "rw_fallback_done t = rw_fallback_done s"
    "rw_tools_used t = rw_tools_used s" "wf_pool t = wf_pool s" "wf_selected t = wf_selected s" "wf_plan t = wf_plan s"
  shows "searches_ok nd t"
  using assms searches_okD [OF assms(1)] by (intro searches_okI [of t s nd]) auto

lemma executor_searches:
  assumes "executor dump cfg nd tools s = Inr t" "searches_ok nd s" shows "searches_ok nd t"
  using assms(1)
proof (cases rule: executor_cases)
  case 1
  then show ?thesis using assms(2) by (auto intro: searches_ok_frame)
next
  case (2 ex)
  let ?p = "wf_plan s ! rw_step s" and ?l = "local_sources nd s"
  have plan: "?p \<in> set (wf_plan s)" using 2(1) by simp
  from execute_sources_pool [OF 2(3)] obtain js where js: "wf_pool t = wf_pool s @ js"
    "map pi_source js = allowed nd s (st_sources ?p)" "rw_tools_used t = rw_tools_used s @ map (\<lambda>i. tool_name (pi_source i)) js"
    by (auto simp: 2)
  have allowed_js: "pi_source i \<in> set (allowed nd s (st_sources ?p))" if "i \<in> set js" for i
    using that by (simp flip: js(2))
  have "pi_source i \<in> set ?l" if "?l \<noteq> []" "\<not> rw_fallback_done s" "i \<in> set js" for i
    using allowed_js [OF that(3)] allowed_local_sources [OF searches_okD(2) [OF assms(2) that(1,2) plan]] by blast
  moreover have "permitted nd s (pi_source i)" if "i \<in> set js" for i
    using allowed_permitted [OF allowed_js [OF that]] .
  ultimately show ?thesis using assms(2)
    by (auto simp: searches_ok_def Let_def js 2 local_sources_cong [of t s] permitted_cong [of t s])
qed

lemma analyzer_searches:
  assumes "research_analyzer fl nd a s = Inr t"
  shows "searches_ok nd t" "rw_scope t = rw_scope s \<or> rw_scope t = Scope_workspace"
proof -
  from assms obtain u where u: "query_analyzer fl nd a s = Inr u" by (auto simp: research_analyzer_def rbind_Inr_iff)
  then have plan: "wf_plan u = []" and pool: "wf_pool u = []"
    by (auto simp: query_analyzer_def Let_def rbind_Inr_iff)
  show "rw_scope t = rw_scope s \<or> rw_scope t = Scope_workspace"
    using assms by (auto simp: research_analyzer_def u Let_def)
  let ?v = "u\<lparr>rw_scope := rw_scope t\<rparr>"
  have "wf_pool t = []" "wf_plan t = []" "rw_tools_used t = []"
    and "allowed nd ?v [Sn_workspace, Sn_pdf] \<noteq> [] \<Longrightarrow> wf_selected t = allowed nd ?v [Sn_workspace, Sn_pdf]"
    using assms by (auto simp: research_analyzer_def u Let_def plan pool)
  moreover have "local_sources nd t = allowed nd ?v [Sn_workspace, Sn_pdf]"
    unfolding local_sources_def by (rule allowed_cong [THEN fun_cong]) simp
  ultimately show "searches_ok nd t" by (simp add: searches_ok_def Let_def)
qed

lemma research_step_searches:
  assumes "research_step rt a (n, s) = Inr (n', t)" "n = N_analyzer \<or> searches_ok (rt_nodes rt) s"
  shows "searches_ok (rt_nodes rt) t \<and> (rw_scope t = rw_scope s \<or> rw_scope t = Scope_workspace)"
proof (cases n)
  case N_analyzer
  then show ?thesis using assms(1) analyzer_searches [of _ _ _ s t] by (auto simp: rbind_Inr_iff)
next
  case N_executor
  then have ex: "executor (rt_dump rt) (rt_config rt) (rt_nodes rt) (sa_tools a) s = Inr t" and ok: "searches_ok (rt_nodes rt) s"
    using assms by (auto simp: rbind_Inr_iff)
  from ex have "rw_scope t = rw_scope s" by (cases rule: executor_cases) simp_all
  then show ?thesis using executor_searches [OF ex ok] by simp
next
  case N_refiner
  then have t: "t = research_refiner (rt_nodes rt) (sa_refine a) s" and ok: "searches_ok (rt_nodes rt) s" using assms by auto
  have "searches_ok (rt_nodes rt) t" unfolding t
  proof (rule searches_okI [OF _ _ _ _ ok])
    assume "local_sources (rt_nodes rt) s \<noteq> []"
    from searches_okD(1) [OF ok this] show "set (wf_selected (research_refiner (rt_nodes rt) (sa_refine a) s))
        \<subseteq> set (local_sources (rt_nodes rt) s)"
      unfolding node_frame by (rule allowed_local_sources)
  qed (simp_all add: node_frame refiner_sources)
  then show ?thesis by (simp add: t node_frame)
next
  case N_replanner
  then have t: "t = research_replanner (rt_config rt) (rt_nodes rt) (sa_plan a) s" and ok: "searches_ok (rt_nodes rt) s"
    using assms by auto
  have "searches_ok (rt_nodes rt) t" unfolding t research_replanner_def
    by (rule searches_okI [OF _ _ _ _ ok])
      (use searches_okD(1) [OF ok] planner_sources [OF searches_okD(1) [OF ok]] in \<open>simp_all add: node_frame\<close>)
  then show ?thesis by (simp add: t research_replanner_def node_frame)
next
  case N_planner
  then have t: "t = research_planner (rt_config rt) (rt_nodes rt) (sa_plan a) s" and ok: "searches_ok (rt_nodes rt) s"
    using assms by auto
  have "searches_ok (rt_nodes rt) t" unfolding t
    by (rule searches_okI [OF _ _ _ _ ok])
      (use searches_okD(1) [OF ok] planner_sources [OF searches_okD(1) [OF ok]] in \<open>simp_all add: node_frame\<close>)
  then show ?thesis by (simp add: t node_frame)
next
  case N_simple
  then have t: "t = simple_plan s" and ok: "searches_ok (rt_nodes rt) s" using assms by auto
  have "searches_ok (rt_nodes rt) t" unfolding t simple_plan_def
    by (rule searches_okI [OF _ _ _ _ ok]) (use searches_okD(1) [OF ok] in simp_all)
  then show ?thesis by (simp add: t simple_plan_def)
next
  case N_fallback
  then have t: "t = external_fallback (rt_nodes rt) s" and ok: "searches_ok (rt_nodes rt) s" using assms by auto
  have same: "rw_scope t = rw_scope s" "wf_pool t = wf_pool s" "rw_tools_used t = rw_tools_used s"
    "wf_selected t = wf_selected s" "rw_fallback_done t"
    by (simp_all add: t external_fallback_def Let_def)
  show ?thesis using ok
    by (auto simp: searches_ok_def Let_def same local_sources_cong [OF same(1)] permitted_cong [OF same(1)])
next
  case N_evaluator
  then show ?thesis using assms by (auto simp: step_evaluator_def Let_def intro: searches_ok_frame)
next
  case N_grader
  then show ?thesis using assms by (auto simp: Let_def node_frame intro: searches_ok_frame)
next
  case N_generator
  then show ?thesis using assms
    by (auto simp: generator_def rbind_Inr_iff Let_def intro: searches_ok_frame split: if_splits)
next
  case N_verifier
  then show ?thesis using assms by (auto simp: Let_def node_frame intro: searches_ok_frame)
next
  case N_revision
  then show ?thesis using assms by (auto simp: answer_revision_def Let_def intro: searches_ok_frame)
next
  case N_citations
  then show ?thesis using assms
    by (auto simp: citation_validator_def rbind_Inr_iff Let_def intro: searches_ok_frame split: if_splits prod.splits)
qed (use assms in simp)

lemma research_run_searches:
  assumes "research_run rt as (n, s) = Inr (n', t)" "searches_ok (rt_nodes rt) s"
  shows "searches_ok (rt_nodes rt) t \<and> (rw_scope t = rw_scope s \<or> rw_scope t = Scope_workspace)"
  using assms
proof (induction as arbitrary: n s)
  case (Cons a as)
  then obtain m u where step: "research_step rt a (n, s) = Inr (m, u)" and rest: "research_run rt as (m, u) = Inr (n', t)"
    by (auto simp: rbind_Inr_iff)
  from research_step_searches [OF step] Cons.prems(2) Cons.IH [OF rest] show ?case by auto
qed simp

text \<open>
  C18: whatever the models and the tools answer, a run of the research graph that no step fails has
  reached its end after \<open>graph_steps\<close> nodes: no cycle of retrieval, correction and revision goes on for ever.
\<close>

theorem research_workflow_terminates:
  assumes "1 \<le> rc_max_iterations (rt_config rt)" "graph_steps (rt_config rt) \<le> length as"
    "research_run rt as (N_analyzer, s) = Inr (n, t)"
  shows "n = N_end"
  using research_run_ends [OF assms(3) _ assms(1)] assms(2) by simp

text \<open>The limits of \<open>server/config.py\<close> leave three of the 35 nodes of \<open>AGENT_MAX_GRAPH_STEPS\<close>.\<close>

definition default_limits :: research_config where
  "default_limits = \<lparr>rc_planner = True, rc_max_steps = 6, rc_max_iterations = 8, rc_max_replan = 1, rc_rewrite_max = 2,
     rc_self_correct = True, rc_grounding = True, rc_revision_max = 1\<rparr>"

lemma default_graph_steps: "graph_steps default_limits = 32"
  by (simp add: graph_steps_def default_limits_def)


lemma sample_run:
  "\<exists>n t. research_run sample_runtime (replicate 10 sample_answers) (N_analyzer, sample_state) = Inr (n, t)
     \<and> rw_tools_used t = [''search_workspace'']"
proof -
  have "case research_run sample_runtime (replicate 10 sample_answers) (N_analyzer, sample_state) of
      Inr (n, t) \<Rightarrow> rw_tools_used t = [''search_workspace''] | Inl e \<Rightarrow> False"
    by code_simp
  then show ?thesis by (auto split: sum.splits)
qed

theorem research_workflow_terminates_witness:
  "\<exists>t. research_run sample_runtime (replicate 10 sample_answers) (N_analyzer, sample_state) = Inr (N_end, t)"
proof -
  obtain n t where run: "research_run sample_runtime (replicate 10 sample_answers) (N_analyzer, sample_state) = Inr (n, t)"
    using sample_run by blast
  have "n = N_end"
    by (rule research_workflow_terminates [OF _ _ run])
      (simp_all add: sample_runtime_def sample_limits_def graph_steps_def)
  with run show ?thesis by blast
qed


text \<open>
  A request for external sources whose query matches \<open>only ... papers\<close> becomes a \<open>workspace_only\<close> one and
  searches the workspace, although the analyser's comment says that instructions never widen a request's
  constraint.
\<close>

lemma external_request_reads_workspace:
  assumes "research_analyzer fl nd a s = Inr t" "found only_rx (wf_original t)" "Sn_workspace \<in> set (nd_available nd)"
  shows "rw_scope t = Scope_workspace" "set (wf_selected t) = {Sn_workspace}"
proof -
  from assms(1) obtain u where u: "query_analyzer fl nd a s = Inr u" by (auto simp: research_analyzer_def rbind_Inr_iff)
  have original: "wf_original t = wf_original u" using assms(1) by (auto simp: research_analyzer_def u Let_def)
  let ?v = "u\<lparr>rw_scope := Scope_workspace\<rparr>" and ?l = "[Sn_workspace, Sn_pdf]"
  have locals: "set (allowed nd ?v ?l) = {Sn_workspace}" using assms(3) by (auto simp: set_allowed)
  then have some: "allowed nd ?v ?l \<noteq> []" by (metis empty_set insert_not_empty)
  have found: "found only_rx (wf_original u)" using assms(2) unfolding original .
  have "rw_scope t = Scope_workspace \<and> wf_selected t = allowed nd ?v ?l"
    using assms(1) by (simp only: research_analyzer_def u rbind.simps Let_def found some if_True simp_thms) (drule Inr_inject, erule subst, simp)
  then show "rw_scope t = Scope_workspace" "set (wf_selected t) = {Sn_workspace}" using locals by simp_all
qed

end
