(* ===== verification/Memory.thy ===== *)
theory Memory
  imports PyJson
begin

text \<open>
  \<open>server/memory.py\<close>: the long-term memories of users and workspaces, what may be stored, how a
  preference supersedes another, and what a query retrieves.  SHA-256 and the square root on floats are
  parameters, and so is the embedder (\<open>None\<close> when there is none; an embedder that raises gives no vector).
  On ASCII texts NFKC normalisation is the identity and the Chinese alternatives of the patterns never apply.
  A row is its payload and its embedding: the other columns repeat fields of the payload.
\<close>

section \<open>Records\<close>

datatype memory_type = Mem_preference | Mem_project | Mem_decision | Mem_instruction | Mem_episodic

datatype memory_scope = Scope_of_user | Scope_of_workspace

datatype memory_status = Mem_active | Mem_superseded

record memory =
  lm_id :: ident
  lm_owner :: ident
  lm_scope :: memory_scope
  lm_scope_id :: ident
  lm_type :: memory_type
  lm_content :: string
  lm_summary :: string
  lm_importance :: rat
  lm_confidence :: rat
  lm_session :: "ident option"
  lm_task :: "ident option"
  lm_message :: "ident option"
  lm_hash :: string
  lm_created_at :: time
  lm_updated_at :: time
  lm_accessed_at :: "time option"
  lm_accesses :: nat
  lm_status :: memory_status
  lm_superseded_by :: "ident option"
  lm_metadata :: "(string, json) dict"

record memory_row =
  mr_memory :: memory
  mr_embedding :: "rat list"

type_synonym memory_db = "memory_row list"

record memory_config =
  mc_min_confidence :: rat       \<comment> \<open>\<open>MEMORY_MIN_CONFIDENCE\<close>\<close>
  mc_min_importance :: rat
  mc_similarity :: rat           \<comment> \<open>\<open>MEMORY_DEDUP_SIMILARITY\<close>\<close>
  mc_max_items :: int
  mc_budget :: int               \<comment> \<open>\<open>MEMORY_TOKEN_BUDGET\<close>\<close>

record memory_env =
  me_config :: memory_config
  me_embed :: "(string \<Rightarrow> rat list result) option"
  me_sqrt :: "rat \<Rightarrow> rat"
  me_digest :: "string \<Rightarrow> string"

definition memory_key :: "memory_row \<Rightarrow> ident" where
  "memory_key r = lm_id (mr_memory r)"

section \<open>What may be stored\<close>

definition key_like :: "char \<Rightarrow> bool" where
  "key_like c = (is_word c \<or> c = CHR ''-'')"

definition sensitive_rxs :: "rx list" where
  "sensitive_rxs =
    [Seqs [Alts [Seqs [ILit ''api'', Opt (Cls (\<lambda>c. c \<in> {CHR ''_'', CHR '' '', CHR ''-''})), ILit ''key''],
         ILit ''password'', ILit ''authorization'', ILit ''bearer'', ILit ''secret'',
         Seqs [Opt (Seqs [ILit ''access'', Opt (Cls (\<lambda>c. c \<in> {CHR ''_'', CHR '' '', CHR ''-''}))]), ILit ''token'']],
       Star (Cls is_space),
       Alts [Cls (\<lambda>c. c \<in> {CHR '':'', CHR ''=''}), Seqs [ILit ''is'', WordB], Cls is_space],
       Star (Cls is_space), Plus (Cls (\<lambda>c. \<not> is_space c))],
     Seqs [WordB, Lit ''sk-'', AtLeast 8 (Cls key_like)],
     Seqs [Lit ''-----BEGIN '', Star Any, Lit ''PRIVATE KEY''],
     Seqs [WordB, Times 17 (Cls is_digit), Cls (\<lambda>c. is_digit c \<or> c \<in> {CHR ''X'', CHR ''x''}), WordB],
     Seqs [WordB, Between 13 19 (Seqs [Cls is_digit, Opt (Cls (\<lambda>c. c \<in> {CHR '' '', CHR ''-''}))]), WordB],
     Seqs [WordB, Alts [ILit ''ghp_'', ILit ''gho_'', ILit ''akia''], AtLeast 12 (Cls is_alnum)],
     Seqs [Lit ''eyJ'', Plus (Cls key_like), Lit ''.'', Plus (Cls key_like), Lit ''.'', Plus (Cls key_like)]]"

definition sensitive :: "string \<Rightarrow> bool" where
  "sensitive text = list_ex (\<lambda>r. found r text) sensitive_rxs"

definition normalized :: "string \<Rightarrow> string" where
  "normalized text = filter is_word (casefold text)"

definition preference_key :: "string \<Rightarrow> string \<times> string" where
  "preference_key content =
     (let lower = casefold content in
      if found (Lit ''chinese'') lower \<and> found (Alts (map Lit [''prefer'', ''language''])) lower
      then (''preferred_language'', ''zh'')
      else if found (Lit ''english'') lower \<and> found (Alts (map Lit [''prefer'', ''language''])) lower
      then (''preferred_language'', ''en'')
      else if found (Lit ''concise'') lower then (''response_detail'', ''concise'')
      else if found (Lit ''detailed'') lower then (''response_detail'', ''detailed'')
      else if found (Lit ''markdown'') lower \<and> found (Alts (map Lit [''format'', ''prefer''])) lower
      then (''report_format'', ''markdown'')
      else ([], []))"

definition dot :: "rat list \<Rightarrow> rat list \<Rightarrow> rat" where
  "dot a b = sum_list (map (\<lambda>(x, y). x * y) (zip a b))"

definition cosine :: "(rat \<Rightarrow> rat) \<Rightarrow> rat list \<Rightarrow> rat list \<Rightarrow> rat" where
  "cosine sq a b =
     (if length a \<noteq> length b \<or> a = [] then 0
      else let norm = sq (dot a a * dot b b) in if norm = 0 then 0 else dot a b / norm)"

definition memory_vector :: "memory_env \<Rightarrow> string \<Rightarrow> rat list" where
  "memory_vector me text = (case me_embed me of
     None \<Rightarrow> [] | Some vector_of \<Rightarrow> (case vector_of text of Inl e \<Rightarrow> [] | Inr v \<Rightarrow> v))"

section \<open>Reading\<close>

definition memory_list ::
  "ident \<Rightarrow> ident option \<Rightarrow> memory_type option \<Rightarrow> memory_status option \<Rightarrow> bool \<Rightarrow> memory_db \<Rightarrow> memory list" where
  \<comment> \<open>\<open>ORDER BY rowid DESC\<close>\<close>
  "memory_list owner ws kind status include_workspace db =
     filter (\<lambda>m. (status = None \<or> status = Some (lm_status m)) \<and> (kind = None \<or> kind = Some (lm_type m))
         \<and> (lm_scope m = Scope_of_user \<or> Some (lm_scope_id m) = ws))
       (rev (map mr_memory (filter (\<lambda>r. let m = mr_memory r in
          if include_workspace \<and> truthy ws
          then lm_owner m = owner \<and> lm_scope m = Scope_of_user \<or> lm_scope m = Scope_of_workspace \<and> Some (lm_scope_id m) = ws
          else lm_owner m = owner) db)))"

definition memory_get :: "ident \<Rightarrow> ident \<Rightarrow> memory_db \<Rightarrow> memory result" where
  "memory_get i owner db =
     (case find (\<lambda>r. memory_key r = i \<and> lm_owner (mr_memory r) = owner) db of
        None \<Rightarrow> Inl (RecordNotFound i) | Some r \<Rightarrow> Inr (mr_memory r))"

section \<open>Writing\<close>

definition conflict_key :: "memory \<Rightarrow> json option" where
  "conflict_key m = map_of (lm_metadata m) ''conflict_key''"

definition entry_truthy :: "json option \<Rightarrow> bool" where
  \<comment> \<open>the truth value of \<open>metadata.get(key)\<close>\<close>
  "entry_truthy v = (case v of None \<Rightarrow> False | Some x \<Rightarrow> json_truthy x)"

definition same_key :: "memory \<Rightarrow> memory \<Rightarrow> bool" where
  "same_key m old = (entry_truthy (conflict_key m) \<and> conflict_key m = conflict_key old)"

text \<open>The scan of the active memories of the scope: a duplicate that is returned, or the conflicts so far.\<close>

fun scan_memories ::
  "memory_env \<Rightarrow> memory \<Rightarrow> string \<Rightarrow> rat list \<Rightarrow> ident option \<Rightarrow> memory list \<Rightarrow> memory_row list \<Rightarrow> memory + memory list" where
  "scan_memories me m preferred v replaced conflicts [] = Inr conflicts"
| "scan_memories me m preferred v replaced conflicts (r # rs) =
     (let old = mr_memory r in
      if replaced = Some (lm_id old) then scan_memories me m preferred v replaced (conflicts @ [old]) rs
      else if lm_hash old = lm_hash m
        \<or> (same_key m old \<and> preferred \<noteq> [] \<and> map_of (lm_metadata old) ''preference_value'' = Some (JStr preferred))
      then Inl old
      else if same_key m old then scan_memories me m preferred v replaced (conflicts @ [old]) rs
      else if lm_type old = lm_type m \<and> mc_similarity (me_config me) \<le> cosine (me_sqrt me) v (mr_embedding r)
      then Inl old
      else scan_memories me m preferred v replaced conflicts rs)"

definition supersede :: "time \<Rightarrow> ident \<Rightarrow> ident \<Rightarrow> memory_db \<Rightarrow> memory_db" where
  "supersede now i by_id db = update_where (\<lambda>r. memory_key r = i)
     (\<lambda>r. r\<lparr>mr_memory := (mr_memory r)\<lparr>lm_status := Mem_superseded, lm_superseded_by := Some by_id,
        lm_updated_at := now\<rparr>\<rparr>) db"

definition prepared_memory :: "memory_env \<Rightarrow> memory \<Rightarrow> memory" where
  "prepared_memory me memory =
     (let m = memory\<lparr>lm_content := strip (lm_content memory)\<rparr>;
          m = (if lm_scope m = Scope_of_user then m\<lparr>lm_scope_id := lm_owner m\<rparr> else m);
          (key, preferred) = (if lm_type m = Mem_preference then preference_key (lm_content m) else ([], []));
          m = (if key \<noteq> []
               then m\<lparr>lm_metadata := dict_merge (lm_metadata m)
                 [(''conflict_key'', JStr key), (''preference_value'', JStr preferred)]\<rparr> else m)
      in m\<lparr>lm_hash := me_digest me (normalized (lm_content m))\<rparr>)"

definition same_scope :: "memory \<Rightarrow> memory \<Rightarrow> bool" where
  "same_scope a b = (lm_owner a = lm_owner b \<and> lm_scope a = lm_scope b \<and> lm_scope_id a = lm_scope_id b)"

definition active_in_scope :: "memory \<Rightarrow> memory_db \<Rightarrow> memory_row list" where
  "active_in_scope m db = filter (\<lambda>r. same_scope (mr_memory r) m \<and> lm_status (mr_memory r) = Mem_active) db"

definition memory_create ::
  "memory_env \<Rightarrow> time \<Rightarrow> bool \<Rightarrow> ident option \<Rightarrow> memory \<Rightarrow> memory_db \<Rightarrow> (memory_db \<times> memory option) result" where
  "memory_create me now automatic replaced memory db =
     (let content = strip (lm_content memory) in
      if content = [] \<or> sensitive content then Inl (Value_Error ''Sensitive or empty memory rejected'')
      else if automatic \<and> (lm_confidence memory < mc_min_confidence (me_config me)
          \<or> lm_importance memory < mc_min_importance (me_config me))
      then Inr (db, None)
      else
        let m = prepared_memory me memory; v = memory_vector me (lm_content m);
            preferred = (if lm_type m = Mem_preference then snd (preference_key (lm_content m)) else []) in
        case scan_memories me m preferred v replaced [] (active_in_scope m db) of
          Inl old \<Rightarrow> Inr (db, Some old)
        | Inr conflicts \<Rightarrow>
            rbind (row_insert memory_key \<lparr>mr_memory = m, mr_embedding = v\<rparr> db) (\<lambda>rows.
              Inr (fold (\<lambda>old. supersede now (lm_id old) (lm_id m)) conflicts rows, Some m)))"

definition memory_update ::
  "memory_env \<Rightarrow> time \<Rightarrow> ident \<Rightarrow> ident \<Rightarrow> string \<Rightarrow> ident \<Rightarrow> memory_db \<Rightarrow> (memory_db \<times> memory) result" where
  "memory_update me now new_id i content owner db =
     rbind (memory_get i owner db) (\<lambda>old.
     rbind (memory_create me now False (Some (lm_id old))
         (old\<lparr>lm_id := new_id, lm_content := content, lm_created_at := now, lm_updated_at := now,
            lm_status := Mem_active, lm_superseded_by := None\<rparr>) db) (\<lambda>(db', saved).
       case saved of
         None \<Rightarrow> Inl Type_Error
       | Some s \<Rightarrow> Inr (if lm_id s \<noteq> lm_id old then supersede now (lm_id old) (lm_id s) db' else db', s)))"

definition memory_delete :: "ident \<Rightarrow> ident \<Rightarrow> memory_db \<Rightarrow> memory_db result" where
  "memory_delete i owner db = rbind (memory_get i owner db) (\<lambda>_. Inr (row_delete memory_key i db))"

section \<open>Retrieval\<close>

definition query_terms :: "string \<Rightarrow> string list" where
  \<comment> \<open>a set, as a list of its elements\<close>
  "query_terms text = fromkeys (findall (Plus (Cls is_word)) (casefold text))"

definition memory_relevance :: "memory_env \<Rightarrow> rat list \<Rightarrow> string list \<Rightarrow> memory_db \<Rightarrow> memory \<Rightarrow> rat" where
  "memory_relevance me v terms db m =
     (let embedding = (case find (\<lambda>r. memory_key r = lm_id m \<and> lm_status (mr_memory r) = Mem_active) db of
            None \<Rightarrow> [] | Some r \<Rightarrow> mr_embedding r);
          shared = filter (\<lambda>t. t \<in> set (query_terms (lm_content m))) terms
      in max (cosine (me_sqrt me) v embedding) (of_nat (length shared) / of_nat (max 1 (length terms))))"

definition age_in_days :: "time \<Rightarrow> memory \<Rightarrow> rat" where
  "age_in_days now m = max 0 (of_int (now - lm_updated_at m) / 86400000000)"

definition memory_score :: "time \<Rightarrow> rat \<Rightarrow> memory \<Rightarrow> rat" where
  "memory_score now relevant m = 7/10 * relevant + 2/10 * lm_importance m + (1/10) / (1 + age_in_days now m / 30)"

definition scored_memories ::
  "memory_env \<Rightarrow> time \<Rightarrow> string \<Rightarrow> memory_db \<Rightarrow> memory list \<Rightarrow> (rat \<times> memory) list" where
  "scored_memories me now query db candidates =
     (let v = memory_vector me query; terms = query_terms query in
      sort_by (\<lambda>a b. fst b \<le> fst a)
        (map (\<lambda>m. (memory_score now (memory_relevance me v terms db m) m, m))
          (filter (\<lambda>m. 2/10 \<le> memory_relevance me v terms db m \<or> lm_type m \<in> {Mem_preference, Mem_instruction})
            candidates)))"

fun memory_type_name :: "memory_type \<Rightarrow> string" where
  "memory_type_name Mem_preference = ''preference''"
| "memory_type_name Mem_project = ''project''"
| "memory_type_name Mem_decision = ''decision''"
| "memory_type_name Mem_instruction = ''instruction''"
| "memory_type_name Mem_episodic = ''episodic''"

definition memory_item :: "memory \<Rightarrow> (string \<times> json) list" where
  "memory_item m = [(''id'', JStr (lm_id m)), (''memory_type'', JStr (memory_type_name (lm_type m))),
     (''content'', JStr (lm_content m))]"

definition item_size :: "memory \<Rightarrow> int" where
  \<comment> \<open>\<open>len(encode(item))\<close>; no float occurs in an item\<close>
  "item_size m = int (length (dumps_plain (\<lambda>_. []) (JObj (memory_item m))))"

definition touch :: "time \<Rightarrow> memory \<Rightarrow> memory_db \<Rightarrow> memory_db" where
  "touch now m db = update_where (\<lambda>r. memory_key r = lm_id m)
     (\<lambda>r. r\<lparr>mr_memory := m\<lparr>lm_accesses := Suc (lm_accesses m), lm_accessed_at := Some now\<rparr>\<rparr>) db"

fun take_memories :: "int \<Rightarrow> int \<Rightarrow> memory list \<Rightarrow> memory list \<Rightarrow> memory list" where
  "take_memories limit budget chosen [] = chosen"
| "take_memories limit budget chosen (m # ms) =
     (if budget < item_size m then take_memories limit budget chosen ms
      else let chosen' = chosen @ [m] in
        if limit \<le> int (length chosen') then chosen' else take_memories limit (budget - item_size m) chosen' ms)"

definition retrieve_memories ::
  "memory_env \<Rightarrow> time \<Rightarrow> string \<Rightarrow> ident option \<Rightarrow> ident \<Rightarrow> bool \<Rightarrow> memory_db \<Rightarrow> memory_db \<times> memory list" where
  "retrieve_memories me now query ws owner include_workspace db =
     (let candidates = memory_list owner ws None (Some Mem_active) include_workspace db;
          chosen = take_memories (mc_max_items (me_config me)) (mc_budget (me_config me) * 2) []
            (map snd (scored_memories me now query db candidates))
      in (fold (touch now) chosen db, chosen))"

end
