(* ===== verification/Memory_Laws.thy ===== *)
theory Memory_Laws
  imports Memory
begin

text \<open>
  The store of long-term memories as a machine: active memories of one scope never repeat each other's
  content or conflict key, nothing sensitive is stored, and what superseded a memory is kept with it; what a
  query retrieves fits its budget and belongs to its audience.
\<close>

section \<open>The invariant\<close>

abbreviation active_row :: "memory_row \<Rightarrow> bool" where
  "active_row r \<equiv> lm_status (mr_memory r) = Mem_active"

definition clash :: "memory \<Rightarrow> memory \<Rightarrow> bool" where
  "clash a b \<longleftrightarrow> same_scope a b \<and> (lm_hash a = lm_hash b \<or> same_key a b)"

definition storable :: "memory \<Rightarrow> bool" where
  "storable m \<longleftrightarrow> lm_content m \<noteq> [] \<and> \<not> sensitive (lm_content m)
     \<and> (lm_scope m = Scope_of_user \<longrightarrow> lm_scope_id m = lm_owner m)"

definition memories_ok :: "memory_db \<Rightarrow> bool" where
  "memories_ok db \<longleftrightarrow> distinct (map memory_key db) \<and> (\<forall>r\<in>set db. storable (mr_memory r))
     \<and> (\<forall>r\<in>set db. \<forall>q\<in>set db. active_row r \<and> active_row q \<and> clash (mr_memory r) (mr_memory q)
          \<longrightarrow> memory_key r = memory_key q)"

text \<open>What no operation changes in a row but the one that stores it.\<close>

definition core :: "memory \<Rightarrow> ident \<times> ident \<times> memory_scope \<times> ident \<times> string \<times> string \<times> (string, json) dict" where
  "core m = (lm_id m, lm_owner m, lm_scope m, lm_scope_id m, lm_content m, lm_hash m, lm_metadata m)"

definition later_row :: "memory_row \<Rightarrow> memory_row \<Rightarrow> bool" where
  "later_row r q \<longleftrightarrow> core (mr_memory q) = core (mr_memory r) \<and> (active_row q \<longrightarrow> active_row r)"

lemma later_row_refl [simp]: "later_row r r"
  by (simp add: later_row_def)

lemma later_rows_refl [simp]: "list_all2 later_row db db"
  by (simp add: list_all2_same)

lemma later_rows_map: "(\<And>r. r \<in> set db \<Longrightarrow> later_row r (f r)) \<Longrightarrow> list_all2 later_row db (map f db)"
  by (induction db) auto

lemma later_row_trans: "later_row a b \<Longrightarrow> later_row b c \<Longrightarrow> later_row a c"
  by (auto simp: later_row_def)

lemma later_rows_trans: "list_all2 later_row a b \<Longrightarrow> list_all2 later_row b c \<Longrightarrow> list_all2 later_row a c"
  by (erule (1) list_all2_trans [rotated]) (rule later_row_trans)

lemma later_row_key: "later_row r q \<Longrightarrow> memory_key q = memory_key r"
  by (simp add: later_row_def core_def memory_key_def)

lemma later_rows_keys: "list_all2 later_row db db' \<Longrightarrow> map memory_key db' = map memory_key db"
  by (induction rule: list_all2_induct) (auto simp: later_row_key)

lemma later_rows_back:
  assumes "list_all2 later_row db db'" "q \<in> set db'" obtains r where "r \<in> set db" "later_row r q"
  using assms by (metis in_set_conv_nth list_all2_conv_all_nth)

lemma core_clash: "core a = core a' \<Longrightarrow> core b = core b' \<Longrightarrow> clash a b = clash a' b'"
  by (simp add: core_def clash_def same_scope_def same_key_def conflict_key_def)

lemma core_storable: "core a = core b \<Longrightarrow> storable a = storable b"
  by (simp add: core_def storable_def)

lemma later_rows_ok:
  assumes "memories_ok db" "list_all2 later_row db db'" shows "memories_ok db'"
  unfolding memories_ok_def
proof (intro conjI ballI impI)
  show "distinct (map memory_key db')" using assms by (simp add: later_rows_keys memories_ok_def)
  fix r assume "r \<in> set db'"
  with assms(2) obtain r0 where r0: "r0 \<in> set db" "later_row r0 r" by (rule later_rows_back)
  then show "storable (mr_memory r)"
    using assms(1) core_storable [of "mr_memory r" "mr_memory r0"] by (simp add: later_row_def memories_ok_def)
  fix q assume "q \<in> set db'"
  with assms(2) obtain q0 where q0: "q0 \<in> set db" "later_row q0 q" by (rule later_rows_back)
  assume "active_row r \<and> active_row q \<and> clash (mr_memory r) (mr_memory q)"
  then have "active_row r0 \<and> active_row q0 \<and> clash (mr_memory r0) (mr_memory q0)"
    using r0 q0 core_clash [of "mr_memory r" "mr_memory r0" "mr_memory q" "mr_memory q0"] by (simp add: later_row_def)
  then have "memory_key r0 = memory_key q0" using assms(1) r0 q0 by (simp add: memories_ok_def)
  then show "memory_key r = memory_key q" using r0 q0 by (simp add: later_row_key)
qed

lemma memories_ok_filter: "memories_ok db \<Longrightarrow> memories_ok (filter P db)"
  by (auto simp: memories_ok_def distinct_map inj_on_def)

section \<open>Storing\<close>

lemma supersede_later: "list_all2 later_row db (supersede now i by_id db)"
  unfolding supersede_def update_where_def by (rule later_rows_map) (simp add: later_row_def core_def)

lemma supersede_all_later: "list_all2 later_row db (fold (\<lambda>old. supersede now (lm_id old) b) cs db)"
proof (induction cs arbitrary: db)
  case (Cons c cs)
  show ?case unfolding fold_Cons o_apply by (rule later_rows_trans [OF supersede_later Cons.IH])
qed simp

lemma superseded_row:
  assumes "r \<in> set (fold (\<lambda>old. supersede now (lm_id old) b) cs db)" "active_row r"
  shows "memory_key r \<notin> lm_id ` set cs"
  using assms
proof (induction cs arbitrary: r rule: rev_induct)
  case (snoc c cs)
  have "r \<in> set (supersede now (lm_id c) b (fold (\<lambda>old. supersede now (lm_id old) b) cs db))"
    using snoc.prems(1) by simp
  then obtain q where q: "q \<in> set (fold (\<lambda>old. supersede now (lm_id old) b) cs db)"
      "r = (if memory_key q = lm_id c
      then q\<lparr>mr_memory := (mr_memory q)\<lparr>lm_status := Mem_superseded, lm_superseded_by := Some b, lm_updated_at := now\<rparr>\<rparr> else q)"
    unfolding supersede_def update_where_def set_map by blast
  have "memory_key q \<noteq> lm_id c"
  proof
    assume "memory_key q = lm_id c"
    then show False using snoc.prems(2) unfolding q(2) by simp
  qed
  with q(2) have "memory_key q \<noteq> lm_id c" "r = q" by simp_all
  then show ?case using snoc.IH [of q] q(1) snoc.prems(2) by simp
qed simp

lemma scan_conflicts_all:
  "scan_memories me m p v replaced acc rs = Inr cs \<Longrightarrow> set acc \<subseteq> set cs \<and> set cs \<subseteq> set acc \<union> mr_memory ` set rs
     \<and> (\<forall>r\<in>set rs. mr_memory r \<in> set cs \<or> (lm_hash (mr_memory r) \<noteq> lm_hash m \<and> \<not> same_key m (mr_memory r)))"
proof (induction rs arbitrary: acc)
  case (Cons r rs)
  then consider "scan_memories me m p v replaced (acc @ [mr_memory r]) rs = Inr cs"
    | "scan_memories me m p v replaced acc rs = Inr cs" "lm_hash (mr_memory r) \<noteq> lm_hash m" "\<not> same_key m (mr_memory r)"
    by (auto simp: Let_def split: if_splits)
  then show ?case by cases (use Cons.IH in fastforce)+
qed simp

lemma scan_conflicts:
  assumes "scan_memories me m p v replaced acc rs = Inr cs"
  shows "set acc \<subseteq> set cs" "set cs \<subseteq> set acc \<union> mr_memory ` set rs"
    and "r \<in> set rs \<Longrightarrow> mr_memory r \<in> set cs \<or> (lm_hash (mr_memory r) \<noteq> lm_hash m \<and> \<not> same_key m (mr_memory r))"
  using scan_conflicts_all [OF assms] by blast+

lemma scan_duplicate:
  "scan_memories me m p v replaced acc rs = Inl old \<Longrightarrow> old \<in> mr_memory ` set rs"
  by (induction rs arbitrary: acc) (auto simp: Let_def split: if_splits)

lemma same_key_sym: "same_key a b \<Longrightarrow> same_key b a"
  by (auto simp: same_key_def)

lemma clash_sym: "clash a b \<Longrightarrow> clash b a"
  using same_key_sym [of a b] by (auto simp: clash_def same_scope_def)

lemma prepared_memory_fields:
  "lm_id (prepared_memory me m) = lm_id m" "lm_content (prepared_memory me m) = strip (lm_content m)"
  "lm_owner (prepared_memory me m) = lm_owner m" "lm_status (prepared_memory me m) = lm_status m"
  "lm_scope (prepared_memory me m) = lm_scope m"
  "lm_scope m = Scope_of_user \<Longrightarrow> lm_scope_id (prepared_memory me m) = lm_owner m"
  by (simp_all add: prepared_memory_def Let_def split: prod.split)

lemma create_cases:
  assumes "memory_create me now automatic replaced memory db = Inr (db', saved)"
  obtains "db' = db" "saved = None" "automatic"
  | old where "db' = db" "saved = Some old" "old \<in> mr_memory ` set (active_in_scope (prepared_memory me memory) db)"
  | cs v where "saved = Some (prepared_memory me memory)" "storable (prepared_memory me memory)"
      "memory_key \<lparr>mr_memory = prepared_memory me memory, mr_embedding = v\<rparr> \<notin> memory_key ` set db"
      "db' = fold (\<lambda>old. supersede now (lm_id old) (lm_id (prepared_memory me memory))) cs
         (db @ [\<lparr>mr_memory = prepared_memory me memory, mr_embedding = v\<rparr>])"
      "set cs \<subseteq> mr_memory ` set (active_in_scope (prepared_memory me memory) db)"
      "\<And>r. r \<in> set (active_in_scope (prepared_memory me memory) db) \<Longrightarrow>
         mr_memory r \<in> set cs \<or> \<not> clash (mr_memory r) (prepared_memory me memory)"
proof -
  let ?m = "prepared_memory me memory"
  define v where "v = memory_vector me (lm_content ?m)"
  define p where "p = (if lm_type ?m = Mem_preference then snd (preference_key (lm_content ?m)) else [])"
  let ?scan = "case scan_memories me ?m p v replaced [] (active_in_scope ?m db) of
          Inl old \<Rightarrow> Inr (db, Some old)
        | Inr conflicts \<Rightarrow> rbind (row_insert memory_key \<lparr>mr_memory = ?m, mr_embedding = v\<rparr> db) (\<lambda>rows.
              Inr (fold (\<lambda>old. supersede now (lm_id old) (lm_id ?m)) conflicts rows, Some ?m))"
  have content: "strip (lm_content memory) \<noteq> [] \<and> \<not> sensitive (strip (lm_content memory))"
  proof (rule ccontr)
    assume "\<not> ?thesis"
    then have "strip (lm_content memory) = [] \<or> sensitive (strip (lm_content memory))" by blast
    then show False using assms by (simp add: memory_create_def)
  qed
  then have "(strip (lm_content memory) = [] \<or> sensitive (strip (lm_content memory))) = False" by blast
  then have stored: "(if automatic \<and> (lm_confidence memory < mc_min_confidence (me_config me)
          \<or> lm_importance memory < mc_min_importance (me_config me)) then Inr (db, None) else ?scan) = Inr (db', saved)"
    using assms unfolding memory_create_def Let_def p_def v_def by (simp only: de_Morgan_disj if_False simp_thms)
  consider (weak) "db' = db" "saved = None" "automatic"
    | (scan) "?scan = Inr (db', saved)"
  proof (cases "automatic \<and> (lm_confidence memory < mc_min_confidence (me_config me)
          \<or> lm_importance memory < mc_min_importance (me_config me))")
    case True
    then show ?thesis using stored by (intro weak) auto
  next
    case False
    show ?thesis by (rule scan) (rule stored [unfolded if_not_P [OF False]])
  qed
  then show thesis
  proof cases
    case weak
    then show thesis by (rule that(1))
  next
    case scan
    show thesis
    proof (cases "scan_memories me ?m p v replaced [] (active_in_scope ?m db)")
      case (Inl old)
      then show thesis using scan scan_duplicate [OF Inl] by (intro that(2) [of old]) auto
    next
      case (Inr cs)
      have new: "memory_key \<lparr>mr_memory = ?m, mr_embedding = v\<rparr> \<notin> memory_key ` set db"
        and db': "db' = fold (\<lambda>old. supersede now (lm_id old) (lm_id ?m)) cs (db @ [\<lparr>mr_memory = ?m, mr_embedding = v\<rparr>])"
        and saved: "saved = Some ?m"
        using scan Inr by (auto simp: rbind_Inr_iff row_simps row_get_None_iff)
      have st: "storable ?m" using content by (simp add: storable_def prepared_memory_fields)
      have sub: "set cs \<subseteq> mr_memory ` set (active_in_scope ?m db)" using scan_conflicts(2) [OF Inr] by simp
      show thesis
      proof (rule that(3) [OF saved st new db' sub])
        fix r assume "r \<in> set (active_in_scope ?m db)"
        from scan_conflicts(3) [OF Inr this] show "mr_memory r \<in> set cs \<or> \<not> clash (mr_memory r) ?m"
          using same_key_sym [of "mr_memory r" ?m] by (auto simp: clash_def)
      qed
    qed
  qed
qed

lemma active_in_scope_iff:
  "r \<in> set (active_in_scope m db) \<longleftrightarrow> r \<in> set db \<and> same_scope (mr_memory r) m \<and> active_row r"
  by (auto simp: active_in_scope_def)

lemma memory_create_ok:
  assumes "memory_create me now automatic replaced memory db = Inr (db', saved)" "memories_ok db"
  shows "memories_ok db'"
  using assms(1)
proof (cases rule: create_cases)
  case (3 cs v)
  let ?m = "prepared_memory me memory" let ?new = "\<lparr>mr_memory = prepared_memory me memory, mr_embedding = v\<rparr>"
  let ?rows = "db @ [?new]"
  have later: "list_all2 later_row ?rows db'" unfolding 3(4) by (rule supersede_all_later)
  have only: "clash (mr_memory r) ?m \<Longrightarrow> memory_key r = memory_key ?new"
    if r: "r \<in> set ?rows" "later_row r r'" "r' \<in> set db'" "active_row r'" for r r'
  proof (rule ccontr)
    assume "clash (mr_memory r) ?m" and other: "memory_key r \<noteq> memory_key ?new"
    moreover have "r \<in> set db" using r(1) other by auto
    moreover have "active_row r" using r(2,4) by (simp add: later_row_def)
    ultimately have "mr_memory r \<in> set cs" using 3(6) [of r] by (auto simp: active_in_scope_iff clash_def)
    then have "memory_key r' \<in> lm_id ` set cs" using later_row_key [OF r(2)] by (simp add: memory_key_def)
    then show False using superseded_row [OF r(3) [unfolded 3(4)] r(4)] by simp
  qed
  show ?thesis unfolding memories_ok_def
  proof (intro conjI ballI impI)
    show "distinct (map memory_key db')" using assms(2) 3(3) by (simp add: later_rows_keys [OF later] memories_ok_def)
    fix r' assume r': "r' \<in> set db'"
    with later obtain r where r: "r \<in> set ?rows" "later_row r r'" by (rule later_rows_back)
    then show "storable (mr_memory r')"
      using assms(2) 3(2) core_storable [of "mr_memory r'" "mr_memory r"] by (auto simp: later_row_def memories_ok_def)
    fix q' assume q': "q' \<in> set db'"
    with later obtain q where q: "q \<in> set ?rows" "later_row q q'" by (rule later_rows_back)
    assume "active_row r' \<and> active_row q' \<and> clash (mr_memory r') (mr_memory q')"
    then have act: "active_row r'" "active_row q'" and cl: "clash (mr_memory r) (mr_memory q)"
      using r(2) q(2) core_clash [of "mr_memory r'" "mr_memory r" "mr_memory q'" "mr_memory q"]
      by (simp_all add: later_row_def)
    have "memory_key r = memory_key q"
    proof (cases "r = ?new \<or> q = ?new")
      case True
      then show ?thesis
      proof
        assume new: "r = ?new"
        with cl clash_sym have "clash (mr_memory q) ?m" by fastforce
        from only [OF q q' act(2) this] new show ?thesis by simp
      next
        assume new: "q = ?new"
        with cl have "clash (mr_memory r) ?m" by simp
        from only [OF r r' act(1) this] new show ?thesis by simp
      qed
    next
      case False
      then show ?thesis using r q act cl assms(2) by (auto simp: memories_ok_def later_row_def)
    qed
    then show "memory_key r' = memory_key q'" using r(2) q(2) by (simp add: later_row_key)
  qed
qed (use assms(2) in simp_all)

lemma memory_get_in:
  "memory_get i owner db = Inr m \<Longrightarrow> m \<in> mr_memory ` set db \<and> lm_id m = i \<and> lm_owner m = owner"
  by (auto simp: memory_get_def memory_key_def find_Some_iff split: option.splits)

lemma memory_update_ok:
  assumes "memory_update me now new_id i content owner db = Inr (db', s)" "memories_ok db"
  shows "memories_ok db'"
proof -
  from assms(1) obtain old m :: memory and p where create: "memory_create me now False (Some (lm_id old)) m db = Inr p"
    and rest: "(case p of (db', saved) \<Rightarrow> case saved of None \<Rightarrow> Inl Type_Error
       | Some s \<Rightarrow> Inr (if lm_id s \<noteq> lm_id old then supersede now (lm_id old) (lm_id s) db' else db', s)) = Inr (db', s)"
    unfolding memory_update_def rbind_Inr_iff by blast
  then obtain db1 where p: "p = (db1, Some s)" and db': "db' = (if lm_id s \<noteq> lm_id old then supersede now (lm_id old) (lm_id s) db1 else db1)"
    by (cases p) (auto split: option.splits)
  from memory_create_ok [OF create [unfolded p] assms(2)] later_rows_ok [OF _ supersede_later] show ?thesis by (simp add: db')
qed

section \<open>Retrieving\<close>

lemma memory_list_in:
  assumes "m \<in> set (memory_list owner ws kind status inc db)"
  shows "m \<in> mr_memory ` set db" "lm_scope m = Scope_of_user \<or> Some (lm_scope_id m) = ws"
    "status = Some st \<Longrightarrow> lm_status m = st" "lm_scope m = Scope_of_user \<Longrightarrow> lm_owner m = owner"
    "\<not> inc \<Longrightarrow> lm_owner m = owner"
  using assms by (auto simp: memory_list_def Let_def split: if_splits)

lemma take_memories_sub: "set (take_memories limit budget chosen ms) \<subseteq> set chosen \<union> set ms"
  by (induction limit budget chosen ms rule: take_memories.induct) (auto simp: Let_def)

lemma take_memories_budget:
  "0 \<le> budget \<Longrightarrow> sum_list (map item_size (take_memories limit budget chosen ms)) \<le> sum_list (map item_size chosen) + budget"
  by (induction limit budget chosen ms rule: take_memories.induct) (auto simp: Let_def)

lemma take_memories_limit:
  "int (length chosen) < limit \<Longrightarrow> int (length (take_memories limit budget chosen ms)) \<le> limit"
  by (induction limit budget chosen ms rule: take_memories.induct) (auto simp: Let_def)

lemma set_scored: "snd ` set (scored_memories me now query db ms) \<subseteq> set ms"
  by (auto simp: scored_memories_def Let_def)

lemma retrieved_in:
  assumes "retrieve_memories me now query ws owner inc db = (db', ms)" "m \<in> set ms"
  shows "m \<in> set (memory_list owner ws None (Some Mem_active) inc db)"
  using assms take_memories_sub [of "mc_max_items (me_config me)" "mc_budget (me_config me) * 2" "[]"]
    set_scored [of me now query db "memory_list owner ws None (Some Mem_active) inc db"]
  by (fastforce simp: retrieve_memories_def Let_def)

lemma touch_later:
  assumes "\<exists>r\<in>set db. core (mr_memory r) = core m" "distinct (map memory_key db)" "lm_status m = Mem_superseded \<or>
      (\<forall>r\<in>set db. memory_key r = lm_id m \<longrightarrow> active_row r)"
  shows "list_all2 later_row db (touch now m db)"
  unfolding touch_def update_where_def
proof (rule later_rows_map)
  fix q assume q: "q \<in> set db"
  obtain r where r: "r \<in> set db" "core (mr_memory r) = core m" using assms(1) by blast
  show "later_row q (if memory_key q = lm_id m
      then q\<lparr>mr_memory := m\<lparr>lm_accesses := Suc (lm_accesses m), lm_accessed_at := Some now\<rparr>\<rparr> else q)"
  proof (cases "memory_key q = lm_id m")
    case True
    then have "memory_key q = memory_key r" using r(2) by (simp add: core_def memory_key_def)
    then have "q = r" using assms(2) q r(1) by (auto simp: distinct_map inj_on_def)
    then show ?thesis using True r(2) assms(3) q by (auto simp: later_row_def core_def)
  qed simp
qed

lemma touches_later:
  assumes "memories_ok db0" "list_all2 later_row db0 db" "\<forall>m\<in>set ms. \<exists>r\<in>set db0. mr_memory r = m"
    "\<forall>r0\<in>set db0. \<forall>r\<in>set db. memory_key r = memory_key r0 \<longrightarrow> lm_status (mr_memory r) = lm_status (mr_memory r0)"
  shows "list_all2 later_row db (fold (touch now) ms db)"
  using assms(2-)
proof (induction ms arbitrary: db)
  case (Cons m ms)
  obtain r0 where r0: "r0 \<in> set db0" "mr_memory r0 = m" using Cons.prems(2) by auto
  have keys: "distinct (map memory_key db)"
    using assms(1) Cons.prems(1) by (simp add: later_rows_keys memories_ok_def)
  from Cons.prems(1) r0(1) obtain r where r: "r \<in> set db" "later_row r0 r"
    by (metis in_set_conv_nth list_all2_conv_all_nth)
  have one: "list_all2 later_row db (touch now m db)"
  proof (rule touch_later)
    show "\<exists>r\<in>set db. core (mr_memory r) = core m" using r r0(2) by (auto simp: later_row_def)
    show "lm_status m = Mem_superseded \<or> (\<forall>r\<in>set db. memory_key r = lm_id m \<longrightarrow> active_row r)"
      using Cons.prems(3) r0 by (cases "lm_status m") (auto simp: memory_key_def)
  qed (rule keys)
  have "lm_status (mr_memory q) = lm_status (mr_memory q0)"
    if "q0 \<in> set db0" "q \<in> set (touch now m db)" "memory_key q = memory_key q0" for q0 q
  proof -
    from that(2) obtain p where p: "p \<in> set db" "q = (if memory_key p = lm_id m
        then p\<lparr>mr_memory := m\<lparr>lm_accesses := Suc (lm_accesses m), lm_accessed_at := Some now\<rparr>\<rparr> else p)"
      unfolding touch_def update_where_def set_map by blast
    show ?thesis
    proof (cases "memory_key p = lm_id m")
      case True
      then have "memory_key q = memory_key r0" using p(2) r0(2) by (simp add: memory_key_def)
      then have "q0 = r0" using that(1,3) r0(1) assms(1) by (auto simp: memories_ok_def distinct_map inj_on_def)
      then show ?thesis using p(2) True r0(2) by simp
    next
      case False
      then show ?thesis using Cons.prems(3) that p by simp
    qed
  qed
  then have "list_all2 later_row (touch now m db) (fold (touch now) ms (touch now m db))"
    using Cons.prems(2) by (intro Cons.IH later_rows_trans [OF Cons.prems(1) one]) auto
  then show ?case unfolding fold_Cons o_apply by (rule later_rows_trans [OF one])
qed simp

lemma retrieve_later:
  assumes "retrieve_memories me now query ws owner inc db = (db', ms)" "memories_ok db"
  shows "list_all2 later_row db db'"
proof -
  have "\<forall>m\<in>set ms. \<exists>r\<in>set db. mr_memory r = m"
    using retrieved_in [OF assms(1)] memory_list_in(1) by fastforce
  moreover have "\<forall>r0\<in>set db. \<forall>r\<in>set db. memory_key r = memory_key r0 \<longrightarrow> lm_status (mr_memory r) = lm_status (mr_memory r0)"
    using assms(2) by (auto simp: memories_ok_def distinct_map inj_on_def)
  ultimately have "list_all2 later_row db (fold (touch now) ms db)"
    by (rule touches_later [OF assms(2) later_rows_refl])
  then show ?thesis using assms(1) by (auto simp: retrieve_memories_def Let_def)
qed

section \<open>The store as a machine\<close>

datatype memory_op =
    Op_create memory_env time bool "ident option" memory
  | Op_update memory_env time ident ident string ident
  | Op_delete ident ident
  | Op_retrieve memory_env time string "ident option" ident bool

fun memory_exec :: "memory_op \<Rightarrow> memory_db \<Rightarrow> memory_db" where
  "memory_exec (Op_create me now a r m) db = commit_of db (memory_create me now a r m db)"
| "memory_exec (Op_update me now n i c w) db = commit_of db (memory_update me now n i c w db)"
| "memory_exec (Op_delete i w) db = (case memory_delete i w db of Inl e \<Rightarrow> db | Inr db' \<Rightarrow> db')"
| "memory_exec (Op_retrieve me now q ws w inc) db = fst (retrieve_memories me now q ws w inc db)"

lemma memory_exec_ok: "memories_ok db \<Longrightarrow> memories_ok (memory_exec x db)"
proof (cases x)
  case (Op_create me now a r m)
  assume "memories_ok db"
  then show ?thesis unfolding Op_create memory_exec.simps
    by (rule commit_of_cases) (rule memory_create_ok [OF _ \<open>memories_ok db\<close>])
next
  case (Op_update me now n i c w)
  assume "memories_ok db"
  then show ?thesis unfolding Op_update memory_exec.simps
    by (rule commit_of_cases) (rule memory_update_ok [OF _ \<open>memories_ok db\<close>])
next
  case (Op_delete i w)
  assume "memories_ok db"
  then show ?thesis by (auto simp: Op_delete memory_delete_def rbind_Inr_iff row_delete_def memories_ok_filter split: sum.splits)
next
  case (Op_retrieve me now q ws w inc)
  assume "memories_ok db"
  then show ?thesis using later_rows_ok [OF _ retrieve_later]
    by (metis Op_retrieve memory_exec.simps(4) prod.collapse)
qed

interpretation memories: guarded_machine memory_exec "\<lambda>db x. True" memories_ok
  by unfold_locales (rule memory_exec_ok)


text \<open>
  What a query retrieves fits the token budget and the number of items, and every memory of it is an
  active one of the owner, or (where workspace memories are asked for) of the workspace.
\<close>

theorem retrieval_fits_and_belongs:
  assumes "retrieve_memories me now query ws owner inc db = (db', ms)" "0 \<le> mc_budget (me_config me)"
    "1 \<le> mc_max_items (me_config me)"
  shows "sum_list (map item_size ms) \<le> 2 * mc_budget (me_config me) \<and> int (length ms) \<le> mc_max_items (me_config me)
    \<and> list_all (\<lambda>m. m \<in> mr_memory ` set db \<and> lm_status m = Mem_active
        \<and> (if lm_scope m = Scope_of_user then lm_owner m = owner
           else Some (lm_scope_id m) = ws \<and> (inc \<or> lm_owner m = owner))) ms"
proof (intro conjI)
  have ms: "ms = take_memories (mc_max_items (me_config me)) (mc_budget (me_config me) * 2) []
      (map snd (scored_memories me now query db (memory_list owner ws None (Some Mem_active) inc db)))"
    using assms(1) by (auto simp: retrieve_memories_def Let_def)
  show "sum_list (map item_size ms) \<le> 2 * mc_budget (me_config me)"
    unfolding ms by (rule order_trans [OF take_memories_budget]) (use assms(2) in auto)
  show "int (length ms) \<le> mc_max_items (me_config me)"
    unfolding ms by (rule take_memories_limit) (use assms(3) in simp)
  show "list_all (\<lambda>m. m \<in> mr_memory ` set db \<and> lm_status m = Mem_active
      \<and> (if lm_scope m = Scope_of_user then lm_owner m = owner
         else Some (lm_scope_id m) = ws \<and> (inc \<or> lm_owner m = owner))) ms"
    unfolding list_all_iff
  proof
    fix m assume "m \<in> set ms"
    from retrieved_in [OF assms(1) this] memory_list_in [OF retrieved_in [OF assms(1) this]]
    show "m \<in> mr_memory ` set db \<and> lm_status m = Mem_active
      \<and> (if lm_scope m = Scope_of_user then lm_owner m = owner
         else Some (lm_scope_id m) = ws \<and> (inc \<or> lm_owner m = owner))" by auto
  qed
qed

section \<open>A sample store\<close>

definition sample_env :: memory_env where
  "sample_env = \<lparr>me_config = \<lparr>mc_min_confidence = 3/4, mc_min_importance = 1/2, mc_similarity = 47/50,
       mc_max_items = 6, mc_budget = 1200\<rparr>,
     me_embed = None, me_sqrt = (\<lambda>x. x), me_digest = (\<lambda>s. s)\<rparr>"

definition sample_memory :: "ident \<Rightarrow> memory_type \<Rightarrow> string \<Rightarrow> memory" where
  "sample_memory i k c = \<lparr>lm_id = i, lm_owner = ''u'', lm_scope = Scope_of_user, lm_scope_id = ''u'', lm_type = k,
     lm_content = c, lm_summary = [], lm_importance = 1/2, lm_confidence = 1, lm_session = None, lm_task = None,
     lm_message = None, lm_hash = [], lm_created_at = 0, lm_updated_at = 0, lm_accessed_at = None, lm_accesses = 0,
     lm_status = Mem_active, lm_superseded_by = None, lm_metadata = []\<rparr>"

definition sample_row :: "ident \<Rightarrow> memory_type \<Rightarrow> string \<Rightarrow> memory_row" where
  "sample_row i k c = \<lparr>mr_memory = (sample_memory i k c)\<lparr>lm_hash := c\<rparr>, mr_embedding = []\<rparr>"

definition sample_store :: memory_db where
  "sample_store = foldl (\<lambda>db x. memory_exec x db) []
     [Op_create sample_env 1 False None (sample_memory ''i'' Mem_project ''t''),
      Op_create sample_env 2 False None (sample_memory ''j'' Mem_instruction ''c'')]"

lemma sample_store_rows: "sample_store = [sample_row ''i'' Mem_project ''t'', sample_row ''j'' Mem_instruction ''c'']"
  by code_simp

lemma sample_reached: "memories.reaches [] sample_store"
  unfolding sample_store_def foldl.simps by (intro memories.reaches.intros TrueI)


theorem retrieval_fits_and_belongs_witness:
  "\<exists>db' ms. retrieve_memories sample_env 3 ''t'' None ''u'' False sample_store = (db', ms)
     \<and> map lm_id ms = [''i'', ''j''] \<and> sum_list (map item_size ms) \<le> 2400 \<and> list_all (\<lambda>m. lm_owner m = ''u'') ms"
proof -
  obtain db' ms where r: "retrieve_memories sample_env 3 ''t'' None ''u'' False sample_store = (db', ms)"
    by (cases "retrieve_memories sample_env 3 ''t'' None ''u'' False sample_store")
  have "map lm_id (snd (retrieve_memories sample_env 3 ''t'' None ''u'' False sample_store)) = [''i'', ''j'']"
    unfolding sample_store_rows by code_simp
  then have "map lm_id ms = [''i'', ''j'']" using r by simp
  moreover have "mc_budget (me_config sample_env) = 1200" "mc_max_items (me_config sample_env) = 6"
    by (simp_all add: sample_env_def)
  ultimately show ?thesis
    using retrieval_fits_and_belongs [OF r] r by (auto simp: list_all_iff split: if_splits)
qed

text \<open>
  A corrected memory keeps the metadata of the old one: after \<open>concise\<close> is corrected to \<open>t\<close>, the memory
  of \<open>t\<close> still carries the preference for concise answers, and that preference cannot be stored again: the
  memory of \<open>t\<close> is returned in its place.
\<close>

definition corrected_store :: memory_db where
  "corrected_store = foldl (\<lambda>db x. memory_exec x db) []
     [Op_create sample_env 1 False None (sample_memory ''i'' Mem_preference ''concise''),
      Op_update sample_env 2 ''j'' ''i'' ''t'' ''u'']"

lemma corrected_rows:
  "map (\<lambda>r. (memory_key r, lm_content (mr_memory r), active_row r)) corrected_store
     = [(''i'', ''concise'', False), (''j'', ''t'', True)]"
  by code_simp

lemma corrected_memory_hides_preference:
  "(case memory_create sample_env 3 False None (sample_memory ''k'' Mem_preference ''concise'') corrected_store of
      Inr (db', Some m) \<Rightarrow> lm_content m = ''t'' | _ \<Rightarrow> False)"
  by code_simp

end
