(* ===== verification/Scoped.thy ===== *)
theory Scoped
  imports Authorization_Laws Memory_Laws
begin

text \<open>
  \<open>server/auth/scoped.py\<close>: the boundary every repository is reached through.  A call is authorized for the
  principal of the request before the repository runs: \<open>scoped_guard\<close> is what is checked for the calls of
  each domain, \<open>scoped_memory\<close> the whole boundary of the memory store.  Telemetry is left out.  The run guard
  follows the links of agent runs; its fuel stands for Python's recursion limit.
\<close>

section \<open>Guards\<close>

definition gbind :: "auth_db \<times> 'a result \<Rightarrow> ('a \<Rightarrow> auth_db \<Rightarrow> auth_db \<times> 'b result) \<Rightarrow> auth_db \<times> 'b result" where
  "gbind m f = (case m of (db, Inl e) \<Rightarrow> (db, Inl e) | (db, Inr x) \<Rightarrow> f x db)"

definition gdone :: "auth_db \<times> 'a result \<Rightarrow> auth_db \<times> unit result" where
  "gdone m = gbind m (\<lambda>_ db. (db, Inr ()))"

definition unavailable_operation :: py_error where
  "unavailable_operation = HTTP_Exception 403 ''Operation unavailable''"

definition workspace_action :: "string \<Rightarrow> action option" where
  "workspace_action = map_of [(''get'', Workspace_read), (''delete'', Workspace_delete), (''documents'', Document_read),
     (''register'', Document_create), (''delete_document'', Document_delete)]"

definition data_action :: "string \<Rightarrow> action option" where
  "data_action = map_of [(''upload'', Dataset_create), (''delete'', Dataset_delete), (''get'', Dataset_read),
     (''list'', Dataset_read), (''inspect'', Dataset_read)]"

text \<open>\<open>_agent_guard\<close>: a run is guarded by its task, its actor, or the run it was delegated from.\<close>

fun run_guard :: "nat \<Rightarrow> call_env \<Rightarrow> principal \<Rightarrow> ident \<Rightarrow> auth_db \<Rightarrow> auth_db \<times> unit result" where
  "run_guard 0 env q i db = (db, Inl (Runtime_Error ''RecursionError''))"
| "run_guard (Suc n) env q i db =
     gbind (db, payload Agent_runs i db) (\<lambda>v db.
       if truthy (rr_task v) then gdone (task_guard env (the (rr_task v)) Task_read (Some q) db)
       else if rr_actor v = Some (user_id_of q) then (db, Inr ())
       else if truthy (rr_supervisor v) then run_guard n env q (the (rr_supervisor v)) db
       else (db, Inl access_denied))"

definition delegation_guard :: "nat \<Rightarrow> call_env \<Rightarrow> principal \<Rightarrow> ident \<Rightarrow> auth_db \<Rightarrow> auth_db \<times> unit result" where
  "delegation_guard n env q i db =
     gbind (db, payload Agent_delegations i db) (\<lambda>v db.
       if truthy (rd_task v) then gdone (task_guard env (the (rd_task v)) Task_read (Some q) db)
       else run_guard n env q (rd_supervisor v) db)"

text \<open>The calls, by domain; a string is the method's name.\<close>

datatype scoped_call =
    Workspace_call string ident              \<comment> \<open>the workspace, also of a registered document\<close>
  | Session_create_call "ident option"
  | Session_call ident
  | Task_create_call ident ident             \<comment> \<open>workspace and session\<close>
  | Task_call string ident
  | Artifact_call ident
  | Register_artifact_call ident "ident option"  \<comment> \<open>workspace and task\<close>
  | Artifacts_call ident
  | Save_execution_call ident
  | Data_call string ident
  | Approval_call string ident
  | Request_call tool_call
  | Cancel_pending_call ident
  | Execution_call string ident
  | Create_supervisor_call "ident option"
  | Create_delegation_call ident
  | Agent_task_call string "ident option"
  | Delegations_call "ident option" "ident option"  \<comment> \<open>task and supervisor run\<close>
  | Delegation_call ident
  | Run_call ident

fun scoped_guard :: "nat \<Rightarrow> call_env \<Rightarrow> principal \<Rightarrow> scoped_call \<Rightarrow> auth_db \<Rightarrow> auth_db \<times> unit result" where
  "scoped_guard n env q (Workspace_call name w) db = (case workspace_action name of
     None \<Rightarrow> (db, Inl unavailable_operation) | Some act \<Rightarrow> gdone (authorize env (Some q) act w None True db))"
| "scoped_guard n env q (Session_create_call ws) db =
     (if truthy ws then gdone (authorize env (Some q) Session_create (the ws) None True db) else (db, Inr ()))"
| "scoped_guard n env q (Session_call s) db = gdone (session_guard env s (Some q) db)"
| "scoped_guard n env q (Task_create_call w s) db =
     gbind (authorize env (Some q) Task_create w None True db) (\<lambda>_ db. gdone (session_guard env s (Some q) db))"
| "scoped_guard n env q (Task_call name t) db =
     gdone (task_guard env t (if name \<in> {''get'', ''steps'', ''events''} then Task_read else Task_execute) (Some q) db)"
| "scoped_guard n env q (Artifact_call i) db =
     gbind (db, payload Artifacts i db) (\<lambda>v db.
     gbind (authorize env (Some q) Artifact_read (ra_workspace v) None True db) (\<lambda>_ db.
       if truthy (ra_task v) then gdone (task_guard env (the (ra_task v)) Task_read (Some q) db) else (db, Inr ())))"
| "scoped_guard n env q (Register_artifact_call w t) db =
     gbind (authorize env (Some q) Analysis_execute w None True db) (\<lambda>_ db.
       if truthy t then gdone (task_guard env (the t) Task_read (Some q) db) else (db, Inr ()))"
| "scoped_guard n env q (Artifacts_call t) db = gdone (task_guard env t Task_read (Some q) db)"
| "scoped_guard n env q (Save_execution_call w) db = gdone (authorize env (Some q) Analysis_execute w None True db)"
| "scoped_guard n env q (Data_call name w) db = (case data_action name of
     None \<Rightarrow> (db, Inl unavailable_operation) | Some act \<Rightarrow> gdone (authorize env (Some q) act w None True db))"
| "scoped_guard n env q (Approval_call name i) db = gdone (approval_guard env i (name = ''decide'') (Some q) db)"
| "scoped_guard n env q (Request_call c) db = authorize_tool env c (Some q) db"
| "scoped_guard n env q (Cancel_pending_call t) db = gdone (task_guard env t Task_cancel (Some q) db)"
| "scoped_guard n env q (Execution_call name i) db =
     gbind (db, payload Tool_executions i db) (\<lambda>v db.
       if \<not> truthy (re_task v) then (db, Inl (HTTP_Exception 403 ''Task context required''))
       else gdone (task_guard env (the (re_task v)) (if name = ''execution'' then Task_read else Task_execute) (Some q) db))"
| "scoped_guard n env q (Create_supervisor_call t) db =
     (if truthy t then gdone (task_guard env (the t) Task_execute (Some q) db) else (db, Inr ()))"
| "scoped_guard n env q (Create_delegation_call r) db = run_guard n env q r db"
| "scoped_guard n env q (Agent_task_call name t) db =
     (if truthy t
      then gdone (task_guard env (the t) (if name \<in> {''supervisor'', ''runs''} then Task_read else Task_execute) (Some q) db)
      else (db, Inr ()))"
| "scoped_guard n env q (Delegations_call t r) db =
     (if truthy t then gdone (task_guard env (the t) Task_read (Some q) db)
      else if truthy r then run_guard n env q (the r) db
      else (db, Inl (HTTP_Exception 403 ''Task context required'')))"
| "scoped_guard n env q (Delegation_call d) db = delegation_guard n env q d db"
| "scoped_guard n env q (Run_call r) db = run_guard n env q r db"

definition scoped :: "nat \<Rightarrow> call_env \<Rightarrow> scoped_call \<Rightarrow> auth_db \<Rightarrow> auth_db \<times> principal result" where
  "scoped n env c db = gbind (db, require_principal env None) (\<lambda>q db.
     gbind (scoped_guard n env q c db) (\<lambda>_ db. (db, Inr q)))"

text \<open>The lists of approvals and of tool executions leave out what the principal may not read.\<close>

definition listed_guard :: "call_env \<Rightarrow> principal \<Rightarrow> bool \<Rightarrow> ident \<times> ident \<Rightarrow> auth_db \<Rightarrow> auth_db \<times> unit result" where
  "listed_guard env q approvals x db = (case x of (i, t) \<Rightarrow>
     if approvals then gdone (approval_guard env i False (Some q) db)
     else gdone (task_guard env t Task_read (Some q) db))"

fun visible_actions ::
  "call_env \<Rightarrow> principal \<Rightarrow> bool \<Rightarrow> (ident \<times> ident option) list \<Rightarrow> auth_db \<Rightarrow> auth_db \<times> ident list" where
  "visible_actions env q approvals [] db = (db, [])"
| "visible_actions env q approvals ((i, t) # xs) db =
     (if \<not> truthy t then visible_actions env q approvals xs db
      else case listed_guard env q approvals (i, the t) db of (db1, r) \<Rightarrow>
        (case visible_actions env q approvals xs db1 of (db2, rest) \<Rightarrow> (db2, if is_ok r then i # rest else rest)))"

section \<open>Memories\<close>

datatype memory_call =
    Memory_list_call "ident option" "memory_type option" "memory_status option"
  | Memory_retrieve_call string "ident option"
  | Memory_get_call ident
  | Memory_create_call bool "ident option" memory
  | Memory_update_call ident string
  | Memory_delete_call ident

fun scope_text :: "memory_scope \<Rightarrow> string" where
  "scope_text Scope_of_user = ''user''"
| "scope_text Scope_of_workspace = ''workspace''"

definition memory_view :: "memory_row \<Rightarrow> ident \<times> resource" where
  "memory_view r = (let m = mr_memory r in (lm_id m, R_Memory (lm_owner m) (scope_text (lm_scope m)) (lm_scope_id m)))"

definition see_memories :: "memory_db \<Rightarrow> auth_db \<Rightarrow> auth_db" where
  "see_memories ms db = db\<lparr>resources := (resources db)(Long_term_memories := map memory_view ms)\<rparr>"

definition read_workspace :: "call_env \<Rightarrow> principal \<Rightarrow> ident option \<Rightarrow> auth_db \<Rightarrow> auth_db \<times> unit result" where
  "read_workspace env q ws db =
     (if truthy ws then gdone (authorize env (Some q) Memory_read (the ws) None True db) else (db, Inr ()))"

definition owned_memory :: "principal \<Rightarrow> memory \<Rightarrow> memory" where
  "owned_memory q m = (let m = m\<lparr>lm_owner := user_id_of q\<rparr> in
     if lm_scope m = Scope_of_user then m\<lparr>lm_scope_id := user_id_of q\<rparr> else m)"

text \<open>The answer of a call is the memories it returns; \<open>new_id\<close> is the identifier of a corrected memory.\<close>

fun scoped_memory ::
  "call_env \<Rightarrow> memory_env \<Rightarrow> ident \<Rightarrow> principal \<Rightarrow> memory_call \<Rightarrow> memory_db \<Rightarrow> auth_db \<Rightarrow>
   auth_db \<times> (memory_db \<times> memory list) result" where
  "scoped_memory env me new_id q (Memory_list_call ws kind status) ms db =
     gbind (read_workspace env q ws (see_memories ms db)) (\<lambda>_ db.
       (db, Inr (ms, memory_list (user_id_of q) ws kind status True ms)))"
| "scoped_memory env me new_id q (Memory_retrieve_call query ws) ms db =
     gbind (read_workspace env q ws (see_memories ms db)) (\<lambda>_ db.
       (db, Inr (retrieve_memories me (e_now env) query ws (user_id_of q) True ms)))"
| "scoped_memory env me new_id q (Memory_get_call i) ms db =
     gbind (memory_guard env i Memory_read (Some q) (see_memories ms db)) (\<lambda>v db.
       (db, rbind (memory_get i (rm_owner v) ms) (\<lambda>m. Inr (ms, [m]))))"
| "scoped_memory env me new_id q (Memory_create_call automatic replaced m) ms db =
     gbind (if lm_scope m = Scope_of_user then (see_memories ms db, Inr ())
            else gdone (authorize env (Some q) Memory_write (lm_scope_id m) None True (see_memories ms db))) (\<lambda>_ db.
       (db, rbind (memory_create me (e_now env) automatic replaced (owned_memory q m) ms) (\<lambda>(ms', saved).
          Inr (ms', case saved of None \<Rightarrow> [] | Some s \<Rightarrow> [s]))))"
| "scoped_memory env me new_id q (Memory_update_call i content) ms db =
     gbind (memory_guard env i Memory_write (Some q) (see_memories ms db)) (\<lambda>v db.
       (db, rbind (memory_update me (e_now env) new_id i content (rm_owner v) ms) (\<lambda>(ms', s). Inr (ms', [s]))))"
| "scoped_memory env me new_id q (Memory_delete_call i) ms db =
     gbind (memory_guard env i Memory_write (Some q) (see_memories ms db)) (\<lambda>v db.
       (db, rbind (memory_delete i (rm_owner v) ms) (\<lambda>ms'. Inr (ms', []))))"

end
