(* ===== verification/Scoped_Laws.thy ===== *)
theory Scoped_Laws
  imports Scoped
begin

text \<open>
  Nobody passes the repository boundary of a workspace without a membership in it, viewers change nothing of
  the workspace itself, and the memory store only shows and only changes what the principal may read and write.
\<close>

section \<open>Guards that pass\<close>

named_theorems passes \<open>what a guard that passes has found\<close>

lemma gbind_Inr [passes]: "gbind m f = (db', Inr y) \<longleftrightarrow> (\<exists>db1 x. m = (db1, Inr x) \<and> f x db1 = (db', Inr y))"
  by (auto simp: gbind_def split: prod.splits sum.splits)

lemma gdone_Inr [passes]: "gdone m = (db', Inr y) \<longleftrightarrow> (\<exists>x. m = (db', Inr x))"
  by (auto simp: gdone_def passes)

lemma require_principal_again: "require_principal env p = Inr q \<Longrightarrow> require_principal env (Some q) = Inr q"
  by (auto simp: require_principal_def split: option.splits principal.splits)

definition member :: "auth_db \<Rightarrow> principal \<Rightarrow> ident \<Rightarrow> bool" where
  "member db q w \<longleftrightarrow> role_of db q w \<noteq> None"

definition authenticated :: "call_env \<Rightarrow> principal \<Rightarrow> bool" where
  "authenticated env q \<longleftrightarrow> require_principal env (Some q) = Inr q"

lemma authorize_member:
  assumes "authorize env (Some q) act w c au db = (db', Inr r)" "authenticated env q"
  shows "db' = db" "role_of db q w = Some r" "act \<in> set (role_matrix r)" "member db q w"
  using assms by (auto simp: authorize_Inr_iff authenticated_def member_def dest: allowed_Some)

lemma task_guard_member:
  assumes "task_guard env t act (Some q) db = (db', Inr x)" "authenticated env q"
  shows "db' = db" "row_get tr_id t (task_refs db) = Some x" "member db q (tr_workspace x)"
proof -
  obtain r where row: "row_get tr_id t (task_refs db) = Some x"
    and r: "authorize env (Some q) act (tr_workspace x) (tr_creator x) True db = (db', Inr r)"
    using task_guard_Inr [OF assms(1)] by blast
  show "db' = db" "row_get tr_id t (task_refs db) = Some x" "member db q (tr_workspace x)"
    using row authorize_member [OF r assms(2)] by simp_all
qed

lemma task_guard_row:
  assumes "task_guard env t act (Some q) db = (db', Inr x)" "authenticated env q" "row_get tr_id t (task_refs db) = Some z"
  shows "member db q (tr_workspace z)"
  using task_guard_member [OF assms(1,2)] assms(3) by simp

lemma session_guard_member:
  assumes "session_guard env s (Some q) db = (db', Inr x)" "authenticated env q"
  shows "db' = db" "row_get sr_id s (session_refs db) = Some x"
    "truthy (sr_workspace x) \<Longrightarrow> member db q (the (sr_workspace x))"
  using assms authorize_member [OF _ assms(2)]
  by (auto simp: session_guard_def split: option.splits prod.splits sum.splits if_splits)

lemma approval_guard_member:
  assumes "approval_guard env i write (Some q) db = (db', Inr v)" "authenticated env q"
  shows "db' = db \<and> payload Approval_requests i db = Inr v
    \<and> (\<exists>t. row_get tr_id (rp_task v) (task_refs db) = Some t \<and> member db q (tr_workspace t))"
proof -
  from assms(1) obtain db1 t where v: "payload Approval_requests i db = Inr v"
    and t: "task_guard env (rp_task v) Task_read (Some q) db = (db1, Inr t)"
    and rest: "db' = db1 \<or> (\<exists>act. \<exists>r. authorize env (Some q) act (tr_workspace t) None True db1 = (db', Inr r))"
    unfolding approval_guard_def by (auto split: prod.splits sum.splits if_splits)
  have "db1 = db" by (rule task_guard_member(1) [OF t assms(2)])
  moreover have "db' = db1" using rest authorize_member(1) [OF _ assms(2)] by blast
  ultimately show ?thesis using v task_guard_member [OF t assms(2)] by blast
qed

lemma tool_workspace_found:
  assumes "tool_workspace env c (Some q) db = (db', Inr ws)" "authenticated env q"
  shows "db' = db" "truthy (tc_task_id c) \<Longrightarrow> \<exists>t. row_get tr_id (the (tc_task_id c)) (task_refs db) = Some t \<and> ws = Some (tr_workspace t)"
    "\<not> truthy (tc_task_id c) \<Longrightarrow> ws = tc_workspace_id c"
proof -
  show "db' = db" "truthy (tc_task_id c) \<Longrightarrow> \<exists>t. row_get tr_id (the (tc_task_id c)) (task_refs db) = Some t \<and> ws = Some (tr_workspace t)"
    "\<not> truthy (tc_task_id c) \<Longrightarrow> ws = tc_workspace_id c"
    using assms(1) unfolding tool_workspace_def
    by (auto split: if_splits prod.splits sum.splits dest: task_guard_member [OF _ assms(2)] session_guard_member(1) [OF _ assms(2)])
qed

lemma authorize_tool_member:
  assumes "authorize_tool env c (Some q) db = (db', Inr u)" "authenticated env q"
  shows "\<exists>ws. tool_workspace env c (Some q) db = (db, Inr (Some ws)) \<and> db' = db \<and> member db q ws"
proof -
  from assms(1) obtain db1 ws r where ws: "tool_workspace env c (Some q) db = (db1, Inr ws)" and "truthy ws"
    and r: "authorize env (Some q) (tool_action c) (the ws) None True db1 = (db', Inr r)"
    by (auto simp: authorize_tool_def split: prod.splits sum.splits if_splits)
  from authorize_member [OF r assms(2)] tool_workspace_found(1) [OF ws assms(2)] ws \<open>truthy ws\<close> show ?thesis
    by (auto simp: truthy_def split: option.splits)
qed

lemma run_guard_same: "run_guard n env q i db = (db', Inr u) \<Longrightarrow> authenticated env q \<Longrightarrow> db' = db"
  by (induction n env q i db rule: run_guard.induct)
    (auto simp: passes split: if_splits dest: task_guard_member(1))

lemma run_guard_member:
  assumes "run_guard n env q i db = (db', Inr u)" "authenticated env q"
  shows "\<exists>v. payload Agent_runs i db = Inr v \<and> (\<not> truthy (rr_task v)
     \<or> (\<exists>t. row_get tr_id (the (rr_task v)) (task_refs db) = Some t \<and> member db q (tr_workspace t)))"
  using assms by (cases n) (auto simp: passes split: if_splits dest: task_guard_member)

section \<open>Outsiders\<close>

definition task_workspace :: "auth_db \<Rightarrow> ident option \<Rightarrow> ident option" where
  "task_workspace db t = (if truthy t then map_option tr_workspace (row_get tr_id (the t) (task_refs db)) else None)"

definition of_payload :: "resource result \<Rightarrow> (resource \<Rightarrow> ident option) \<Rightarrow> ident option" where
  "of_payload r f = (case r of Inl e \<Rightarrow> None | Inr v \<Rightarrow> f v)"

text \<open>The workspace the record of a call belongs to, if it belongs to one.\<close>

fun call_workspace :: "auth_db \<Rightarrow> scoped_call \<Rightarrow> ident option" where
  "call_workspace db (Workspace_call name w) = Some w"
| "call_workspace db (Session_create_call ws) = (if truthy ws then ws else None)"
| "call_workspace db (Session_call s) = (case row_get sr_id s (session_refs db) of
     None \<Rightarrow> None | Some x \<Rightarrow> if truthy (sr_workspace x) then sr_workspace x else None)"
| "call_workspace db (Task_create_call w s) = Some w"
| "call_workspace db (Task_call name t) = map_option tr_workspace (row_get tr_id t (task_refs db))"
| "call_workspace db (Artifact_call i) = of_payload (payload Artifacts i db) (\<lambda>v. Some (ra_workspace v))"
| "call_workspace db (Register_artifact_call w t) = Some w"
| "call_workspace db (Artifacts_call t) = map_option tr_workspace (row_get tr_id t (task_refs db))"
| "call_workspace db (Save_execution_call w) = Some w"
| "call_workspace db (Data_call name w) = Some w"
| "call_workspace db (Approval_call name i) = of_payload (payload Approval_requests i db)
     (\<lambda>v. map_option tr_workspace (row_get tr_id (rp_task v) (task_refs db)))"
| "call_workspace db (Request_call c) = (if truthy (tc_task_id c) then task_workspace db (tc_task_id c) else tc_workspace_id c)"
| "call_workspace db (Cancel_pending_call t) = map_option tr_workspace (row_get tr_id t (task_refs db))"
| "call_workspace db (Execution_call name i) = of_payload (payload Tool_executions i db) (\<lambda>v. task_workspace db (re_task v))"
| "call_workspace db (Create_supervisor_call t) = task_workspace db t"
| "call_workspace db (Create_delegation_call r) = of_payload (payload Agent_runs r db) (\<lambda>v. task_workspace db (rr_task v))"
| "call_workspace db (Agent_task_call name t) = task_workspace db t"
| "call_workspace db (Delegations_call t r) = task_workspace db t"
| "call_workspace db (Delegation_call d) = of_payload (payload Agent_delegations d db) (\<lambda>v. task_workspace db (rd_task v))"
| "call_workspace db (Run_call r) = of_payload (payload Agent_runs r db) (\<lambda>v. task_workspace db (rr_task v))"

fun changes_workspace :: "scoped_call \<Rightarrow> bool" where
  "changes_workspace (Workspace_call name w) = (name \<in> {''delete'', ''register'', ''delete_document''})"
| "changes_workspace (Data_call name w) = (name \<in> {''upload'', ''delete''})"
| "changes_workspace (Register_artifact_call w t) = True"
| "changes_workspace (Save_execution_call w) = True"
| "changes_workspace c = False"

lemma scoped_guard_member:
  assumes "scoped_guard n env q c db = (db', Inr u)" "authenticated env q" "call_workspace db c = Some w"
  shows "db' = db \<and> member db q w"
proof (cases c)
  case (Approval_call name i)
  then obtain v where "approval_guard env i (name = ''decide'') (Some q) db = (db', Inr v)"
    using assms(1) by (auto simp: passes)
  from approval_guard_member [OF this assms(2)] show ?thesis using assms(3) Approval_call by (auto simp: of_payload_def)
next
  case (Run_call r)
  with assms(1) have g: "run_guard n env q r db = (db', Inr u)" by simp
  show ?thesis using run_guard_same [OF g assms(2)] run_guard_member [OF g assms(2)] assms(3) Run_call
    by (auto simp: of_payload_def task_workspace_def split: if_splits)
next
  case (Create_delegation_call r)
  with assms(1) have g: "run_guard n env q r db = (db', Inr u)" by simp
  show ?thesis using run_guard_same [OF g assms(2)] run_guard_member [OF g assms(2)] assms(3) Create_delegation_call
    by (auto simp: of_payload_def task_workspace_def split: if_splits)
next
  case (Request_call call)
  with assms(1) have "authorize_tool env call (Some q) db = (db', Inr u)" by simp
  from authorize_tool_member [OF this assms(2)] obtain ws where ws: "tool_workspace env call (Some q) db = (db, Inr (Some ws))"
    and same: "db' = db" "member db q ws" by blast
  from tool_workspace_found(2,3) [OF ws assms(2)] show ?thesis
    using same assms(3) Request_call by (auto simp: task_workspace_def split: if_splits)
next
  case (Session_call s)
  then obtain x where x: "session_guard env s (Some q) db = (db', Inr x)" using assms(1) by (auto simp: passes)
  from session_guard_member [OF x assms(2)] show ?thesis using assms(3) Session_call by (auto split: if_splits)
qed (use assms in \<open>auto simp: passes delegation_guard_def of_payload_def task_workspace_def
      split: option.splits if_splits
      dest: task_guard_member(1) [OF _ assms(2)] task_guard_row [OF _ assms(2)] session_guard_member(1) [OF _ assms(2)]
        authorize_member(1,4) [OF _ assms(2)] run_guard_same [OF _ assms(2)]\<close>)

lemma workspace_change_role:
  assumes "scoped_guard n env q c db = (db', Inr u)" "authenticated env q" "call_workspace db c = Some w" "changes_workspace c"
  shows "role_of db q w \<noteq> Some VIEWER"
proof -
  have "\<exists>act. \<exists>r. act \<notin> set read_actions \<and> authorize env (Some q) act w None True db = (db', Inr r)"
  proof (cases c)
    case (Register_artifact_call v t)
    then obtain db1 r where r: "authorize env (Some q) Analysis_execute v None True db = (db1, Inr r)" and "v = w"
      using assms(1,3) by (auto simp: passes)
    moreover have "db' = db" using scoped_guard_member [OF assms(1-3)] by simp
    ultimately show ?thesis using authorize_member(1) [OF r assms(2)] by (intro exI [of _ Analysis_execute]) (auto simp: read_actions_def)
  qed (use assms in \<open>auto simp: passes workspace_action_def data_action_def read_actions_def split: option.splits\<close>)
  then obtain act r where "act \<notin> set read_actions" "authorize env (Some q) act w None True db = (db', Inr r)" by blast
  with authorize_member(2,3) [OF this(2) assms(2)] show ?thesis by auto
qed

lemma scoped_Inr:
  assumes "scoped n env c db = (db', Inr q)"
  shows "authenticated env q \<and> scoped_guard n env q c db = (db', Inr ())"
  using assms by (auto simp: scoped_def passes authenticated_def dest: require_principal_again)


section \<open>Memories\<close>

definition may_read :: "auth_db \<Rightarrow> principal \<Rightarrow> memory \<Rightarrow> bool" where
  "may_read db q m \<longleftrightarrow> (if lm_scope m = Scope_of_user then lm_owner m = user_id_of q else member db q (lm_scope_id m))"

definition may_write :: "auth_db \<Rightarrow> principal \<Rightarrow> memory \<Rightarrow> bool" where
  "may_write db q m \<longleftrightarrow> (if lm_scope m = Scope_of_user then lm_owner m = user_id_of q
     else role_of db q (lm_scope_id m) \<in> {Some EDITOR, Some OWNER})"

lemma may_write_read: "may_write db q m \<Longrightarrow> may_read db q m"
  by (auto simp: may_write_def may_read_def member_def)

lemma see_role [simp]: "role_of (see_memories ms db) q w = role_of db q w" "member (see_memories ms db) q w = member db q w"
  by (simp_all add: see_memories_def role_of_def active_user_def member_def)

lemma writer_role: "Memory_write \<in> set (role_matrix r) \<Longrightarrow> r \<in> {EDITOR, OWNER}"
  by (cases r) (simp_all add: read_actions_def)

lemma may_write_scope: "same_scope a b \<Longrightarrow> may_write db q a = may_write db q b"
  by (simp add: same_scope_def may_write_def)

lemma map_of_views: "map_of (map memory_view ms) i = map_option (\<lambda>r. snd (memory_view r)) (find (\<lambda>r. memory_key r = i) ms)"
  by (induction ms) (auto simp: memory_view_def memory_key_def Let_def)

lemma find_owned:
  "find (\<lambda>r. memory_key r = i) ms = Some r \<Longrightarrow> find (\<lambda>r. memory_key r = i \<and> lm_owner (mr_memory r) = lm_owner (mr_memory r0)) ms
     = (if lm_owner (mr_memory r) = lm_owner (mr_memory r0) then Some r else find (\<lambda>r. memory_key r = i \<and> lm_owner (mr_memory r) = lm_owner (mr_memory r0)) ms)"
  by (induction ms) (auto split: if_splits)

lemma scope_text_user: "scope_text s = ''user'' \<longleftrightarrow> s = Scope_of_user"
  by (cases s) simp_all

lemma memory_guard_found:
  assumes "memory_guard env i act (Some q) (see_memories ms db) = (db', Inr v)" "authenticated env q" "act \<in> {Memory_read, Memory_write}"
  obtains r where "r \<in> set ms" "memory_get i (rm_owner v) ms = Inr (mr_memory r)" "memory_key r = i"
    "if act = Memory_read then may_read db q (mr_memory r) else may_write db q (mr_memory r)"
proof -
  have resources: "payload Long_term_memories i (see_memories ms db)
      = (case find (\<lambda>r. memory_key r = i) ms of None \<Rightarrow> Inl not_found | Some r \<Rightarrow> Inr (snd (memory_view r)))"
    by (simp add: payload_def see_memories_def map_of_views split: option.splits)
  from assms(1) obtain r where r: "find (\<lambda>r. memory_key r = i) ms = Some r" and v: "v = snd (memory_view r)"
    and checked: "if lm_scope (mr_memory r) = Scope_of_user then lm_owner (mr_memory r) = user_id_of q
       else \<exists>x. authorize env (Some q) act (lm_scope_id (mr_memory r)) None True (see_memories ms db) = (db', Inr x)"
    using assms(2) unfolding memory_guard_def resources
    by (auto simp: memory_view_def Let_def scope_text_user authenticated_def split: option.splits prod.splits sum.splits if_splits)
  have "rm_owner v = lm_owner (mr_memory r)" by (simp add: v memory_view_def Let_def)
  then have get: "memory_get i (rm_owner v) ms = Inr (mr_memory r)"
    using find_owned [OF r, of r] by (simp add: memory_get_def)
  have "if act = Memory_read then may_read db q (mr_memory r) else may_write db q (mr_memory r)"
  proof (cases "lm_scope (mr_memory r) = Scope_of_user")
    case True
    then show ?thesis using checked by (simp add: may_read_def may_write_def)
  next
    case False
    then obtain x where x: "authorize env (Some q) act (lm_scope_id (mr_memory r)) None True (see_memories ms db) = (db', Inr x)"
      using checked by auto
    from authorize_member [OF x assms(2)] False assms(3) show ?thesis
      by (auto simp: may_read_def may_write_def dest: writer_role)
  qed
  moreover have "r \<in> set ms" "memory_key r = i" using r by (auto simp: find_Some_iff)
  ultimately show thesis using get that by blast
qed

definition touched :: "memory_db \<Rightarrow> memory_db \<Rightarrow> memory_row set" where
  "touched ms ms' = (set ms' - set ms) \<union> (set ms - set ms')"

lemma supersede_touched:
  "touched ms (supersede now i b ms) \<subseteq> {r. \<exists>q\<in>set ms. memory_key q = i \<and> same_scope (mr_memory r) (mr_memory q)}"
  unfolding touched_def supersede_def update_where_def by (auto simp: same_scope_def split: if_splits)

lemma touched_trans: "touched a c \<subseteq> touched a b \<union> touched b c"
  by (auto simp: touched_def)

lemma same_key_row: "memories_ok ms \<Longrightarrow> r \<in> set ms \<Longrightarrow> q \<in> set ms \<Longrightarrow> memory_key r = memory_key q \<Longrightarrow> r = q"
  by (auto simp: memories_ok_def distinct_map inj_on_def)

lemma supersede_all_touched:
  assumes "\<forall>c\<in>set cs. \<forall>q\<in>set ms. memory_key q = lm_id c \<longrightarrow> same_scope (mr_memory q) m"
  shows "touched ms (fold (\<lambda>old. supersede now (lm_id old) b) cs ms) \<subseteq> {r. same_scope (mr_memory r) m}"
  using assms
proof (induction cs arbitrary: ms)
  case (Cons c cs)
  let ?ms = "supersede now (lm_id c) b ms"
  have "touched ms ?ms \<subseteq> {r. same_scope (mr_memory r) m}"
    using supersede_touched [of ms now "lm_id c" b] Cons.prems by (fastforce simp: same_scope_def)
  moreover have "\<forall>d\<in>set cs. \<forall>q\<in>set ?ms. memory_key q = lm_id d \<longrightarrow> same_scope (mr_memory q) m"
    using Cons.prems unfolding supersede_def update_where_def by (auto simp: memory_key_def same_scope_def)
  ultimately show ?case using touched_trans [of ms _ ?ms] Cons.IH [of ?ms] by fastforce
qed (simp add: touched_def)

lemma create_touched:
  assumes "memory_create me now automatic replaced memory ms = Inr (ms', saved)" "memories_ok ms"
  shows "touched ms ms' \<subseteq> {r. same_scope (mr_memory r) (prepared_memory me memory)}
    \<and> (\<forall>s. saved = Some s \<longrightarrow> same_scope s (prepared_memory me memory))"
  using assms(1)
proof (cases rule: create_cases)
  case (2 old)
  then show ?thesis by (auto simp: touched_def active_in_scope_iff)
next
  case (3 cs v)
  let ?m = "prepared_memory me memory" let ?new = "\<lparr>mr_memory = ?m, mr_embedding = v\<rparr>"
  have "same_scope (mr_memory x) ?m" if c: "c \<in> set cs" and x: "x \<in> set (ms @ [?new])" "memory_key x = lm_id c" for c x
  proof -
    obtain r where "r \<in> set (active_in_scope ?m ms)" "mr_memory r = c" using 3(5) c by blast
    then have r: "r \<in> set ms" "mr_memory r = c" "same_scope c ?m" by (auto simp: active_in_scope_iff)
    then have "memory_key x = memory_key r" using x(2) by (simp add: memory_key_def)
    then have "x = r" using x(1) r(1) 3(3) same_key_row [OF assms(2), of x r] by force
    then show ?thesis using r by simp
  qed
  then have "touched (ms @ [?new]) ms' \<subseteq> {r. same_scope (mr_memory r) ?m}"
    unfolding 3(4) by (intro supersede_all_touched) blast
  moreover have "touched ms (ms @ [?new]) \<subseteq> {r. same_scope (mr_memory r) ?m}"
    by (auto simp: touched_def same_scope_def)
  ultimately show ?thesis using touched_trans [of ms ms' "ms @ [?new]"] 3(1) by (auto simp: same_scope_def)
qed (simp add: touched_def)

lemma prepared_scope:
  "lm_scope m = Scope_of_user \<longrightarrow> lm_scope_id m = lm_owner m \<Longrightarrow> same_scope (prepared_memory me m) m"
  by (auto simp: same_scope_def prepared_memory_def Let_def split: prod.split)

lemma update_touched:
  assumes "memory_update me now new_id i content owner ms = Inr (ms', s)" "memories_ok ms"
    "memory_get i owner ms = Inr (mr_memory r)" "r \<in> set ms"
  shows "touched ms ms' \<subseteq> {x. same_scope (mr_memory x) (mr_memory r)} \<and> same_scope s (mr_memory r)"
proof -
  let ?old = "mr_memory r"
  let ?new = "?old\<lparr>lm_id := new_id, lm_content := content, lm_created_at := now, lm_updated_at := now,
      lm_status := Mem_active, lm_superseded_by := None\<rparr>"
  from assms(1) obtain ms1 where create: "memory_create me now False (Some (lm_id ?old)) ?new ms = Inr (ms1, Some s)"
    and ms': "ms' = (if lm_id s \<noteq> lm_id ?old then supersede now (lm_id ?old) (lm_id s) ms1 else ms1)"
    unfolding memory_update_def assms(3) rbind.simps rbind_Inr_iff by (auto split: option.splits)
  have "storable ?old" using assms(2,4) by (simp add: memories_ok_def)
  then have sc: "same_scope (prepared_memory me ?new) ?old"
    using prepared_scope [of ?new me] by (auto simp: storable_def same_scope_def)
  with create_touched [OF create assms(2)] have c: "touched ms ms1 \<subseteq> {x. same_scope (mr_memory x) ?old}" "same_scope s ?old"
    by (auto simp: same_scope_def)
  have later: "touched ms1 (supersede now (lm_id ?old) b ms1) \<subseteq> {x. same_scope (mr_memory x) ?old}" for b
  proof -
    have "same_scope (mr_memory q) ?old" if "q \<in> set ms1" "memory_key q = lm_id ?old" for q
    proof (cases "q \<in> set ms")
      case True
      then show ?thesis using same_key_row [OF assms(2) True assms(4)] that(2) by (simp add: memory_key_def same_scope_def)
    next
      case False
      then show ?thesis using c(1) that(1) by (auto simp: touched_def)
    qed
    then show ?thesis using supersede_touched [of ms1 now "lm_id ?old" b] by (fastforce simp: same_scope_def)
  qed
  have "touched ms1 ms' \<subseteq> {x. same_scope (mr_memory x) ?old}"
    unfolding ms' using later by (simp add: touched_def)
  then show ?thesis using c touched_trans [of ms ms' ms1] by blast
qed

lemma delete_touched:
  assumes "memory_delete i owner ms = Inr ms'" "memories_ok ms" "r \<in> set ms" "memory_key r = i"
  shows "touched ms ms' \<subseteq> {r}"
  using assms(1) same_key_row [OF assms(2) _ assms(3)] assms(4)
  by (auto simp: memory_delete_def rbind_Inr_iff row_delete_def touched_def)

fun asked_workspace :: "memory_call \<Rightarrow> ident option" where
  "asked_workspace (Memory_list_call ws kind status) = ws"
| "asked_workspace (Memory_retrieve_call query ws) = ws"
| "asked_workspace c = None"

lemma read_list:
  assumes "read_workspace env q ws (see_memories ms db) = (db', Inr u)" "authenticated env q" "ws \<noteq> Some []"
    "m \<in> set (memory_list (user_id_of q) ws kind status True ms)"
  shows "may_read db q m"
proof (cases "truthy ws")
  case True
  then obtain x where x: "authorize env (Some q) Memory_read (the ws) None True (see_memories ms db) = (db', Inr x)"
    using assms(1) by (auto simp: read_workspace_def passes)
  from authorize_member [OF x assms(2)] memory_list_in [OF assms(4)] show ?thesis by (auto simp: may_read_def)
next
  case False
  then have "ws = None" using assms(3) by (cases ws) (auto simp: truthy_def)
  then show ?thesis using memory_list_in [OF assms(4)] by (auto simp: may_read_def)
qed

text \<open>
  C39: whatever memory call an authenticated principal makes, every memory it is given is the principal's own or
  of a workspace the principal is a member of, and (reading only counts accesses) every row it adds, changes or
  removes is the principal's own or of a workspace where the principal is an EDITOR or the OWNER.
\<close>

theorem memories_stay_with_their_audience:
  assumes "scoped_memory env me new_id q call ms db = (db', Inr (ms', out))" "require_principal env None = Inr q"
    "memories_ok ms" "asked_workspace call \<noteq> Some []"
  shows "list_all (may_read db q) out
    \<and> (list_all2 later_row ms ms' \<or> list_all (\<lambda>r. r \<in> set ms \<or> may_write db q (mr_memory r)) ms'
        \<and> list_all (\<lambda>r. r \<in> set ms' \<or> may_write db q (mr_memory r)) ms)"
proof -
  have q: "authenticated env q" using require_principal_again [OF assms(2)] by (simp add: authenticated_def)
  have written: ?thesis if "touched ms ms' \<subseteq> {r. may_write db q (mr_memory r)}" "\<forall>m\<in>set out. may_write db q m"
    using that may_write_read by (auto simp: touched_def list_all_iff)
  show ?thesis
  proof (cases call)
    case (Memory_list_call ws kind status)
    with assms(1) have "read_workspace env q ws (see_memories ms db) = (db', Inr ())" "ms' = ms"
      "out = memory_list (user_id_of q) ws kind status True ms" by (auto simp: passes)
    with read_list [OF _ q] assms(4) Memory_list_call show ?thesis by (auto simp: list_all_iff)
  next
    case (Memory_retrieve_call query ws)
    with assms(1) have g: "read_workspace env q ws (see_memories ms db) = (db', Inr ())"
      and r: "retrieve_memories me (e_now env) query ws (user_id_of q) True ms = (ms', out)" by (auto simp: passes)
    from read_list [OF g q] retrieved_in [OF r] retrieve_later [OF r assms(3)] assms(4) Memory_retrieve_call
    show ?thesis by (auto simp: list_all_iff)
  next
    case (Memory_get_call i)
    then obtain v m where g: "memory_guard env i Memory_read (Some q) (see_memories ms db) = (db', Inr v)"
      and m: "memory_get i (rm_owner v) ms = Inr m" "ms' = ms" "out = [m]"
      using assms(1) by (auto simp: passes rbind_Inr_iff)
    from g q obtain r where "r \<in> set ms" "memory_get i (rm_owner v) ms = Inr (mr_memory r)" "may_read db q (mr_memory r)"
      by (rule memory_guard_found) auto
    with m show ?thesis by simp
  next
    case (Memory_create_call automatic replaced m)
    let ?m = "owned_memory q m"
    from assms(1) Memory_create_call obtain saved where
      create: "memory_create me (e_now env) automatic replaced ?m ms = Inr (ms', saved)"
      and out: "out = (case saved of None \<Rightarrow> [] | Some s \<Rightarrow> [s])"
      by (auto simp: passes rbind_Inr_iff)
    have "may_write db q ?m"
    proof (cases "lm_scope m = Scope_of_user")
      case True
      then show ?thesis by (simp add: may_write_def owned_memory_def Let_def)
    next
      case False
      then obtain dbx x where x: "authorize env (Some q) Memory_write (lm_scope_id m) None True (see_memories ms db) = (dbx, Inr x)"
        using assms(1) Memory_create_call by (auto simp: passes)
      from authorize_member [OF x q] False show ?thesis
        by (auto simp: may_write_def owned_memory_def Let_def dest: writer_role)
    qed
    moreover have "same_scope (prepared_memory me ?m) ?m"
      by (rule prepared_scope) (simp add: owned_memory_def Let_def)
    ultimately have "may_write db q (prepared_memory me ?m)" using may_write_scope by blast
    with create_touched [OF create assms(3)] may_write_scope show ?thesis
      by (intro written) (auto simp: out split: option.splits)
  next
    case (Memory_update_call i content)
    then obtain v s where g: "memory_guard env i Memory_write (Some q) (see_memories ms db) = (db', Inr v)"
      and up: "memory_update me (e_now env) new_id i content (rm_owner v) ms = Inr (ms', s)" and out: "out = [s]"
      using assms(1) by (auto simp: passes rbind_Inr_iff)
    from g q obtain r where r: "r \<in> set ms" "memory_get i (rm_owner v) ms = Inr (mr_memory r)" "may_write db q (mr_memory r)"
      by (rule memory_guard_found) auto
    with update_touched [OF up assms(3) r(2,1)] may_write_scope show ?thesis
      by (intro written) (auto simp: out)
  next
    case (Memory_delete_call i)
    then obtain v where g: "memory_guard env i Memory_write (Some q) (see_memories ms db) = (db', Inr v)"
      and del: "memory_delete i (rm_owner v) ms = Inr ms'" and out: "out = []"
      using assms(1) by (auto simp: passes rbind_Inr_iff)
    from g q obtain r where r: "r \<in> set ms" "memory_key r = i" "may_write db q (mr_memory r)"
      by (rule memory_guard_found) auto
    with delete_touched [OF del assms(3) r(1,2)] show ?thesis by (intro written) (auto simp: out)
  qed
qed

section \<open>Sample calls\<close>

definition call_by :: "ident \<Rightarrow> call_env" where
  "call_by u = wit_env\<lparr>e_principal := Some (wit_prin u)\<rparr>"


theorem memories_stay_with_their_audience_witness:
  "\<exists>db' ms' out. scoped_memory (call_by ''u'') sample_env ''k'' (wit_prin ''u'')
       (Memory_list_call None None (Some Mem_active)) sample_store wit_db = (db', Inr (ms', out))
     \<and> map lm_id out = [''j'', ''i''] \<and> list_all (may_read wit_db (wit_prin ''u'')) out"
proof -
  let ?call = "Memory_list_call None None (Some Mem_active)"
  let ?out = "memory_list ''u'' None None (Some Mem_active) True sample_store"
  have run: "scoped_memory (call_by ''u'') sample_env ''k'' (wit_prin ''u'') ?call sample_store wit_db
      = (see_memories sample_store wit_db, Inr (sample_store, ?out))"
    by (simp add: gbind_def read_workspace_def truthy_def wit_prin_def)
  have "map lm_id ?out = [''j'', ''i'']"
    by (simp add: memory_list_def truthy_def sample_store_rows sample_row_def sample_memory_def)
  moreover have "memories_ok sample_store"
    using memories.reaches_invar [OF sample_reached] by (simp add: memories_ok_def)
  moreover have "require_principal (call_by ''u'') None = Inr (wit_prin ''u'')"
    by (simp add: require_principal_def call_by_def wit_prin_def)
  ultimately show ?thesis using run memories_stay_with_their_audience [OF run] by auto
qed

end
