(* ===== verification/Json_Text.thy ===== *)
theory Json_Text
  imports PyJson
begin

text \<open>
  What the stores write and read back: \<open>encode\<close> of \<open>server/persistence.py\<close> (\<open>json.dumps\<close> with its default
  separators) and \<open>json.loads\<close>.  The text of a float and its reading are parameters.  A parser answers the value
  and the remaining text; its fuel bounds the nesting and the number of elements, and the length of the text
  is always enough.  \<open>NaN\<close> and the infinities, which \<open>encode\<close> refuses, are not read, and neither are escapes
  of characters beyond 255.
\<close>

section \<open>Reading\<close>

definition json_space :: "char \<Rightarrow> bool" where
  "json_space c = (c \<in> {CHR '' '', CHR 0x09, CHR 0x0A, CHR 0x0D})"

definition skip_space :: "string \<Rightarrow> string" where
  "skip_space s = dropWhile json_space s"

definition hex_value :: "char \<Rightarrow> nat option" where
  "hex_value c = (let n = of_char c in
     if 48 \<le> n \<and> n \<le> 57 then Some (n - 48)
     else if 97 \<le> n \<and> n \<le> 102 then Some (n - 87)
     else if 65 \<le> n \<and> n \<le> 70 then Some (n - 55) else None)"

definition hex_text_value :: "string \<Rightarrow> nat option" where
  "hex_text_value s = foldl (\<lambda>acc c. case (acc, hex_value c) of (Some n, Some d) \<Rightarrow> Some (16 * n + d) | _ \<Rightarrow> None) (Some 0) s"

definition escaped_char :: "char \<Rightarrow> char option" where
  "escaped_char c = map_of [(CHR 0x22, CHR 0x22), (CHR 0x5C, CHR 0x5C), (CHR ''/'', CHR ''/''), (CHR ''b'', CHR 0x08),
     (CHR ''f'', CHR 0x0C), (CHR ''n'', CHR 0x0A), (CHR ''r'', CHR 0x0D), (CHR ''t'', CHR 0x09)] c"

fun parse_chars :: "string \<Rightarrow> (string \<times> string) option" where
  \<comment> \<open>after the opening quote\<close>
  "parse_chars [] = None"
| "parse_chars (c # s) =
     (if c = CHR 0x22 then Some ([], s)
      else if c = CHR 0x5C then
        (case s of
           e # s' \<Rightarrow>
             (if e = CHR ''u'' then
                (case hex_text_value (take 4 s') of
                   Some n \<Rightarrow> if 4 \<le> length s' \<and> n < 256
                     then map_option (\<lambda>(t, r). (char_of n # t, r)) (parse_chars (drop 4 s')) else None
                 | None \<Rightarrow> None)
              else (case escaped_char e of
                  Some d \<Rightarrow> map_option (\<lambda>(t, r). (d # t, r)) (parse_chars s')
                | None \<Rightarrow> None))
         | [] \<Rightarrow> None)
      else if of_char c < (32::nat) then None
      else map_option (\<lambda>(t, r). (c # t, r)) (parse_chars s))"

definition number_char :: "char \<Rightarrow> bool" where
  "number_char c = (is_digit c \<or> c \<in> set ''+-.eE'')"

definition digits_value :: "string \<Rightarrow> nat" where
  "digits_value s = foldl (\<lambda>n c. 10 * n + (of_char c - 48)) 0 s"

definition nat_literal :: "string \<Rightarrow> bool" where
  "nat_literal s = (s \<noteq> [] \<and> list_all is_digit s \<and> (hd s = CHR ''0'' \<longrightarrow> length s = 1))"

definition parse_number :: "(string \<Rightarrow> rat option) \<Rightarrow> string \<Rightarrow> json option" where
  "parse_number fr t =
     (if nat_literal t then Some (JInt (int (digits_value t)))
      else if t \<noteq> [] \<and> hd t = CHR ''-'' \<and> nat_literal (tl t) then Some (JInt (- int (digits_value (tl t))))
      else map_option JFloat (fr t))"

fun parse_value :: "nat \<Rightarrow> (string \<Rightarrow> rat option) \<Rightarrow> string \<Rightarrow> (json \<times> string) option"
  and parse_items :: "nat \<Rightarrow> (string \<Rightarrow> rat option) \<Rightarrow> string \<Rightarrow> (json list \<times> string) option"
  and parse_members :: "nat \<Rightarrow> (string \<Rightarrow> rat option) \<Rightarrow> string \<Rightarrow> ((string \<times> json) list \<times> string) option" where
  "parse_value 0 fr s = None"
| "parse_value (Suc n) fr s =
     (case skip_space s of
        [] \<Rightarrow> None
      | c # r \<Rightarrow>
          if c = CHR 0x22 then map_option (\<lambda>(t, r'). (JStr t, r')) (parse_chars r)
          else if c = CHR ''['' then
            (case skip_space r of
               [] \<Rightarrow> None
             | d # r' \<Rightarrow> if d = CHR '']'' then Some (JList [], r')
                 else map_option (\<lambda>(vs, q). (JList vs, q)) (parse_items n fr r))
          else if c = CHR ''{'' then
            (case skip_space r of
               [] \<Rightarrow> None
             | d # r' \<Rightarrow> if d = CHR ''}'' then Some (JObj [], r')
                 else map_option (\<lambda>(kvs, q). (JObj (dict_merge [] kvs), q)) (parse_members n fr r))
          else if starts_with ''null'' (c # r) then Some (JNull, drop 3 r)
          else if starts_with ''true'' (c # r) then Some (JBool True, drop 3 r)
          else if starts_with ''false'' (c # r) then Some (JBool False, drop 4 r)
          else map_option (\<lambda>v. (v, dropWhile number_char (c # r))) (parse_number fr (takeWhile number_char (c # r))))"
| "parse_items 0 fr s = None"
| "parse_items (Suc n) fr s =
     (case parse_value n fr s of
        None \<Rightarrow> None
      | Some (v, r) \<Rightarrow>
          (case skip_space r of
             [] \<Rightarrow> None
           | c # r' \<Rightarrow>
               if c = CHR '','' then map_option (\<lambda>(vs, q). (v # vs, q)) (parse_items n fr r')
               else if c = CHR '']'' then Some ([v], r') else None))"
| "parse_members 0 fr s = None"
| "parse_members (Suc n) fr s =
     (case skip_space s of
        [] \<Rightarrow> None
      | q # s1 \<Rightarrow>
          if q \<noteq> CHR 0x22 then None
          else case parse_chars s1 of
            None \<Rightarrow> None
          | Some (k, s2) \<Rightarrow>
              (case skip_space s2 of
                 [] \<Rightarrow> None
               | d # s3 \<Rightarrow>
                   if d \<noteq> CHR '':'' then None
                   else case parse_value n fr s3 of
                     None \<Rightarrow> None
                   | Some (v, r) \<Rightarrow>
                       (case skip_space r of
                          [] \<Rightarrow> None
                        | c # r' \<Rightarrow>
                            if c = CHR '','' then map_option (\<lambda>(kvs, q). ((k, v) # kvs, q)) (parse_members n fr r')
                            else if c = CHR ''}'' then Some ([(k, v)], r') else None)))"

definition loads :: "(string \<Rightarrow> rat option) \<Rightarrow> string \<Rightarrow> json result" where
  "loads fr s = (case parse_value (Suc (length s)) fr s of
     Some (v, r) \<Rightarrow> if skip_space r = [] then Inr v else Inl (Value_Error ''Extra data'')
   | None \<Rightarrow> Inl (Value_Error ''JSONDecodeError''))"

definition encode :: "(rat \<Rightarrow> string) \<Rightarrow> json \<Rightarrow> string" where
  "encode fl v = dumps_plain fl v"

section \<open>Numbers are read back\<close>

lemma digit_char: "d < 10 \<Longrightarrow> is_digit (char_of (48 + d))" "d < 10 \<Longrightarrow> of_char (char_of (48 + d)) = (48 + d :: nat)"
  by (simp_all add: is_digit_def chr_in_def)

lemma digits_value_snoc: "digits_value (s @ [c]) = 10 * digits_value s + (of_char c - 48)"
  by (simp add: digits_value_def)

lemma nat_text_digits: "list_all is_digit (nat_text n)"
  by (induction n rule: nat_text.induct) (subst nat_text.simps, simp add: digit_char)

lemma nat_text_value: "digits_value (nat_text n) = n"
proof (induction n rule: nat_text.induct)
  case (1 n)
  show ?case
  proof (cases "n < 10")
    case True
    then show ?thesis by (subst nat_text.simps) (simp add: digits_value_def digit_char)
  next
    case False
    then show ?thesis using 1 by (subst nat_text.simps) (simp add: digits_value_snoc digit_char)
  qed
qed

lemma nat_text_head: "nat_text n \<noteq> [] \<and> (hd (nat_text n) = CHR ''0'' \<longrightarrow> n = 0)"
proof (induction n rule: nat_text.induct)
  case (1 n)
  show ?case
  proof (cases "n < 10")
    case True
    moreover have "char_of (48 + n) = CHR ''0'' \<Longrightarrow> n = 0"
    proof -
      assume "char_of (48 + n) = CHR ''0''"
      then have "(of_char (char_of (48 + n) :: char) :: nat) = of_char (CHR ''0'')" by simp
      then show "n = 0" using digit_char(2) [OF True] by simp
    qed
    ultimately show ?thesis by (subst (1 2) nat_text.simps) simp
  next
    case False
    then show ?thesis using 1 [OF False] by (subst (1 2) nat_text.simps) (auto simp: hd_append)
  qed
qed

lemma nat_text_literal: "nat_literal (nat_text n)"
  using nat_text_digits [of n] nat_text_head [of n]
  by (auto simp: nat_literal_def nat_text.simps [of 0])

lemma parse_int_text: "parse_number fr (int_text i) = Some (JInt i)"
proof (cases "i < 0")
  case True
  have "\<not> nat_literal (CHR ''-'' # nat_text (nat (- i)))"
    by (simp add: nat_literal_def is_digit_def chr_in_def)
  with True show ?thesis by (simp add: parse_number_def int_text_def nat_text_literal nat_text_value)
next
  case False
  then show ?thesis by (simp add: parse_number_def int_text_def nat_text_literal nat_text_value)
qed

lemma int_text_chars: "list_all number_char (int_text i)" "int_text i \<noteq> []"
  using nat_text_digits nat_text_head
  by (auto simp: int_text_def number_char_def list_all_iff split: if_splits)

section \<open>Texts are read back\<close>

lemma hex_digit_value: "n < 16 \<Longrightarrow> hex_value (hex_digit n) = Some n"
  by (auto simp: hex_value_def hex_digit_def Let_def)

lemma backslash: "char_of (92 :: nat) = CHR 0x5C"
proof -
  have "(of_char (CHR 0x5C) :: nat) = 92" by simp
  then show ?thesis by (metis char_of_char)
qed

lemma json_char_read:
  "parse_chars (json_char c @ s) = map_option (\<lambda>(t, r). (c # t, r)) (parse_chars s)"
proof -
  let ?n = "of_char c :: nat"
  have again: "char_of ?n = c" by simp
  consider "?n \<in> {34, 92, 10, 13, 9, 12, 8}" | (control) "?n < 32" "?n \<notin> {10, 13, 9, 12, 8}" | (plain) "32 \<le> ?n" "?n \<notin> {34, 92}"
    by auto linarith
  then show ?thesis
  proof cases
    case 1
    then have "?n \<in> of_char ` {CHR 0x22, CHR 0x5C, CHR 0x0A, CHR 0x0D, CHR 0x09, CHR 0x0C, CHR 0x08}" by simp
    then have "c \<in> {CHR 0x22, CHR 0x5C, CHR 0x0A, CHR 0x0D, CHR 0x09, CHR 0x0C, CHR 0x08}"
      by (auto simp only: of_char_eq_iff)
    then show ?thesis by (auto simp: json_char_def escaped_char_def backslash)
  next
    case control
    let ?h = "[CHR ''0'', CHR ''0'', hex_digit (?n div 16), hex_digit (?n mod 16)]"
    have zero: "hex_value (CHR ''0'') = Some 0" by (simp add: hex_value_def)
    have "?n div 16 < 16" "?n mod 16 < 16" using control by auto
    then have "hex_text_value ?h = Some (16 * (?n div 16) + ?n mod 16)"
      unfolding hex_text_value_def by (simp add: zero hex_digit_value)
    then have h: "hex_text_value ?h = Some ?n" by simp
    have "json_char c = CHR 0x5C # CHR ''u'' # ?h" using control by (auto simp: json_char_def Let_def backslash)
    then show ?thesis using h control by (simp add: again)
  next
    case plain
    then have "c \<noteq> CHR 0x22" "c \<noteq> CHR 0x5C" by auto
    moreover have "json_char c = [c]" using plain by (auto simp: json_char_def Let_def)
    ultimately show ?thesis using plain by simp
  qed
qed

lemma json_str_read: "parse_chars (concat (map json_char t) @ CHR 0x22 # s) = Some (t, s)"
  by (induction t) (simp_all add: json_char_read)

section \<open>Values are read back\<close>

fun readable :: "(rat \<Rightarrow> string) \<Rightarrow> (string \<Rightarrow> rat option) \<Rightarrow> json \<Rightarrow> bool" where
  \<comment> \<open>keys of an object are distinct, and a float's text is a number that is read as the float\<close>
  "readable fl fr (JFloat x) = (fr (fl x) = Some x \<and> fl x \<noteq> [] \<and> list_all number_char (fl x)
     \<and> \<not> nat_literal (fl x) \<and> \<not> (hd (fl x) = CHR ''-'' \<and> nat_literal (tl (fl x))))"
| "readable fl fr (JList vs) = list_all (readable fl fr) vs"
| "readable fl fr (JObj kvs) = (distinct (map fst kvs) \<and> list_all (\<lambda>(k, v). readable fl fr v) kvs)"
| "readable fl fr v = True"

fun fuel_for :: "json \<Rightarrow> nat" where
  "fuel_for (JList vs) = Suc (sum_list (map (\<lambda>v. Suc (fuel_for v)) vs))"
| "fuel_for (JObj kvs) = Suc (sum_list (map (\<lambda>(k, v). Suc (fuel_for v)) kvs))"
| "fuel_for v = 1"

definition number_ends :: "string \<Rightarrow> bool" where
  "number_ends s = (s = [] \<or> \<not> number_char (hd s))"

lemma skip_space_simps [simp]:
  "skip_space [] = []" "skip_space (CHR '' '' # s) = skip_space s" "\<not> json_space c \<Longrightarrow> skip_space (c # s) = c # s"
  by (simp_all add: skip_space_def json_space_def)

lemma parse_value_space [simp]: "parse_value n fr (CHR '' '' # s) = parse_value n fr s"
  by (cases n) simp_all

lemma parse_members_space [simp]: "parse_members n fr (CHR '' '' # s) = parse_members n fr s"
  by (cases n) simp_all

lemma parse_items_space [simp]: "parse_items n fr (CHR '' '' # s) = parse_items n fr s"
  by (cases n) simp_all

lemma number_head: "number_char c \<Longrightarrow> c \<notin> {CHR 0x22, CHR ''['', CHR ''{'', CHR ''n'', CHR ''t'', CHR ''f''} \<and> \<not> json_space c"
  by (auto simp: number_char_def is_digit_def chr_in_def json_space_def)

lemma take_number:
  assumes "list_all number_char t" "number_ends s"
  shows "takeWhile number_char (t @ s) = t" "dropWhile number_char (t @ s) = s"
  using assms by (cases s; simp add: number_ends_def list_all_iff takeWhile_append dropWhile_append)+

lemma word_head: "c \<notin> {CHR ''n'', CHR ''t'', CHR ''f''} \<Longrightarrow>
  \<not> starts_with ''null'' (c # r) \<and> \<not> starts_with ''true'' (c # r) \<and> \<not> starts_with ''false'' (c # r)"
  by auto

lemma parse_number_text:
  assumes "list_all number_char t" "t \<noteq> []" "number_ends s" "parse_number fr t = Some v" "0 < n"
  shows "parse_value n fr (t @ s) = Some (v, s)"
proof -
  obtain m where n: "n = Suc m" using assms(5) by (cases n) auto
  obtain c t' where t: "t = c # t'" using assms(2) by (cases t) auto
  have head: "c \<notin> {CHR 0x22, CHR ''['', CHR ''{'', CHR ''n'', CHR ''t'', CHR ''f''}" "\<not> json_space c"
    using number_head [of c] assms(1) t by simp_all
  have "c \<notin> {CHR ''n'', CHR ''t'', CHR ''f''}" using head(1) by simp
  note words = word_head [OF this, of "t' @ s"]
  show ?thesis
    using head words take_number [OF assms(1,3)] assms(4) unfolding n t
    by (simp add: not_sym [of c] del: starts_with.simps)
qed

definition read_back :: "(rat \<Rightarrow> string) \<Rightarrow> (string \<Rightarrow> rat option) \<Rightarrow> json \<Rightarrow> bool" where
  "read_back fl fr v \<longleftrightarrow> (\<forall>n s. fuel_for v \<le> n \<longrightarrow> number_ends s \<longrightarrow> parse_value n fr (dumps_plain fl v @ s) = Some (v, s))"

lemma read_backD: "read_back fl fr v \<Longrightarrow> fuel_for v \<le> n \<Longrightarrow> number_ends s \<Longrightarrow> parse_value n fr (dumps_plain fl v @ s) = Some (v, s)"
  by (simp add: read_back_def)

lemma number_ends_mark: "number_ends (CHR '','' # s)" "number_ends (CHR '']'' # s)" "number_ends (CHR ''}'' # s)"
  by (simp_all add: number_ends_def number_char_def is_digit_def chr_in_def)

lemma not_space: "\<not> json_space (CHR '','')" "\<not> json_space (CHR '']'')" "\<not> json_space (CHR ''}'')" "\<not> json_space (CHR 0x22)"
  "\<not> json_space (CHR '':'')" "\<not> json_space (CHR ''['')" "\<not> json_space (CHR ''{'')"
  "\<not> json_space (CHR ''n'')" "\<not> json_space (CHR ''t'')" "\<not> json_space (CHR ''f'')"
  by (simp_all add: json_space_def)

lemma items_read:
  assumes "\<forall>v\<in>set vs. read_back fl fr v" "vs \<noteq> []" "sum_list (map (\<lambda>v. Suc (fuel_for v)) vs) \<le> n"
  shows "parse_items n fr (join '', '' (map (dumps_plain fl) vs) @ CHR '']'' # s) = Some (vs, s)"
  using assms
proof (induction vs arbitrary: n)
  case (Cons v vs)
  obtain m where n: "n = Suc m" using Cons.prems(3) by (cases n) auto
  show ?case
  proof (cases vs)
    case Nil
    have "parse_value m fr (dumps_plain fl v @ CHR '']'' # s) = Some (v, CHR '']'' # s)"
      using Cons.prems n by (intro read_backD number_ends_mark) auto
    then show ?thesis by (simp add: n Nil not_space)
  next
    case (Cons w ws)
    let ?rest = "join '', '' (map (dumps_plain fl) vs) @ CHR '']'' # s"
    have "parse_value m fr (dumps_plain fl v @ CHR '','' # CHR '' '' # ?rest) = Some (v, CHR '','' # CHR '' '' # ?rest)"
      using Cons.prems n by (intro read_backD number_ends_mark) auto
    moreover have "parse_items m fr ?rest = Some (vs, s)" using Cons.prems n Cons by (intro Cons.IH) auto
    ultimately show ?thesis by (simp add: n Cons not_space)
  qed
qed simp

lemma members_read:
  assumes "\<forall>(k, v)\<in>set kvs. read_back fl fr v" "kvs \<noteq> []" "sum_list (map (\<lambda>(k, v). Suc (fuel_for v)) kvs) \<le> n"
  shows "parse_members n fr (join '', '' (map (\<lambda>(k, v). json_str k @ '': '' @ dumps_plain fl v) kvs) @ CHR ''}'' # s) = Some (kvs, s)"
  using assms
proof (induction kvs arbitrary: n)
  case (Cons x kvs)
  obtain k v where x: "x = (k, v)" by (cases x)
  obtain m where n: "n = Suc m" using Cons.prems(3) x by (cases n) auto
  show ?case
  proof (cases kvs)
    case Nil
    have "parse_value m fr (dumps_plain fl v @ CHR ''}'' # s) = Some (v, CHR ''}'' # s)"
      using Cons.prems n x by (intro read_backD number_ends_mark) auto
    then show ?thesis by (simp add: n Nil x json_str_def json_str_read not_space)
  next
    case (Cons y ys)
    let ?rest = "join '', '' (map (\<lambda>(k, v). json_str k @ '': '' @ dumps_plain fl v) kvs) @ CHR ''}'' # s"
    have "parse_value m fr (dumps_plain fl v @ CHR '','' # CHR '' '' # ?rest) = Some (v, CHR '','' # CHR '' '' # ?rest)"
      using Cons.prems n x by (intro read_backD number_ends_mark) auto
    moreover have "parse_members m fr ?rest = Some (kvs, s)" using Cons.prems n x Cons by (intro Cons.IH) auto
    ultimately show ?thesis by (simp add: n Cons x json_str_def json_str_read not_space)
  qed
qed simp

section \<open>Every readable value is read back\<close>

lemma read_back_number:
  "list_all number_char t \<Longrightarrow> t \<noteq> [] \<Longrightarrow> parse_number fr t = Some v \<Longrightarrow> dumps_plain fl v = t \<Longrightarrow> fuel_for v = 1
     \<Longrightarrow> read_back fl fr v"
  unfolding read_back_def by (intro allI impI) (simp add: parse_number_text)

lemma dump_head: 
  "readable fl fr v \<Longrightarrow> \<exists>c r. dumps_plain fl v = c # r \<and> c \<noteq> CHR '']'' \<and> c \<noteq> CHR ''}'' \<and> \<not> json_space c"
proof (cases v)
  case (JInt i)
  obtain c r where t: "int_text i = c # r" using int_text_chars(2) by (cases "int_text i") auto
  then have "number_char c" using int_text_chars(1) [of i] by simp
  then show ?thesis using t JInt by (auto simp: number_char_def is_digit_def chr_in_def json_space_def)
next
  case (JFloat x)
  assume "readable fl fr v"
  then obtain c r where t: "fl x = c # r" "number_char c" using JFloat by (cases "fl x") auto
  then show ?thesis using JFloat by (auto simp: number_char_def is_digit_def chr_in_def json_space_def)
qed (auto simp: json_str_def json_space_def)

lemma read_back_list:
  assumes "\<forall>v\<in>set vs. read_back fl fr v" "list_all (readable fl fr) vs"
  shows "read_back fl fr (JList vs)"
  unfolding read_back_def
proof (intro allI impI)
  fix n s
  assume n: "fuel_for (JList vs) \<le> n"
  then obtain m where m: "n = Suc m" "sum_list (map (\<lambda>v. Suc (fuel_for v)) vs) \<le> m" by (cases n) auto
  show "parse_value n fr (dumps_plain fl (JList vs) @ s) = Some (JList vs, s)"
  proof (cases vs)
    case Nil
    then show ?thesis by (simp add: m not_space)
  next
    case (Cons v ws)
    obtain c r where h: "dumps_plain fl v = c # r" "c \<noteq> CHR '']''" "\<not> json_space c"
      using dump_head [of fl fr v] assms(2) Cons by auto
    let ?body = "join '', '' (map (dumps_plain fl) vs)"
    obtain r' where b: "?body = c # r'" using h Cons by (cases ws) auto
    have "parse_items m fr (?body @ CHR '']'' # s) = Some (vs, s)" using assms(1) m Cons by (intro items_read) auto
    then have "parse_items m fr (c # r' @ CHR '']'' # s) = Some (vs, s)" unfolding b by simp
    then show ?thesis using h by (simp add: m b not_space del: list.map join.simps)
  qed
qed

lemma dict_merge_snoc: "distinct (map fst (a @ b)) \<Longrightarrow> dict_merge a b = a @ b"
proof (induction b arbitrary: a)
  case (Cons x b)
  have "dict_put (fst x) (snd x) a = a @ [x]" unfolding dict_put_def
    using Cons.prems by (induction a) (auto split: prod.split)
  then show ?case using Cons by (cases x) simp
qed simp

lemma read_back_object:
  assumes "\<forall>(k, v)\<in>set kvs. read_back fl fr v" "distinct (map fst kvs)"
  shows "read_back fl fr (JObj kvs)"
  unfolding read_back_def
proof (intro allI impI)
  fix n s
  assume n: "fuel_for (JObj kvs) \<le> n"
  then obtain m where m: "n = Suc m" "sum_list (map (\<lambda>(k, v). Suc (fuel_for v)) kvs) \<le> m" by (cases n) auto
  show "parse_value n fr (dumps_plain fl (JObj kvs) @ s) = Some (JObj kvs, s)"
  proof (cases kvs)
    case Nil
    then show ?thesis by (simp add: m not_space)
  next
    case (Cons x ys)
    let ?body = "join '', '' (map (\<lambda>(k, v). json_str k @ '': '' @ dumps_plain fl v) kvs)"
    obtain r' where b: "?body = CHR 0x22 # r'" using Cons by (cases ys; cases x) (auto simp: json_str_def)
    have "parse_members m fr (?body @ CHR ''}'' # s) = Some (kvs, s)" using assms(1) m Cons by (intro members_read) auto
    then have "parse_members m fr (CHR 0x22 # r' @ CHR ''}'' # s) = Some (kvs, s)" unfolding b by simp
    moreover have "dumps_plain fl (JObj kvs) @ s = CHR ''{'' # ?body @ CHR ''}'' # s" by simp
    ultimately show ?thesis unfolding b by (simp add: m not_space dict_merge_snoc [of "[]" kvs, simplified, OF assms(2)] del: list.map join.simps)
  qed
qed

lemma readable_read_back: "readable fl fr v \<Longrightarrow> read_back fl fr v"
proof (induction v)
  case (JInt i)
  show ?case by (rule read_back_number [OF int_text_chars parse_int_text]) simp_all
next
  case (JFloat x)
  then show ?case by (intro read_back_number [of "fl x"]) (simp_all add: parse_number_def)
next
  case (JList vs)
  then show ?case by (intro read_back_list) (auto simp: list_all_iff)
next
  case (JObj kvs)
  then show ?case by (intro read_back_object) (auto simp: list_all_iff)
qed (auto simp: read_back_def json_str_def json_str_read not_space Suc_le_eq gr0_conv_Suc)

section \<open>The fuel is enough\<close>

lemma fuel_number: "t \<noteq> [] \<Longrightarrow> Suc 0 \<le> length t"
  by (cases t) auto

lemma fuel_list: "\<forall>v\<in>set vs. fuel_for v \<le> length (dumps_plain fl v) \<Longrightarrow>
  sum_list (map (\<lambda>v. Suc (fuel_for v)) vs) \<le> Suc (length (join '', '' (map (dumps_plain fl) vs)))"
proof (induction vs)
  case (Cons v vs)
  then show ?case by (cases vs) auto
qed simp

lemma fuel_object: "\<forall>(k, v)\<in>set kvs. fuel_for v \<le> length (dumps_plain fl v) \<Longrightarrow>
  sum_list (map (\<lambda>(k, v). Suc (fuel_for v)) kvs)
    \<le> Suc (length (join '', '' (map (\<lambda>(k, v). json_str k @ '': '' @ dumps_plain fl v) kvs)))"
proof (induction kvs)
  case (Cons x kvs)
  then show ?case by (cases kvs) auto
qed simp

lemma fuel_enough: "readable fl fr v \<Longrightarrow> fuel_for v \<le> length (dumps_plain fl v)"
proof (induction v)
  case (JList vs)
  then show ?case using fuel_list [of vs fl] by (auto simp: list_all_iff)
next
  case (JObj kvs)
  then have "\<forall>(k, v)\<in>set kvs. fuel_for v \<le> length (dumps_plain fl v)" by (auto simp: list_all_iff)
  then show ?case using fuel_object [of kvs fl] by simp
qed (use int_text_chars(2) fuel_number in \<open>auto simp: json_str_def\<close>)

section \<open>The stores read back what they wrote\<close>

lemma loads_dumps_plain: "readable fl fr v \<Longrightarrow> loads fr (dumps_plain fl v) = Inr v"
proof -
  assume r: "readable fl fr v"
  have "fuel_for v \<le> Suc (length (dumps_plain fl v))" using fuel_enough [OF r] by simp
  from read_backD [OF readable_read_back [OF r] this, of "[]"]
  have "parse_value (Suc (length (dumps_plain fl v))) fr (dumps_plain fl v) = Some (v, [])"
    by (simp add: number_ends_def)
  then show "loads fr (dumps_plain fl v) = Inr v" by (simp add: loads_def)
qed

text \<open>C40: A value written by \<open>encode\<close> and read by \<open>json.loads\<close> is the value that was written, at every nesting and
  with every escape, as long as the keys of its objects are distinct (a Python dict has no others) and the text of
  each float reads back as the float.\<close>

theorem stored_values_roundtrip:
  assumes "readable fl fr v"
  shows "loads fr (encode fl v) = Inr v"
  using loads_dumps_plain [OF assms] by (simp add: encode_def)

lemma stored_values_roundtrip_witness:
  "loads (\<lambda>t. if t = ''0.5'' then Some (1/2) else None)
     (encode (\<lambda>x. ''0.5'')
       (JObj [(''a'', JList [JInt (-12), JFloat (1/2), JNull]), (''say'', JStr [CHR 0x22, CHR 0x0A, CHR ''x'']), (''b'', JObj [])]))
   = Inr (JObj [(''a'', JList [JInt (-12), JFloat (1/2), JNull]), (''say'', JStr [CHR 0x22, CHR 0x0A, CHR ''x'']), (''b'', JObj [])])"
  by (rule stored_values_roundtrip) (simp add: number_char_def is_digit_def chr_in_def nat_literal_def)

end
