(* ===== verification/Worker_Model.thy ===== *)
theory Worker_Model
  imports Agent_Runs Evidence Context_Harness Json_Text Tasks
begin

text \<open>
  \<open>server/agent/specialized_agents.py\<close>, the parts a worker is made of: the model it calls, whose calls are
  counted and bounded before they are made, the tools it may use, and its progress.  What a model or a tool
  answers is an input.  The text of a prompt is an input too: only its size and its secrets matter here.
\<close>

section \<open>The bounded model\<close>

record bounded_model =
  bm_run :: ident
  bm_limit :: int
  bm_iteration_limit :: int      \<comment> \<open>0 stands for none\<close>
  bm_harness :: context_harness
  bm_estimate :: "message list \<Rightarrow> int"
  bm_float :: "rat \<Rightarrow> string"
  bm_secrets :: "string list"

definition phase_names :: "(string \<times> string) list" where
  "phase_names = [(''VerificationResult'', ''grounding''), (''MemoryCandidates'', ''memory''),
     (''SupervisorPlan'', ''supervisor_plan''), (''OrchestrationDecision'', ''router''),
     (''ReviewerResult'', ''reviewer''), (''AgentWorkPlan'', ''worker_plan''), (''GeneratedCode'', ''analysis_code'')]"

definition phase_of :: "string option \<Rightarrow> string \<Rightarrow> string" where
  \<comment> \<open>of a schema's name and the phase given by the caller\<close>
  "phase_of schema given = (if given \<noteq> [] then given
     else dict_get phase_names (case schema of None \<Rightarrow> [] | Some s \<Rightarrow> s)
       (if schema = None then ''final_synthesis'' else ''result_contract''))"

definition clean_message :: "string list \<Rightarrow> message \<Rightarrow> message" where
  "clean_message vs m = m\<lparr>m_content := clean vs (m_content m)\<rparr>"

definition measurement :: "string \<Rightarrow> context_report \<Rightarrow> json" where
  "measurement phase r = JObj [(''phase'', JStr phase), (''before'', JInt (cr_before r)), (''after'', JInt (cr_after r)),
     (''method'', JStr ''ContextHarness count_tokens_approximately; estimate, not provider usage'')]"

definition add_measurement ::
  "string list \<Rightarrow> ident \<Rightarrow> string \<Rightarrow> context_report \<Rightarrow> agents_db \<Rightarrow> agents_db \<times> unit result" where
  "add_measurement vs i phase rep db =
     sbind (db, get_run db i) (\<lambda>r db.
       let old = (case map_of (ar_notes r) ''context_measurements'' of Some (JList ms) \<Rightarrow> ms | _ \<Rightarrow> [])
       in sbind (update_supervisor vs i [(''context_measurements'', JList (old @ [measurement phase rep]))] None db)
            (\<lambda>_ db. (db, Inr ())))"

text \<open>
  A call to the model: what it is asked, what the provider answers (its usage, and the parsed value unless it
  could not be parsed or is not valid for the schema), and whether the answer carries no secret.
\<close>

record 'a model_call =
  mc_now :: time
  mc_prompt :: "message list"
  mc_provider :: "message list \<Rightarrow> (usage option \<times> 'a option) result"
  mc_safe :: "'a \<Rightarrow> bool"

definition bounded_invoke ::
  "bounded_model \<Rightarrow> string option \<Rightarrow> string \<Rightarrow> 'a model_call \<Rightarrow> agents_db \<Rightarrow> agents_db \<times> 'a result" where
  "bounded_invoke m schema given c db =
     (let vs = bm_secrets m; phase = phase_of schema given in
      sbind (reserve_llm vs (mc_now c) (bm_run m) (bm_limit m) (bm_iteration_limit m) phase db) (\<lambda>_ db.
      sbind (db, prepare (bm_float m) (bm_harness m) (bm_estimate m) (map (clean_message vs) (mc_prompt c))) (\<lambda>p db.
      sbind (add_measurement vs (bm_run m) phase (pc_report p) db) (\<lambda>_ db.
      sbind (db, mc_provider c (pc_messages p)) (\<lambda>(reported, answer) db.
      sbind (add_usage vs (bm_run m) reported db) (\<lambda>_ db.
        case answer of
          None \<Rightarrow> (db, Inl (Value_Error ''Structured agent output invalid''))
        | Some a \<Rightarrow>
            if schema \<noteq> None \<and> \<not> mc_safe c a
            then (db, Inl (Value_Error ''Secret-bearing tool arguments are prohibited''))
            else (db, Inr a)))))))"

section \<open>The tools of a worker\<close>

definition workspace_capabilities :: "string list" where
  "workspace_capabilities = [''workspace.search'', ''document.search'', ''dataset.inspect'', ''data.analyze'']"

definition local_searches :: "string list" where
  "local_searches = [''workspace.search'', ''document.search'']"

definition tool_allowed :: "delegation_request \<Rightarrow> tool \<Rightarrow> bool" where
  "tool_allowed q t =
     (tl_capability t \<in> set (dq_allowed_tools q)
      \<and> \<not> (dc_scope (dq_context q) = Scope_workspace \<and> tl_capability t \<notin> set workspace_capabilities)
      \<and> \<not> (dc_scope (dq_context q) = Scope_external \<and> tl_capability t \<in> set local_searches)
      \<and> \<not> (tl_operation t \<noteq> Op_read \<and> \<not> (dq_agent_id q = ''data'' \<and> tl_capability t = ''data.analyze'')))"

definition allowed_tools :: "delegation_request \<Rightarrow> (string, tool) dict \<Rightarrow> tool list" where
  "allowed_tools q tools = filter (tool_allowed q) (list_tools tools True)"

section \<open>Progress\<close>

record work_output =
  wo_capability :: string
  wo_tool_execution :: "ident option"
  wo_execution :: "ident option"
  wo_summary :: string
  wo_success :: bool

record work_progress =
  wg_plan :: "agent_tool_call list option"
  wg_cursor :: nat
  wg_active :: "(nat \<times> string) option"
  wg_evidence :: "evidence list"
  wg_artifacts :: "(string, json) dict list"
  wg_outputs :: "work_output list"
  wg_errors :: "string list"
  wg_analysis :: "(ident \<times> (string, json) dict) option"

definition initial_progress :: work_progress where
  "initial_progress = \<lparr>wg_plan = None, wg_cursor = 0, wg_active = None, wg_evidence = [], wg_artifacts = [],
     wg_outputs = [], wg_errors = [], wg_analysis = None\<rparr>"

definition clean_evidence :: "string list \<Rightarrow> evidence \<Rightarrow> evidence" where
  "clean_evidence vs e = e\<lparr>ev_content := clean_text vs (ev_content e), ev_title := map_option (clean_text vs) (ev_title e),
     ev_url := map_option (clean_text vs) (ev_url e), ev_metadata := clean_entries vs (ev_metadata e)\<rparr>"

definition clean_progress :: "string list \<Rightarrow> work_progress \<Rightarrow> work_progress" where
  \<comment> \<open>what a saved run keeps; the arguments of a plan hold no secret when it is accepted\<close>
  "clean_progress vs p = p\<lparr>wg_evidence := map (clean_evidence vs) (wg_evidence p),
     wg_artifacts := map (clean_entries vs) (wg_artifacts p),
     wg_outputs := map (\<lambda>w. w\<lparr>wo_summary := clean_text vs (wo_summary w)\<rparr>) (wg_outputs p),
     wg_errors := map (clean_text vs) (wg_errors p),
     wg_analysis := map_option (\<lambda>(i, m). (i, clean_entries vs m)) (wg_analysis p)\<rparr>"

section \<open>Boundaries\<close>

definition boundary :: "delegation_request \<Rightarrow> bool \<Rightarrow> task_status result \<Rightarrow> unit result" where
  \<comment> \<open>\<open>expired\<close>: the deadline has passed; the status is that of the delegation's task\<close>
  "boundary q expired status =
     (if expired then Inl (Timeout_Error ''Agent time budget exhausted'')
      else if truthy (dq_task_id q)
      then rbind status (\<lambda>t. guard (t \<in> {RUNNING, WAITING_USER}) (Delegation_Rejected ''Task is no longer running''))
      else Inr ())"

end
