(* ===== verification/Specialized_Agent.thy ===== *)
theory Specialized_Agent
  imports Worker_Model Orchestration
begin

text \<open>
  \<open>SpecializedAgent\<close> of \<open>server/agent/specialized_agents.py\<close>: a worker prepares, plans, works through the
  plan one tool call at a time, and reports under its contract.  \<open>phase4.execute\<close> is an input: it answers,
  raises, or is interrupted until a person approves.  The calls that were made are kept in \<open>wl_calls\<close>,
  which the code does not have and no decision reads.
\<close>

section \<open>The worker\<close>

record worker =
  wk_request :: delegation_request
  wk_tools :: "(string, tool) dict"       \<comment> \<open>\<open>tool_snapshot\<close>\<close>
  wk_model :: bounded_model
  wk_efficiency :: bool                   \<comment> \<open>\<open>MULTI_AGENT_EFFICIENCY_ENABLED\<close>\<close>
  wk_documents :: "ident list"            \<comment> \<open>\<open>document_sources\<close>\<close>
  wk_selected :: "evidence list"

record worker_log =
  wl_agents :: agents_db
  wl_progress :: work_progress            \<comment> \<open>of the worker's own run\<close>
  wl_calls :: "(nat \<times> tool \<times> (string, json) dict) list"

definition catalog :: "worker \<Rightarrow> tool list" where
  "catalog w = allowed_tools (wk_request w) (wk_tools w)"

definition run_of :: "worker \<Rightarrow> ident" where
  "run_of w = bm_run (wk_model w)"

definition with_agents :: "(agents_db \<Rightarrow> agents_db \<times> 'a result) \<Rightarrow> worker_log \<Rightarrow> worker_log \<times> 'a result" where
  "with_agents f s = (case f (wl_agents s) of (db, r) \<Rightarrow> (s\<lparr>wl_agents := db\<rparr>, r))"

definition store_progress :: "worker \<Rightarrow> work_progress \<Rightarrow> worker_log \<Rightarrow> worker_log \<times> unit result" where
  "store_progress w p s = (case get_run (wl_agents s) (run_of w) of
     Inl e \<Rightarrow> (s, Inl e)
   | Inr r \<Rightarrow> (s\<lparr>wl_progress := clean_progress (bm_secrets (wk_model w)) p\<rparr>, Inr ()))"

definition stored_progress :: "worker \<Rightarrow> worker_log \<Rightarrow> worker_log \<times> work_progress result" where
  "stored_progress w s = (s, rbind (get_run (wl_agents s) (run_of w)) (\<lambda>_. Inr (wl_progress s)))"

definition worker_prepare :: "worker \<Rightarrow> bool \<Rightarrow> task_status result \<Rightarrow> worker_log \<Rightarrow> worker_log \<times> work_progress result" where
  "worker_prepare w expired status s =
     sbind (s, boundary (wk_request w) expired status) (\<lambda>_ s. stored_progress w s)"

section \<open>Planning\<close>

definition step_limit :: "delegation_request \<Rightarrow> nat" where
  "step_limit q = min (dq_max_tool_calls q) (min (dq_max_iterations q) (if dq_agent_id q = ''coding'' then 3 else 2))"

definition worker_fallback :: "worker \<Rightarrow> agent_tool_call list" where
  "worker_fallback w =
     (let q = wk_request w; ids = JList (map JStr (dc_dataset_ids (dq_context q)));
          ask = (\<lambda>t. [\<lparr>ac_capability = tl_capability t, ac_arguments = [(''query'', JStr (dq_objective q))]\<rparr>]) in
      if dq_agent_id q = ''data''
      then [\<lparr>ac_capability = ''dataset.inspect'', ac_arguments = [(''dataset_ids'', ids)]\<rparr>,
            \<lparr>ac_capability = ''data.analyze'', ac_arguments = [(''dataset_ids'', ids), (''objective'', JStr (dq_objective q))]\<rparr>]
      else case find (\<lambda>t. tl_capability t \<in> set local_searches) (catalog w) of
        Some t \<Rightarrow> ask t
      | None \<Rightarrow> (case find (\<lambda>t. tl_capability t \<in> {''web.search'', ''arxiv.search''}) (catalog w) of
          Some t \<Rightarrow> ask t | None \<Rightarrow> []))"

definition fast_rx :: rx where
  "fast_rx = Alts [Seq (Lit ''.'') (ILit ''xlsx''), ILit ''three uploaded papers'', ILit ''requested papers/documents'']"

definition supplementary :: "delegation_request \<Rightarrow> bool" where
  "supplementary q = (case dq_supplementary q of None \<Rightarrow> False | Some d \<Rightarrow> d \<noteq> [])"

definition fast :: "worker \<Rightarrow> bool" where
  "fast w = (wk_efficiency w \<and> (supplementary (wk_request w) \<or> found fast_rx (dq_objective (wk_request w))))"

definition target_documents :: "delegation_request \<Rightarrow> ident list result" where
  "target_documents q = (case dq_supplementary q of
     None \<Rightarrow> Inl Type_Error
   | Some d \<Rightarrow> (case map_of d ''target_sources'' of
       None \<Rightarrow> Inl (Key_Error ''target_sources'')
     | Some (JList vs) \<Rightarrow> (case strings_of vs of None \<Rightarrow> Inl Type_Error | Some ids \<Rightarrow> Inr ids)
     | Some _ \<Rightarrow> Inl Type_Error))"

definition aim_step :: "ident list \<Rightarrow> ident list \<Rightarrow> agent_tool_call \<Rightarrow> agent_tool_call result" where
  "aim_step known targets a =
     (if ac_capability a = ''workspace.search'' \<and> targets \<noteq> []
      then if \<not> set targets \<subseteq> set known then Inl (Delegation_Rejected ''Unknown supplemental document'')
           else Inr (a\<lparr>ac_arguments := dict_put ''document_ids'' (JList (map JStr targets)) (ac_arguments a)\<rparr>)
      else Inr a)"

definition propose_plan ::
  "worker \<Rightarrow> agent_tool_call list model_call \<Rightarrow> worker_log \<Rightarrow> worker_log \<times> agent_tool_call list" where
  \<comment> \<open>the \<open>try\<close> block of \<open>plan\<close>: whatever raises leaves the fallback\<close>
  "propose_plan w c s =
     (let q = wk_request w in
      case (if fast w \<and> dq_agent_id q \<in> {''research'', ''data''} then (s, Inr (worker_fallback w))
            else with_agents (bounded_invoke (wk_model w) (Some ''AgentWorkPlan'') [] c) s) of
        (s', Inl e) \<Rightarrow> (s', worker_fallback w)
      | (s', Inr proposed) \<Rightarrow>
          (s', if fast w \<and> dq_agent_id q = ''data'' \<and> contains ''Repair only the structured result contract'' (dq_objective q)
               then []
               else if fast w \<and> dq_agent_id q = ''research'' \<and> supplementary q
               then (case rbind (target_documents q) (\<lambda>ids. rmap (aim_step (wk_documents w) ids) proposed) of
                       Inl e \<Rightarrow> worker_fallback w | Inr p \<Rightarrow> p)
               else proposed))"

definition unique_steps :: "(rat \<Rightarrow> string) \<Rightarrow> agent_tool_call list \<Rightarrow> agent_tool_call list" where
  \<comment> \<open>one step for equal capability and arguments, whatever the order of the keys\<close>
  "unique_steps fl todo = map snd (dict_merge [] (map (\<lambda>a. ((ac_capability a, dumps fl (JObj (ac_arguments a))), a)) todo))"

definition ids_given :: "json \<Rightarrow> string list result" where
  \<comment> \<open>\<open>not ids or set(ids)\<close> of the argument: a text is the set of its characters, an object that of its keys\<close>
  "ids_given v = (case v of
     JNull \<Rightarrow> Inr [] | JBool b \<Rightarrow> if b then Inl Type_Error else Inr []
   | JInt i \<Rightarrow> if i = 0 then Inr [] else Inl Type_Error | JFloat x \<Rightarrow> if x = 0 then Inr [] else Inl Type_Error
   | JStr s \<Rightarrow> Inr (map (\<lambda>c. [c]) s) | JObj d \<Rightarrow> Inr (map fst d)
   | JList vs \<Rightarrow> (case strings_of vs of
       Some ids \<Rightarrow> Inr ids
     | None \<Rightarrow> if list_ex (\<lambda>v. case v of JList _ \<Rightarrow> True | JObj _ \<Rightarrow> True | _ \<Rightarrow> False) vs then Inl Type_Error
               else Inl (Delegation_Rejected ''Dataset outside delegation scope'')))"

definition check_step :: "worker \<Rightarrow> agent_tool_call \<Rightarrow> agent_tool_call result" where
  "check_step w a =
     (let context = dq_context (wk_request w); data = ac_capability a \<in> {''dataset.inspect'', ''data.analyze''};
          ids = dict_get (ac_arguments a) ''dataset_ids'' (JList (map JStr (dc_dataset_ids context)));
          args = (if data then dict_put ''dataset_ids'' ids (ac_arguments a) else ac_arguments a);
          args = (if ac_capability a = ''data.analyze'' then filter (\<lambda>(k, v). k \<noteq> ''code'') args else args) in
      rbind (guard (ac_capability a \<in> tl_capability ` set (catalog w))
          (Delegation_Rejected ''Worker requested a forbidden or unavailable tool'')) (\<lambda>_.
      rbind (if \<not> data then Inr () else rbind (ids_given ids) (\<lambda>given.
          guard (given \<noteq> [] \<and> set given \<subseteq> set (dc_dataset_ids context))
            (Delegation_Rejected ''Dataset outside delegation scope''))) (\<lambda>_.
      rbind (require_safe (bm_secrets (wk_model w)) (JObj args)) (\<lambda>_.
        Inr (a\<lparr>ac_arguments := args\<rparr>)))))"

definition settle_steps :: "worker \<Rightarrow> agent_tool_call list \<Rightarrow> agent_tool_call list result" where
  "settle_steps w proposed =
     (let limit = step_limit (wk_request w);
          proposed = (if limit < length proposed then worker_fallback w else proposed);
          todo = unique_steps (bm_float (wk_model w)) proposed in
      if limit < length todo then Inl (Delegation_Rejected ''Worker plan exceeds budget'')
      else rmap (check_step w) todo)"

definition worker_plan ::
  "worker \<Rightarrow> bool \<Rightarrow> task_status result \<Rightarrow> agent_tool_call list model_call \<Rightarrow> work_progress \<Rightarrow> worker_log \<Rightarrow>
   worker_log \<times> agent_tool_call list result" where
  "worker_plan w expired status c p s =
     sbind (s, boundary (wk_request w) expired status) (\<lambda>_ s.
       case wg_plan p of
         Some todo \<Rightarrow> (s, Inr todo)
       | None \<Rightarrow> (case propose_plan w c s of (s, proposed) \<Rightarrow>
           sbind (s, settle_steps w proposed) (\<lambda>todo s.
           sbind (stored_progress w s) (\<lambda>p s.
           sbind (store_progress w (p\<lparr>wg_plan := Some todo\<rparr>) s) (\<lambda>_ s. (s, Inr todo))))))"

section \<open>Working\<close>

record analysis_answer =
  an_status :: string
  an_error :: "string option"
  an_execution :: ident
  an_datasets :: "ident list"
  an_artifacts :: "(string, json) dict list"
  an_stdout :: string
  an_context :: json
  an_deterministic :: bool

text \<open>
  The structured content of a tool's answer: a dictionary with a list of evidence (\<open>None\<close> for an item that is
  not a valid one), the result of the data analysis, or any other value.
\<close>

datatype tool_data = Td_evidence "evidence option list" | Td_analysis analysis_answer | Td_other

record tool_answer =
  ta_success :: bool
  ta_data :: tool_data
  ta_value :: json                 \<comment> \<open>the structured content as a value\<close>
  ta_shown :: string               \<comment> \<open>its \<open>str\<close>\<close>
  ta_content :: json
  ta_error :: "string option"
  ta_id :: "ident option"          \<comment> \<open>\<open>metadata['tool_execution_id']\<close>\<close>

datatype tool_outcome = Tool_answered tool_answer | Tool_interrupted | Tool_raised py_error

record work_input =
  wi_now :: time
  wi_expired :: bool
  wi_status :: "task_status result"
  wi_outcome :: "tool \<Rightarrow> (string, json) dict \<Rightarrow> tool_outcome"
  wi_inner :: "unit model_call list"      \<comment> \<open>the calls for generated code that the analysis makes\<close>
  wi_expired_after :: bool
  wi_status_after :: "task_status result"

definition dashless :: "ident \<Rightarrow> ident" where
  "dashless i = filter (\<lambda>c. c \<noteq> CHR ''-'') i"

definition artifact_id :: "(string, json) dict \<Rightarrow> ident" where
  "artifact_id a = (case map_of a ''id'' of Some (JStr i) \<Rightarrow> i | _ \<Rightarrow> [])"

definition analysis_item :: "(rat \<Rightarrow> string) \<Rightarrow> analysis_answer \<Rightarrow> evidence" where
  "analysis_item fl a = (bare_evidence (''ev_'' @ dashless (an_execution a)) Src_analysis
       (dumps_plain fl (JObj [(''computed_output'', JStr (an_stdout a)), (''dataset_context'', an_context a)])))
     \<lparr>ev_execution_id := Some (an_execution a), ev_dataset_ids := an_datasets a,
      ev_artifact_ids := map artifact_id (an_artifacts a), ev_title := Some ''Dataset analysis''\<rparr>"

definition kept_arguments :: "(string, json) dict \<Rightarrow> (string, json) dict" where
  "kept_arguments args = filter (\<lambda>(k, v). k \<in> {''owner'', ''repo'', ''path'', ''ref'', ''sha'', ''issue_number'', ''pullNumber''}) args"

definition read_item ::
  "(rat \<Rightarrow> string) \<Rightarrow> delegation_request \<Rightarrow> tool \<Rightarrow> agent_tool_call \<Rightarrow> tool_answer \<Rightarrow> evidence list result" where
  "read_item fl q t a ans =
     (let remote = (tl_provider_type t = Mcp);
          content = (if remote \<and> \<not> json_truthy (ta_value ans) then ta_content ans else ta_value ans);
          metadata = (if remote then dict_merge (kept_arguments (ac_arguments a))
             [(''provider'', JStr (tl_provider t)), (''tool'', JStr (tl_name t))] else []);
          inspected = (ac_capability a = ''dataset.inspect'') in
      if \<not> json_truthy content then Inr []
      else case ta_id ans of
        None \<Rightarrow> Inl (Key_Error ''tool_execution_id'')
      | Some i \<Rightarrow>
          rbind (case ta_value ans of
              JObj d \<Rightarrow> optional_text (case map_of d ''html_url'' of None \<Rightarrow> map_of d ''url'' | Some v \<Rightarrow> Some v)
            | _ \<Rightarrow> Inr None) (\<lambda>url.
          Inr [(bare_evidence (''ev_'' @ dashless i)
              (if \<not> remote then Src_analysis else if tl_provider t = ''github'' then Src_github else Src_mcp)
              (take 16000 (dumps_plain fl (JObj [(''untrusted_data'', content)]))))
            \<lparr>ev_metadata := metadata, ev_execution_id := (if inspected then Some i else None),
             ev_dataset_ids := (if inspected then dc_dataset_ids (dq_context q) else []),
             ev_title := Some (tl_capability t), ev_url := url\<rparr>]))"

definition add_error :: "string \<Rightarrow> work_progress \<Rightarrow> work_progress" where
  "add_error e p = p\<lparr>wg_errors := wg_errors p @ [e]\<rparr>"

definition take_analysis ::
  "(rat \<Rightarrow> string) \<Rightarrow> (string \<Rightarrow> rat option) \<Rightarrow> analysis_answer \<Rightarrow> work_progress \<Rightarrow> work_progress" where
  "take_analysis fl fr a p =
     (let p = p\<lparr>wg_artifacts := wg_artifacts p @ an_artifacts a\<rparr> in
      if an_status a \<noteq> ''completed''
      then add_error (if truthy (an_error a) then the (an_error a) else ''AnalysisFailure'') p
      else p\<lparr>wg_evidence := wg_evidence p @ [analysis_item fl a],
             wg_analysis := (case loads fr (an_stdout a) of
               Inr (JObj metrics) \<Rightarrow> if an_deterministic a then Some (an_execution a, metrics) else wg_analysis p
             | _ \<Rightarrow> wg_analysis p)\<rparr>)"

definition take_answer ::
  "(rat \<Rightarrow> string) \<Rightarrow> (string \<Rightarrow> rat option) \<Rightarrow> delegation_request \<Rightarrow> tool \<Rightarrow> agent_tool_call \<Rightarrow> tool_answer \<Rightarrow> work_progress \<Rightarrow>
   work_progress result" where
  \<comment> \<open>the progress with what the answer adds, before the evidence is merged\<close>
  "take_answer fl fr q t a ans p =
     (if \<not> ta_success ans
      then Inr (add_error (if truthy (ta_error ans) then the (ta_error ans) else ''ToolFailure'') p)
      else case ta_data ans of
        Td_evidence items \<Rightarrow> rbind (rmap (\<lambda>x. case x of None \<Rightarrow> Inl (Provider_Error ''ValidationError'') | Some e \<Rightarrow> validate_evidence e) items)
          (\<lambda>es. Inr (p\<lparr>wg_evidence := wg_evidence p @ es\<rparr>))
      | Td_analysis an \<Rightarrow>
          if ac_capability a = ''data.analyze'' then Inr (take_analysis fl fr an p)
          else if tl_operation t = Op_read
          then rbind (read_item fl q t a ans) (\<lambda>es. Inr (p\<lparr>wg_evidence := wg_evidence p @ es\<rparr>))
          else Inr p
      | Td_other \<Rightarrow>
          if tl_operation t = Op_read
          then rbind (read_item fl q t a ans) (\<lambda>es. Inr (p\<lparr>wg_evidence := wg_evidence p @ es\<rparr>))
          else Inr p)"

definition execution_of :: "tool_answer \<Rightarrow> ident option" where
  \<comment> \<open>\<open>data.get('execution_id')\<close> of a dictionary\<close>
  "execution_of ans = (case ta_data ans of
     Td_analysis an \<Rightarrow> Some (an_execution an)
   | _ \<Rightarrow> (case ta_value ans of
       JObj d \<Rightarrow> (case map_of d ''execution_id'' of Some (JStr i) \<Rightarrow> Some i | _ \<Rightarrow> None) | _ \<Rightarrow> None))"

definition work_output :: "agent_tool_call \<Rightarrow> tool_answer \<Rightarrow> work_output" where
  "work_output a ans = \<lparr>wo_capability = ac_capability a, wo_tool_execution = ta_id ans,
     wo_execution = execution_of ans, wo_summary = take 1200 (ta_shown ans), wo_success = ta_success ans\<rparr>"

definition work_result ::
  "worker \<Rightarrow> (string \<Rightarrow> rat option) \<Rightarrow> tool \<Rightarrow> agent_tool_call \<Rightarrow> tool_answer \<Rightarrow> nat \<Rightarrow> work_progress \<Rightarrow> work_progress result" where
  "work_result w fr t a ans index p =
     rbind (take_answer (bm_float (wk_model w)) fr (wk_request w) t a ans p) (\<lambda>p'.
     rbind (merge_evidence_items [wg_evidence p']) (\<lambda>es.
       Inr (p'\<lparr>wg_cursor := Suc index, wg_active := None, wg_evidence := es,
         wg_outputs := wg_outputs p @ [work_output a ans]\<rparr>)))"

fun inner_calls :: "bounded_model \<Rightarrow> unit model_call list \<Rightarrow> agents_db \<Rightarrow> agents_db" where
  "inner_calls m [] db = db"
| "inner_calls m (c # cs) db = inner_calls m cs (fst (bounded_invoke m (Some ''GeneratedCode'') [] c db))"

definition tool_of :: "worker \<Rightarrow> agent_tool_call \<Rightarrow> tool option" where
  "tool_of w a = find (\<lambda>t. tl_capability t = ac_capability a) (catalog w)"

definition count_step :: "worker \<Rightarrow> time \<Rightarrow> worker_log \<Rightarrow> worker_log \<times> unit result" where
  "count_step w now s =
     (let vs = bm_secrets (wk_model w); q = wk_request w in
      sbind (with_agents (count_call vs now (run_of w) Call_iterations (int (dq_max_iterations q))) s) (\<lambda>_ s.
        with_agents (count_call vs now (run_of w) Call_tools (int (dq_max_tool_calls q))) s))"

definition make_call ::
  "worker \<Rightarrow> (string \<Rightarrow> rat option) \<Rightarrow> work_input \<Rightarrow> work_progress \<Rightarrow> tool \<Rightarrow> agent_tool_call \<Rightarrow> worker_log \<Rightarrow>
   worker_log \<times> work_progress result" where
  \<comment> \<open>from the call to the saved progress; \<open>p\<close> was read before the call was counted\<close>
  "make_call w fr i p t a s =
     (let s1 = s\<lparr>wl_agents := inner_calls (wk_model w) (wi_inner i) (wl_agents s)\<rparr>;
          made = s1\<lparr>wl_calls := wl_calls s1 @ [(wg_cursor p, t, ac_arguments a)]\<rparr> in
      case wi_outcome i t (ac_arguments a) of
        Tool_interrupted \<Rightarrow> sbind (stored_progress w s1) (\<lambda>now s.
          sbind (store_progress w (now\<lparr>wg_active := None\<rparr>) s) (\<lambda>_ s. (s, Inl Graph_Interrupt)))
      | Tool_raised e \<Rightarrow> (made, Inl e)
      | Tool_answered ans \<Rightarrow>
          sbind (made, boundary (wk_request w) (wi_expired_after i) (wi_status_after i)) (\<lambda>_ s.
          sbind (s, work_result w fr t a ans (wg_cursor p) p) (\<lambda>p' s.
          sbind (store_progress w p' s) (\<lambda>_ s. (s, Inr p')))))"

definition worker_work ::
  "worker \<Rightarrow> (string \<Rightarrow> rat option) \<Rightarrow> work_input \<Rightarrow> agent_tool_call list \<Rightarrow> worker_log \<Rightarrow> worker_log \<times> work_progress result" where
  "worker_work w fr i todo s =
     sbind (s, boundary (wk_request w) (wi_expired i) (wi_status i)) (\<lambda>_ s.
     sbind (stored_progress w s) (\<lambda>p s.
       if length todo \<le> wg_cursor p then (s, Inl Index_Error)
       else let a = todo ! wg_cursor p in
         case tool_of w a of
           None \<Rightarrow> (s, Inl (Delegation_Rejected ''Tool capability is not visible''))
         | Some t \<Rightarrow>
             if wg_active p \<noteq> None \<and> tl_operation t \<noteq> Op_read
             then (s, Inl (Delegation_Rejected ''Interrupted execution outcome requires reconciliation''))
             else sbind (count_step w (wi_now i) s) (\<lambda>_ s.
               sbind (stored_progress w s) (\<lambda>now s.
               sbind (store_progress w (now\<lparr>wg_active := Some (wg_cursor p, ac_capability a)\<rparr>) s) (\<lambda>_ s.
                 make_call w fr i p t a s)))))"

end
