(* ===== verification/Agent_Worker.thy ===== *)
theory Agent_Worker
  imports Specialized_Agent
begin

text \<open>
  The contract a worker reports under, its graph, and \<open>agent_worker\<close> of \<open>server/agent/orchestration.py\<close>,
  which runs a delegation from the check of its request to its stored result.  The graph's recursion limit
  is the fuel of the loop.  Workers are research, data and coding agents: the reviewer answers inside the
  supervisor's graph and never as a worker.
\<close>

section \<open>Contracts\<close>

record code_finding = finding +
  cf_file :: "string option"
  cf_severity :: level

record proposed_change =
  pg_file :: string
  pg_description :: string
  pg_patch :: string
  pg_evidence_ids :: "ident list"

record worker_payload =
  py_delegation :: ident
  py_status :: result_status              \<comment> \<open>completed, partial or failed\<close>
  py_summary :: string
  py_findings :: "finding list"
  py_evidence :: "ident list"
  py_questions :: "string list"
  py_confidence :: rat
  py_metrics :: "(string, json) dict"
  py_artifacts :: "ident list"
  py_executions :: "ident list"
  py_files :: "string list"
  py_code :: "code_finding list"
  py_changes :: "proposed_change list"

definition payload_valid :: "worker_payload \<Rightarrow> bool" where
  "payload_valid p = (py_status p \<noteq> Rs_cancelled \<and> 0 \<le> py_confidence p \<and> py_confidence p \<le> 1)"

definition contract_name :: "ident \<Rightarrow> string option" where
  "contract_name = map_of [(''research'', ''ResearchAgentResult''), (''data'', ''DataAgentResult''), (''coding'', ''CodingAgentResult'')]"

definition ids_json :: "string list \<Rightarrow> json" where
  "ids_json ids = JList (map JStr ids)"

definition finding_entries :: "'a finding_scheme \<Rightarrow> (string, json) dict" where
  "finding_entries f = [(''claim'', JStr (fi_claim f)), (''evidence_ids'', ids_json (fi_evidence_ids f)),
     (''confidence'', JFloat (fi_confidence f))]"

definition severity_name :: "level \<Rightarrow> string" where
  "severity_name l = (case l of Lv_low \<Rightarrow> ''low'' | Lv_medium \<Rightarrow> ''medium'' | Lv_high \<Rightarrow> ''high'')"

definition code_finding_entries :: "code_finding \<Rightarrow> (string, json) dict" where
  "code_finding_entries f = finding_entries f @ [(''file'', case cf_file f of None \<Rightarrow> JNull | Some s \<Rightarrow> JStr s),
     (''severity'', JStr (severity_name (cf_severity f)))]"

definition change_entries :: "proposed_change \<Rightarrow> (string, json) dict" where
  "change_entries c = [(''file'', JStr (pg_file c)), (''description'', JStr (pg_description c)),
     (''patch_proposal'', JStr (pg_patch c)), (''evidence_ids'', ids_json (pg_evidence_ids c))]"

definition status_name :: "result_status \<Rightarrow> string" where
  "status_name s = (case s of Rs_completed \<Rightarrow> ''completed'' | Rs_partial \<Rightarrow> ''partial'' | Rs_failed \<Rightarrow> ''failed''
     | Rs_cancelled \<Rightarrow> ''cancelled'')"

definition payload_entries :: "ident \<Rightarrow> worker_payload \<Rightarrow> (string, json) dict" where
  \<comment> \<open>\<open>payload.model_dump()\<close> of the agent's contract\<close>
  "payload_entries agent p =
     [(''delegation_id'', JStr (py_delegation p)), (''status'', JStr (status_name (py_status p))),
      (''summary'', JStr (py_summary p)), (''findings'', JList (map (\<lambda>f. JObj (finding_entries f)) (py_findings p))),
      (''evidence_ids'', ids_json (py_evidence p)), (''unresolved_questions'', ids_json (py_questions p)),
      (''confidence'', JFloat (py_confidence p))]
     @ (if agent = ''data'' then [(''metrics'', JObj (py_metrics p)), (''artifact_ids'', ids_json (py_artifacts p)),
          (''execution_ids'', ids_json (py_executions p))]
        else if agent = ''coding'' then [(''files_examined'', ids_json (py_files p)),
          (''code_findings'', JList (map (\<lambda>f. JObj (code_finding_entries f)) (py_code p))),
          (''proposed_changes'', JList (map (\<lambda>c. JObj (change_entries c)) (py_changes p)))]
        else [])"

section \<open>What was collected\<close>

definition collected :: "worker \<Rightarrow> work_progress \<Rightarrow> (ident, evidence) dict" where
  "collected w p = dict_merge [] (map (\<lambda>e. (Evidence.ev_id e, e)) (wk_selected w @ wg_evidence p))"

definition collected_artifacts :: "work_progress \<Rightarrow> (ident, (string, json) dict) dict" where
  "collected_artifacts p = dict_merge [] (map (\<lambda>a. (artifact_id a, a)) (wg_artifacts p))"

definition executions_of :: "work_progress \<Rightarrow> ident list" where
  "executions_of p = concat (map (\<lambda>w. if truthy (wo_execution w) then [the (wo_execution w)] else []) (wg_outputs p))"

definition references_of :: "ident \<Rightarrow> worker_payload \<Rightarrow> ident list" where
  "references_of agent p = py_evidence p @ concat (map fi_evidence_ids (py_findings p))
     @ (if agent = ''coding'' then concat (map fi_evidence_ids (py_code p)) @ concat (map pg_evidence_ids (py_changes p)) else [])"

definition file_examined :: "(ident, evidence) dict \<Rightarrow> string \<Rightarrow> bool" where
  "file_examined es f = list_ex (\<lambda>(i, e). map_of (ev_metadata e) ''path'' = Some (JStr f)) es"

definition check_payload :: "worker \<Rightarrow> work_progress \<Rightarrow> worker_payload \<Rightarrow> worker_payload result" where
  "check_payload w p x =
     (let q = wk_request w; es = collected w p; agent = dq_agent_id q in
      if \<not> payload_valid x then Inl (Provider_Error ''ValidationError'')
      else if py_delegation x \<noteq> dq_id q then Inl (Value_Error ''Worker result identity mismatch'')
      else if \<not> set (references_of agent x) \<subseteq> fst ` set es
        \<or> agent = ''data'' \<and> \<not> set (py_artifacts x) \<subseteq> fst ` set (collected_artifacts p)
      then Inl (Value_Error ''Worker fabricated output references'')
      else if agent = ''coding'' \<and> \<not> list_all (file_examined es) (py_files x)
      then Inl (Value_Error ''Worker claimed to examine an unread file'')
      else Inr x)"

section \<open>Reporting\<close>

definition error_name :: "py_error \<Rightarrow> string" where
  "error_name e = (case e of
     RecordNotFound _ \<Rightarrow> ''RecordNotFound'' | TaskConflict _ \<Rightarrow> ''TaskConflict'' | BudgetExhausted _ \<Rightarrow> ''BudgetExhausted''
   | Value_Error _ \<Rightarrow> ''ValueError'' | Permission_Error _ \<Rightarrow> ''PermissionError'' | Runtime_Error _ \<Rightarrow> ''RuntimeError''
   | Type_Error \<Rightarrow> ''TypeError'' | Key_Error _ \<Rightarrow> ''KeyError'' | Index_Error \<Rightarrow> ''IndexError''
   | Timeout_Error _ \<Rightarrow> ''TimeoutError'' | Delegation_Rejected _ \<Rightarrow> ''DelegationRejected''
   | Context_Budget_Error \<Rightarrow> ''ContextBudgetError'' | Provider_Error n \<Rightarrow> n
   | Tool_Unavailable _ \<Rightarrow> ''ToolUnavailable'' | Tool_Transport_Unavailable _ \<Rightarrow> ''ToolTransportUnavailable''
   | Retryable_Task_Error _ \<Rightarrow> ''RetryableTaskError'' | HTTP_Exception _ _ \<Rightarrow> ''HTTPException''
   | Agent_Unavailable _ \<Rightarrow> ''AgentUnavailable'' | Capability_Unavailable _ \<Rightarrow> ''CapabilityUnavailable''
   | Workspace_Not_Found _ \<Rightarrow> ''WorkspaceNotFoundError'' | Session_Not_Found _ \<Rightarrow> ''SessionNotFoundError''
   | Session_Unavailable _ \<Rightarrow> ''SessionUnavailableError'' | Integrity_Error _ \<Rightarrow> ''IntegrityError''
   | Execution_Limit_Error \<Rightarrow> ''ExecutionLimitError'' | Execution_Unavailable_Error \<Rightarrow> ''ExecutionUnavailableError''
   | Execution_Configuration_Error \<Rightarrow> ''ExecutionConfigurationError'' | Execution_Timeout_Error \<Rightarrow> ''ExecutionTimeoutError''
   | Structured_Output_Failure _ \<Rightarrow> ''StructuredOutputFailure'' | Graph_Interrupt \<Rightarrow> ''GraphInterrupt'')"

definition contract_category :: "py_error \<Rightarrow> string" where
  "contract_category e = (case e of
     Value_Error t \<Rightarrow> if t \<in> {''Worker result identity mismatch'', ''Worker fabricated output references'',
         ''Worker claimed to examine an unread file''} then t else ''invalid_result_schema''
   | _ \<Rightarrow> ''invalid_result_schema'')"

definition empty_payload :: "ident \<Rightarrow> worker_payload" where
  "empty_payload i = \<lparr>py_delegation = i, py_status = Rs_completed, py_summary = [], py_findings = [], py_evidence = [],
     py_questions = [], py_confidence = 0, py_metrics = [], py_artifacts = [], py_executions = [], py_files = [],
     py_code = [], py_changes = []\<rparr>"

definition unvalidated :: "worker \<Rightarrow> work_progress \<Rightarrow> py_error \<Rightarrow> worker_payload" where
  "unvalidated w p e = (empty_payload (dq_id (wk_request w)))
     \<lparr>py_status := (if collected w p \<noteq> [] then Rs_partial else Rs_failed),
      py_summary := ''Collected evidence is available; structured summary could not be validated.'',
      py_evidence := map fst (collected w p), py_questions := [''Summary unavailable: '' @ error_name e]\<rparr>"

definition settle_payload :: "worker \<Rightarrow> work_progress \<Rightarrow> worker_payload \<Rightarrow> worker_payload" where
  "settle_payload w p x =
     (let es = collected w p;
          x = x\<lparr>py_evidence := map fst es\<rparr>;
          x = (if dq_agent_id (wk_request w) = ''data''
               then x\<lparr>py_artifacts := map fst (collected_artifacts p), py_executions := executions_of p\<rparr> else x)
      in if es = [] \<or> wg_errors p \<noteq> []
         then x\<lparr>py_status := (if es \<noteq> [] then Rs_partial else Rs_failed),
                py_questions := fromkeys (py_questions x @ wg_errors p @ (if es = [] then [''No evidence collected''] else []))\<rparr>
         else x)"

definition contract_result :: "worker \<Rightarrow> work_progress \<Rightarrow> worker_payload \<Rightarrow> delegation_result" where
  "contract_result w p x =
     \<lparr>rs_delegation_id = dq_id (wk_request w), rs_agent_id = dq_agent_id (wk_request w), rs_revision_of = None,
      rs_status = py_status x, rs_summary = take 3000 (py_summary x), rs_evidence_ids = map fst (collected w p),
      rs_artifact_ids = map fst (collected_artifacts p), rs_questions = py_questions x, rs_confidence = py_confidence x,
      rs_payload = payload_entries (dq_agent_id (wk_request w)) x\<rparr>"

definition computed_payload :: "worker \<Rightarrow> work_progress \<Rightarrow> ident \<Rightarrow> (string, json) dict \<Rightarrow> worker_payload result" where
  "computed_payload w p execution metrics =
     (let eid = ''ev_'' @ dashless execution in
      if eid \<notin> fst ` set (collected w p) then Inl (Value_Error ''Missing authoritative computed evidence'')
      else Inr ((empty_payload (dq_id (wk_request w)))
        \<lparr>py_summary := ''Completed constrained dataset analysis and requested artifact generation.'',
         py_findings := [\<lparr>fi_claim = ''Computed results: '' @ take 1400 (dumps_plain (bm_float (wk_model w)) (JObj metrics)),
            fi_evidence_ids = [eid], fi_confidence = 1\<rparr>],
         py_metrics := metrics, py_evidence := map fst (collected w p), py_artifacts := map fst (collected_artifacts p),
         py_executions := [execution], py_confidence := 1\<rparr>))"

definition asked_payload ::
  "worker \<Rightarrow> string \<Rightarrow> worker_payload model_call \<Rightarrow> work_progress \<Rightarrow> worker_log \<Rightarrow> worker_log \<times> worker_payload result" where
  \<comment> \<open>the model's answer when it stands every check, and otherwise what the code says about the evidence itself\<close>
  "asked_payload w schema c p s =
     (case with_agents (bounded_invoke (wk_model w) (Some schema) [] c) s of
        (s', r) \<Rightarrow> (case rbind r (check_payload w p) of
            Inr x \<Rightarrow> (s', Inr x)
          | Inl e \<Rightarrow> sbind (with_agents (update_supervisor (bm_secrets (wk_model w)) (run_of w)
                [(''contract_error'', JObj [(''type'', JStr (error_name e)), (''category'', JStr (contract_category e))])] None) s')
              (\<lambda>_ s. (s, Inr (unvalidated w p e)))))"

definition worker_contract ::
  "worker \<Rightarrow> bool \<Rightarrow> task_status result \<Rightarrow> worker_payload model_call \<Rightarrow> work_progress \<Rightarrow> worker_log \<Rightarrow>
   worker_log \<times> delegation_result result" where
  "worker_contract w expired status c p s =
     (let agent = dq_agent_id (wk_request w) in
      sbind (s, boundary (wk_request w) expired status) (\<lambda>_ s.
        case contract_name agent of
          None \<Rightarrow> (s, Inl (Key_Error agent))
        | Some schema \<Rightarrow>
            (case (if wk_efficiency w \<and> agent = ''data'' \<and> wg_errors p = [] then wg_analysis p else None) of
               Some (execution, metrics) \<Rightarrow> sbind (s, computed_payload w p execution metrics) (\<lambda>x s.
                 (s, Inr (contract_result w p x)))
             | None \<Rightarrow> sbind (asked_payload w schema c p s) (\<lambda>x s.
                 (s, Inr (contract_result w p (settle_payload w p x)))))))"

section \<open>The graph\<close>

record run_input =
  ri_prepare :: "bool \<times> task_status result"
  ri_plan :: "bool \<times> task_status result"
  ri_proposal :: "agent_tool_call list model_call"
  ri_work :: "nat \<Rightarrow> work_input"
  ri_contract :: "bool \<times> task_status result"
  ri_summary :: "worker_payload model_call"

fun work_loop ::
  "nat \<Rightarrow> worker \<Rightarrow> (string \<Rightarrow> rat option) \<Rightarrow> run_input \<Rightarrow> agent_tool_call list \<Rightarrow> nat \<Rightarrow> work_progress \<Rightarrow> worker_log \<Rightarrow>
   worker_log \<times> delegation_result result" where
  "work_loop 0 w fr i todo k p s = (s, Inl (Provider_Error ''GraphRecursionError''))"
| "work_loop (Suc n) w fr i todo k p s =
     (if wg_cursor p < length todo
      then sbind (worker_work w fr (ri_work i k) todo s) (\<lambda>p' s. work_loop n w fr i todo (Suc k) p' s)
      else worker_contract w (fst (ri_contract i)) (snd (ri_contract i)) (ri_summary i) p s)"

definition recursion_limit :: "delegation_request \<Rightarrow> nat" where
  "recursion_limit q = 2 * dq_max_iterations q + 5"

definition worker_run ::
  "worker \<Rightarrow> (string \<Rightarrow> rat option) \<Rightarrow> run_input \<Rightarrow> worker_log \<Rightarrow> worker_log \<times> delegation_result result" where
  \<comment> \<open>preparing and planning take two steps of the limit\<close>
  "worker_run w fr i s =
     sbind (worker_prepare w (fst (ri_prepare i)) (snd (ri_prepare i)) s) (\<lambda>p s.
     sbind (worker_plan w (fst (ri_plan i)) (snd (ri_plan i)) (ri_proposal i) p s) (\<lambda>todo s.
       work_loop (recursion_limit (wk_request w) - 2) w fr i todo 0 p s))"

section \<open>A delegation from request to result\<close>

definition failed_result :: "delegation_request \<Rightarrow> bool \<Rightarrow> work_progress \<Rightarrow> py_error \<Rightarrow> delegation_result" where
  "failed_result q cancelled p e =
     \<lparr>rs_delegation_id = dq_id q, rs_agent_id = dq_agent_id q, rs_revision_of = dq_revision_of q,
      rs_status = (if cancelled then Rs_cancelled else if wg_evidence p \<noteq> [] then Rs_partial else Rs_failed),
      rs_summary = ''Delegation could not complete: '' @ error_name e,
      rs_evidence_ids = map Evidence.ev_id (wg_evidence p), rs_artifact_ids = map artifact_id (wg_artifacts p),
      rs_questions = [error_name e], rs_confidence = 0, rs_payload = []\<rparr>"

definition finish_run ::
  "worker \<Rightarrow> time \<Rightarrow> delegation_result \<Rightarrow> string option \<Rightarrow> worker_log \<Rightarrow> worker_log \<times> delegation_result result" where
  "finish_run w now r failure = with_agents (finish (bm_secrets (wk_model w)) now (dq_id (wk_request w)) r failure)"

record delegation_input = run_input +
  di_cancelled :: bool                   \<comment> \<open>the task is CANCELLED when the request is validated\<close>
  di_cancelled_after :: bool             \<comment> \<open>and when a failure is reported\<close>
  di_started :: time
  di_finished :: time

definition private_harness :: "int_config \<Rightarrow> context_harness result" where
  \<comment> \<open>two characters per token, the harness's default\<close>
  "private_harness cfg = make_context_harness (setting cfg ''MODEL_CONTEXT_WINDOW_TOKENS'' 100000)
     (setting cfg ''MULTI_AGENT_CONTEXT_TOKEN_BUDGET'' 8000) (setting cfg ''MAX_OUTPUT_TOKENS'' 4096)
     (setting cfg ''CONTEXT_SAFETY_TOKENS'' 4096) 512 1 2"

definition hired :: "int_config \<Rightarrow> delegation \<Rightarrow> worker \<Rightarrow> worker result" where
  \<comment> \<open>the worker of a delegation: its run, its own budget of model calls, its own context\<close>
  "hired cfg d w = rbind (private_harness cfg) (\<lambda>h.
     Inr (w\<lparr>wk_model := (wk_model w)\<lparr>bm_run := dl_run d, bm_limit := int (dq_max_iterations (wk_request w)) + 3,
       bm_iteration_limit := 0, bm_harness := h\<rparr>\<rparr>))"

definition run_delegation ::
  "int_config \<Rightarrow> worker \<Rightarrow> (string \<Rightarrow> rat option) \<Rightarrow> delegation_input \<Rightarrow> delegation \<Rightarrow> worker_log \<Rightarrow>
   worker_log \<times> delegation_result result" where
  \<comment> \<open>the \<open>try\<close> block\<close>
  "run_delegation cfg w fr i d s =
     sbind (s, hired cfg d w) (\<lambda>w s.
     sbind (worker_run w fr (run_input.truncate i) s) (\<lambda>r s.
       let r = r\<lparr>rs_revision_of := dq_revision_of (wk_request w)\<rparr> in
       sbind (finish_run w (di_finished i) r None s) (\<lambda>_ s. (s, Inr r))))"

definition report_failure ::
  "worker \<Rightarrow> delegation_input \<Rightarrow> delegation \<Rightarrow> py_error \<Rightarrow> worker_log \<Rightarrow> worker_log \<times> delegation_result result" where
  \<comment> \<open>the \<open>except\<close> blocks: an interrupt is passed on, anything else becomes the delegation's result\<close>
  "report_failure w i d e s =
     (let q = wk_request w in
      if e = Graph_Interrupt then (s, Inl e)
      else sbind (s, rbind (get_run (wl_agents s) (dl_run d)) (\<lambda>_. Inr (wl_progress s))) (\<lambda>p s.
        finish_run w (di_finished i) (failed_result q (truthy (dq_task_id q) \<and> di_cancelled_after i) p e)
          (Some (error_name e)) s))"

definition agent_worker ::
  "agents \<Rightarrow> int_config \<Rightarrow> worker \<Rightarrow> (string \<Rightarrow> rat option) \<Rightarrow> delegation_input \<Rightarrow> worker_log \<Rightarrow>
   worker_log \<times> delegation_result result" where
  "agent_worker reg cfg w fr i s =
     (let q = wk_request w in
      sbind (s, validate_request reg cfg (truthy (dq_task_id q) \<and> di_cancelled i) 0 q) (\<lambda>_ s.
      sbind (s, get_delegation (wl_agents s) (dq_id q)) (\<lambda>d s.
        case dl_result d of
          Some r \<Rightarrow> (s, Inr r)
        | None \<Rightarrow>
            sbind (with_agents (start_run (bm_secrets (wk_model w)) (di_started i) (dq_id q)) s) (\<lambda>_ s.
              case run_delegation cfg w fr i d s of
                (s, Inr r) \<Rightarrow> (s, Inr r) | (s, Inl e) \<Rightarrow> report_failure w i d e s))))"

end
