(* ===== verification/Ledger_Laws.thy ===== *)
theory Ledger_Laws
  imports Agent_Runs_Laws
begin

text \<open>
  What the operations of the ledger do to the delegations and to the counts of tool calls, and when a
  delegation can be started and settled.
\<close>

section \<open>Counted tool calls\<close>

definition tools_of :: "agents_db \<Rightarrow> ident \<Rightarrow> nat option" where
  "tools_of db i = map_option ar_tools (row_get ar_id i (runs_table db))"

definition same_tools :: "agents_db \<Rightarrow> agents_db \<Rightarrow> bool" where
  "same_tools db db' = (delegations_table db' = delegations_table db \<and> tools_of db' = tools_of db)"

named_theorems tools_frame \<open>operations that leave the delegations and the counts of tool calls alone\<close>

lemma same_tools_refl [simp]: "same_tools db db"
  by (simp add: same_tools_def)

lemma same_tools_trans: "same_tools a b \<Longrightarrow> same_tools b c \<Longrightarrow> same_tools a c"
  by (simp add: same_tools_def)

lemma clean_run_tools [simp]: "ar_tools (clean_run vs r) = ar_tools r"
  by (simp add: clean_run_def)

lemma tools_of_save:
  assumes "get_run db (ar_id r) = Inr r0"
  shows "tools_of (save_run vs r db) = (tools_of db)(ar_id r \<mapsto> ar_tools r)"
  using assms by (auto simp: tools_of_def save_run_def rows.get_put get_run_Inr fun_eq_iff)

lemma delegations_save_run [simp]: "delegations_table (save_run vs r db) = delegations_table db"
  by (simp add: save_run_def)

lemma tools_save:
  assumes "get_run db i = Inr r0" "ar_id r = i" "ar_tools r = ar_tools r0"
  shows "same_tools db (save_run vs r db)"
  using assms by (auto simp: same_tools_def tools_of_save fun_eq_iff tools_of_def get_run_Inr)

lemma transact_tools:
  assumes "\<And>t x. res = Inr (t, x) \<Longrightarrow> same_tools db t"
  shows "same_tools db (fst (transact db res))"
  using assms by (auto simp: transact_def split: sum.splits)

lemma reserve_budget_tools: "same_tools db (fst (reserve_budget vs now r kind phase db))"
  using budget_owner_get [of db r]
  by (auto simp: reserve_budget_def split: sum.splits option.splits prod.splits intro: tools_save)

lemma after_reserve_tools:
  assumes "same_tools db (fst res)" and "\<And>t x. body (fst res) = Inr (t, x) \<Longrightarrow> same_tools (fst res) t"
  shows "same_tools db (fst (after_reserve db res body))"
  using assms by (auto simp: after_reserve_def transact_def split: prod.splits sum.splits intro: same_tools_trans)

lemma add_saved_tools:
  assumes "\<And>r. ar_id (f r) = ar_id r \<and> ar_tools (f r) = ar_tools r" and "add_saved vs i f db = Inr (t, x)"
  shows "same_tools db t"
  using assms(2) by (auto simp: add_saved_def rbind_Inr_iff get_run_id assms(1) intro!: tools_save)

lemma reserve_llm_tools [tools_frame]: "same_tools db (fst (reserve_llm vs now i limit iterations phase db))"
  by (auto simp: reserve_llm_def reserve_budget_tools split: sum.splits
      intro!: after_reserve_tools elim!: add_saved_tools [rotated])

lemma update_supervisor_tools [tools_frame]: "same_tools db (fst (update_supervisor vs i updates b db))"
  unfolding update_supervisor_def
  by (rule transact_tools) (auto simp: rbind_Inr_iff Let_def get_run_id intro!: tools_save)

lemma run_usage_tools [simp]: "ar_tools (run_usage u r) = ar_tools r"
  by (simp add: run_usage_def Let_def split: option.splits)

lemma add_usage_tools [tools_frame]: "same_tools db (fst (add_usage vs i u db))"
  unfolding add_usage_def Let_def
proof (rule transact_tools, unfold rbind_Inr_iff, elim exE conjE)
  fix t x r owner
  let ?r = "run_usage (case u of None \<Rightarrow> \<lparr>us_total = None, us_input = None, us_output = None\<rparr> | Some u \<Rightarrow> u) r"
  assume "get_run db i = Inr r" and o: "budget_owner (save_run vs ?r db) ?r = Inr owner"
    and res: "(case owner of None \<Rightarrow> Inr (save_run vs ?r db, ())
      | Some s \<Rightarrow> (case ar_budget s of None \<Rightarrow> Inr (save_run vs ?r db, ())
          | Some b \<Rightarrow> Inr (save_run vs (s\<lparr>ar_budget := Some (budget_usage
              (us_total (case u of None \<Rightarrow> \<lparr>us_total = None, us_input = None, us_output = None\<rparr> | Some u \<Rightarrow> u)) b)\<rparr>)
              (save_run vs ?r db), ()))) = Inr (t, x)"
  then have one: "same_tools db (save_run vs ?r db)" by (intro tools_save [of db i r]) (simp_all add: get_run_id)
  show "same_tools db t"
    using one res o budget_owner_get [of "save_run vs ?r db" ?r]
    by (auto split: option.splits intro!: same_tools_trans [OF one] tools_save)
qed

text \<open>Counting a call.\<close>

lemma add_call_tools: "ar_id (add_call k r) = ar_id r" "ar_tools (add_call k r) = (if k = Call_tools then Suc (ar_tools r) else ar_tools r)"
  by (cases k; simp add: add_call_def)+

lemma count_call_other: "k \<noteq> Call_tools \<Longrightarrow> same_tools db (fst (count_call vs now i k limit db))"
  by (auto simp: count_call_def reserve_budget_tools add_call_tools split: sum.splits
      intro!: after_reserve_tools elim!: add_saved_tools [rotated])

lemma add_call_saved:
  assumes "add_saved vs i (add_call Call_tools) db = Inr (t, x)"
  shows "delegations_table t = delegations_table db
    \<and> (\<exists>n. tools_of db i = Some n \<and> tools_of t = (tools_of db)(i \<mapsto> Suc n))"
proof -
  from assms obtain r where r: "get_run db i = Inr r" "t = save_run vs (add_call Call_tools r) db"
    by (auto simp: add_saved_def rbind_Inr_iff)
  then have "get_run db (ar_id (add_call Call_tools r)) = Inr r" by (simp add: add_call_tools get_run_id)
  from tools_of_save [OF this] r show ?thesis
    by (auto simp: add_call_tools get_run_id tools_of_def get_run_Inr)
qed

lemma count_call_tools:
  assumes "count_call vs now i Call_tools limit db = (db', res)"
  obtains (refused) e where "res = Inl e" "same_tools db db'"
    | (counted) n where "res = Inr ()" "delegations_table db' = delegations_table db" "tools_of db i = Some n"
        "int n < limit" "tools_of db' = (tools_of db)(i \<mapsto> Suc n)"
proof (cases "get_run db i")
  case (Inl e)
  then show ?thesis using assms by (intro refused [of e]) (auto simp: count_call_def)
next
  case (Inr r)
  then have n: "tools_of db i = Some (ar_tools r)" by (simp add: tools_of_def get_run_Inr)
  show ?thesis
  proof (cases "limit \<le> int (ar_tools r)")
    case True
    then show ?thesis using assms Inr by (auto simp: count_call_def calls_def intro: refused)
  next
    case False
    obtain db1 u where b: "reserve_budget vs now r Tool_calls ''model'' db = (db1, u)" by fastforce
    have s: "same_tools db db1" using reserve_budget_tools [of db vs now r Tool_calls "''model''"] b by simp
    have eq: "(db', res) = after_reserve db (db1, u) (add_saved vs i (add_call Call_tools))"
      using assms Inr False b by (simp add: count_call_def calls_def)
    show ?thesis
    proof (cases u)
      case (Inl e)
      then show ?thesis using eq s by (auto simp: after_reserve_def intro: refused)
    next
      case (Inr v)
      show ?thesis
      proof (cases "add_saved vs i (add_call Call_tools) db1")
        case (Inl e)
        then show ?thesis using eq Inr by (auto simp: after_reserve_def transact_def intro: refused)
      next
        case (Inr tx)
        obtain t x where tx: "tx = (t, x)" by (cases tx)
        have "delegations_table t = delegations_table db1
          \<and> (\<exists>n. tools_of db1 i = Some n \<and> tools_of t = (tools_of db1)(i \<mapsto> Suc n))"
          using Inr tx by (intro add_call_saved) simp
        moreover have "db' = t" "res = Inr ()" using eq \<open>u = Inr v\<close> Inr tx by (auto simp: after_reserve_def transact_def)
        ultimately show ?thesis using s n False by (intro counted [of "ar_tools r"]) (auto simp: same_tools_def)
      qed
    qed
  qed
qed

section \<open>Starting and settling\<close>

text \<open>\<open>finish\<close> on a delegation that is open, and \<open>start_run\<close> before it.\<close>

definition open_at :: "delegation_request \<Rightarrow> ident \<Rightarrow> agents_db \<Rightarrow> bool" where
  "open_at q i db = ((\<exists>d. get_delegation db (dq_id q) = Inr d \<and> dl_result d = None \<and> dl_run d = i \<and> dl_agent d = dq_agent_id q)
     \<and> i \<in> dom (tools_of db))"

lemma tools_of_dom: "i \<in> dom (tools_of db) \<longleftrightarrow> (\<exists>r. get_run db i = Inr r)"
  by (auto simp: tools_of_def get_run_Inr)

lemma get_delegation_save:
  "get_delegation db (dl_id d) = Inr d0 \<Longrightarrow> get_delegation (save_delegation d db) (dl_id d) = Inr d"
  by (auto simp: get_delegation_def save_delegation_def rows.get_put split: option.splits)

lemma get_delegation_save_run [simp]: "get_delegation (save_run vs r db) i = get_delegation db i"
  by (simp add: get_delegation_def save_run_def)

lemma finish_open:
  assumes "open_at q i db" "result_valid r" "rs_delegation_id r = dq_id q" "rs_agent_id r = dq_agent_id q"
  obtains db' d where "finish vs now (dq_id q) r failure db = (db', Inr (clean_result vs r))"
    "get_delegation db' (dq_id q) = Inr d" "dl_result d = Some (clean_result vs r)"
proof -
  from assms(1) obtain d where d: "get_delegation db (dq_id q) = Inr d" "dl_result d = None" "dl_run d = i" "dl_agent d = dq_agent_id q"
    and "i \<in> dom (tools_of db)" by (auto simp: open_at_def)
  then obtain run where run: "get_run db i = Inr run" by (auto simp: tools_of_dom)
  have id: "dl_id d = dq_id q" using d(1) by (auto simp: get_delegation_Inr dest: row_get_Some_key)
  define st where "st = run_status_of (rs_status r)"
  define run' where "run' = run\<lparr>ar_status := st, ar_completed := Some now, ar_duration := Some (run_duration (ar_started run) now),
     ar_output := rs_summary r, ar_error := failure, ar_message := failure,
     ar_evidence_count := Some (length (rs_evidence_ids r)), ar_artifact_count := Some (length (rs_artifact_ids r))\<rparr>"
  define d' where "d' = d\<lparr>dl_status := st, dl_completed := Some now, dl_result := Some (clean_result vs r)\<rparr>"
  let ?db = "save_delegation d' (save_run vs run' db)"
  have "finish vs now (dq_id q) r failure db = (?db, Inr (clean_result vs r))"
    using assms(2-4) d run by (simp add: finish_def transact_def Let_def st_def run'_def d'_def)
  moreover have "get_delegation ?db (dl_id d') = Inr d'"
    using d(1) id by (intro get_delegation_save) (simp add: d'_def)
  ultimately show thesis using id by (intro that [of ?db d']) (simp_all add: d'_def)
qed

lemma finish_failed:
  assumes "finish vs now i r failure db = (db', Inl e)"
  shows "db' = db"
  using assms by (auto simp: finish_def transact_def split: if_splits sum.splits)

lemma finish_answered:
  assumes "finish vs now i r failure db = (db', Inr x)" "get_delegation db i = Inr d" "dl_result d = None"
  shows "rs_delegation_id r = i" "rs_agent_id r = dl_agent d" "\<exists>d'. get_delegation db' i = Inr d' \<and> dl_result d' \<noteq> None"
proof -
  show id: "rs_delegation_id r = i" and ag: "rs_agent_id r = dl_agent d"
    using assms by (auto simp: finish_def transact_def rbind_Inr_iff Let_def split: if_splits sum.splits option.splits)
  have v: "result_valid r" using assms(1) by (auto simp: finish_def split: if_splits)
  obtain run where run: "get_run db (dl_run d) = Inr run"
    using assms v id ag by (cases "get_run db (dl_run d)") (auto simp: finish_def transact_def)
  let ?q = "undefined\<lparr>dq_id := i, dq_agent_id := dl_agent d\<rparr> :: delegation_request"
  have "open_at ?q (dl_run d) db" using assms(2,3) run by (auto simp: open_at_def tools_of_dom)
  then obtain db1 d1 where "finish vs now (dq_id ?q) r failure db = (db1, Inr (clean_result vs r))"
    "get_delegation db1 (dq_id ?q) = Inr d1" "dl_result d1 = Some (clean_result vs r)"
    using v id ag by (elim finish_open [where vs = vs and now = now and failure = failure]) simp_all
  with assms(1) show "\<exists>d'. get_delegation db' i = Inr d' \<and> dl_result d' \<noteq> None" by auto
qed

lemma start_run_open:
  assumes "open_at q i db" "get_run db i = Inr r" "ar_attempts r < 3"
  obtains db' r' where "start_run vs now (dq_id q) db = (db', Inr r')" "open_at q i db'"
proof -
  from assms(1) obtain d where d: "get_delegation db (dq_id q) = Inr d" "dl_result d = None" "dl_run d = i" "dl_agent d = dq_agent_id q"
    by (auto simp: open_at_def)
  have id: "dl_id d = dq_id q" using d(1) by (auto simp: get_delegation_Inr dest: row_get_Some_key)
  define r' where "r' = r\<lparr>ar_status := Run_running, ar_started := or_time (ar_started r) now, ar_attempts := Suc (ar_attempts r)\<rparr>"
  define d' where "d' = d\<lparr>dl_status := Run_running, dl_started := ar_started r'\<rparr>"
  let ?db = "save_delegation d' (save_run vs r' db)"
  have "start_run vs now (dq_id q) db = (?db, Inr r')"
    using d assms(2,3) by (simp add: start_run_def transact_def Let_def r'_def d'_def)
  moreover have "get_delegation ?db (dl_id d') = Inr d'"
    using d(1) id by (intro get_delegation_save) (simp add: d'_def)
  moreover have "tools_of ?db = (tools_of db)(i \<mapsto> ar_tools r)"
  proof -
    have "ar_id r' = i" using assms(2) by (simp add: r'_def get_run_id)
    then have "tools_of (save_run vs r' db) = (tools_of db)(i \<mapsto> ar_tools r)"
      using tools_of_save [of db r' r vs] assms(2) by (simp add: r'_def)
    then show ?thesis by (simp add: tools_of_def save_delegation_def fun_eq_iff)
  qed
  ultimately show thesis using d id by (intro that [of ?db r']) (auto simp: open_at_def d'_def)
qed

end
