(* ===== verification/Agent_Worker_Laws.thy ===== *)
theory Agent_Worker_Laws
  imports Agent_Worker Ledger_Laws
begin

text \<open>
  What a worker may do, over any sequence of its nodes and whatever models and tools answer: its calls stay in
  its delegation and are counted, an execution that may have happened is not repeated, its report names only
  what was collected, and a delegation that was started is always settled.
\<close>

section \<open>Calls of the model\<close>

lemma sbind_tools:
  assumes "same_tools db (fst m)" and "\<And>x t. m = (t, Inr x) \<Longrightarrow> same_tools t (fst (f x t))"
  shows "same_tools db (fst (sbind m f))"
  using assms by (cases m; cases "snd m") (auto intro: same_tools_trans)

lemma add_measurement_tools [tools_frame]: "same_tools db (fst (add_measurement vs i phase rep db))"
  unfolding add_measurement_def by (intro sbind_tools) (auto simp: Let_def intro!: sbind_tools tools_frame)

lemma bounded_invoke_tools [tools_frame]: "same_tools db (fst (bounded_invoke m schema given c db))"
  unfolding bounded_invoke_def Let_def
  by (intro sbind_tools tools_frame) (auto split: option.splits intro!: sbind_tools tools_frame)

lemma inner_calls_tools [tools_frame]: "same_tools db (inner_calls m cs db)"
  by (induction cs arbitrary: db) (auto intro: same_tools_trans bounded_invoke_tools)

section \<open>Plans stay in the delegation\<close>

definition data_step :: "agent_tool_call \<Rightarrow> bool" where
  "data_step a = (ac_capability a \<in> {''dataset.inspect'', ''data.analyze''})"

definition datasets_within :: "delegation_request \<Rightarrow> (string, json) dict \<Rightarrow> bool" where
  "datasets_within q args = (case ids_given (dict_get args ''dataset_ids'' JNull) of
     Inl e \<Rightarrow> False | Inr ids \<Rightarrow> ids \<noteq> [] \<and> set ids \<subseteq> set (dc_dataset_ids (dq_context q)))"

definition step_ok :: "worker \<Rightarrow> agent_tool_call \<Rightarrow> bool" where
  "step_ok w a = (ac_capability a \<in> tl_capability ` set (catalog w)
     \<and> (data_step a \<longrightarrow> datasets_within (wk_request w) (ac_arguments a))
     \<and> (ac_capability a = ''data.analyze'' \<longrightarrow> ''code'' \<notin> fst ` set (ac_arguments a))
     \<and> clean (bm_secrets (wk_model w)) (JObj (ac_arguments a)) = JObj (ac_arguments a))"

definition plan_ok :: "worker \<Rightarrow> agent_tool_call list \<Rightarrow> bool" where
  "plan_ok w todo = (length todo \<le> step_limit (wk_request w) \<and> (\<forall>a\<in>set todo. step_ok w a))"

declare dict_get_put [simp]

lemma dict_get_filter: "k \<noteq> j \<Longrightarrow> dict_get (filter (\<lambda>(i, v). i \<noteq> j) d) k x = dict_get d k x"
  by (induction d) (auto simp: dict_get_def)

lemma check_step_Inr:
  assumes "check_step w a = Inr b"
  shows "step_ok w b"
proof -
  let ?ids = "dict_get (ac_arguments a) ''dataset_ids'' (JList (map JStr (dc_dataset_ids (dq_context (wk_request w)))))"
  let ?args = "if data_step a then dict_put ''dataset_ids'' ?ids (ac_arguments a) else ac_arguments a"
  let ?args' = "if ac_capability a = ''data.analyze'' then filter (\<lambda>(k, v). k \<noteq> ''code'') ?args else ?args"
  from assms have b: "b = a\<lparr>ac_arguments := ?args'\<rparr>"
    and cap: "ac_capability a \<in> tl_capability ` set (catalog w)"
    and safe: "clean (bm_secrets (wk_model w)) (JObj ?args') = JObj ?args'"
    and within: "data_step a \<Longrightarrow> \<exists>given. ids_given ?ids = Inr given \<and> given \<noteq> []
      \<and> set given \<subseteq> set (dc_dataset_ids (dq_context (wk_request w)))"
    by (auto simp: check_step_def Let_def rbind_Inr_iff require_safe_def data_step_def split: if_splits)
  have "datasets_within (wk_request w) (ac_arguments b)" if "data_step a"
    using within [OF that] that by (auto simp: b datasets_within_def dict_get_filter)
  moreover have "data_step b = data_step a" by (simp add: b data_step_def)
  ultimately show ?thesis using cap safe b by (auto simp: step_ok_def)
qed

lemma rmap_Inr: "rmap f xs = Inr ys \<Longrightarrow> length ys = length xs \<and> (\<forall>y\<in>set ys. \<exists>x\<in>set xs. f x = Inr y)"
  by (induction xs arbitrary: ys) (fastforce simp: rbind_Inr_iff)+

lemma settle_steps_Inr: "settle_steps w proposed = Inr todo \<Longrightarrow> plan_ok w todo"
  by (auto simp: settle_steps_def Let_def plan_ok_def dest!: rmap_Inr split: if_splits intro: check_step_Inr)

section \<open>The worker as a machine\<close>

datatype worker_op =
    W_plan bool "task_status result" "agent_tool_call list model_call"
  | W_work work_input
  | W_report bool "task_status result" "worker_payload model_call" work_progress

fun worker_exec :: "worker \<Rightarrow> (string \<Rightarrow> rat option) \<Rightarrow> worker_op \<Rightarrow> worker_log \<Rightarrow> worker_log" where
  "worker_exec w fr (W_plan expired status c) s = fst (worker_plan w expired status c (wl_progress s) s)"
| "worker_exec w fr (W_work i) s = (case wg_plan (wl_progress s) of
     None \<Rightarrow> s | Some todo \<Rightarrow> fst (worker_work w fr i todo s))"
| "worker_exec w fr (W_report expired status c p) s = fst (worker_contract w expired status c p s)"

definition writes :: "nat \<times> tool \<times> (string, json) dict \<Rightarrow> bool" where
  "writes c = (tl_operation (fst (snd c)) \<noteq> Op_read)"

definition call_ok :: "worker \<Rightarrow> agent_tool_call list \<Rightarrow> nat \<times> tool \<times> (string, json) dict \<Rightarrow> bool" where
  "call_ok w todo c = (fst c < length todo \<and> tool_of w (todo ! fst c) = Some (fst (snd c))
     \<and> snd (snd c) = ac_arguments (todo ! fst c))"

definition counted :: "worker \<Rightarrow> nat \<Rightarrow> worker_log \<Rightarrow> bool" where
  "counted w k s = (\<exists>n. tools_of (wl_agents s) (run_of w) = Some n \<and> length (wl_calls s) + k \<le> n
     \<and> n \<le> dq_max_tool_calls (wk_request w))"

definition planned :: "worker \<Rightarrow> worker_log \<Rightarrow> bool" where
  "planned w s = (case wg_plan (wl_progress s) of
     None \<Rightarrow> wl_calls s = [] | Some todo \<Rightarrow> plan_ok w todo \<and> (\<forall>c\<in>set (wl_calls s). call_ok w todo c))"

definition once :: "worker_log \<Rightarrow> bool" where
  "once s = (distinct (map fst (filter writes (wl_calls s)))
     \<and> (\<forall>c\<in>set (wl_calls s). fst c \<le> wg_cursor (wl_progress s)
          \<and> (writes c \<longrightarrow> fst c = wg_cursor (wl_progress s) \<longrightarrow> wg_active (wl_progress s) \<noteq> None)))"

definition worker_ok :: "worker \<Rightarrow> worker_log \<Rightarrow> bool" where
  "worker_ok w s = (counted w 0 s \<and> planned w s \<and> once s)"

text \<open>Steps on the ledger alone keep the progress and the calls.\<close>

lemma with_agents_fields:
  assumes "with_agents f s = (s', r)"
  shows "wl_progress s' = wl_progress s" "wl_calls s' = wl_calls s" "wl_agents s' = fst (f (wl_agents s))"
  using assms by (auto simp: with_agents_def split: prod.splits)

definition same_log :: "worker_log \<Rightarrow> worker_log \<Rightarrow> bool" where
  "same_log s s' = (wl_progress s' = wl_progress s \<and> wl_calls s' = wl_calls s \<and> same_tools (wl_agents s) (wl_agents s'))"

lemma same_log_refl [simp]: "same_log s s"
  by (simp add: same_log_def)

lemma same_log_ok: "same_log s s' \<Longrightarrow> worker_ok w s \<Longrightarrow> worker_ok w s'"
  by (cases "wg_plan (wl_progress s)") (auto simp: same_log_def worker_ok_def counted_def planned_def once_def same_tools_def)

lemma with_agents_log:
  assumes "with_agents f s = (s', r)" and "\<And>db. same_tools db (fst (f db))"
  shows "same_log s s'"
  using with_agents_fields [OF assms(1)] assms(2) by (simp add: same_log_def)

lemma clean_progress_fields [simp]:
  "wg_plan (clean_progress vs p) = wg_plan p" "wg_cursor (clean_progress vs p) = wg_cursor p"
  "wg_active (clean_progress vs p) = wg_active p"
  by (simp_all add: clean_progress_def)

lemma store_progress_cases:
  assumes "store_progress w p s = (s', r)"
  obtains "s' = s" "r \<noteq> Inr ()" | "r = Inr ()" "s' = s\<lparr>wl_progress := clean_progress (bm_secrets (wk_model w)) p\<rparr>"
  using assms by (auto simp: store_progress_def split: sum.splits)

lemma stored_progress_Inr: "stored_progress w s = (s', Inr p) \<Longrightarrow> s' = s \<and> p = wl_progress s"
  by (auto simp: stored_progress_def rbind_Inr_iff)

lemma stored_progress_state: "fst (stored_progress w s) = s"
  by (simp add: stored_progress_def)

section \<open>Every node keeps the worker in its delegation\<close>

lemma same_log_trans: "same_log a b \<Longrightarrow> same_log b c \<Longrightarrow> same_log a c"
  by (auto simp: same_log_def intro: same_tools_trans)

lemma propose_plan_log: "propose_plan w c s = (s', todo) \<Longrightarrow> same_log s s'"
  by (auto simp: propose_plan_def Let_def bounded_invoke_tools split: if_splits prod.splits sum.splits dest!: with_agents_log)

lemma with_plan_ok:
  assumes "worker_ok w s" "wg_plan (wl_progress s) = None" "plan_ok w todo"
  shows "worker_ok w (s\<lparr>wl_progress := clean_progress vs ((wl_progress s)\<lparr>wg_plan := Some todo\<rparr>)\<rparr>)"
  using assms by (auto simp: worker_ok_def counted_def planned_def once_def)

lemma worker_plan_ok:
  assumes ok: "worker_ok w s"
  shows "worker_ok w (fst (worker_plan w expired status c (wl_progress s) s))"
proof -
  obtain s' r where run: "worker_plan w expired status c (wl_progress s) s = (s', r)" by fastforce
  show ?thesis
  proof (cases "boundary (wk_request w) expired status")
    case (Inl e)
    then show ?thesis using ok by (simp add: worker_plan_def)
  next
    case (Inr u)
    show ?thesis
    proof (cases "wg_plan (wl_progress s)")
      case (Some todo)
      then show ?thesis using ok Inr by (simp add: worker_plan_def)
    next
      case None
      obtain s1 proposed where p: "propose_plan w c s = (s1, proposed)" by fastforce
      note same = propose_plan_log [OF p]
      then have ok1: "worker_ok w s1" and none: "wg_plan (wl_progress s1) = None"
        using ok None by (auto intro: same_log_ok simp: same_log_def)
      have "sbind (s1, settle_steps w proposed) (\<lambda>todo s. sbind (stored_progress w s) (\<lambda>p s.
          sbind (store_progress w (p\<lparr>wg_plan := Some todo\<rparr>) s) (\<lambda>_ s. (s, Inr todo)))) = (s', r)"
        using run Inr None p by (simp add: worker_plan_def)
      then show ?thesis unfolding run
        using ok1 with_plan_ok [OF ok1 none settle_steps_Inr]
        by (auto elim!: sbind_cases store_progress_cases simp: stored_progress_def rbind_Inr_iff)
    qed
  qed
qed

lemma work_result_fields:
  assumes "work_result w fr t a ans k p = Inr p'"
  shows "wg_plan p' = wg_plan p \<and> wg_cursor p' = Suc k"
proof -
  have "wg_plan q = wg_plan p" if "take_answer (bm_float (wk_model w)) fr (wk_request w) t a ans p = Inr q" for q
    using that by (auto simp: take_answer_def take_analysis_def add_error_def Let_def rbind_Inr_iff split: if_splits tool_data.splits)
  then show ?thesis using assms by (auto simp: work_result_def rbind_Inr_iff)
qed

lemma make_call_ok:
  assumes counted: "counted w 1 s" and planned: "planned w s" and once: "once s"
    and plan: "wg_plan (wl_progress s) = Some todo" "wg_plan p = Some todo"
    and cursor: "wg_cursor p = wg_cursor (wl_progress s)" and a: "call_ok w todo (wg_cursor p, t, ac_arguments a)"
    and active: "wg_active (wl_progress s) \<noteq> None"
    and new: "\<forall>c\<in>set (wl_calls s). writes c \<longrightarrow> fst c < wg_cursor p"
  shows "worker_ok w (fst (make_call w fr i p t a s))"
proof -
  let ?vs = "bm_secrets (wk_model w)"
  define s1 where "s1 = s\<lparr>wl_agents := inner_calls (wk_model w) (wi_inner i) (wl_agents s)\<rparr>"
  define made where "made = s1\<lparr>wl_calls := wl_calls s1 @ [(wg_cursor p, t, ac_arguments a)]\<rparr>"
  have tools: "tools_of (wl_agents s1) = tools_of (wl_agents s)"
    using inner_calls_tools [of "wl_agents s" "wk_model w" "wi_inner i"] by (simp add: s1_def same_tools_def)
  have low: "\<forall>c\<in>set (wl_calls s). fst c \<le> wg_cursor p" using once cursor by (auto simp: once_def)
  have c1: "counted w 0 s1" "counted w 0 made" using counted tools by (auto simp: counted_def made_def s1_def)
  have calls: "\<forall>c\<in>set (wl_calls made). call_ok w todo c" "plan_ok w todo" and todo: "todo = the (wg_plan (wl_progress s))"
    using planned plan a by (auto simp: planned_def made_def s1_def)
  have d: "distinct (map fst (filter writes (wl_calls made)))"
    using once new by (auto simp: once_def made_def s1_def)
  have ok1: "worker_ok w (s1\<lparr>wl_progress := clean_progress ?vs ((wl_progress s1)\<lparr>wg_active := None\<rparr>)\<rparr>)"
    using c1(1) planned plan once new low cursor by (auto simp: worker_ok_def counted_def planned_def once_def s1_def)
  have ok2: "worker_ok w made"
    using c1(2) calls d plan(1) low cursor active by (auto simp: worker_ok_def planned_def once_def made_def s1_def)
  have ok3: "worker_ok w (made\<lparr>wl_progress := clean_progress ?vs p'\<rparr>)"
    if "wg_plan p' = Some todo" "wg_cursor p' = Suc (wg_cursor p)" for p'
    using c1(2) calls d that low by (auto simp: worker_ok_def counted_def planned_def once_def made_def s1_def)
  have result: "wg_plan p' = Some todo \<and> wg_cursor p' = Suc (wg_cursor p)"
    if "work_result w fr t a ans (wg_cursor p) p = Inr p'" for ans p'
    using work_result_fields [OF that] plan(2) by simp
  have keep: "worker_ok w s1"
    using c1(1) planned plan once new low cursor active by (auto simp: worker_ok_def planned_def once_def s1_def)
  show ?thesis
  proof (cases "wi_outcome i t (ac_arguments a)")
    case (Tool_answered ans)
    obtain s' r where run: "sbind (made, boundary (wk_request w) (wi_expired_after i) (wi_status_after i)) (\<lambda>_ s.
          sbind (s, work_result w fr t a ans (wg_cursor p) p) (\<lambda>p' s.
          sbind (store_progress w p' s) (\<lambda>_ s. (s, Inr p')))) = (s', r)" by fastforce
    then have "worker_ok w s'" using ok2 ok3 result
      by (auto elim!: sbind_cases store_progress_cases)
    then show ?thesis using run Tool_answered by (simp add: make_call_def Let_def s1_def made_def)
  next
    case Tool_interrupted
    obtain s' r where run: "sbind (stored_progress w s1) (\<lambda>now s.
          sbind (store_progress w (now\<lparr>wg_active := None\<rparr>) s) (\<lambda>_ s. (s, Inl Graph_Interrupt :: work_progress result))) = (s', r)"
      by fastforce
    then have "worker_ok w s'" using ok1 keep
      by (auto elim!: sbind_cases store_progress_cases simp: stored_progress_def rbind_Inr_iff)
    then show ?thesis using run Tool_interrupted by (simp add: make_call_def Let_def s1_def)
  next
    case (Tool_raised e)
    then show ?thesis using ok2 by (simp add: make_call_def Let_def s1_def made_def)
  qed
qed

lemma count_step_cases:
  assumes "count_step w now s = (s', r)"
  obtains e where "r = Inl e" "same_log s s'"
    | "r = Inr ()" "wl_progress s' = wl_progress s" "wl_calls s' = wl_calls s" "counted w 0 s \<Longrightarrow> counted w 1 s'"
  using assms unfolding count_step_def Let_def
proof (cases rule: sbind_cases)
  case (failed e)
  then show ?thesis by (intro that(1) [of e]) (auto dest: with_agents_log simp: count_call_other)
next
  case (passed u x)
  have one: "same_log s u" by (rule with_agents_log [OF passed(1)]) (rule count_call_other, simp)
  obtain db res where c: "count_call (bm_secrets (wk_model w)) now (run_of w) Call_tools
      (int (dq_max_tool_calls (wk_request w))) (wl_agents u) = (db, res)" by fastforce
  then have s': "s' = u\<lparr>wl_agents := db\<rparr>" and r: "r = res" using passed(2) by (auto simp: with_agents_def)
  from c show ?thesis
  proof (cases rule: count_call_tools)
    case (refused e)
    then have "same_log u s'" by (simp add: s' same_log_def)
    with one refused r show ?thesis by (intro that(1) [of e]) (auto intro: same_log_trans)
  next
    case (counted n)
    have "counted w 1 s'" if "counted w 0 s"
      using that counted(3,4,5) one by (auto simp: counted_def s' same_log_def same_tools_def)
    then show ?thesis using counted(1) r one by (intro that(2)) (auto simp: s' same_log_def)
  qed
qed

lemma worker_work_ok:
  assumes ok: "worker_ok w s" and todo: "wg_plan (wl_progress s) = Some todo"
  shows "worker_ok w (fst (worker_work w fr i todo s))"
proof -
  obtain s' r where run: "worker_work w fr i todo s = (s', r)" by fastforce
  let ?p = "wl_progress s"
  let ?a = "todo ! wg_cursor ?p"
  note run' = run [unfolded worker_work_def]
  show ?thesis
  proof (cases "(\<exists>u. boundary (wk_request w) (wi_expired i) (wi_status i) = Inr u) \<and> (\<exists>x. get_run (wl_agents s) (run_of w) = Inr x)
      \<and> wg_cursor ?p < length todo \<and> tool_of w ?a \<noteq> None \<and> \<not> (wg_active ?p \<noteq> None \<and> tl_operation (the (tool_of w ?a)) \<noteq> Op_read)")
    case False
    then have "s' = s" using run'
      by (cases "boundary (wk_request w) (wi_expired i) (wi_status i)"; cases "get_run (wl_agents s) (run_of w)")
        (auto simp: stored_progress_def Let_def split: if_splits option.splits)
    with ok run show ?thesis by simp
  next
    case True
    then obtain t where t: "tool_of w ?a = Some t" by auto
    have step: "sbind (count_step w (wi_now i) s) (\<lambda>_ s. sbind (stored_progress w s) (\<lambda>now s.
               sbind (store_progress w (now\<lparr>wg_active := Some (wg_cursor ?p, ac_capability ?a)\<rparr>) s) (\<lambda>_ s.
                 make_call w fr i ?p t ?a s))) = (s', r)"
      using run' True t by (auto simp: stored_progress_def Let_def)
    obtain s1 c where c: "count_step w (wi_now i) s = (s1, c)" by fastforce
    from c have "worker_ok w s'"
    proof (cases rule: count_step_cases)
      case (1 e)
      then show ?thesis using step c ok by (auto intro: same_log_ok)
    next
      case 2
      note ok1 = 2(4) [OF worker_ok_def [THEN iffD1, OF ok, THEN conjunct1]]
      show ?thesis
      proof (cases "get_run (wl_agents s1) (run_of w)")
        case (Inl e)
        have "tools_of (wl_agents s1) (run_of w) = None" using Inl by (auto simp: tools_of_def get_run_def split: option.splits)
        then show ?thesis using ok1 by (simp add: counted_def)
      next
        case (Inr x)
        define s2 where "s2 = s1\<lparr>wl_progress := clean_progress (bm_secrets (wk_model w))
          (?p\<lparr>wg_active := Some (wg_cursor ?p, ac_capability ?a)\<rparr>)\<rparr>"
        have "make_call w fr i ?p t ?a s2 = (s', r)"
          using step c 2(1,2) Inr by (simp add: stored_progress_def store_progress_def s2_def)
        moreover have "worker_ok w (fst (make_call w fr i ?p t ?a s2))"
        proof (rule make_call_ok)
          show "counted w 1 s2" using ok1 by (simp add: counted_def s2_def)
          show "planned w s2" "once s2" using ok todo 2(3) by (auto simp: worker_ok_def planned_def once_def s2_def)
          show "wg_plan (wl_progress s2) = Some todo" "wg_plan ?p = Some todo" using todo by (simp_all add: s2_def)
          show "wg_cursor ?p = wg_cursor (wl_progress s2)" "wg_active (wl_progress s2) \<noteq> None" by (simp_all add: s2_def)
          show "call_ok w todo (wg_cursor ?p, t, ac_arguments ?a)" using True t by (simp add: call_ok_def)
          show "\<forall>c\<in>set (wl_calls s2). writes c \<longrightarrow> fst c < wg_cursor ?p"
          proof (intro ballI impI)
            fix c assume c: "c \<in> set (wl_calls s2)" "writes c"
            then have mem: "c \<in> set (wl_calls s)" using 2(3) by (simp add: s2_def)
            then have "fst c \<le> wg_cursor ?p" "fst c = wg_cursor ?p \<longrightarrow> wg_active ?p \<noteq> None"
              using ok c(2) by (auto simp: worker_ok_def once_def)
            moreover have "fst c = wg_cursor ?p \<Longrightarrow> tl_operation t \<noteq> Op_read"
              using ok todo mem t c(2) by (auto simp: worker_ok_def planned_def call_ok_def writes_def)
            ultimately show "fst c < wg_cursor ?p" using True t by fastforce
          qed
        qed
        ultimately show ?thesis by simp
      qed
    qed
    then show ?thesis using run by simp
  qed
qed

lemma worker_contract_log:
  assumes "worker_contract w expired status c p s = (s', r)"
  shows "same_log s s'"
proof -
  have asked: "same_log s u" if "asked_payload w schema c p s = (u, x)" for schema u x
  proof -
    obtain s1 q where q: "with_agents (bounded_invoke (wk_model w) (Some schema) [] c) s = (s1, q)" by fastforce
    have "same_log s s1" by (rule with_agents_log [OF q]) (rule bounded_invoke_tools)
    then show ?thesis using that q
      by (auto simp: asked_payload_def update_supervisor_tools split: sum.splits elim!: sbind_cases
          dest!: with_agents_log intro: same_log_trans)
  qed
  show ?thesis using assms asked
    by (auto simp: worker_contract_def Let_def split: option.splits elim!: sbind_cases)
qed

lemma worker_exec_ok: "worker_ok w s \<Longrightarrow> worker_ok w (worker_exec w fr x s)"
proof (cases x)
  case (W_plan expired status c)
  then show "worker_ok w s \<Longrightarrow> ?thesis" by (simp add: worker_plan_ok)
next
  case (W_work i)
  then show "worker_ok w s \<Longrightarrow> ?thesis" by (auto simp: worker_work_ok split: option.split)
next
  case (W_report expired status c p)
  obtain s' r where "worker_contract w expired status c p s = (s', r)" by fastforce
  then show "worker_ok w s \<Longrightarrow> ?thesis" using W_report by (auto intro: same_log_ok worker_contract_log)
qed

interpretation delegate: guarded_machine "worker_exec w fr" "\<lambda>s x. True" "worker_ok w" for w fr
  by unfold_locales (rule worker_exec_ok)

section \<open>A run is a sequence of nodes\<close>

lemma worker_exec_reaches: "delegate.reaches w fr s (worker_exec w fr x s)"
  using delegate.reaches.step [OF delegate.reaches.refl] by simp

lemma make_call_Inr:
  assumes "make_call w fr i p t a s = (s', Inr p')"
  shows "wg_plan (wl_progress s') = wg_plan p"
  using assms
  by (auto simp: make_call_def Let_def work_result_fields split: tool_outcome.splits elim!: sbind_cases store_progress_cases)

lemma worker_work_Inr:
  assumes "worker_work w fr i todo s = (s', Inr p)"
  obtains t u where "make_call w fr i (wl_progress s) t (todo ! wg_cursor (wl_progress s)) u = (s', Inr p)"
  using assms that
  by (auto simp: worker_work_def Let_def split: if_splits option.splits elim!: sbind_cases dest!: stored_progress_Inr)

lemma worker_work_plan:
  assumes "worker_work w fr i todo s = (s', Inr p)" "wg_plan (wl_progress s) = Some todo"
  shows "wg_plan (wl_progress s') = Some todo"
proof -
  from assms(1) obtain t u where "make_call w fr i (wl_progress s) t (todo ! wg_cursor (wl_progress s)) u = (s', Inr p)"
    by (rule worker_work_Inr)
  from make_call_Inr [OF this] assms(2) show ?thesis by simp
qed

lemma work_loop_reaches:
  assumes "wg_plan (wl_progress s) = Some todo"
  shows "delegate.reaches w fr s (fst (work_loop n w fr i todo k p s))"
  using assms
proof (induction n arbitrary: k p s)
  case 0
  show ?case by (simp add: delegate.reaches.refl)
next
  case (Suc n)
  show ?case
  proof (cases "wg_cursor p < length todo")
    case False
    then show ?thesis using worker_exec_reaches [of w fr s "W_report (fst (ri_contract i)) (snd (ri_contract i)) (ri_summary i) p"] by simp
  next
    case True
    obtain s1 r where w: "worker_work w fr (ri_work i k) todo s = (s1, r)" by fastforce
    have step: "delegate.reaches w fr s s1"
      using worker_exec_reaches [of w fr s "W_work (ri_work i k)"] Suc.prems w by simp
    show ?thesis
    proof (cases r)
      case (Inl e)
      then show ?thesis using step True w by simp
    next
      case (Inr p')
      have "delegate.reaches w fr s1 (fst (work_loop n w fr i todo (Suc k) p' s1))"
        using worker_work_plan w Inr Suc.prems by (intro Suc.IH) blast
      then show ?thesis using step True w Inr by (auto intro: delegate.reaches_trans)
    qed
  qed
qed

lemma worker_plan_Inr:
  assumes "worker_plan w expired status c p s = (s', Inr todo)" "p = wl_progress s"
  shows "wg_plan (wl_progress s') = Some todo"
  using assms
  by (auto simp: worker_plan_def split: option.splits prod.splits elim!: sbind_cases store_progress_cases)

lemma worker_run_reaches: "delegate.reaches w fr s (fst (worker_run w fr i s))"
proof -
  obtain s0 r0 where p: "worker_prepare w (fst (ri_prepare i)) (snd (ri_prepare i)) s = (s0, r0)" by fastforce
  then have s0: "s0 = s" and r0: "\<And>q. r0 = Inr q \<Longrightarrow> q = wl_progress s"
    by (auto simp: worker_prepare_def stored_progress_def rbind_Inr_iff elim!: sbind_cases)
  show ?thesis
  proof (cases r0)
    case (Inl e)
    then show ?thesis using p s0 by (simp add: worker_run_def delegate.reaches.refl)
  next
    case (Inr q)
    obtain s1 r1 where pl: "worker_plan w (fst (ri_plan i)) (snd (ri_plan i)) (ri_proposal i) q s = (s1, r1)" by fastforce
    then have one: "delegate.reaches w fr s s1"
      using worker_exec_reaches [of w fr s "W_plan (fst (ri_plan i)) (snd (ri_plan i)) (ri_proposal i)"] r0 [OF Inr] by simp
    show ?thesis
    proof (cases r1)
      case (Inl e)
      then show ?thesis using p s0 Inr pl one by (simp add: worker_run_def)
    next
      case (Inr todo)
      have "wg_plan (wl_progress s1) = Some todo" using worker_plan_Inr [OF pl [unfolded Inr]] r0 [OF \<open>r0 = Inr q\<close>] by simp
      from delegate.reaches_trans [OF work_loop_reaches [OF this] one] show ?thesis
        using p s0 pl Inr \<open>r0 = Inr q\<close> by (simp add: worker_run_def)
    qed
  qed
qed

section \<open>Calls\<close>

text \<open>
  C32: Whatever a worker's models and tools answer, over any number of runs cut off at any node, its tool calls
  stay in its delegation: at most the delegation's number of calls, at the steps of a plan of at most
  three, each of an enabled tool the delegation allows in its source scope, each on datasets of the delegation
  and never with code of the planner's; and a call that can change something is made at most once per step,
  also when its outcome was lost.
\<close>

theorem worker_calls_stay_in_delegation:
  assumes "delegate.reaches w fr s s'" and "wl_calls s = []" "wl_progress s = initial_progress"
    and "tools_of (wl_agents s) (run_of w) = Some 0"
  shows "length (wl_calls s') \<le> dq_max_tool_calls (wk_request w)
    \<and> (\<forall>(k, t, args)\<in>set (wl_calls s'). k < step_limit (wk_request w) \<and> t \<in> snd ` set (wk_tools w) \<and> tl_enabled t
         \<and> tool_allowed (wk_request w) t
         \<and> (tl_capability t \<in> {''dataset.inspect'', ''data.analyze''} \<longrightarrow> datasets_within (wk_request w) args)
         \<and> (tl_capability t = ''data.analyze'' \<longrightarrow> ''code'' \<notin> fst ` set args))
    \<and> distinct (map fst (filter writes (wl_calls s')))"
proof -
  have "worker_ok w s" using assms(2-4) by (simp add: worker_ok_def counted_def planned_def once_def initial_progress_def)
  then have ok: "worker_ok w s'" by (rule delegate.reaches_invar [OF assms(1)])
  have call: "k < step_limit (wk_request w) \<and> t \<in> snd ` set (wk_tools w) \<and> tl_enabled t \<and> tool_allowed (wk_request w) t
      \<and> (tl_capability t \<in> {''dataset.inspect'', ''data.analyze''} \<longrightarrow> datasets_within (wk_request w) args)
      \<and> (tl_capability t = ''data.analyze'' \<longrightarrow> ''code'' \<notin> fst ` set args)"
    if mem: "(k, t, args) \<in> set (wl_calls s')" for k t args
  proof -
    obtain todo where todo: "wg_plan (wl_progress s') = Some todo" "plan_ok w todo" "call_ok w todo (k, t, args)"
      using ok mem by (auto simp: worker_ok_def planned_def split: option.splits)
    then have k: "k < length todo" and t: "tool_of w (todo ! k) = Some t" and args: "args = ac_arguments (todo ! k)"
      by (auto simp: call_ok_def)
    have same: "tl_capability t = ac_capability (todo ! k)" and cat: "t \<in> set (catalog w)"
      using t by (auto simp: tool_of_def find_Some_iff)
    have "step_ok w (todo ! k)" using todo(2) k by (simp add: plan_ok_def)
    then show ?thesis using same cat args k todo(2)
      by (auto simp: step_ok_def data_step_def plan_ok_def catalog_def allowed_tools_def list_tools_def)
  qed
  show ?thesis using ok call by (auto simp: worker_ok_def counted_def once_def)
qed

section \<open>Reports\<close>

lemma check_payload_Inr:
  assumes "check_payload w p x = Inr y"
  shows "y = x \<and> payload_valid x \<and> set (references_of (dq_agent_id (wk_request w)) x) \<subseteq> fst ` set (collected w p)
    \<and> (dq_agent_id (wk_request w) = ''coding'' \<longrightarrow> list_all (file_examined (collected w p)) (py_files x))"
  using assms by (auto simp: check_payload_def Let_def split: if_splits)

definition grounded :: "worker \<Rightarrow> work_progress \<Rightarrow> worker_payload \<Rightarrow> bool" where
  "grounded w p x = (set (references_of (dq_agent_id (wk_request w)) x) \<subseteq> fst ` set (collected w p)
     \<and> (dq_agent_id (wk_request w) = ''coding'' \<longrightarrow> list_all (file_examined (collected w p)) (py_files x)))"

lemma asked_payload_grounded:
  assumes "asked_payload w schema c p s = (s', Inr x)"
  shows "grounded w p x"
proof -
  obtain s1 a where a: "with_agents (bounded_invoke (wk_model w) (Some schema) [] c) s = (s1, a)" by fastforce
  show ?thesis
  proof (cases "rbind a (check_payload w p)")
    case (Inr y)
    then obtain z where "check_payload w p z = Inr y" by (auto simp: rbind_Inr_iff)
    from check_payload_Inr [OF this] show ?thesis using assms a Inr by (simp add: asked_payload_def grounded_def)
  next
    case (Inl e)
    then have "x = unvalidated w p e" using assms a by (auto simp: asked_payload_def elim!: sbind_cases)
    then show ?thesis by (simp add: grounded_def unvalidated_def empty_payload_def references_of_def)
  qed
qed

lemma settle_payload_grounded: "grounded w p x \<Longrightarrow> grounded w p (settle_payload w p x)"
  by (auto simp: grounded_def settle_payload_def references_of_def Let_def)

text \<open>
  C33: A worker's report names what was collected and nothing else: its evidence and artifacts are exactly
  the collected ones, whatever its findings, code findings and proposed changes cite is among that evidence, a
  coding worker claims only files it has read, and a report is complete only when there is evidence and no
  tool failed.
\<close>

theorem worker_report_is_grounded:
  assumes "worker_contract w expired status c p s = (s', Inr r)"
  shows "rs_evidence_ids r = map fst (collected w p) \<and> rs_artifact_ids r = map fst (collected_artifacts p)
    \<and> (\<exists>x. rs_payload r = payload_entries (dq_agent_id (wk_request w)) x \<and> rs_status r = py_status x \<and> grounded w p x)
    \<and> (rs_status r = Rs_completed \<longrightarrow> rs_evidence_ids r \<noteq> [] \<and> wg_errors p = [])"
proof -
  from assms obtain schema where "contract_name (dq_agent_id (wk_request w)) = Some schema"
    by (cases "contract_name (dq_agent_id (wk_request w))") (auto simp: worker_contract_def Let_def elim!: sbind_cases)
  with assms consider
      (computed) e m x where "wg_errors p = []" "computed_payload w p e m = Inr x" "r = contract_result w p x"
    | (asked) x u v where "asked_payload w schema c p u = (v, Inr x)" "r = contract_result w p (settle_payload w p x)"
    by (auto simp: worker_contract_def Let_def split: option.splits if_splits prod.splits elim!: sbind_cases)
  then show ?thesis
  proof cases
    case computed
    have mem: "''ev_'' @ dashless e \<in> fst ` set (collected w p)"
      using computed(2) by (simp add: computed_payload_def Let_def split: if_splits)
    have "references_of (dq_agent_id (wk_request w)) x = map fst (collected w p) @ [''ev_'' @ dashless e]" "py_files x = []"
      using computed(2) by (auto simp: computed_payload_def Let_def references_of_def empty_payload_def split: if_splits)
    then have "grounded w p x" "collected w p \<noteq> []" using mem by (auto simp: grounded_def)
    moreover have "py_status x = Rs_completed"
      using computed(2) by (auto simp: computed_payload_def Let_def empty_payload_def split: if_splits)
    ultimately show ?thesis using computed(1) unfolding computed(3) contract_result_def by auto
  next
    case asked
    have "grounded w p (settle_payload w p x)" using asked(1) by (intro settle_payload_grounded asked_payload_grounded)
    moreover have "py_status (settle_payload w p x) = Rs_completed \<Longrightarrow> collected w p \<noteq> [] \<and> wg_errors p = []"
      by (auto simp: settle_payload_def Let_def split: if_splits)
    ultimately show ?thesis using asked(2) by (auto simp: contract_result_def)
  qed
qed

section \<open>Delegations are settled\<close>

definition kept :: "worker_log \<Rightarrow> worker_log \<Rightarrow> bool" where
  "kept s s' = (delegations_table (wl_agents s') = delegations_table (wl_agents s)
     \<and> dom (tools_of (wl_agents s)) \<subseteq> dom (tools_of (wl_agents s')))"

lemma kept_refl [simp]: "kept s s"
  by (simp add: kept_def)

lemma kept_trans: "kept a b \<Longrightarrow> kept b c \<Longrightarrow> kept a c"
  by (auto simp: kept_def)

lemma same_log_kept: "same_log s s' \<Longrightarrow> kept s s'"
  by (simp add: same_log_def same_tools_def kept_def)

lemma kept_update [simp]: "kept s (t\<lparr>wl_progress := p\<rparr>) = kept s t" "kept s (t\<lparr>wl_calls := c\<rparr>) = kept s t"
  "kept (t\<lparr>wl_progress := p\<rparr>) s = kept t s" "kept (t\<lparr>wl_calls := c\<rparr>) s = kept t s"
  by (simp_all add: kept_def)

lemma count_step_kept: "count_step w now s = (s', r) \<Longrightarrow> kept s s'"
proof -
  assume c: "count_step w now s = (s', r)"
  have tools: "kept u v" if "with_agents (count_call vs now i Call_tools limit) u = (v, x)" for u v x vs i limit
  proof -
    obtain db y where c: "count_call vs now i Call_tools limit (wl_agents u) = (db, y)" by fastforce
    then have v: "v = u\<lparr>wl_agents := db\<rparr>" using that by (simp add: with_agents_def)
    from c show ?thesis by (cases rule: count_call_tools) (auto simp: v kept_def same_tools_def)
  qed
  have iterations: "kept u v" if "with_agents (count_call vs now i Call_iterations limit) u = (v, x)" for u v x vs i limit
    using with_agents_log [OF that count_call_other] by (simp add: same_log_kept)
  show ?thesis using c
    by (auto simp: count_step_def Let_def elim!: sbind_cases dest: tools iterations intro: kept_trans)
qed

lemma store_progress_kept: "store_progress w p s = (s', r) \<Longrightarrow> kept s s'"
  by (auto elim: store_progress_cases)

lemma stored_progress_kept: "stored_progress w s = (s', r) \<Longrightarrow> kept s s'"
  by (simp add: stored_progress_def)

lemma make_call_kept: "make_call w fr i p t a s = (s', r) \<Longrightarrow> kept s s'"
proof -
  assume m: "make_call w fr i p t a s = (s', r)"
  have "kept s (s\<lparr>wl_agents := inner_calls (wk_model w) (wi_inner i) (wl_agents s)\<rparr>)"
    using inner_calls_tools [of "wl_agents s" "wk_model w" "wi_inner i"] by (simp add: kept_def same_tools_def)
  then show ?thesis using m
    by (auto simp: make_call_def Let_def split: tool_outcome.splits elim!: sbind_cases
        dest!: store_progress_kept stored_progress_kept intro: kept_trans)
qed

lemma worker_exec_kept: "kept s (worker_exec w fr x s)"
proof (cases x)
  case (W_plan expired status c)
  obtain s' r where run: "worker_plan w expired status c (wl_progress s) s = (s', r)" by fastforce
  have "kept s s1" if "propose_plan w c s = (s1, todo)" for s1 todo
    using propose_plan_log [OF that] by (rule same_log_kept)
  then have "kept s s'" using run
    by (auto simp: worker_plan_def split: option.splits prod.splits elim!: sbind_cases
        dest!: store_progress_kept stored_progress_kept) (blast intro: kept_trans)+
  then show ?thesis using W_plan run by simp
next
  case (W_work i)
  have "kept s s'" if "worker_work w fr i todo s = (s', r)" for todo s' r
    using that by (auto simp: worker_work_def Let_def split: option.splits if_splits elim!: sbind_cases
        dest!: store_progress_kept stored_progress_kept count_step_kept make_call_kept) (blast intro: kept_trans)+
  then show ?thesis using W_work by (auto split: option.split intro: surjective_pairing)
next
  case (W_report expired status c p)
  obtain s' r where "worker_contract w expired status c p s = (s', r)" by fastforce
  then show ?thesis using W_report by (auto intro: same_log_kept worker_contract_log)
qed

lemma reaches_kept: "delegate.reaches w fr s s' \<Longrightarrow> kept s s'"
  by (induction rule: delegate.reaches.induct) (auto intro: kept_trans worker_exec_kept)

lemma kept_open: "kept s s' \<Longrightarrow> open_at q i (wl_agents s) \<Longrightarrow> open_at q i (wl_agents s')"
  by (auto simp: kept_def open_at_def get_delegation_def)

lemma report_failure_settles:
  assumes "open_at (wk_request w) (dl_run d) (wl_agents s)" "e \<noteq> Graph_Interrupt" "length (error_name e) \<le> 2900"
  obtains s' r d' where "report_failure w i d e s = (s', Inr r)" "get_delegation (wl_agents s') (dq_id (wk_request w)) = Inr d'"
    "dl_result d' = Some r" "rs_delegation_id r = dq_id (wk_request w)" "rs_agent_id r = dq_agent_id (wk_request w)"
proof -
  let ?q = "wk_request w" and ?vs = "bm_secrets (wk_model w)"
  obtain run where run: "get_run (wl_agents s) (dl_run d) = Inr run" using assms(1) by (auto simp: open_at_def tools_of_dom)
  define r where "r = failed_result ?q (truthy (dq_task_id ?q) \<and> di_cancelled_after i) (wl_progress s) e"
  have ids: "rs_delegation_id r = dq_id ?q" "rs_agent_id r = dq_agent_id ?q" by (simp_all add: r_def failed_result_def)
  have "result_valid r" using assms(3) by (simp add: r_def failed_result_def result_valid_def)
  then obtain db d' where f: "finish ?vs (di_finished i) (dq_id ?q) r (Some (error_name e)) (wl_agents s) = (db, Inr (clean_result ?vs r))"
    "get_delegation db (dq_id ?q) = Inr d'" "dl_result d' = Some (clean_result ?vs r)"
    using finish_open [OF assms(1) _ ids] by blast
  have "report_failure w i d e s = (s\<lparr>wl_agents := db\<rparr>, Inr (clean_result ?vs r))"
    using assms(2) run f(1) by (simp add: report_failure_def Let_def finish_run_def with_agents_def r_def [symmetric])
  moreover have "rs_delegation_id (clean_result ?vs r) = dq_id ?q" "rs_agent_id (clean_result ?vs r) = dq_agent_id ?q"
    using ids by (simp_all add: clean_result_def)
  ultimately show thesis using f(2,3) by (intro that [of "s\<lparr>wl_agents := db\<rparr>" "clean_result ?vs r" d']) simp_all
qed

definition started_log :: "worker \<Rightarrow> time \<Rightarrow> worker_log \<Rightarrow> worker_log" where
  "started_log w now s = fst (with_agents (start_run (bm_secrets (wk_model w)) now (dq_id (wk_request w))) s)"

text \<open>
  C34: A delegation that was started is settled whatever its worker does: unless the worker is interrupted to ask
  a person, \<open>agent_worker\<close> answers with a result of that delegation and agent, and the ledger holds a result
  for it.  No failure of a model, a tool, a budget, a deadline or a contract leaves it open.
\<close>

theorem started_delegation_is_settled:
  assumes valid: "is_ok (validate_request reg cfg (truthy (dq_task_id (wk_request w)) \<and> di_cancelled i) 0 (wk_request w))"
    and stored: "get_delegation (wl_agents s) (dq_id (wk_request w)) = Inr d" "dl_result d = None" "dl_agent d = dq_agent_id (wk_request w)"
    and run: "get_run (wl_agents s) (dl_run d) = Inr run" "ar_attempts run < 3"
    and names: "\<And>e. snd (run_delegation cfg w fr i d (started_log w (di_started i) s)) = Inl e
      \<Longrightarrow> length (error_name e) \<le> 2900"
    and answer: "agent_worker reg cfg w fr i s = (s', r)"
  shows "r = Inl Graph_Interrupt \<and> snd (run_delegation cfg w fr i d (started_log w (di_started i) s)) = Inl Graph_Interrupt
    \<or> (\<exists>res d'. r = Inr res \<and> rs_delegation_id res = dq_id (wk_request w) \<and> rs_agent_id res = dq_agent_id (wk_request w)
        \<and> get_delegation (wl_agents s') (dq_id (wk_request w)) = Inr d' \<and> dl_result d' \<noteq> None)"
proof -
  let ?q = "wk_request w"
  obtain q where v: "validate_request reg cfg (truthy (dq_task_id ?q) \<and> di_cancelled i) 0 ?q = Inr q"
    using valid by (auto simp: is_ok_iff)
  have "open_at ?q (dl_run d) (wl_agents s)" using stored run(1) by (auto simp: open_at_def tools_of_dom)
  then obtain db r1 where st: "start_run (bm_secrets (wk_model w)) (di_started i) (dq_id ?q) (wl_agents s) = (db, Inr r1)"
    and o: "open_at ?q (dl_run d) db" using run by (rule start_run_open)
  define s1 where "s1 = s\<lparr>wl_agents := db\<rparr>"
  have started: "started_log w (di_started i) s = s1" using st by (simp add: started_log_def with_agents_def s1_def)
  obtain u a where body: "run_delegation cfg w fr i d s1 = (u, a)" by fastforce
  have whole: "(s', r) = (case (u, a) of (s, Inr r) \<Rightarrow> (s, Inr r) | (s, Inl e) \<Rightarrow> report_failure w i d e s)"
    using answer v stored(1,2) st body by (simp add: agent_worker_def Let_def with_agents_def s1_def)
  have hired: "wk_request w' = ?q" "bm_secrets (wk_model w') = bm_secrets (wk_model w)" if "hired cfg d w = Inr w'" for w'
    using that by (auto simp: hired_def rbind_Inr_iff)
  have o1: "open_at ?q (dl_run d) (wl_agents s1)" using o by (simp add: s1_def)
  have after: "open_at ?q (dl_run d) (wl_agents x)" if "worker_run w' fr j s1 = (x, y)" for w' j x y
    using reaches_kept [OF worker_run_reaches [of w' fr s1 j]] that o1 by (auto intro: kept_open)
  have failed: "open_at ?q (dl_run d) (wl_agents u)" if "a = Inl e" for e
    using body that o1 after
    by (auto simp: run_delegation_def Let_def finish_run_def with_agents_def split: prod.splits elim!: sbind_cases dest!: finish_failed)
  show ?thesis
  proof (cases a)
    case (Inl e)
    show ?thesis
    proof (cases "e = Graph_Interrupt")
      case True
      then show ?thesis using whole Inl body by (simp add: report_failure_def Let_def started)
    next
      case False
      have "length (error_name e) \<le> 2900" using names [of e] body Inl by (simp add: started)
      from report_failure_settles [OF failed [OF Inl] False this, of i] obtain s2 r2 d2 where
        "report_failure w i d e u = (s2, Inr r2)" "get_delegation (wl_agents s2) (dq_id ?q) = Inr d2" "dl_result d2 = Some r2"
        "rs_delegation_id r2 = dq_id ?q" "rs_agent_id r2 = dq_agent_id ?q" by blast
      then show ?thesis using whole Inl by auto
    qed
  next
    case (Inr res)
    from body Inr obtain w' x r0 y where h: "hired cfg d w = Inr w'" and wr: "worker_run w' fr (run_input.truncate i) s1 = (x, Inr r0)"
      and fin: "finish_run w' (di_finished i) res None x = (u, Inr y)"
      by (auto simp: run_delegation_def Let_def elim!: sbind_cases)
    from after [OF wr] obtain d1 where d1: "get_delegation (wl_agents x) (dq_id ?q) = Inr d1" "dl_result d1 = None"
        "dl_agent d1 = dq_agent_id ?q" by (auto simp: open_at_def)
    obtain db2 where f: "finish (bm_secrets (wk_model w)) (di_finished i) (dq_id ?q) res None (wl_agents x) = (db2, Inr y)"
      and u: "wl_agents u = db2" using fin hired [OF h] by (auto simp: finish_run_def with_agents_def split: prod.splits)
    from finish_answered [OF f d1(1,2)] show ?thesis using whole Inr u d1(3) by auto
  qed
qed

section \<open>A sample delegation\<close>

definition sample_request :: delegation_request where
  "sample_request = \<lparr>dq_id = ''d'', dq_task_id = None, dq_parent_step_id = None, dq_supervisor_run_id = ''s'',
     dq_agent_id = ''research'', dq_objective = ''g'', dq_required = [''research.web''],
     dq_context = \<lparr>dc_goal = ''g'', dc_constraints = [], dc_workspace_id = Some ''w'', dc_scope = Scope_workspace,
       dc_memory_ids = [], dc_evidence_ids = [], dc_dataset_ids = [], dc_artifact_ids = [], dc_notes = []\<rparr>,
     dq_expected_output = ''ResearchAgentResult'', dq_priority = 0, dq_allowed_tools = [''workspace.search''],
     dq_max_iterations = 4, dq_max_tool_calls = 4, dq_depth = 1, dq_group = 0, dq_revision_of = None,
     dq_supplementary = Some [(''target_sources'', JList [])], dq_force_refresh = False\<rparr>"

definition sample_worker :: worker where
  "sample_worker = \<lparr>wk_request = sample_request,
     wk_tools = map (\<lambda>n. (''native.'' @ n, native_descriptor (n, ''d'', JObj []))) [''search_web'', ''search_workspace''],
     wk_model = \<lparr>bm_run = ''r'', bm_limit = 7, bm_iteration_limit = 0, bm_harness = projr (private_harness (\<lambda>_. None)),
       bm_estimate = (\<lambda>ms. int (length ms)), bm_float = (\<lambda>_. ''0''), bm_secrets = []\<rparr>,
     wk_efficiency = True, wk_documents = [], wk_selected = []\<rparr>"

definition sample_log :: worker_log where
  "sample_log = \<lparr>wl_agents = \<lparr>runs_table = [new_run ''s'' None None ''supervisor'' ''g'', (delegated_run ''r'' sample_request)\<lparr>ar_progress := None\<rparr>],
       delegations_table = [delegation_of 0 ''r'' sample_request]\<rparr>,
     wl_progress = initial_progress, wl_calls = []\<rparr>"

definition no_proposal :: "'a model_call" where
  "no_proposal = \<lparr>mc_now = 1, mc_prompt = [], mc_provider = (\<lambda>_. Inl (Provider_Error ''APIError'')), mc_safe = (\<lambda>_. True)\<rparr>"

definition sample_run :: "bool \<Rightarrow> delegation_input" where
  "sample_run expired = \<lparr>ri_prepare = (expired, Inr RUNNING), ri_plan = (False, Inr RUNNING), ri_proposal = no_proposal,
     ri_work = (\<lambda>_. \<lparr>wi_now = 2, wi_expired = False, wi_status = Inr RUNNING,
       wi_outcome = (\<lambda>t args. Tool_raised (Runtime_Error ''x'')), wi_inner = [], wi_expired_after = False,
       wi_status_after = Inr RUNNING\<rparr>),
     ri_contract = (False, Inr RUNNING), ri_summary = no_proposal,
     di_cancelled = False, di_cancelled_after = False, di_started = 1, di_finished = 9\<rparr>"

definition no_floats :: "string \<Rightarrow> rat option" where
  "no_floats s = None"

definition worked_log :: worker_log where
  "worked_log = fst (worker_run sample_worker no_floats (run_input.truncate (sample_run False)) sample_log)"

theorem worker_calls_stay_in_delegation_witness:
  "map (\<lambda>(k, t, args). (k, tl_name t, map fst args)) (wl_calls worked_log) = [(0, ''native.search_workspace'', [''query''])]
    \<and> length (wl_calls worked_log) \<le> 4"
proof -
  have "delegate.reaches sample_worker no_floats sample_log worked_log"
    unfolding worked_log_def by (rule worker_run_reaches)
  moreover have "wl_calls sample_log = []" "wl_progress sample_log = initial_progress" by (simp_all add: sample_log_def)
  moreover have "tools_of (wl_agents sample_log) (run_of sample_worker) = Some 0"
    by (simp add: tools_of_def sample_log_def run_of_def sample_worker_def delegated_run_def new_run_def row_get_def)
  ultimately have "length (wl_calls worked_log) \<le> dq_max_tool_calls (wk_request sample_worker)"
    by (rule worker_calls_stay_in_delegation [THEN conjunct1])
  moreover have "map (\<lambda>(k, t, args). (k, tl_name t, map fst args)) (wl_calls worked_log) = [(0, ''native.search_workspace'', [''query''])]"
    by code_simp
  ultimately show ?thesis by (simp add: sample_worker_def sample_request_def)
qed

definition data_worker :: worker where
  "data_worker = sample_worker\<lparr>wk_request := sample_request\<lparr>dq_agent_id := ''data''\<rparr>\<rparr>"

definition analysed :: work_progress where
  "analysed = initial_progress\<lparr>wg_evidence := [bare_evidence ''ev_x'' Src_analysis ''t''], wg_analysis := Some (''x'', [(''m'', JInt 1)])\<rparr>"

definition sample_report :: "worker_log \<times> delegation_result result" where
  "sample_report = worker_contract data_worker False (Inr RUNNING) no_proposal analysed sample_log"

theorem worker_report_is_grounded_witness:
  "rs_evidence_ids (projr (snd sample_report)) = [''ev_x''] \<and> rs_status (projr (snd sample_report)) = Rs_completed
    \<and> wg_errors analysed = []"
proof -
  have "is_ok (snd sample_report)" by code_simp
  then have "worker_contract data_worker False (Inr RUNNING) no_proposal analysed sample_log
      = (fst sample_report, Inr (projr (snd sample_report)))"
    by (auto simp: is_ok_iff sample_report_def [symmetric] prod_eq_iff)
  note report = worker_report_is_grounded [OF this]
  have ids: "map fst (collected data_worker analysed) = [''ev_x'']" by code_simp
  have status: "rs_status (projr (snd sample_report)) = Rs_completed" by code_simp
  from report status have "wg_errors analysed = []" by (elim conjE) (drule mp, assumption, elim conjE)
  then show ?thesis using report [THEN conjunct1] ids status by simp
qed

definition sample_agents :: agents where
  "sample_agents = [(''research'', \<lparr>ag_id = ''research'', ag_name = ''r'', ag_description = ''r'', ag_capabilities = [''research.web''],
     ag_tool_capabilities = [''workspace.search''], ag_can_delegate = False, ag_enabled = True, ag_max_iterations = 4,
     ag_max_tool_calls = 4, ag_context_policy = ''p'', ag_output_contract = ''ResearchAgentResult''\<rparr>)]"

definition sample_failure :: "worker_log \<times> delegation_result result" where
  "sample_failure = agent_worker sample_agents (\<lambda>_. None) sample_worker no_floats (sample_run True) sample_log"

theorem started_delegation_is_settled_witness:
  "rs_delegation_id (projr (snd sample_failure)) = ''d'' \<and> is_ok (snd sample_failure)"
proof -
  let ?reg = sample_agents and ?cfg = "\<lambda>_. None :: int option"
  let ?i = "sample_run True" and ?d = "delegation_of 0 ''r'' sample_request"
  have valid: "is_ok (validate_request ?reg ?cfg (truthy (dq_task_id (wk_request sample_worker)) \<and> di_cancelled ?i) 0 (wk_request sample_worker))"
    by code_simp
  have stored: "get_delegation (wl_agents sample_log) (dq_id (wk_request sample_worker)) = Inr ?d" "dl_result ?d = None"
      "dl_agent ?d = dq_agent_id (wk_request sample_worker)"
    by (simp_all add: get_delegation_def sample_log_def sample_worker_def delegation_of_def sample_request_def row_get_def)
  have run: "get_run (wl_agents sample_log) (dl_run ?d) = Inr ((delegated_run ''r'' sample_request)\<lparr>ar_progress := None\<rparr>)"
      "ar_attempts ((delegated_run ''r'' sample_request)\<lparr>ar_progress := None\<rparr>) < 3"
    by (simp_all add: get_run_def sample_log_def delegation_of_def delegated_run_def new_run_def row_get_def)
  have failed: "snd (run_delegation ?cfg sample_worker no_floats ?i ?d (started_log sample_worker (di_started ?i) sample_log))
      = Inl (Timeout_Error ''Agent time budget exhausted'')" by code_simp
  have names: "length (error_name e) \<le> 2900" if "snd (run_delegation ?cfg sample_worker no_floats ?i ?d (started_log sample_worker (di_started ?i) sample_log)) = Inl e" for e
    using that unfolding failed by (auto simp: error_name_def)
  have answer: "agent_worker ?reg ?cfg sample_worker no_floats ?i sample_log = (fst sample_failure, snd sample_failure)"
    by (simp add: sample_failure_def)
  from started_delegation_is_settled [OF valid stored run names answer]
  show ?thesis using failed by (auto simp: sample_worker_def sample_request_def)
qed

end
