(* ===== verification/Sessions.thy ===== *)
theory Sessions
  imports Workspace_Store Execution_Harness Context_Harness Json_Text Tool_Policy
begin

text \<open>
  \<open>server/sessions.py\<close>: the store of conversations, the manager that keeps the live runtime of each, and the
  handling of one question.  The messages of the agent framework go through its own dictionaries
  (\<open>messages_to_dict\<close>, \<open>messages_from_dict\<close>: parameters); what an agent answers, whether an index can be loaded
  and what a PDF holds are inputs.  The lock of a session makes one question at a time of it.
\<close>

section \<open>Messages\<close>

record chat_message =
  cm_role :: role
  cm_content :: json
  cm_tool_calls :: "json list"
  cm_extra :: "(string, json) dict"        \<comment> \<open>\<open>additional_kwargs\<close>\<close>

record session_env =
  sv_to_dict :: "chat_message \<Rightarrow> json"
  sv_of_dict :: "json \<Rightarrow> chat_message result"
  sv_float :: "rat \<Rightarrow> string"
  sv_read :: "string \<Rightarrow> rat option"
  sv_iso :: "time \<Rightarrow> string"
  sv_secrets :: "string list"
  sv_config :: "string \<Rightarrow> int option"
  sv_seconds :: "string \<Rightarrow> rat option"
  sv_model :: string                       \<comment> \<open>\<open>EMBEDDING_MODEL\<close>\<close>
  sv_registry :: bool                      \<comment> \<open>\<open>TOOL_REGISTRY_ENABLED\<close>: the tool and agent services exist\<close>

definition message_text :: "session_env \<Rightarrow> chat_message \<Rightarrow> string" where
  "message_text e m = (case cm_content m of JStr s \<Rightarrow> s | v \<Rightarrow> dumps_plain (sv_float e) v)"

definition human :: "string \<Rightarrow> chat_message" where
  "human t = \<lparr>cm_role = Human, cm_content = JStr t, cm_tool_calls = [], cm_extra = []\<rparr>"

definition answers :: "session_env \<Rightarrow> chat_message \<Rightarrow> bool" where
  \<comment> \<open>an assistant's message that is an answer and not a call of tools\<close>
  "answers e m = (cm_role m = Assistant \<and> cm_tool_calls m = [] \<and> strip (message_text e m) \<noteq> [])"

section \<open>The store\<close>

record session_row =
  sn_id :: ident
  sn_file_id :: string
  sn_file_name :: string
  sn_pdf_path :: string
  sn_chroma_dir :: string
  sn_embedding_model :: string
  sn_messages :: string
  sn_created_at :: time
  sn_updated_at :: time
  sn_workspace_id :: "ident option"
  sn_created_by :: "ident option"

record session_db =
  sd_rows :: "session_row list"
  sd_creators :: bool                      \<comment> \<open>the table has the column \<open>created_by_user_id\<close>\<close>

record session_record =
  so_id :: ident
  so_file_id :: string
  so_file_name :: string
  so_pdf_path :: string
  so_chroma_dir :: string
  so_embedding_model :: string
  so_created_at :: time
  so_updated_at :: time
  so_turns :: nat
  so_workspace_id :: "ident option"
  so_created_by :: "ident option"

definition is_human :: "json \<Rightarrow> bool" where
  "is_human m = (case m of JObj d \<Rightarrow> map_of d ''type'' = Some (JStr ''human'') | _ \<Rightarrow> False)"

definition count_human :: "json \<Rightarrow> nat result" where
  "count_human v = (case v of
     JList ms \<Rightarrow> if list_all (\<lambda>m. case m of JObj d \<Rightarrow> True | _ \<Rightarrow> False) ms then Inr (length (filter is_human ms))
       else Inl (Provider_Error ''AttributeError'')
   | JStr s \<Rightarrow> if s = [] then Inr 0 else Inl (Provider_Error ''AttributeError'')
   | JObj d \<Rightarrow> if d = [] then Inr 0 else Inl (Provider_Error ''AttributeError'')
   | _ \<Rightarrow> Inl Type_Error)"

definition record_from_row :: "session_env \<Rightarrow> session_row \<Rightarrow> session_record result" where
  "record_from_row e r = rbind (loads (sv_read e) (sn_messages r)) (\<lambda>v. rbind (count_human v) (\<lambda>n.
     Inr \<lparr>so_id = sn_id r, so_file_id = sn_file_id r, so_file_name = sn_file_name r, so_pdf_path = sn_pdf_path r,
       so_chroma_dir = sn_chroma_dir r, so_embedding_model = sn_embedding_model r, so_created_at = sn_created_at r,
       so_updated_at = sn_updated_at r, so_turns = n, so_workspace_id = sn_workspace_id r,
       so_created_by = sn_created_by r\<rparr>))"

definition public_view :: "session_env \<Rightarrow> session_record \<Rightarrow> (string, json) dict" where
  \<comment> \<open>\<open>public_dict\<close>: neither the path of the PDF nor that of the index leaves the server\<close>
  "public_view e r =
     (let optional = (\<lambda>x. case x of None \<Rightarrow> JNull | Some s \<Rightarrow> JStr s) in
      [(''session_id'', JStr (so_id r)), (''file_id'', JStr (so_file_id r)), (''file_name'', JStr (so_file_name r)),
       (''embedding_model'', JStr (so_embedding_model r)), (''created_at'', JStr (sv_iso e (so_created_at r))),
       (''updated_at'', JStr (sv_iso e (so_updated_at r))), (''turn_count'', JInt (int (so_turns r))),
       (''workspace_id'', optional (so_workspace_id r)), (''created_by_user_id'', optional (so_created_by r))])"

definition session_get :: "session_env \<Rightarrow> ident \<Rightarrow> session_db \<Rightarrow> session_record option result" where
  "session_get e i db = (case row_get sn_id i (sd_rows db) of
     None \<Rightarrow> Inr None | Some r \<Rightarrow> rbind (record_from_row e r) (\<lambda>x. Inr (Some x)))"

definition session_create ::
  "session_env \<Rightarrow> time \<Rightarrow> session_row \<Rightarrow> session_db \<Rightarrow> (session_db \<times> session_record) result" where
  \<comment> \<open>the row carries the arguments; its conversation is empty and its times are those of the insertion\<close>
  "session_create e now row db =
     (let new = row\<lparr>sn_messages := ''[]'', sn_created_at := now, sn_updated_at := now\<rparr> in
      rbind (row_insert sn_id new (sd_rows db)) (\<lambda>rows.
        if sn_created_by row \<noteq> None \<and> \<not> sd_creators db then Inl (Provider_Error ''OperationalError'')
        else let db' = db\<lparr>sd_rows := rows\<rparr> in
          rbind (session_get e (sn_id row) db') (\<lambda>found. case found of
            None \<Rightarrow> Inl (Runtime_Error ''Session was not persisted'') | Some r \<Rightarrow> Inr (db', r))))"

definition session_list :: "session_env \<Rightarrow> session_db \<Rightarrow> session_record list result" where
  "session_list e db = rmap (record_from_row e) (sort_by (\<lambda>a b. sn_updated_at b \<le> sn_updated_at a) (sd_rows db))"

definition load_messages :: "session_env \<Rightarrow> ident \<Rightarrow> session_db \<Rightarrow> chat_message list result" where
  "load_messages e i db = (case row_get sn_id i (sd_rows db) of
     None \<Rightarrow> Inl (Session_Not_Found i)
   | Some r \<Rightarrow> rbind (loads (sv_read e) (sn_messages r)) (\<lambda>v. case v of
       JList ms \<Rightarrow> rmap (sv_of_dict e) ms | _ \<Rightarrow> Inl Type_Error))"

definition stored_text :: "session_env \<Rightarrow> chat_message list \<Rightarrow> string" where
  "stored_text e ms = dumps_plain (sv_float e) (JList (map (sv_to_dict e) ms))"

definition save_messages ::
  "session_env \<Rightarrow> time \<Rightarrow> ident \<Rightarrow> chat_message list \<Rightarrow> session_db \<Rightarrow> session_db result" where
  "save_messages e now i ms db = (case row_get sn_id i (sd_rows db) of
     None \<Rightarrow> Inl (Session_Not_Found i)
   | Some r \<Rightarrow> Inr (db\<lparr>sd_rows := row_put sn_id (r\<lparr>sn_messages := stored_text e ms, sn_updated_at := now\<rparr>) (sd_rows db)\<rparr>))"

section \<open>The history shown to a user\<close>

definition history_entry :: "session_env \<Rightarrow> chat_message \<Rightarrow> (string, json) dict list" where
  "history_entry e m =
     (if cm_role m = Human then [[(''role'', JStr ''user''), (''content'', JStr (message_text e m))]]
      else if answers e m
      then [[(''role'', JStr ''assistant''), (''content'', JStr (message_text e m))]
        @ (case map_of (cm_extra m) ''research'' of
             Some v \<Rightarrow> if json_truthy v then [(''research'', v)] else [] | None \<Rightarrow> [])]
      else [])"

definition get_history :: "session_env \<Rightarrow> ident \<Rightarrow> session_db \<Rightarrow> (string, json) dict list result" where
  "get_history e i db = rbind (load_messages e i db) (\<lambda>ms. Inr (concat (map (history_entry e) ms)))"

section \<open>Live sessions\<close>

record live_session =
  lv_messages :: "chat_message list"
  lv_workspace :: "ident option"
  lv_harness :: context_harness
  lv_reported :: bool                      \<comment> \<open>\<open>last_report\<close> is set\<close>

record session_manager =
  sm_store :: session_db
  sm_workspaces :: workspace_db
  sm_live :: "(ident, live_session) dict"

definition required :: "session_env \<Rightarrow> string \<Rightarrow> int result" where
  "required e k = (case sv_config e k of None \<Rightarrow> Inl (Key_Error k) | Some n \<Rightarrow> Inr n)"

definition session_harness :: "session_env \<Rightarrow> context_harness result" where
  "session_harness e =
     rbind (required e ''MODEL_CONTEXT_WINDOW_TOKENS'') (\<lambda>window.
     rbind (required e ''CONTEXT_INPUT_BUDGET_TOKENS'') (\<lambda>input_budget.
     rbind (required e ''MAX_OUTPUT_TOKENS'') (\<lambda>output.
     rbind (required e ''CONTEXT_SAFETY_TOKENS'') (\<lambda>safety.
     rbind (required e ''CONTEXT_SUMMARY_TOKENS'') (\<lambda>summary.
     rbind (required e ''CONTEXT_RECENT_TURNS'') (\<lambda>recent.
       make_context_harness window input_budget output safety summary recent 2))))))"

definition make_runtime ::
  "session_env \<Rightarrow> unit result \<Rightarrow> chat_message list \<Rightarrow> ident option \<Rightarrow> live_session result" where
  \<comment> \<open>\<open>built\<close>: whether the retriever, the tools and the agent can be built\<close>
  "make_runtime e built ms w = rbind built (\<lambda>_. rbind (session_harness e) (\<lambda>h.
     Inr \<lparr>lv_messages = ms, lv_workspace = w, lv_harness = h, lv_reported = False\<rparr>))"

definition harness_of :: "session_env \<Rightarrow> harness result" where
  "harness_of e =
     (let n = (\<lambda>k d. case sv_config e k of None \<Rightarrow> d | Some v \<Rightarrow> v);
          s = (\<lambda>k d. case sv_seconds e k of None \<Rightarrow> d | Some v \<Rightarrow> v) in
      make_harness (n ''AGENT_MAX_GRAPH_STEPS'' 35) (n ''AGENT_MAX_ATTEMPTS'' 2)
        (s ''AGENT_RETRY_BASE_SECONDS'' (1/2)) (s ''AGENT_EXECUTION_TIMEOUT_SECONDS'' 120))"

definition keep_live :: "ident \<Rightarrow> live_session \<Rightarrow> session_manager \<Rightarrow> session_manager" where
  "keep_live i l m = m\<lparr>sm_live := dict_put i l (sm_live m)\<rparr>"

record ingested =
  ig_file_id :: string
  ig_file_name :: string
  ig_pdf_path :: string
  ig_index_dir :: string
  ig_status :: string
  ig_reused :: bool
  ig_size :: nat

definition new_session_row :: "session_env \<Rightarrow> ident \<Rightarrow> session_row" where
  "new_session_row e i = \<lparr>sn_id = i, sn_file_id = [], sn_file_name = [], sn_pdf_path = [], sn_chroma_dir = [],
     sn_embedding_model = sv_model e, sn_messages = ''[]'', sn_created_at = 0, sn_updated_at = 0,
     sn_workspace_id = None, sn_created_by = None\<rparr>"

definition create_session ::
  "session_env \<Rightarrow> time \<Rightarrow> ident \<Rightarrow> ingested result \<Rightarrow> unit result \<Rightarrow> session_manager \<Rightarrow>
   session_manager \<times> (string, json) dict result" where
  "create_session e now new_id answer built m =
     (case rbind answer (\<lambda>g. rbind (make_runtime e built [] None) (\<lambda>l.
        rbind (session_create e now ((new_session_row e new_id)\<lparr>sn_file_id := ig_file_id g,
            sn_file_name := ig_file_name g, sn_pdf_path := ig_pdf_path g, sn_chroma_dir := ig_index_dir g\<rparr>) (sm_store m))
          (\<lambda>(db, r). Inr (db, r, l, g)))) of
        Inl x \<Rightarrow> (m, Inl x)
      | Inr (db, r, l, g) \<Rightarrow> (keep_live new_id l (m\<lparr>sm_store := db\<rparr>),
          Inr (dict_merge (public_view e r) [(''index_status'', JStr (ig_status g)), (''index_reused'', JBool (ig_reused g)),
            (''size_bytes'', JInt (int (ig_size g)))])))"

definition create_workspace_session ::
  "session_env \<Rightarrow> time \<Rightarrow> ident \<Rightarrow> ident option \<Rightarrow> ident \<Rightarrow> session_manager \<Rightarrow>
   session_manager \<times> (string, json) dict result" where
  \<comment> \<open>the creator is given by the repository boundary, and \<open>None\<close> without accounts\<close>
  "create_workspace_session e now new_id creator w m =
     (case rbind (get_workspace w (sm_workspaces m)) (\<lambda>k.
        session_create e now ((new_session_row e new_id)\<lparr>sn_file_name := wk_name k, sn_workspace_id := Some w,
          sn_created_by := creator\<rparr>) (sm_store m)) of
        Inl x \<Rightarrow> (m, Inl x)
      | Inr (db, r) \<Rightarrow> (m\<lparr>sm_store := db\<rparr>, Inr (public_view e r)))"

definition add_workspace_document ::
  "session_env \<Rightarrow> time \<Rightarrow> ident \<Rightarrow> unit result \<Rightarrow> ident \<Rightarrow> ingested result \<Rightarrow> nat result \<Rightarrow> session_manager \<Rightarrow>
   session_manager \<times> (document_record \<times> bool \<times> nat) result" where
  \<comment> \<open>whether the caller may, what the ingestion answers, the pages of the PDF\<close>
  "add_workspace_document e now new_id authorized w answer pages m =
     (case rbind authorized (\<lambda>_. rbind (get_workspace w (sm_workspaces m)) (\<lambda>_. rbind answer (\<lambda>g. rbind pages (\<lambda>n.
        rbind (register_document (nat (case sv_config e ''WORKSPACE_MAX_DOCUMENTS'' of None \<Rightarrow> 20 | Some k \<Rightarrow> k))
          \<lparr>dr_id = new_id, dr_workspace_id = w, dr_filename = ig_file_name g, dr_display_name = ig_file_name g,
           dr_fingerprint = ig_file_id g, dr_index_id = ig_index_dir g, dr_status = ig_status g,
           dr_page_count = Some n, dr_created_at = now,
           dr_metadata = [(''pdf_path'', JStr (ig_pdf_path g)), (''embedding_model'', JStr (sv_model e))]\<rparr> (sm_workspaces m))
          (\<lambda>(db, d). Inr (db, d, g)))))) of
        Inl x \<Rightarrow> (m, Inl x)
      | Inr (db, d, g) \<Rightarrow> (m\<lparr>sm_workspaces := db\<rparr>, Inr (d, ig_reused g, ig_size g)))"

definition restore_runtime ::
  "session_env \<Rightarrow> unit result \<Rightarrow> unit result \<Rightarrow> ident \<Rightarrow> session_manager \<Rightarrow> session_manager \<times> live_session result" where
  \<comment> \<open>\<open>_get_or_restore_runtime\<close>; \<open>indexed\<close>: the stored index can be loaded\<close>
  "restore_runtime e indexed built i m =
     (case map_of (sm_live m) i of
        Some l \<Rightarrow> (m, Inr l)
      | None \<Rightarrow>
          (case rbind (session_get e i (sm_store m)) (\<lambda>found. case found of
             None \<Rightarrow> Inl (Session_Not_Found i)
           | Some r \<Rightarrow>
               if truthy (so_workspace_id r)
               then rbind (get_workspace (the (so_workspace_id r)) (sm_workspaces m)) (\<lambda>_.
                 rbind (load_messages e i (sm_store m)) (\<lambda>ms. make_runtime e built ms (so_workspace_id r)))
               else if is_ok indexed
               then rbind (load_messages e i (sm_store m)) (\<lambda>ms. make_runtime e built ms None)
               else Inl (Session_Unavailable ''The PDF index for this session is unavailable'')) of
             Inl x \<Rightarrow> (m, Inl x)
           | Inr l \<Rightarrow> (keep_live i l m, Inr l)))"

section \<open>What the agent is given\<close>

text \<open>
  \<open>_ScopedAgent\<close>: the agent runs on the conversation and the trusted scope, with the tools of the moment, unless
  it resumes an interrupted run or continues a saved one.  The texts that leave the manager are cleaned of secrets.
  \<open>metadata\<close> of the call, which only traces read, is left out.
\<close>

datatype tool_choice = No_tools | Saved_tools json | Current_tools "(string, tool) dict"

datatype graph_call =
    Fresh_run "chat_message list" "(string, json) dict" tool_choice
  | Resume_run json
  | Continue_run

record agent_call =
  ag_call :: graph_call
  ag_thread :: "string option"
  ag_parallel :: "int option"

record graph_state =
  gv_agents :: bool                        \<comment> \<open>the agent has the services for delegation\<close>
  gv_supervised :: bool                    \<comment> \<open>the task has a supervisor run\<close>
  gv_pending :: "(string \<times> json) list"     \<comment> \<open>the interrupts, with the approval each one waits for\<close>
  gv_next :: bool                          \<comment> \<open>a saved run has nodes left\<close>
  gv_tools :: "(string, tool) dict option" \<comment> \<open>the agent's own registry\<close>
  gv_shared :: "(string, tool) dict"       \<comment> \<open>the registry of the tool service\<close>
  gv_thread :: ident                       \<comment> \<open>a new thread's identifier\<close>

definition clean_chat :: "string list \<Rightarrow> chat_message \<Rightarrow> chat_message" where
  "clean_chat vs m = m\<lparr>cm_content := clean vs (cm_content m), cm_tool_calls := map (clean vs) (cm_tool_calls m),
     cm_extra := clean_entries vs (cm_extra m)\<rparr>"

definition merged_tools :: "(string, tool) dict \<Rightarrow> (string, tool) dict \<Rightarrow> (string, tool) dict" where
  \<comment> \<open>the native tools are the agent's own, bound to its session; the others are the shared ones\<close>
  "merged_tools own shared = dict_merge (filter (\<lambda>(n, t). tl_provider t \<noteq> ''native'') shared)
     (filter (\<lambda>(n, t). tl_provider t = ''native'') own)"

definition tools_given :: "(string, json) dict \<Rightarrow> graph_state \<Rightarrow> tool_choice" where
  "tools_given scope g = (case gv_tools g of
     None \<Rightarrow> No_tools
   | Some own \<Rightarrow> (case dict_get scope ''task_resume'' (JObj []) of
       JObj d \<Rightarrow> (case map_of d ''tool_snapshot'' of
           Some v \<Rightarrow> if json_truthy v then Saved_tools v else Current_tools (merged_tools own (gv_shared g))
         | None \<Rightarrow> Current_tools (merged_tools own (gv_shared g)))
     | _ \<Rightarrow> Current_tools (merged_tools own (gv_shared g))))"

definition task_of :: "(string, json) dict \<Rightarrow> ident option" where
  "task_of scope = (case map_of scope ''task_id'' of Some (JStr t) \<Rightarrow> if t = [] then None else Some t | _ \<Rightarrow> None)"

definition agent_call_of ::
  "session_env \<Rightarrow> graph_state \<Rightarrow> (string, json) dict \<Rightarrow> chat_message list \<Rightarrow> agent_call" where
  "agent_call_of e g scope ms =
     (let task = task_of scope; resume = dict_get scope ''approval_resume_id'' JNull; vs = sv_secrets e;
          supervised = gv_agents g \<and> task \<noteq> None \<and> gv_supervised g;
          call = (if \<not> sv_registry e then Fresh_run ms scope No_tools
            else if json_truthy resume then Resume_run (if supervised then JObj (gv_pending g) else resume)
            else if supervised \<and> gv_next g then Continue_run
            else Fresh_run (map (clean_chat vs) ms) (clean_entries vs scope) (tools_given scope g)) in
      \<lparr>ag_call = call,
       ag_thread = (if \<not> sv_registry e then None
         else Some (case task of Some t \<Rightarrow> ''task:'' @ t | None \<Rightarrow> ''chat:'' @ gv_thread g)),
       ag_parallel = (if gv_agents g then Some (case sv_config e ''MULTI_AGENT_MAX_PARALLEL'' of None \<Rightarrow> 3 | Some n \<Rightarrow> n)
         else None)\<rparr>)"

section \<open>One question\<close>

record agent_output =
  ao_interrupted :: bool
  ao_messages :: "chat_message list"
  ao_values :: "(string, json) dict"

record turn_input =
  ti_indexed :: "unit result"
  ti_built :: "unit result"
  ti_pages :: "nat option result"          \<comment> \<open>of the session's own PDF; \<open>None\<close> when the file is gone\<close>
  ti_state :: graph_state
  ti_agent :: "agent_call \<Rightarrow> nat \<Rightarrow> agent_output invocation"
  ti_cancelled_first :: bool
  ti_cancelled :: "nat \<Rightarrow> bool"
  ti_cancelled_after :: "nat \<Rightarrow> bool"
  ti_timed_out :: bool
  ti_reported :: bool                      \<comment> \<open>the run prepared a context\<close>
  ti_run_id :: ident
  ti_now :: time

record question =
  qn_message :: string
  qn_workspace :: "ident option"
  qn_scope :: string
  qn_context :: "(string, json) dict"      \<comment> \<open>\<open>runtime_context\<close>\<close>

record agent_reply =
  ry_answer :: string
  ry_attempts :: nat
  ry_citations :: json
  ry_evidence :: json
  ry_plan :: json
  ry_trace :: json
  ry_artifacts :: json

datatype turn_reply = Paused nat | Replied agent_reply

definition source_scopes :: "string list" where
  "source_scopes = [''workspace_only'', ''workspace_and_external'', ''external'']"

definition pages_json :: "nat option \<Rightarrow> json" where
  "pages_json n = (case n of None \<Rightarrow> JNull | Some k \<Rightarrow> JInt (int k))"

definition runtime_scope ::
  "session_record \<Rightarrow> string \<Rightarrow> nat option result \<Rightarrow> workspace_db \<Rightarrow> (string, json) dict result" where
  "runtime_scope r scope pages ws =
     (let base = [(''workspace_id'', case so_workspace_id r of None \<Rightarrow> JNull | Some w \<Rightarrow> JStr w),
            (''source_scope'', JStr scope), (''session_id'', JStr (so_id r)),
            (''owner_id'', JStr (if truthy (so_created_by r) then the (so_created_by r) else ''local_default''))] in
      if truthy (so_workspace_id r)
      then rbind (documents (the (so_workspace_id r)) ws) (\<lambda>ds.
        Inr (base @ [(''document_registry'', JObj (dict_merge [] (map (\<lambda>d. (dr_id d, pages_json (dr_page_count d))) ds)))]))
      else if so_pdf_path r \<noteq> []
      then rbind pages (\<lambda>found. case found of
          None \<Rightarrow> Inr base
        | Some n \<Rightarrow> Inr (base @ [(''document_registry'', JObj [(so_file_id r, JInt (int n))]),
            (''document_metadata'', JObj [(''document_id'', JStr (so_file_id r)), (''document_name'', JStr (so_file_name r)),
               (''page_count'', JInt (int n))])]))
      else Inr base)"

definition attach_research :: "agent_output \<Rightarrow> chat_message list" where
  "attach_research out =
     (let ms = ao_messages out; d = ao_values out in
      if ms \<noteq> [] \<and> cm_role (last ms) = Assistant \<and> map_of d ''trace_summary'' \<noteq> None
      then butlast ms @ [(last ms)\<lparr>cm_extra := dict_put ''research'' (JObj
             [(''citations'', dict_get d ''citations'' (JList [])), (''evidence'', dict_get d ''evidence'' (JList [])),
              (''plan'', dict_get d ''task_plan'' JNull), (''trace_summary'', dict_get d ''trace_summary'' (JObj [])),
              (''artifacts'', dict_get d ''artifacts'' (JList []))]) (cm_extra (last ms))\<rparr>]
      else ms)"

definition last_answer :: "session_env \<Rightarrow> chat_message list \<Rightarrow> chat_message option" where
  "last_answer e ms = find (answers e) (rev ms)"

definition agent_reply_of :: "session_env \<Rightarrow> agent_output \<Rightarrow> nat \<Rightarrow> chat_message \<Rightarrow> agent_reply" where
  \<comment> \<open>without the latency in the trace summary\<close>
  "agent_reply_of e out n m = (let d = ao_values out in
     \<lparr>ry_answer = message_text e m, ry_attempts = n, ry_citations = dict_get d ''citations'' (JList []),
      ry_evidence = dict_get d ''evidence'' (JList []), ry_plan = dict_get d ''task_plan'' JNull,
      ry_trace = dict_get d ''trace_summary'' (JObj []), ry_artifacts = dict_get d ''artifacts'' (JList [])\<rparr>)"

definition check_question :: "session_env \<Rightarrow> ident \<Rightarrow> question \<Rightarrow> session_manager \<Rightarrow> session_record result" where
  "check_question e i q m =
     (if qn_scope q \<notin> set source_scopes then Inl (Value_Error ''Invalid source scope'')
      else if strip (qn_message q) = [] then Inl (Value_Error ''Message cannot be empty'')
      else rbind (session_get e i (sm_store m)) (\<lambda>found. case found of
        None \<Rightarrow> Inl (Session_Not_Found i)
      | Some r \<Rightarrow>
          if qn_workspace q \<noteq> None \<and> qn_workspace q \<noteq> so_workspace_id r
          then Inl (Value_Error ''Workspace does not match this session; create a workspace session first'')
          else if truthy (so_workspace_id r)
          then rbind (get_workspace (the (so_workspace_id r)) (sm_workspaces m)) (\<lambda>_. Inr r)
          else Inr r))"

definition run_turn ::
  "session_env \<Rightarrow> ident \<Rightarrow> question \<Rightarrow> turn_input \<Rightarrow> session_record \<Rightarrow> live_session \<Rightarrow> workspace_db \<Rightarrow>
   agent_output execution_result result" where
  "run_turn e i q t r l ws =
     rbind (runtime_scope r (qn_scope q) (ti_pages t) ws) (\<lambda>scope.
     rbind (harness_of e) (\<lambda>h.
       let call = agent_call_of e (ti_state t) (dict_merge scope (qn_context q)) (lv_messages l @ [human (strip (qn_message q))]) in
       run_agent h (ti_run_id t) i (ti_timed_out t)
         (run_for_session h (ti_agent t call) (ti_cancelled_first t) (ti_cancelled t) (ti_cancelled_after t))))"

definition keep_turn ::
  "session_env \<Rightarrow> ident \<Rightarrow> turn_input \<Rightarrow> agent_output execution_result \<Rightarrow> live_session \<Rightarrow> session_manager \<Rightarrow>
   session_manager \<times> turn_reply result" where
  "keep_turn e i t x l m =
     (let out = er_output x; ms = attach_research out in
      case save_messages e (ti_now t) i ms (sm_store m) of
        Inl err \<Rightarrow> (m, Inl err)
      | Inr db \<Rightarrow>
          (let l' = l\<lparr>lv_messages := ms\<rparr>; m' = keep_live i l' (m\<lparr>sm_store := db\<rparr>) in
           case last_answer e ms of
             None \<Rightarrow> (m', Inl (Runtime_Error ''Agent did not return a final answer''))
           | Some a \<Rightarrow>
               if \<not> lv_reported l' then (m', Inl (Runtime_Error ''Agent did not produce a context report''))
               else (m', Inr (Replied (agent_reply_of e out (er_attempts x) a)))))"

definition ask ::
  "session_env \<Rightarrow> ident \<Rightarrow> question \<Rightarrow> turn_input \<Rightarrow> session_manager \<Rightarrow> session_manager \<times> turn_reply result" where
  "ask e i q t m =
     sbind (m, check_question e i q m) (\<lambda>r m.
     sbind (restore_runtime e (ti_indexed t) (ti_built t) i m) (\<lambda>l m.
       let l' = l\<lparr>lv_reported := lv_reported l \<or> ti_reported t\<rparr> in
       case run_turn e i q t r l (sm_workspaces m) of
         Inl x \<Rightarrow> (keep_live i l' m, Inl x)
       | Inr x \<Rightarrow>
           if ao_interrupted (er_output x) then (keep_live i l' m, Inr (Paused (er_attempts x)))
           else keep_turn e i t x l' (keep_live i l' m)))"

end
