(* ===== verification/Sessions_Laws.thy ===== *)
theory Sessions_Laws
  imports Sessions
begin

text \<open>
  The conversation a session has in memory is the one it has in the store, through any sequence of
  questions, failures, interruptions and restarts, so that a restart is invisible; and what a question may change.
  The messages must survive the framework's dictionaries (\<open>codec_ok\<close>).
\<close>

section \<open>Conversations as text\<close>

definition codec_ok :: "session_env \<Rightarrow> chat_message \<Rightarrow> bool" where
  "codec_ok e x = (sv_of_dict e (sv_to_dict e x) = Inr x \<and> readable (sv_float e) (sv_read e) (sv_to_dict e x)
     \<and> (case sv_to_dict e x of JObj d \<Rightarrow> True | _ \<Rightarrow> False) \<and> is_human (sv_to_dict e x) = (cm_role x = Human))"

definition stores :: "session_env \<Rightarrow> string \<Rightarrow> chat_message list \<Rightarrow> bool" where
  "stores e t ms = (t = stored_text e ms \<and> (\<forall>x\<in>set ms. codec_ok e x))"

lemma empty_text: "stores e ''[]'' []"
  by (simp add: stores_def stored_text_def)

lemma stored_read: "stores e t ms \<Longrightarrow> loads (sv_read e) t = Inr (JList (map (sv_to_dict e) ms))"
proof -
  assume s: "stores e t ms"
  then have "readable (sv_float e) (sv_read e) (JList (map (sv_to_dict e) ms))"
    by (simp add: stores_def codec_ok_def list_all_iff)
  then have "loads (sv_read e) (stored_text e ms) = Inr (JList (map (sv_to_dict e) ms))"
    unfolding stored_text_def by (rule loads_dumps_plain)
  then show ?thesis using s by (simp add: stores_def)
qed

lemma stored_messages: "stores e t ms \<Longrightarrow> rmap (sv_of_dict e) (map (sv_to_dict e) ms) = Inr ms"
  by (intro rmap_map) (simp add: stores_def codec_ok_def)

lemma stored_turns: "stores e t ms \<Longrightarrow> count_human (JList (map (sv_to_dict e) ms)) = Inr (length (filter (\<lambda>x. cm_role x = Human) ms))"
proof -
  assume "stores e t ms"
  then have c: "\<forall>x\<in>set ms. codec_ok e x" by (simp add: stores_def)
  then have "list_all (\<lambda>m. case m of JObj d \<Rightarrow> True | _ \<Rightarrow> False) (map (sv_to_dict e) ms)"
    by (simp add: list_all_iff codec_ok_def)
  moreover have "length (filter is_human (map (sv_to_dict e) ms)) = length (filter (\<lambda>x. cm_role x = Human) ms)"
    using c by (induction ms) (auto simp: codec_ok_def)
  ultimately show ?thesis by (simp add: count_human_def)
qed

lemma load_stored: "row_get sn_id i (sd_rows db) = Some r \<Longrightarrow> stores e (sn_messages r) ms \<Longrightarrow> load_messages e i db = Inr ms"
  by (simp add: load_messages_def stored_read stored_messages)

lemma record_stored: "stores e (sn_messages r) ms \<Longrightarrow> \<exists>x. record_from_row e r = Inr x \<and> so_id x = sn_id r
    \<and> so_workspace_id x = sn_workspace_id r \<and> so_turns x = length (filter (\<lambda>x. cm_role x = Human) ms)"
  by (simp add: record_from_row_def stored_read stored_turns)

section \<open>The invariant of the manager\<close>

definition lives_in :: "session_env \<Rightarrow> session_db \<Rightarrow> ident \<Rightarrow> live_session \<Rightarrow> bool" where
  "lives_in e db i l = (case row_get sn_id i (sd_rows db) of
     None \<Rightarrow> False
   | Some r \<Rightarrow> stores e (sn_messages r) (lv_messages l)
       \<and> lv_workspace l = (if truthy (sn_workspace_id r) then sn_workspace_id r else None)
       \<and> session_harness e = Inr (lv_harness l))"

definition coherent :: "session_env \<Rightarrow> session_manager \<Rightarrow> bool" where
  "coherent e m = ((\<forall>r\<in>set (sd_rows (sm_store m)). \<exists>ms. stores e (sn_messages r) ms)
     \<and> (\<forall>i l. map_of (sm_live m) i = Some l \<longrightarrow> lives_in e (sm_store m) i l))"

lemma coherentD:
  assumes "coherent e m"
  shows "row_get sn_id i (sd_rows (sm_store m)) = Some r \<Longrightarrow> \<exists>ms. stores e (sn_messages r) ms"
    and "map_of (sm_live m) i = Some l \<Longrightarrow> lives_in e (sm_store m) i l"
  using assms row_get_Some_in [of sn_id i "sd_rows (sm_store m)" r] by (auto simp: coherent_def)

lemma coherent_live: "coherent e m \<Longrightarrow> lives_in e (sm_store m) i l \<Longrightarrow> coherent e (keep_live i l m)"
  by (auto simp: coherent_def keep_live_def row_simps split: if_splits)

lemma coherent_workspaces [simp]: "coherent e (m\<lparr>sm_workspaces := ws\<rparr>) = coherent e m"
  by (simp add: coherent_def)

lemma make_runtime_fields:
  "make_runtime e b ms w = Inr l \<Longrightarrow> lv_messages l = ms \<and> lv_workspace l = w \<and> session_harness e = Inr (lv_harness l)"
  by (auto simp: make_runtime_def rbind_Inr_iff)

lemma session_create_row:
  assumes "session_create e now row db = Inr (db', r)"
  shows "row_get sn_id (sn_id row) (sd_rows db) = None"
    and "sd_rows db' = sd_rows db @ [row\<lparr>sn_messages := ''[]'', sn_created_at := now, sn_updated_at := now\<rparr>]"
proof -
  let ?new = "row\<lparr>sn_messages := ''[]'', sn_created_at := now, sn_updated_at := now\<rparr>"
  have found: "db' = d" if "rbind g (\<lambda>x. case x of None \<Rightarrow> Inl y | Some z \<Rightarrow> Inr (d, z)) = Inr (db', r)" for g y d
    using that by (auto simp: rbind_Inr_iff split: option.splits)
  obtain rows where rows: "row_insert sn_id ?new (sd_rows db) = Inr rows"
    and rest: "(if sn_created_by row \<noteq> None \<and> \<not> sd_creators db then Inl (Provider_Error ''OperationalError'')
        else rbind (session_get e (sn_id row) (db\<lparr>sd_rows := rows\<rparr>)) (\<lambda>found. case found of
            None \<Rightarrow> Inl (Runtime_Error ''Session was not persisted'') | Some r \<Rightarrow> Inr (db\<lparr>sd_rows := rows\<rparr>, r))) = Inr (db', r)"
    using assms unfolding session_create_def Let_def rbind_Inr_iff by blast
  from rest have "db' = db\<lparr>sd_rows := rows\<rparr>" by (cases "sn_created_by row \<noteq> None \<and> \<not> sd_creators db") (simp, auto dest: found)
  then have db': "sd_rows db' = rows" by simp
  from rows have "row_get sn_id (sn_id ?new) (sd_rows db) = None \<and> rows = sd_rows db @ [?new]"
    by (simp only: row_insert_Inr)
  then show "row_get sn_id (sn_id row) (sd_rows db) = None" "sd_rows db' = sd_rows db @ [?new]"
    using db' by simp_all
qed

lemma coherent_create:
  assumes "coherent e m" and "session_create e now row (sm_store m) = Inr (db, r)"
  shows "coherent e (m\<lparr>sm_store := db\<rparr>)"
  unfolding coherent_def
proof (intro conjI allI impI)
  note new = session_create_row [OF assms(2)]
  show "\<forall>r\<in>set (sd_rows (sm_store (m\<lparr>sm_store := db\<rparr>))). \<exists>ms. stores e (sn_messages r) ms"
    using assms(1) new(2) empty_text by (auto simp: coherent_def)
  fix i l
  assume "map_of (sm_live (m\<lparr>sm_store := db\<rparr>)) i = Some l"
  then have "lives_in e (sm_store m) i l" using coherentD(2) [OF assms(1)] by simp
  then show "lives_in e (sm_store (m\<lparr>sm_store := db\<rparr>)) i l"
    using new by (auto simp: lives_in_def row_get_append split: option.splits)
qed

lemma coherent_new_live:
  assumes "coherent e m" and "session_create e now row (sm_store m) = Inr (db, r)"
    and "make_runtime e b [] None = Inr l" and "sn_workspace_id row = None"
  shows "coherent e (keep_live (sn_id row) l (m\<lparr>sm_store := db\<rparr>))"
proof (rule coherent_live [OF coherent_create [OF assms(1,2)]])
  note new = session_create_row [OF assms(2)]
  show "lives_in e (sm_store (m\<lparr>sm_store := db\<rparr>)) (sn_id row) l"
    using new make_runtime_fields [OF assms(3)] assms(4) empty_text
    by (simp add: lives_in_def row_get_append row_simps truthy_def)
qed

section \<open>A question\<close>

lemma session_get_stored:
  assumes "coherent e m"
  shows "session_get e i (sm_store m) = Inr None \<and> row_get sn_id i (sd_rows (sm_store m)) = None
    \<or> (\<exists>r ms x. row_get sn_id i (sd_rows (sm_store m)) = Some r \<and> stores e (sn_messages r) ms
        \<and> session_get e i (sm_store m) = Inr (Some x) \<and> so_workspace_id x = sn_workspace_id r)"
  using coherentD(1) [OF assms] record_stored
  by (cases "row_get sn_id i (sd_rows (sm_store m))") (fastforce simp: session_get_def)+

lemma restore_live:
  assumes "coherent e m" and "restore_runtime e indexed built i m = (m', Inr l)"
  shows "lives_in e (sm_store m) i l \<and> coherent e m' \<and> sm_store m' = sm_store m \<and> sm_workspaces m' = sm_workspaces m"
proof (cases "map_of (sm_live m) i")
  case (Some l')
  then show ?thesis using assms coherentD(2) [OF assms(1)] by (auto simp: restore_runtime_def)
next
  case None
  then obtain x where x: "session_get e i (sm_store m) = Inr (Some x)" and m': "m' = keep_live i l m"
    and made: "if truthy (so_workspace_id x)
      then \<exists>ms. load_messages e i (sm_store m) = Inr ms \<and> make_runtime e built ms (so_workspace_id x) = Inr l
      else \<exists>ms. load_messages e i (sm_store m) = Inr ms \<and> make_runtime e built ms None = Inr l"
    using assms(2) by (auto simp: restore_runtime_def rbind_Inr_iff split: sum.splits option.splits if_splits)
  from session_get_stored [OF assms(1), of i] x obtain r ms where
    r: "row_get sn_id i (sd_rows (sm_store m)) = Some r" "stores e (sn_messages r) ms" "so_workspace_id x = sn_workspace_id r"
    by auto
  have "lives_in e (sm_store m) i l"
    using made r load_stored [OF r(1,2)] by (auto simp: lives_in_def dest!: make_runtime_fields split: if_splits)
  then show ?thesis using m' coherent_live [OF assms(1)] by (simp add: keep_live_def)
qed

lemma restore_failed: "restore_runtime e indexed built i m = (m', Inl x) \<Longrightarrow> m' = m"
  by (auto simp: restore_runtime_def split: option.splits sum.splits)

lemma lives_reported [simp]: "lives_in e db i (l\<lparr>lv_reported := b\<rparr>) = lives_in e db i l"
  by (simp add: lives_in_def split: option.split)

lemma save_messages_row:
  assumes "save_messages e now i ms db = Inr db'"
  obtains r where "row_get sn_id i (sd_rows db) = Some r"
    "db' = db\<lparr>sd_rows := row_put sn_id (r\<lparr>sn_messages := stored_text e ms, sn_updated_at := now\<rparr>) (sd_rows db)\<rparr>"
  using assms by (auto simp: save_messages_def split: option.splits)

lemma save_messages_get:
  assumes "save_messages e now i ms db = Inr db'"
  obtains r where "row_get sn_id i (sd_rows db) = Some r"
    "\<And>j. row_get sn_id j (sd_rows db') = (if j = i then Some (r\<lparr>sn_messages := stored_text e ms, sn_updated_at := now\<rparr>)
      else row_get sn_id j (sd_rows db))"
proof (rule save_messages_row [OF assms])
  fix r
  assume r: "row_get sn_id i (sd_rows db) = Some r"
    and db': "db' = db\<lparr>sd_rows := row_put sn_id (r\<lparr>sn_messages := stored_text e ms, sn_updated_at := now\<rparr>) (sd_rows db)\<rparr>"
  let ?r = "r\<lparr>sn_messages := stored_text e ms, sn_updated_at := now\<rparr>"
  have id: "sn_id ?r = i" using row_get_Some_key [OF r] by simp
  show thesis
    by (rule that [OF r]) (use r id in \<open>simp add: db' rows.get_put\<close>)
qed

lemma coherent_save:
  assumes "coherent e m" and "save_messages e now i ms (sm_store m) = Inr db" and "\<forall>x\<in>set ms. codec_ok e x"
    and "lives_in e (sm_store m) i l"
  shows "coherent e (keep_live i (l\<lparr>lv_messages := ms\<rparr>) (m\<lparr>sm_store := db\<rparr>))"
  unfolding coherent_def
proof (intro conjI allI impI)
  obtain r where r: "row_get sn_id i (sd_rows (sm_store m)) = Some r"
    and db: "db = (sm_store m)\<lparr>sd_rows := row_put sn_id (r\<lparr>sn_messages := stored_text e ms, sn_updated_at := now\<rparr>) (sd_rows (sm_store m))\<rparr>"
    using assms(2) by (rule save_messages_row)
  obtain r' where r': "row_get sn_id i (sd_rows (sm_store m)) = Some r'" and get: "\<And>j. row_get sn_id j (sd_rows db) = (if j = i then Some (r'\<lparr>sn_messages := stored_text e ms, sn_updated_at := now\<rparr>)
      else row_get sn_id j (sd_rows (sm_store m)))" using assms(2) by (rule save_messages_get) blast
  have new: "stores e (stored_text e ms) ms" using assms(3) by (simp add: stores_def)
  show "\<forall>r\<in>set (sd_rows (sm_store (keep_live i (l\<lparr>lv_messages := ms\<rparr>) (m\<lparr>sm_store := db\<rparr>)))). \<exists>ms. stores e (sn_messages r) ms"
    using assms(1) row_put_sub [of sn_id "r\<lparr>sn_messages := stored_text e ms, sn_updated_at := now\<rparr>" "sd_rows (sm_store m)"] new
    by (auto simp: coherent_def keep_live_def db dest!: subsetD)
  fix j k
  assume k: "map_of (sm_live (keep_live i (l\<lparr>lv_messages := ms\<rparr>) (m\<lparr>sm_store := db\<rparr>))) j = Some k"
  show "lives_in e (sm_store (keep_live i (l\<lparr>lv_messages := ms\<rparr>) (m\<lparr>sm_store := db\<rparr>))) j k"
  proof (cases "j = i")
    case True
    then have "k = l\<lparr>lv_messages := ms\<rparr>" using k by (simp add: keep_live_def row_simps)
    then show ?thesis using True assms(4) get new r' by (simp add: lives_in_def keep_live_def)
  next
    case False
    then have "lives_in e (sm_store m) j k" using k coherentD(2) [OF assms(1)] by (simp add: keep_live_def row_simps)
    then show ?thesis using get False by (simp add: lives_in_def keep_live_def)
  qed
qed

definition turn_safe :: "session_env \<Rightarrow> turn_input \<Rightarrow> bool" where
  \<comment> \<open>every message an agent answers with, as it is kept, survives the framework's dictionaries\<close>
  "turn_safe e t = (\<forall>c n out. ti_agent t c n = Answered out \<longrightarrow> (\<forall>x\<in>set (attach_research out). codec_ok e x))"

lemma run_attempts_answer:
  "run_attempts h agent c ca left n ds = lg \<Longrightarrow> al_result lg = Inr (out, k) \<Longrightarrow> agent k = Answered out"
  by (induction h agent c ca left n ds rule: run_attempts.induct) (auto split: if_splits invocation.splits)

lemma run_turn_answer:
  assumes "run_turn e i q t r l ws = Inr x"
  obtains d n where "ti_agent t (agent_call_of e (ti_state t) d (lv_messages l @ [human (strip (qn_message q))])) n
    = Answered (er_output x)"
  using assms run_attempts_answer
  by (fastforce simp: run_turn_def run_agent_def run_for_session_def run_locked_def Let_def rbind_Inr_iff split: if_splits)

text \<open>The ways a question can go.\<close>

lemma ask_cases:
  assumes "ask e i q t m = (m', r)" and "coherent e m"
  obtains (refused) x where "m' = m" "r = Inl x"
  | (unanswered) m1 l b where "lives_in e (sm_store m) i l" "coherent e m1" "sm_store m1 = sm_store m"
      "sm_workspaces m1 = sm_workspaces m" "m' = keep_live i (l\<lparr>lv_reported := b\<rparr>) m1" "\<And>x. r \<noteq> Inr (Replied x)"
  | (answered) m1 l b rec x where "lives_in e (sm_store m) i l" "coherent e m1" "sm_store m1 = sm_store m"
      "sm_workspaces m1 = sm_workspaces m" "run_turn e i q t rec l (sm_workspaces m) = Inr x" "\<not> ao_interrupted (er_output x)"
      "(m', r) = keep_turn e i t x (l\<lparr>lv_reported := b\<rparr>) (keep_live i (l\<lparr>lv_reported := b\<rparr>) m1)"
proof (cases "check_question e i q m")
  case (Inl x)
  then show thesis using assms(1) by (intro refused [of x]) (simp_all add: ask_def)
next
  case (Inr rec)
  obtain m1 y where restore: "restore_runtime e (ti_indexed t) (ti_built t) i m = (m1, y)" by fastforce
  show thesis
  proof (cases y)
    case (Inl x)
    then show thesis using assms(1) Inr restore restore_failed [of e "ti_indexed t" "ti_built t" i m m1 x]
      by (intro refused [of x]) (simp_all add: ask_def)
  next
    case y: (Inr l)
    have l: "lives_in e (sm_store m) i l" "coherent e m1" "sm_store m1 = sm_store m" "sm_workspaces m1 = sm_workspaces m"
      using restore_live [OF assms(2)] restore y by auto
    have whole: "(m', r) = (let l' = l\<lparr>lv_reported := lv_reported l \<or> ti_reported t\<rparr> in
       case run_turn e i q t rec l (sm_workspaces m) of
         Inl x \<Rightarrow> (keep_live i l' m1, Inl x)
       | Inr x \<Rightarrow> if ao_interrupted (er_output x) then (keep_live i l' m1, Inr (Paused (er_attempts x)))
           else keep_turn e i t x l' (keep_live i l' m1))"
      using assms(1) Inr restore y l(4) by (simp add: ask_def)
    show thesis
    proof (cases "run_turn e i q t rec l (sm_workspaces m)")
      case (Inl x)
      then show thesis using whole by (intro unanswered [OF l]) (auto simp: Let_def)
    next
      case x: (Inr x)
      show thesis
      proof (cases "ao_interrupted (er_output x)")
        case True
        then show thesis using whole x by (intro unanswered [OF l]) (auto simp: Let_def)
      next
        case False
        then show thesis using whole x by (intro answered [OF l x]) (auto simp: Let_def)
      qed
    qed
  qed
qed

lemma keep_turn_cases:
  assumes "keep_turn e i t x l m = (m', r)"
  obtains (lost) y where "m' = m" "r = Inl y"
  | (kept) db where "save_messages e (ti_now t) i (attach_research (er_output x)) (sm_store m) = Inr db"
      "m' = keep_live i (l\<lparr>lv_messages := attach_research (er_output x)\<rparr>) (m\<lparr>sm_store := db\<rparr>)"
      "r = Inl (Runtime_Error ''Agent did not return a final answer'')
        \<or> r = Inl (Runtime_Error ''Agent did not produce a context report'')
        \<or> (\<exists>a. last_answer e (attach_research (er_output x)) = Some a
           \<and> r = Inr (Replied (agent_reply_of e (er_output x) (er_attempts x) a)))"
  using assms by (auto simp: keep_turn_def Let_def split: sum.splits option.splits if_splits)

lemma keep_live_twice [simp]: "keep_live i l (keep_live i l' m) = keep_live i l m"
  by (simp add: keep_live_def dict_put_def)

lemma coherent_ask:
  assumes "coherent e m" and "turn_safe e t"
  shows "coherent e (fst (ask e i q t m))"
proof -
  obtain m' r where a: "ask e i q t m = (m', r)" by fastforce
  have "coherent e m'" using a assms(1)
  proof (cases rule: ask_cases)
    case (refused x)
    then show ?thesis using assms(1) by simp
  next
    case (unanswered m1 l b)
    then show ?thesis using coherent_live [of e m1 i "l\<lparr>lv_reported := b\<rparr>"] by simp
  next
    case (answered m1 l b rec x)
    let ?l = "l\<lparr>lv_reported := b\<rparr>"
    have lives: "lives_in e (sm_store (keep_live i ?l m1)) i ?l" using answered(1,3) by (simp add: keep_live_def)
    have coh: "coherent e (keep_live i ?l m1)" using answered(1-3) coherent_live [of e m1 i ?l] by simp
    have safe: "\<forall>y\<in>set (attach_research (er_output x)). codec_ok e y"
      using run_turn_answer [OF answered(5)] assms(2) unfolding turn_safe_def by metis
    from answered(7) [symmetric] show ?thesis
    proof (cases rule: keep_turn_cases)
      case (lost y)
      then show ?thesis using coh by simp
    next
      case (kept db)
      then show ?thesis using coherent_save [OF coh kept(1) safe lives] by simp
    qed
  qed
  with a show ?thesis by simp
qed

section \<open>Conversations over time\<close>

datatype session_op =
    Op_upload time ident "ingested result" "unit result"
  | Op_open time ident "ident option" ident
  | Op_add_document time ident "unit result" ident "ingested result" "nat result"
  | Op_registry nat workspace_op
  | Op_ask ident question turn_input
  | Op_restart

definition restart :: "session_manager \<Rightarrow> session_manager" where
  "restart m = m\<lparr>sm_live := []\<rparr>"

fun session_exec :: "session_env \<Rightarrow> session_op \<Rightarrow> session_manager \<Rightarrow> session_manager" where
  "session_exec e (Op_upload now i g b) m = fst (create_session e now i g b m)"
| "session_exec e (Op_open now i c w) m = fst (create_workspace_session e now i c w m)"
| "session_exec e (Op_add_document now i ok w g n) m = fst (add_workspace_document e now i ok w g n m)"
| "session_exec e (Op_registry k x) m = m\<lparr>sm_workspaces := workspace_exec k x (sm_workspaces m)\<rparr>"
| "session_exec e (Op_ask i q t) m = fst (ask e i q t m)"
| "session_exec e Op_restart m = restart m"

definition op_safe :: "session_env \<Rightarrow> session_op \<Rightarrow> bool" where
  "op_safe e x = (case x of Op_ask i q t \<Rightarrow> turn_safe e t | _ \<Rightarrow> True)"

lemma coherent_restart: "coherent e m \<Longrightarrow> coherent e (restart m)"
  by (simp add: coherent_def restart_def)

lemma coherent_upload: "coherent e m \<Longrightarrow> coherent e (fst (create_session e now i g b m))"
  by (auto simp: create_session_def rbind_Inr_iff new_session_row_def split: sum.splits
      dest!: coherent_new_live [where e = e and m = m])

lemma coherent_open: "coherent e m \<Longrightarrow> coherent e (fst (create_workspace_session e now i c w m))"
  by (auto simp: create_workspace_session_def rbind_Inr_iff split: sum.splits dest: coherent_create)

lemma coherent_add: "coherent e m \<Longrightarrow> coherent e (fst (add_workspace_document e now i ok w g n m))"
  by (auto simp: add_workspace_document_def split: sum.splits)

lemma session_exec_coherent: "coherent e m \<Longrightarrow> op_safe e x \<Longrightarrow> coherent e (session_exec e x m)"
  by (cases x) (simp_all add: op_safe_def coherent_ask coherent_restart coherent_upload coherent_open coherent_add)

interpretation sessions: guarded_machine "session_exec e" "\<lambda>m. op_safe e" "coherent e" for e
  by unfold_locales (rule session_exec_coherent)

definition fresh_manager :: "session_manager \<Rightarrow> bool" where
  "fresh_manager m = (sd_rows (sm_store m) = [] \<and> sm_live m = [])"

lemma reached_coherent: "sessions.reaches e m0 m \<Longrightarrow> fresh_manager m0 \<Longrightarrow> coherent e m"
  by (erule sessions.reaches_invar) (simp add: coherent_def fresh_manager_def)

lemma live_loaded:
  assumes "coherent e m" and "map_of (sm_live m) i = Some l"
  shows "load_messages e i (sm_store m) = Inr (lv_messages l)"
  using coherentD(2) [OF assms] load_stored by (fastforce simp: lives_in_def split: option.splits)

section \<open>A restart is invisible\<close>

text \<open>What is restored is determined by the store, whether the session was live or not.\<close>

definition restorable :: "session_env \<Rightarrow> session_row \<Rightarrow> chat_message list \<Rightarrow> live_session result \<Rightarrow> bool" where
  "restorable e r ms y = (case session_harness e of
     Inl x \<Rightarrow> y = Inl x
   | Inr h \<Rightarrow> (case y of Inl x \<Rightarrow> False | Inr l \<Rightarrow> lv_messages l = ms \<and> lv_harness l = h
       \<and> lv_workspace l = (if truthy (sn_workspace_id r) then sn_workspace_id r else None)))"

lemma restore_determined:
  assumes "coherent e m" and "check_question e i q m = Inr rec" and "is_ok indexed" and "is_ok built"
    and "restore_runtime e indexed built i m = (m1, y)"
    and "row_get sn_id i (sd_rows (sm_store m)) = Some r" and "stores e (sn_messages r) ms"
  shows "restorable e r ms y \<and> sm_store m1 = sm_store m \<and> sm_workspaces m1 = sm_workspaces m"
proof (cases "map_of (sm_live m) i")
  case (Some l)
  from coherentD(2) [OF assms(1) Some] live_loaded [OF assms(1) Some] load_stored [OF assms(6,7)] Some assms(5,6)
  show ?thesis by (auto simp: restore_runtime_def lives_in_def restorable_def)
next
  case None
  from record_stored [OF assms(7)] obtain x where x: "record_from_row e r = Inr x" "so_workspace_id x = sn_workspace_id r"
    by blast
  have get: "session_get e i (sm_store m) = Inr (Some x)" using assms(6) x by (simp add: session_get_def)
  have ws: "truthy (sn_workspace_id r) \<Longrightarrow> \<exists>k. get_workspace (the (sn_workspace_id r)) (sm_workspaces m) = Inr k"
    using assms(2) get x(2) by (auto simp: check_question_def rbind_Inr_iff split: if_splits)
  have load: "load_messages e i (sm_store m) = Inr ms" by (rule load_stored [OF assms(6,7)])
  have make: "make_runtime e built ms w = (case session_harness e of Inl x \<Rightarrow> Inl x
      | Inr h \<Rightarrow> Inr \<lparr>lv_messages = ms, lv_workspace = w, lv_harness = h, lv_reported = False\<rparr>)" for w
    using assms(4) by (auto simp: make_runtime_def is_ok_iff split: sum.splits)
  show ?thesis
    using assms(3,5) None get x(2) ws load make
    by (cases "session_harness e"; cases "truthy (sn_workspace_id r)")
      (auto simp: restore_runtime_def restorable_def keep_live_def)
qed

lemma check_question_cong:
  assumes "sm_store m = sm_store n" and "sm_workspaces m = sm_workspaces n"
  shows "check_question e i q m = check_question e i q n"
  unfolding check_question_def assms by (rule refl)

lemma check_question_row:
  assumes "coherent e m" and "check_question e i q m = Inr rec"
  obtains r ms where "row_get sn_id i (sd_rows (sm_store m)) = Some r" "stores e (sn_messages r) ms"
  using assms session_get_stored [OF assms(1), of i]
  by (auto simp: check_question_def rbind_Inr_iff split: if_splits option.splits)

lemma run_turn_cong: "lv_messages l = lv_messages k \<Longrightarrow> run_turn e i q t rec l ws = run_turn e i q t rec k ws"
  by (simp add: run_turn_def)

lemma keep_turn_cong:
  "sm_store m = sm_store n \<Longrightarrow> snd (keep_turn e i t x l m) = snd (keep_turn e i t x l n)
    \<and> sm_store (fst (keep_turn e i t x l m)) = sm_store (fst (keep_turn e i t x l n))"
  by (simp add: keep_turn_def Let_def keep_live_def split: sum.split option.split)

lemma restorable_same:
  assumes "restorable e r ms y" and "restorable e r ms z"
  shows "(\<exists>x. y = Inl x \<and> z = Inl x) \<or> (\<exists>l k. y = Inr l \<and> z = Inr k
    \<and> lv_messages l = lv_messages k \<and> l\<lparr>lv_reported := True\<rparr> = k\<lparr>lv_reported := True\<rparr>)"
  using assms by (cases "session_harness e"; cases y; cases z) (auto simp: restorable_def)

lemma ask_cong:
  assumes m: "coherent e m" and n: "coherent e n"
    and same: "sm_store m = sm_store n" "sm_workspaces m = sm_workspaces n"
    and ready: "is_ok (ti_indexed t)" "is_ok (ti_built t)" "ti_reported t"
  shows "snd (ask e i q t m) = snd (ask e i q t n) \<and> sm_store (fst (ask e i q t m)) = sm_store (fst (ask e i q t n))"
proof (cases "check_question e i q m")
  case (Inl x)
  then show ?thesis using check_question_cong [OF same, of e i q] same by (simp add: ask_def)
next
  case c: (Inr rec)
  have cn: "check_question e i q n = Inr rec" using c check_question_cong [OF same, of e i q] by simp
  obtain r ms where row: "row_get sn_id i (sd_rows (sm_store m)) = Some r" "stores e (sn_messages r) ms"
    using check_question_row [OF m c] by blast
  obtain m1 y where ry: "restore_runtime e (ti_indexed t) (ti_built t) i m = (m1, y)" by fastforce
  obtain n1 z where rz: "restore_runtime e (ti_indexed t) (ti_built t) i n = (n1, z)" by fastforce
  have dm: "restorable e r ms y" "sm_store m1 = sm_store m" "sm_workspaces m1 = sm_workspaces m"
    using restore_determined [OF m c ready(1,2) ry row] by auto
  have dn: "restorable e r ms z" "sm_store n1 = sm_store m" "sm_workspaces n1 = sm_workspaces m"
    using restore_determined [OF n cn ready(1,2) rz] row same by auto
  from restorable_same [OF dm(1) dn(1)] show ?thesis
  proof (elim disjE exE conjE)
    fix x
    assume "y = Inl x" "z = Inl x"
    then show ?thesis using c cn ry rz dm(2) dn(2) by (simp add: ask_def)
  next
    fix l k
    assume lk: "y = Inr l" "z = Inr k" "lv_messages l = lv_messages k"
      "l\<lparr>lv_reported := True\<rparr> = k\<lparr>lv_reported := True\<rparr>"
    have turn: "run_turn e i q t rec l (sm_workspaces m) = run_turn e i q t rec k (sm_workspaces m)"
      by (rule run_turn_cong [OF lk(3)])
    have store: "sm_store (keep_live i (k\<lparr>lv_reported := True\<rparr>) m1) = sm_store (keep_live i (k\<lparr>lv_reported := True\<rparr>) n1)"
      using dm(2) dn(2) by (simp add: keep_live_def)
    show ?thesis
      using c cn ry rz lk dm(2,3) dn(2,3) ready(3) turn store
        keep_turn_cong [OF store, of e i t _ "k\<lparr>lv_reported := True\<rparr>"]
      by (cases "run_turn e i q t rec k (sm_workspaces m)") (simp_all add: ask_def Let_def)
  qed
qed


section \<open>What a question changes\<close>

lemma ask_kept:
  assumes m: "coherent e m" and safe: "turn_safe e t" and a: "ask e i q t m = (m', r)"
  shows "sm_workspaces m' = sm_workspaces m \<and> (sm_store m' = sm_store m \<and> (\<forall>y. r \<noteq> Inr (Replied y))
    \<or> (\<exists>ms out d n k. load_messages e i (sm_store m) = Inr ms
         \<and> ti_agent t (agent_call_of e (ti_state t) d (ms @ [human (strip (qn_message q))])) n = Answered out
         \<and> load_messages e i (sm_store m') = Inr (attach_research out)
         \<and> (\<forall>j. j \<noteq> i \<longrightarrow> row_get sn_id j (sd_rows (sm_store m')) = row_get sn_id j (sd_rows (sm_store m)))
         \<and> (r = Inl (Runtime_Error ''Agent did not return a final answer'')
            \<or> r = Inl (Runtime_Error ''Agent did not produce a context report'')
            \<or> (\<exists>x. last_answer e (attach_research out) = Some x \<and> r = Inr (Replied (agent_reply_of e out k x))))))"
  using a m
proof (cases rule: ask_cases)
  case (refused x)
  then show ?thesis by simp
next
  case (unanswered m1 l b)
  then show ?thesis by (auto simp: keep_live_def)
next
  case (answered m1 l b rec x)
  let ?l = "l\<lparr>lv_reported := b\<rparr>" and ?out = "er_output x"
  have store: "sm_store (keep_live i ?l m1) = sm_store m" "sm_workspaces (keep_live i ?l m1) = sm_workspaces m"
    using answered(3,4) by (simp_all add: keep_live_def)
  from answered(1) obtain r0 where "row_get sn_id i (sd_rows (sm_store m)) = Some r0" "stores e (sn_messages r0) (lv_messages l)"
    by (auto simp: lives_in_def split: option.splits)
  then have before: "load_messages e i (sm_store m) = Inr (lv_messages l)" by (rule load_stored)
  obtain d n where call: "ti_agent t (agent_call_of e (ti_state t) d (lv_messages l @ [human (strip (qn_message q))])) n = Answered ?out"
    using run_turn_answer [OF answered(5)] by blast
  have new: "stores e (stored_text e (attach_research ?out)) (attach_research ?out)"
    using call safe unfolding stores_def turn_safe_def by blast
  from answered(7) [symmetric] show ?thesis
  proof (cases rule: keep_turn_cases)
    case (lost y)
    then show ?thesis using store by auto
  next
    case (kept db)
    from kept(1) store obtain r1 where rows: "\<And>j. row_get sn_id j (sd_rows db) = (if j = i
        then Some (r1\<lparr>sn_messages := stored_text e (attach_research ?out), sn_updated_at := ti_now t\<rparr>)
        else row_get sn_id j (sd_rows (sm_store m)))"
      by (auto elim: save_messages_get)
    have after: "load_messages e i db = Inr (attach_research ?out)"
      by (rule load_stored [of i db "r1\<lparr>sn_messages := stored_text e (attach_research ?out), sn_updated_at := ti_now t\<rparr>"])
        (use rows new in simp_all)
    have "sm_store m' = db" "sm_workspaces m' = sm_workspaces m" using kept(2) store by (simp_all add: keep_live_def)
    then show ?thesis using before call after rows kept(3)
      by (intro conjI disjI2 [of _ "\<exists>ms out d n k. P ms out d n k" for P] exI [of _ "lv_messages l"] exI [of _ ?out]
          exI [of _ d] exI [of _ n] exI [of _ "er_attempts x"]) auto
  qed
qed

text \<open>
  C36: A question changes its own conversation and nothing else.  A run that is refused, fails or is
  interrupted leaves the store as it was; otherwise the stored conversation becomes exactly what the agent answered
  when it was run on the stored conversation and the stripped question, and the reply is its last message that is
  an answer and not blank.
\<close>

theorem question_changes_its_conversation:
  assumes "sessions.reaches e m0 m" and "fresh_manager m0" and "turn_safe e t" and "ask e i q t m = (m', r)"
  shows "sm_workspaces m' = sm_workspaces m
    \<and> (\<forall>j. j \<noteq> i \<longrightarrow> load_messages e j (sm_store m') = load_messages e j (sm_store m))
    \<and> (sm_store m' = sm_store m \<or> (\<exists>ms out d n. load_messages e i (sm_store m) = Inr ms
         \<and> ti_agent t (agent_call_of e (ti_state t) d (ms @ [human (strip (qn_message q))])) n = Answered out
         \<and> load_messages e i (sm_store m') = Inr (attach_research out)))
    \<and> (\<forall>y. r = Inr (Replied y) \<longrightarrow> (\<exists>ms x. load_messages e i (sm_store m') = Inr ms \<and> last_answer e ms = Some x
         \<and> ry_answer y = message_text e x \<and> strip (ry_answer y) \<noteq> []))
    \<and> ((\<forall>y. r \<noteq> Inr (Replied y)) \<longrightarrow> sm_store m' = sm_store m
         \<or> r = Inl (Runtime_Error ''Agent did not return a final answer'')
         \<or> r = Inl (Runtime_Error ''Agent did not produce a context report''))"
proof -
  have m: "coherent e m" by (rule reached_coherent [OF assms(1,2)])
  have answer: "strip (message_text e x) \<noteq> []" if "last_answer e ms = Some x" for ms x
    using that by (auto simp: last_answer_def find_Some_iff answers_def)
  from ask_kept [OF m assms(3,4)] have ws: "sm_workspaces m' = sm_workspaces m" by blast
  from ask_kept [OF m assms(3,4)] consider
      (same) "sm_store m' = sm_store m" "\<forall>y. r \<noteq> Inr (Replied y)"
    | (kept) ms out d n k where "load_messages e i (sm_store m) = Inr ms"
        "ti_agent t (agent_call_of e (ti_state t) d (ms @ [human (strip (qn_message q))])) n = Answered out"
        "load_messages e i (sm_store m') = Inr (attach_research out)"
        "\<forall>j. j \<noteq> i \<longrightarrow> row_get sn_id j (sd_rows (sm_store m')) = row_get sn_id j (sd_rows (sm_store m))"
        "r = Inl (Runtime_Error ''Agent did not return a final answer'')
          \<or> r = Inl (Runtime_Error ''Agent did not produce a context report'')
          \<or> (\<exists>x. last_answer e (attach_research out) = Some x \<and> r = Inr (Replied (agent_reply_of e out k x)))"
    by blast
  then show ?thesis
  proof cases
    case same
    then show ?thesis using ws by simp
  next
    case kept
    have "\<forall>j. j \<noteq> i \<longrightarrow> load_messages e j (sm_store m') = load_messages e j (sm_store m)"
      using kept(4) by (simp add: load_messages_def)
    moreover have "\<exists>x. last_answer e (attach_research out) = Some x \<and> ry_answer y = message_text e x \<and> strip (ry_answer y) \<noteq> []"
      if "r = Inr (Replied y)" for y
      using kept(5) that answer by (auto simp: agent_reply_of_def Let_def)
    ultimately show ?thesis using ws kept(1-3,5) by blast
  qed
qed

section \<open>A sample conversation\<close>

definition sample_to_dict :: "chat_message \<Rightarrow> json" where
  "sample_to_dict m = JObj [(''type'', JStr (case cm_role m of Human \<Rightarrow> ''human'' | _ \<Rightarrow> ''ai'')), (''content'', cm_content m)]"

definition sample_of_dict :: "json \<Rightarrow> chat_message result" where
  "sample_of_dict v = (case v of
     JObj [(_, JStr t), (_, c)] \<Rightarrow> Inr \<lparr>cm_role = (if t = ''human'' then Human else Assistant), cm_content = c,
        cm_tool_calls = [], cm_extra = []\<rparr>
   | _ \<Rightarrow> Inl Type_Error)"

definition sample_env :: session_env where
  "sample_env = \<lparr>sv_to_dict = sample_to_dict, sv_of_dict = sample_of_dict, sv_float = (\<lambda>_. ''0''), sv_read = (\<lambda>_. None),
     sv_iso = (\<lambda>_. ''t''), sv_secrets = [], sv_config = (\<lambda>k. if k = ''AGENT_MAX_ATTEMPTS'' \<or> k = ''AGENT_MAX_GRAPH_STEPS'' then None
        else if k = ''MODEL_CONTEXT_WINDOW_TOKENS'' then Some 100 else Some 10),
     sv_seconds = (\<lambda>_. None), sv_model = ''m'', sv_registry = False\<rparr>"

definition sample_said :: "chat_message list" where
  "sample_said = [human ''hi'', \<lparr>cm_role = Assistant, cm_content = JStr ''yo'', cm_tool_calls = [], cm_extra = []\<rparr>]"

definition sample_turn :: turn_input where
  "sample_turn = \<lparr>ti_indexed = Inr (), ti_built = Inr (), ti_pages = Inr None,
     ti_state = \<lparr>gv_agents = False, gv_supervised = False, gv_pending = [], gv_next = False, gv_tools = None, gv_shared = [],
       gv_thread = ''x''\<rparr>,
     ti_agent = (\<lambda>c n. Answered \<lparr>ao_interrupted = False, ao_messages = sample_said, ao_values = []\<rparr>),
     ti_cancelled_first = False, ti_cancelled = (\<lambda>_. False), ti_cancelled_after = (\<lambda>_. False), ti_timed_out = False,
     ti_reported = True, ti_run_id = ''r'', ti_now = 5\<rparr>"

definition sample_question :: question where
  "sample_question = \<lparr>qn_message = ''hi'', qn_workspace = None, qn_scope = ''external'', qn_context = []\<rparr>"

definition sample_manager :: session_manager where
  "sample_manager = \<lparr>sm_store = \<lparr>sd_rows = [], sd_creators = False\<rparr>,
     sm_workspaces = \<lparr>wd_workspaces = [\<lparr>wk_id = ''w'', wk_name = ''W'', wk_description = [], wk_created_at = 0, wk_updated_at = 0\<rparr>],
       wd_documents = []\<rparr>, sm_live = []\<rparr>"

definition sample_opened :: session_manager where
  "sample_opened = session_exec sample_env (Op_open 1 ''s'' None ''w'') sample_manager"

definition sample_asked :: session_manager where
  "sample_asked = session_exec sample_env (Op_ask ''s'' sample_question sample_turn) sample_opened"

lemma sample_safe: "turn_safe sample_env sample_turn"
  by (auto simp: turn_safe_def sample_turn_def attach_research_def sample_said_def codec_ok_def sample_env_def
      sample_to_dict_def sample_of_dict_def human_def is_human_def)

lemma sample_session_reached: "sessions.reaches sample_env sample_manager sample_opened"
    "sessions.reaches sample_env sample_manager sample_asked" "fresh_manager sample_manager"
proof -
  show opened: "sessions.reaches sample_env sample_manager sample_opened"
    unfolding sample_opened_def
    by (rule sessions.reaches.step [OF sessions.reaches.refl]) (simp add: op_safe_def)
  show "sessions.reaches sample_env sample_manager sample_asked"
    unfolding sample_asked_def
    by (rule sessions.reaches.step [OF opened]) (simp add: op_safe_def sample_safe)
  show "fresh_manager sample_manager" by (simp add: fresh_manager_def sample_manager_def)
qed


theorem question_changes_its_conversation_witness:
  "\<exists>y. snd (ask sample_env ''s'' sample_question sample_turn sample_opened) = Inr (Replied y) \<and> ry_answer y = ''yo''
    \<and> strip (ry_answer y) \<noteq> []"
proof -
  let ?a = "ask sample_env ''s'' sample_question sample_turn sample_opened"
  have a: "?a = (fst ?a, snd ?a)" by simp
  have "case snd ?a of Inr (Replied y) \<Rightarrow> ry_answer y = ''yo'' | _ \<Rightarrow> False" by code_simp
  then obtain y where y: "snd ?a = Inr (Replied y)" "ry_answer y = ''yo''"
    by (auto split: sum.splits turn_reply.splits)
  from question_changes_its_conversation [OF sample_session_reached(1,3) sample_safe a] y(1) have "strip (ry_answer y) \<noteq> []" by blast
  with y show ?thesis by blast
qed

end
