(* ===== verification/Data_Assets.thy ===== *)
theory Data_Assets
  imports Json_Text Agent_Registry Workspace_Store
begin

text \<open>
  \<open>server/data_assets.py\<close>: uploaded datasets, records of executions and artifacts, and the files they name.
  Pandas, openpyxl, SHA-256, the guess of a MIME type and the resolution of a path are parameters.  An upload
  reads, writes its file and inserts its row in separate steps, so that uploads interleave: \<open>upload_begin\<close> is
  what happens before the insertion and \<open>upload_commit\<close> the rest.
\<close>

section \<open>Names and paths\<close>

definition base_name :: "string \<Rightarrow> string" where
  \<comment> \<open>\<open>Path(s).name\<close>\<close>
  "base_name s = (let parts = filter (\<lambda>p. p \<noteq> [] \<and> p \<noteq> ''.'') (split_on (CHR ''/'') [] s)
     in if parts = [] then [] else last parts)"

definition suffix_of :: "string \<Rightarrow> string" where
  \<comment> \<open>\<open>Path(name).suffix\<close>: from the last dot, unless it begins or ends the name\<close>
  "suffix_of n = (let after = rev (takeWhile (\<lambda>c. c \<noteq> CHR ''.'') (rev n)) in
     if after = [] \<or> length n \<le> Suc (length after) then [] else CHR ''.'' # after)"

definition uploaded_name :: "string \<Rightarrow> string" where
  "uploaded_name filename = base_name (map (\<lambda>c. if c = CHR 0x5C then CHR ''/'' else c) filename)"

record file_env =
  fe_root :: string
  fe_resolve :: "string \<Rightarrow> string"
  fe_link :: "string \<Rightarrow> bool"

definition inside :: "file_env \<Rightarrow> string \<Rightarrow> bool" where
  "inside fe p = (p = fe_root fe \<or> starts_with (fe_root fe @ ''/'') p)"

definition checked_path :: "file_env \<Rightarrow> string list \<Rightarrow> string \<Rightarrow> string result" where
  "checked_path fe files p = (let target = fe_resolve fe p in
     if \<not> inside fe target \<or> target \<notin> set files \<or> fe_link fe p
     then Inl (Value_Error ''Managed file is missing or outside the runtime directory'') else Inr target)"

section \<open>Reading tables\<close>

record frame =
  fr_rows :: nat
  fr_columns :: "string list"
  fr_dtypes :: "(string, json) dict"
  fr_missing :: "(string, json) dict"
  fr_statistics :: json
  fr_sample :: json

record table_reader =
  tr_csv :: "string \<Rightarrow> frame result"
  tr_excel :: "string \<Rightarrow> (string, frame) dict result"
  tr_expanded :: "string \<Rightarrow> nat list result"      \<comment> \<open>the sizes of the members of an archive\<close>
  tr_text :: "string \<Rightarrow> string result"
  tr_read :: "string \<Rightarrow> rat option"
  tr_records :: "json list \<Rightarrow> frame result"
  tr_frame :: "(string, json) dict \<Rightarrow> frame result"
  tr_digest :: "string \<Rightarrow> string"
  tr_guess :: "string \<Rightarrow> string option"

definition is_object :: "json \<Rightarrow> bool" where
  "is_object v = (case v of JObj d \<Rightarrow> True | _ \<Rightarrow> False)"

definition is_list :: "json \<Rightarrow> bool" where
  "is_list v = (case v of JList vs \<Rightarrow> True | _ \<Rightarrow> False)"

definition read_json :: "table_reader \<Rightarrow> string \<Rightarrow> (string, frame) dict result" where
  "read_json tr content = rbind (tr_text tr content) (\<lambda>t. rbind (loads (tr_read tr) t) (\<lambda>v.
     let shape = Inl (Value_Error ''Unsupported JSON shape; use records or a tabular object'') in
     case v of
       JList rows \<Rightarrow> if list_all is_object rows then rbind (tr_records tr rows) (\<lambda>f. Inr [(''data'', f)]) else shape
     | JObj d \<Rightarrow> if d \<noteq> [] \<and> list_all (\<lambda>(k, x). is_list x) d then rbind (tr_frame tr d) (\<lambda>f. Inr [(''data'', f)]) else shape
     | _ \<Rightarrow> shape))"

definition expanded_limit :: int where
  "expanded_limit = 200 * 1024 * 1024"

definition read_tables :: "table_reader \<Rightarrow> string \<Rightarrow> string \<Rightarrow> (string, frame) dict result" where
  \<comment> \<open>of a suffix in lower case and the bytes of the file\<close>
  "read_tables tr suffix content =
     (if suffix = ''.csv'' then rbind (tr_csv tr content) (\<lambda>f. Inr [(''data'', f)])
      else if suffix = ''.xlsx''
      then rbind (tr_expanded tr content) (\<lambda>sizes.
        if expanded_limit < int (sum_list sizes) then Inl (Value_Error ''Excel expanded size limit exceeded'')
        else tr_excel tr content)
      else if suffix = ''.json'' then read_json tr content
      else Inl (Value_Error ''Unsupported dataset type''))"

definition frame_json :: "frame \<Rightarrow> json" where
  "frame_json f = JObj [(''rows'', JInt (int (fr_rows f))), (''columns'', JInt (int (length (fr_columns f)))),
     (''column_names'', JList (map JStr (fr_columns f))), (''dtypes'', JObj (fr_dtypes f)), (''missing'', JObj (fr_missing f)),
     (''statistics'', if fr_columns f = [] then JObj [] else fr_statistics f), (''sample'', fr_sample f)]"

definition frame_fits :: "frame \<Rightarrow> bool" where
  "frame_fits f = (int (fr_rows f) \<le> 200000 \<and> int (length (fr_columns f)) \<le> 1000)"

definition describe_tables :: "(string, frame) dict \<Rightarrow> (string, json) dict result" where
  "describe_tables tables =
     (if list_all (\<lambda>(n, f). frame_fits f) tables
      then Inr [(''sheet_names'', JList (map (\<lambda>(n, f). JStr n) tables)), (''sheets'', JObj (map (\<lambda>(n, f). (n, frame_json f)) tables))]
      else Inl (Value_Error ''Dataset shape limit exceeded (200000 rows / 1000 columns)''))"

section \<open>The store\<close>

record data_asset =
  da_id :: ident
  da_workspace_id :: ident
  da_filename :: string
  da_display_name :: string
  da_file_type :: string
  da_mime_type :: string
  da_file_path :: string
  da_fingerprint :: string
  da_size :: nat
  da_status :: string
  da_rows :: nat
  da_columns :: nat
  da_schema :: "(string, json) dict"
  da_created_at :: time
  da_updated_at :: time

record artifact =
  af_id :: ident
  af_task_id :: "ident option"
  af_step_id :: "ident option"
  af_execution_id :: ident
  af_workspace_id :: ident
  af_filename :: string
  af_type :: string
  af_mime_type :: string
  af_file_path :: string
  af_size :: nat
  af_created_at :: time
  af_metadata :: "(string, json) dict"

record execution_row =
  er_execution :: ident
  er_workspace :: ident
  er_task :: "ident option"
  er_payload :: string

record data_db =
  dd_assets :: "data_asset list"
  dd_executions :: "execution_row list"
  dd_artifacts :: "artifact list"
  dd_files :: "string list"            \<comment> \<open>the regular files there are\<close>

definition mime_types :: "(string \<times> string list) list" where
  "mime_types = [(''.csv'', [''text/csv'', ''application/csv'', ''application/vnd.ms-excel'', ''application/octet-stream'']),
     (''.xlsx'', [''application/vnd.openxmlformats-officedocument.spreadsheetml.sheet'', ''application/octet-stream'']),
     (''.json'', [''application/json'', ''text/json'', ''application/octet-stream''])]"

definition type_accepted :: "string \<Rightarrow> string \<Rightarrow> bool" where
  "type_accepted suffix mime = (case map_of mime_types suffix of
     None \<Rightarrow> False | Some ms \<Rightarrow> hd (split_on (CHR '';'') [] mime) \<in> set ms)"

definition max_bytes :: "int_config \<Rightarrow> int" where
  "max_bytes cfg = setting cfg ''DATASET_MAX_FILE_MB'' 50 * 1024 * 1024"

definition assets_of :: "ident \<Rightarrow> data_db \<Rightarrow> data_asset list" where
  "assets_of w db = filter (\<lambda>a. da_workspace_id a = w) (dd_assets db)"

definition parsing_failed :: "(py_error \<Rightarrow> string) \<Rightarrow> py_error \<Rightarrow> py_error" where
  \<comment> \<open>of \<open>type(error).__name__\<close>\<close>
  "parsing_failed name e = (case e of Value_Error t \<Rightarrow> Value_Error t | _ \<Rightarrow> Value_Error (''Dataset parsing failed: '' @ name e))"

definition shape_of :: "(string, frame) dict \<Rightarrow> nat \<times> nat" where
  "shape_of tables = (case tables of [] \<Rightarrow> (0, 0) | (n, f) # _ \<Rightarrow> (fr_rows f, length (fr_columns f)))"

record upload =
  up_workspace :: ident
  up_filename :: string
  up_content :: string
  up_mime :: string
  up_file_id :: ident
  up_id :: ident
  up_now :: time

definition upload_suffix :: "upload \<Rightarrow> string" where
  "upload_suffix u = casefold (suffix_of (uploaded_name (up_filename u)))"

definition upload_path :: "file_env \<Rightarrow> upload \<Rightarrow> string" where
  "upload_path fe u = fe_root fe @ ''/datasets/'' @ up_file_id u @ upload_suffix u"

definition asset_of :: "table_reader \<Rightarrow> file_env \<Rightarrow> upload \<Rightarrow> (string, frame) dict \<Rightarrow> (string, json) dict \<Rightarrow> data_asset" where
  "asset_of tr fe u tables inspected = (let n = uploaded_name (up_filename u) in
     \<lparr>da_id = up_id u, da_workspace_id = up_workspace u, da_filename = n, da_display_name = n,
      da_file_type = drop 1 (upload_suffix u),
      da_mime_type = (if truthy (tr_guess tr n) then the (tr_guess tr n) else up_mime u),
      da_file_path = upload_path fe u, da_fingerprint = tr_digest tr (up_content u), da_size = length (up_content u),
      da_status = ''ready'', da_rows = fst (shape_of tables), da_columns = snd (shape_of tables), da_schema = inspected,
      da_created_at = up_now u, da_updated_at = up_now u\<rparr>)"

definition read_limited :: "int \<Rightarrow> string \<Rightarrow> string" where
  \<comment> \<open>\<open>stream.read(n)\<close>\<close>
  "read_limited n s = (if n < 0 \<or> int (length s) \<le> n then s else take (nat n) s)"

definition upload_begin ::
  "int_config \<Rightarrow> table_reader \<Rightarrow> file_env \<Rightarrow> (py_error \<Rightarrow> string) \<Rightarrow> upload \<Rightarrow> data_db \<Rightarrow>
   data_db \<times> (data_asset + data_asset) result" where
  \<comment> \<open>\<open>Inl\<close> an asset that is there already, \<open>Inr\<close> the asset to insert, whose file is written\<close>
  "upload_begin cfg tr fe name u db =
     (let suffix = upload_suffix u; maximum = max_bytes cfg;
          content = read_limited (maximum + 1) (up_content u) in
      if \<not> type_accepted suffix (up_mime u) then (db, Inl (Value_Error ''Unsupported dataset extension or MIME type''))
      else if content = [] \<or> maximum < int (length content)
      then (db, Inl (Value_Error ''Empty dataset or upload size limit exceeded''))
      else case find (\<lambda>a. da_fingerprint a = tr_digest tr content) (assets_of (up_workspace u) db) of
        Some a \<Rightarrow> (db, Inr (Inl a))
      | None \<Rightarrow>
          (case rbind (read_tables tr suffix content) (\<lambda>ts. rbind (describe_tables ts) (\<lambda>d. Inr (ts, d))) of
             Inl e \<Rightarrow> (db, Inl (parsing_failed name e))
           | Inr (ts, d) \<Rightarrow> (db\<lparr>dd_files := dd_files db @ [upload_path fe u]\<rparr>,
               Inr (Inr (asset_of tr fe (u\<lparr>up_content := content\<rparr>) ts d)))))"

definition insert_or_ignore :: "data_asset \<Rightarrow> data_asset list \<Rightarrow> data_asset list" where
  "insert_or_ignore r rows =
     (if list_ex (\<lambda>a. da_id a = da_id r \<or> da_workspace_id a = da_workspace_id r \<and> da_fingerprint a = da_fingerprint r) rows
      then rows else rows @ [r])"

definition upload_commit :: "data_asset \<Rightarrow> data_db \<Rightarrow> data_db \<times> data_asset result" where
  "upload_commit r db =
     (let rows = insert_or_ignore r (dd_assets db); db' = db\<lparr>dd_assets := rows\<rparr> in
      case find (\<lambda>a. da_workspace_id a = da_workspace_id r \<and> da_fingerprint a = da_fingerprint r) rows of
        None \<Rightarrow> (db', Inl Type_Error)
      | Some a \<Rightarrow>
          (if da_id a \<noteq> da_id r then db'\<lparr>dd_files := filter (\<lambda>p. p \<noteq> da_file_path r) (dd_files db)\<rparr> else db', Inr a))"

definition upload ::
  "int_config \<Rightarrow> table_reader \<Rightarrow> file_env \<Rightarrow> (py_error \<Rightarrow> string) \<Rightarrow> upload \<Rightarrow> data_db \<Rightarrow> data_db \<times> data_asset result" where
  "upload cfg tr fe name u db = sbind (upload_begin cfg tr fe name u db) (\<lambda>x db.
     case x of Inl a \<Rightarrow> (db, Inr a) | Inr r \<Rightarrow> upload_commit r db)"

definition get_asset :: "file_env \<Rightarrow> ident \<Rightarrow> ident \<Rightarrow> data_db \<Rightarrow> data_asset result" where
  "get_asset fe w i db = (case find (\<lambda>a. da_id a = i \<and> da_workspace_id a = w) (dd_assets db) of
     None \<Rightarrow> Inl (RecordNotFound i)
   | Some a \<Rightarrow> rbind (checked_path fe (dd_files db) (da_file_path a)) (\<lambda>_. Inr a))"

definition inspect_asset :: "file_env \<Rightarrow> ident \<Rightarrow> ident \<Rightarrow> data_db \<Rightarrow> (string, json) dict result" where
  "inspect_asset fe w i db = rbind (get_asset fe w i db) (\<lambda>a. Inr (da_schema a))"

definition delete_asset :: "file_env \<Rightarrow> ident \<Rightarrow> ident \<Rightarrow> data_db \<Rightarrow> data_db result" where
  \<comment> \<open>the file stays for the lineage of earlier executions\<close>
  "delete_asset fe w i db = rbind (get_asset fe w i db) (\<lambda>_.
     Inr (db\<lparr>dd_assets := filter (\<lambda>a. \<not> (da_id a = i \<and> da_workspace_id a = w)) (dd_assets db)\<rparr>))"

definition save_execution :: "execution_row \<Rightarrow> data_db \<Rightarrow> data_db" where
  \<comment> \<open>\<open>ON CONFLICT(id) DO UPDATE SET payload\<close>\<close>
  "save_execution r db = (case row_get er_execution (er_execution r) (dd_executions db) of
     None \<Rightarrow> db\<lparr>dd_executions := dd_executions db @ [r]\<rparr>
   | Some old \<Rightarrow> db\<lparr>dd_executions := row_put er_execution (old\<lparr>er_payload := er_payload r\<rparr>) (dd_executions db)\<rparr>)"

definition register_artifact :: "file_env \<Rightarrow> artifact \<Rightarrow> data_db \<Rightarrow> (data_db \<times> artifact) result" where
  "register_artifact fe a db = rbind (checked_path fe (dd_files db) (af_file_path a)) (\<lambda>_.
     rbind (row_insert af_id a (dd_artifacts db)) (\<lambda>rows. Inr (db\<lparr>dd_artifacts := rows\<rparr>, a)))"

definition get_artifact :: "file_env \<Rightarrow> ident \<Rightarrow> data_db \<Rightarrow> artifact result" where
  "get_artifact fe i db = (case row_get af_id i (dd_artifacts db) of
     None \<Rightarrow> Inl (RecordNotFound i)
   | Some a \<Rightarrow> rbind (checked_path fe (dd_files db) (af_file_path a)) (\<lambda>_. Inr a))"

definition artifacts_of :: "ident \<Rightarrow> data_db \<Rightarrow> artifact list" where
  "artifacts_of t db = filter (\<lambda>a. af_task_id a = Some t) (dd_artifacts db)"

end
