(* ===== verification/Data_Assets_Laws.thy ===== *)
theory Data_Assets_Laws
  imports Data_Assets
begin

text \<open>
  Uploads as a machine whose steps interleave: between the beginning and the end of an upload anything else may
  happen, other uploads of the same content included.  \<open>us_kept\<close> are the files that belong to no dataset on purpose: those
  of deleted datasets and those an analysis wrote.
\<close>

record upload_state =
  us_db :: data_db
  us_pending :: "data_asset list"
  us_kept :: "string list"

datatype data_op =
    D_begin upload
  | D_commit data_asset
  | D_delete ident ident
  | D_execution execution_row
  | D_file string
  | D_artifact artifact

definition begin_op :: "data_db \<times> (data_asset + data_asset) result \<Rightarrow> upload_state \<Rightarrow> upload_state" where
  "begin_op x s = (case x of
     (db, Inr (Inr r)) \<Rightarrow> s\<lparr>us_db := db, us_pending := us_pending s @ [r]\<rparr>
   | (db, _) \<Rightarrow> s\<lparr>us_db := db\<rparr>)"

definition paths_deleted :: "ident \<Rightarrow> ident \<Rightarrow> data_db \<Rightarrow> string list" where
  "paths_deleted w i db = map da_file_path (filter (\<lambda>a. da_id a = i \<and> da_workspace_id a = w) (dd_assets db))"

fun data_exec ::
  "int_config \<Rightarrow> table_reader \<Rightarrow> file_env \<Rightarrow> (py_error \<Rightarrow> string) \<Rightarrow> data_op \<Rightarrow> upload_state \<Rightarrow> upload_state" where
  "data_exec cfg tr fe name (D_begin u) s = begin_op (upload_begin cfg tr fe name u (us_db s)) s"
| "data_exec cfg tr fe name (D_commit r) s =
     s\<lparr>us_db := fst (upload_commit r (us_db s)), us_pending := filter (\<lambda>a. da_id a \<noteq> da_id r) (us_pending s)\<rparr>"
| "data_exec cfg tr fe name (D_delete w i) s = (case delete_asset fe w i (us_db s) of
     Inl e \<Rightarrow> s | Inr db \<Rightarrow> s\<lparr>us_db := db, us_kept := us_kept s @ paths_deleted w i (us_db s)\<rparr>)"
| "data_exec cfg tr fe name (D_execution r) s = s\<lparr>us_db := save_execution r (us_db s)\<rparr>"
| "data_exec cfg tr fe name (D_file p) s =
     s\<lparr>us_db := (us_db s)\<lparr>dd_files := dd_files (us_db s) @ [p]\<rparr>, us_kept := us_kept s @ [p]\<rparr>"
| "data_exec cfg tr fe name (D_artifact a) s = s\<lparr>us_db := commit_of (us_db s) (register_artifact fe a (us_db s))\<rparr>"

definition every_asset :: "upload_state \<Rightarrow> data_asset list" where
  "every_asset s = dd_assets (us_db s) @ us_pending s"

fun data_op_ok :: "file_env \<Rightarrow> upload_state \<Rightarrow> data_op \<Rightarrow> bool" where
  \<comment> \<open>identifiers are fresh, and only a begun upload is committed\<close>
  "data_op_ok fe s (D_begin u) = (up_id u \<notin> da_id ` set (every_asset s) \<and> upload_path fe u \<notin> set (dd_files (us_db s)))"
| "data_op_ok fe s (D_commit r) = (r \<in> set (us_pending s))"
| "data_op_ok fe s (D_file p) = (p \<notin> set (dd_files (us_db s)))"
| "data_op_ok fe s _ = True"

definition asset_key :: "data_asset \<Rightarrow> ident \<times> string" where
  "asset_key a = (da_workspace_id a, da_fingerprint a)"

definition asset_fits :: "int_config \<Rightarrow> file_env \<Rightarrow> data_asset \<Rightarrow> bool" where
  "asset_fits cfg fe a = (0 < da_size a \<and> int (da_size a) \<le> max_bytes cfg \<and> int (da_rows a) \<le> 200000 \<and> int (da_columns a) \<le> 1000
     \<and> da_file_type a \<in> {''csv'', ''xlsx'', ''json''} \<and> inside fe (da_file_path a))"

definition owned :: "upload_state \<Rightarrow> string set" where
  "owned s = da_file_path ` set (every_asset s) \<union> set (us_kept s)"

definition data_ok :: "int_config \<Rightarrow> file_env \<Rightarrow> upload_state \<Rightarrow> bool" where
  "data_ok cfg fe s \<longleftrightarrow> distinct (map da_id (every_asset s)) \<and> distinct (map asset_key (dd_assets (us_db s)))
     \<and> distinct (map da_file_path (every_asset s)) \<and> da_file_path ` set (every_asset s) \<inter> set (us_kept s) = {}
     \<and> set (dd_files (us_db s)) = owned s \<and> (\<forall>a\<in>set (every_asset s). asset_fits cfg fe a)"

lemma starts_with_append: "starts_with p (p @ s)"
  by (induction p) simp_all

lemma upload_begin_new:
  assumes "upload_begin cfg tr fe name u db = (db', Inr (Inr r))"
  shows "db' = db\<lparr>dd_files := dd_files db @ [upload_path fe u]\<rparr> \<and> da_id r = up_id u \<and> da_file_path r = upload_path fe u
    \<and> asset_fits cfg fe r"
proof -
  define content where "content = read_limited (max_bytes cfg + 1) (up_content u)"
  from assms obtain ts d where db': "db' = db\<lparr>dd_files := dd_files db @ [upload_path fe u]\<rparr>"
    and r: "r = asset_of tr fe (u\<lparr>up_content := content\<rparr>) ts d" and t: "type_accepted (upload_suffix u) (up_mime u)"
    and c: "content \<noteq> []" "int (length content) \<le> max_bytes cfg" and ts: "describe_tables ts = Inr d"
    by (auto simp: upload_begin_def Let_def content_def rbind_Inr_iff split: if_splits option.splits sum.splits)
  have suffix: "drop 1 (upload_suffix u) \<in> {''csv'', ''xlsx'', ''json''}"
    using t by (auto simp: type_accepted_def mime_types_def split: if_splits)
  have same: "upload_suffix (u\<lparr>up_content := content\<rparr>) = upload_suffix u" "upload_path fe (u\<lparr>up_content := content\<rparr>) = upload_path fe u"
    by (simp_all add: upload_suffix_def upload_path_def)
  have shape: "int (fst (shape_of ts)) \<le> 200000 \<and> int (snd (shape_of ts)) \<le> 1000"
    using ts by (auto simp: describe_tables_def shape_of_def frame_fits_def split: if_splits list.splits)
  have "inside fe (upload_path fe u)"
    using starts_with_append [of "fe_root fe @ ''/''" "''datasets/'' @ up_file_id u @ upload_suffix u"]
    by (simp add: inside_def upload_path_def)
  then have "asset_fits cfg fe r"
    using suffix shape c by (simp add: r asset_fits_def asset_of_def Let_def same)
  then show ?thesis using db' same by (simp add: r asset_of_def Let_def)
qed

lemma upload_begin_old:
  "upload_begin cfg tr fe name u db = (db', x) \<Longrightarrow> (\<And>r. x \<noteq> Inr (Inr r)) \<Longrightarrow> db' = db"
  by (auto simp: upload_begin_def Let_def split: if_splits option.splits sum.splits)

section \<open>The invariant\<close>

lemma begin_ok:
  assumes ok: "data_ok cfg fe s" and fresh: "data_op_ok fe s (D_begin u)"
  shows "data_ok cfg fe (begin_op (upload_begin cfg tr fe name u (us_db s)) s)"
proof (cases "\<exists>db r. upload_begin cfg tr fe name u (us_db s) = (db, Inr (Inr r))")
  case True
  then obtain db r where b: "upload_begin cfg tr fe name u (us_db s) = (db, Inr (Inr r))" by blast
  note new = upload_begin_new [OF b]
  have every: "every_asset (begin_op (db, Inr (Inr r)) s) = every_asset s @ [r]"
    "us_kept (begin_op (db, Inr (Inr r)) s) = us_kept s" "dd_assets (us_db (begin_op (db, Inr (Inr r)) s)) = dd_assets (us_db s)"
    "set (dd_files (us_db (begin_op (db, Inr (Inr r)) s))) = insert (da_file_path r) (set (dd_files (us_db s)))"
    using new by (auto simp: begin_op_def every_asset_def)
  have "da_file_path r \<notin> owned s" using new fresh ok by (simp add: data_ok_def)
  then show ?thesis
    unfolding b data_ok_def owned_def every using ok new fresh by (auto simp: data_ok_def owned_def)
next
  case False
  obtain db x where b: "upload_begin cfg tr fe name u (us_db s) = (db, x)" by fastforce
  have "db = us_db s" using upload_begin_old [OF b] False b by blast
  moreover have "begin_op (db, x) s = s\<lparr>us_db := db\<rparr>"
    using False b by (auto simp: begin_op_def split: sum.split)
  ultimately show ?thesis using ok b by simp
qed

lemma no_same:
  "asset_key r \<notin> asset_key ` set rows \<Longrightarrow> da_id r \<notin> da_id ` set rows \<Longrightarrow>
    \<not> list_ex (\<lambda>a. da_id a = da_id r \<or> da_workspace_id a = da_workspace_id r \<and> da_fingerprint a = da_fingerprint r) rows"
  by (induction rows) (auto simp: asset_key_def)

lemma find_key: "find (\<lambda>a. da_workspace_id a = da_workspace_id r \<and> da_fingerprint a = da_fingerprint r) rows
  = find (\<lambda>a. asset_key a = asset_key r) rows"
  by (simp add: asset_key_def)

text \<open>Committing a begun upload: it becomes an asset, or an asset of the same content is there and its file goes.\<close>

lemma commit_cases:
  assumes ok: "data_ok cfg fe s" and r: "r \<in> set (us_pending s)" and c: "upload_commit r (us_db s) = (db, x)"
  obtains (inserted) "asset_key r \<notin> asset_key ` set (dd_assets (us_db s))" "x = Inr r"
      "db = (us_db s)\<lparr>dd_assets := dd_assets (us_db s) @ [r]\<rparr>"
  | (repeated) a where "a \<in> set (dd_assets (us_db s))" "asset_key a = asset_key r" "x = Inr a"
      "db = (us_db s)\<lparr>dd_files := filter (\<lambda>p. p \<noteq> da_file_path r) (dd_files (us_db s))\<rparr>"
proof (cases "asset_key r \<in> asset_key ` set (dd_assets (us_db s))")
  case True
  have rows: "insert_or_ignore r (dd_assets (us_db s)) = dd_assets (us_db s)"
    using True by (auto simp: insert_or_ignore_def list_ex_iff asset_key_def)
  obtain a where a: "find (\<lambda>a. asset_key a = asset_key r) (dd_assets (us_db s)) = Some a"
    using True by (cases "find (\<lambda>a. asset_key a = asset_key r) (dd_assets (us_db s))") (auto simp: find_None_iff)
  then have in_a: "a \<in> set (dd_assets (us_db s))" "asset_key a = asset_key r" by (auto simp: find_Some_iff)
  have "da_id a \<noteq> da_id r" using ok r in_a(1) by (auto simp: data_ok_def every_asset_def)
  then show thesis using a rows c in_a
    by (intro repeated [OF in_a]) (auto simp: upload_commit_def Let_def find_key)
next
  case False
  have id: "da_id r \<notin> da_id ` set (dd_assets (us_db s))" using ok r by (auto simp: data_ok_def every_asset_def)
  have rows: "insert_or_ignore r (dd_assets (us_db s)) = dd_assets (us_db s) @ [r]"
    using no_same [OF False id] by (simp add: insert_or_ignore_def)
  have "find (\<lambda>a. asset_key a = asset_key r) (dd_assets (us_db s)) = None"
    using False by (metis (mono_tags, lifting) find_None_iff imageI)
  then have "find (\<lambda>a. asset_key a = asset_key r) (dd_assets (us_db s) @ [r]) = Some r"
    by (simp add: row_get_append [unfolded row_get_def])
  then show thesis using rows c by (intro inserted [OF False]) (auto simp: upload_commit_def Let_def find_key)
qed

lemma commit_split:
  assumes "data_ok cfg fe s" and "r \<in> set (us_pending s)"
  obtains xs ys where "us_pending s = xs @ r # ys" "filter (\<lambda>a. da_id a \<noteq> da_id r) (us_pending s) = xs @ ys"
proof -
  obtain xs ys where p: "us_pending s = xs @ r # ys" using assms(2) by (auto dest: split_list)
  have "distinct (map da_id (xs @ r # ys))" using assms(1) by (simp add: data_ok_def every_asset_def p)
  then have "da_id r \<notin> da_id ` set (xs @ ys)" by auto
  then have "\<forall>a\<in>set (xs @ ys). da_id a \<noteq> da_id r" by (metis imageI)
  then have "filter (\<lambda>a. da_id a \<noteq> da_id r) (us_pending s) = xs @ ys" by (simp add: p)
  with p show thesis by (rule that)
qed

lemma commit_ok:
  assumes ok: "data_ok cfg fe s" and r: "r \<in> set (us_pending s)"
  shows "data_ok cfg fe (data_exec cfg tr fe name (D_commit r) s)"
proof -
  obtain db x where c: "upload_commit r (us_db s) = (db, x)" by fastforce
  obtain xs ys where p: "us_pending s = xs @ r # ys" and rest: "filter (\<lambda>a. da_id a \<noteq> da_id r) (us_pending s) = xs @ ys"
    using commit_split [OF ok r] .
  have exec: "data_exec cfg tr fe name (D_commit r) s = s\<lparr>us_db := db, us_pending := xs @ ys\<rparr>"
    using c rest by simp
  from ok have parts: "distinct (map da_id (dd_assets (us_db s) @ xs @ r # ys))" "distinct (map asset_key (dd_assets (us_db s)))"
    "distinct (map da_file_path (dd_assets (us_db s) @ xs @ r # ys))"
    "da_file_path ` set (dd_assets (us_db s) @ xs @ r # ys) \<inter> set (us_kept s) = {}"
    "set (dd_files (us_db s)) = da_file_path ` set (dd_assets (us_db s) @ xs @ r # ys) \<union> set (us_kept s)"
    "\<forall>a\<in>set (dd_assets (us_db s) @ xs @ r # ys). asset_fits cfg fe a"
    unfolding data_ok_def owned_def every_asset_def p by blast+
  from ok r c show ?thesis
  proof (cases rule: commit_cases)
    case inserted
    have "every_asset (s\<lparr>us_db := db, us_pending := xs @ ys\<rparr>) = dd_assets (us_db s) @ r # xs @ ys"
      by (simp add: every_asset_def inserted(3))
    moreover have "set (dd_assets (us_db s) @ r # xs @ ys) = set (dd_assets (us_db s) @ xs @ r # ys)" by auto
    moreover have "distinct (map f (dd_assets (us_db s) @ r # xs @ ys)) = distinct (map f (dd_assets (us_db s) @ xs @ r # ys))" for f :: "data_asset \<Rightarrow> string"
      by auto
    ultimately show ?thesis
      using parts inserted(1) unfolding exec data_ok_def owned_def by (simp add: inserted(3))
  next
    case (repeated a)
    have every: "every_asset (s\<lparr>us_db := db, us_pending := xs @ ys\<rparr>) = dd_assets (us_db s) @ xs @ ys"
      by (simp add: every_asset_def repeated(4))
    have gone: "da_file_path r \<notin> da_file_path ` set (dd_assets (us_db s) @ xs @ ys) \<union> set (us_kept s)"
      using parts(3,4) by auto
    have "set (dd_assets (us_db s) @ xs @ r # ys) = insert r (set (dd_assets (us_db s) @ xs @ ys))" by auto
    then have "set (dd_files (us_db s)) = insert (da_file_path r) (da_file_path ` set (dd_assets (us_db s) @ xs @ ys) \<union> set (us_kept s))"
      using parts(5) by (simp del: set_append)
    then have "set (dd_files db) = insert (da_file_path r) (da_file_path ` set (dd_assets (us_db s) @ xs @ ys) \<union> set (us_kept s)) - {da_file_path r}"
      by (simp add: repeated(4) set_diff_eq del: set_append)
    then have "set (dd_files db) = da_file_path ` set (dd_assets (us_db s) @ xs @ ys) \<union> set (us_kept s)"
      using Diff_insert_absorb [OF gone] by (rule trans)
    moreover have "dd_assets db = dd_assets (us_db s)" by (simp add: repeated(4))
    moreover have "distinct (map f (dd_assets (us_db s) @ xs @ ys))"
      if "distinct (map f (dd_assets (us_db s) @ xs @ r # ys))" for f :: "data_asset \<Rightarrow> string"
      using that by auto
    moreover have "da_file_path ` set (dd_assets (us_db s) @ xs @ ys) \<inter> set (us_kept s) = {}" using parts(4) by auto
    moreover have "\<forall>a\<in>set (dd_assets (us_db s) @ xs @ ys). asset_fits cfg fe a" using parts(6) by auto
    ultimately show ?thesis
      using parts(1-3) unfolding exec data_ok_def owned_def every by (simp del: map_append set_append)
  qed
qed

lemma delete_ok:
  assumes ok: "data_ok cfg fe s"
  shows "data_ok cfg fe (data_exec cfg tr fe name (D_delete w i) s)"
proof (cases "delete_asset fe w i (us_db s)")
  case (Inl e)
  then show ?thesis using ok by simp
next
  case (Inr db)
  define P :: "data_asset \<Rightarrow> bool" where "P = (\<lambda>a. da_id a = i \<and> da_workspace_id a = w)"
  define A where "A = dd_assets (us_db s)"
  define B where "B = filter (\<lambda>a. \<not> P a) A"
  define D where "D = filter P A"
  have db: "dd_assets db = B" "dd_files db = dd_files (us_db s)"
    using Inr by (auto simp: delete_asset_def rbind_Inr_iff A_def B_def P_def)
  have exec: "data_exec cfg tr fe name (D_delete w i) s = s\<lparr>us_db := db, us_kept := us_kept s @ map da_file_path D\<rparr>"
    using Inr by (simp add: paths_deleted_def D_def P_def A_def)
  have parts: "distinct (map da_id (A @ us_pending s))" "distinct (map asset_key A)" "distinct (map da_file_path (A @ us_pending s))"
    "da_file_path ` set (A @ us_pending s) \<inter> set (us_kept s) = {}"
    "set (dd_files (us_db s)) = da_file_path ` set (A @ us_pending s) \<union> set (us_kept s)"
    "\<forall>a\<in>set (A @ us_pending s). asset_fits cfg fe a"
    using ok unfolding data_ok_def owned_def every_asset_def A_def by blast+
  have sub: "set B \<subseteq> set A" "set D \<subseteq> set A" "set A = set B \<union> set D" "set B \<inter> set D = {}" by (auto simp: B_def D_def)
  have dist: "distinct (map f (B @ us_pending s))" if "distinct (map f (A @ us_pending s))" for f :: "data_asset \<Rightarrow> string"
    using that sub(1) by (auto simp: B_def distinct_map_filter)
  have inj: "inj_on da_file_path (set A)" "da_file_path ` set A \<inter> da_file_path ` set (us_pending s) = {}"
    using parts(3) by (auto simp: distinct_map)
  have "da_file_path ` set (B @ us_pending s) \<inter> set (us_kept s @ map da_file_path D) = {}"
  proof -
    have "da_file_path ` set B \<inter> da_file_path ` set D = {}"
      using inj(1) sub by (simp add: inj_on_image_Int [symmetric])
    then show ?thesis using parts(4) inj(2) sub by auto
  qed
  moreover have "set (dd_files db) = da_file_path ` set (B @ us_pending s) \<union> set (us_kept s @ map da_file_path D)"
    using parts(5) sub(3) by (simp add: db(2) image_Un Un_ac)
  moreover have "distinct (map asset_key B)" using parts(2) by (simp add: B_def distinct_map_filter)
  ultimately show ?thesis
    using dist [OF parts(1)] dist [OF parts(3)] parts(6) sub(1)
    unfolding exec data_ok_def owned_def every_asset_def by (auto simp: db)
qed

lemma data_exec_ok: "data_ok cfg fe s \<Longrightarrow> data_op_ok fe s x \<Longrightarrow> data_ok cfg fe (data_exec cfg tr fe name x s)"
proof (cases x)
  case (D_begin u)
  then show "data_ok cfg fe s \<Longrightarrow> data_op_ok fe s x \<Longrightarrow> ?thesis" using begin_ok by simp
next
  case (D_commit r)
  then show "data_ok cfg fe s \<Longrightarrow> data_op_ok fe s x \<Longrightarrow> ?thesis" using commit_ok by simp
next
  case (D_delete w i)
  then show "data_ok cfg fe s \<Longrightarrow> ?thesis" using delete_ok by simp
next
  case (D_execution r)
  have "dd_assets (save_execution r db) = dd_assets db" "dd_files (save_execution r db) = dd_files db" for db
    by (simp_all add: save_execution_def split: option.split)
  then show "data_ok cfg fe s \<Longrightarrow> ?thesis" by (simp add: D_execution data_ok_def every_asset_def owned_def)
next
  case (D_file p)
  then show "data_ok cfg fe s \<Longrightarrow> data_op_ok fe s x \<Longrightarrow> ?thesis"
    by (auto simp: data_ok_def every_asset_def owned_def)
next
  case (D_artifact a)
  have "dd_assets (commit_of db (register_artifact fe a db)) = dd_assets db \<and> dd_files (commit_of db (register_artifact fe a db)) = dd_files db" for db
    by (rule commit_of_cases) (auto simp: register_artifact_def rbind_Inr_iff)
  then show "data_ok cfg fe s \<Longrightarrow> ?thesis" by (simp add: D_artifact data_ok_def every_asset_def owned_def)
qed

interpretation uploads: guarded_machine "data_exec cfg tr fe name" "data_op_ok fe" "data_ok cfg fe" for cfg tr fe name
  by unfold_locales (rule data_exec_ok)

definition no_data :: upload_state where
  "no_data = \<lparr>us_db = \<lparr>dd_assets = [], dd_executions = [], dd_artifacts = [], dd_files = []\<rparr>, us_pending = [], us_kept = []\<rparr>"

text \<open>
  C20: However uploads interleave with one another and with deletions, a workspace holds one dataset of a content;
  every dataset is of an accepted type, within the limits, under the managed directory, and has a file of its own
  that exists; every file belongs to a dataset, to an upload under way, or is kept on purpose; and an upload that
  gets to its end answers with the dataset of its content, its own or the one that was there.
\<close>

theorem uploads_are_unique_and_backed:
  assumes "uploads.reaches cfg tr fe name no_data s"
  shows "distinct (map asset_key (dd_assets (us_db s)))
    \<and> (\<forall>a\<in>set (dd_assets (us_db s)). asset_fits cfg fe a \<and> da_file_path a \<in> set (dd_files (us_db s)))
    \<and> distinct (map da_file_path (every_asset s))
    \<and> (\<forall>p\<in>set (dd_files (us_db s)). p \<in> da_file_path ` set (every_asset s) \<or> p \<in> set (us_kept s))
    \<and> (\<forall>r\<in>set (us_pending s). \<exists>db a. upload_commit r (us_db s) = (db, Inr a) \<and> a \<in> set (dd_assets db)
         \<and> asset_key a = asset_key r)"
proof -
  have "data_ok cfg fe no_data" by (simp add: data_ok_def no_data_def every_asset_def owned_def)
  with assms have ok: "data_ok cfg fe s" by (rule uploads.reaches_invar)
  have "\<exists>db a. upload_commit r (us_db s) = (db, Inr a) \<and> a \<in> set (dd_assets db) \<and> asset_key a = asset_key r"
    if r: "r \<in> set (us_pending s)" for r
  proof -
    obtain db x where c: "upload_commit r (us_db s) = (db, x)" by fastforce
    from ok r c show ?thesis by (cases rule: commit_cases) (use c in auto)
  qed
  then show ?thesis using ok by (auto simp: data_ok_def owned_def every_asset_def)
qed

section \<open>Two uploads of one content\<close>

definition sample_reader :: table_reader where
  "sample_reader = \<lparr>tr_csv = (\<lambda>c. Inr \<lparr>fr_rows = 1, fr_columns = [''a''], fr_dtypes = [], fr_missing = [], fr_statistics = JObj [],
       fr_sample = JList []\<rparr>), tr_excel = (\<lambda>c. Inl Type_Error), tr_expanded = (\<lambda>c. Inr []), tr_text = Inr, tr_read = (\<lambda>t. None),
     tr_records = (\<lambda>rows. Inl Type_Error), tr_frame = (\<lambda>d. Inl Type_Error), tr_digest = id, tr_guess = (\<lambda>n. None)\<rparr>"

definition sample_files :: file_env where
  "sample_files = \<lparr>fe_root = ''/r'', fe_resolve = id, fe_link = (\<lambda>p. False)\<rparr>"

definition sample_upload :: "ident \<Rightarrow> upload" where
  "sample_upload i = \<lparr>up_workspace = ''w'', up_filename = ''d/x.CSV'', up_content = ''a1'', up_mime = ''text/csv'',
     up_file_id = i, up_id = i, up_now = 1\<rparr>"

definition sample_step :: "data_op \<Rightarrow> upload_state \<Rightarrow> upload_state" where
  "sample_step = data_exec (\<lambda>k. None) sample_reader sample_files (\<lambda>e. ''E'')"

definition sample_begun :: upload_state where
  "sample_begun = sample_step (D_begin (sample_upload ''2'')) (sample_step (D_begin (sample_upload ''1'')) no_data)"

definition sample_first :: data_asset where
  "sample_first = hd (us_pending sample_begun)"

definition sample_committed :: upload_state where
  "sample_committed = sample_step (D_commit sample_first) sample_begun"

theorem uploads_are_unique_and_backed_witness:
  "map da_id (dd_assets (us_db sample_committed)) = [''1''] \<and> map da_id (us_pending sample_committed) = [''2'']
    \<and> da_file_type (hd (dd_assets (us_db sample_committed))) = ''csv''
    \<and> distinct (map da_file_path (every_asset sample_committed))
    \<and> (\<exists>db a. upload_commit (hd (us_pending sample_committed)) (us_db sample_committed) = (db, Inr a) \<and> da_fingerprint a = ''a1'')"
proof -
  have reached: "uploads.reaches (\<lambda>k. None) sample_reader sample_files (\<lambda>e. ''E'') no_data sample_committed"
    unfolding sample_committed_def sample_begun_def sample_step_def
  proof (rule uploads.reaches.step, rule uploads.reaches.step, rule uploads.reaches.step, rule uploads.reaches.refl)
    show "data_op_ok sample_files no_data (D_begin (sample_upload ''1''))" by code_simp
    show "data_op_ok sample_files (data_exec (\<lambda>k. None) sample_reader sample_files (\<lambda>e. ''E'') (D_begin (sample_upload ''1'')) no_data)
      (D_begin (sample_upload ''2''))" by code_simp
    have "us_pending sample_begun \<noteq> []" by code_simp
    then have "sample_first \<in> set (us_pending sample_begun)" by (simp add: sample_first_def)
    then show "data_op_ok sample_files (data_exec (\<lambda>k. None) sample_reader sample_files (\<lambda>e. ''E'') (D_begin (sample_upload ''2''))
      (data_exec (\<lambda>k. None) sample_reader sample_files (\<lambda>e. ''E'') (D_begin (sample_upload ''1'')) no_data)) (D_commit sample_first)"
      by (simp add: sample_begun_def sample_step_def)
  qed
  have facts: "map da_id (dd_assets (us_db sample_committed)) = [''1''] \<and> map da_id (us_pending sample_committed) = [''2'']
    \<and> da_file_type (hd (dd_assets (us_db sample_committed))) = ''csv''
    \<and> da_fingerprint (hd (us_pending sample_committed)) = ''a1''" by code_simp
  then have "hd (us_pending sample_committed) \<in> set (us_pending sample_committed)"
    by (cases "us_pending sample_committed") auto
  with uploads_are_unique_and_backed [OF reached] facts show ?thesis by (auto simp: asset_key_def)
qed

end
