(* ===== verification/Code_Policy.thy ===== *)
theory Code_Policy
  imports Data_Assets
begin

text \<open>
  \<open>validate_code\<close> of \<open>server/analysis_runtime.py\<close>: the policy generated code must satisfy before it runs.  The
  syntax tree of the \<open>ast\<close> module is a datatype with the nodes the policy looks at; every other node is
  \<open>Other_node\<close> with its children.  \<open>walk\<close> is \<open>ast.walk\<close>, breadth first, and \<open>ast.parse\<close> is a parameter.
\<close>

section \<open>Syntax trees\<close>

datatype py_ast =
    Import_node "(string \<times> string option) list"
  | Import_from_node "string option" "string list"
  | Name_node string
  | Attribute_node py_ast string
  | Text_node string                               \<comment> \<open>a constant that is a text\<close>
  | Call_node py_ast "py_ast list" "py_ast list"      \<comment> \<open>function, arguments, keywords\<close>
  | Keyword_node "string option" py_ast
  | Structure_node "py_ast list"
      \<comment> \<open>a class, an asynchronous function, \<open>await\<close>, \<open>global\<close>, \<open>nonlocal\<close>\<close>
  | Other_node "py_ast list"

fun children :: "py_ast \<Rightarrow> py_ast list" where
  "children (Attribute_node v a) = [v]"
| "children (Call_node f args kws) = f # args @ kws"
| "children (Keyword_node k v) = [v]"
| "children (Structure_node xs) = xs"
| "children (Other_node xs) = xs"
| "children _ = []"

fun tree_size :: "py_ast \<Rightarrow> nat" where
  "tree_size (Attribute_node v a) = Suc (tree_size v)"
| "tree_size (Call_node f args kws) = Suc (tree_size f + sum_list (map tree_size args) + sum_list (map tree_size kws))"
| "tree_size (Keyword_node k v) = Suc (tree_size v)"
| "tree_size (Structure_node xs) = Suc (sum_list (map tree_size xs))"
| "tree_size (Other_node xs) = Suc (sum_list (map tree_size xs))"
| "tree_size _ = 1"

lemma tree_size_children: "tree_size n = Suc (sum_list (map tree_size (children n)))"
  by (cases n) simp_all

function walk_queue :: "py_ast list \<Rightarrow> py_ast list" where
  "walk_queue [] = []"
| "walk_queue (n # todo) = n # walk_queue (todo @ children n)"
  by pat_completeness auto
termination
  by (relation "measure (\<lambda>q. sum_list (map tree_size q))") (simp_all add: tree_size_children)

definition walk :: "py_ast \<Rightarrow> py_ast list" where
  "walk t = walk_queue [t]"

section \<open>What is allowed\<close>

definition import_names :: "string list" where
  "import_names = [''pandas'', ''numpy'', ''matplotlib.pyplot'', ''statistics'', ''math'', ''json'', ''csv'', ''re'',
     ''datetime'', ''collections'']"

definition forbidden_names :: "string list" where
  "forbidden_names = [''eval'', ''exec'', ''compile'', ''__import__'', ''globals'', ''locals'', ''getattr'', ''setattr'',
     ''delattr'', ''vars'', ''dir'', ''open'', ''input'', ''breakpoint'', ''help'', ''exit'', ''quit'', ''type'', ''object'',
     ''memoryview'']"

definition io_methods :: "string list" where
  "io_methods = [''load'', ''loads'', ''dump'', ''dumps'', ''fromfile'', ''tofile'', ''loadtxt'', ''genfromtxt'', ''save'',
     ''savez'', ''savez_compressed'', ''memmap'', ''imread'', ''imsave'', ''read'', ''write'', ''read_text'', ''write_text'',
     ''open'', ''read_pickle'', ''to_pickle'', ''to_excel'', ''to_sql'', ''read_sql'', ''connect'', ''system'', ''popen'']"

definition module_calls :: "(string \<times> string list) list" where
  "module_calls =
    [(''pandas'', [''DataFrame'', ''Series'', ''concat'', ''merge'', ''to_numeric'', ''to_datetime'', ''to_timedelta'',
       ''crosstab'', ''pivot_table'', ''isna'', ''notna'', ''Timestamp'', ''date_range'', ''cut'', ''qcut'']),
     (''numpy'', [''array'', ''asarray'', ''mean'', ''median'', ''std'', ''var'', ''sum'', ''min'', ''max'', ''corrcoef'',
       ''sqrt'', ''abs'', ''where'', ''isnan'', ''nan'', ''inf'', ''arange'', ''linspace'', ''zeros'', ''ones'', ''round'',
       ''log'', ''exp'', ''percentile'', ''quantile'', ''unique'', ''sort'', ''argsort'']),
     (''matplotlib.pyplot'', [''figure'', ''subplots'', ''bar'', ''barh'', ''plot'', ''scatter'', ''hist'', ''boxplot'',
       ''pie'', ''title'', ''xlabel'', ''ylabel'', ''legend'', ''xticks'', ''yticks'', ''grid'', ''tight_layout'', ''savefig'',
       ''close'', ''axhline'', ''axvline'', ''gcf'', ''text'', ''annotate'', ''xlim'', ''ylim'', ''tick_params'', ''colorbar'']),
     (''json'', [''dumps'', ''loads'']), (''csv'', []),
     (''collections'', [''Counter'', ''defaultdict'', ''deque'', ''OrderedDict'', ''ChainMap'', ''namedtuple'']),
     (''datetime'', [''datetime'', ''date'', ''time'', ''timedelta'', ''timezone'']),
     (''statistics'', [''mean'', ''median'', ''median_low'', ''median_high'', ''mode'', ''multimode'', ''stdev'', ''pstdev'',
       ''variance'', ''pvariance'', ''harmonic_mean'', ''geometric_mean'', ''quantiles'', ''NormalDist'']),
     (''math'', [''sqrt'', ''log'', ''log2'', ''log10'', ''exp'', ''pow'', ''sin'', ''cos'', ''tan'', ''ceil'', ''floor'',
       ''isfinite'', ''isnan'', ''isclose'', ''fabs'', ''fsum'', ''prod'', ''comb'', ''pi'', ''e'', ''inf'', ''nan'']),
     (''re'', [''compile'', ''search'', ''match'', ''fullmatch'', ''findall'', ''finditer'', ''sub'', ''split'', ''escape'',
       ''IGNORECASE'', ''MULTILINE'', ''DOTALL''])]"

definition blocked_attributes :: "string list" where
  "blocked_attributes = [''io'', ''api'', ''compat'', ''core'', ''testing'', ''ctypes'', ''builtins'', ''importlib'', ''query'',
     ''eval'', ''sys'', ''os'', ''modules'', ''globals'', ''locals'', ''env'', ''style'', ''canvas'', ''manager'']"

definition serializers :: "string list" where
  "serializers = [''to_csv'', ''to_json'', ''to_numpy'', ''to_dict'', ''to_list'', ''to_string'', ''to_frame'', ''to_numeric'',
     ''to_datetime'', ''to_timedelta'']"

definition path_rx :: rx where
  "path_rx = (let slash = Cls (\<lambda>c. c = CHR ''/'' \<or> c = CHR 0x5C); letter = Cls (\<lambda>c. is_upper c \<or> is_lower c) in
     Seqs [Bol, Alts [Seqs [letter, Lit '':'', slash], slash, Seqs [Lit ''http'', Opt (Lit ''s''), Lit ''://''], Lit ''file:'']])"

definition re_path :: "string \<Rightarrow> bool" where
  "re_path s = (match_at path_rx s 0 \<noteq> None)"

section \<open>The policy\<close>

type_synonym aliases = "(string, string) dict"

definition forbidden_name :: "string \<Rightarrow> bool" where
  "forbidden_name i = (starts_with ''__'' i \<or> i \<in> set forbidden_names)"

definition forbidden_attribute :: "string \<Rightarrow> bool" where
  "forbidden_attribute a = (starts_with ''_'' a \<or> a \<in> set blocked_attributes \<or> starts_with ''read_'' a \<or> starts_with ''print_'' a
     \<or> a \<in> set io_methods - {''loads'', ''dumps''})"

definition head_name :: "string \<Rightarrow> string" where
  \<comment> \<open>\<open>name.split('.')[0]\<close>\<close>
  "head_name n = hd (split_on (CHR ''.'') [] n)"

definition bind_import :: "aliases \<Rightarrow> string \<times> string option \<Rightarrow> aliases" where
  "bind_import al x = (case x of (n, as) \<Rightarrow> dict_put (if truthy as then the as else head_name n) n al)"

definition check_import :: "aliases \<Rightarrow> (string \<times> string option) list \<Rightarrow> string + aliases" where
  "check_import al names = (if list_all (\<lambda>(n, as). n \<in> set import_names) names then Inr (foldl bind_import al names)
     else Inl ''Forbidden import'')"

definition check_import_from :: "string option \<Rightarrow> string list \<Rightarrow> string + unit" where
  "check_import_from m names =
     (if (case m of None \<Rightarrow> True | Some k \<Rightarrow> k \<notin> set import_names) \<or> list_ex (\<lambda>n. starts_with ''_'' n \<or> n = ''*'') names
      then Inl ''Forbidden import''
      else case map_of module_calls (the m) of
        Some allowed \<Rightarrow> if list_all (\<lambda>n. n \<in> set allowed) names then Inr () else Inl ''Forbidden imported function''
      | None \<Rightarrow> Inr ())"

definition calls_of :: "string \<Rightarrow> string list" where
  "calls_of m = (case map_of module_calls m of None \<Rightarrow> [] | Some fs \<Rightarrow> fs)"

definition check_attribute :: "aliases \<Rightarrow> py_ast \<Rightarrow> string \<Rightarrow> string + unit" where
  "check_attribute al v a =
     (if forbidden_attribute a then Inl ''Forbidden attribute or file access''
      else if (case v of Name_node i \<Rightarrow> (case map_of al i of None \<Rightarrow> False | Some m \<Rightarrow> a \<notin> set (calls_of m)) | _ \<Rightarrow> False)
      then Inl ''Module attribute not allowed''
      else if starts_with ''to_'' a \<and> a \<notin> set serializers then Inl ''Unsupported serializer''
      else Inr ())"

definition check_node :: "aliases \<Rightarrow> py_ast \<Rightarrow> string + aliases" where
  \<comment> \<open>the first walk: the names the imports bind so far go along\<close>
  "check_node al n = (case n of
     Import_node names \<Rightarrow> check_import al names
   | Import_from_node m names \<Rightarrow> (case check_import_from m names of Inl e \<Rightarrow> Inl e | Inr _ \<Rightarrow> Inr al)
   | Name_node i \<Rightarrow> if forbidden_name i then Inl ''Forbidden name'' else Inr al
   | Attribute_node v a \<Rightarrow> (case check_attribute al v a of Inl e \<Rightarrow> Inl e | Inr _ \<Rightarrow> Inr al)
   | Text_node s \<Rightarrow> if re_path s then Inl ''Host paths and network URLs are forbidden'' else Inr al
   | Structure_node xs \<Rightarrow> Inl ''Unsupported executable structure''
   | _ \<Rightarrow> Inr al)"

fun check_nodes :: "aliases \<Rightarrow> py_ast list \<Rightarrow> string + aliases" where
  "check_nodes al [] = Inr al"
| "check_nodes al (n # ns) = (case check_node al n of Inl e \<Rightarrow> Inl e | Inr al' \<Rightarrow> check_nodes al' ns)"

definition plain_name :: "string \<Rightarrow> bool" where
  "plain_name f = (CHR ''/'' \<notin> set f \<and> CHR 0x5C \<notin> set f \<and> CHR '':'' \<notin> set f \<and> \<not> starts_with ''.'' f)"

definition file_suffix :: "string \<Rightarrow> string" where
  "file_suffix f = casefold (suffix_of (base_name f))"

definition artifact_call_ok :: "py_ast list \<Rightarrow> bool" where
  "artifact_call_ok args = (case args of
     Text_node f # _ \<Rightarrow> plain_name f \<and> file_suffix f \<in> {''.json'', ''.txt'', ''.csv''} | _ \<Rightarrow> False)"

definition output_target :: "py_ast list \<Rightarrow> py_ast list \<Rightarrow> py_ast option" where
  "output_target args kws = (case args of
     t # _ \<Rightarrow> Some t
   | [] \<Rightarrow> (case find (\<lambda>k. case k of Keyword_node (Some a) v \<Rightarrow> a \<in> {''fname'', ''path_or_buf''} | _ \<Rightarrow> False) kws of
       Some (Keyword_node k v) \<Rightarrow> Some v | _ \<Rightarrow> None))"

definition check_output :: "string \<Rightarrow> py_ast list \<Rightarrow> py_ast list \<Rightarrow> string + unit" where
  "check_output attr args kws =
     (if attr \<notin> {''savefig'', ''to_csv'', ''to_json''} then Inr ()
      else case output_target args kws of
        None \<Rightarrow> if attr = ''to_json'' then Inr () else Inl ''Artifact output must be a literal relative filename''
      | Some (Text_node f) \<Rightarrow>
          if f = [] \<or> \<not> plain_name f \<or> file_suffix f \<notin> {''.csv'', ''.png'', ''.json'', ''.txt''}
          then Inl ''Invalid artifact output path'' else Inr ()
      | Some _ \<Rightarrow> Inl ''Artifact output must be a literal relative filename'')"

definition check_method :: "aliases \<Rightarrow> py_ast \<Rightarrow> string \<Rightarrow> py_ast list \<Rightarrow> py_ast list \<Rightarrow> string + unit" where
  "check_method al v attr args kws =
     (if (case v of Name_node i \<Rightarrow> (case map_of al i of None \<Rightarrow> False
           | Some m \<Rightarrow> (case map_of module_calls m of None \<Rightarrow> False | Some fs \<Rightarrow> attr \<notin> set fs)) | _ \<Rightarrow> False)
      then Inl ''Module function not allowed''
      else check_output attr args kws)"

definition check_call :: "aliases \<Rightarrow> py_ast \<Rightarrow> string + unit" where
  \<comment> \<open>the second walk, with every name the imports bind\<close>
  "check_call al n = (case n of
     Call_node (Name_node i) args kws \<Rightarrow>
       if i = ''write_artifact'' \<and> \<not> artifact_call_ok args then Inl ''Invalid artifact output path'' else Inr ()
   | Call_node (Attribute_node v attr) args kws \<Rightarrow> check_method al v attr args kws
   | _ \<Rightarrow> Inr ())"

fun check_calls :: "aliases \<Rightarrow> py_ast list \<Rightarrow> string + unit" where
  "check_calls al [] = Inr ()"
| "check_calls al (n # ns) = (case check_call al n of Inl e \<Rightarrow> Inl e | Inr _ \<Rightarrow> check_calls al ns)"

datatype code_fault = Unsafe_Code string | Syntax_Fault string

definition validate_tree :: "py_ast \<Rightarrow> string + unit" where
  "validate_tree t = (case check_nodes [] (walk t) of Inl e \<Rightarrow> Inl e | Inr al \<Rightarrow> check_calls al (walk t))"

definition validate_code :: "(string \<Rightarrow> string + py_ast) \<Rightarrow> int \<Rightarrow> string \<Rightarrow> code_fault + py_ast" where
  "validate_code parse maximum code =
     (if maximum < int (length code) then Inl (Unsafe_Code ''Code size limit exceeded'')
      else case parse code of
        Inl e \<Rightarrow> Inl (Syntax_Fault e)
      | Inr t \<Rightarrow> (case validate_tree t of Inl e \<Rightarrow> Inl (Unsafe_Code e) | Inr _ \<Rightarrow> Inr t))"

end
