(* ===== verification/Code_Policy_Laws.thy ===== *)
theory Code_Policy_Laws
  imports Code_Policy
begin

text \<open>
  What the policy of generated code means: every node of an accepted tree, wherever it is nested, obeys it.  What it
  does not mean: a module that is bound to another name by an assignment is not followed.
\<close>

inductive occurs :: "py_ast \<Rightarrow> py_ast \<Rightarrow> bool" where
  here: "occurs t t"
| below: "c \<in> set (children t) \<Longrightarrow> occurs n c \<Longrightarrow> occurs n t"

lemma occurs_iff: "occurs n t \<longleftrightarrow> n = t \<or> (\<exists>c\<in>set (children t). occurs n c)"
  by (subst occurs.simps) blast

lemma set_walk_queue: "n \<in> set (walk_queue q) \<longleftrightarrow> (\<exists>t\<in>set q. occurs n t)"
proof (induction q rule: walk_queue.induct)
  case (2 t todo)
  have "n \<in> set (walk_queue (t # todo)) \<longleftrightarrow> n = t \<or> (\<exists>u\<in>set (todo @ children t). occurs n u)"
    using 2 by simp
  also have "\<dots> \<longleftrightarrow> (\<exists>u\<in>set (t # todo). occurs n u)" by (auto simp: occurs_iff [of n t])
  finally show ?case .
qed simp

lemma set_walk: "n \<in> set (walk t) \<longleftrightarrow> occurs n t"
  unfolding walk_def set_walk_queue by simp

section \<open>The first walk\<close>

definition bound_name :: "string \<times> string option \<Rightarrow> string" where
  "bound_name x = (if truthy (snd x) then the (snd x) else head_name (fst x))"

lemma bind_import_alt: "bind_import al x = dict_put (bound_name x) (fst x) al"
  by (cases x) (simp add: bind_import_def bound_name_def)

definition imported :: "py_ast list \<Rightarrow> string \<Rightarrow> string \<Rightarrow> bool" where
  \<comment> \<open>an import among the nodes binds the name to the module\<close>
  "imported ns i m = (\<exists>names x. Import_node names \<in> set ns \<and> x \<in> set names \<and> bound_name x = i \<and> fst x = m)"

lemma bound_by_names:
  "map_of (foldl bind_import al names) i = Some m \<Longrightarrow> map_of al i = Some m \<or> (\<exists>x\<in>set names. bound_name x = i \<and> fst x = m)"
proof (induction names arbitrary: al)
  case (Cons x names)
  then have "map_of (foldl bind_import (bind_import al x) names) i = Some m" by simp
  from Cons.IH [OF this] show ?case by (auto simp: bind_import_alt row_simps split: if_splits)
qed simp

lemma names_stay_bound:
  "map_of al i \<noteq> None \<or> (\<exists>x\<in>set names. bound_name x = i) \<Longrightarrow> map_of (foldl bind_import al names) i \<noteq> None"
  by (induction names arbitrary: al) (auto simp: bind_import_alt row_simps)

lemma check_node_aliases:
  assumes "check_node al n = Inr al'"
  shows "(\<forall>i m. map_of al' i = Some m \<longrightarrow> map_of al i = Some m \<or> imported [n] i m)
    \<and> (\<forall>i m. map_of al i \<noteq> None \<or> imported [n] i m \<longrightarrow> map_of al' i \<noteq> None)"
proof (cases "\<exists>names. n = Import_node names")
  case True
  then obtain names where n: "n = Import_node names" by blast
  then have "al' = foldl bind_import al names" using assms by (auto simp: check_node_def check_import_def split: if_splits)
  moreover have "imported [n] i m \<longleftrightarrow> (\<exists>x\<in>set names. bound_name x = i \<and> fst x = m)" for i m
    by (auto simp: n imported_def)
  ultimately show ?thesis using bound_by_names [of al names] names_stay_bound [of al _ names] by blast
next
  case False
  then have "al' = al" using assms by (auto simp: check_node_def split: py_ast.splits sum.splits if_splits)
  moreover have "\<not> imported [n] i m" for i m using False by (auto simp: imported_def)
  ultimately show ?thesis by simp
qed

lemma imported_cons: "imported (n # ns) i m \<longleftrightarrow> imported [n] i m \<or> imported ns i m"
  by (auto simp: imported_def)

lemma check_nodes_aliases:
  "check_nodes al ns = Inr al' \<Longrightarrow>
    (\<forall>i m. map_of al' i = Some m \<longrightarrow> map_of al i = Some m \<or> imported ns i m)
    \<and> (\<forall>i m. map_of al i \<noteq> None \<or> imported ns i m \<longrightarrow> map_of al' i \<noteq> None)"
proof (induction ns arbitrary: al)
  case Nil
  then show ?case by (simp add: imported_def)
next
  case (Cons n ns)
  from Cons.prems obtain b where b: "check_node al n = Inr b" "check_nodes b ns = Inr al'" by (auto split: sum.splits)
  from check_node_aliases [OF b(1)] Cons.IH [OF b(2)] show ?case unfolding imported_cons [of n ns] by blast
qed

definition node_safe :: "py_ast \<Rightarrow> bool" where
  "node_safe n = (case n of
     Import_node names \<Rightarrow> (\<forall>x\<in>set names. fst x \<in> set import_names)
   | Import_from_node m names \<Rightarrow> check_import_from m names = Inr ()
   | Name_node i \<Rightarrow> \<not> forbidden_name i
   | Attribute_node v a \<Rightarrow> \<not> forbidden_attribute a \<and> (starts_with ''to_'' a \<longrightarrow> a \<in> set serializers)
   | Text_node s \<Rightarrow> \<not> re_path s
   | Structure_node xs \<Rightarrow> False
   | Call_node (Name_node i) args kws \<Rightarrow> i = ''write_artifact'' \<longrightarrow> artifact_call_ok args
   | Call_node (Attribute_node v a) args kws \<Rightarrow> check_output a args kws = Inr ()
   | _ \<Rightarrow> True)"

lemma check_node_safe: "check_node al n = Inr al' \<Longrightarrow> (\<And>f args kws. n \<noteq> Call_node f args kws) \<Longrightarrow> node_safe n"
  by (cases n) (auto simp: check_node_def node_safe_def check_import_def check_attribute_def list_all_iff
      split: sum.splits if_splits)

lemma check_nodes_each: "check_nodes al ns = Inr al' \<Longrightarrow> n \<in> set ns \<Longrightarrow> \<exists>b c. check_node b n = Inr c"
  by (induction ns arbitrary: al) (auto split: sum.splits)

lemma check_calls_each: "check_calls al ns = Inr u \<Longrightarrow> n \<in> set ns \<Longrightarrow> check_call al n = Inr ()"
  by (induction ns) (auto split: sum.splits)

lemma check_call_safe: "check_call al (Call_node f args kws) = Inr () \<Longrightarrow> node_safe (Call_node f args kws)"
  by (cases f) (auto simp: check_call_def node_safe_def check_method_def split: if_splits)

lemma modules_listed: "m \<in> set import_names \<Longrightarrow> map_of module_calls m = Some (calls_of m)"
proof -
  have "list_all (\<lambda>m. map_of module_calls m = Some (calls_of m)) import_names" by code_simp
  then show "m \<in> set import_names \<Longrightarrow> ?thesis" by (simp add: list_all_iff)
qed


section \<open>Samples\<close>

definition sample_tree :: py_ast where
  \<comment> \<open>\<open>import pandas as pd\<close> and \<open>pd.concat(x).to_csv('a.csv')\<close>\<close>
  "sample_tree = Other_node [Import_node [(''pandas'', Some ''pd'')],
     Other_node [Call_node (Attribute_node (Call_node (Attribute_node (Name_node ''pd'') ''concat'') [Name_node ''x''] []) ''to_csv'')
       [Text_node ''a.csv''] []]]"


text \<open>
  A module bound by an assignment escapes its list of functions: \<open>import pandas\<close>, \<open>q = pandas\<close> and
  \<open>q.ExcelWriter('../x.xlsx')\<close> are accepted together, although \<open>pandas.ExcelWriter\<close> alone is not.
\<close>

definition escaping_tree :: "string \<Rightarrow> py_ast" where
  "escaping_tree q = Other_node [Import_node [(''pandas'', None)], Other_node [Name_node ''q'', Name_node ''pandas''],
     Other_node [Call_node (Attribute_node (Name_node q) ''ExcelWriter'') [Text_node ''../x.xlsx''] []]]"

lemma assigned_module_escapes:
  "validate_tree (escaping_tree ''q'') = Inr ()" "validate_tree (escaping_tree ''pandas'') = Inl ''Module attribute not allowed''"
  by code_simp+

end
