(* ===== verification/Analysis_Runtime.thy ===== *)
theory Analysis_Runtime
  imports Code_Policy
begin

text \<open>
  \<open>AnalysisRuntime.run\<close> of \<open>server/analysis_runtime.py\<close>: generated code is checked, run in a child process that is
  watched, and its files become artifacts.  What the process does is an input: whether it starts, what is
  observed while it runs, what it prints and leaves behind.  Durations are left out; so are failures of the file
  system that the code does not handle.
\<close>

section \<open>Requests and results\<close>

record analysis_request =
  aq_datasets :: "ident list"
  aq_objective :: string
  aq_code :: string

definition analysis_request_valid :: "analysis_request \<Rightarrow> bool" where
  "analysis_request_valid q = (aq_datasets q \<noteq> [] \<and> length (aq_datasets q) \<le> 10 \<and> aq_objective q \<noteq> []
     \<and> length (aq_objective q) \<le> 3000)"

record execution_result =
  xr_id :: ident
  xr_workspace :: ident
  xr_task :: "ident option"
  xr_status :: string
  xr_objective :: string
  xr_stdout :: string
  xr_stderr :: string
  xr_datasets :: "ident list"
  xr_artifacts :: "artifact list"          \<comment> \<open>shown without their paths\<close>
  xr_hash :: string
  xr_error :: "string option"

record analysis_env =
  av_float :: "rat \<Rightarrow> string"
  av_digest :: "string \<Rightarrow> string"
  av_parse :: "string \<Rightarrow> string + py_ast"
  av_guess :: "string \<Rightarrow> string option"
  av_iso :: "time \<Rightarrow> string"
  av_config :: int_config
  av_files :: file_env

definition optional_json :: "string option \<Rightarrow> json" where
  "optional_json x = (case x of None \<Rightarrow> JNull | Some s \<Rightarrow> JStr s)"

definition artifact_json :: "analysis_env \<Rightarrow> artifact \<Rightarrow> json" where
  \<comment> \<open>\<open>model_dump(exclude={'file_path'})\<close>\<close>
  "artifact_json v a = JObj [(''id'', JStr (af_id a)), (''task_id'', optional_json (af_task_id a)),
     (''step_id'', optional_json (af_step_id a)), (''execution_id'', JStr (af_execution_id a)),
     (''workspace_id'', JStr (af_workspace_id a)), (''filename'', JStr (af_filename a)), (''artifact_type'', JStr (af_type a)),
     (''mime_type'', JStr (af_mime_type a)), (''size_bytes'', JInt (int (af_size a))),
     (''created_at'', JStr (av_iso v (af_created_at a))), (''metadata'', JObj (af_metadata a))]"

definition result_json :: "analysis_env \<Rightarrow> execution_result \<Rightarrow> json" where
  "result_json v r = JObj [(''execution_id'', JStr (xr_id r)), (''workspace_id'', JStr (xr_workspace r)),
     (''task_id'', optional_json (xr_task r)), (''status'', JStr (xr_status r)), (''objective'', JStr (xr_objective r)),
     (''stdout'', JStr (xr_stdout r)), (''stderr'', JStr (xr_stderr r)),
     (''dataset_ids'', JList (map JStr (xr_datasets r))), (''artifacts'', JList (map (artifact_json v) (xr_artifacts r))),
     (''code_hash'', JStr (xr_hash r)), (''error_type'', optional_json (xr_error r))]"

definition record_result :: "analysis_env \<Rightarrow> execution_result \<Rightarrow> data_db \<Rightarrow> data_db" where
  "record_result v r db = save_execution \<lparr>er_execution = xr_id r, er_workspace = xr_workspace r, er_task = xr_task r,
     er_payload = encode (av_float v) (result_json v r)\<rparr> db"

section \<open>The process\<close>

record produced =
  pd_name :: string
  pd_size :: nat
  pd_link :: bool

record process_run =
  pr_launch :: "string option"             \<comment> \<open>the name of the error when it cannot be started\<close>
  pr_watch :: "(rat \<times> nat list) list"      \<comment> \<open>seconds passed and sizes of the new files, while it runs\<close>
  pr_stdout :: "string list"               \<comment> \<open>in the pieces that are read\<close>
  pr_stderr :: "string list"
  pr_return :: int
  pr_outputs :: "produced list"            \<comment> \<open>the new files at the end\<close>

fun drain :: "nat \<Rightarrow> string \<Rightarrow> string list \<Rightarrow> string" where
  "drain limit buffer [] = buffer"
| "drain limit buffer (d # ds) = drain limit (if length buffer < limit then buffer @ take (limit - length buffer) d else buffer) ds"

definition too_much :: "int_config \<Rightarrow> nat list \<Rightarrow> bool" where
  "too_much cfg sizes = (setting cfg ''ANALYSIS_MAX_ARTIFACTS'' 10 < int (length sizes)
     \<or> setting cfg ''ANALYSIS_MAX_ARTIFACT_MB'' 20 * 1024 * 1024 < int (sum_list sizes))"

fun watch :: "int_config \<Rightarrow> (rat \<times> nat list) list \<Rightarrow> string option" where
  "watch cfg [] = None"
| "watch cfg ((passed, sizes) # obs) =
     (if of_int (setting cfg ''ANALYSIS_TIMEOUT_SECONDS'' 30) < passed then Some ''ExecutionTimeout''
      else if too_much cfg sizes then Some ''ArtifactLimitExceeded'' else watch cfg obs)"

definition failure_kinds :: "string list" where
  "failure_kinds = [''SyntaxError'', ''NameError'', ''DependencyUnavailable'', ''MemoryError'', ''ValueError'', ''TypeError'']"

definition process_error :: "int_config \<Rightarrow> process_run \<Rightarrow> string \<Rightarrow> string option" where
  \<comment> \<open>of the text on the standard error\<close>
  "process_error cfg p err =
     (let watched = watch cfg (pr_watch p);
          ended = (if pr_return p \<noteq> 0 \<and> watched = None
            then Some (if contains ''ModuleNotFoundError'' err then ''DependencyUnavailable''
              else case find (\<lambda>k. contains k err) failure_kinds of Some k \<Rightarrow> k | None \<Rightarrow> ''ExecutionError'')
            else watched)
      in if too_much cfg (map pd_size (pr_outputs p)) then Some ''ArtifactLimitExceeded'' else ended)"

section \<open>Artifacts\<close>

definition artifact_suffixes :: "string list" where
  "artifact_suffixes = [''.png'', ''.csv'', ''.json'', ''.txt'']"

definition run_directory :: "analysis_env \<Rightarrow> ident \<Rightarrow> string" where
  "run_directory v i = fe_root (av_files v) @ ''/data_analysis/'' @ i"

definition artifact_of ::
  "analysis_env \<Rightarrow> time \<Rightarrow> ident \<Rightarrow> ident option \<Rightarrow> execution_result \<Rightarrow> produced \<Rightarrow> artifact" where
  "artifact_of v now new_id step_id r p =
     \<lparr>af_id = new_id, af_task_id = xr_task r, af_step_id = step_id, af_execution_id = xr_id r,
      af_workspace_id = xr_workspace r, af_filename = pd_name p, af_type = drop 1 (suffix_of (pd_name p)),
      af_mime_type = (if truthy (av_guess v (pd_name p)) then the (av_guess v (pd_name p)) else ''text/plain''),
      af_file_path = run_directory v (xr_id r) @ ''/'' @ pd_name p, af_size = pd_size p, af_created_at = now, af_metadata = []\<rparr>"

fun register_outputs ::
  "analysis_env \<Rightarrow> time \<Rightarrow> ident option \<Rightarrow> execution_result \<Rightarrow> (ident \<times> produced) list \<Rightarrow> data_db \<Rightarrow>
   (data_db \<times> execution_result) \<times> bool" where
  \<comment> \<open>whether every one was registered; those before a failure stay\<close>
  "register_outputs v now step r [] db = ((db, r), True)"
| "register_outputs v now step r ((i, p) # ps) db =
     (if casefold (suffix_of (pd_name p)) \<notin> set artifact_suffixes \<or> pd_link p then ((db, r), False)
      else case register_artifact (av_files v) (artifact_of v now i step r p) db of
        Inl e \<Rightarrow> ((db, r), False)
      | Inr (db', a) \<Rightarrow> register_outputs v now step (r\<lparr>xr_artifacts := xr_artifacts r @ [a]\<rparr>) ps db')"

section \<open>Running\<close>

definition line_end :: "char \<Rightarrow> bool" where
  "line_end c = (c \<in> {CHR 0x0A, CHR 0x0B, CHR 0x0C, CHR 0x0D, CHR 0x1C, CHR 0x1D, CHR 0x1E, CHR 0x85})"

fun split_lines :: "string \<Rightarrow> string \<Rightarrow> string list" where
  \<comment> \<open>\<open>splitlines\<close>\<close>
  "split_lines w [] = (if w = [] then [] else [w])"
| "split_lines w (c # s) =
     (if line_end c
      then w # (case s of d # s' \<Rightarrow> if c = CHR 0x0D \<and> d = CHR 0x0A then split_lines [] s' else split_lines [] s
                | [] \<Rightarrow> [])
      else split_lines (w @ [c]) s)"

definition error_summary :: "string \<Rightarrow> string \<Rightarrow> string" where
  "error_summary kind err = (if err = [] then kind else take 500 (last (split_lines [] err)))"

record analysis_input =
  ai_id :: ident
  ai_authorized :: "unit result"
  ai_task :: "ident option"
  ai_step :: "ident option"
  ai_process :: process_run
  ai_artifact_ids :: "nat \<Rightarrow> ident"
  ai_now :: time

definition provisional :: "analysis_env \<Rightarrow> analysis_input \<Rightarrow> ident \<Rightarrow> analysis_request \<Rightarrow> execution_result" where
  "provisional v i w q = \<lparr>xr_id = ai_id i, xr_workspace = w, xr_task = ai_task i, xr_status = ''failed'',
     xr_objective = aq_objective q, xr_stdout = [], xr_stderr = [], xr_datasets = aq_datasets q, xr_artifacts = [],
     xr_hash = av_digest v (aq_code q), xr_error = None\<rparr>"

definition fault_type :: "code_fault \<Rightarrow> string" where
  "fault_type f = (case f of Unsafe_Code m \<Rightarrow> ''UnsafeCode'' | Syntax_Fault m \<Rightarrow> ''SyntaxError'')"

definition fault_text :: "code_fault \<Rightarrow> string" where
  "fault_text f = (case f of Unsafe_Code m \<Rightarrow> m | Syntax_Fault m \<Rightarrow> m)"

definition copied_files :: "analysis_env \<Rightarrow> analysis_input \<Rightarrow> data_asset list \<Rightarrow> string list" where
  "copied_files v i assets = map (\<lambda>n. run_directory v (ai_id i) @ ''/'' @ n)
     (map (\<lambda>a. ''dataset_'' @ da_id a @ ''.'' @ da_file_type a) assets @ [''code.py'', ''input.json''])"

definition finish_process ::
  "analysis_env \<Rightarrow> analysis_input \<Rightarrow> execution_result \<Rightarrow> data_db \<Rightarrow> data_db \<times> execution_result" where
  \<comment> \<open>after the process has ended\<close>
  "finish_process v i r db =
     (let p = ai_process i; cfg = av_config v; limit = nat (setting cfg ''ANALYSIS_MAX_OUTPUT_CHARS'' 20000);
          out = take limit (drain limit [] (pr_stdout p)); err = take limit (drain limit [] (pr_stderr p));
          failed = process_error cfg p err;
          r1 = r\<lparr>xr_stdout := out, xr_stderr := err, xr_error := failed\<rparr>;
          db1 = db\<lparr>dd_files := dd_files db @ map (\<lambda>x. run_directory v (ai_id i) @ ''/'' @ pd_name x) (pr_outputs p)\<rparr>;
          (db2, r2) = (if failed \<noteq> None then (db1, r1)
            else case register_outputs v (ai_now i) (ai_step i) r1
                (map (\<lambda>(k, x). (ai_artifact_ids i k, x)) (enumerate 0 (pr_outputs p))) db1 of
              ((d, x), fine) \<Rightarrow> (d, if fine then x\<lparr>xr_status := ''completed''\<rparr> else x\<lparr>xr_error := Some ''ArtifactWriteFailure''\<rparr>));
          r3 = (case xr_error r2 of None \<Rightarrow> r2 | Some k \<Rightarrow> r2\<lparr>xr_stderr := error_summary k (xr_stderr r2)\<rparr>)
      in (record_result v r3 db2, r3))"

definition run_analysis ::
  "analysis_env \<Rightarrow> analysis_input \<Rightarrow> ident \<Rightarrow> analysis_request \<Rightarrow> data_db \<Rightarrow> data_db \<times> execution_result result" where
  "run_analysis v i w q db =
     sbind (db, rbind (ai_authorized i) (\<lambda>_. rmap (\<lambda>d. get_asset (av_files v) w d db) (aq_datasets q))) (\<lambda>assets db.
       let r = provisional v i w q; db = record_result v r db;
           db = db\<lparr>dd_files := dd_files db @ [run_directory v (ai_id i) @ ''/code.py'']\<rparr> in
       case validate_code (av_parse v) (setting (av_config v) ''ANALYSIS_MAX_CODE_CHARS'' 12000) (aq_code q) of
         Inl f \<Rightarrow> (let r = r\<lparr>xr_error := Some (fault_type f), xr_stderr := take 500 (fault_text f)\<rparr> in (record_result v r db, Inr r))
       | Inr t \<Rightarrow>
           sbind (db, rmap (\<lambda>a. checked_path (av_files v) (dd_files db) (da_file_path a)) assets) (\<lambda>_ db.
             let db = db\<lparr>dd_files := dd_files db @ copied_files v i assets\<rparr> in
             case pr_launch (ai_process i) of
               Some e \<Rightarrow> (let r = r\<lparr>xr_error := Some ''ExecutionUnavailable'', xr_stderr := e\<rparr> in (record_result v r db, Inr r))
             | None \<Rightarrow> (case finish_process v i r db of (db, r) \<Rightarrow> (db, Inr r))))"

end
