(* ===== verification/Analysis_Runtime_Laws.thy ===== *)
theory Analysis_Runtime_Laws
  imports Analysis_Runtime
begin

text \<open>
  What an execution of generated code leaves behind: its record, its artifacts, and nothing unless the code was accepted,
  started and ended well.
\<close>

section \<open>Records\<close>

definition payload_of :: "ident \<Rightarrow> data_db \<Rightarrow> string option" where
  "payload_of k db = map_option er_payload (row_get er_execution k (dd_executions db))"

lemma save_execution_rest [simp]:
  "dd_assets (save_execution x db) = dd_assets db" "dd_artifacts (save_execution x db) = dd_artifacts db"
  "dd_files (save_execution x db) = dd_files db"
  by (simp_all add: save_execution_def split: option.split)

lemma payload_saved:
  "payload_of k (save_execution x db) = (if k = er_execution x then Some (er_payload x) else payload_of k db)"
proof (cases "row_get er_execution (er_execution x) (dd_executions db)")
  case None
  then show ?thesis
    by (auto simp: save_execution_def payload_of_def row_get_append row_simps split: option.split)
next
  case (Some y)
  then have "er_execution y = er_execution x" by (rule row_get_Some_key)
  then show ?thesis using Some
      row_get_put_same [of er_execution "y\<lparr>er_payload := er_payload x\<rparr>" "dd_executions db"]
      row_get_put_other [of k er_execution "y\<lparr>er_payload := er_payload x\<rparr>" "dd_executions db"]
    by (auto simp: save_execution_def payload_of_def)
qed

lemma payload_same [simp]:
  "payload_of k (db\<lparr>dd_files := f\<rparr>) = payload_of k db" "payload_of k (db\<lparr>dd_artifacts := a\<rparr>) = payload_of k db"
  by (simp_all add: payload_of_def)

lemma record_result_facts:
  "payload_of k (record_result v r db) = (if k = xr_id r then Some (encode (av_float v) (result_json v r)) else payload_of k db)"
  "dd_assets (record_result v r db) = dd_assets db" "dd_artifacts (record_result v r db) = dd_artifacts db"
  by (simp_all add: record_result_def payload_saved)

section \<open>Artifacts\<close>

definition acceptable :: "produced \<Rightarrow> bool" where
  "acceptable p = (casefold (suffix_of (pd_name p)) \<in> set artifact_suffixes \<and> \<not> pd_link p)"

lemma artifact_of_more [simp]: "artifact_of v now n step (r\<lparr>xr_artifacts := xs\<rparr>) p = artifact_of v now n step r p"
  by (simp add: artifact_of_def)

text \<open>Files are registered in order, up to the first that is refused.\<close>

lemma register_outputs_prefix:
  assumes "register_outputs v now step r ps db = ((db', r'), fine)"
  obtains ys zs where "ps = ys @ zs" "fine \<longleftrightarrow> zs = []" "\<And>x. x \<in> set ys \<Longrightarrow> acceptable (snd x)"
    "db' = db\<lparr>dd_artifacts := dd_artifacts db @ map (\<lambda>x. artifact_of v now (fst x) step r (snd x)) ys\<rparr>"
    "r' = r\<lparr>xr_artifacts := xr_artifacts r @ map (\<lambda>x. artifact_of v now (fst x) step r (snd x)) ys\<rparr>"
  using assms
proof (induction ps arbitrary: r db thesis)
  case Nil
  then show ?case by simp
next
  case (Cons x ps)
  obtain n p where x: "x = (n, p)" by fastforce
  show ?case
  proof (cases "acceptable p \<and> (\<exists>y. register_artifact (av_files v) (artifact_of v now n step r p) db = Inr y)")
    case False
    then show ?thesis using Cons.prems(2) x by (intro Cons.prems(1) [of "[]" "x # ps"])
        (auto simp: acceptable_def split: if_splits sum.splits)
  next
    case True
    then obtain db1 a where reg: "register_artifact (av_files v) (artifact_of v now n step r p) db = Inr (db1, a)" by fastforce
    then have step: "db1 = db\<lparr>dd_artifacts := dd_artifacts db @ [a]\<rparr>" "a = artifact_of v now n step r p"
      by (auto simp: register_artifact_def rbind_Inr_iff row_simps)
    have "register_outputs v now step (r\<lparr>xr_artifacts := xr_artifacts r @ [a]\<rparr>) ps db1 = ((db', r'), fine)"
      using Cons.prems(2) True reg x by (simp add: acceptable_def)
    then obtain ys zs where ys: "ps = ys @ zs" "fine \<longleftrightarrow> zs = []" "\<And>x. x \<in> set ys \<Longrightarrow> acceptable (snd x)"
      "db' = db1\<lparr>dd_artifacts := dd_artifacts db1 @ map (\<lambda>x. artifact_of v now (fst x) step r (snd x)) ys\<rparr>"
      "r' = r\<lparr>xr_artifacts := (xr_artifacts r @ [a]) @ map (\<lambda>x. artifact_of v now (fst x) step r (snd x)) ys\<rparr>"
      using Cons.IH [where r = "r\<lparr>xr_artifacts := xr_artifacts r @ [a]\<rparr>" and db = db1] by auto
    show ?thesis using ys True step x by (intro Cons.prems(1) [of "x # ys" zs]) auto
  qed
qed

section \<open>The process\<close>

definition ended_well :: "int_config \<Rightarrow> process_run \<Rightarrow> bool" where
  "ended_well cfg p = (pr_return p = 0 \<and> watch cfg (pr_watch p) = None
     \<and> int (length (pr_outputs p)) \<le> setting cfg ''ANALYSIS_MAX_ARTIFACTS'' 10
     \<and> int (sum_list (map pd_size (pr_outputs p))) \<le> setting cfg ''ANALYSIS_MAX_ARTIFACT_MB'' 20 * 1024 * 1024)"

lemma process_error_None: "process_error cfg p err = None \<longleftrightarrow> ended_well cfg p"
  by (auto simp: process_error_def ended_well_def too_much_def Let_def)

lemma drain_prefix: "length b \<le> n \<Longrightarrow> drain n b ds = take n (b @ concat ds)"
proof (induction n b ds rule: drain.induct)
  case (2 n b d ds)
  then show ?case by (cases "length d \<le> n - length b") auto
qed simp

definition result_ok :: "analysis_env \<Rightarrow> analysis_input \<Rightarrow> ident \<Rightarrow> data_db \<Rightarrow> data_db \<times> execution_result \<Rightarrow> bool" where
  "result_ok v i w db x = (case x of (db', r) \<Rightarrow>
     payload_of (ai_id i) db' = Some (encode (av_float v) (result_json v r)) \<and> xr_id r = ai_id i
     \<and> (\<forall>k. k \<noteq> ai_id i \<longrightarrow> payload_of k db' = payload_of k db)
     \<and> dd_assets db' = dd_assets db \<and> dd_artifacts db' = dd_artifacts db @ xr_artifacts r
     \<and> (\<forall>a\<in>set (xr_artifacts r). af_execution_id a = ai_id i \<and> af_workspace_id a = w
          \<and> casefold (suffix_of (af_filename a)) \<in> set artifact_suffixes)
     \<and> (xr_status r = ''completed'' \<longleftrightarrow> xr_error r = None))"

lemma result_ok_failed:
  assumes "xr_id r = ai_id i" "xr_status r = ''failed''" "xr_error r = Some e" "xr_artifacts r = []"
    and "\<And>k. k \<noteq> ai_id i \<Longrightarrow> payload_of k db1 = payload_of k db" "dd_assets db1 = dd_assets db" "dd_artifacts db1 = dd_artifacts db"
  shows "result_ok v i w db (record_result v r db1, r)"
  using assms by (auto simp: result_ok_def record_result_facts)

lemma enumerated: "map snd (map (\<lambda>(k, x). (f k, x)) (enumerate n xs)) = xs"
  by (induction xs arbitrary: n) auto

lemma finish_process_ok:
  fixes v i
  defines "p \<equiv> ai_process i" and "cfg \<equiv> av_config v"
  assumes r: "xr_id r = ai_id i" "xr_workspace r = w" "xr_status r = ''failed''" "xr_artifacts r = []"
    and f: "finish_process v i r db = (db', r')"
  shows "result_ok v i w db (db', r') \<and> (xr_artifacts r' \<noteq> [] \<or> xr_error r' = None \<longrightarrow> ended_well cfg p)
    \<and> (xr_error r' = None \<longrightarrow> map af_filename (xr_artifacts r') = map pd_name (pr_outputs p))
    \<and> xr_stdout r' = take (nat (setting cfg ''ANALYSIS_MAX_OUTPUT_CHARS'' 20000)) (concat (pr_stdout p))"
proof -
  define n where "n = nat (setting cfg ''ANALYSIS_MAX_OUTPUT_CHARS'' 20000)"
  define err where "err = take n (drain n [] (pr_stderr p))"
  define r1 where "r1 = r\<lparr>xr_stdout := take n (drain n [] (pr_stdout p)), xr_stderr := err, xr_error := process_error cfg p err\<rparr>"
  define db1 where "db1 = db\<lparr>dd_files := dd_files db @ map (\<lambda>x. run_directory v (ai_id i) @ ''/'' @ pd_name x) (pr_outputs p)\<rparr>"
  define ps where "ps = map (\<lambda>(k, x). (ai_artifact_ids i k, x)) (enumerate 0 (pr_outputs p))"
  define close where "close = (\<lambda>r2 :: execution_result. case xr_error r2 of None \<Rightarrow> r2 | Some k \<Rightarrow> r2\<lparr>xr_stderr := error_summary k (xr_stderr r2)\<rparr>)"
  have out: "xr_stdout r1 = take n (concat (pr_stdout p))" by (simp add: r1_def drain_prefix)
  have closed: "xr_id (close x) = xr_id x" "xr_artifacts (close x) = xr_artifacts x" "xr_status (close x) = xr_status x"
    "xr_error (close x) = xr_error x" "xr_stdout (close x) = xr_stdout x" for x
    by (simp_all add: close_def split: option.split)
  show ?thesis
  proof (cases "process_error cfg p err")
    case (Some e)
    then have eq: "db' = record_result v (close r1) db1" "r' = close r1"
      using f unfolding finish_process_def Let_def p_def [symmetric] cfg_def [symmetric] n_def [symmetric] err_def [symmetric]
        r1_def [symmetric] db1_def [symmetric] close_def by (auto simp: r1_def)
    have "result_ok v i w db (record_result v (close r1) db1, close r1)"
      by (rule result_ok_failed [where e = e]) (simp_all add: closed r1_def r Some db1_def)
    then show ?thesis using Some out by (simp add: eq closed r1_def r n_def)
  next
    case None
    obtain d x fine where reg: "register_outputs v (ai_now i) (ai_step i) r1 ps db1 = ((d, x), fine)"
      by (metis surj_pair)
    define r2 where "r2 = (if fine then x\<lparr>xr_status := ''completed''\<rparr> else x\<lparr>xr_error := Some ''ArtifactWriteFailure''\<rparr>)"
    have eq: "db' = record_result v (close r2) d" "r' = close r2"
      using f reg None unfolding finish_process_def Let_def p_def [symmetric] cfg_def [symmetric] n_def [symmetric] err_def [symmetric]
        r1_def [symmetric] db1_def [symmetric] ps_def [symmetric] r2_def close_def by (auto simp: r1_def)
    from reg obtain ys zs where ys: "ps = ys @ zs" "fine \<longleftrightarrow> zs = []" "\<And>y. y \<in> set ys \<Longrightarrow> acceptable (snd y)"
      and d: "d = db1\<lparr>dd_artifacts := dd_artifacts db1 @ map (\<lambda>y. artifact_of v (ai_now i) (fst y) (ai_step i) r1 (snd y)) ys\<rparr>"
      and x: "x = r1\<lparr>xr_artifacts := xr_artifacts r1 @ map (\<lambda>y. artifact_of v (ai_now i) (fst y) (ai_step i) r1 (snd y)) ys\<rparr>"
      by (rule register_outputs_prefix) (rule that)
    have well: "ended_well cfg p" using None process_error_None by blast
    have arts: "xr_artifacts r' = map (\<lambda>y. artifact_of v (ai_now i) (fst y) (ai_step i) r1 (snd y)) ys"
      by (simp add: eq closed r2_def x r1_def r)
    have base: "xr_id r' = ai_id i" "xr_stdout r' = xr_stdout r1" "xr_error r' = (if fine then None else Some ''ArtifactWriteFailure'')"
      "xr_status r' = (if fine then ''completed'' else ''failed'')"
      by (simp_all add: eq closed r2_def x r1_def r None)
    have "result_ok v i w db (db', r')"
      using ys(3) arts base unfolding result_ok_def
      by (auto simp: eq record_result_facts closed d db1_def artifact_of_def r1_def r acceptable_def)
    moreover have "map af_filename (xr_artifacts r') = map pd_name (pr_outputs p)" if "fine"
    proof -
      have "map snd ys = pr_outputs p" using ys(1,2) that enumerated unfolding ps_def by (metis append_Nil2)
      moreover have "map af_filename (xr_artifacts r') = map pd_name (map snd ys)" by (simp add: arts artifact_of_def)
      ultimately show ?thesis by simp
    qed
    ultimately show ?thesis using well base out by (simp add: n_def)
  qed
qed

section \<open>Executions\<close>

lemma provisional_facts [simp]:
  "xr_id (provisional v i w q) = ai_id i" "xr_workspace (provisional v i w q) = w" "xr_status (provisional v i w q) = ''failed''"
  "xr_artifacts (provisional v i w q) = []" "xr_stdout (provisional v i w q) = []" "xr_error (provisional v i w q) = None"
  by (simp_all add: provisional_def)

definition admitted :: "analysis_env \<Rightarrow> analysis_input \<Rightarrow> analysis_request \<Rightarrow> bool" where
  \<comment> \<open>the code was accepted and the process started\<close>
  "admitted v i q = ((\<exists>t. validate_code (av_parse v) (setting (av_config v) ''ANALYSIS_MAX_CODE_CHARS'' 12000) (aq_code q) = Inr t)
     \<and> pr_launch (ai_process i) = None)"

lemma run_analysis_cases:
  assumes "run_analysis v i w q db = (db', Inr r)"
  obtains (refused) db1 e where "xr_id r = ai_id i" "xr_status r = ''failed''" "xr_error r = Some e" "xr_artifacts r = []"
      "xr_stdout r = []" "db' = record_result v r db1" "\<not> admitted v i q"
      "\<And>k. k \<noteq> ai_id i \<Longrightarrow> payload_of k db1 = payload_of k db" "dd_assets db1 = dd_assets db" "dd_artifacts db1 = dd_artifacts db"
  | (executed) db1 where "finish_process v i (provisional v i w q) db1 = (db', r)" "admitted v i q"
      "\<And>k. k \<noteq> ai_id i \<Longrightarrow> payload_of k db1 = payload_of k db" "dd_assets db1 = dd_assets db" "dd_artifacts db1 = dd_artifacts db"
proof -
  define db0 where "db0 = record_result v (provisional v i w q) db"
  define db1 where "db1 = db0\<lparr>dd_files := dd_files db0 @ [run_directory v (ai_id i) @ ''/code.py'']\<rparr>"
  have same: "\<And>k. k \<noteq> ai_id i \<Longrightarrow> payload_of k db1 = payload_of k db" "dd_assets db1 = dd_assets db" "dd_artifacts db1 = dd_artifacts db"
    by (simp_all add: db1_def db0_def record_result_facts)
  from assms obtain assets where lookups: "rbind (ai_authorized i) (\<lambda>_. rmap (\<lambda>d. get_asset (av_files v) w d db) (aq_datasets q)) = Inr assets"
    by (cases "rbind (ai_authorized i) (\<lambda>_. rmap (\<lambda>d. get_asset (av_files v) w d db) (aq_datasets q))") (auto simp: run_analysis_def)
  note run = assms [unfolded run_analysis_def lookups sbind_simps Let_def, folded db0_def, folded db1_def]
  show thesis
  proof (cases "validate_code (av_parse v) (setting (av_config v) ''ANALYSIS_MAX_CODE_CHARS'' 12000) (aq_code q)")
    case (Inl f)
    then have "db' = record_result v r db1"
      "r = (provisional v i w q)\<lparr>xr_error := Some (fault_type f), xr_stderr := take 500 (fault_text f)\<rparr>"
      using run by auto
    then show thesis using Inl by (intro refused [where ?db1.0 = db1]) (auto simp: admitted_def same)
  next
    case (Inr t)
    define db2 where "db2 = db1\<lparr>dd_files := dd_files db1 @ copied_files v i assets\<rparr>"
    from run Inr have run2: "(case pr_launch (ai_process i) of
        Some e \<Rightarrow> (record_result v ((provisional v i w q)\<lparr>xr_error := Some ''ExecutionUnavailable'', xr_stderr := e\<rparr>) db2,
          Inr ((provisional v i w q)\<lparr>xr_error := Some ''ExecutionUnavailable'', xr_stderr := e\<rparr>))
      | None \<Rightarrow> (case finish_process v i (provisional v i w q) db2 of (db, r) \<Rightarrow> (db, Inr r))) = (db', (Inr r :: execution_result result))"
      unfolding db2_def
      by (cases "rmap (\<lambda>a. checked_path (av_files v) (dd_files db1) (da_file_path a)) assets") simp_all
    have same2: "\<And>k. k \<noteq> ai_id i \<Longrightarrow> payload_of k db2 = payload_of k db" "dd_assets db2 = dd_assets db" "dd_artifacts db2 = dd_artifacts db"
      using same by (simp_all add: db2_def)
    show thesis
    proof (cases "pr_launch (ai_process i)")
      case None
      then show thesis using run2 Inr same2
        by (intro executed [where ?db1.0 = db2]) (auto simp: admitted_def split: prod.splits)
    next
      case (Some e)
      then show thesis using run2 same2
        by (intro refused [where ?db1.0 = db2]) (auto simp: admitted_def)
    qed
  qed
qed

lemma run_analysis_datasets:
  assumes "run_analysis v i w q db = (db', Inr r)" and "d \<in> set (aq_datasets q)"
  shows "\<exists>a\<in>set (dd_assets db). da_id a = d \<and> da_workspace_id a = w"
proof -
  have found: "rmap (\<lambda>d. get_asset (av_files v) w d db) ds = Inr as \<Longrightarrow> d \<in> set ds \<Longrightarrow> \<exists>a. get_asset (av_files v) w d db = Inr a" for ds as
    by (induction ds arbitrary: as) (auto simp: rbind_Inr_iff)
  from assms(1) obtain as where "rmap (\<lambda>d. get_asset (av_files v) w d db) (aq_datasets q) = Inr as"
    by (cases "rbind (ai_authorized i) (\<lambda>_. rmap (\<lambda>d. get_asset (av_files v) w d db) (aq_datasets q))")
      (auto simp: run_analysis_def rbind_Inr_iff)
  with found assms(2) obtain a where "get_asset (av_files v) w d db = Inr a" by blast
  then show ?thesis by (auto simp: get_asset_def find_Some_iff split: option.splits)
qed

lemma run_analysis_ok:
  assumes "run_analysis v i w q db = (db', Inr r)"
  shows "result_ok v i w db (db', r)"
  using assms
proof (cases rule: run_analysis_cases)
  case (refused db1 e)
  show ?thesis unfolding refused(6) by (rule result_ok_failed) (use refused in auto)
next
  case (executed db1)
  have "result_ok v i w db1 (db', r)" using finish_process_ok [OF _ _ _ _ executed(1), of w] by auto
  then show ?thesis using executed by (auto simp: result_ok_def)
qed

text \<open>
  C22: An execution that answers is recorded with exactly what it answers, under its own identifier, and touches no
  other record and no dataset; the datasets it read are of its workspace.  It is completed if and only if it has no
  error.  It adds its artifacts and nothing else, all of an accepted type and of its workspace; and it has artifacts or is
  completed only if the code was accepted, the process started, ended without failure or timeout, and its files are
  within the limits.  A completed execution has an artifact for each file, and the output shown is within its limit.
\<close>

theorem analysis_answers_what_happened:
  assumes "run_analysis v i w q db = (db', Inr r)"
  shows "payload_of (ai_id i) db' = Some (encode (av_float v) (result_json v r))
    \<and> (\<forall>k. k \<noteq> ai_id i \<longrightarrow> payload_of k db' = payload_of k db) \<and> dd_assets db' = dd_assets db
    \<and> (\<forall>d\<in>set (aq_datasets q). \<exists>a\<in>set (dd_assets db). da_id a = d \<and> da_workspace_id a = w)
    \<and> (xr_status r = ''completed'' \<longleftrightarrow> xr_error r = None)
    \<and> dd_artifacts db' = dd_artifacts db @ xr_artifacts r
    \<and> (\<forall>a\<in>set (xr_artifacts r). af_execution_id a = ai_id i \<and> af_workspace_id a = w
         \<and> casefold (suffix_of (af_filename a)) \<in> set artifact_suffixes)
    \<and> (xr_artifacts r \<noteq> [] \<or> xr_status r = ''completed'' \<longrightarrow> admitted v i q \<and> ended_well (av_config v) (ai_process i))
    \<and> (xr_status r = ''completed'' \<longrightarrow> map af_filename (xr_artifacts r) = map pd_name (pr_outputs (ai_process i)))
    \<and> length (xr_stdout r) \<le> nat (setting (av_config v) ''ANALYSIS_MAX_OUTPUT_CHARS'' 20000)"
  using assms
proof (cases rule: run_analysis_cases)
  case (refused db1 e)
  then show ?thesis using run_analysis_ok [OF assms] run_analysis_datasets [OF assms] by (auto simp: result_ok_def)
next
  case (executed db1)
  from finish_process_ok [OF _ _ _ _ executed(1), of w] have f:
    "xr_artifacts r \<noteq> [] \<or> xr_error r = None \<longrightarrow> ended_well (av_config v) (ai_process i)"
    "xr_error r = None \<longrightarrow> map af_filename (xr_artifacts r) = map pd_name (pr_outputs (ai_process i))"
    "length (xr_stdout r) \<le> nat (setting (av_config v) ''ANALYSIS_MAX_OUTPUT_CHARS'' 20000)" by auto
  then show ?thesis using executed(2) run_analysis_ok [OF assms] run_analysis_datasets [OF assms] by (auto simp: result_ok_def)
qed

section \<open>A sample\<close>

definition sample_process :: process_run where
  "sample_process = \<lparr>pr_launch = None, pr_watch = [(1, [])], pr_stdout = [''rows '', ''3''], pr_stderr = [], pr_return = 0,
     pr_outputs = [\<lparr>pd_name = ''t.CSV'', pd_size = 9, pd_link = False\<rparr>, \<lparr>pd_name = ''run.sh'', pd_size = 1, pd_link = False\<rparr>]\<rparr>"

definition sample_analysis_env :: analysis_env where
  "sample_analysis_env = \<lparr>av_float = (\<lambda>x. ''0''), av_digest = id, av_parse = (\<lambda>c. Inr (Name_node ''rows'')), av_guess = (\<lambda>n. None),
     av_iso = (\<lambda>t. ''t''), av_config = (\<lambda>k. if k = ''ANALYSIS_MAX_OUTPUT_CHARS'' then Some 8 else None),
     av_files = \<lparr>fe_root = ''/r'', fe_resolve = id, fe_link = (\<lambda>p. False)\<rparr>\<rparr>"

definition sample_analysis :: analysis_input where
  "sample_analysis = \<lparr>ai_id = ''e'', ai_authorized = Inr (), ai_task = None, ai_step = None, ai_process = sample_process,
     ai_artifact_ids = (\<lambda>k. if k = 0 then ''a'' else ''b''), ai_now = 5\<rparr>"

definition sample_dataset :: data_asset where
  "sample_dataset = \<lparr>da_id = ''d'', da_workspace_id = ''w'', da_filename = ''x.csv'', da_display_name = ''x.csv'', da_file_type = ''csv'',
     da_mime_type = ''text/csv'', da_file_path = ''/r/x'', da_fingerprint = ''f'', da_size = 1, da_status = ''ready'', da_rows = 1,
     da_columns = 1, da_schema = [], da_created_at = 1, da_updated_at = 1\<rparr>"

definition sample_data :: data_db where
  "sample_data = \<lparr>dd_assets = [sample_dataset], dd_executions = [], dd_artifacts = [], dd_files = [''/r/x'']\<rparr>"

definition sample_question :: analysis_request where
  "sample_question = \<lparr>aq_datasets = [''d''], aq_objective = ''count'', aq_code = ''rows''\<rparr>"

text \<open>The first file is registered before the second is refused: the execution fails and its artifact stays.\<close>

theorem analysis_answers_what_happened_witness:
  "\<exists>db r. run_analysis sample_analysis_env sample_analysis ''w'' sample_question sample_data = (db, Inr r)
    \<and> map af_filename (dd_artifacts db) = [''t.CSV''] \<and> xr_status r = ''failed'' \<and> xr_stdout r = ''rows 3''
    \<and> payload_of ''e'' db = Some (encode (\<lambda>x. ''0'') (result_json sample_analysis_env r)) \<and> xr_error r \<noteq> None"
proof -
  obtain db x where run: "run_analysis sample_analysis_env sample_analysis ''w'' sample_question sample_data = (db, x)"
    by fastforce
  define y where "y = run_analysis sample_analysis_env sample_analysis ''w'' sample_question sample_data"
  have "case snd y of Inl e \<Rightarrow> False | Inr r \<Rightarrow> xr_status r = ''failed'' \<and> xr_stdout r = ''rows 3''" 
    unfolding y_def by code_simp
  moreover have "map af_filename (dd_artifacts (fst y)) = [''t.CSV'']"
    unfolding y_def by code_simp
  ultimately obtain r where r: "x = Inr r" "xr_status r = ''failed''" "xr_stdout r = ''rows 3''" "map af_filename (dd_artifacts db) = [''t.CSV'']"
    using run by (auto simp: y_def split: sum.splits)
  from analysis_answers_what_happened [OF run [unfolded r(1)]] r
  have "payload_of ''e'' db = Some (encode (\<lambda>x. ''0'') (result_json sample_analysis_env r))" "xr_error r \<noteq> None"
    by (auto simp: sample_analysis_def sample_analysis_env_def)
  then show ?thesis using run r by (intro exI [of _ db] exI [of _ r]) simp
qed

end
