(* ===== verification/Deterministic_Analysis.thy ===== *)
theory Deterministic_Analysis
  imports PyJson
begin

text \<open>
  \<open>server/deterministic_analysis.py\<close>: questions that a checked template answers without a model.  A template is a
  list of pieces: program text, a quoted column name, a number.  How a float is written is a parameter.
\<close>

section \<open>Schemas\<close>

record table_schema =
  ts_columns :: "string list"
  ts_dtypes :: "(string, string) dict"

definition text_of :: "json \<Rightarrow> string" where
  "text_of v = (case v of JStr s \<Rightarrow> s | _ \<Rightarrow> [])"

definition field :: "string \<Rightarrow> json \<Rightarrow> json" where
  "field k v = (case v of JObj d \<Rightarrow> (case map_of d k of None \<Rightarrow> JNull | Some x \<Rightarrow> x) | _ \<Rightarrow> JNull)"

definition table_of :: "json \<Rightarrow> table_schema" where
  "table_of v = \<lparr>ts_columns = (case field ''column_names'' v of JList cs \<Rightarrow> map text_of cs | _ \<Rightarrow> []),
     ts_dtypes = (case field ''dtypes'' v of JObj d \<Rightarrow> map (\<lambda>(k, x). (k, text_of x)) d | _ \<Rightarrow> [])\<rparr>"

definition sheets_of :: "(string, json) dict \<Rightarrow> (string, table_schema) dict" where
  "sheets_of inspection = (case map_of inspection ''sheets'' of
     Some (JObj d) \<Rightarrow> map (\<lambda>(n, t). (n, table_of t)) d | _ \<Rightarrow> [])"

definition numeric_columns :: "table_schema \<Rightarrow> string list" where
  "numeric_columns t = filter (\<lambda>c. case map_of (ts_dtypes t) c of
     None \<Rightarrow> False | Some d \<Rightarrow> found (Alts [Lit ''int'', Lit ''float'']) d) (ts_columns t)"

section \<open>Patterns\<close>

definition statistics_rx :: rx where
  "statistics_rx = Alts (map ILit [''correlation'', ''regression'', ''significan'', ''anova'', ''causal''])"

definition best_rx :: rx where
  "best_rx = Alts (map ILit [''best'', ''highest'', ''max''])"

definition chart_rx :: rx where
  "chart_rx = Alts (map ILit [''chart'', ''plot''])"

definition compound_rx :: rx where
  "compound_rx = Alts (map ILit [''and'', ''then'', ''chart'', ''plot'', ''filter'', ''compare''])"

definition column_rx :: "string \<Rightarrow> rx" where
  "column_rx c = Seqs [NotBefore is_word, ILit c, NotAfter is_word]"

definition rows_rx :: rx where
  "rows_rx = Alts [Seqs [ILit ''how many rows'', Opt (Lit ''?'')], ILit ''row count'', ILit ''count rows'']"

definition sort_rx :: "string \<Rightarrow> rx" where
  "sort_rx c = Seqs [ILit ''sort'', Plus (Cls is_space), ILit c, Star (Cls is_space),
     Opt (Alts [ILit ''ascending'', ILit ''descending''])]"

definition operations :: "(string \<times> rx) list" where
  "operations = [(''mean'', Alts [ILit ''average'', ILit ''mean'']),
     (''min'', Alts [ILit ''minimum'', Seqs [WordB, ILit ''min'', WordB]]),
     (''max'', Alts [ILit ''maximum'', Seqs [WordB, ILit ''max'', WordB]])]"

definition below_rx :: rx where
  "below_rx = Seq (Alts (map Lit [''under'', ''fewer than'', ''below'', ''less than'', ''<''])) (Star (Cls is_space))"

definition number_rx :: rx where
  "number_rx = Seq (Plus (Cls is_digit)) (Opt (Seq (Lit ''.'') (Plus (Cls is_digit))))"

definition million_rx :: rx where
  "million_rx = Seq (Star (Cls is_space)) (Cls (\<lambda>c. c \<in> {CHR ''m'', CHR ''M''}))"

text \<open>The group of a match of \<open>a(b)c\<close>: the first way to match in the matcher's order, at the leftmost place.\<close>

definition groups_at :: "rx \<Rightarrow> rx \<Rightarrow> rx \<Rightarrow> string \<Rightarrow> nat \<Rightarrow> string list" where
  "groups_at a b c s i = concat (map (\<lambda>j. concat (map (\<lambda>k. if ends s c k = [] then [] else [slice s j k]) (ends s b j))) (ends s a i))"

definition search_group :: "rx \<Rightarrow> rx \<Rightarrow> rx \<Rightarrow> string \<Rightarrow> string option" where
  "search_group a b c s = (case concat (map (groups_at a b c s) [0..<Suc (length s)]) of [] \<Rightarrow> None | g # _ \<Rightarrow> Some g)"

definition cap_of :: "string \<Rightarrow> string option" where
  "cap_of objective = search_group below_rx number_rx million_rx objective"

section \<open>Templates\<close>

datatype code_piece = Txt string | Quoted string | Number string

definition NL :: code_piece where
  "NL = Txt [CHR 0x0A]"

fun piece_text :: "(string \<Rightarrow> string) \<Rightarrow> code_piece \<Rightarrow> string" where
  "piece_text num (Txt t) = t"
| "piece_text num (Quoted c) = repr_str c"
| "piece_text num (Number x) = num x"

definition render :: "(string \<Rightarrow> string) \<Rightarrow> code_piece list \<Rightarrow> string" where
  "render num ps = concat (map (piece_text num) ps)"

definition rank_template :: "string \<Rightarrow> string \<Rightarrow> string \<Rightarrow> code_piece list" where
  "rank_template p m x = [Txt ''import json'', NL, Txt ''import pandas as pd'', NL, Txt ''frame = df.copy()'', NL,
     Txt ''frame['', Quoted p, Txt ''] = pd.to_numeric(frame['', Quoted p, Txt ''], errors='coerce')'', NL,
     Txt ''frame['', Quoted m, Txt ''] = pd.to_numeric(frame['', Quoted m, Txt ''], errors='coerce')'', NL,
     Txt ''valid = frame.dropna(subset=['', Quoted p, Txt '', '', Quoted m, Txt ''])'', NL,
     Txt ''ranked = valid.sort_values('', Quoted m, Txt '', ascending=False)'', NL,
     Txt ''eligible = ranked[ranked['', Quoted p, Txt ''] < '', Number x, Txt '']'', NL,
     Txt ''summary = {'best': json.loads(eligible.head(1).to_json(orient='records')), 'operation': 'rank_under_budget','', NL,
     Txt '' 'constraint': {'operator': '<', 'threshold': '', Number x, Txt '', 'unit': 'million parameters'},'', NL,
     Txt '' 'parameter_column': '', Quoted p, Txt '', 'metric_column': '', Quoted m, Txt '','', NL,
     Txt '' 'rows': len(frame), 'excluded_missing_rows': len(frame)-len(valid),'', NL,
     Txt '' 'ranked': json.loads(ranked.head(20).to_json(orient='records')),'', NL,
     Txt '' 'eligible': json.loads(eligible.head(20).to_json(orient='records')), 'eligible_count':len(eligible),'', NL,
     Txt '' 'statistics': json.loads(valid.describe().to_json())}'', NL]"

definition chart_template :: "string \<Rightarrow> string \<Rightarrow> string \<Rightarrow> code_piece list" where
  "chart_template p m x = [Txt ''import matplotlib.pyplot as plt'', NL, Txt ''plt.figure(figsize=(6,4))'', NL,
     Txt ''plt.scatter(valid['', Quoted p, Txt ''], valid['', Quoted m, Txt ''])'', NL,
     Txt ''plt.axvline('', Number x, Txt '', linestyle='--')'', NL, Txt ''plt.xlabel('', Quoted p, Txt '')'', NL,
     Txt ''plt.ylabel('', Quoted m, Txt '')'', NL, Txt ''plt.tight_layout()'', NL, Txt ''plt.savefig('comparison.png')'', NL,
     Txt ''plt.close()'', NL, Txt (''summary['chart'] = 'comparison.png'' @ [CHR 0x27]), NL]"

definition summary_template :: "code_piece list" where
  "summary_template = [Txt ''write_artifact('summary.json', json.dumps(summary, indent=2))'', NL, Txt ''print(json.dumps(summary))'']"

definition operation_template :: "string \<Rightarrow> string \<Rightarrow> code_piece list" where
  "operation_template c f = [Txt ''import json'', NL, Txt ''print(json.dumps({'column':'', Quoted c, Txt '','operation':'', Quoted f,
     Txt '','value':df['', Quoted c, Txt (''].'' @ f @ ''()}))'')]"

definition rows_template :: "code_piece list" where
  "rows_template = [Txt ''import json'', NL, Txt ''print(json.dumps({'rows':len(df)}))'']"

definition sort_template :: "string \<Rightarrow> bool \<Rightarrow> code_piece list" where
  "sort_template c ascending = [Txt ''print(df.sort_values('', Quoted c, Txt ('',ascending='' @ (if ascending then ''True'' else ''False'')
     @ '').to_json(orient='records'))'')]"

section \<open>Choosing\<close>

definition parameter_column :: "string list \<Rightarrow> string option" where
  "parameter_column numeric = find (\<lambda>c. casefold c \<in> {''params_m'', ''parameters_m''}) numeric"

definition metric_column :: "string \<Rightarrow> string list \<Rightarrow> string option" where
  "metric_column objective numeric =
     (let p = parameter_column numeric; remaining = filter (\<lambda>c. Some c \<noteq> p) numeric in
      case find (\<lambda>c. contains (casefold c) (casefold objective) \<and> Some c \<noteq> p) numeric of
        Some c \<Rightarrow> Some c
      | None \<Rightarrow> (case remaining of [c] \<Rightarrow> if casefold c \<in> {''miou'', ''accuracy'', ''f1'', ''iou''} then Some c else None | _ \<Rightarrow> None))"

definition single_column :: "string \<Rightarrow> string list \<Rightarrow> string option" where
  "single_column objective numeric = (case filter (\<lambda>c. found (column_rx c) objective) numeric of [c] \<Rightarrow> Some c | _ \<Rightarrow> None)"

definition rank_pieces :: "string \<Rightarrow> string list \<Rightarrow> code_piece list option" where
  "rank_pieces objective numeric =
     (case (parameter_column numeric, metric_column objective numeric, cap_of objective) of
        (Some p, Some m, Some x) \<Rightarrow>
          if p \<noteq> [] \<and> m \<noteq> [] \<and> found best_rx objective
          then Some (rank_template p m x @ (if found chart_rx objective then chart_template p m x else []) @ summary_template)
          else None
      | _ \<Rightarrow> None)"

definition simple_pieces :: "string \<Rightarrow> string list \<Rightarrow> code_piece list option" where
  "simple_pieces objective numeric =
     (let single = single_column objective numeric;
          operation = find (\<lambda>(f, r). found r objective) operations in
      case (if single \<noteq> None \<and> \<not> found compound_rx objective then operation else None) of
        Some (f, r) \<Rightarrow> Some (operation_template (the single) f)
      | None \<Rightarrow>
          if fullmatch rows_rx (strip objective) then Some rows_template
          else (case single of
              None \<Rightarrow> None
            | Some c \<Rightarrow> if fullmatch (sort_rx c) (strip objective)
                then Some (sort_template c (\<not> found (ILit ''descending'') objective)) else None))"

definition deterministic_pieces :: "string \<Rightarrow> (string, table_schema) dict \<Rightarrow> code_piece list option" where
  "deterministic_pieces objective sheets =
     (case sheets of
        [(n, t)] \<Rightarrow>
          if found statistics_rx objective then None
          else (case rank_pieces objective (numeric_columns t) of
              Some ps \<Rightarrow> Some ps | None \<Rightarrow> simple_pieces objective (numeric_columns t))
      | _ \<Rightarrow> None)"

definition deterministic_code :: "(string \<Rightarrow> string) \<Rightarrow> string \<Rightarrow> (string, json) dict \<Rightarrow> string option" where
  "deterministic_code num objective inspection = map_option (render num) (deterministic_pieces objective (sheets_of inspection))"

end
