(* ===== verification/Deterministic_Analysis_Laws.thy ===== *)
theory Deterministic_Analysis_Laws
  imports Deterministic_Analysis Json_Text
begin

text \<open>
  A template cannot be escaped from: a quoted name is read back by Python as that name, whatever it contains, so that the
  names of columns, which come from uploaded files, never become program text.
\<close>

section \<open>Reading a literal\<close>

fun read_literal :: "char \<Rightarrow> string \<Rightarrow> (string \<times> string) option" where
  \<comment> \<open>what follows the opening quote \<open>q\<close>: the text of the literal and what is left\<close>
  "read_literal q [] = None"
| "read_literal q (c # s) =
     (if c = q then Some ([], s)
      else if c = CHR 0x0A then None
      else if c = char_of (92::nat)
      then (case s of
          [] \<Rightarrow> None
        | d # s' \<Rightarrow>
            if d = CHR ''n'' then map_option (map_prod ((#) (CHR 0x0A)) id) (read_literal q s')
            else if d = CHR ''r'' then map_option (map_prod ((#) (CHR 0x0D)) id) (read_literal q s')
            else if d = CHR ''t'' then map_option (map_prod ((#) (CHR 0x09)) id) (read_literal q s')
            else if d = CHR ''x''
            then (case s' of
                h # l # s'' \<Rightarrow> (case (hex_value h, hex_value l) of
                    (Some a, Some b) \<Rightarrow> map_option (map_prod ((#) (char_of (16 * a + b))) id) (read_literal q s'')
                  | _ \<Rightarrow> None)
              | _ \<Rightarrow> None)
            else if d = q \<or> d = char_of (92::nat) then map_option (map_prod ((#) d) id) (read_literal q s')
            else None)
      else map_option (map_prod ((#) c) id) (read_literal q s))"

definition read_str :: "string \<Rightarrow> (string \<times> string) option" where
  "read_str s = (case s of q # s' \<Rightarrow> if q \<in> {CHR 0x22, CHR 0x27} then read_literal q s' else None | [] \<Rightarrow> None)"

lemma control_chars: "char_of (10::nat) = CHR 0x0A" "char_of (13::nat) = CHR 0x0D" "char_of (9::nat) = CHR 0x09"
  by code_simp+

lemma read_repr_char:
  assumes "q \<in> {CHR 0x22, CHR 0x27}"
  shows "read_literal q (repr_char q c @ s) = map_option (map_prod ((#) c) id) (read_literal q s)"
proof -
  define n where "n = (of_char c :: nat)"
  have c: "c = char_of n" by (simp add: n_def)
  have q: "q \<noteq> char_of (92::nat)" "q \<noteq> CHR ''n''" "q \<noteq> CHR ''r''" "q \<noteq> CHR ''t''" "q \<noteq> CHR ''x''"
    using assms by (auto simp: backslash)
  consider "c = q \<or> n = 92" | "n = 10" | "n = 13" | "n = 9"
    | "c \<noteq> q" "n \<noteq> 92" "n \<noteq> 10" "n \<noteq> 13" "n \<noteq> 9" "n < 32 \<or> n = 127"
    | "c \<noteq> q" "n \<noteq> 92" "n \<noteq> 10" "n \<noteq> 13" "n \<noteq> 9" "\<not> (n < 32 \<or> n = 127)" by blast
  then show ?thesis
  proof cases
    case 1
    then have "repr_char q c = [char_of (92::nat), c]" by (auto simp: repr_char_def n_def Let_def)
    moreover have "c = q \<or> c = char_of (92::nat)" using 1 c by blast
    ultimately show ?thesis using q by (auto simp: backslash)
  next
    case 2
    then have "c = CHR 0x0A" "repr_char q c = [char_of (92::nat), CHR ''n'']"
      using assms by (auto simp: c repr_char_def Let_def control_chars)
    then show ?thesis using q by (simp add: backslash)
  next
    case 3
    then have "c = CHR 0x0D" "repr_char q c = [char_of (92::nat), CHR ''r'']"
      using assms by (auto simp: c repr_char_def Let_def control_chars)
    then show ?thesis using q by (simp add: backslash)
  next
    case 4
    then have "c = CHR 0x09" "repr_char q c = [char_of (92::nat), CHR ''t'']"
      using assms by (auto simp: c repr_char_def Let_def control_chars)
    then show ?thesis using q by (simp add: backslash)
  next
    case 5
    then have h: "hex_value (hex_digit (n div 16)) = Some (n div 16)" "hex_value (hex_digit (n mod 16)) = Some (n mod 16)"
      by (auto intro: hex_digit_value)
    have "repr_char q c = [char_of (92::nat), CHR ''x'', hex_digit (n div 16), hex_digit (n mod 16)]"
      using 5 by (auto simp: repr_char_def n_def Let_def)
    then show ?thesis using q h by (simp add: n_def backslash)
  next
    case 6
    then have "repr_char q c = [c]" by (auto simp: repr_char_def n_def Let_def)
    moreover have "c \<noteq> CHR 0x0A" "c \<noteq> char_of (92::nat)" using 6 by (auto simp: n_def)
    ultimately show ?thesis using 6(1) by simp
  qed
qed

lemma read_repr_chars:
  "q \<in> {CHR 0x22, CHR 0x27} \<Longrightarrow> read_literal q (concat (map (repr_char q) s) @ q # rest) = Some (s, rest)"
  by (induction s) (simp_all add: read_repr_char)

lemma read_repr: "read_str (repr_str c @ rest) = Some (c, rest)"
  by (simp add: read_str_def repr_str_def Let_def read_repr_chars)

section \<open>Matches and their characters\<close>

primrec chars_in :: "(char \<Rightarrow> bool) \<Rightarrow> rx \<Rightarrow> bool" where
  "chars_in P (Cls p) = (\<forall>c. p c \<longrightarrow> P c)"
| "chars_in P Eps = True"
| "chars_in P (Seq a b) = (chars_in P a \<and> chars_in P b)"
| "chars_in P (Alt a b) = (chars_in P a \<and> chars_in P b)"
| "chars_in P (Star a) = chars_in P a"
| "chars_in P WordB = True"
| "chars_in P Bol = True"
| "chars_in P Eol = True"
| "chars_in P (NotBefore p) = True"
| "chars_in P (NotAfter p) = True"

definition spanned :: "(char \<Rightarrow> bool) \<Rightarrow> string \<Rightarrow> nat \<Rightarrow> nat \<Rightarrow> bool" where
  "spanned P s i j = (\<forall>k. i \<le> k \<longrightarrow> k < j \<longrightarrow> P (s ! k))"

lemma spanned_trans: "spanned P s i j \<Longrightarrow> spanned P s j k \<Longrightarrow> spanned P s i k"
  by (auto simp: spanned_def)

lemma star_ends_spanned:
  assumes "\<And>i j. j \<in> set (f i) \<Longrightarrow> spanned P s i j" and "j \<in> set (star_ends n f i)"
  shows "spanned P s i j"
  using assms
proof (induction n f i arbitrary: j rule: star_ends.induct)
  case (1 f i)
  then show ?case by (simp add: spanned_def)
next
  case (2 n f i)
  show ?case
  proof (cases "j = i")
    case True
    then show ?thesis by (simp add: spanned_def)
  next
    case False
    with "2.prems"(2) obtain k where k: "k \<in> set (f i)" "i < k" "j \<in> set (star_ends n f k)" by (auto split: if_splits)
    have "spanned P s k j" by (rule "2.IH" [OF k(1,2)]) (use "2.prems"(1) k(3) in auto)
    with "2.prems"(1) [OF k(1)] show ?thesis by (rule spanned_trans)
  qed
qed

lemma ends_spanned: "chars_in P r \<Longrightarrow> j \<in> set (ends s r i) \<Longrightarrow> spanned P s i j"
proof (induction r arbitrary: i j)
  case (Seq a b)
  then obtain k where "k \<in> set (ends s a i)" "j \<in> set (ends s b k)" by auto
  then show ?case using Seq spanned_trans by (metis chars_in.simps(3))
next
  case (Star a)
  then show ?case using star_ends_spanned [of "ends s a" P s j "length s" i] by simp
qed (auto simp: spanned_def split: if_splits; metis le_antisym less_Suc_eq_le)+

definition decimal_char :: "char \<Rightarrow> bool" where
  "decimal_char c = (is_digit c \<or> c = CHR ''.'')"

lemma cap_of_number: "cap_of objective = Some x \<Longrightarrow> list_all decimal_char x"
proof -
  assume cap: "cap_of objective = Some x"
  define gs where "gs = concat (map (groups_at below_rx number_rx million_rx objective) [0..<Suc (length objective)])"
  have "(case gs of [] \<Rightarrow> None | g # _ \<Rightarrow> Some g) = Some x"
    using cap by (simp only: cap_of_def search_group_def gs_def)
  then have "gs \<noteq> []" "hd gs = x" by (auto split: list.splits)
  then have "x \<in> set gs" by (metis hd_in_set)
  then obtain i j k where k: "j \<in> set (ends objective below_rx i)" "k \<in> set (ends objective number_rx j)" and i: "i \<le> length objective"
    and x: "x = slice objective j k" unfolding gs_def by (auto simp: groups_at_def split: if_splits)
  have "chars_in decimal_char number_rx" by (simp add: number_rx_def Plus_def Opt_def decimal_char_def)
  with k(2) have "spanned decimal_char objective j k" by (rule ends_spanned [rotated])
  moreover have "j \<le> k \<and> k \<le> length objective" using ends_bounds [OF k(1)] ends_bounds [OF k(2)] i by simp
  ultimately show "list_all decimal_char x"
    by (auto simp: x slice_def list_all_length spanned_def)
qed

section \<open>Templates\<close>

definition fixed_texts :: "string list" where
  "fixed_texts = concat (map (\<lambda>p. case p of Txt t \<Rightarrow> [t] | _ \<Rightarrow> [])
     (rank_template [] [] [] @ chart_template [] [] [] @ summary_template @ rows_template
      @ concat (map (\<lambda>(f, r). operation_template [] f) operations) @ sort_template [] True @ sort_template [] False))"

definition piece_ok :: "string list \<Rightarrow> code_piece \<Rightarrow> bool" where
  "piece_ok cs p = (case p of
     Txt t \<Rightarrow> t \<in> set fixed_texts
   | Quoted c \<Rightarrow> c \<in> set cs \<or> c \<in> {''mean'', ''min'', ''max''}
   | Number x \<Rightarrow> list_all decimal_char x)"

lemma template_ok:
  "c \<in> set cs \<Longrightarrow> m \<in> set cs \<Longrightarrow> list_all decimal_char x \<Longrightarrow> list_all (piece_ok cs) (rank_template c m x @ chart_template c m x)"
  "list_all (piece_ok cs) summary_template" "list_all (piece_ok cs) rows_template"
  "c \<in> set cs \<Longrightarrow> (f, r) \<in> set operations \<Longrightarrow> list_all (piece_ok cs) (operation_template c f)"
  "c \<in> set cs \<Longrightarrow> list_all (piece_ok cs) (sort_template c up)"
  by (auto simp: piece_ok_def fixed_texts_def rank_template_def chart_template_def summary_template_def rows_template_def
      operation_template_def sort_template_def operations_def NL_def)

lemma filter_single: "filter P cs = [m] \<Longrightarrow> m \<in> set cs"
  by (metis filter_is_subset list.set_intros(1) subsetD)

lemma find_member: "find P cs = Some c \<Longrightarrow> c \<in> set cs"
  by (auto simp: find_Some_iff)

lemma rank_pieces_ok: "rank_pieces objective cs = Some ps \<Longrightarrow> list_all (piece_ok cs) ps"
proof -
  assume "rank_pieces objective cs = Some ps"
  then obtain p m x where sel: "parameter_column cs = Some p" "metric_column objective cs = Some m" "cap_of objective = Some x"
    and ps: "ps = rank_template p m x @ (if found chart_rx objective then chart_template p m x else []) @ summary_template"
    by (auto simp: rank_pieces_def split: option.splits if_splits)
  have p: "p \<in> set cs" using sel(1) by (auto simp: parameter_column_def find_Some_iff)
  have m: "m \<in> set cs"
  proof (cases "find (\<lambda>c. contains (casefold c) (casefold objective) \<and> Some c \<noteq> parameter_column cs) cs")
    case None
    then have "filter (\<lambda>c. Some c \<noteq> parameter_column cs) cs = [m]"
      using sel(2) by (simp add: metric_column_def Let_def split: list.splits if_splits)
    then show ?thesis by (rule filter_single)
  next
    case (Some c)
    then show ?thesis using sel(2) find_member [OF Some] by (simp add: metric_column_def Let_def)
  qed
  show ?thesis using template_ok(1) [OF p m cap_of_number [OF sel(3)]] template_ok(2) [of cs] by (auto simp: ps)
qed

lemma single_column_in: "single_column objective cs = Some c \<Longrightarrow> c \<in> set cs"
proof -
  assume "single_column objective cs = Some c"
  then have "filter (\<lambda>c. found (column_rx c) objective) cs = [c]" by (auto simp: single_column_def split: list.splits)
  then show ?thesis by (rule filter_single)
qed

lemma simple_pieces_ok:
  assumes "simple_pieces objective cs = Some ps"
  shows "list_all (piece_ok cs) ps"
proof (cases "if single_column objective cs \<noteq> None \<and> \<not> found compound_rx objective then find (\<lambda>(f, r). found r objective) operations else None")
  case None
  then show ?thesis using assms single_column_in [of objective cs] template_ok(3,5)
    by (auto simp: simple_pieces_def Let_def split: option.splits if_splits)
next
  case (Some x)
  obtain f r where x: "x = (f, r)" by fastforce
  from Some x have "(f, r) \<in> set operations" "single_column objective cs \<noteq> None"
    by (auto split: if_splits dest: find_member)
  then show ?thesis using assms Some x single_column_in [of objective cs] template_ok(4)
    by (auto simp: simple_pieces_def Let_def split: option.splits if_splits)
qed

text \<open>
  C24: Whatever the columns of an uploaded file are called and whatever is asked, the code of a template is made of the
  fixed texts of the templates, of quoted names of numeric columns of the single sheet or of an operation, and of a number of
  digits and dots; and Python reads every quoted name back as the name itself, so that no name continues as code.
\<close>

theorem deterministic_code_is_injection_free:
  assumes "deterministic_code num objective inspection = Some code"
  shows "\<exists>n t ps. sheets_of inspection = [(n, t)] \<and> code = concat (map (piece_text num) ps)
    \<and> (\<forall>s. Txt s \<in> set ps \<longrightarrow> s \<in> set fixed_texts)
    \<and> (\<forall>x. Number x \<in> set ps \<longrightarrow> list_all decimal_char x)
    \<and> (\<forall>c. Quoted c \<in> set ps \<longrightarrow> (c \<in> set (numeric_columns t) \<or> c \<in> {''mean'', ''min'', ''max''})
         \<and> (\<forall>rest. read_str (piece_text num (Quoted c) @ rest) = Some (c, rest)))"
proof -
  from assms obtain ps where ps: "deterministic_pieces objective (sheets_of inspection) = Some ps" and code: "code = render num ps"
    by (auto simp: deterministic_code_def)
  then obtain n t where t: "sheets_of inspection = [(n, t)]"
    by (auto simp: deterministic_pieces_def split: list.splits)
  have "list_all (piece_ok (numeric_columns t)) ps"
    using ps rank_pieces_ok simple_pieces_ok by (auto simp: deterministic_pieces_def t split: if_splits option.splits)
  then have each: "\<And>p. p \<in> set ps \<Longrightarrow> piece_ok (numeric_columns t) p" by (simp add: list_all_iff)
  show ?thesis
    using each by (intro exI [of _ n] exI [of _ t] exI [of _ ps]) (auto simp: t code render_def read_repr dest!: each simp: piece_ok_def)
qed

section \<open>A sample\<close>

definition quoting_inspection :: "(string, json) dict" where
  \<comment> \<open>a column whose name tries to leave its literal\<close>
  "quoting_inspection = [(''sheets'', JObj [(''data'', JObj [(''column_names'', JList [JStr ''f'];x('']),
     (''dtypes'', JObj [(''f'];x('', JStr ''int64'')])])])]"

theorem deterministic_code_is_injection_free_witness:
  "\<exists>ps. deterministic_code id ''mean f'];x('' quoting_inspection = Some (concat (map (piece_text id) ps)) \<and> Txt '';x('' \<notin> set ps
    \<and> Quoted '';x('' \<notin> set ps"
proof -
  have "deterministic_code id ''mean f'];x('' quoting_inspection \<noteq> None" by code_simp
  then obtain code where code: "deterministic_code id ''mean f'];x('' quoting_inspection = Some code" by auto
  from deterministic_code_is_injection_free [OF code] obtain n t ps where t: "sheets_of quoting_inspection = [(n, t)]"
    and ps: "code = concat (map (piece_text id) ps)" "\<And>s. Txt s \<in> set ps \<Longrightarrow> s \<in> set fixed_texts"
      "\<And>c. Quoted c \<in> set ps \<Longrightarrow> c \<in> set (numeric_columns t) \<or> c \<in> {''mean'', ''min'', ''max''}" by blast
  have "map (numeric_columns \<circ> snd) (sheets_of quoting_inspection) = [[''f'];x('']]" by code_simp
  then have "numeric_columns t = [''f'];x('']" by (simp add: t)
  then have "Quoted '';x('' \<notin> set ps" using ps(3) by fastforce
  moreover have "'';x('' \<notin> set fixed_texts" by code_simp
  ultimately show ?thesis using code ps(1,2) by blast
qed

end
