(* ===== verification/Data_Analysis.thy ===== *)
theory Data_Analysis
  imports Analysis_Runtime Deterministic_Analysis Workflow_Nodes
begin

text \<open>
  \<open>_analyze\<close> of \<open>server/agent/persistent_workflow.py\<close>: the code for a question about datasets comes from a template, from
  a small structural question, or from a model, and is repaired at most once.  The model's answers and what the two
  processes do are inputs.
\<close>

section \<open>Choosing the code\<close>

definition row_count_rx :: rx where
  "row_count_rx = Alts (map ILit [''row count'', ''how many rows''])"

definition joined_rx :: rx where
  "joined_rx = Alts [Seqs [WordB, ILit ''and'', WordB], Seqs [WordB, ILit ''then'', WordB]]"

definition beyond_structure_rx :: rx where
  "beyond_structure_rx = Seqs [WordB, Alts (map ILit [''and'', ''then'', ''chart'', ''plot'', ''filter'', ''rank'', ''best'', ''statistics'',
     ''compare'', ''generate'']), WordB]"

definition columns_rx :: rx where
  "columns_rx = Alts [Seqs [ILit ''what'', Star Any, ILit ''columns''], ILit ''column names'']"

definition average_rx :: rx where
  "average_rx = Alts (map ILit [''average'', ''mean''])"

type_synonym inspections = "(ident, (string, json) dict) dict"

definition compound_count :: "string \<Rightarrow> bool" where
  "compound_count goal = (found row_count_rx goal \<and> found joined_rx goal)"

definition structural_only :: "string \<Rightarrow> bool" where
  "structural_only objective = (\<not> found beyond_structure_rx objective)"

definition average_code :: "string \<Rightarrow> ident list \<Rightarrow> inspections \<Rightarrow> string result" where
  \<comment> \<open>of the first sheet of the first dataset; empty when no single column is named\<close>
  "average_code objective ids ins = (case ids of
     [] \<Rightarrow> Inl Index_Error
   | i # _ \<Rightarrow> (case map_option sheets_of (map_of ins i) of
       Some ((n, t) # _) \<Rightarrow> (case filter (\<lambda>c. contains (casefold c) (casefold objective)) (ts_columns t) of
           [c] \<Rightarrow> Inr (''print(df['' @ repr_str c @ ''].mean())'') | _ \<Rightarrow> Inr [])
     | _ \<Rightarrow> Inl (Provider_Error ''StopIteration'')))"

definition structural_code :: "string \<Rightarrow> ident list \<Rightarrow> inspections \<Rightarrow> string result" where
  "structural_code objective ids ins =
     (if \<not> structural_only objective then Inr []
      else if found row_count_rx objective then Inr ''print({'rows': len(df)})''
      else if found columns_rx objective then Inr ''print(list(df.columns))''
      else if found average_rx objective then average_code objective ids ins else Inr [])"

definition template_code :: "(string \<Rightarrow> string) \<Rightarrow> bool \<Rightarrow> string \<Rightarrow> string \<Rightarrow> ident list \<Rightarrow> inspections \<Rightarrow> string" where
  "template_code num efficiency goal objective ids ins =
     (case ids of
        [i] \<Rightarrow> if efficiency \<and> \<not> compound_count goal
          then (case deterministic_code num objective (the (map_of ins i)) of None \<Rightarrow> [] | Some c \<Rightarrow> c) else []
      | _ \<Rightarrow> [])"

text \<open>The code and whether it is a template; \<open>given\<close> is the code the caller passes, usually none.\<close>

definition choose_code ::
  "(string \<Rightarrow> string) \<Rightarrow> bool \<Rightarrow> string \<Rightarrow> string \<Rightarrow> string \<Rightarrow> ident list \<Rightarrow> inspections \<Rightarrow> string reply result \<Rightarrow> (string \<times> bool) result" where
  "choose_code num efficiency goal objective given ids ins generated =
     (if given \<noteq> [] then Inr (given, False)
      else
        let template = template_code num efficiency goal objective ids ins in
        if template \<noteq> [] then Inr (template, True)
        else rbind (structural_code objective ids ins) (\<lambda>c.
          if c \<noteq> [] then Inr (c, False)
          else rbind (invoke_structured (\<lambda>x. True) generated) (\<lambda>g. Inr (g, False))))"

section \<open>Running and repairing\<close>

record analyst =
  an_env :: analysis_env
  an_number :: "string \<Rightarrow> string"
  an_efficiency :: bool               \<comment> \<open>\<open>MULTI_AGENT_EFFICIENCY_ENABLED\<close>\<close>
  an_generated :: "string reply result"
  an_repaired :: "string reply result"
  an_first :: analysis_input
  an_second :: analysis_input

record analysis_outcome =
  ao_result :: execution_result
  ao_deterministic :: bool
  ao_attempts :: "ident list"
  ao_context :: "(ident \<times> string \<times> (string, json) dict) list"

definition repairs :: "analyst \<Rightarrow> int" where
  "repairs an = min 1 (setting (av_config (an_env an)) ''ANALYSIS_CODE_REPAIR_MAX'' 1)"

definition repairable :: "execution_result \<Rightarrow> bool" where
  "repairable r = (xr_status r \<noteq> ''completed'' \<and> xr_error r \<in> {Some ''SyntaxError'', Some ''NameError''})"

definition run_repaired ::
  "analyst \<Rightarrow> ident \<Rightarrow> analysis_request \<Rightarrow> data_db \<Rightarrow> data_db \<times> (execution_result \<times> ident list) result" where
  "run_repaired an w q db =
     (if repairs an < 0 then (db, Inl (Provider_Error ''UnboundLocalError''))
      else sbind (run_analysis (an_env an) (an_first an) w q db) (\<lambda>r db.
        if \<not> repairable r \<or> repairs an < 1 then (db, Inr (r, [xr_id r]))
        else sbind (db, invoke_structured (\<lambda>x. True) (an_repaired an)) (\<lambda>code db.
          sbind (run_analysis (an_env an) (an_second an) w (q\<lparr>aq_code := code\<rparr>) db) (\<lambda>r' db. (db, Inr (r', [xr_id r, xr_id r']))))))"

definition inspect_all :: "analysis_env \<Rightarrow> ident \<Rightarrow> ident list \<Rightarrow> data_db \<Rightarrow> inspections result" where
  "inspect_all v w ids db = rmap (\<lambda>i. rbind (inspect_asset (av_files v) w i db) (\<lambda>d. Inr (i, d))) ids"

definition dataset_context :: "analysis_env \<Rightarrow> ident \<Rightarrow> ident list \<Rightarrow> inspections \<Rightarrow> data_db \<Rightarrow>
    (ident \<times> string \<times> (string, json) dict) list result" where
  "dataset_context v w ids ins db =
     rmap (\<lambda>i. rbind (get_asset (av_files v) w i db) (\<lambda>a. Inr (i, da_filename a, the (map_of ins i)))) ids"

definition analyze ::
  "analyst \<Rightarrow> ident \<Rightarrow> ident list \<Rightarrow> string \<Rightarrow> string \<Rightarrow> string \<Rightarrow> data_db \<Rightarrow> data_db \<times> analysis_outcome result" where
  \<comment> \<open>\<open>goal\<close> is the original question\<close>
  "analyze an w ids goal objective given db =
     sbind (db, inspect_all (an_env an) w ids db) (\<lambda>ins db.
     sbind (db, choose_code (an_number an) (an_efficiency an) goal objective given ids ins (an_generated an)) (\<lambda>(code, template) db.
       let q = \<lparr>aq_datasets = ids, aq_objective = objective, aq_code = code\<rparr> in
       if \<not> analysis_request_valid q then (db, Inl (Provider_Error ''ValidationError''))
       else sbind (run_repaired an w q db) (\<lambda>(r, attempts) db.
         sbind (db, dataset_context (an_env an) w ids ins db) (\<lambda>ctx db.
           (db, Inr \<lparr>ao_result = r, ao_deterministic = template, ao_attempts = attempts, ao_context = ctx\<rparr>)))))"

end
