(* ===== verification/Data_Analysis_Laws.thy ===== *)
theory Data_Analysis_Laws
  imports Data_Analysis Analysis_Runtime_Laws
begin

text \<open>What an analysis leaves behind: at most two executions, both on record, the second for a reason.\<close>

lemma rmap_state: "sbind (db, x) f = (db', Inr y) \<Longrightarrow> \<exists>a. x = Inr a \<and> f a db = (db', Inr y)"
  by (cases x) auto

definition recorded :: "analysis_env \<Rightarrow> execution_result \<Rightarrow> data_db \<Rightarrow> bool" where
  "recorded v r db = (payload_of (xr_id r) db = Some (encode (av_float v) (result_json v r)))"

lemma run_analysis_recorded:
  assumes "run_analysis v i w q db = (db', Inr r)"
  shows "xr_id r = ai_id i \<and> recorded v r db' \<and> (\<forall>k. k \<noteq> ai_id i \<longrightarrow> payload_of k db' = payload_of k db)
    \<and> dd_assets db' = dd_assets db \<and> dd_artifacts db' = dd_artifacts db @ xr_artifacts r
    \<and> (\<forall>a\<in>set (xr_artifacts r). af_execution_id a = ai_id i)
    \<and> (xr_status r = ''completed'' \<longleftrightarrow> xr_error r = None)"
  using run_analysis_ok [OF assms] by (auto simp: result_ok_def recorded_def)

definition attempts_ok :: "analyst \<Rightarrow> data_db \<Rightarrow> data_db \<Rightarrow> execution_result \<Rightarrow> ident list \<Rightarrow> bool" where
  "attempts_ok an db db' r ids \<longleftrightarrow> recorded (an_env an) r db' \<and> dd_assets db' = dd_assets db
     \<and> (\<forall>k. k \<notin> set ids \<longrightarrow> payload_of k db' = payload_of k db)
     \<and> (ids = [xr_id r] \<and> xr_id r = ai_id (an_first an) \<and> dd_artifacts db' = dd_artifacts db @ xr_artifacts r
        \<or> (\<exists>r1. ids = [xr_id r1, xr_id r] \<and> xr_id r1 = ai_id (an_first an) \<and> xr_id r = ai_id (an_second an) \<and> 1 \<le> repairs an
            \<and> recorded (an_env an) r1 db' \<and> repairable r1 \<and> dd_artifacts db' = dd_artifacts db @ xr_artifacts r1 @ xr_artifacts r))"

lemma run_repaired_ok:
  assumes "run_repaired an w q db = (db', Inr (r, ids))" and "ai_id (an_first an) \<noteq> ai_id (an_second an)"
  shows "attempts_ok an db db' r ids"
proof -
  from assms(1) obtain db1 r1 where first: "run_analysis (an_env an) (an_first an) w q db = (db1, Inr r1)"
    and rest: "(if \<not> repairable r1 \<or> repairs an < 1 then (db1, Inr (r1, [xr_id r1]))
        else sbind (db1, invoke_structured (\<lambda>x. True) (an_repaired an)) (\<lambda>code db.
          sbind (run_analysis (an_env an) (an_second an) w (q\<lparr>aq_code := code\<rparr>) db) (\<lambda>r' db. (db, Inr (r', [xr_id r1, xr_id r'])))))
        = (db', Inr (r, ids))"
    by (auto simp: run_repaired_def split: if_splits elim!: sbind_cases)
  note one = run_analysis_recorded [OF first]
  show ?thesis
  proof (cases "\<not> repairable r1 \<or> repairs an < 1")
    case True
    then show ?thesis using rest one by (auto simp: attempts_ok_def)
  next
    case False
    then obtain code where "sbind (run_analysis (an_env an) (an_second an) w (q\<lparr>aq_code := code\<rparr>) db1) (\<lambda>r' db. (db, Inr (r', [xr_id r1, xr_id r'])))
        = (db', (Inr (r, ids) :: (execution_result \<times> ident list) result))"
      using rest by (auto dest!: rmap_state)
    then have second: "run_analysis (an_env an) (an_second an) w (q\<lparr>aq_code := code\<rparr>) db1 = (db', Inr r)" and ids: "ids = [xr_id r1, xr_id r]"
      by (auto elim!: sbind_cases)
    note two = run_analysis_recorded [OF second]
    have "recorded (an_env an) r1 db'" using one two assms(2) unfolding recorded_def by metis
    moreover have "1 \<le> repairs an" "repairable r1" using False by auto
    moreover have "\<forall>k. k \<notin> set ids \<longrightarrow> payload_of k db' = payload_of k db" using one two by (simp add: ids)
    ultimately show ?thesis using one two ids unfolding attempts_ok_def
      by (intro conjI disjI2 exI [of _ r1]) simp_all
  qed
qed

text \<open>
  An analysis that answers has executed code once, or twice when repair is allowed and the first code failed
  with a syntax or a name error; every execution is on record, the answer's being the last; nothing else on record
  has changed, no dataset has, and the artifacts added are those of the executions.
\<close>

theorem analyses_are_repaired_once:
  assumes "analyze an w ids goal objective given db = (db', Inr x)" and "ai_id (an_first an) \<noteq> ai_id (an_second an)"
  shows "attempts_ok an db db' (ao_result x) (ao_attempts x) \<and> length (ao_attempts x) \<le> 2
    \<and> (length (ao_attempts x) = 2 \<longrightarrow> 1 \<le> repairs an) \<and> last (ao_attempts x) = xr_id (ao_result x)"
proof -
  from assms(1) obtain q db1 r attempts where "run_repaired an w q db = (db1, Inr (r, attempts))" and "db' = db1"
    "ao_result x = r" "ao_attempts x = attempts"
    by (auto simp: analyze_def Let_def split: if_splits prod.splits elim!: sbind_cases dest!: rmap_state)
  with run_repaired_ok [OF _ assms(2)] have "attempts_ok an db db' (ao_result x) (ao_attempts x)" by auto
  then show ?thesis by (auto simp: attempts_ok_def)
qed

section \<open>A sample\<close>

text \<open>The code a model writes does not parse; repaired, it runs.\<close>

definition repairing_analyst :: analyst where
  "repairing_analyst = \<lparr>an_env = sample_analysis_env\<lparr>av_parse := (\<lambda>c. if c = ''rows'' then Inr (Name_node ''rows'') else Inl ''bad'')\<rparr>,
     an_number = id, an_efficiency = False, an_generated = Inr (Instance ''ro ws''), an_repaired = Inr (Instance ''rows''),
     an_first = sample_analysis, an_second = sample_analysis\<lparr>ai_id := ''e2''\<rparr>\<rparr>"

theorem analyses_are_repaired_once_witness:
  "\<exists>db x. analyze repairing_analyst ''w'' [''d''] ''sum'' ''sum'' [] sample_data = (db, Inr x) \<and> ao_attempts x = [''e'', ''e2'']
    \<and> last (ao_attempts x) = xr_id (ao_result x) \<and> attempts_ok repairing_analyst sample_data db (ao_result x) [''e'', ''e2'']"
proof -
  let ?y = "analyze repairing_analyst ''w'' [''d''] ''sum'' ''sum'' [] sample_data"
  have "case snd ?y of Inl e \<Rightarrow> False | Inr x \<Rightarrow> ao_attempts x = [''e'', ''e2'']" by code_simp
  then obtain db x where y: "?y = (db, Inr x)" and two: "ao_attempts x = [''e'', ''e2'']"
    by (cases ?y; cases "snd ?y") auto
  have "ai_id (an_first repairing_analyst) \<noteq> ai_id (an_second repairing_analyst)" by code_simp
  from analyses_are_repaired_once [OF y this] y two show ?thesis by metis
qed

end
