(* ===== verification/Persistent_Workflow.thy ===== *)
theory Persistent_Workflow
  imports Research_Workflow Data_Analysis Tasks Memory
begin

text \<open>
  \<open>PersistentWorkflowNodes\<close> of \<open>server/agent/persistent_workflow.py\<close>: the research workflow with memories around it,
  steps that inspect and analyse datasets, and, in a task, every step checkpointed in the task store.  The stores are the
  world a node acts on; a node that raises leaves the world as far as it had changed it.  What a checkpoint keeps of
  the state, and how it is restored, are parameters, for the state's fields are stored as JSON.
\<close>

section \<open>State\<close>

record resume =
  re_goal :: string
  re_scope :: resume_scope

record persistent_state =
  pw_base :: research_state
  pw_workspace :: "ident option"
  pw_owner :: ident
  pw_session :: "ident option"
  pw_task :: "ident option"
  pw_limit :: "nat option"                 \<comment> \<open>\<open>task_step_limit\<close>\<close>
  pw_resume :: "resume option"
  pw_assets :: "ident list"
  pw_preferred :: "string option list"     \<comment> \<open>the tool each step of the plan prefers\<close>
  pw_task_step :: "ident option"
  pw_stop :: bool                          \<comment> \<open>\<open>task_boundary_stop\<close>\<close>
  pw_executed :: nat
  pw_synthesized :: bool
  pw_analysis :: "analysis_outcome option"
  pw_artifacts :: "artifact list"
  pw_error :: "string option"
  pw_memories :: "memory list"
  pw_written :: nat

record world =
  wd_tasks :: task_db
  wd_data :: data_db
  wd_memory :: memory_db

record persistent_env =
  pe_runtime :: runtime
  pe_memory :: memory_env
  pe_memory_enabled :: bool
  pe_auto_extract :: bool
  pe_data_enabled :: bool
  pe_task_max_steps :: int
  pe_tasks :: task_env
  pe_now :: time
  pe_save :: "persistent_state \<Rightarrow> (string \<times> json) list"
  pe_load :: "(string \<times> json) list \<Rightarrow> persistent_state \<Rightarrow> persistent_state"
  pe_outcome_text :: "analysis_outcome \<Rightarrow> string"     \<comment> \<open>the content of the evidence of an analysis\<close>

definition on_tasks :: "(task_db \<Rightarrow> task_db result) \<Rightarrow> world \<Rightarrow> world \<times> unit result" where
  "on_tasks f wd = (case f (wd_tasks wd) of Inl e \<Rightarrow> (wd, Inl e) | Inr db \<Rightarrow> (wd\<lparr>wd_tasks := db\<rparr>, Inr ()))"

definition move_task :: "persistent_env \<Rightarrow> ident \<Rightarrow> task_status \<Rightarrow> string option \<Rightarrow> world \<Rightarrow> world \<times> unit result" where
  "move_task pe tid st err = on_tasks (\<lambda>db. rbind (transition (pe_tasks pe) tid st err db) (\<lambda>(db', t). Inr db'))"

text \<open>A plan without preferred tools, as the inherited nodes make it.\<close>

definition with_base :: "research_state \<Rightarrow> persistent_state \<Rightarrow> persistent_state" where
  "with_base b s = s\<lparr>pw_base := b\<rparr>"

definition replanned :: "research_state \<Rightarrow> persistent_state \<Rightarrow> persistent_state" where
  "replanned b s = s\<lparr>pw_base := b, pw_preferred := map (\<lambda>_. None) (wf_plan b)\<rparr>"

section \<open>Memories before the question\<close>

definition memory_node :: "persistent_env \<Rightarrow> persistent_state \<Rightarrow> world \<Rightarrow> world \<times> persistent_state" where
  "memory_node pe s wd =
     (if \<not> pe_memory_enabled pe then (wd, s\<lparr>pw_memories := []\<rparr>)
      else case latest_user_query (rt_floats (pe_runtime pe)) (wf_messages (pw_base s)) of
        Inl e \<Rightarrow> (wd, s\<lparr>pw_memories := []\<rparr>)
      | Inr query \<Rightarrow>
          (case retrieve_memories (pe_memory pe) (pe_now pe) query (pw_workspace s) (pw_owner s) False (wd_memory wd) of
             (db, ms) \<Rightarrow> (wd\<lparr>wd_memory := db\<rparr>, s\<lparr>pw_memories := ms\<rparr>)))"

section \<open>Analysis of the question\<close>

definition data_intent_rx :: rx where
  "data_intent_rx = Alts (map ILit [''dataset'', ''csv'', ''xlsx'', ''excel'', ''experiment'', ''chart'', ''plot'', ''mIoU'',
       ''parameters'', ''row count'', ''how many rows'', ''column names'']
     @ [Seqs [ILit ''what'', Star Any, ILit ''columns'']] @ map ILit [''average'', ''mean''])"

definition data_file_rx :: rx where
  "data_file_rx = Alts [Seqs [Lit ''.'', Alts (map ILit [''csv'', ''xlsx'', ''json'']), WordB], ILit ''dataset'']"

definition offered_assets :: "persistent_env \<Rightarrow> string \<Rightarrow> persistent_state \<Rightarrow> world \<Rightarrow> data_asset list" where
  "offered_assets pe query s wd =
     (let every = (if truthy (pw_workspace s) \<and> pe_data_enabled pe then assets_of (the (pw_workspace s)) (wd_data wd) else []);
          named = filter (\<lambda>a. contains (casefold (da_filename a)) (casefold query)) every
      in if named = [] then every else named)"

definition awaiting_data :: "string \<Rightarrow> research_state \<Rightarrow> research_state" where
  "awaiting_data query b = b\<lparr>wf_original := query, wf_standalone := query, rw_goal := query, rw_complex := True, wf_needs := False,
     wf_type := Qt_direct, wf_selected := [], rw_evidence := [], wf_pool := [], rw_citations := [], rw_task_plan := None\<rparr>"

definition source_text :: "source_name \<Rightarrow> string" where
  "source_text x = (case x of Sn_workspace \<Rightarrow> ''workspace'' | Sn_pdf \<Rightarrow> ''pdf'' | Sn_web \<Rightarrow> ''web'' | Sn_arxiv \<Rightarrow> ''arxiv'')"

definition status_text :: "plan_status \<Rightarrow> string" where
  "status_text x = (case x of Step_pending \<Rightarrow> ''pending'' | Step_running \<Rightarrow> ''running'' | Step_completed \<Rightarrow> ''completed''
     | Step_failed \<Rightarrow> ''failed'')"

definition step_json :: "plan_step \<Rightarrow> (string \<times> json) list" where
  "step_json p = [(''id'', JStr (ps_id p)), (''description'', JStr (ps_description p)), (''query'', JStr (ps_query p)),
     (''sources'', JList (map (JStr \<circ> source_text) (ps_sources p))), (''status'', JStr (status_text (ps_status p))),
     (''preferred_tool'', optional_json (ps_tool p)), (''preferred_capability'', JNull), (''arguments'', JObj [])]"

definition item_of :: "plan_step \<Rightarrow> plan_item" where
  "item_of p = \<lparr>pi_description = ps_description p, pi_preferred_tool = ps_tool p, pi_json = step_json p\<rparr>"

definition sources_named :: "json \<Rightarrow> source_name list" where
  "sources_named v = (case v of
     JList xs \<Rightarrow> concat (map (\<lambda>x. filter (\<lambda>n. x = JStr (source_text n)) [Sn_workspace, Sn_pdf, Sn_web, Sn_arxiv]) xs) | _ \<Rightarrow> [])"

definition stored_step :: "plan_item \<Rightarrow> retrieval_step" where
  "stored_step i = \<lparr>st_query = text_of (field ''query'' (JObj (pi_json i))),
     st_sources = sources_named (field ''sources'' (JObj (pi_json i)))\<rparr>"

definition resumed :: "persistent_env \<Rightarrow> resume \<Rightarrow> ident list \<Rightarrow> persistent_state \<Rightarrow> persistent_state" where
  "resumed pe re assets s =
     (let sc = re_scope re; r = pe_load pe (rs_restored sc) s; b = pw_base r in
      r\<lparr>pw_base := b\<lparr>wf_plan := map stored_step (rs_plan sc), rw_step := rs_current_step sc, rw_plan_is_task := True,
            wf_original := re_goal re, wf_standalone := re_goal re, rw_goal := re_goal re, rw_complex := True, wf_needs := True,
            wf_type := Qt_research\<rparr>,
        pw_preferred := map pi_preferred_tool (rs_plan sc), pw_assets := assets, pw_stop := False, pw_executed := 0\<rparr>)"

definition persistent_analyzer ::
  "persistent_env \<Rightarrow> query_analysis reply result \<Rightarrow> persistent_state \<Rightarrow> world \<Rightarrow> world \<times> persistent_state result" where
  "persistent_analyzer pe answered s wd =
     sbind (wd, latest_user_query (rt_floats (pe_runtime pe)) (wf_messages (pw_base s))) (\<lambda>query wd.
       let assets = offered_assets pe query s wd in
       if truthy (pw_task s) \<and> assets = [] \<and> found data_file_rx query
       then sbind (move_task pe (the (pw_task s)) WAITING_USER None wd) (\<lambda>_ wd.
         (wd, Inr (s\<lparr>pw_base := awaiting_data query (pw_base s), pw_stop := True, pw_artifacts := []\<rparr>)))
       else case pw_resume s of
         Some re \<Rightarrow> (wd, Inr (resumed pe re (map da_id assets) s))
       | None \<Rightarrow>
           sbind (wd, research_analyzer (rt_floats (pe_runtime pe)) (rt_nodes (pe_runtime pe)) answered (pw_base s)) (\<lambda>b wd.
             let b' = (if assets \<noteq> [] \<and> found data_intent_rx (wf_original b) \<or> truthy (pw_task s)
                  then b\<lparr>wf_needs := True, rw_complex := True\<rparr> else b)
             in (wd, Inr (s\<lparr>pw_base := b', pw_assets := map da_id assets, pw_artifacts := [], pw_analysis := None, pw_stop := False,
                  pw_executed := 0\<rparr>))))"

definition persistent_route_after_analysis :: "persistent_env \<Rightarrow> persistent_state \<Rightarrow> research_node" where
  "persistent_route_after_analysis pe s =
     (if pw_resume s \<noteq> None
      then (if rw_step (pw_base s) < length (wf_plan (pw_base s)) then N_executor else N_generator)
      else route_after_analysis (rt_config (pe_runtime pe)) (pw_base s))"

section \<open>Planning\<close>

definition paper_rx :: rx where
  "paper_rx = ILit ''paper''"

definition allowed_tools :: "persistent_env \<Rightarrow> bool \<Rightarrow> string list" where
  "allowed_tools pe data = map tool_name (nd_available (rt_nodes (pe_runtime pe)))
     @ (if data then [''inspect_dataset'', ''analyze_data''] else [])"

definition step_bound :: "persistent_env \<Rightarrow> nat" where
  "step_bound pe = nat (max 1 (min (pe_task_max_steps pe) (rc_max_steps (rt_config (pe_runtime pe))) - 1))"

definition kept_sources :: "persistent_env \<Rightarrow> research_state \<Rightarrow> plan_step \<Rightarrow> source_name list" where
  "kept_sources pe b p = filter (\<lambda>x. x \<in> set (wf_selected b)) (allowed (rt_nodes (pe_runtime pe)) b (ps_sources p))"

definition step_kept :: "persistent_env \<Rightarrow> bool \<Rightarrow> research_state \<Rightarrow> plan_step \<Rightarrow> bool" where
  "step_kept pe data b p = (case ps_tool p of
     None \<Rightarrow> False
   | Some t \<Rightarrow> t \<in> set (allowed_tools pe data)
       \<and> (t \<in> {''search_web'', ''search_arxiv''} \<longrightarrow> list_ex (\<lambda>x. x \<in> {Sn_web, Sn_arxiv}) (kept_sources pe b p))
       \<and> (starts_with ''search_'' t \<longrightarrow> kept_sources pe b p \<noteq> []))"

definition accepted_steps :: "persistent_env \<Rightarrow> bool \<Rightarrow> research_state \<Rightarrow> task_plan \<Rightarrow> plan_step list" where
  "accepted_steps pe data b p = map (\<lambda>(i, st). st\<lparr>ps_id := ''step_'' @ nat_text (Suc i), ps_sources := kept_sources pe b st, ps_status := Step_pending\<rparr>)
     (enumerate 0 (filter (step_kept pe data b) (take (step_bound pe) (tp_steps p))))"

definition made_step :: "string \<Rightarrow> string \<Rightarrow> string \<Rightarrow> source_name list \<Rightarrow> string \<Rightarrow> plan_step" where
  "made_step i d q ss tool = \<lparr>ps_id = i, ps_description = d, ps_query = q, ps_sources = ss, ps_status = Step_pending, ps_tool = Some tool\<rparr>"

definition fallback_steps :: "bool \<Rightarrow> research_state \<Rightarrow> plan_step list" where
  "fallback_steps data b =
     (case wf_selected b of
        src # _ \<Rightarrow> if found paper_rx (wf_original b)
          then [made_step ''step_1'' ''Retrieve paper evidence'' (wf_standalone b) [src] (tool_name src)] else []
      | [] \<Rightarrow> [])
     @ (if data
        then [made_step ''inspect'' ''Inspect datasets'' (wf_standalone b) [] ''inspect_dataset'',
              made_step ''analyze'' ''Analyze datasets'' (wf_standalone b) [] ''analyze_data'']
        else [])"

definition store_plan :: "persistent_env \<Rightarrow> persistent_state \<Rightarrow> plan_step list \<Rightarrow> world \<Rightarrow> world \<times> unit result" where
  "store_plan pe s ps wd = (if truthy (pw_task s) then on_tasks (set_plan (pe_tasks pe) (the (pw_task s)) (map item_of ps)) wd
     else (wd, Inr ()))"

definition plan_of :: "research_state \<Rightarrow> plan_step list" where
  "plan_of b = (case rw_task_plan b of None \<Rightarrow> [] | Some p \<Rightarrow> tp_steps p)"

definition inherited_planner :: "persistent_env \<Rightarrow> task_plan reply result \<Rightarrow> persistent_state \<Rightarrow> research_state" where
  "inherited_planner pe answered s = research_planner (rt_config (pe_runtime pe)) (rt_nodes (pe_runtime pe)) answered (pw_base s)"

definition persistent_planner ::
  "persistent_env \<Rightarrow> file_env \<Rightarrow> task_plan reply result \<Rightarrow> task_plan reply result \<Rightarrow> persistent_state \<Rightarrow> world \<Rightarrow>
   world \<times> persistent_state result" where
  \<comment> \<open>\<open>again\<close> is the answer to the inherited planner, when it is asked as a fallback\<close>
  "persistent_planner pe fe answered again s wd =
     (if pw_assets s = [] \<and> \<not> truthy (pw_task s) then (wd, Inr (replanned (inherited_planner pe answered s) s))
      else
        sbind (wd, rmap (\<lambda>i. get_asset fe (the (pw_workspace s)) i (wd_data wd)) (pw_assets s)) (\<lambda>assets wd.
          let b = pw_base s; data = (assets \<noteq> []);
              proposed = any_answer (rbind (invoke_structured task_plan_valid answered) (\<lambda>p. Inr (accepted_steps pe data b p))) [];
              chosen = (if proposed \<noteq> [] then proposed else fallback_steps data b) in
          if chosen = [] \<and> wf_selected b \<noteq> []
          then let f = inherited_planner pe again s in
            sbind (store_plan pe s (plan_of f) wd) (\<lambda>_ wd. (wd, Inr (replanned f s)))
          else let every = chosen @ (if truthy (pw_task s)
                 then [made_step ''synthesize'' ''Synthesize and verify the report'' (wf_standalone b) [] ''synthesize''] else []);
                 plan = \<lparr>tp_goal = rw_goal b, tp_summary = ''Research and data analysis using accessible assets.'', tp_steps = every\<rparr> in
            sbind (store_plan pe s every wd) (\<lambda>_ wd.
              (wd, Inr (s\<lparr>pw_base := b\<lparr>rw_task_plan := Some plan, wf_plan := map (\<lambda>p. \<lparr>st_query = ps_query p, st_sources = ps_sources p\<rparr>) every,
                   rw_step := 0, rw_plan_is_task := True\<rparr>, pw_preferred := map ps_tool every\<rparr>)))))"

section \<open>Executing a step\<close>

record step_work =
  sw_tools :: research_tools
  sw_text :: "string result"
  sw_verify :: "verification reply result"
  sw_revise :: "string result"
  sw_verify_again :: "verification reply result"
  sw_analyst :: analyst

definition preferred_tool :: "persistent_state \<Rightarrow> string option" where
  "preferred_tool s = (if rw_step (pw_base s) < length (pw_preferred s) then pw_preferred s ! rw_step (pw_base s) else None)"

definition synthesize :: "runtime \<Rightarrow> step_work \<Rightarrow> research_state \<Rightarrow> research_state result" where
  "synthesize rt a b =
     rbind (generator (sw_text a) b) (\<lambda>d.
       let v = verifier (rt_config rt) (sw_verify a) d;
           v' = (if route_after_verification (rt_config rt) v = N_revision
             then verifier (rt_config rt) (sw_verify_again a) (answer_revision (sw_revise a) v) else v)
       in citation_validator v')"

definition analysis_evidence :: "persistent_env \<Rightarrow> analysis_outcome \<Rightarrow> evidence" where
  "analysis_evidence pe x = (let r = ao_result x in
     (bare_evidence (''ev_'' @ filter (\<lambda>c. c \<noteq> CHR ''-'') (xr_id r)) Src_analysis (pe_outcome_text pe x))
       \<lparr>ev_execution_id := Some (xr_id r), ev_dataset_ids := xr_datasets r, ev_artifact_ids := map af_id (xr_artifacts r),
        ev_title := Some ''Dataset analysis''\<rparr>)"

definition add_evidence :: "evidence \<Rightarrow> research_state \<Rightarrow> research_state" where
  "add_evidence e b = b\<lparr>rw_evidence := rw_evidence b @ [(evidence.ev_id e, e)]\<rparr>"

text \<open>The steps that are no searches: the state with what was updated before the step ended, and its error.\<close>

definition data_step ::
  "persistent_env \<Rightarrow> step_work \<Rightarrow> string \<Rightarrow> persistent_state \<Rightarrow> world \<Rightarrow> world \<times> persistent_state \<times> string option" where
  "data_step pe a tool s wd =
     (let b = pw_base s; w = the (pw_workspace s); query = st_query (wf_plan b ! rw_step b); v = an_env (sw_analyst a) in
      if tool = ''synthesize''
      then (case synthesize (pe_runtime pe) a b of
          Inl e \<Rightarrow> (wd, s, Some (error_name e))
        | Inr b' \<Rightarrow> (wd, s\<lparr>pw_base := b', pw_synthesized := True\<rparr>, None))
      else if tool = ''inspect_dataset''
      then (case inspect_all v w (pw_assets s) (wd_data wd) of Inl e \<Rightarrow> (wd, s, Some (error_name e)) | Inr ins \<Rightarrow> (wd, s, None))
      else case analyze (sw_analyst a) w (pw_assets s) (wf_original b) query [] (wd_data wd) of
          (db, Inl e) \<Rightarrow> (wd\<lparr>wd_data := db\<rparr>, s, Some (error_name e))
        | (db, Inr x) \<Rightarrow>
            (let s' = s\<lparr>pw_analysis := Some x, pw_artifacts := pw_artifacts s @ xr_artifacts (ao_result x)\<rparr> in
             (wd\<lparr>wd_data := db\<rparr>,
              if xr_status (ao_result x) \<noteq> ''completed'' then (s', Some ''ValueError'')
              else (s'\<lparr>pw_base := add_evidence (analysis_evidence pe x) b\<rparr>, None))))"

definition settled_step :: "string \<Rightarrow> string option \<Rightarrow> persistent_state \<Rightarrow> persistent_state" where
  "settled_step tool err s =
     (let b = pw_base s; n = (if tool = ''synthesize'' then 0 else 1) in
      s\<lparr>pw_base := b\<lparr>rw_results := rw_results b @ [(rw_step b, err = None)], rw_attempts := Suc (rw_attempts b),
           rw_tool_calls := rw_tool_calls b + n, rw_tools_used := rw_tools_used b @ (if n = 0 then [] else [tool])\<rparr>,
        pw_error := (if err = None then pw_error s else err)\<rparr>)"

text \<open>In a task the step is started first; a step that may not start stops the run.\<close>

definition begin_step :: "persistent_env \<Rightarrow> persistent_state \<Rightarrow> world \<Rightarrow> world \<times> (ident option) option result" where
  "begin_step pe s wd =
     (if \<not> truthy (pw_task s) then (wd, Inr (Some None))
      else case start_step (pe_tasks pe) (the (pw_task s)) (rw_step (pw_base s)) (wd_tasks wd) of
        Inl e \<Rightarrow> (wd, Inl e)
      | Inr (db, None) \<Rightarrow> (wd\<lparr>wd_tasks := db\<rparr>, Inr None)
      | Inr (db, Some st) \<Rightarrow> (wd\<lparr>wd_tasks := db\<rparr>, Inr (Some (Some (s_id st)))))"

definition persistent_executor ::
  "persistent_env \<Rightarrow> step_work \<Rightarrow> persistent_state \<Rightarrow> world \<Rightarrow> world \<times> persistent_state result" where
  "persistent_executor pe a s wd =
     (let b = pw_base s; rt = pe_runtime pe in
      if length (wf_plan b) \<le> rw_step b then (wd, Inr s)
      else sbind (begin_step pe s wd) (\<lambda>started wd.
        case started of
          None \<Rightarrow> (wd, Inr (s\<lparr>pw_stop := True\<rparr>))
        | Some step \<Rightarrow>
            (let working = s\<lparr>pw_task_step := step\<rparr> in
             case preferred_tool s of
               Some tool \<Rightarrow>
                 if tool \<in> {''inspect_dataset'', ''analyze_data'', ''synthesize''}
                 then (case data_step pe a tool working wd of (wd, s', err) \<Rightarrow> (wd, Inr (settled_step tool err s')))
                 else sbind (wd, executor (rt_dump rt) (rt_config rt) (rt_nodes rt) (sw_tools a) b) (\<lambda>b' wd.
                   (wd, Inr (with_base b' working)))
             | None \<Rightarrow> sbind (wd, executor (rt_dump rt) (rt_config rt) (rt_nodes rt) (sw_tools a) b) (\<lambda>b' wd.
                   (wd, Inr (with_base b' working))))))"

section \<open>After a step\<close>

definition step_succeeded :: "persistent_state \<Rightarrow> bool" where
  "step_succeeded s = (rw_results (pw_base s) \<noteq> [] \<and> snd (last (rw_results (pw_base s))))"

definition limit_reached :: "persistent_state \<Rightarrow> bool" where
  "limit_reached s = (case pw_limit s of None \<Rightarrow> False | Some n \<Rightarrow> 0 < n \<and> n \<le> Suc (pw_executed s)
     \<and> Suc (rw_step (pw_base s)) < length (wf_plan (pw_base s)))"

text \<open>What the stored task says of going on: nothing, or a stop with the transition it makes.\<close>

definition boundary_decision :: "persistent_state \<Rightarrow> task \<Rightarrow> (task_status \<times> string option) option option" where
  "boundary_decision s t =
     (if t_cancel_requested t \<and> t_status t = RUNNING then Some (Some (CANCELLED, None))
      else if t_pause_requested t \<and> t_status t = RUNNING then Some (Some (PAUSED, None))
      else if t_status t \<noteq> RUNNING then Some None
      else if \<not> step_succeeded s then Some (Some (FAILED, Some (case pw_error s of None \<Rightarrow> ''Step failed'' | Some e \<Rightarrow> e)))
      else if limit_reached s then Some (Some (PAUSED, None))
      else None)"

definition decide_boundary :: "persistent_env \<Rightarrow> ident \<Rightarrow> persistent_state \<Rightarrow> world \<Rightarrow> world \<times> bool result" where
  "decide_boundary pe tid s wd =
     sbind (wd, fetch_task tid (wd_tasks wd)) (\<lambda>t wd.
       case boundary_decision s t of
         None \<Rightarrow> (wd, Inr False)
       | Some None \<Rightarrow> (wd, Inr True)
       | Some (Some (st, err)) \<Rightarrow> sbind (move_task pe tid st err wd) (\<lambda>_ wd. (wd, Inr True)))"

definition persistent_evaluator :: "persistent_env \<Rightarrow> persistent_state \<Rightarrow> world \<Rightarrow> world \<times> persistent_state result" where
  "persistent_evaluator pe s wd =
     (let after = s\<lparr>pw_base := step_evaluator (rt_config (pe_runtime pe)) (pw_base s), pw_executed := Suc (pw_executed s)\<rparr> in
      if truthy (pw_task s) \<and> \<not> pw_stop s
      then sbind (on_tasks (checkpoint (pe_tasks pe) (the (pw_task s)) (rw_step (pw_base s)) (pe_save pe s) (step_succeeded s)) wd) (\<lambda>_ wd.
        sbind (decide_boundary pe (the (pw_task s)) s wd) (\<lambda>stop wd. (wd, Inr (if stop then after\<lparr>pw_stop := True\<rparr> else after))))
      else (wd, Inr after))"

definition persistent_route_after_step :: "persistent_env \<Rightarrow> persistent_state \<Rightarrow> research_node" where
  "persistent_route_after_step pe s =
     (if truthy (pw_task s)
      then (if pw_stop s \<or> length (wf_plan (pw_base s)) \<le> rw_step (pw_base s) then N_generator else N_executor)
      else route_after_step (rt_config (pe_runtime pe)) (pw_base s))"

section \<open>Answering\<close>

definition persistent_grader :: "retrieval_grade reply result \<Rightarrow> persistent_state \<Rightarrow> persistent_state" where
  "persistent_grader answered s =
     (case pw_analysis s of
        Some x \<Rightarrow> if xr_status (ao_result x) \<noteq> ''completed''
          then s\<lparr>pw_base := (pw_base s)\<lparr>wf_sufficient := False, wf_grading_failed := True,
                 wf_missing := [''Data analysis failed: '' @ (case xr_error (ao_result x) of None \<Rightarrow> ''None'' | Some e \<Rightarrow> e)]\<rparr>\<rparr>
          else with_base (research_grader answered (pw_base s)) s
      | None \<Rightarrow> with_base (research_grader answered (pw_base s)) s)"

definition task_status_text :: "task_status \<Rightarrow> string" where
  "task_status_text x = (case x of PENDING \<Rightarrow> ''PENDING'' | QUEUED \<Rightarrow> ''QUEUED'' | RUNNING \<Rightarrow> ''RUNNING'' | PAUSED \<Rightarrow> ''PAUSED''
     | WAITING_USER \<Rightarrow> ''WAITING_USER'' | COMPLETED \<Rightarrow> ''COMPLETED'' | FAILED \<Rightarrow> ''FAILED'' | CANCELLED \<Rightarrow> ''CANCELLED''
     | REQUIRES_RECONCILIATION \<Rightarrow> ''REQUIRES_RECONCILIATION'')"

definition stopped_answer :: "task \<Rightarrow> string" where
  "stopped_answer t = ''Task '' @ task_status_text (t_status t) @ ''. Completed steps have been saved.''"

definition persistent_generator :: "string result \<Rightarrow> persistent_state \<Rightarrow> world \<Rightarrow> persistent_state result" where
  "persistent_generator answered s wd =
     (if pw_stop s
      then rbind (fetch_task (case pw_task s of None \<Rightarrow> [] | Some i \<Rightarrow> i) (wd_tasks wd)) (\<lambda>t.
        Inr (with_base ((pw_base s)\<lparr>wf_answer := stopped_answer t, wf_messages := wf_messages (pw_base s)
          @ [\<lparr>m_role = Assistant, m_content = JStr (stopped_answer t), m_tool_calls = False\<rparr>]\<rparr>) s))
      else if pw_synthesized s then Inr s
      else rbind (generator answered (pw_base s)) (\<lambda>b. Inr (with_base b s)))"

definition persistent_verifier :: "persistent_env \<Rightarrow> verification reply result \<Rightarrow> persistent_state \<Rightarrow> persistent_state" where
  "persistent_verifier pe answered s =
     (if pw_stop s then with_base ((pw_base s)\<lparr>rw_verification := None\<rparr>) s
      else if pw_synthesized s then s
      else with_base (verifier (rt_config (pe_runtime pe)) answered (pw_base s)) s)"

definition persistent_citations :: "persistent_state \<Rightarrow> persistent_state result" where
  "persistent_citations s =
     (if pw_synthesized s \<and> \<not> pw_stop s then Inr s else rbind (citation_validator (pw_base s)) (\<lambda>b. Inr (with_base b s)))"

section \<open>Memories after the answer\<close>

record memory_candidate =
  mk_store :: bool
  mk_type :: memory_type
  mk_content :: string
  mk_importance :: rat
  mk_confidence :: rat
  mk_workspace :: bool                    \<comment> \<open>\<open>scope_type\<close>\<close>
  mk_key :: string

definition candidates_valid :: "memory_candidate list \<Rightarrow> bool" where
  "candidates_valid cs = (length cs \<le> 6 \<and> list_all (\<lambda>c. length (mk_content c) \<le> 3000 \<and> 0 \<le> mk_importance c \<and> mk_importance c \<le> 1
     \<and> 0 \<le> mk_confidence c \<and> mk_confidence c \<le> 1 \<and> length (mk_key c) \<le> 100) cs)"

definition remember_rx :: rx where
  "remember_rx = Seq (Seqs [ILit ''remember'', Opt (ILit '' this'')]) (Star (Cls (\<lambda>c. is_space c \<or> c \<in> {CHR '':'', CHR '',''})))"

definition remembered :: "string \<Rightarrow> string option" where
  "remembered query = search_group remember_rx (Plus Any) Eps query"

definition memory_intent_rx :: rx where
  "memory_intent_rx = Alts (map ILit [''prefer'', ''decid'', ''project'', ''instruction''])"

definition explicit_candidate :: "string \<Rightarrow> memory_candidate" where
  "explicit_candidate text = (let content = strip text in
     \<lparr>mk_store = True, mk_type = (if fst (preference_key content) \<noteq> [] then Mem_preference else Mem_instruction), mk_content = content,
      mk_importance = 8 / 10, mk_confidence = 1, mk_workspace = False, mk_key = []\<rparr>)"

definition candidate_memory :: "persistent_env \<Rightarrow> persistent_state \<Rightarrow> ident \<Rightarrow> memory_candidate \<Rightarrow> memory" where
  "candidate_memory pe s new_id c =
     (let scoped = (mk_workspace c \<and> truthy (pw_workspace s)) in
      \<lparr>lm_id = new_id, lm_owner = ''local_default'', lm_scope = (if scoped then Scope_of_workspace else Scope_of_user),
       lm_scope_id = (if scoped then the (pw_workspace s) else pw_owner s), lm_type = mk_type c, lm_content = mk_content c, lm_summary = [],
       lm_importance = mk_importance c, lm_confidence = mk_confidence c, lm_session = pw_session s, lm_task = pw_task s, lm_message = None,
       lm_hash = [], lm_created_at = pe_now pe, lm_updated_at = pe_now pe, lm_accessed_at = None, lm_accesses = 0, lm_status = Mem_active,
       lm_superseded_by = None, lm_metadata = (if mk_key c \<noteq> [] then [(''conflict_key'', JStr (mk_key c))] else [])\<rparr>)"

text \<open>Candidates are written in order; the first failure ends it, and what was written stays.\<close>

fun write_candidates ::
  "persistent_env \<Rightarrow> bool \<Rightarrow> persistent_state \<Rightarrow> (ident \<times> memory_candidate) list \<Rightarrow> nat \<Rightarrow> memory_db \<Rightarrow> memory_db \<times> nat" where
  "write_candidates pe automatic s [] n db = (db, n)"
| "write_candidates pe automatic s ((i, c) # cs) n db =
     (if \<not> mk_store c \<or> strip (mk_content c) = [] then write_candidates pe automatic s cs n db
      else case memory_create (pe_memory pe) (pe_now pe) automatic None (candidate_memory pe s i c) db of
        Inl e \<Rightarrow> (db, n)
      | Inr (db', saved) \<Rightarrow> write_candidates pe automatic s cs (if saved = None then n else Suc n) db')"

definition memory_closed :: "persistent_env \<Rightarrow> persistent_state \<Rightarrow> world \<Rightarrow> bool result" where
  \<comment> \<open>whether nothing is to be remembered of this run\<close>
  "memory_closed pe s wd =
     (if \<not> pe_memory_enabled pe \<or> pw_stop s then Inr True
      else if truthy (pw_task s)
      then rbind (list_steps (the (pw_task s)) (wd_tasks wd)) (\<lambda>ss. Inr (list_ex (\<lambda>x. s_status x \<noteq> S_COMPLETED) ss))
      else Inr False)"

definition memory_candidates ::
  "persistent_env \<Rightarrow> memory_candidate list reply result \<Rightarrow> persistent_state \<Rightarrow> string \<Rightarrow> memory_candidate list result" where
  "memory_candidates pe answered s query =
     (case remembered query of
        Some text \<Rightarrow> if candidates_valid [explicit_candidate text] then Inr [explicit_candidate text]
          else Inl (Provider_Error ''ValidationError'')
      | None \<Rightarrow> if pe_auto_extract pe \<and> (truthy (pw_task s) \<or> found memory_intent_rx query)
          then invoke_structured candidates_valid answered else Inr [])"

definition extract_memory ::
  "persistent_env \<Rightarrow> memory_candidate list reply result \<Rightarrow> (nat \<Rightarrow> ident) \<Rightarrow> persistent_state \<Rightarrow> world \<Rightarrow> world \<times> persistent_state result" where
  "extract_memory pe answered ids s wd =
     sbind (wd, memory_closed pe s wd) (\<lambda>closed wd.
       if closed then (wd, Inr s)
       else let query = wf_original (pw_base s) in
         if sensitive query then (wd, Inr (s\<lparr>pw_written := 0\<rparr>))
         else case memory_candidates pe answered s query of
           Inl e \<Rightarrow> (wd, Inr (s\<lparr>pw_written := 0\<rparr>))
         | Inr cs \<Rightarrow> (case write_candidates pe (remembered query = None) s (map (\<lambda>(k, c). (ids k, c)) (enumerate 0 cs)) 0 (wd_memory wd) of
             (db, n) \<Rightarrow> (wd\<lparr>wd_memory := db\<rparr>, Inr (s\<lparr>pw_written := n\<rparr>))))"

section \<open>The graph\<close>

text \<open>
  As \<open>build_agent\<close> wires it.  The inputs of a node: the answers of models and tools, the clock, and what other processes
  do to the stored tasks before the node runs.
\<close>

datatype persistent_node = P_memory | P_node research_node | P_extract | P_end

record persistent_inputs =
  pi_work :: step_work
  pi_analysis :: "query_analysis reply result"
  pi_plan :: "task_plan reply result"
  pi_plan_again :: "task_plan reply result"
  pi_grade :: "retrieval_grade reply result"
  pi_refine :: "refinement reply result"
  pi_candidates :: "memory_candidate list reply result"
  pi_memory_ids :: "nat \<Rightarrow> ident"
  pi_tasks :: task_env
  pi_now :: time
  pi_others :: "task_db \<Rightarrow> task_db"

definition goes :: "('s \<Rightarrow> persistent_node) \<Rightarrow> world \<times> 's result \<Rightarrow> world \<times> (persistent_node \<times> 's) result" where
  "goes route x = sbind x (\<lambda>s wd. (wd, Inr (route s, s)))"

fun persistent_node_step ::
  "persistent_env \<Rightarrow> file_env \<Rightarrow> persistent_inputs \<Rightarrow> persistent_node \<Rightarrow> persistent_state \<Rightarrow> world \<Rightarrow>
   world \<times> (persistent_node \<times> persistent_state) result" where
  "persistent_node_step pe fe a P_memory s wd = (case memory_node pe s wd of (wd', s') \<Rightarrow> (wd', Inr (P_node N_analyzer, s')))"
| "persistent_node_step pe fe a (P_node N_analyzer) s wd =
     goes (\<lambda>s. P_node (persistent_route_after_analysis pe s)) (persistent_analyzer pe (pi_analysis a) s wd)"
| "persistent_node_step pe fe a (P_node N_simple) s wd = (wd, Inr (P_node N_executor, replanned (simple_plan (pw_base s)) s))"
| "persistent_node_step pe fe a (P_node N_planner) s wd =
     goes (\<lambda>s. P_node N_executor) (persistent_planner pe fe (pi_plan a) (pi_plan_again a) s wd)"
| "persistent_node_step pe fe a (P_node N_executor) s wd =
     goes (\<lambda>s. P_node N_evaluator) (persistent_executor pe (pi_work a) s wd)"
| "persistent_node_step pe fe a (P_node N_evaluator) s wd =
     goes (\<lambda>s. P_node (persistent_route_after_step pe s)) (persistent_evaluator pe s wd)"
| "persistent_node_step pe fe a (P_node N_grader) s wd =
     (let t = persistent_grader (pi_grade a) s in
      (wd, Inr (P_node (route_after_grading (rt_config (pe_runtime pe)) (rt_nodes (pe_runtime pe)) (pw_base t)), t)))"
| "persistent_node_step pe fe a (P_node N_refiner) s wd =
     (wd, Inr (P_node N_executor, replanned (research_refiner (rt_nodes (pe_runtime pe)) (pi_refine a) (pw_base s)) s))"
| "persistent_node_step pe fe a (P_node N_replanner) s wd =
     goes (\<lambda>s. P_node N_executor) (sbind (persistent_planner pe fe (pi_plan a) (pi_plan_again a) s wd) (\<lambda>t wd.
       (wd, Inr (with_base ((pw_base t)\<lparr>rw_replans := Suc (rw_replans (pw_base s))\<rparr>) t))))"
| "persistent_node_step pe fe a (P_node N_fallback) s wd =
     (wd, Inr (P_node N_executor, replanned (external_fallback (rt_nodes (pe_runtime pe)) (pw_base s)) s))"
| "persistent_node_step pe fe a (P_node N_generator) s wd =
     goes (\<lambda>s. P_node N_verifier) (wd, persistent_generator (sw_text (pi_work a)) s wd)"
| "persistent_node_step pe fe a (P_node N_verifier) s wd =
     (let t = persistent_verifier pe (sw_verify (pi_work a)) s in
      (wd, Inr (P_node (route_after_verification (rt_config (pe_runtime pe)) (pw_base t)), t)))"
| "persistent_node_step pe fe a (P_node N_revision) s wd =
     (wd, Inr (P_node N_verifier, with_base (answer_revision (sw_revise (pi_work a)) (pw_base s)) s))"
| "persistent_node_step pe fe a (P_node N_citations) s wd = goes (\<lambda>s. P_extract) (wd, persistent_citations s)"
| "persistent_node_step pe fe a (P_node N_end) s wd = (wd, Inr (P_end, s))"
| "persistent_node_step pe fe a P_extract s wd =
     goes (\<lambda>s. P_end) (extract_memory pe (pi_candidates a) (pi_memory_ids a) s wd)"
| "persistent_node_step pe fe a P_end s wd = (wd, Inr (P_end, s))"

definition at_clock :: "persistent_inputs \<Rightarrow> persistent_env \<Rightarrow> persistent_env" where
  "at_clock a pe = pe\<lparr>pe_tasks := pi_tasks a, pe_now := pi_now a\<rparr>"

definition persistent_step ::
  "persistent_env \<Rightarrow> file_env \<Rightarrow> persistent_inputs \<Rightarrow> persistent_node \<times> persistent_state \<Rightarrow> world \<Rightarrow>
   world \<times> (persistent_node \<times> persistent_state) result" where
  "persistent_step pe fe a c wd =
     persistent_node_step (at_clock a pe) fe a (fst c) (snd c) (wd\<lparr>wd_tasks := pi_others a (wd_tasks wd)\<rparr>)"

fun persistent_run ::
  "persistent_env \<Rightarrow> file_env \<Rightarrow> persistent_inputs list \<Rightarrow> persistent_node \<times> persistent_state \<Rightarrow> world \<Rightarrow>
   world \<times> (persistent_node \<times> persistent_state) result" where
  "persistent_run pe fe [] c wd = (wd, Inr c)"
| "persistent_run pe fe (a # as) c wd = sbind (persistent_step pe fe a c wd) (\<lambda>c wd. persistent_run pe fe as c wd)"

end
