(* ===== verification/Persistent_Workflow_Laws.thy ===== *)
theory Persistent_Workflow_Laws
  imports Persistent_Workflow Task_Run_Laws Research_Workflow_Laws Memory_Laws Analysis_Runtime_Laws
begin

text \<open>
  What a task run guarantees between its nodes: steps run in order, one at a time, each started in the store before it
  runs and completed in the store before the next; what the user asks of the task takes effect at the next boundary; and
  the run ends.  Other processes may do anything to the store meanwhile that the store's own operations could do to steps.
\<close>

section \<open>What nodes do to the stored steps\<close>

text \<open>Steps evolve as the store lets them, and the task gets no new step.\<close>

definition stored_kept :: "nat \<Rightarrow> ident \<Rightarrow> task_db \<Rightarrow> task_db \<Rightarrow> bool" where
  "stored_kept m tid db db' = (steps_evolve m (steps db) (steps db')
     \<and> (\<forall>n. (tid, n) \<in> step_key ` set (steps db') \<longrightarrow> (tid, n) \<in> step_key ` set (steps db)))"

abbreviation steps_kept :: "nat \<Rightarrow> ident \<Rightarrow> world \<Rightarrow> world \<Rightarrow> bool" where
  "steps_kept m tid wd wd' \<equiv> stored_kept m tid (wd_tasks wd) (wd_tasks wd')"

lemma stored_kept_refl [simp]: "stored_kept m tid db db"
  by (simp add: stored_kept_def)

lemma stored_kept_trans: "stored_kept m tid a b \<Longrightarrow> stored_kept m tid b c \<Longrightarrow> stored_kept m tid a c"
  unfolding stored_kept_def by (meson steps_evolve_trans)

lemma put_keys: "s \<in> set rows \<Longrightarrow> step_key s' = step_key s \<Longrightarrow> step_key ` set (row_put s_id s' rows) \<subseteq> step_key ` set rows"
  using row_put_sub [of s_id s' rows] by fastforce

lemma transition_kept:
  assumes "transition env tid st err db = Inr (db', t)"
  shows "stored_kept m any db db'"
proof -
  have "steps db' = steps db" using assms
    by (cases rule: transition_Inr) (auto dest: save_steps)
  then show ?thesis by (simp add: stored_kept_def)
qed

lemma start_kept:
  assumes "start_step env tid i db = Inr (db', r)" and "te_max_attempts env = m"
  shows "stored_kept m any db db'"
proof -
  have "step_key ` set (steps db') \<subseteq> step_key ` set (steps db)"
  proof (cases "steps db' = steps db")
    case False
    with assms(1) obtain s where s: "step_at tid i db = Some s"
      by (auto simp: start_step_def split: option.splits if_splits)
    let ?s = "s\<lparr>s_status := S_RUNNING, s_started_at := Some (te_now env), s_attempt_count := Suc (s_attempt_count s)\<rparr>"
    have "steps db' = row_put s_id ?s (steps db)" using assms(1) False s
      by (auto simp: start_step_def rbind_Inr_iff Let_def split: option.splits if_splits dest!: save_steps)
    moreover have "step_key ?s = step_key s" by (simp add: step_key_def)
    ultimately show ?thesis using step_at_in [OF s] put_keys by metis
  qed simp
  then show ?thesis using evolve_start [OF assms] by (auto simp: stored_kept_def db_evolves_def)
qed

lemma checkpoint_put:
  assumes "checkpoint env tid i out ok db = Inr db'" and "db' \<noteq> db"
  obtains s s' where "step_at tid i db = Some s" "step_key s' = step_key s" "s_id s' = s_id s"
    "s_status s' = (if ok then S_COMPLETED else S_FAILED)" "steps db' = row_put s_id s' (steps db)"
proof -
  from assms obtain s where s: "step_at tid i db = Some s" "s_status s \<noteq> S_COMPLETED"
    by (auto simp: checkpoint_def split: option.splits if_splits)
  let ?s = "s\<lparr>s_status := (if ok then S_COMPLETED else S_FAILED), s_output := out, s_completed_at := Some (te_now env),
      s_error := (if ok then None else Some ''Step execution failed'')\<rparr>"
  have "steps db' = row_put s_id ?s (steps db)" using assms s by (auto simp: checkpoint_def Let_def)
  then show thesis using s by (intro that [of s ?s]) (auto simp: step_key_def)
qed

lemma checkpoint_kept:
  assumes "checkpoint env tid i out ok db = Inr db'"
  shows "stored_kept m any db db'"
proof (cases "db' = db")
  case False
  with assms obtain s s' where s: "step_at tid i db = Some s" "step_key s' = step_key s" "steps db' = row_put s_id s' (steps db)"
    by (rule checkpoint_put)
  have "step_key ` set (steps db') \<subseteq> step_key ` set (steps db)"
    using step_at_in [OF s(1)] put_keys [OF _ s(2)] unfolding s(3) by blast
  then show ?thesis using evolve_checkpoint [OF assms] by (auto simp: stored_kept_def db_evolves_def)
qed simp

lemma on_tasks_cases:
  assumes "on_tasks f wd = (wd', r)"
  obtains (raised) e where "f (wd_tasks wd) = Inl e" "wd' = wd" "r = Inl e"
  | (changed) db where "f (wd_tasks wd) = Inr db" "wd' = wd\<lparr>wd_tasks := db\<rparr>" "r = Inr ()"
  using assms by (auto simp: on_tasks_def split: sum.splits)

lemma begin_step_kept:
  assumes "begin_step pe s wd = (wd', r)" and "te_max_attempts (pe_tasks pe) = m"
  shows "steps_kept m any wd wd'"
proof (cases "truthy (pw_task s)")
  case False
  then show ?thesis using assms(1) by (simp add: begin_step_def)
next
  case True
  show ?thesis
  proof (cases "start_step (pe_tasks pe) (the (pw_task s)) (rw_step (pw_base s)) (wd_tasks wd)")
    case (Inl e)
    then show ?thesis using assms(1) True by (simp add: begin_step_def)
  next
    case (Inr x)
    obtain db st where x: "x = (db, st)" by fastforce
    have "wd' = wd\<lparr>wd_tasks := db\<rparr>" using assms(1) True Inr x by (auto simp: begin_step_def split: option.splits)
    then show ?thesis using start_kept [OF Inr [unfolded x] assms(2)] by simp
  qed
qed

lemma data_step_tasks: "data_step pe a tool s wd = (wd', s', err) \<Longrightarrow> wd_tasks wd' = wd_tasks wd"
  by (auto simp: data_step_def Let_def split: if_splits sum.splits prod.splits)

section \<open>What nodes do to the run\<close>

definition same_plan :: "research_state \<Rightarrow> research_state \<Rightarrow> bool" where
  "same_plan b b' = (wf_plan b' = wf_plan b \<and> rw_step b' = rw_step b)"

definition same_run :: "persistent_state \<Rightarrow> persistent_state \<Rightarrow> bool" where
  "same_run s s' = (same_plan (pw_base s) (pw_base s') \<and> pw_task s' = pw_task s \<and> pw_stop s' = pw_stop s
     \<and> pw_limit s' = pw_limit s \<and> pw_executed s' = pw_executed s)"

lemma same_plan_refl [simp]: "same_plan b b"
  by (simp add: same_plan_def)

lemma same_run_refl [simp]: "same_run s s"
  by (simp add: same_run_def)

lemma same_plan_trans: "same_plan a b \<Longrightarrow> same_plan b c \<Longrightarrow> same_plan a c"
  by (simp add: same_plan_def)

lemma generator_plan: "generator x b = Inr b' \<Longrightarrow> same_plan b b' \<and> rw_revisions b' = rw_revisions b"
  by (auto simp: generator_def rbind_Inr_iff same_plan_def split: if_splits)

lemma verifier_plan: "same_plan b (verifier cfg x b) \<and> rw_revisions (verifier cfg x b) = rw_revisions b"
  by (simp add: verifier_def same_plan_def)

lemma revision_plan: "same_plan b (answer_revision x b) \<and> rw_revisions (answer_revision x b) = Suc (rw_revisions b)"
  by (simp add: answer_revision_def same_plan_def)

lemma citation_plan: "citation_validator b = Inr b' \<Longrightarrow> same_plan b b'"
  by (auto simp: citation_validator_def Let_def same_plan_def split: if_splits prod.splits)

lemma synthesize_plan:
  assumes "synthesize rt a b = Inr b'"
  shows "same_plan b b'"
proof -
  from assms obtain d where d: "generator (sw_text a) b = Inr d" by (auto simp: synthesize_def rbind_Inr_iff)
  let ?v = "verifier (rt_config rt) (sw_verify a) d"
  let ?w = "if route_after_verification (rt_config rt) ?v = N_revision
    then verifier (rt_config rt) (sw_verify_again a) (answer_revision (sw_revise a) ?v) else ?v"
  have "citation_validator ?w = Inr b'" using assms d by (simp add: synthesize_def Let_def)
  moreover have "same_plan d ?w"
    using verifier_plan revision_plan by (simp add: same_plan_def)
  ultimately show ?thesis using citation_plan generator_plan [OF d] by (fastforce simp only: same_plan_def)
qed

lemma data_step_run: "data_step pe a tool s wd = (wd', s', err) \<Longrightarrow> same_run s s'"
  by (auto simp: data_step_def Let_def same_run_def add_evidence_def same_plan_def
      dest!: synthesize_plan [unfolded same_plan_def] split: if_splits sum.splits prod.splits)

lemma settled_run: "same_run s s' \<Longrightarrow> same_run s (settled_step tool err s')"
  by (simp add: settled_step_def Let_def same_run_def same_plan_def)

lemma executor_plan:
  "executor dump cfg nd tools b = Inr b' \<Longrightarrow> wf_plan b' = wf_plan b
    \<and> rw_step b' = (if exhausted cfg b \<or> length (wf_plan b) \<le> rw_step b then length (wf_plan b) else rw_step b)"
  by (auto simp: executor_def Let_def rbind_Inr_iff split: if_splits)

text \<open>
  The executor: past the plan nothing happens; in a task the store may refuse the step, and then nothing ran; otherwise the
  step that the store has started is run, and the run stays where it is, or is past its plan when its
  iterations are exhausted.
\<close>

lemma persistent_executor_cases:
  assumes "persistent_executor pe a s wd = (wd', r)"
  obtains (past) "length (wf_plan (pw_base s)) \<le> rw_step (pw_base s)" "wd' = wd" "r = Inr s"
  | (raised) e where "rw_step (pw_base s) < length (wf_plan (pw_base s))" "begin_step pe s wd = (wd', Inl e)" "r = Inl e"
  | (refused) "rw_step (pw_base s) < length (wf_plan (pw_base s))" "begin_step pe s wd = (wd', Inr None)"
      "r = Inr (s\<lparr>pw_stop := True\<rparr>)"
  | (ran) wd1 step where "rw_step (pw_base s) < length (wf_plan (pw_base s))" "begin_step pe s wd = (wd1, Inr (Some step))"
      "wd_tasks wd' = wd_tasks wd1" "\<And>s'. r = Inr s' \<Longrightarrow> pw_task s' = pw_task s \<and> pw_stop s' = pw_stop s \<and> pw_limit s' = pw_limit s
        \<and> pw_executed s' = pw_executed s \<and> wf_plan (pw_base s') = wf_plan (pw_base s)
        \<and> rw_step (pw_base s') \<in> {rw_step (pw_base s), length (wf_plan (pw_base s))}"
proof (cases "length (wf_plan (pw_base s)) \<le> rw_step (pw_base s)")
  case True
  then show thesis using assms by (intro past) (auto simp: persistent_executor_def Let_def)
next
  case inside: False
  obtain wd1 x where b: "begin_step pe s wd = (wd1, x)" by fastforce
  show thesis
  proof (cases "\<exists>step. x = Inr (Some step)")
    case False
    then consider e where "x = Inl e" | "x = Inr None" by (cases x) auto
    then show thesis
    proof cases
      case 1
      then show thesis using assms b inside by (intro raised [of e]) (auto simp: persistent_executor_def Let_def)
    next
      case 2
      then show thesis using assms b inside by (intro refused) (auto simp: persistent_executor_def Let_def)
    qed
  next
    case True
    then obtain step where x: "x = Inr (Some step)" by blast
    define w where "w = s\<lparr>pw_task_step := step\<rparr>"
    have w: "same_run s w" "pw_base w = pw_base s" by (simp_all add: w_def same_run_def)
    consider tool where "(case data_step pe a tool w wd1 of (wd, s', err) \<Rightarrow> (wd, Inr (settled_step tool err s'))) = (wd', r)"
      | "sbind (wd1, executor (rt_dump (pe_runtime pe)) (rt_config (pe_runtime pe)) (rt_nodes (pe_runtime pe)) (sw_tools a) (pw_base s))
           (\<lambda>b' wd. (wd, Inr (with_base b' w))) = (wd', r)"
      using assms b inside x by (auto simp: persistent_executor_def Let_def w_def split: option.splits if_splits)
    then show thesis
    proof cases
      case 1
      obtain wd2 s2 err where d: "data_step pe a tool w wd1 = (wd2, s2, err)" by (metis prod_cases3)
      have "same_run s (settled_step tool err s2)"
        using settled_run [OF data_step_run [OF d]] w(1) unfolding same_run_def same_plan_def by simp
      then show thesis using 1 d data_step_tasks [OF d] inside x b
        by (intro ran [of wd1 step]) (auto simp: same_run_def same_plan_def)
    next
      case 2
      show thesis
        using 2 inside x b
        by (intro ran [of wd1 step]) (auto simp: sbind_def with_base_def w_def split: sum.splits dest!: executor_plan)
    qed
  qed
qed

lemma executor_kept:
  assumes "persistent_executor pe a s wd = (wd', r)" and "te_max_attempts (pe_tasks pe) = m"
  shows "steps_kept m any wd wd'"
  using assms(1)
proof (cases rule: persistent_executor_cases)
  case (ran wd1 step)
  then show ?thesis using begin_step_kept [OF _ assms(2)] by metis
qed (use begin_step_kept [OF _ assms(2)] in \<open>auto\<close>)

section \<open>The boundary between steps\<close>

definition done_at :: "ident \<Rightarrow> nat \<Rightarrow> task_db \<Rightarrow> bool" where
  "done_at tid i db = (case step_at tid i db of None \<Rightarrow> False | Some s \<Rightarrow> s_status s = S_COMPLETED)"

lemma find_put: "find P rows = Some s \<Longrightarrow> P s' \<Longrightarrow> k s' = k s \<Longrightarrow> find P (row_put k s' rows) = Some s'"
  by (induction rows) (auto simp: row_put_def split: if_splits)

lemma checkpoint_done:
  assumes "checkpoint env tid i out True db = Inr db'"
  shows "done_at tid i db'"
proof (cases "db' = db")
  case True
  then show ?thesis using assms
    by (auto simp: checkpoint_def done_at_def Let_def add_event_def split: option.splits if_splits dest!: arg_cong [where f = events])
next
  case False
  with assms obtain s s' where s: "step_at tid i db = Some s" "step_key s' = step_key s" "s_id s' = s_id s"
    "s_status s' = (if True then S_COMPLETED else S_FAILED)" "steps db' = row_put s_id s' (steps db)"
    by (rule checkpoint_put)
  have "find (\<lambda>x. s_task_id x = tid \<and> s_index x = i) (row_put s_id s' (steps db)) = Some s'"
    using s step_at_in [OF s(1)] by (intro find_put) (auto simp: step_at_def step_key_def)
  then show ?thesis using s(4,5) by (simp add: done_at_def step_at_def)
qed

lemma checkpoint_task: "checkpoint env tid i out ok db = Inr db' \<Longrightarrow> get_task k db' = get_task k db"
  by (auto simp: checkpoint_def Let_def split: option.splits if_splits)

lemma transition_status:
  assumes "transition env tid st err db = Inr (db', t')" and "get_task tid db = Some t"
  shows "get_task tid db' = Some t' \<and> t_status t' = st \<and> t_cancel_requested t' = t_cancel_requested t
    \<and> t_pause_requested t' = t_pause_requested t \<and> steps db' = steps db"
  using assms(1)
proof (cases rule: transition_Inr)
  case (moved u d)
  have u: "u = t" using moved(1) assms(2) by simp
  have id: "t_id t = tid" using assms(2) by (rule get_task_key)
  from moved(3) have t': "t' = (Tasks_Laws.moved env st err t)\<lparr>t_updated_at := te_now env, t_version := Suc (t_version (Tasks_Laws.moved env st err t))\<rparr>"
    "d = put_task t' db" by (auto simp: u elim: save_taskE)
  then show ?thesis using assms(2) id by (simp add: moved(4) get_task_put Tasks_Laws.moved_def)
qed

definition boundary_status :: "persistent_state \<Rightarrow> task \<Rightarrow> task_status" where
  \<comment> \<open>of a RUNNING task\<close>
  "boundary_status s t = (if t_cancel_requested t then CANCELLED else if t_pause_requested t then PAUSED
     else if \<not> step_succeeded s then FAILED else if limit_reached s then PAUSED else RUNNING)"

lemma decide_boundary_ok:
  assumes "decide_boundary pe tid s wd = (wd', Inr stop)"
  obtains t t' where "get_task tid (wd_tasks wd) = Some t" "get_task tid (wd_tasks wd') = Some t'" "stop \<longleftrightarrow> t_status t' \<noteq> RUNNING"
    "t_status t' = (if t_status t = RUNNING then boundary_status s t else t_status t)"
    "t_cancel_requested t' = t_cancel_requested t" "t_pause_requested t' = t_pause_requested t"
    "steps (wd_tasks wd') = steps (wd_tasks wd)"
proof -
  from assms obtain t where t: "get_task tid (wd_tasks wd) = Some t"
    by (auto simp: decide_boundary_def fetch_task_Inr sbind_def split: sum.splits)
  have b: "(case boundary_decision s t of None \<Rightarrow> (wd, Inr False) | Some None \<Rightarrow> (wd, Inr True)
      | Some (Some (st, err)) \<Rightarrow> sbind (move_task pe tid st err wd) (\<lambda>_ wd. (wd, Inr True))) = (wd', (Inr stop :: bool result))"
    using assms t by (simp add: decide_boundary_def fetch_task_def)
  show thesis
  proof (cases "boundary_decision s t")
    case None
    then show thesis using b t by (intro that [of t t])
        (auto simp: boundary_decision_def boundary_status_def split: if_splits)
  next
    case (Some d)
    show thesis
    proof (cases d)
      case None
      then show thesis using b t Some by (intro that [of t t])
        (auto simp: boundary_decision_def boundary_status_def split: if_splits)
    next
      case (Some x)
      obtain st err where x: "x = (st, err)" by fastforce
      have d: "boundary_decision s t = Some (Some (st, err))" using \<open>boundary_decision s t = Some d\<close> Some x by simp
      obtain r where mv: "move_task pe tid st err wd = (wd', Inr r)" and stop: "stop"
        using b d by (auto simp: sbind_def split: prod.splits sum.splits)
      from mv obtain db u where tr: "transition (pe_tasks pe) tid st err (wd_tasks wd) = Inr (db, u)" and wd': "wd' = wd\<lparr>wd_tasks := db\<rparr>"
        unfolding move_task_def by (auto simp: rbind_Inr_iff elim!: on_tasks_cases)
      have st: "t_status t = RUNNING" "st = boundary_status s t" "st \<noteq> RUNNING"
        using d by (auto simp: boundary_decision_def boundary_status_def split: if_splits)
      show thesis using transition_status [OF tr t] t st stop by (intro that [of t u]) (auto simp: wd')
    qed
  qed
qed

text \<open>The evaluator of a task that goes on: the step is settled in the store and the task decides.\<close>

lemma evaluator_ok:
  assumes "persistent_evaluator pe s wd = (wd', Inr s')" and "truthy (pw_task s)" and "\<not> pw_stop s"
  shows "\<exists>t t'. get_task (the (pw_task s)) (wd_tasks wd) = Some t \<and> get_task (the (pw_task s)) (wd_tasks wd') = Some t'
    \<and> (pw_stop s' \<longleftrightarrow> t_status t' \<noteq> RUNNING)
    \<and> t_status t' = (if t_status t = RUNNING then boundary_status s t else t_status t)
    \<and> t_cancel_requested t' = t_cancel_requested t \<and> t_pause_requested t' = t_pause_requested t
    \<and> (step_succeeded s \<longrightarrow> done_at (the (pw_task s)) (rw_step (pw_base s)) (wd_tasks wd'))
    \<and> step_at (the (pw_task s)) (rw_step (pw_base s)) (wd_tasks wd) \<noteq> None"
proof -
  define tid where "tid = the (pw_task s)"
  define after where "after = s\<lparr>pw_base := step_evaluator (rt_config (pe_runtime pe)) (pw_base s), pw_executed := Suc (pw_executed s)\<rparr>"
  have e: "sbind (on_tasks (checkpoint (pe_tasks pe) tid (rw_step (pw_base s)) (pe_save pe s) (step_succeeded s)) wd) (\<lambda>_ wd.
        sbind (decide_boundary pe tid s wd) (\<lambda>stop wd. (wd, Inr (if stop then after\<lparr>pw_stop := True\<rparr> else after)))) = (wd', (Inr s' :: persistent_state result))"
    using assms unfolding persistent_evaluator_def Let_def tid_def after_def by simp
  then obtain wd1 u where c: "on_tasks (checkpoint (pe_tasks pe) tid (rw_step (pw_base s)) (pe_save pe s) (step_succeeded s)) wd = (wd1, Inr u)"
    by (auto elim: sbind_cases)
  then obtain db where cp: "checkpoint (pe_tasks pe) tid (rw_step (pw_base s)) (pe_save pe s) (step_succeeded s) (wd_tasks wd) = Inr db"
    and wd1: "wd1 = wd\<lparr>wd_tasks := db\<rparr>" by (auto elim: on_tasks_cases)
  from e c obtain stop where d: "decide_boundary pe tid s wd1 = (wd', Inr stop)" and s': "s' = (if stop then after\<lparr>pw_stop := True\<rparr> else after)"
    by (cases "decide_boundary pe tid s wd1") (auto simp: sbind_def split: sum.splits)
  from d obtain t t' where t: "get_task tid (wd_tasks wd1) = Some t" "get_task tid (wd_tasks wd') = Some t'" "stop \<longleftrightarrow> t_status t' \<noteq> RUNNING"
    "t_status t' = (if t_status t = RUNNING then boundary_status s t else t_status t)"
    "t_cancel_requested t' = t_cancel_requested t" "t_pause_requested t' = t_pause_requested t"
    "steps (wd_tasks wd') = steps (wd_tasks wd1)" by (rule decide_boundary_ok)
  have "get_task tid (wd_tasks wd) = Some t" using t(1) checkpoint_task [OF cp] by (simp add: wd1)
  moreover have "pw_stop s' \<longleftrightarrow> stop" using assms(3) by (simp add: s' after_def)
  moreover have "done_at tid (rw_step (pw_base s)) (wd_tasks wd')" if "step_succeeded s"
    using checkpoint_done cp that t(7) by (simp add: done_at_def step_at_def wd1)
  moreover have "step_at tid (rw_step (pw_base s)) (wd_tasks wd) \<noteq> None" using cp by (auto simp: checkpoint_def split: option.splits)
  ultimately show ?thesis using t(2-6) unfolding tid_def by - (rule exI [of _ t], rule exI [of _ t'], simp)
qed

lemma evaluator_kept:
  assumes "persistent_evaluator pe s wd = (wd', r)"
  shows "steps_kept m any wd wd'"
proof -
  have moves: "move_task pe tid st err wd = (wd', x) \<Longrightarrow> steps_kept m any wd wd'" for tid st err wd wd' x
    unfolding move_task_def by (auto simp: rbind_Inr_iff transition_kept elim!: on_tasks_cases)
  have decides: "decide_boundary pe tid s wd = (wd', x) \<Longrightarrow> steps_kept m any wd wd'" for tid wd wd' x
    by (auto simp: decide_boundary_def sbind_def split: sum.splits option.splits prod.splits dest!: moves)
  have checks: "on_tasks (checkpoint env tid i out ok) wd = (wd', x) \<Longrightarrow> steps_kept m any wd wd'" for env tid i out ok wd wd' x
    by (auto simp: checkpoint_kept elim!: on_tasks_cases)
  have both: "on_tasks (checkpoint env tid i out ok) wd = (u, y) \<Longrightarrow> decide_boundary pe tid s u = (wd', x) \<Longrightarrow> steps_kept m any wd wd'"
    for env tid i out ok u y x using stored_kept_trans checks decides by blast
  show ?thesis
    using assms unfolding persistent_evaluator_def Let_def
    by (auto split: if_splits elim!: sbind_cases dest: both checks)
qed

section \<open>Nodes after the steps\<close>

definition task_nodes :: "persistent_node list" where
  "task_nodes = [P_node N_executor, P_node N_evaluator, P_node N_generator, P_node N_verifier, P_node N_revision,
     P_node N_citations, P_extract, P_end]"

definition answer_nodes :: "persistent_node list" where
  "answer_nodes = [P_node N_generator, P_node N_verifier, P_node N_revision, P_node N_citations, P_extract, P_end]"

text \<open>What a node after the steps changes is neither the plan nor the task.\<close>

definition answered_run :: "persistent_state \<Rightarrow> persistent_state \<Rightarrow> bool" where
  "answered_run s s' = (same_plan (pw_base s) (pw_base s') \<and> pw_task s' = pw_task s \<and> pw_stop s' = pw_stop s)"

lemma persistent_generator_run:
  "persistent_generator x s wd = Inr s' \<Longrightarrow> answered_run s s' \<and> rw_revisions (pw_base s') = rw_revisions (pw_base s)"
  by (auto simp: persistent_generator_def rbind_Inr_iff with_base_def answered_run_def same_plan_def
      dest!: generator_plan [unfolded same_plan_def] split: if_splits)

lemma persistent_verifier_run:
  "answered_run s (persistent_verifier pe x s) \<and> rw_revisions (pw_base (persistent_verifier pe x s)) = rw_revisions (pw_base s)"
  using verifier_plan by (simp add: persistent_verifier_def with_base_def answered_run_def same_plan_def)

lemma persistent_citations_run: "persistent_citations s = Inr s' \<Longrightarrow> answered_run s s'"
  by (auto simp: persistent_citations_def rbind_Inr_iff with_base_def answered_run_def same_plan_def
      dest!: citation_plan [unfolded same_plan_def] split: if_splits)

lemma extract_memory_run:
  "extract_memory pe x ids s wd = (wd', Inr s') \<Longrightarrow> answered_run s s'"
  "extract_memory pe x ids s wd = (wd', r) \<Longrightarrow> wd_tasks wd' = wd_tasks wd"
  by (auto simp: extract_memory_def Let_def answered_run_def elim!: sbind_cases split: if_splits sum.splits prod.splits)

lemma verification_route: "route_after_verification cfg b = N_revision \<and> rw_revisions b = 0 \<or> route_after_verification cfg b = N_citations"
  by (auto simp: route_after_verification_def split: option.split)

lemma goes_Inr: "goes route x = (wd', Inr c) \<longleftrightarrow> (\<exists>s. x = (wd', Inr s) \<and> c = (route s, s))"
  by (cases x) (auto simp: goes_def sbind_def split: sum.splits)

lemma answer_step:
  assumes "persistent_step pe fe a (n, s) wd = (wd', Inr (n', s'))" and "n \<in> set answer_nodes"
  shows "n' \<in> set answer_nodes \<and> answered_run s s' \<and> wd_tasks wd' = pi_others a (wd_tasks wd)"
  using assms verification_route [of "rt_config (pe_runtime (at_clock a pe))"
      "pw_base (persistent_verifier (at_clock a pe) (sw_verify (pi_work a)) s)"]
  by (auto simp: persistent_step_def answer_nodes_def goes_Inr Let_def with_base_def
      dest: persistent_generator_run persistent_citations_run extract_memory_run
      intro: persistent_verifier_run [THEN conjunct1])
    (auto simp: answered_run_def revision_plan dest: extract_memory_run(2))

section \<open>The run ends\<close>

definition nodes_left :: "persistent_node \<times> persistent_state \<Rightarrow> nat" where
  "nodes_left c = (let b = pw_base (snd c); k = length (wf_plan b) - rw_step b in case fst c of
     P_node n \<Rightarrow> (case n of
         N_executor \<Rightarrow> 2 * k + 9 | N_evaluator \<Rightarrow> 2 * k + 8 | N_generator \<Rightarrow> 6
       | N_verifier \<Rightarrow> if rw_revisions b = 0 then 5 else 3 | N_revision \<Rightarrow> 4 | N_citations \<Rightarrow> 2 | _ \<Rightarrow> 0)
   | P_extract \<Rightarrow> 1 | _ \<Rightarrow> 0)"

lemma evaluator_run:
  "persistent_evaluator pe s wd = (wd', Inr s') \<Longrightarrow> pw_task s' = pw_task s \<and> wf_plan (pw_base s') = wf_plan (pw_base s)
    \<and> rw_step (pw_base s') = Suc (rw_step (pw_base s)) \<and> (pw_stop s \<longrightarrow> pw_stop s')"
  by (auto simp: persistent_evaluator_def Let_def step_evaluator_def elim!: sbind_cases split: if_splits)

lemma executor_run:
  assumes "persistent_executor pe a s wd = (wd', Inr s')"
  shows "pw_task s' = pw_task s \<and> wf_plan (pw_base s') = wf_plan (pw_base s)
    \<and> (rw_step (pw_base s') = rw_step (pw_base s) \<or> rw_step (pw_base s) < length (wf_plan (pw_base s)) \<and> rw_step (pw_base s') = length (wf_plan (pw_base s)))"
  using assms by (cases rule: persistent_executor_cases) auto

lemma task_step_left:
  assumes step: "persistent_step pe fe a (n, s) wd = (wd', Inr (n', s'))" and n: "n \<in> set task_nodes" and task: "truthy (pw_task s)"
  shows "n' \<in> set task_nodes \<and> truthy (pw_task s') \<and> (n' = P_end \<or> nodes_left (n', s') < nodes_left (n, s))"
proof -
  consider (executor) "n = P_node N_executor" | (evaluator) "n = P_node N_evaluator" | (answer) "n \<in> set answer_nodes"
    using n by (auto simp: task_nodes_def answer_nodes_def)
  then show ?thesis
  proof cases
    case executor
    then have e: "persistent_executor (at_clock a pe) (pi_work a) s (wd\<lparr>wd_tasks := pi_others a (wd_tasks wd)\<rparr>) = (wd', Inr s')"
      and n': "n' = P_node N_evaluator"
      using step by (auto simp: persistent_step_def goes_Inr)
    show ?thesis using executor_run [OF e] task by (auto simp: executor n' nodes_left_def Let_def task_nodes_def)
  next
    case evaluator
    then have e: "persistent_evaluator (at_clock a pe) s (wd\<lparr>wd_tasks := pi_others a (wd_tasks wd)\<rparr>) = (wd', Inr s')"
      and n': "n' = P_node (persistent_route_after_step (at_clock a pe) s')"
      using step by (auto simp: persistent_step_def goes_Inr)
    show ?thesis using evaluator_run [OF e] task
      by (auto simp: evaluator n' nodes_left_def Let_def task_nodes_def persistent_route_after_step_def)
  next
    case answer
    from answer_step [OF step answer] have a: "n' \<in> set answer_nodes" "answered_run s s'" by auto
    have "n' = P_end \<or> nodes_left (n', s') < nodes_left (n, s)"
      using step answer a(2) verification_route [of "rt_config (pe_runtime (at_clock a pe))"
          "pw_base (persistent_verifier (at_clock a pe) (sw_verify (pi_work a)) s)"]
        persistent_verifier_run [of s "at_clock a pe" "sw_verify (pi_work a)"]
      by (auto simp: answer_nodes_def persistent_step_def goes_Inr Let_def nodes_left_def with_base_def revision_plan
          dest: persistent_generator_run)
    moreover have "n' \<in> set task_nodes" using a(1) by (auto simp: answer_nodes_def task_nodes_def)
    moreover have "truthy (pw_task s')" using a(2) task by (simp add: answered_run_def)
    ultimately show ?thesis by blast
  qed
qed

lemma ended_stays: "persistent_run pe fe as (P_end, s) wd = (wd', Inr c) \<Longrightarrow> fst c = P_end"
  by (induction as arbitrary: wd) (auto simp: persistent_step_def)

lemma task_run_ends:
  assumes "persistent_run pe fe as c wd = (wd', Inr c')" and "fst c \<in> set task_nodes" and "truthy (pw_task (snd c))"
    and "fst c = P_end \<or> nodes_left c < Suc (length as)"
  shows "fst c' = P_end"
  using assms
proof (induction as arbitrary: c wd)
  case Nil
  then show ?case by (auto simp: task_nodes_def nodes_left_def Let_def split: if_splits)
next
  case (Cons a as)
  obtain n s where c: "c = (n, s)" by fastforce
  show ?case
  proof (cases "n = P_end")
    case True
    then show ?thesis using Cons.prems(1) c ended_stays by blast
  next
    case False
    from Cons.prems(1) obtain wd1 n1 s1 where st: "persistent_step pe fe a (n, s) wd = (wd1, Inr (n1, s1))"
      and rest: "persistent_run pe fe as (n1, s1) wd1 = (wd', Inr c')"
      by (auto simp: c elim!: sbind_cases)
    from task_step_left [OF st] Cons.prems(2,3) c have "n1 \<in> set task_nodes" "truthy (pw_task s1)"
      "n1 = P_end \<or> nodes_left (n1, s1) < nodes_left (n, s)" by auto
    then show ?thesis using Cons.IH [OF rest] Cons.prems(4) c False by auto
  qed
qed

text \<open>
  C27: A run of a task that has its plan ends: from the executor on, whatever models, tools and other processes do, at most
  two nodes are run for each step that is left and nine more, unless a node raises.
\<close>

theorem task_runs_terminate:
  assumes "persistent_run pe fe as (P_node N_executor, s) wd = (wd', Inr (n, s'))" and "truthy (pw_task s)"
    and "2 * (length (wf_plan (pw_base s)) - rw_step (pw_base s)) + 9 \<le> length as"
  shows "n = P_end"
  using task_run_ends [OF assms(1)] assms(2,3) by (simp add: task_nodes_def nodes_left_def Let_def)

section \<open>Steps in order\<close>

definition done_range :: "ident \<Rightarrow> nat \<Rightarrow> nat \<Rightarrow> task_db \<Rightarrow> bool" where
  "done_range tid i k db = (\<forall>j. i \<le> j \<longrightarrow> j < k \<longrightarrow> done_at tid j db)"

lemma step_at_unique:
  assumes "steps_ok m (steps db)" and "s \<in> set (steps db)" and "step_key s = (tid, i)"
  shows "step_at tid i db = Some s"
proof -
  have "s_task_id s = tid \<and> s_index s = i" using assms(3) by (simp add: step_key_def)
  then obtain x where x: "step_at tid i db = Some x" using assms(2) by (cases "step_at tid i db") (auto simp: step_at_def find_None_iff)
  then have "x \<in> set (steps db)" "step_key x = step_key s" using step_at_in assms(3) by auto
  then show ?thesis using x assms(1,2) distinct_map_eq [of step_key "steps db" x s] by (simp add: steps_ok_def)
qed

lemma done_at_kept:
  assumes "done_at t i db" and "steps_ok m (steps db)" and "stored_kept m tid db db'"
  shows "done_at t i db'"
proof -
  from assms(1) obtain s where s: "step_at t i db = Some s" "s_status s = S_COMPLETED" by (auto simp: done_at_def split: option.splits)
  from assms(2,3) have ok: "steps_ok m (steps db')" and ev: "\<forall>s\<in>set (steps db). \<exists>s'\<in>set (steps db'). evolves s s'"
    by (auto simp: stored_kept_def steps_evolve_def)
  from ev step_at_in [OF s(1)] obtain s' where s': "s' \<in> set (steps db')" "evolves s s'" by blast
  then have "s' = s" using s(2) by (simp add: evolves_def)
  then have "step_at t i db' = Some s" using step_at_unique [OF ok] s' step_at_in [OF s(1)] by blast
  then show ?thesis using s(2) by (simp add: done_at_def)
qed

definition plan_stored :: "nat \<Rightarrow> ident \<Rightarrow> nat \<Rightarrow> task_db \<Rightarrow> bool" where
  \<comment> \<open>well-formed steps, and none past the plan\<close>
  "plan_stored m tid n db = (steps_ok m (steps db) \<and> (tid, n) \<notin> step_key ` set (steps db))"

lemma plan_stored_kept: "plan_stored m tid n db \<Longrightarrow> stored_kept m tid db db' \<Longrightarrow> plan_stored m tid n db'"
  by (auto simp: plan_stored_def stored_kept_def steps_evolve_def)

lemma done_range_kept: "done_range t i k db \<Longrightarrow> plan_stored m tid n db \<Longrightarrow> stored_kept m tid db db' \<Longrightarrow> done_range t i k db'"
  using done_at_kept by (auto simp: done_range_def plan_stored_def)

definition run_ok :: "nat \<Rightarrow> ident \<Rightarrow> nat \<Rightarrow> retrieval_step list \<Rightarrow> persistent_node \<times> persistent_state \<Rightarrow> task_db \<Rightarrow> bool" where
  "run_ok m tid k plan c db = (let s = snd c; i = rw_step (pw_base s) in
     plan_stored m tid (length plan) db \<and> pw_task s = Some tid \<and> wf_plan (pw_base s) = plan
     \<and> (if fst c = P_node N_executor then \<not> pw_stop s \<and> k \<le> i \<and> i < length plan \<and> done_range tid k i db
        else if fst c = P_node N_evaluator
        then pw_stop s \<or> i = length plan \<or> k \<le> i \<and> i < length plan \<and> done_range tid k i db
        else fst c \<in> set answer_nodes \<and> (pw_stop s \<or> done_range tid k (length plan) db)))"

lemma run_ok_kept: "run_ok m tid k plan c db \<Longrightarrow> stored_kept m tid db db' \<Longrightarrow> run_ok m tid k plan c db'"
  unfolding run_ok_def Let_def using plan_stored_kept done_range_kept by (smt (verit))

lemma executor_ok:
  assumes inv: "run_ok m tid k plan (P_node N_executor, s) (wd_tasks wd)" and m: "te_max_attempts (pe_tasks pe) = m"
    and e: "persistent_executor pe a s wd = (wd', Inr s')"
  shows "run_ok m tid k plan (P_node N_evaluator, s') (wd_tasks wd')"
proof -
  have kept: "steps_kept m tid wd wd'" using executor_kept [OF e m] .
  have inv': "run_ok m tid k plan (P_node N_executor, s) (wd_tasks wd')" using run_ok_kept [OF inv kept] .
  show ?thesis using e inv'
    by (cases rule: persistent_executor_cases) (auto simp: run_ok_def Let_def)
qed

lemma done_range_Suc: "done_range t i k db \<Longrightarrow> done_at t k db \<Longrightarrow> done_range t i (Suc k) db"
  by (auto simp: done_range_def less_Suc_eq)

lemma evaluator_step_ok:
  assumes inv: "run_ok m tid k plan (P_node N_evaluator, s) (wd_tasks wd)" and tid: "tid \<noteq> []"
    and e: "persistent_evaluator pe s wd = (wd', Inr s')"
  shows "run_ok m tid k plan (P_node (persistent_route_after_step pe s'), s') (wd_tasks wd')"
proof -
  have kept: "steps_kept m tid wd wd'" using evaluator_kept [OF e] .
  have inv': "run_ok m tid k plan (P_node N_evaluator, s) (wd_tasks wd')" using run_ok_kept [OF inv kept] .
  note r = evaluator_run [OF e]
  have task: "truthy (pw_task s)" "the (pw_task s) = tid" using inv tid by (auto simp: run_ok_def Let_def truthy_def)
  show ?thesis
  proof (cases "pw_stop s'")
    case True
    then show ?thesis using inv' r by (auto simp: run_ok_def Let_def persistent_route_after_step_def truthy_def tid answer_nodes_def)
  next
    case False
    then have stop: "\<not> pw_stop s" using r by blast
    from evaluator_ok [OF e task(1) stop, unfolded task(2)] obtain t t' where "get_task tid (wd_tasks wd) = Some t
      \<and> get_task tid (wd_tasks wd') = Some t' \<and> (pw_stop s' \<longleftrightarrow> t_status t' \<noteq> RUNNING)
      \<and> t_status t' = (if t_status t = RUNNING then boundary_status s t else t_status t)
      \<and> t_cancel_requested t' = t_cancel_requested t \<and> t_pause_requested t' = t_pause_requested t
      \<and> (step_succeeded s \<longrightarrow> done_at tid (rw_step (pw_base s)) (wd_tasks wd')) \<and> step_at tid (rw_step (pw_base s)) (wd_tasks wd) \<noteq> None"
      by (elim exE) (rule that)
    then have st: "pw_stop s' \<longleftrightarrow> t_status t' \<noteq> RUNNING"
      "t_status t' = (if t_status t = RUNNING then boundary_status s t else t_status t)"
      "step_succeeded s \<longrightarrow> done_at tid (rw_step (pw_base s)) (wd_tasks wd')"
      "step_at tid (rw_step (pw_base s)) (wd_tasks wd) \<noteq> None" by - (elim conjE, assumption)+
    have "t_status t' = RUNNING" using False st(1) by simp
    then have "boundary_status s t = RUNNING" using st(2) by (cases "t_status t = RUNNING") simp_all
    then have "step_succeeded s" unfolding boundary_status_def by (metis task_status.distinct)
    moreover have "rw_step (pw_base s) \<noteq> length plan"
    proof
      assume "rw_step (pw_base s) = length plan"
      then obtain x where "step_at tid (length plan) (wd_tasks wd) = Some x" using st(4) by auto
      then have "(tid, length plan) \<in> step_key ` set (steps (wd_tasks wd))" using step_at_in by force
      then show False using inv by (simp add: run_ok_def Let_def plan_stored_def)
    qed
    ultimately have range: "k \<le> rw_step (pw_base s)" "rw_step (pw_base s) < length plan"
      "done_range tid k (Suc (rw_step (pw_base s))) (wd_tasks wd')"
      using inv' stop st(3) done_range_Suc by (auto simp: run_ok_def Let_def)
    then have full: "done_range tid k (length plan) (wd_tasks wd')" if "length plan \<le> Suc (rw_step (pw_base s))"
    proof -
      have "Suc (rw_step (pw_base s)) = length plan" using that range(2) by simp
      then show ?thesis using range(3) by simp
    qed
    show ?thesis using inv' r range full False task(1)
      by (auto simp: run_ok_def Let_def persistent_route_after_step_def answer_nodes_def)
  qed
qed

lemma run_step_ok:
  assumes step: "persistent_step pe fe a c wd = (wd', Inr c')" and inv: "run_ok m tid k plan c (wd_tasks wd)" and tid: "tid \<noteq> []"
    and m: "te_max_attempts (pi_tasks a) = m" and others: "stored_kept m tid (wd_tasks wd) (pi_others a (wd_tasks wd))"
  shows "run_ok m tid k plan c' (wd_tasks wd')"
proof -
  obtain n s n' s' where c: "c = (n, s)" "c' = (n', s')" by fastforce
  define w where "w = wd\<lparr>wd_tasks := pi_others a (wd_tasks wd)\<rparr>"
  have inv1: "run_ok m tid k plan (n, s) (wd_tasks w)" using run_ok_kept [OF inv others] by (simp add: c w_def)
  consider (executor) "n = P_node N_executor" | (evaluator) "n = P_node N_evaluator" | (answer) "n \<in> set answer_nodes" "n \<noteq> P_node N_executor" "n \<noteq> P_node N_evaluator"
    using inv1 by (auto simp: run_ok_def Let_def split: if_splits)
  then show ?thesis
  proof cases
    case executor
    then have "persistent_executor (at_clock a pe) (pi_work a) s w = (wd', Inr s')" "n' = P_node N_evaluator"
      using step by (auto simp: c persistent_step_def goes_Inr w_def)
    then show ?thesis using executor_ok [OF inv1 [unfolded executor], of "at_clock a pe"] m by (simp add: c at_clock_def)
  next
    case evaluator
    then have "persistent_evaluator (at_clock a pe) s w = (wd', Inr s')" "n' = P_node (persistent_route_after_step (at_clock a pe) s')"
      using step by (auto simp: c persistent_step_def goes_Inr w_def)
    then show ?thesis using evaluator_step_ok [OF inv1 [unfolded evaluator] tid] by (simp add: c)
  next
    case answer
    have "n' \<in> set answer_nodes \<and> answered_run s s' \<and> wd_tasks wd' = wd_tasks w"
      using answer_step [OF step [unfolded c] answer(1)] by (simp add: w_def)
    then show ?thesis using inv1 answer
      by (auto simp: c run_ok_def Let_def answered_run_def same_plan_def answer_nodes_def)
  qed
qed

lemma run_stays_ok:
  assumes "persistent_run pe fe as c wd = (wd', Inr c')" and "run_ok m tid k plan c (wd_tasks wd)" and "tid \<noteq> []"
    and "\<forall>a\<in>set as. te_max_attempts (pi_tasks a) = m \<and> (\<forall>db. stored_kept m tid db (pi_others a db))"
  shows "run_ok m tid k plan c' (wd_tasks wd')"
  using assms
proof (induction as arbitrary: c wd)
  case (Cons a as)
  from Cons.prems(1) obtain wd1 c1 where st: "persistent_step pe fe a c wd = (wd1, Inr c1)"
    and rest: "persistent_run pe fe as c1 wd1 = (wd', Inr c')" by (auto elim!: sbind_cases)
  have "run_ok m tid k plan c1 (wd_tasks wd1)" using run_step_ok [OF st Cons.prems(2,3)] Cons.prems(4) by simp
  then show ?case using Cons.IH [OF rest] Cons.prems(3,4) by simp
qed simp


text \<open>
  C26: At the boundary after a step the stored task decides.  A requested cancellation makes the task CANCELLED and ends
  the run, a requested pause PAUSED, a failed step FAILED, a step limit PAUSED; a task that another process has
  moved is left as it is; and the next step is run only if the task is RUNNING, nobody asks it to stop, and the step
  just run is COMPLETED in the store.
\<close>

theorem boundaries_obey_the_task:
  assumes "persistent_evaluator pe s wd = (wd', Inr s')" and "truthy (pw_task s)" and "\<not> pw_stop s"
  shows "\<exists>t t'. get_task (the (pw_task s)) (wd_tasks wd) = Some t \<and> get_task (the (pw_task s)) (wd_tasks wd') = Some t'
    \<and> t_status t' = (if t_status t \<noteq> RUNNING then t_status t else if t_cancel_requested t then CANCELLED
         else if t_pause_requested t then PAUSED else if \<not> step_succeeded s then FAILED else if limit_reached s then PAUSED else RUNNING)
    \<and> (persistent_route_after_step pe s' = N_executor \<longrightarrow> t_status t' = RUNNING \<and> \<not> t_cancel_requested t' \<and> \<not> t_pause_requested t'
         \<and> done_at (the (pw_task s)) (rw_step (pw_base s)) (wd_tasks wd'))
    \<and> (t_status t' \<noteq> RUNNING \<longrightarrow> persistent_route_after_step pe s' = N_generator)"
proof -
  from evaluator_ok [OF assms] obtain t t' where t: "get_task (the (pw_task s)) (wd_tasks wd) = Some t
    \<and> get_task (the (pw_task s)) (wd_tasks wd') = Some t' \<and> (pw_stop s' \<longleftrightarrow> t_status t' \<noteq> RUNNING)
    \<and> t_status t' = (if t_status t = RUNNING then boundary_status s t else t_status t)
    \<and> t_cancel_requested t' = t_cancel_requested t \<and> t_pause_requested t' = t_pause_requested t
    \<and> (step_succeeded s \<longrightarrow> done_at (the (pw_task s)) (rw_step (pw_base s)) (wd_tasks wd'))
    \<and> step_at (the (pw_task s)) (rw_step (pw_base s)) (wd_tasks wd) \<noteq> None"
    by (elim exE) (rule that)
  have "truthy (pw_task s')" using evaluator_run [OF assms(1)] assms(2) by simp
  then show ?thesis using t
    by (intro exI [of _ t] exI [of _ t']) (auto simp: boundary_status_def persistent_route_after_step_def split: if_splits)
qed

section \<open>What is remembered\<close>

definition remembered_texts :: "memory_db \<Rightarrow> string set" where
  "remembered_texts db = (\<lambda>r. lm_content (mr_memory r)) ` set db"

lemma supersede_texts: "remembered_texts (supersede now i j db) = remembered_texts db"
proof -
  have "map (\<lambda>r. lm_content (mr_memory r)) (supersede now i j db) = map (\<lambda>r. lm_content (mr_memory r)) db"
    by (simp add: supersede_def update_where_def)
  then show ?thesis unfolding remembered_texts_def by (metis set_map)
qed

lemma fold_supersede_texts: "remembered_texts (fold (\<lambda>x. supersede now (f x) j) xs db) = remembered_texts db"
  by (induction xs arbitrary: db) (simp_all add: supersede_texts)

lemma prepared_text: "lm_content (prepared_memory me m) = strip (lm_content m)"
  by (simp add: prepared_memory_def Let_def split: prod.split)

lemma create_texts:
  "memory_create me now automatic replaced m db = Inr (db', saved) \<Longrightarrow>
    remembered_texts db' \<subseteq> remembered_texts db \<union> {t. \<not> sensitive t}"
proof -
  assume c: "memory_create me now automatic replaced m db = Inr (db', saved)"
  show ?thesis
  proof (cases "db' = db")
    case False
    define rows where "rows = db @ [\<lparr>mr_memory = prepared_memory me m, mr_embedding = memory_vector me (lm_content (prepared_memory me m))\<rparr>]"
    from c False have clean: "\<not> sensitive (strip (lm_content m))"
      and "remembered_texts db' = remembered_texts rows"
      by (auto simp: rows_def memory_create_def Let_def rbind_Inr_iff row_simps fold_supersede_texts split: if_splits sum.splits)
    then show ?thesis using clean by (auto simp: rows_def remembered_texts_def prepared_text)
  qed simp
qed

lemma write_texts:
  "write_candidates pe automatic s cs n db = (db', k) \<Longrightarrow> remembered_texts db' \<subseteq> remembered_texts db \<union> {t. \<not> sensitive t}"
proof (induction cs arbitrary: n db)
  case (Cons c cs)
  obtain i x where c: "c = (i, x)" by fastforce
  show ?case
  proof (cases "\<not> mk_store x \<or> strip (mk_content x) = []")
    case True
    then show ?thesis using Cons c by simp
  next
    case False
    show ?thesis
    proof (cases "memory_create (pe_memory pe) (pe_now pe) automatic None (candidate_memory pe s i x) db")
      case (Inl e)
      then show ?thesis using Cons.prems False c by auto
    next
      case (Inr y)
      obtain db1 saved where y: "y = (db1, saved)" by fastforce
      have "remembered_texts db' \<subseteq> remembered_texts db1 \<union> {t. \<not> sensitive t}"
        using Cons.IH Cons.prems False c Inr y by (auto split: if_splits)
      then show ?thesis using create_texts [OF Inr [unfolded y]] by blast
    qed
  qed
qed simp


section \<open>Iterations that run out\<close>

text \<open>
  The inherited executor answers an exhausted budget of iterations by moving past the plan.  In a task the step it was asked
  to run is started by then, and the evaluator looks for a step past the plan: the run ends with a
  \<open>TypeError\<close>, and the step stays RUNNING in the store.
\<close>

lemma exhausted_step_is_left_running:
  assumes "truthy (pw_task s)" "\<not> pw_stop s" "preferred_tool s = Some ''search_web''" "exhausted (rt_config (pe_runtime pe)) (pw_base s)"
    and "rw_step (pw_base s) < length (wf_plan (pw_base s))"
    and "step_at (the (pw_task s)) (length (wf_plan (pw_base s))) (wd_tasks wd') = None"
    and "begin_step pe s wd = (wd', Inr (Some i))"
  shows "\<exists>s'. persistent_executor pe a s wd = (wd', Inr s') \<and> persistent_evaluator pe s' wd' = (wd', Inl Type_Error)"
proof -
  let ?s = "with_base ((pw_base s)\<lparr>rw_step := length (wf_plan (pw_base s))\<rparr>) (s\<lparr>pw_task_step := i\<rparr>)"
  have "persistent_executor pe a s wd = (wd', Inr ?s)"
    using assms by (simp add: persistent_executor_def Let_def executor_def)
  moreover have "persistent_evaluator pe ?s wd' = (wd', Inl Type_Error)"
    using assms by (simp add: persistent_evaluator_def with_base_def on_tasks_def checkpoint_def)
  ultimately show ?thesis by blast
qed

section \<open>A sample\<close>

definition wit_env :: persistent_env where
  "wit_env = \<lparr>pe_runtime = sample_runtime, pe_memory = sample_env, pe_memory_enabled = False, pe_auto_extract = False,
     pe_data_enabled = True, pe_task_max_steps = 10, pe_tasks = wit_task_env, pe_now = 5, pe_save = (\<lambda>s. []), pe_load = (\<lambda>d s. s),
     pe_outcome_text = (\<lambda>x. [])\<rparr>"

definition wit_run :: persistent_state where
  \<comment> \<open>two steps that inspect the datasets of a workspace that has none\<close>
  "wit_run = \<lparr>pw_base = sample_state\<lparr>wf_plan := [\<lparr>st_query = ''a'', st_sources = []\<rparr>, \<lparr>st_query = ''b'', st_sources = []\<rparr>]\<rparr>,
     pw_workspace = Some ''w'', pw_owner = ''u'', pw_session = None, pw_task = Some ''t'', pw_limit = None, pw_resume = None,
     pw_assets = [], pw_preferred = [Some ''inspect_dataset'', Some ''inspect_dataset''], pw_task_step = None, pw_stop = False,
     pw_executed = 0, pw_synthesized = False, pw_analysis = None, pw_artifacts = [], pw_error = None, pw_memories = [],
     pw_written = 0\<rparr>"

definition wit_world :: world where
  "wit_world = \<lparr>wd_tasks = \<lparr>tasks = [wit_task], steps = [wit_step\<lparr>s_status := S_PENDING\<rparr>,
       wit_step\<lparr>s_id := ''s1'', s_index := 1, s_status := S_PENDING\<rparr>], events = []\<rparr>, wd_data = sample_data, wd_memory = []\<rparr>"

definition wit_analyst :: analyst where
  "wit_analyst = \<lparr>an_env = sample_analysis_env, an_number = id, an_efficiency = False, an_generated = Inl Index_Error,
     an_repaired = Inl Index_Error, an_first = sample_analysis, an_second = sample_analysis\<rparr>"

definition wit_inputs :: persistent_inputs where
  "wit_inputs = \<lparr>pi_work = \<lparr>sw_tools = (\<lambda>_ _. Tool_raised), sw_text = Inr ''done'', sw_verify = Inl Index_Error, sw_revise = Inl Index_Error,
       sw_verify_again = Inl Index_Error, sw_analyst = wit_analyst\<rparr>, pi_analysis = Inl Index_Error, pi_plan = Inl Index_Error,
     pi_plan_again = Inl Index_Error, pi_grade = Inl Index_Error, pi_refine = Inl Index_Error, pi_candidates = Inl Index_Error,
     pi_memory_ids = (\<lambda>n. ''m''), pi_tasks = wit_task_env, pi_now = 5, pi_others = id\<rparr>"

definition wit_go :: "nat \<Rightarrow> world \<times> (persistent_node \<times> persistent_state) result" where
  "wit_go n = persistent_run wit_env (av_files sample_analysis_env) (replicate n wit_inputs) (P_node N_executor, wit_run) wit_world"

lemma wit_go_result: "\<not> isl (snd (wit_go n)) \<Longrightarrow> \<exists>wd m s. wit_go n = (wd, Inr (m, s))"
  by (cases "wit_go n"; cases "snd (wit_go n)") auto

theorem task_runs_terminate_witness:
  "\<exists>wd s. persistent_run wit_env (av_files sample_analysis_env) (replicate 13 wit_inputs) (P_node N_executor, wit_run) wit_world
     = (wd, Inr (P_end, s))"
proof -
  have "\<not> isl (snd (wit_go 13))" by code_simp
  then obtain wd m s where r: "wit_go 13 = (wd, Inr (m, s))" using wit_go_result by blast
  have "truthy (pw_task wit_run)" by code_simp
  moreover have "2 * (length (wf_plan (pw_base wit_run)) - rw_step (pw_base wit_run)) + 9 \<le> length (replicate 13 wit_inputs)"
    by code_simp
  ultimately have "m = P_end" by (rule task_runs_terminate [OF r [unfolded wit_go_def]])
  with r show ?thesis by (auto simp: wit_go_def)
qed

lemma wit_stored: "plan_stored 2 ''t'' 2 (wd_tasks wit_world)"
  by (simp add: plan_stored_def steps_ok_def wit_world_def wit_step_def step_key_def)


text \<open>A cancellation that is requested while the first step runs.\<close>

definition wit_cancelled :: world where
  "wit_cancelled = wit_world\<lparr>wd_tasks := (wd_tasks wit_world)\<lparr>tasks := [wit_task\<lparr>t_cancel_requested := True\<rparr>]\<rparr>\<rparr>"

theorem boundaries_obey_the_task_witness:
  "\<exists>wd s. persistent_evaluator wit_env wit_run wit_cancelled = (wd, Inr s) \<and> persistent_route_after_step wit_env s = N_generator
     \<and> map_option t_status (get_task ''t'' (wd_tasks wd)) = Some CANCELLED"
proof -
  obtain wd r where e: "persistent_evaluator wit_env wit_run wit_cancelled = (wd, r)" by fastforce
  have "\<not> isl (snd (persistent_evaluator wit_env wit_run wit_cancelled))" by code_simp
  then obtain s where s: "r = Inr s" using e by (cases r) auto
  have task: "truthy (pw_task wit_run)" "\<not> pw_stop wit_run" "pw_task wit_run = Some ''t''" by (simp_all add: wit_run_def truthy_def)
  have "get_task ''t'' (wd_tasks wit_cancelled) = Some (wit_task\<lparr>t_cancel_requested := True\<rparr>)"
    by (simp add: wit_cancelled_def get_task_def row_get_def wit_task_def)
  then show ?thesis using boundaries_obey_the_task [OF e [unfolded s] task(1,2)] task(3) e s by (auto simp: wit_task_def)
qed

text \<open>A model proposes a memory of a task that has all its steps completed.\<close>

definition wit_finished :: world where
  "wit_finished = wit_world\<lparr>wd_tasks := (wd_tasks wit_world)\<lparr>steps := [wit_step\<lparr>s_status := S_COMPLETED\<rparr>]\<rparr>\<rparr>"

definition wit_remembering :: persistent_env where
  "wit_remembering = wit_env\<lparr>pe_memory_enabled := True, pe_auto_extract := True\<rparr>"

definition wit_proposal :: "memory_candidate list reply result" where
  "wit_proposal = Inr (Instance [\<lparr>mk_store = True, mk_type = Mem_project, mk_content = ''ab'', mk_importance = 1, mk_confidence = 1,
     mk_workspace = True, mk_key = []\<rparr>])"


end
