(* ===== verification/Pdf_Text.thy ===== *)
theory Pdf_Text
  imports PyNum Json_Text
begin

text \<open>
  \<open>server/rag/loaders.py\<close> and \<open>server/rag/ocr.py\<close>: the text of a PDF, page by page, natively extracted or recognised.
  What the PDF library extracts from a page and what the OCR engine recognises on it are inputs; a score is
  \<open>None\<close> when it is not finite.
\<close>

section \<open>Settings\<close>

record ocr_settings =
  os_mode :: string
  os_lang :: string
  os_device :: string
  os_dpi :: int
  os_min_text_chars :: int
  os_min_confidence :: rat

definition default_ocr :: ocr_settings where
  "default_ocr = \<lparr>os_mode = ''auto'', os_lang = ''ch'', os_device = ''cpu'', os_dpi = 200, os_min_text_chars = 40,
     os_min_confidence = 1 / 2\<rparr>"

definition checked_settings :: "ocr_settings \<Rightarrow> ocr_settings result" where
  "checked_settings o' =
     (if os_mode o' \<notin> {''auto'', ''always'', ''off''} then Inl (Value_Error ''PDF_OCR_MODE must be auto, always, or off'')
      else if \<not> (72 \<le> os_dpi o' \<and> os_dpi o' \<le> 400) then Inl (Value_Error ''PDF_OCR_DPI must be between 72 and 400'')
      else if os_min_text_chars o' \<le> 0 then Inl (Value_Error ''PDF_OCR_MIN_TEXT_CHARS must be positive'')
      else if \<not> (0 \<le> os_min_confidence o' \<and> os_min_confidence o' \<le> 1)
      then Inl (Value_Error ''PDF_OCR_MIN_CONFIDENCE must be between 0 and 1'')
      else if strip (os_lang o') = [] \<or> strip (os_device o') = []
      then Inl (Value_Error ''PDF_OCR_LANG and PDF_OCR_DEVICE cannot be empty'')
      else Inr o')"

section \<open>When a page is recognised\<close>

definition printable :: "char \<Rightarrow> bool" where
  \<comment> \<open>\<open>isprintable\<close> of an ASCII character\<close>
  "printable c = (of_char c \<ge> (32::nat) \<and> of_char c < (127::nat))"

definition needs_ocr :: "string \<Rightarrow> int \<Rightarrow> bool" where
  "needs_ocr t minimum =
     (let visible = filter (\<lambda>c. \<not> is_space c) t in
      if int (length (filter is_alnum visible)) < minimum then True
      else of_nat (length (filter (\<lambda>c. \<not> printable c) visible)) / of_nat (max 1 (length visible)) > (1 / 20 :: rat))"

type_synonym recognised = "string list \<times> rat option list"

fun kept_lines :: "rat \<Rightarrow> string list \<Rightarrow> rat option list \<Rightarrow> string list" where
  "kept_lines m (t # ts) (s # ss) =
     (case s of
        Some x \<Rightarrow> if m \<le> x \<and> strip t \<noteq> [] then strip t # kept_lines m ts ss else kept_lines m ts ss
      | None \<Rightarrow> kept_lines m ts ss)"
| "kept_lines m ts ss = []"

fun recognised_lines :: "rat \<Rightarrow> recognised list \<Rightarrow> string list result" where
  "recognised_lines m [] = Inr []"
| "recognised_lines m ((ts, ss) # rs) =
     (if length ts \<noteq> length ss then Inl (Value_Error ''PaddleOCR returned inconsistent text/score counts'')
      else rbind (recognised_lines m rs) (\<lambda>ls. Inr (kept_lines m ts ss @ ls)))"

definition recognised_text :: "ocr_settings \<Rightarrow> recognised list result \<Rightarrow> string result" where
  \<comment> \<open>of what the engine answers for the page, or the error of starting it\<close>
  "recognised_text o' answered = rbind answered (\<lambda>rs. rbind (recognised_lines (os_min_confidence o') rs) (\<lambda>ls. Inr (join [CHR 0x0A] ls)))"

section \<open>Pages\<close>

record page_input =
  pg_native :: "string result"
  pg_ocr :: "recognised list result"

record page_document =
  pd_content :: string
  pd_source :: string
  pd_page :: nat
  pd_total :: nat
  pd_method :: string

definition native_text :: "ocr_settings \<Rightarrow> page_input \<Rightarrow> string result" where
  "native_text o' p =
     (if os_mode o' = ''always'' then Inr []
      else case pg_native p of Inr t \<Rightarrow> Inr t | Inl e \<Rightarrow> if os_mode o' = ''off'' then Inl e else Inr [])"

definition wants_ocr :: "ocr_settings \<Rightarrow> string \<Rightarrow> bool" where
  "wants_ocr o' t = (os_mode o' = ''always'' \<or> os_mode o' = ''auto'' \<and> needs_ocr t (os_min_text_chars o'))"

definition page_text :: "(py_error \<Rightarrow> string) \<Rightarrow> ocr_settings \<Rightarrow> nat \<Rightarrow> page_input \<Rightarrow> (string \<times> string) result" where
  \<comment> \<open>the text and how it was extracted\<close>
  "page_text say o' i p = rbind (native_text o' p) (\<lambda>t.
     if wants_ocr o' t
     then (case recognised_text o' (pg_ocr p) of
         Inl e \<Rightarrow> Inl (Runtime_Error (''PaddleOCR failed on PDF page '' @ nat_text (i + 1) @ '': '' @ say e))
       | Inr r \<Rightarrow> Inr (if strip r \<noteq> [] \<or> os_mode o' = ''always'' then (r, ''paddleocr'') else (t, ''native'')))
     else Inr (t, ''native''))"

fun page_documents ::
  "(py_error \<Rightarrow> string) \<Rightarrow> ocr_settings \<Rightarrow> string \<Rightarrow> nat \<Rightarrow> nat \<Rightarrow> page_input list \<Rightarrow> page_document list result" where
  "page_documents say o' path n i [] = Inr []"
| "page_documents say o' path n i (p # ps) = rbind (page_text say o' i p) (\<lambda>(t, m).
     rbind (page_documents say o' path n (i + 1) ps) (\<lambda>ds.
       Inr (if strip t = [] then ds
            else \<lparr>pd_content = t, pd_source = path, pd_page = i, pd_total = n, pd_method = m\<rparr> # ds)))"

definition load_pdf ::
  "(py_error \<Rightarrow> string) \<Rightarrow> ocr_settings \<Rightarrow> string \<Rightarrow> page_input list \<Rightarrow> page_document list result" where
  "load_pdf say o' path pages = rbind (page_documents say o' path (length pages) 0 pages) (\<lambda>ds.
     if ds = [] then Inl (Value_Error ''PDF contains no extractable text after extraction/OCR'') else Inr ds)"

section \<open>No page is lost\<close>

lemma page_documents_from:
  "page_documents say o' path n i ps = Inr ds \<Longrightarrow>
    sorted_wrt (<) (map pd_page ds) \<and> (\<forall>d\<in>set ds. i \<le> pd_page d)
    \<and> (\<forall>d. d \<in> set ds \<longleftrightarrow> (\<exists>k t m. k < length ps \<and> page_text say o' (i + k) (ps ! k) = Inr (t, m) \<and> strip t \<noteq> []
          \<and> d = \<lparr>pd_content = t, pd_source = path, pd_page = i + k, pd_total = n, pd_method = m\<rparr>))
    \<and> (\<forall>k<length ps. is_ok (page_text say o' (i + k) (ps ! k)))"
proof (induction ps arbitrary: i ds)
  case (Cons p ps)
  from Cons.prems obtain t m es where p: "page_text say o' i p = Inr (t, m)"
    and es: "page_documents say o' path n (i + 1) ps = Inr es"
    and ds: "ds = (if strip t = [] then es
       else \<lparr>pd_content = t, pd_source = path, pd_page = i, pd_total = n, pd_method = m\<rparr> # es)"
    by (auto simp: rbind_Inr_iff)
  note ih = Cons.IH [OF es]
  have split: "(\<exists>k. k < length (p # ps) \<and> P k) \<longleftrightarrow> P 0 \<or> (\<exists>k. k < length ps \<and> P (Suc k))" for P
    using less_Suc_eq_0_disj by auto
  have "(\<forall>d. d \<in> set ds \<longleftrightarrow> (\<exists>k. k < length (p # ps) \<and> (\<exists>t m. page_text say o' (i + k) ((p # ps) ! k) = Inr (t, m) \<and> strip t \<noteq> []
          \<and> d = \<lparr>pd_content = t, pd_source = path, pd_page = i + k, pd_total = n, pd_method = m\<rparr>)))"
    unfolding split using ih p by (auto simp: ds)
  moreover have "\<forall>k<length (p # ps). is_ok (page_text say o' (i + k) ((p # ps) ! k))"
    using ih p by (auto simp: less_Suc_eq_0_disj)
  moreover have "sorted_wrt (<) (map pd_page ds) \<and> (\<forall>d\<in>set ds. i \<le> pd_page d)"
    using ih by (auto simp: ds)
  ultimately show ?case by (simp add: ex_simps)
qed simp

text \<open>
  A PDF that loads has a document for every page with text, under the page's own number and in the order of the
  pages, and no page failed: a scanned page is never silently left out.
\<close>

theorem loaded_pages_are_complete:
  assumes "load_pdf say o' path pages = Inr ds"
  shows "ds \<noteq> [] \<and> sorted_wrt (<) (map pd_page ds)
    \<and> (\<forall>d. d \<in> set ds \<longleftrightarrow> (\<exists>k t m. k < length pages \<and> page_text say o' k (pages ! k) = Inr (t, m) \<and> strip t \<noteq> []
          \<and> d = \<lparr>pd_content = t, pd_source = path, pd_page = k, pd_total = length pages, pd_method = m\<rparr>))
    \<and> (\<forall>k<length pages. is_ok (page_text say o' k (pages ! k)))"
  using assms page_documents_from [of say o' path "length pages" 0 pages ds]
  by (auto simp: load_pdf_def rbind_Inr_iff split: if_splits)

lemma confident_lines_only:
  "t \<in> set (kept_lines m ts ss) \<Longrightarrow> \<exists>k x. k < length ts \<and> k < length ss \<and> ss ! k = Some x \<and> m \<le> x \<and> t = strip (ts ! k) \<and> t \<noteq> []"
proof (induction m ts ss rule: kept_lines.induct)
  case (1 m u us s ss)
  show ?case
  proof (cases "t \<in> set (kept_lines m us ss)")
    case True
    then have "\<exists>k x. k < length us \<and> k < length ss \<and> ss ! k = Some x \<and> m \<le> x \<and> t = strip (us ! k) \<and> t \<noteq> []"
      using 1 by (auto split: option.splits)
    then obtain k x where "Suc k < length (u # us)" "Suc k < length (s # ss)" "(s # ss) ! Suc k = Some x" "m \<le> x"
      "t = strip ((u # us) ! Suc k)" "t \<noteq> []" by auto
    then show ?thesis by blast
  next
    case False
    then obtain x where "s = Some x" "m \<le> x" "t = strip u" "t \<noteq> []"
      using 1(4) by (auto split: option.splits if_splits)
    then show ?thesis by (intro exI [of _ 0] exI [of _ x]) auto
  qed
qed auto

lemma loaded_pages_sample:
  "load_pdf (\<lambda>e. ''x'') (default_ocr\<lparr>os_min_text_chars := 3\<rparr>) ''a.pdf''
     [\<lparr>pg_native = Inr ''text'', pg_ocr = Inl Type_Error\<rparr>, \<lparr>pg_native = Inr '' '', pg_ocr = Inr [([''scan'', ''noise''], [Some 1, Some 0])]\<rparr>]
   = Inr [\<lparr>pd_content = ''text'', pd_source = ''a.pdf'', pd_page = 0, pd_total = 2, pd_method = ''native''\<rparr>,
          \<lparr>pd_content = ''scan'', pd_source = ''a.pdf'', pd_page = 1, pd_total = 2, pd_method = ''paddleocr''\<rparr>]"
  by code_simp

end
