(* ===== verification/Ingestion.thy ===== *)
theory Ingestion
  imports Sessions Data_Assets
begin

text \<open>
  \<open>server/rag/ingestion.py\<close>: receiving a PDF and making its index available.  An ingestion stages the upload, announces
  its status, validates the PDF, and then, under the lock of its file, publishes the index that a worker process
  has built in the staging directory by renaming it into the workspace.

  The workspace directory is a dictionary from names to files and index directories; an index directory is the list of its
  files with the bytes of the PDF it was built from.  What the PDF library says of the bytes, SHA-256, what
  the worker process did and whether the vector store opens are parameters and inputs.  The steps between which other
  ingestions may run are separate operations, and \<open>ingest\<close> is their composition.
\<close>

section \<open>State\<close>

record index_row =
  ix_file_id :: string
  ix_file_name :: string
  ix_size :: nat
  ix_status :: string
  ix_error :: "string option"
  ix_owner_pid :: "int option"
  ix_created_at :: time
  ix_updated_at :: time

record index_dir =
  xd_files :: "string list"
  xd_source :: string

datatype entry = File_entry string | Index_entry index_dir

record staging =
  sg_owner :: "int option"             \<comment> \<open>what \<open>owner.pid\<close> says, when it can be read\<close>
  sg_upload :: "string option"

record pipeline =
  pl_rows :: "index_row list"
  pl_entries :: "(string, entry) dict"
  pl_staging :: "(ident, staging) dict"
  pl_strays :: "string list"           \<comment> \<open>files in the staging root\<close>

record pdf_facts =
  pf_encrypted :: bool
  pf_pages :: nat
  pf_boxes :: bool                     \<comment> \<open>whether every page has a media box\<close>

record ingest_env =
  ie_root :: string
  ie_sha :: "string \<Rightarrow> string"
  ie_adapter :: "string option"        \<comment> \<open>the \<open>index_suffix\<close> of the adapter\<close>
  ie_max :: int
  ie_pid :: int
  ie_reader :: "string \<Rightarrow> pdf_facts result"

datatype ingest_error =
    Upload_Too_Large string
  | Invalid_Pdf string
  | Index_Build string

record pdf_upload =
  pu_file_name :: string
  pu_chunks :: "string list"           \<comment> \<open>the successive reads of the stream\<close>

record ingest_job =
  jb_dir :: ident
  jb_name :: string
  jb_content :: string
  jb_file :: string

section \<open>The status of an index\<close>

definition upsert_status :: "index_row \<Rightarrow> index_row list \<Rightarrow> index_row list" where
  "upsert_status r rows = (case row_get ix_file_id (ix_file_id r) rows of
     None \<Rightarrow> rows @ [r]
   | Some old \<Rightarrow> row_put ix_file_id (r\<lparr>ix_created_at := ix_created_at old\<rparr>) rows)"

definition in_progress :: "string \<Rightarrow> bool" where
  "in_progress st = (st \<in> {''validating'', ''indexing''})"

definition set_status :: "ingest_env \<Rightarrow> time \<Rightarrow> ingest_job \<Rightarrow> string \<Rightarrow> string option \<Rightarrow> pipeline \<Rightarrow> pipeline" where
  "set_status v now j st err p = p\<lparr>pl_rows := upsert_status
     \<lparr>ix_file_id = jb_file j, ix_file_name = jb_name j, ix_size = length (jb_content j), ix_status = st, ix_error = err,
      ix_owner_pid = (if in_progress st then Some (ie_pid v) else None), ix_created_at = now, ix_updated_at = now\<rparr>
     (pl_rows p)\<rparr>"

definition get_index_status :: "string \<Rightarrow> pipeline \<Rightarrow> index_row option" where
  "get_index_status i p = row_get ix_file_id i (pl_rows p)"

datatype kill_answer = Signalled | Not_permitted | No_process

definition process_is_running :: "(int \<Rightarrow> kill_answer) \<Rightarrow> int \<Rightarrow> bool" where
  \<comment> \<open>of what \<open>os.kill(pid, 0)\<close> does\<close>
  "process_is_running kill pid = (case kill pid of Signalled \<Rightarrow> True | Not_permitted \<Rightarrow> True | No_process \<Rightarrow> False)"

definition held_elsewhere :: "ingest_env \<Rightarrow> (int \<Rightarrow> kill_answer) \<Rightarrow> int option \<Rightarrow> bool" where
  "held_elsewhere v kill owner = (case owner of
     None \<Rightarrow> False | Some pid \<Rightarrow> pid \<noteq> ie_pid v \<and> process_is_running kill pid)"

definition fail_interrupted :: "ingest_env \<Rightarrow> (int \<Rightarrow> kill_answer) \<Rightarrow> time \<Rightarrow> index_row list \<Rightarrow> index_row list" where
  "fail_interrupted v kill now rows = update_where (\<lambda>r. in_progress (ix_status r) \<and> \<not> held_elsewhere v kill (ix_owner_pid r))
     (\<lambda>r. r\<lparr>ix_status := ''failed'', ix_error := Some ''Indexing was interrupted before completion'', ix_owner_pid := None,
            ix_updated_at := now\<rparr>) rows"

section \<open>Starting the pipeline\<close>

fun cleanup_dirs ::
  "ingest_env \<Rightarrow> (int \<Rightarrow> kill_answer) \<Rightarrow> (string \<Rightarrow> bool) \<Rightarrow> (ident, staging) dict \<Rightarrow> (ident, staging) dict \<times> unit result" where
  \<comment> \<open>which paths resolve to a place outside the staging root is an argument\<close>
  "cleanup_dirs v kill escapes [] = ([], Inr ())"
| "cleanup_dirs v kill escapes ((d, s) # ds) =
     (if held_elsewhere v kill (sg_owner s)
      then (case cleanup_dirs v kill escapes ds of (kept, r) \<Rightarrow> ((d, s) # kept, r))
      else if escapes d then ((d, s) # ds, Inl (Runtime_Error ''Refusing to remove a path outside staging''))
      else cleanup_dirs v kill escapes ds)"

fun cleanup_files :: "(string \<Rightarrow> bool) \<Rightarrow> string list \<Rightarrow> string list \<times> unit result" where
  "cleanup_files escapes [] = ([], Inr ())"
| "cleanup_files escapes (f # fs) =
     (if escapes f then (f # fs, Inl (Runtime_Error ''Refusing to remove a path outside staging''))
      else cleanup_files escapes fs)"

definition cleanup_staging ::
  "ingest_env \<Rightarrow> (int \<Rightarrow> kill_answer) \<Rightarrow> (string \<Rightarrow> bool) \<Rightarrow> pipeline \<Rightarrow> pipeline \<times> unit result" where
  "cleanup_staging v kill escapes p = (case cleanup_dirs v kill escapes (pl_staging p) of
     (ds, Inl e) \<Rightarrow> (p\<lparr>pl_staging := ds\<rparr>, Inl e)
   | (ds, Inr _) \<Rightarrow> (case cleanup_files escapes (pl_strays p) of
       (fs, r) \<Rightarrow> (p\<lparr>pl_staging := ds, pl_strays := fs\<rparr>, r)))"

definition start_pipeline ::
  "ingest_env \<Rightarrow> (int \<Rightarrow> kill_answer) \<Rightarrow> (string \<Rightarrow> bool) \<Rightarrow> bool \<Rightarrow> time \<Rightarrow> pipeline \<Rightarrow> pipeline \<times> unit result" where
  \<comment> \<open>\<open>__init__\<close>; whether a database of the server is given\<close>
  "start_pipeline v kill escapes persistence now p =
     (if ie_max v \<le> 0 then (p, Inl (Value_Error ''max_upload_bytes must be positive''))
      else sbind (cleanup_staging v kill escapes p) (\<lambda>_ p.
        (if persistence then p else p\<lparr>pl_rows := fail_interrupted v kill now (pl_rows p)\<rparr>, Inr ())))"

section \<open>Receiving\<close>

definition pdf_name :: "string \<Rightarrow> string" where
  "pdf_name i = i @ ''.pdf''"

definition index_name :: "string \<Rightarrow> string \<Rightarrow> string" where
  "index_name i suffix = ''chroma_'' @ i @ suffix"

definition resolve_file_id :: "(string \<Rightarrow> string) \<Rightarrow> (string, entry) dict \<Rightarrow> string \<Rightarrow> string" where
  "resolve_file_id sha entries full = (let legacy = take 16 full in
     case map_of entries (pdf_name legacy) of
       Some (File_entry c) \<Rightarrow> if sha c = full then legacy else full
     | _ \<Rightarrow> if map_of entries (index_name legacy []) \<noteq> None then legacy else full)"

fun receive_chunks :: "int \<Rightarrow> string \<Rightarrow> string list \<Rightarrow> string option" where
  "receive_chunks m received [] = Some received"
| "receive_chunks m received (c # cs) =
     (if c = [] then Some received
      else if m < int (length (received @ c)) then None
      else receive_chunks m (received @ c) cs)"

definition safe_pdf_name :: "string \<Rightarrow> bool" where
  \<comment> \<open>\<open>safe_name.lower().endswith('.pdf')\<close>\<close>
  "safe_pdf_name n = starts_with (rev ''.pdf'') (rev (casefold n))"

definition receive ::
  "ingest_env \<Rightarrow> time \<Rightarrow> ident \<Rightarrow> pdf_upload \<Rightarrow> pipeline \<Rightarrow> pipeline \<times> (ingest_error + ingest_job)" where
  "receive v now d u p =
     (let name = base_name (pu_file_name u) in
      if \<not> safe_pdf_name name then (p, Inl (Invalid_Pdf ''Only a valid PDF file is supported''))
      else case receive_chunks (ie_max v) [] (pu_chunks u) of
        None \<Rightarrow> (p, Inl (Upload_Too_Large (''Uploaded PDF exceeds the limit of '' @ int_text (ie_max v) @ '' bytes'')))
      | Some c \<Rightarrow>
          (let i = resolve_file_id (ie_sha v) (pl_entries p) (ie_sha v c);
               j = \<lparr>jb_dir = d, jb_name = name, jb_content = c, jb_file = i\<rparr> in
           (set_status v now j ''validating'' None
              (p\<lparr>pl_staging := dict_put d \<lparr>sg_owner = Some (ie_pid v), sg_upload = Some c\<rparr> (pl_staging p)\<rparr>), Inr j)))"

definition remove_staging :: "ingest_job \<Rightarrow> pipeline \<Rightarrow> pipeline" where
  "remove_staging j p = p\<lparr>pl_staging := filter (\<lambda>(d, s). d \<noteq> jb_dir j) (pl_staging p)\<rparr>"

definition abandon :: "ingest_env \<Rightarrow> time \<Rightarrow> ingest_job \<Rightarrow> string \<Rightarrow> pipeline \<Rightarrow> pipeline" where
  "abandon v now j message p = remove_staging j (set_status v now j ''failed'' (Some message) p)"

definition build_failure :: string where
  "build_failure = ''Failed to build PDF index''"

section \<open>Validating\<close>

definition pdf_fault :: "ingest_env \<Rightarrow> string \<Rightarrow> string option" where
  "pdf_fault v c =
     (let bad = Some ''Uploaded file is not a valid PDF'' in
      if c = [] \<or> \<not> contains ''%PDF-'' (take 1024 c) then bad
      else case ie_reader v c of
        Inl e \<Rightarrow> bad
      | Inr f \<Rightarrow> if pf_encrypted f then Some ''Encrypted PDF files are not supported''
                 else if pf_pages f = 0 \<or> \<not> pf_boxes f then bad else None)"

definition validate_upload ::
  "ingest_env \<Rightarrow> time \<Rightarrow> ingest_job \<Rightarrow> pipeline \<Rightarrow> pipeline \<times> (ingest_error + unit)" where
  "validate_upload v now j p = (case pdf_fault v (jb_content j) of
     Some m \<Rightarrow> (abandon v now j m p, Inl (Invalid_Pdf m))
   | None \<Rightarrow> if ie_adapter v = None then (abandon v now j build_failure p, Inl (Index_Build build_failure)) else (p, Inr ()))"

section \<open>Publishing\<close>

definition index_suffix :: "ingest_env \<Rightarrow> string" where
  "index_suffix v = (case ie_adapter v of None \<Rightarrow> [] | Some s \<Rightarrow> s)"

definition vectorstore_exists :: "entry option \<Rightarrow> bool" where
  "vectorstore_exists e = (case e of Some (Index_entry x) \<Rightarrow> ''chroma.sqlite3'' \<in> set (xd_files x) | _ \<Rightarrow> False)"

definition load_vectorstore :: "entry option \<Rightarrow> unit result \<Rightarrow> unit result" where
  \<comment> \<open>of what Chroma does when it opens a store\<close>
  "load_vectorstore e opened = (if vectorstore_exists e then opened
     else Inl (Provider_Error ''FileNotFoundError''))"

definition place_pdf :: "ingest_job \<Rightarrow> pipeline \<Rightarrow> pipeline" where
  \<comment> \<open>\<open>upload_path.replace(pdf_path)\<close>, unless there is a file\<close>
  "place_pdf j p = (if map_of (pl_entries p) (pdf_name (jb_file j)) \<noteq> None then p
     else p\<lparr>pl_entries := dict_put (pdf_name (jb_file j)) (File_entry (jb_content j)) (pl_entries p),
            pl_staging := map (\<lambda>(d, s). (d, if d = jb_dir j then s\<lparr>sg_upload := None\<rparr> else s)) (pl_staging p)\<rparr>)"

definition unlink_pdf :: "ingest_job \<Rightarrow> pipeline \<Rightarrow> pipeline" where
  "unlink_pdf j p = p\<lparr>pl_entries := filter (\<lambda>(n, e). n \<noteq> pdf_name (jb_file j)) (pl_entries p)\<rparr>"

definition answer_of :: "ingest_env \<Rightarrow> ingest_job \<Rightarrow> bool \<Rightarrow> ingested" where
  "answer_of v j reused = \<lparr>ig_file_id = jb_file j, ig_file_name = jb_name j,
     ig_pdf_path = ie_root v @ ''/'' @ pdf_name (jb_file j),
     ig_index_dir = ie_root v @ ''/'' @ index_name (jb_file j) (index_suffix v),
     ig_status = ''ready'', ig_reused = reused, ig_size = length (jb_content j)\<rparr>"

definition publish_begin ::
  "ingest_env \<Rightarrow> time \<Rightarrow> unit result \<Rightarrow> ingest_job \<Rightarrow> pipeline \<Rightarrow> pipeline \<times> (ingest_error + (ingested + bool))" where
  \<comment> \<open>the lock of the file is taken; \<open>Inl\<close> the answer, or \<open>Inr\<close> whether it placed the PDF and an index is to be built\<close>
  "publish_begin v now opened j p =
     (let i = jb_file j; index = map_of (pl_entries p) (index_name i (index_suffix v)) in
      if base_name (index_suffix v) \<noteq> index_suffix v
      then (abandon v now j build_failure p, Inl (Index_Build build_failure))
      else if vectorstore_exists index
      then (case load_vectorstore index opened of
          Inl e \<Rightarrow> (abandon v now j build_failure (place_pdf j p), Inl (Index_Build build_failure))
        | Inr _ \<Rightarrow> (remove_staging j (set_status v now j ''ready'' None (place_pdf j p)), Inr (Inl (answer_of v j True))))
      else (place_pdf j (set_status v now j ''indexing'' None p), Inr (Inr (map_of (pl_entries p) (pdf_name i) = None))))"

record build_run =
  br_code :: int
  br_files :: "string list option"     \<comment> \<open>the files of the staged index directory, if there is one\<close>

definition build_staged :: "entry option \<Rightarrow> build_run \<Rightarrow> index_dir option" where
  \<comment> \<open>of the PDF the worker process reads; \<open>None\<close>: it failed, or left no directory to rename\<close>
  "build_staged pdf b = (case pdf of
     Some (File_entry c) \<Rightarrow> if br_code b = 0 then map_option (\<lambda>fs. \<lparr>xd_files = fs, xd_source = c\<rparr>) (br_files b) else None
   | _ \<Rightarrow> None)"

definition build_failed :: "ingest_env \<Rightarrow> time \<Rightarrow> ingest_job \<Rightarrow> bool \<Rightarrow> pipeline \<Rightarrow> pipeline \<times> (ingest_error + ingested)" where
  "build_failed v now j created p =
     (abandon v now j build_failure (if created then unlink_pdf j p else p), Inl (Index_Build build_failure))"

definition publish_end ::
  "ingest_env \<Rightarrow> time \<Rightarrow> build_run \<Rightarrow> unit result \<Rightarrow> ingest_job \<Rightarrow> bool \<Rightarrow> pipeline \<Rightarrow> pipeline \<times> (ingest_error + ingested)" where
  \<comment> \<open>after the worker process has ended; the lock is released\<close>
  "publish_end v now b opened j created p =
     (let i = jb_file j; name = index_name i (index_suffix v) in
      case build_staged (map_of (pl_entries p) (pdf_name i)) b of
        None \<Rightarrow> build_failed v now j created p
      | Some x \<Rightarrow>
          if map_of (pl_entries p) name \<noteq> None then build_failed v now j created p
          else (let p = p\<lparr>pl_entries := dict_put name (Index_entry x) (pl_entries p)\<rparr> in
            case load_vectorstore (Some (Index_entry x)) opened of
              Inl e \<Rightarrow> build_failed v now j created p
            | Inr _ \<Rightarrow> (remove_staging j (set_status v now j ''ready'' None p), Inr (answer_of v j False))))"

section \<open>An ingestion from end to end\<close>

record ingest_inputs =
  ii_received :: time
  ii_validated :: time
  ii_locked :: time
  ii_built :: time
  ii_opened :: "unit result"
  ii_build :: build_run

definition ingest ::
  "ingest_env \<Rightarrow> ingest_inputs \<Rightarrow> ident \<Rightarrow> pdf_upload \<Rightarrow> pipeline \<Rightarrow> pipeline \<times> (ingest_error + ingested)" where
  "ingest v a d u p = (case receive v (ii_received a) d u p of
     (p, Inl e) \<Rightarrow> (p, Inl e)
   | (p, Inr j) \<Rightarrow> (case validate_upload v (ii_validated a) j p of
       (p, Inl e) \<Rightarrow> (p, Inl e)
     | (p, Inr _) \<Rightarrow> (case publish_begin v (ii_locked a) (ii_opened a) j p of
         (p, Inl e) \<Rightarrow> (p, Inl e)
       | (p, Inr (Inl g)) \<Rightarrow> (p, Inr g)
       | (p, Inr (Inr created)) \<Rightarrow> publish_end v (ii_built a) (ii_build a) (ii_opened a) j created p)))"

definition session_answer :: "ingest_error + ingested \<Rightarrow> ingested result" where
  \<comment> \<open>what the callers in \<open>sessions.py\<close> see: \<open>ValueError\<close>s and a \<open>RuntimeError\<close>\<close>
  "session_answer r = (case r of
     Inr g \<Rightarrow> Inr g
   | Inl (Upload_Too_Large m) \<Rightarrow> Inl (Value_Error m)
   | Inl (Invalid_Pdf m) \<Rightarrow> Inl (Value_Error m)
   | Inl (Index_Build m) \<Rightarrow> Inl (Runtime_Error m))"

end
