(* ===== verification/Ingestion_Laws.thy ===== *)
theory Ingestion_Laws
  imports Ingestion
begin

text \<open>
  Ingestions as a machine whose steps interleave: between two steps of one ingestion any others may run, except that the
  steps under the lock of a file exclude each other.  The server may stop at any moment and start again,
  as a process with any identifier; what ran is then gone and what it stored stays.
\<close>

section \<open>The machine\<close>

datatype phase = Received | Validated | Building bool

record ingest_state =
  is_pipe :: pipeline
  is_jobs :: "(ingest_job \<times> phase) list"
  is_pid :: int

datatype ingest_op =
    I_receive time ident pdf_upload
  | I_validate time ingest_job
  | I_begin time "unit result" ingest_job
  | I_end time build_run "unit result" ingest_job bool
  | I_restart int "int \<Rightarrow> kill_answer" "string \<Rightarrow> bool" bool time

definition here :: "ingest_env \<Rightarrow> ingest_state \<Rightarrow> ingest_env" where
  "here v s = v\<lparr>ie_pid := is_pid s\<rparr>"

definition without :: "ingest_job \<Rightarrow> (ingest_job \<times> phase) list \<Rightarrow> (ingest_job \<times> phase) list" where
  "without j js = filter (\<lambda>(k, ph). jb_dir k \<noteq> jb_dir j) js"

fun ingest_exec :: "ingest_env \<Rightarrow> ingest_op \<Rightarrow> ingest_state \<Rightarrow> ingest_state" where
  "ingest_exec v (I_receive now d u) s = (case receive (here v s) now d u (is_pipe s) of
     (p, Inl e) \<Rightarrow> s\<lparr>is_pipe := p\<rparr> | (p, Inr j) \<Rightarrow> s\<lparr>is_pipe := p, is_jobs := (j, Received) # is_jobs s\<rparr>)"
| "ingest_exec v (I_validate now j) s = (case validate_upload (here v s) now j (is_pipe s) of
     (p, Inl e) \<Rightarrow> s\<lparr>is_pipe := p, is_jobs := without j (is_jobs s)\<rparr>
   | (p, Inr _) \<Rightarrow> s\<lparr>is_pipe := p, is_jobs := (j, Validated) # without j (is_jobs s)\<rparr>)"
| "ingest_exec v (I_begin now opened j) s = (case publish_begin (here v s) now opened j (is_pipe s) of
     (p, Inr (Inr c)) \<Rightarrow> s\<lparr>is_pipe := p, is_jobs := (j, Building c) # without j (is_jobs s)\<rparr>
   | (p, _) \<Rightarrow> s\<lparr>is_pipe := p, is_jobs := without j (is_jobs s)\<rparr>)"
| "ingest_exec v (I_end now b opened j c) s =
     s\<lparr>is_pipe := fst (publish_end (here v s) now b opened j c (is_pipe s)), is_jobs := without j (is_jobs s)\<rparr>"
| "ingest_exec v (I_restart pid kill escapes persistence now) s =
     s\<lparr>is_pipe := fst (start_pipeline (v\<lparr>ie_pid := pid\<rparr>) kill escapes persistence now (is_pipe s)), is_jobs := [], is_pid := pid\<rparr>"

definition unlocked :: "string \<Rightarrow> (ingest_job \<times> phase) list \<Rightarrow> bool" where
  "unlocked i js = (\<forall>(k, ph)\<in>set js. jb_file k = i \<longrightarrow> (case ph of Building c \<Rightarrow> False | _ \<Rightarrow> True))"

fun ingest_op_ok :: "ingest_env \<Rightarrow> ingest_state \<Rightarrow> ingest_op \<Rightarrow> bool" where
  \<comment> \<open>a staging directory is fresh, a step follows the one before, the lock of the file is free, and the server comes up\<close>
  "ingest_op_ok v s (I_receive now d u) = (d \<notin> fst ` set (pl_staging (is_pipe s)))"
| "ingest_op_ok v s (I_validate now j) = ((j, Received) \<in> set (is_jobs s))"
| "ingest_op_ok v s (I_begin now opened j) = ((j, Validated) \<in> set (is_jobs s) \<and> unlocked (jb_file j) (is_jobs s))"
| "ingest_op_ok v s (I_end now b opened j c) = ((j, Building c) \<in> set (is_jobs s))"
| "ingest_op_ok v s (I_restart pid kill escapes persistence now) =
     (snd (start_pipeline (v\<lparr>ie_pid := pid\<rparr>) kill escapes persistence now (is_pipe s)) = Inr ())"

section \<open>Names\<close>

definition hex_char :: "char \<Rightarrow> bool" where
  "hex_char c = (c \<in> set ''0123456789abcdef'')"

definition hex_name :: "string \<Rightarrow> bool" where
  "hex_name i = (list_all hex_char i \<and> (length i = 16 \<or> length i = 64))"

definition names :: "ingest_env \<Rightarrow> string \<Rightarrow> string \<Rightarrow> bool" where
  \<comment> \<open>an identifier of a content: its digest, or the first characters of it\<close>
  "names v i c = (i = ie_sha v c \<or> i = take 16 (ie_sha v c))"

definition digests :: "ingest_env \<Rightarrow> bool" where
  \<comment> \<open>\<open>hexdigest\<close> of SHA-256\<close>
  "digests v = (\<forall>c. list_all hex_char (ie_sha v c) \<and> length (ie_sha v c) = 64)"

lemma names_hex: "digests v \<Longrightarrow> names v i c \<Longrightarrow> hex_name i"
  by (auto simp: digests_def names_def hex_name_def list_all_iff dest: in_set_takeD)

lemma pdf_name_inj [simp]: "pdf_name i = pdf_name k \<longleftrightarrow> i = k"
  by (simp add: pdf_name_def)

lemma index_name_inj [simp]: "index_name i s = index_name k s \<longleftrightarrow> i = k"
  by (simp add: index_name_def)

lemma pdf_not_index: "hex_name i \<Longrightarrow> pdf_name i \<noteq> index_name k s"
proof
  assume i: "hex_name i" and same: "pdf_name i = index_name k s"
  have long: "1 < length i" using i by (auto simp: hex_name_def)
  have "pdf_name i ! 1 = i ! 1" using long by (simp add: pdf_name_def nth_append)
  moreover have "index_name k s ! 1 = CHR ''h''" by (simp add: index_name_def)
  ultimately have "i ! 1 = CHR ''h''" using same by simp
  moreover have "i ! 1 \<in> set i" using long by (rule nth_mem)
  ultimately have "hex_char (CHR ''h'')" using i by (simp add: hex_name_def list_all_iff)
  then show False by (simp add: hex_char_def)
qed

lemma index_not_pdf: "hex_name i \<Longrightarrow> index_name k s \<noteq> pdf_name i"
  using pdf_not_index by metis

lemma resolve_names: "names v (resolve_file_id (ie_sha v) entries (ie_sha v c)) c"
  by (auto simp: resolve_file_id_def names_def Let_def split: option.split entry.split)

section \<open>What each part of the state promises\<close>

definition entries_ok :: "ingest_env \<Rightarrow> (string, entry) dict \<Rightarrow> bool" where
  \<comment> \<open>PDFs and indexes are of a content their name is a digest of\<close>
  "entries_ok v es \<longleftrightarrow> (\<forall>i. hex_name i \<longrightarrow>
     (\<forall>e. map_of es (pdf_name i) = Some e \<longrightarrow> (\<exists>c. e = File_entry c \<and> names v i c))
     \<and> (\<forall>e. map_of es (index_name i (index_suffix v)) = Some e \<longrightarrow> (\<exists>x. e = Index_entry x \<and> names v i (xd_source x))))"

definition available :: "ingest_env \<Rightarrow> (string, entry) dict \<Rightarrow> string \<Rightarrow> bool" where
  "available v es i \<longleftrightarrow> map_of es (pdf_name i) \<noteq> None \<and> vectorstore_exists (map_of es (index_name i (index_suffix v)))"

definition ready :: "index_row list \<Rightarrow> string \<Rightarrow> bool" where
  "ready rows i \<longleftrightarrow> (\<exists>r\<in>set rows. ix_file_id r = i \<and> ix_status r = ''ready'')"

definition hex_rows :: "index_row list \<Rightarrow> bool" where
  "hex_rows rows \<longleftrightarrow> (\<forall>r\<in>set rows. hex_name (ix_file_id r))"

definition staging_ok :: "ingest_state \<Rightarrow> bool" where
  "staging_ok s \<longleftrightarrow> (\<forall>(d, g)\<in>set (pl_staging (is_pipe s)).
       (\<exists>(j, ph)\<in>set (is_jobs s). jb_dir j = d) \<or> (\<exists>pid. sg_owner g = Some pid \<and> pid \<noteq> is_pid s))
     \<and> (\<forall>(j, ph)\<in>set (is_jobs s). jb_dir j \<in> fst ` set (pl_staging (is_pipe s)))"

definition jobs_ok :: "ingest_env \<Rightarrow> (ingest_job \<times> phase) list \<Rightarrow> bool" where
  "jobs_ok v js \<longleftrightarrow> distinct (map (jb_dir \<circ> fst) js) \<and> (\<forall>(j, ph)\<in>set js. names v (jb_file j) (jb_content j))
     \<and> (\<forall>j c k d. (j, Building c) \<in> set js \<longrightarrow> (k, Building d) \<in> set js \<longrightarrow> jb_file j = jb_file k \<longrightarrow> j = k)"

definition statuses_ok :: "ingest_env \<Rightarrow> ingest_state \<Rightarrow> bool" where
  \<comment> \<open>what is ready is there, and what is being built is not ready\<close>
  "statuses_ok v s \<longleftrightarrow> distinct (map ix_file_id (pl_rows (is_pipe s))) \<and> hex_rows (pl_rows (is_pipe s))
     \<and> (\<forall>i. ready (pl_rows (is_pipe s)) i \<longrightarrow> available v (pl_entries (is_pipe s)) i)
     \<and> (\<forall>j c. (j, Building c) \<in> set (is_jobs s) \<longrightarrow> \<not> ready (pl_rows (is_pipe s)) (jb_file j))"

definition ingest_ok :: "ingest_env \<Rightarrow> ingest_state \<Rightarrow> bool" where
  "ingest_ok v s \<longleftrightarrow> entries_ok v (pl_entries (is_pipe s)) \<and> jobs_ok v (is_jobs s) \<and> statuses_ok v s \<and> staging_ok s"

subsection \<open>Statuses\<close>

lemma upsert_keys: "map ix_file_id (upsert_status r rows) =
    map ix_file_id rows @ (if ix_file_id r \<in> ix_file_id ` set rows then [] else [ix_file_id r])"
proof (cases "row_get ix_file_id (ix_file_id r) rows")
  case None
  then have "ix_file_id r \<notin> ix_file_id ` set rows" by (simp add: row_get_None_iff)
  then show ?thesis unfolding upsert_status_def None by simp
next
  case (Some old)
  then have "ix_file_id r \<in> ix_file_id ` set rows" using row_get_None_iff [of ix_file_id "ix_file_id r" rows] by auto
  moreover have "map ix_file_id (row_put ix_file_id (r\<lparr>ix_created_at := ix_created_at old\<rparr>) rows) = map ix_file_id rows"
    by (rule row_put_keys)
  ultimately show ?thesis using Some by (simp add: upsert_status_def)
qed

lemma upsert_distinct: "distinct (map ix_file_id rows) \<Longrightarrow> distinct (map ix_file_id (upsert_status r rows))"
  by (simp add: upsert_keys)

lemma hex_rows_upsert: "hex_rows rows \<Longrightarrow> hex_name (ix_file_id r) \<Longrightarrow> hex_rows (upsert_status r rows)"
  by (auto simp: hex_rows_def upsert_status_def row_put_def split: option.splits)

lemma ready_upsert:
  "ready (upsert_status r rows) i \<longleftrightarrow> (if i = ix_file_id r then ix_status r = ''ready'' else ready rows i)"
proof (cases "row_get ix_file_id (ix_file_id r) rows")
  case None
  then have "ix_file_id r \<notin> ix_file_id ` set rows" by (simp add: row_get_None_iff)
  then have "ix_file_id q \<noteq> ix_file_id r" if "q \<in> set rows" for q using that by (metis imageI)
  then show ?thesis unfolding upsert_status_def None ready_def by auto
next
  case (Some old)
  then have "old \<in> set rows" "ix_file_id old = ix_file_id r" by (auto dest: row_get_Some_in row_get_Some_key)
  then have mem: "q \<in> set (row_put ix_file_id (r\<lparr>ix_created_at := ix_created_at old\<rparr>) rows) \<longleftrightarrow>
      q = r\<lparr>ix_created_at := ix_created_at old\<rparr> \<or> q \<in> set rows \<and> ix_file_id q \<noteq> ix_file_id r" for q
    by (auto simp: row_put_def)
  show ?thesis unfolding upsert_status_def Some ready_def Bex_def option.case mem by auto
qed

lemma ready_set_status:
  "ready (pl_rows (set_status v now j st err p)) i \<longleftrightarrow> (if i = jb_file j then st = ''ready'' else ready (pl_rows p) i)"
  by (simp add: set_status_def ready_upsert)

lemma set_status_parts [simp]:
  "pl_entries (set_status v now j st err p) = pl_entries p" "pl_staging (set_status v now j st err p) = pl_staging p"
  by (simp_all add: set_status_def)

lemma set_status_distinct:
  "distinct (map ix_file_id (pl_rows p)) \<Longrightarrow> distinct (map ix_file_id (pl_rows (set_status v now j st err p)))"
  by (simp add: set_status_def upsert_distinct)

lemma set_status_hex:
  "hex_rows (pl_rows p) \<Longrightarrow> hex_name (jb_file j) \<Longrightarrow> hex_rows (pl_rows (set_status v now j st err p))"
  by (simp add: set_status_def hex_rows_upsert)

lemma remove_staging_parts [simp]:
  "pl_entries (remove_staging j p) = pl_entries p" "pl_rows (remove_staging j p) = pl_rows p"
  "fst ` set (pl_staging (remove_staging j p)) = fst ` set (pl_staging p) - {jb_dir j}"
  by (auto simp: remove_staging_def image_iff)

lemma remove_staging_sub: "set (pl_staging (remove_staging j p)) = {x \<in> set (pl_staging p). fst x \<noteq> jb_dir j}"
  by (auto simp: remove_staging_def)

subsection \<open>Entries\<close>

lemma map_of_filter_key: "map_of (filter (\<lambda>(n, e). n \<noteq> k) d) = (map_of d)(k := None)"
  by (induction d) (auto simp: fun_eq_iff)

lemma entries_put_pdf:
  assumes "entries_ok v es" "digests v" "names v i c"
  shows "entries_ok v (dict_put (pdf_name i) (File_entry c) es)"
proof -
  have "hex_name i" using assms names_hex by blast
  then have "pdf_name i \<noteq> index_name k s" "index_name k s \<noteq> pdf_name i" for k s
    by (simp_all add: pdf_not_index index_not_pdf)
  then show ?thesis using assms by (auto simp: entries_ok_def map_of_dict_put)
qed

lemma entries_put_index:
  assumes "entries_ok v es" "names v i (xd_source x)"
  shows "entries_ok v (dict_put (index_name i (index_suffix v)) (Index_entry x) es)"
  using assms pdf_not_index by (auto simp: entries_ok_def map_of_dict_put)

lemma entries_unlink:
  "entries_ok v es \<Longrightarrow> entries_ok v (filter (\<lambda>(n, e). n \<noteq> k) es)"
  by (auto simp: entries_ok_def map_of_filter_key)

lemma entries_place:
  "entries_ok v (pl_entries p) \<Longrightarrow> digests v \<Longrightarrow> names v (jb_file j) (jb_content j) \<Longrightarrow> entries_ok v (pl_entries (place_pdf j p))"
  by (simp add: place_pdf_def entries_put_pdf)

lemma available_mono:
  assumes "available v es i" "\<And>k. map_of es k \<noteq> None \<Longrightarrow> map_of fs k = map_of es k"
  shows "available v fs i"
proof -
  have "map_of es (index_name i (index_suffix v)) \<noteq> None" "map_of es (pdf_name i) \<noteq> None"
    using assms(1) by (auto simp: available_def vectorstore_exists_def split: option.splits)
  then show ?thesis using assms(1) assms(2) [of "pdf_name i"] assms(2) [of "index_name i (index_suffix v)"]
    by (simp add: available_def)
qed

lemma place_keeps: "map_of (pl_entries p) k \<noteq> None \<Longrightarrow> map_of (pl_entries (place_pdf j p)) k = map_of (pl_entries p) k"
  by (auto simp: place_pdf_def map_of_dict_put)

lemma place_present: "map_of (pl_entries (place_pdf j p)) (pdf_name (jb_file j)) \<noteq> None"
  by (auto simp: place_pdf_def map_of_dict_put)

lemma place_parts [simp]: "pl_rows (place_pdf j p) = pl_rows p"
  "map fst (pl_staging (place_pdf j p)) = map fst (pl_staging p)"
  by (auto simp: place_pdf_def)

lemma place_dirs [simp]: "fst ` set (pl_staging (place_pdf j p)) = fst ` set (pl_staging p)"
  using place_parts(2) [of j p] by (metis list.set_map)

lemma place_owner: "(d, g) \<in> set (pl_staging (place_pdf j p)) \<Longrightarrow> \<exists>g'. (d, g') \<in> set (pl_staging p) \<and> sg_owner g' = sg_owner g"
  by (auto simp: place_pdf_def split: if_splits)

lemma place_index:
  "hex_name (jb_file j) \<Longrightarrow> map_of (pl_entries (place_pdf j p)) (index_name i s) = map_of (pl_entries p) (index_name i s)"
  by (simp add: place_pdf_def map_of_dict_put index_not_pdf)


section \<open>One step of one ingestion\<close>

lemma here_parts [simp]:
  "names (here v s) = names v" "index_suffix (here v s) = index_suffix v" "ie_sha (here v s) = ie_sha v"
  "available (here v s) = available v"
  by (auto simp: here_def names_def index_suffix_def available_def fun_eq_iff)

lemma in_without: "(k, ph) \<in> set (without j js) \<longleftrightarrow> (k, ph) \<in> set js \<and> jb_dir k \<noteq> jb_dir j"
  by (auto simp: without_def)

lemma without_distinct: "distinct (map (jb_dir \<circ> fst) js) \<Longrightarrow> distinct (map (jb_dir \<circ> fst) (without j js))"
  by (simp add: without_def distinct_map_filter)

lemma same_dir:
  "distinct (map (jb_dir \<circ> fst) js) \<Longrightarrow> x \<in> set js \<Longrightarrow> y \<in> set js \<Longrightarrow> jb_dir (fst x) = jb_dir (fst y) \<Longrightarrow> x = y"
  by (auto simp: distinct_map inj_on_def)

lemma unlocked_iff: "unlocked i js \<longleftrightarrow> (\<forall>k c. (k, Building c) \<in> set js \<longrightarrow> jb_file k \<noteq> i)"
  by (fastforce simp: unlocked_def split: phase.splits)

text \<open>
  What an ingestion must leave when it ends or goes on: the entries of others are untouched, its own file is ready
  only when it is there and nobody is building it.
\<close>

definition step_fits :: "ingest_env \<Rightarrow> ingest_state \<Rightarrow> ingest_job \<Rightarrow> pipeline \<Rightarrow> bool" where
  "step_fits v s j p \<longleftrightarrow> entries_ok v (pl_entries p) \<and> distinct (map ix_file_id (pl_rows p)) \<and> hex_rows (pl_rows p)
     \<and> (\<forall>i. i \<noteq> jb_file j \<longrightarrow> ready (pl_rows p) i = ready (pl_rows (is_pipe s)) i
          \<and> (available v (pl_entries (is_pipe s)) i \<longrightarrow> available v (pl_entries p) i))
     \<and> (ready (pl_rows p) (jb_file j) \<longrightarrow> available v (pl_entries p) (jb_file j) \<and> unlocked (jb_file j) (without j (is_jobs s)))
     \<and> (\<forall>(d, g)\<in>set (pl_staging p). \<exists>g'. (d, g') \<in> set (pl_staging (is_pipe s)) \<and> sg_owner g' = sg_owner g)"

lemma staged_from:
  assumes "staging_ok s" and "step_fits v s j p" and "(d, g) \<in> set (pl_staging p)"
  shows "(\<exists>(k, ph)\<in>set (is_jobs s). jb_dir k = d) \<or> (\<exists>pid. sg_owner g = Some pid \<and> pid \<noteq> is_pid s)"
proof -
  from assms(2,3) obtain g' where g': "(d, g') \<in> set (pl_staging (is_pipe s))" "sg_owner g' = sg_owner g"
    unfolding step_fits_def by blast
  then show ?thesis using assms(1) unfolding staging_ok_def by fastforce
qed

lemma leave_statuses:
  assumes "statuses_ok v s" and "step_fits v s j p" and "set js \<subseteq> set (is_jobs s)" and "js = without j (is_jobs s)"
  shows "statuses_ok v (s\<lparr>is_pipe := p, is_jobs := js\<rparr>)"
  unfolding statuses_ok_def
proof (intro conjI allI impI)
  show "distinct (map ix_file_id (pl_rows (is_pipe (s\<lparr>is_pipe := p, is_jobs := js\<rparr>))))"
    "hex_rows (pl_rows (is_pipe (s\<lparr>is_pipe := p, is_jobs := js\<rparr>)))"
    using assms(2) by (simp_all add: step_fits_def)
next
  fix i assume "ready (pl_rows (is_pipe (s\<lparr>is_pipe := p, is_jobs := js\<rparr>))) i"
  then show "available v (pl_entries (is_pipe (s\<lparr>is_pipe := p, is_jobs := js\<rparr>))) i"
    using assms(1,2) by (cases "i = jb_file j") (auto simp: step_fits_def statuses_ok_def)
next
  fix k c assume k: "(k, Building c) \<in> set (is_jobs (s\<lparr>is_pipe := p, is_jobs := js\<rparr>))"
  show "\<not> ready (pl_rows (is_pipe (s\<lparr>is_pipe := p, is_jobs := js\<rparr>))) (jb_file k)"
  proof (cases "jb_file k = jb_file j")
    case True
    then show ?thesis using assms(2,4) k by (auto simp: step_fits_def unlocked_iff)
  next
    case False
    have "(k, Building c) \<in> set (is_jobs s)" using k assms(3) by auto
    then show ?thesis using assms(1,2) False by (auto simp: step_fits_def statuses_ok_def)
  qed
qed

lemma leave_ok:
  assumes ok: "ingest_ok v s" and fits: "step_fits v s j p"
    and dirs: "fst ` set (pl_staging p) = fst ` set (pl_staging (is_pipe s)) - {jb_dir j}"
  shows "ingest_ok v (s\<lparr>is_pipe := p, is_jobs := without j (is_jobs s)\<rparr>)"
proof -
  from ok have st: "staging_ok s" and jobs: "jobs_ok v (is_jobs s)" by (simp_all add: ingest_ok_def)
  have "jobs_ok v (without j (is_jobs s))"
    using jobs unfolding jobs_ok_def by (auto simp: in_without without_distinct)
  moreover have "statuses_ok v (s\<lparr>is_pipe := p, is_jobs := without j (is_jobs s)\<rparr>)"
    using ok fits by (intro leave_statuses) (auto simp: ingest_ok_def without_def)
  moreover have "staging_ok (s\<lparr>is_pipe := p, is_jobs := without j (is_jobs s)\<rparr>)"
  proof -
    have "(\<exists>(k, ph)\<in>set (without j (is_jobs s)). jb_dir k = d) \<or> (\<exists>pid. sg_owner g = Some pid \<and> pid \<noteq> is_pid s)"
      if "(d, g) \<in> set (pl_staging p)" for d g
    proof -
      have "d \<in> fst ` set (pl_staging p)" using that by force
      then have "d \<noteq> jb_dir j" using dirs by blast
      then show ?thesis using staged_from [OF st fits that] by (fastforce simp: in_without)
    qed
    moreover have "jb_dir k \<in> fst ` set (pl_staging p)" if "(k, ph) \<in> set (without j (is_jobs s))" for k ph
      using that st dirs unfolding staging_ok_def by (fastforce simp: in_without)
    ultimately show ?thesis by (auto simp: staging_ok_def)
  qed
  ultimately show ?thesis using fits by (simp add: ingest_ok_def step_fits_def)
qed

lemma stay_ok:
  assumes ok: "ingest_ok v s" and j: "(j, ph) \<in> set (is_jobs s)" and fits: "step_fits v s j p"
    and dirs: "fst ` set (pl_staging p) = fst ` set (pl_staging (is_pipe s))"
    and building: "\<And>c. ph' = Building c \<Longrightarrow> \<not> ready (pl_rows p) (jb_file j) \<and> unlocked (jb_file j) (is_jobs s)"
  shows "ingest_ok v (s\<lparr>is_pipe := p, is_jobs := (j, ph') # without j (is_jobs s)\<rparr>)"
proof -
  from ok have st: "staging_ok s" and jobs: "jobs_ok v (is_jobs s)" by (simp_all add: ingest_ok_def)
  have "distinct (map (jb_dir \<circ> fst) ((j, ph') # without j (is_jobs s)))"
    using jobs by (auto simp: jobs_ok_def without_distinct in_without)
  moreover have "k = l" if "(k, Building c) \<in> set ((j, ph') # without j (is_jobs s))"
    "(l, Building d) \<in> set ((j, ph') # without j (is_jobs s))" "jb_file k = jb_file l" for k c l d
  proof -
    have uniq: "x = y" if "(x, Building a) \<in> set (is_jobs s)" "(y, Building b) \<in> set (is_jobs s)" "jb_file x = jb_file y" for x a y b
      using jobs that unfolding jobs_ok_def by blast
    have free: "jb_file x \<noteq> jb_file j" if "ph' = Building a" "(x, Building b) \<in> set (is_jobs s)" for x a b
      using building [OF that(1)] that(2) by (auto simp: unlocked_iff)
    have "k = j \<and> ph' = Building c \<or> (k, Building c) \<in> set (is_jobs s)"
      "l = j \<and> ph' = Building d \<or> (l, Building d) \<in> set (is_jobs s)"
      using that(1,2) by (auto simp: in_without)
    then show ?thesis using that(3) uniq free by metis
  qed
  moreover have "\<forall>(k, ph)\<in>set ((j, ph') # without j (is_jobs s)). names v (jb_file k) (jb_content k)"
    using jobs j unfolding jobs_ok_def by (auto simp: in_without)
  ultimately have "jobs_ok v ((j, ph') # without j (is_jobs s))" unfolding jobs_ok_def by blast
  moreover have "statuses_ok v (s\<lparr>is_pipe := p, is_jobs := (j, ph') # without j (is_jobs s)\<rparr>)"
  proof -
    have "statuses_ok v (s\<lparr>is_pipe := p, is_jobs := without j (is_jobs s)\<rparr>)"
      using ok fits by (intro leave_statuses) (auto simp: ingest_ok_def without_def)
    then show ?thesis using building by (auto simp: statuses_ok_def)
  qed
  moreover have "staging_ok (s\<lparr>is_pipe := p, is_jobs := (j, ph') # without j (is_jobs s)\<rparr>)"
  proof -
    have "(\<exists>(k, ph)\<in>set ((j, ph') # without j (is_jobs s)). jb_dir k = d) \<or> (\<exists>pid. sg_owner g = Some pid \<and> pid \<noteq> is_pid s)"
      if "(d, g) \<in> set (pl_staging p)" for d g
      using staged_from [OF st fits that] by (fastforce simp: in_without)
    moreover have "jb_dir k \<in> fst ` set (pl_staging p)" if "(k, ph) \<in> set (is_jobs s)" for k ph
      using that st dirs unfolding staging_ok_def by fastforce
    ultimately show ?thesis using j by (auto simp: staging_ok_def in_without)
  qed
  ultimately show ?thesis using fits by (simp add: ingest_ok_def step_fits_def)
qed


subsection \<open>Steps that end an ingestion\<close>

definition quiet :: "ingest_env \<Rightarrow> ingest_state \<Rightarrow> ingest_job \<Rightarrow> pipeline \<Rightarrow> bool" where
  \<comment> \<open>no status has changed yet, and no entry that another file needs\<close>
  "quiet v s j q \<longleftrightarrow> entries_ok v (pl_entries q) \<and> pl_rows q = pl_rows (is_pipe s)
     \<and> (\<forall>i. i \<noteq> jb_file j \<longrightarrow> available v (pl_entries (is_pipe s)) i \<longrightarrow> available v (pl_entries q) i)
     \<and> (\<forall>(d, g)\<in>set (pl_staging q). \<exists>g'. (d, g') \<in> set (pl_staging (is_pipe s)) \<and> sg_owner g' = sg_owner g)
     \<and> fst ` set (pl_staging q) = fst ` set (pl_staging (is_pipe s))"

lemma quiet_here: "ingest_ok v s \<Longrightarrow> quiet v s j (is_pipe s)"
  by (auto simp: quiet_def ingest_ok_def)

lemma quiet_place:
  assumes "ingest_ok v s" "digests v" "names v (jb_file j) (jb_content j)"
  shows "quiet v s j (place_pdf j (is_pipe s))"
proof -
  have "available v (pl_entries (place_pdf j (is_pipe s))) i" if "available v (pl_entries (is_pipe s)) i" for i
    using that by (rule available_mono) (rule place_keeps)
  moreover have "entries_ok v (pl_entries (place_pdf j (is_pipe s)))"
    using assms by (intro entries_place) (auto simp: ingest_ok_def)
  ultimately show ?thesis by (auto simp: quiet_def dest: place_owner)
qed

lemma quiet_unlink:
  assumes "quiet v s j q" "digests v" "names v (jb_file j) (jb_content j)"
  shows "quiet v s j (unlink_pdf j q)"
proof -
  have "hex_name (jb_file j)" using assms(2,3) by (rule names_hex)
  then have "available v (pl_entries (unlink_pdf j q)) i" if "available v (pl_entries q) i" "i \<noteq> jb_file j" for i
    using that by (simp add: available_def unlink_pdf_def map_of_filter_key index_not_pdf)
  then show ?thesis using assms(1) by (auto simp: quiet_def unlink_pdf_def entries_unlink)
qed

lemma quiet_index:
  assumes "quiet v s j q" "names v (jb_file j) (xd_source x)"
    and "map_of (pl_entries q) (index_name (jb_file j) (index_suffix v)) = None"
  shows "quiet v s j (q\<lparr>pl_entries := dict_put (index_name (jb_file j) (index_suffix v)) (Index_entry x) (pl_entries q)\<rparr>)"
proof -
  have "available v (dict_put (index_name (jb_file j) (index_suffix v)) (Index_entry x) (pl_entries q)) i"
    if "available v (pl_entries q) i" for i
    using that by (rule available_mono) (use assms(3) in \<open>auto simp: map_of_dict_put\<close>)
  then show ?thesis using assms(1,2) entries_put_index [of v "pl_entries q"] by (auto simp: quiet_def)
qed

lemma quiet_status:
  assumes "ingest_ok v s" and "quiet v s j q" and "hex_name (jb_file j)"
    and "st = ''ready'' \<Longrightarrow> available v (pl_entries q) (jb_file j) \<and> unlocked (jb_file j) (without j (is_jobs s))"
  shows "step_fits v s j (remove_staging j (set_status w now j st err q))"
proof -
  have "distinct (map ix_file_id (pl_rows q))" "hex_rows (pl_rows q)"
    using assms(1,2) by (simp_all add: ingest_ok_def statuses_ok_def quiet_def)
  then show ?thesis
    using assms(2-4) by (auto simp: step_fits_def quiet_def ready_set_status set_status_distinct set_status_hex remove_staging_sub)
qed

lemma quiet_leave:
  assumes "ingest_ok v s" and "quiet v s j q" and "hex_name (jb_file j)"
    and "st = ''ready'' \<Longrightarrow> available v (pl_entries q) (jb_file j) \<and> unlocked (jb_file j) (without j (is_jobs s))"
  shows "ingest_ok v (s\<lparr>is_pipe := remove_staging j (set_status w now j st err q), is_jobs := without j (is_jobs s)\<rparr>)"
proof (rule leave_ok [OF assms(1)])
  show "step_fits v s j (remove_staging j (set_status w now j st err q))" using assms by (rule quiet_status)
  show "fst ` set (pl_staging (remove_staging j (set_status w now j st err q))) = fst ` set (pl_staging (is_pipe s)) - {jb_dir j}"
    using assms(2) by (simp add: quiet_def)
qed

lemma abandon_ok:
  assumes "ingest_ok v s" and "quiet v s j q" and "hex_name (jb_file j)"
  shows "ingest_ok v (s\<lparr>is_pipe := abandon w now j m q, is_jobs := without j (is_jobs s)\<rparr>)"
  unfolding abandon_def using assms by (rule quiet_leave) simp

section \<open>Every operation keeps the invariant\<close>

lemma job_names: "ingest_ok v s \<Longrightarrow> (j, ph) \<in> set (is_jobs s) \<Longrightarrow> names v (jb_file j) (jb_content j)"
  by (auto simp: ingest_ok_def jobs_ok_def)

lemma step_same: "ingest_ok v s \<Longrightarrow> \<not> ready (pl_rows (is_pipe s)) (jb_file j) \<or> unlocked (jb_file j) (without j (is_jobs s)) \<Longrightarrow>
    step_fits v s j (is_pipe s)"
  by (auto simp: step_fits_def ingest_ok_def statuses_ok_def)

lemma not_built_ready:
  "ingest_ok v s \<Longrightarrow> ready (pl_rows (is_pipe s)) i \<Longrightarrow> unlocked i (is_jobs s)"
  by (auto simp: ingest_ok_def statuses_ok_def unlocked_iff)

lemma unlocked_without: "unlocked i js \<Longrightarrow> unlocked i (without j js)"
  by (auto simp: unlocked_iff in_without)

lemma validate_ok:
  assumes "ingest_ok v s" and d: "digests v" and j: "(j, ph) \<in> set (is_jobs s)"
  shows "ingest_ok v (ingest_exec v (I_validate now j) s)"
proof -
  have hex: "hex_name (jb_file j)" using names_hex [OF d job_names [OF assms(1) j]] .
  have "ingest_ok v (s\<lparr>is_pipe := is_pipe s, is_jobs := (j, Validated) # without j (is_jobs s)\<rparr>)"
    using assms(1) j step_same [OF assms(1)] not_built_ready [OF assms(1)] unlocked_without
    by (intro stay_ok [OF assms(1) j]) blast+
  then show ?thesis using abandon_ok [OF assms(1) quiet_here [OF assms(1)] hex]
    by (auto simp: validate_upload_def split: option.splits)
qed

lemma place_indexing:
  "place_pdf j (set_status w now j st err p) = (place_pdf j p)\<lparr>pl_rows := pl_rows (set_status w now j st err p)\<rparr>"
  by (simp add: place_pdf_def set_status_def)

lemma publish_begin_ok:
  assumes ok: "ingest_ok v s" and d: "digests v" and j: "(j, ph) \<in> set (is_jobs s)" and free: "unlocked (jb_file j) (is_jobs s)"
  shows "ingest_ok v (ingest_exec v (I_begin now opened j) s)"
proof -
  have n: "names v (jb_file j) (jb_content j)" using ok j by (rule job_names)
  note hex = names_hex [OF d n]
  note q = quiet_place [OF ok d n]
  let ?index = "map_of (pl_entries (is_pipe s)) (index_name (jb_file j) (index_suffix v))"
  have there: "available v (pl_entries (place_pdf j (is_pipe s))) (jb_file j)" if "vectorstore_exists ?index"
    using that place_present by (simp add: available_def place_index [OF hex])
  show ?thesis
  proof (cases "base_name (index_suffix v) \<noteq> index_suffix v \<or> vectorstore_exists ?index")
    case True
    then show ?thesis
      using abandon_ok [OF ok quiet_here [OF ok] hex] abandon_ok [OF ok q hex] quiet_leave [OF ok q hex] there unlocked_without [OF free]
      by (auto simp: publish_begin_def Let_def split: sum.splits)
  next
    case False
    define p where "p = place_pdf j (set_status (here v s) now j ''indexing'' None (is_pipe s))"
    have p: "pl_entries p = pl_entries (place_pdf j (is_pipe s))" "pl_staging p = pl_staging (place_pdf j (is_pipe s))"
      "pl_rows p = pl_rows (set_status (here v s) now j ''indexing'' None (is_pipe s))"
      by (simp_all add: p_def place_indexing)
    have "distinct (map ix_file_id (pl_rows (is_pipe s)))" "hex_rows (pl_rows (is_pipe s))"
      using ok by (simp_all add: ingest_ok_def statuses_ok_def)
    then have "step_fits v s j p"
      using q hex unfolding step_fits_def quiet_def p by (auto simp: ready_set_status set_status_distinct set_status_hex)
    moreover have "\<not> ready (pl_rows p) (jb_file j)" by (simp add: p ready_set_status)
    moreover have "fst ` set (pl_staging p) = fst ` set (pl_staging (is_pipe s))" by (simp add: p)
    ultimately have "ingest_ok v (s\<lparr>is_pipe := p, is_jobs := (j, Building c) # without j (is_jobs s)\<rparr>)" for c
      using free by (intro stay_ok [OF ok j]) auto
    then show ?thesis using False by (simp add: publish_begin_def p_def)
  qed
qed

lemma end_cases:
  assumes "entries_ok v (pl_entries p)" "digests v" "names v (jb_file j) (jb_content j)"
  obtains (failed) "publish_end w now b opened j c p = build_failed w now j c p"
  | (unopened) x where "names v (jb_file j) (xd_source x)"
      "map_of (pl_entries p) (index_name (jb_file j) (index_suffix w)) = None"
      "publish_end w now b opened j c p = build_failed w now j c
        (p\<lparr>pl_entries := dict_put (index_name (jb_file j) (index_suffix w)) (Index_entry x) (pl_entries p)\<rparr>)"
  | (published) x where "names v (jb_file j) (xd_source x)" "map_of (pl_entries p) (pdf_name (jb_file j)) = Some (File_entry (xd_source x))"
      "map_of (pl_entries p) (index_name (jb_file j) (index_suffix w)) = None" "vectorstore_exists (Some (Index_entry x))"
      "publish_end w now b opened j c p = (remove_staging j (set_status w now j ''ready'' None
        (p\<lparr>pl_entries := dict_put (index_name (jb_file j) (index_suffix w)) (Index_entry x) (pl_entries p)\<rparr>)), Inr (answer_of w j False))"
proof (cases "build_staged (map_of (pl_entries p) (pdf_name (jb_file j))) b")
  case None
  then show thesis by (intro failed) (simp add: publish_end_def)
next
  case (Some x)
  then have pdf: "map_of (pl_entries p) (pdf_name (jb_file j)) = Some (File_entry (xd_source x))"
    by (auto simp: build_staged_def split: option.splits entry.splits if_splits)
  have hex: "hex_name (jb_file j)" using assms(2,3) by (rule names_hex)
  have n: "names v (jb_file j) (xd_source x)" using assms(1) pdf hex by (auto simp: entries_ok_def)
  show thesis
  proof (cases "map_of (pl_entries p) (index_name (jb_file j) (index_suffix w))")
    case (Some e)
    with \<open>build_staged _ _ = Some x\<close> show thesis by (intro failed) (simp add: publish_end_def)
  next
    case None
    show thesis
    proof (cases "load_vectorstore (Some (Index_entry x)) opened")
      case (Inl e)
      with \<open>build_staged _ _ = Some x\<close> None show thesis by (intro unopened [OF n None]) (simp add: publish_end_def Let_def)
    next
      case (Inr u)
      then have "vectorstore_exists (Some (Index_entry x))" by (simp add: load_vectorstore_def split: if_splits)
      with \<open>build_staged _ _ = Some x\<close> None Inr pdf show thesis
        by (intro published [OF n pdf None]) (simp_all add: publish_end_def Let_def)
    qed
  qed
qed

lemma end_ok:
  assumes ok: "ingest_ok v s" and d: "digests v" and j: "(j, Building c) \<in> set (is_jobs s)"
  shows "ingest_ok v (ingest_exec v (I_end now b opened j c) s)"
proof -
  have n: "names v (jb_file j) (jb_content j)" using ok j by (rule job_names)
  have es: "entries_ok v (pl_entries (is_pipe s))" using ok by (simp add: ingest_ok_def)
  note q = quiet_here [OF ok, of j] and hex = names_hex [OF d n]
  have failed: "ingest_ok v (s\<lparr>is_pipe := fst (build_failed w now j c p), is_jobs := without j (is_jobs s)\<rparr>)" if "quiet v s j p" for w p
    using abandon_ok [OF ok that hex] abandon_ok [OF ok quiet_unlink [OF that d n] hex] by (simp add: build_failed_def)
  have free: "unlocked (jb_file j) (without j (is_jobs s))"
    using ok j unfolding unlocked_iff ingest_ok_def jobs_ok_def by (auto simp: in_without)
  from es d n show ?thesis
  proof (cases rule: end_cases [of v "is_pipe s" j "here v s" now b opened c])
    case failed
    then show ?thesis using \<open>quiet v s j (is_pipe s) \<Longrightarrow> _\<close> q by simp
  next
    case (unopened x)
    then show ?thesis using quiet_index [OF q] failed by simp
  next
    case (published x)
    let ?p = "(is_pipe s)\<lparr>pl_entries := dict_put (index_name (jb_file j) (index_suffix v)) (Index_entry x) (pl_entries (is_pipe s))\<rparr>"
    have "quiet v s j ?p" using published by (intro quiet_index [OF q]) simp_all
    moreover have "available v (pl_entries ?p) (jb_file j)"
      using published names_hex [OF d n] by (simp add: available_def map_of_dict_put pdf_not_index)
    ultimately show ?thesis using quiet_leave [OF ok _ hex] free published by simp
  qed
qed


lemma receive_ok:
  assumes ok: "ingest_ok v s" and d: "digests v" and fresh: "dir \<notin> fst ` set (pl_staging (is_pipe s))"
  shows "ingest_ok v (ingest_exec v (I_receive now dir u) s)"
proof (cases "receive (here v s) now dir u (is_pipe s)")
  case (Pair p r)
  show ?thesis
  proof (cases r)
    case (Inl e)
    then show ?thesis using ok Pair by (auto simp: receive_def Let_def split: if_splits option.splits)
  next
    case (Inr j)
    define g where "g = \<lparr>sg_owner = Some (ie_pid (here v s)), sg_upload = Some (jb_content j)\<rparr>"
    from Pair Inr have dir: "jb_dir j = dir" and n: "names v (jb_file j) (jb_content j)"
      and p: "p = set_status (here v s) now j ''validating'' None ((is_pipe s)\<lparr>pl_staging := dict_put dir g (pl_staging (is_pipe s))\<rparr>)"
      by (auto simp: receive_def Let_def g_def resolve_names split: if_splits option.splits)
    have staged: "set (pl_staging p) = insert (dir, g) (set (pl_staging (is_pipe s)))"
      using fresh by (simp add: p put_fresh)
    have rows: "distinct (map ix_file_id (pl_rows p))" "hex_rows (pl_rows p)"
      using ok names_hex [OF d n] by (simp_all add: p ingest_ok_def statuses_ok_def set_status_distinct set_status_hex)
    have "statuses_ok v (s\<lparr>is_pipe := p, is_jobs := (j, Received) # is_jobs s\<rparr>)"
      using ok rows by (auto simp: statuses_ok_def ingest_ok_def p ready_set_status split: if_splits)
    moreover have "jobs_ok v ((j, Received) # is_jobs s)"
      using ok n fresh dir unfolding ingest_ok_def jobs_ok_def staging_ok_def by fastforce
    moreover have "staging_ok (s\<lparr>is_pipe := p, is_jobs := (j, Received) # is_jobs s\<rparr>)"
      using ok dir unfolding ingest_ok_def staging_ok_def by (auto simp: staged)
    moreover have "entries_ok v (pl_entries p)" using ok by (simp add: p ingest_ok_def)
    ultimately show ?thesis using Pair Inr by (simp add: ingest_ok_def)
  qed
qed

lemma cleanup_kept:
  "cleanup_dirs v kill escapes ds = (es, Inr ()) \<Longrightarrow> es = filter (\<lambda>(d, g). held_elsewhere v kill (sg_owner g)) ds"
  by (induction ds arbitrary: es) (auto split: if_splits prod.splits)

lemma start_cases:
  assumes "start_pipeline v kill escapes persistence now p = (p', Inr ())"
  shows "p' = p\<lparr>pl_staging := filter (\<lambda>(d, g). held_elsewhere v kill (sg_owner g)) (pl_staging p), pl_strays := pl_strays p',
      pl_rows := (if persistence then pl_rows p else fail_interrupted v kill now (pl_rows p))\<rparr>"
  using assms by (auto simp: start_pipeline_def cleanup_staging_def dest!: cleanup_kept elim!: sbind_cases
      split: if_splits prod.splits sum.splits)

lemma interrupted_rows:
  "map ix_file_id (fail_interrupted v kill now rows) = map ix_file_id rows"
  "ready (fail_interrupted v kill now rows) i \<longleftrightarrow> ready rows i"
  by (auto simp: fail_interrupted_def map_update_where ready_def set_update_where in_progress_def)

lemma interrupted_hex: "hex_rows (fail_interrupted v kill now rows) = hex_rows rows"
proof -
  have "hex_rows rs \<longleftrightarrow> list_all hex_name (map ix_file_id rs)" for rs by (simp add: hex_rows_def list_all_iff)
  then show ?thesis by (simp add: interrupted_rows)
qed

lemma restart_ok:
  assumes ok: "ingest_ok v s" and "snd (start_pipeline (v\<lparr>ie_pid := pid\<rparr>) kill escapes persistence now (is_pipe s)) = Inr ()"
  shows "ingest_ok v (ingest_exec v (I_restart pid kill escapes persistence now) s)"
proof -
  obtain p where p: "start_pipeline (v\<lparr>ie_pid := pid\<rparr>) kill escapes persistence now (is_pipe s) = (p, Inr ())"
    using assms(2) by (metis prod.collapse)
  note start = start_cases [OF p]
  have "pl_entries p = pl_entries (is_pipe s)" by (subst start) simp
  moreover have "pl_rows p = (if persistence then pl_rows (is_pipe s) else fail_interrupted (v\<lparr>ie_pid := pid\<rparr>) kill now (pl_rows (is_pipe s)))"
    by (subst start) simp
  moreover have "pl_staging p = filter (\<lambda>(d, g). held_elsewhere (v\<lparr>ie_pid := pid\<rparr>) kill (sg_owner g)) (pl_staging (is_pipe s))"
    by (subst start) simp
  ultimately show ?thesis using ok p
    by (auto simp: ingest_ok_def statuses_ok_def staging_ok_def jobs_ok_def interrupted_rows interrupted_hex held_elsewhere_def
        split: option.splits)
qed

text \<open>A started server has no ingestion on record that is under way, unless another running process has it.\<close>

lemma started_without_interrupted:
  assumes "start_pipeline v kill escapes False now p = (p', Inr ())" and "r \<in> set (pl_rows p')" and "in_progress (ix_status r)"
  shows "held_elsewhere v kill (ix_owner_pid r)"
proof -
  have "pl_rows p' = fail_interrupted v kill now (pl_rows p)" by (subst start_cases [OF assms(1)]) simp
  then show ?thesis using assms(2,3) by (auto simp: fail_interrupted_def set_update_where in_progress_def)
qed

lemma ingest_exec_ok:
  assumes "digests v" and "ingest_ok v s" and "ingest_op_ok v s x"
  shows "ingest_ok v (ingest_exec v x s)"
proof (cases x)
  case (I_receive now dir u)
  then show ?thesis using receive_ok [OF assms(2,1)] assms(3) by simp
next
  case (I_validate now j)
  then show ?thesis using validate_ok [OF assms(2,1)] assms(3) by simp
next
  case (I_begin now opened j)
  then have "(j, Validated) \<in> set (is_jobs s)" "unlocked (jb_file j) (is_jobs s)" using assms(3) by simp_all
  then show ?thesis unfolding I_begin by (rule publish_begin_ok [OF assms(2,1)])
next
  case (I_end now b opened j c)
  then show ?thesis using end_ok [OF assms(2,1)] assms(3) by simp
next
  case (I_restart pid kill escapes persistence now)
  then show ?thesis using restart_ok [OF assms(2)] assms(3) by simp
qed

interpretation ingestions: guarded_machine "ingest_exec v" "ingest_op_ok v" "\<lambda>s. digests v \<longrightarrow> ingest_ok v s" for v
  by unfold_locales (blast intro: ingest_exec_ok)


section \<open>Publication\<close>

definition fresh_workspace :: "ingest_env \<Rightarrow> ingest_state \<Rightarrow> bool" where
  \<comment> \<open>nothing under way or on record; PDFs and indexes of earlier versions may be there\<close>
  "fresh_workspace v s \<longleftrightarrow> is_jobs s = [] \<and> pl_rows (is_pipe s) = [] \<and> pl_staging (is_pipe s) = [] \<and> entries_ok v (pl_entries (is_pipe s))"

definition backed :: "ingest_env \<Rightarrow> pipeline \<Rightarrow> string \<Rightarrow> bool" where
  \<comment> \<open>the PDF is there, and a whole index of a PDF of the same name\<close>
  "backed v p i \<longleftrightarrow> (\<exists>c x. map_of (pl_entries p) (pdf_name i) = Some (File_entry c)
     \<and> map_of (pl_entries p) (index_name i (index_suffix v)) = Some (Index_entry x)
     \<and> ''chroma.sqlite3'' \<in> set (xd_files x) \<and> names v i c \<and> names v i (xd_source x))"

definition answered :: "ingest_env \<Rightarrow> ingest_job \<Rightarrow> pipeline \<Rightarrow> ingested \<Rightarrow> bool" where
  "answered v j p g \<longleftrightarrow> names v (ig_file_id g) (jb_content j) \<and> ig_size g = length (jb_content j)
     \<and> ready (pl_rows p) (ig_file_id g) \<and> backed v p (ig_file_id g)"

lemma ready_backed:
  assumes "ingest_ok v s" and "ready (pl_rows (is_pipe s)) i"
  shows "backed v (is_pipe s) i"
proof -
  from assms have hex: "hex_name i" and there: "available v (pl_entries (is_pipe s)) i" and es: "entries_ok v (pl_entries (is_pipe s))"
    by (auto simp: ingest_ok_def statuses_ok_def hex_rows_def ready_def)
  from there obtain e x where "map_of (pl_entries (is_pipe s)) (pdf_name i) = Some e"
    "map_of (pl_entries (is_pipe s)) (index_name i (index_suffix v)) = Some (Index_entry x)" "''chroma.sqlite3'' \<in> set (xd_files x)"
    by (auto simp: available_def vectorstore_exists_def split: option.splits entry.splits)
  then show ?thesis using es hex by (auto simp: entries_ok_def backed_def)
qed

lemma begin_answer:
  "publish_begin w now opened j p = (p', Inr (Inl g)) \<Longrightarrow>
    g = answer_of w j True \<and> ready (pl_rows p') (jb_file j)"
  by (auto simp: publish_begin_def Let_def ready_set_status split: if_splits sum.splits)

lemma end_answer:
  "publish_end w now b opened j c p = (p', Inr g) \<Longrightarrow> g = answer_of w j False \<and> ready (pl_rows p') (jb_file j)"
  by (auto simp: publish_end_def Let_def ready_set_status build_failed_def split: if_splits sum.splits option.splits)

lemma begin_answered:
  assumes "ingest_ok v s" "digests v" "(j, Validated) \<in> set (is_jobs s)" "unlocked (jb_file j) (is_jobs s)"
    and b: "publish_begin (here v s) now opened j (is_pipe s) = (p, Inr (Inl g))"
  shows "answered v j p g"
proof -
  have "ingest_ok v (ingest_exec v (I_begin now opened j) s)" using assms(1-4) by (rule publish_begin_ok)
  then have "ingest_ok v (s\<lparr>is_pipe := p, is_jobs := without j (is_jobs s)\<rparr>)" using b by simp
  from ready_backed [OF this, of "jb_file j"] begin_answer [OF b] job_names [OF assms(1,3)]
  show ?thesis by (auto simp: answered_def answer_of_def)
qed

lemma end_answered:
  assumes "ingest_ok v s" "digests v" "(j, Building c) \<in> set (is_jobs s)"
    and e: "publish_end (here v s) now b opened j c (is_pipe s) = (p, Inr g)"
  shows "answered v j p g"
proof -
  have "ingest_ok v (ingest_exec v (I_end now b opened j c) s)" using assms(1-3) by (rule end_ok)
  then have "ingest_ok v (s\<lparr>is_pipe := p, is_jobs := without j (is_jobs s)\<rparr>)" using e by simp
  from ready_backed [OF this, of "jb_file j"] end_answer [OF e] job_names [OF assms(1,3)]
  show ?thesis by (auto simp: answered_def answer_of_def)
qed

text \<open>
  C23: Indexes are published whole.  However ingestions interleave, fail, are cut off by a stop of the server and
  resumed by another process, a file whose status is ready has its PDF in the workspace and a complete index built
  from a PDF with the same digest; an ingestion that answers, with an index it built or found, names
  the content that was uploaded, and that file is then ready; and a staging directory belongs to an ingestion under way
  or to another running process.
\<close>

theorem indexes_are_published_whole:
  assumes "ingestions.reaches v s0 s" and "digests v" and "fresh_workspace v s0"
  shows "(\<forall>i. ready (pl_rows (is_pipe s)) i \<longrightarrow> backed v (is_pipe s) i)
    \<and> (\<forall>j now opened p g. ingest_op_ok v s (I_begin now opened j)
         \<and> publish_begin (here v s) now opened j (is_pipe s) = (p, Inr (Inl g)) \<longrightarrow> answered v j p g)
    \<and> (\<forall>j c now b opened p g. ingest_op_ok v s (I_end now b opened j c)
         \<and> publish_end (here v s) now b opened j c (is_pipe s) = (p, Inr g) \<longrightarrow> answered v j p g)
    \<and> staging_ok s"
proof -
  have "ingest_ok v s0"
    using assms(3) by (auto simp: fresh_workspace_def ingest_ok_def jobs_ok_def statuses_ok_def staging_ok_def hex_rows_def ready_def)
  then have ok: "ingest_ok v s" using ingestions.reaches_invar [OF assms(1)] assms(2) by blast
  then have "staging_ok s" by (simp add: ingest_ok_def)
  then show ?thesis
    using ready_backed [OF ok] begin_answered [OF ok assms(2)] end_answered [OF ok assms(2)] by simp blast
qed

section \<open>An ingestion leaves no staging directory\<close>

lemma filter_place: "filter (\<lambda>(d, s). d \<noteq> jb_dir j) (pl_staging (place_pdf j p)) = filter (\<lambda>(d, s). d \<noteq> jb_dir j) (pl_staging p)"
proof -
  have "filter (\<lambda>(d, s). d \<noteq> k) (map (\<lambda>(d, s). (d, if d = k then f s else s)) xs) = filter (\<lambda>(d, s). d \<noteq> k) xs"
    for k f and xs :: "(ident, staging) dict" by (induction xs) auto
  then show ?thesis by (simp add: place_pdf_def)
qed

lemma staging_after:
  "pl_staging (remove_staging j p) = filter (\<lambda>(d, s). d \<noteq> jb_dir j) (pl_staging p)"
  "pl_staging (unlink_pdf j p) = pl_staging p"
  by (simp_all add: remove_staging_def unlink_pdf_def)

definition is_ok_or :: "'e + 'a \<Rightarrow> bool" where
  "is_ok_or r = (case r of Inl e \<Rightarrow> False | Inr x \<Rightarrow> True)"

lemma validate_staging:
  "validate_upload v now j p = (p', r) \<Longrightarrow>
    pl_staging p' = (if is_ok_or r then pl_staging p else filter (\<lambda>(d, s). d \<noteq> jb_dir j) (pl_staging p))"
  by (auto simp: validate_upload_def abandon_def staging_after is_ok_or_def split: option.splits if_splits)

lemma begin_staging:
  assumes "publish_begin v now opened j p = (p', r)"
  shows "filter (\<lambda>(d, s). d \<noteq> jb_dir j) (pl_staging p') = filter (\<lambda>(d, s). d \<noteq> jb_dir j) (pl_staging p)
    \<and> ((\<exists>c. r = Inr (Inr c)) \<or> pl_staging p' = filter (\<lambda>(d, s). d \<noteq> jb_dir j) (pl_staging p))"
  using assms by (auto simp: publish_begin_def Let_def abandon_def staging_after filter_place split: sum.splits if_splits)

lemma end_staging:
  "publish_end v now b opened j c p = (p', r) \<Longrightarrow> pl_staging p' = filter (\<lambda>(d, s). d \<noteq> jb_dir j) (pl_staging p)"
  by (auto simp: publish_end_def Let_def build_failed_def abandon_def staging_after split: sum.splits if_splits option.splits)

lemma ingest_cleans_up:
  assumes "d \<notin> fst ` set (pl_staging p)"
  shows "pl_staging (fst (ingest v a d u p)) = pl_staging p"
proof (cases "receive v (ii_received a) d u p")
  case (Pair p1 r)
  show ?thesis
  proof (cases r)
    case (Inl e)
    then show ?thesis using Pair by (auto simp: ingest_def receive_def Let_def split: if_splits option.splits)
  next
    case (Inr j)
    have "filter (\<lambda>(k, g). k \<noteq> d) (pl_staging p) = pl_staging p"
      using assms by (force simp: filter_id_conv)
    with Pair Inr assms have start: "filter (\<lambda>(k, g). k \<noteq> jb_dir j) (pl_staging p1) = pl_staging p"
      by (auto simp: receive_def Let_def put_fresh split: if_splits option.splits)
    obtain p2 r2 where 2: "validate_upload v (ii_validated a) j p1 = (p2, r2)" by fastforce
    obtain p3 r3 where 3: "publish_begin v (ii_locked a) (ii_opened a) j p2 = (p3, r3)" by fastforce
    obtain p4 r4 where 4: "publish_end v (ii_built a) (ii_build a) (ii_opened a) j (projr (projr r3)) p3 = (p4, r4)" by fastforce
    show ?thesis using validate_staging [OF 2] begin_staging [OF 3] end_staging [OF 4] start 4
      by (auto simp: ingest_def Pair Inr 2 3 is_ok_or_def split: sum.splits)
  qed
qed

section \<open>Two uploads of one PDF\<close>

definition sample_sha :: "string \<Rightarrow> string" where
  "sample_sha c = (if c = ''%PDF-1'' then CHR ''a'' else CHR ''b'') # replicate 63 (CHR ''0'')"

definition sample_ingest :: ingest_env where
  "sample_ingest = \<lparr>ie_root = ''/w'', ie_sha = sample_sha, ie_adapter = Some ''_1'', ie_max = 100, ie_pid = 1,
     ie_reader = (\<lambda>c. Inr \<lparr>pf_encrypted = False, pf_pages = 1, pf_boxes = True\<rparr>)\<rparr>"

definition sample_pdf :: pdf_upload where
  "sample_pdf = \<lparr>pu_file_name = ''d/Paper.PDF'', pu_chunks = [''%PDF'', ''-1'']\<rparr>"

definition sample_job :: "ident \<Rightarrow> ingest_job" where
  "sample_job d = \<lparr>jb_dir = d, jb_name = ''Paper.PDF'', jb_content = ''%PDF-1'', jb_file = sample_sha ''%PDF-1''\<rparr>"

definition sample_build :: build_run where
  "sample_build = \<lparr>br_code = 0, br_files = Some [''chroma.sqlite3'']\<rparr>"

definition empty_workspace :: ingest_state where
  "empty_workspace = \<lparr>is_pipe = \<lparr>pl_rows = [], pl_entries = [], pl_staging = [], pl_strays = []\<rparr>, is_jobs = [], is_pid = 1\<rparr>"

definition sample_ops :: "ingest_op list" where
  "sample_ops = [I_receive 1 ''x'' sample_pdf, I_receive 2 ''y'' sample_pdf, I_validate 3 (sample_job ''x''),
     I_validate 4 (sample_job ''y''), I_begin 5 (Inr ()) (sample_job ''x''), I_end 6 sample_build (Inr ()) (sample_job ''x'') True]"

fun ops_ok :: "ingest_env \<Rightarrow> ingest_op list \<Rightarrow> ingest_state \<Rightarrow> bool" where
  "ops_ok v [] s = True"
| "ops_ok v (x # xs) s = (ingest_op_ok v s x \<and> ops_ok v xs (ingest_exec v x s))"

lemma ops_reach: "ops_ok v xs s \<Longrightarrow> ingestions.reaches v s0 s \<Longrightarrow> ingestions.reaches v s0 (fold (ingest_exec v) xs s)"
  by (induction xs arbitrary: s) (auto intro: ingestions.reaches.step)

definition sample_published :: ingest_state where
  "sample_published = fold (ingest_exec sample_ingest) sample_ops empty_workspace"

lemma sample_digests: "digests sample_ingest"
  by (simp add: digests_def sample_ingest_def sample_sha_def hex_char_def list_all_iff)

theorem indexes_are_published_whole_witness:
  "backed sample_ingest (is_pipe sample_published) (sample_sha ''%PDF-1'') \<and> staging_ok sample_published
    \<and> (\<exists>p. answered sample_ingest (sample_job ''y'') p (answer_of sample_ingest (sample_job ''y'') True))"
proof -
  have run: "ops_ok sample_ingest sample_ops empty_workspace" by code_simp
  have reached: "ingestions.reaches sample_ingest empty_workspace sample_published"
    unfolding sample_published_def by (rule ops_reach [OF run]) (rule ingestions.reaches.refl)
  have start: "fresh_workspace sample_ingest empty_workspace"
    by (simp add: fresh_workspace_def empty_workspace_def entries_ok_def)
  note facts = indexes_are_published_whole [OF reached sample_digests start]
  have "list_ex (\<lambda>r. ix_file_id r = sample_sha ''%PDF-1'' \<and> ix_status r = ''ready'') (pl_rows (is_pipe sample_published))"
    by code_simp
  then have "ready (pl_rows (is_pipe sample_published)) (sample_sha ''%PDF-1'')" by (auto simp: ready_def list_ex_iff)
  moreover have "ingest_op_ok sample_ingest sample_published (I_begin 7 (Inr ()) (sample_job ''y''))" by code_simp
  moreover have "snd (publish_begin (here sample_ingest sample_published) 7 (Inr ()) (sample_job ''y'') (is_pipe sample_published))
    = Inr (Inl (answer_of sample_ingest (sample_job ''y'') True))" by code_simp
  then have "\<exists>p. publish_begin (here sample_ingest sample_published) 7 (Inr ()) (sample_job ''y'') (is_pipe sample_published)
    = (p, Inr (Inl (answer_of sample_ingest (sample_job ''y'') True)))" by (metis prod.collapse)
  ultimately show ?thesis using facts by blast
qed

text \<open>
  The lock of a file is a lock of one process.  When two servers share a workspace and ingest the same PDF at once, the
  second may publish and answer while the first is still building; the first then finds an index, gives up
  and removes the PDF it had placed, which the second has answered with.
\<close>

lemma two_processes_lose_the_pdf:
  "let s = fold (ingest_exec sample_ingest) (take 5 sample_ops) empty_workspace; y = sample_job ''y'';
       other = sample_ingest\<lparr>ie_pid := 2\<rparr>;
       p = fst (publish_begin other 7 (Inr ()) y (is_pipe s)); q = publish_end other 8 sample_build (Inr ()) y False p;
       r = fst (publish_end sample_ingest 9 sample_build (Inr ()) (sample_job ''x'') True (fst q))
   in snd q = Inr (answer_of other y False) \<and> map_of (pl_entries r) (pdf_name (jb_file y)) = None"
  by code_simp

end
