(* ===== verification/Spec2Isabelle.thy ===== *)
theory Spec2Isabelle
  imports Membership_Laws Accounts_Laws Task_Queue_Laws Tool_Actions_Laws Mcp_Tools Budget_Laws Delegation_Context Workspace_Retrieval_Laws Retrieval_Metrics Evidence_Laws Execution_Harness Context_Harness Agent_Runs_Laws Orchestration_Laws Research_Workflow_Laws Scoped_Laws Json_Text Agent_Worker_Laws Sessions_Laws
    Data_Assets_Laws Code_Policy_Laws Analysis_Runtime_Laws Deterministic_Analysis_Laws Data_Analysis_Laws Persistent_Workflow_Laws Pdf_Text Ingestion_Laws
begin

text \<open>
  A model of the server of agentic-rag-studio (\<open>src/server\<close>): users ask questions about their documents, a
  graph of agents plans, searches, calls tools and answers with citations, and longer work runs as durable tasks.
  The development translates the server's own logic, from the records it stores to the decisions it takes, and
  proves what that logic guarantees.

  How the program hangs together.  A request arrives with a principal (\<open>auth/context.py\<close>).  Every repository is
  reached through a boundary (\<open>auth/scoped.py\<close>) that asks the authorization service (\<open>auth/authorization.py\<close>)
  before the repository runs.  A question goes to the session manager (\<open>sessions.py\<close>), which restores the
  session's runtime, runs the agent's graph (\<open>agent/research_workflow.py\<close>, \<open>agent/nodes.py\<close>) under the execution
  harness (\<open>agent/execution_harness.py\<close>) and keeps the new conversation.  The graph fits every prompt into a budget
  (\<open>agent/context_harness.py\<close>), retrieves from the workspace's documents (\<open>rag\<close>), collects evidence
  (\<open>agent/evidence.py\<close>) and calls tools through the registry (\<open>tool_registry.py\<close>) under a policy
  (\<open>tool_policy.py\<close>), whose approvals and executions are a ledger (\<open>tool_actions.py\<close>).  A complex request is split
  by a supervisor (\<open>agent/orchestration.py\<close>) into delegations to specialized agents
  (\<open>agent/specialized_agents.py\<close>), recorded in the run ledger (\<open>agent_runs.py\<close>) under a shared budget
  (\<open>agent/efficiency.py\<close>).  Tasks (\<open>tasks.py\<close>) make such work durable; a queue and a worker (\<open>task_queue.py\<close>,
  \<open>worker_runtime.py\<close>) deliver them, and the persistent graph (\<open>agent/persistent_workflow.py\<close>) runs them step by
  step.  Calculations on uploaded datasets (\<open>data_assets.py\<close>) are code, from a template
  (\<open>deterministic_analysis.py\<close>) or a model, that is checked and executed by \<open>analysis_runtime.py\<close>.

  Conventions.  A table is the list of its rows; a Python dictionary is an association list in insertion order; an
  exception is a constructor of \<open>py_error\<close> and an operation that may raise answers \<open>Inl\<close> of it or \<open>Inr\<close> of its
  value.  An operation is one transaction unless it says otherwise: it leaves the stored state alone when it raises,
  or, where the code commits before it raises, answers with the state it leaves and a result (\<open>sbind\<close> composes such
  steps).  Clock readings and fresh identifiers are arguments.  Floats are rationals, texts are ASCII.  What the
  server calls but does not contain is a parameter or an input: models, tools, embedders, indexes, the cross-encoder,
  the JWT, password and hash libraries, the job queue, the message library's dictionaries.

  The theories, by part of the program.
  \<^item> Foundations: \<open>Prelude\<close> (errors, results, dictionaries, tables, the locale of keyed tables and that of guarded
    machines, which carries every invariant here over sequences of operations), \<open>PyText\<close> (texts, JSON values and an
    executable model of the patterns the code uses), \<open>PyNum\<close>, \<open>PyJson\<close> (writing values), \<open>Json_Text\<close>
    (\<open>persistence.py\<close>: writing and reading back), \<open>Ordering\<close> (the contract of \<open>sorted\<close>).
  \<^item> Access: \<open>Auth_Store\<close>, \<open>Authorization\<close> with \<open>Authorization_Laws\<close> and \<open>Membership_Laws\<close>; \<open>Accounts\<close> with
    \<open>Accounts_Laws\<close> (\<open>auth/service.py\<close>); \<open>Scoped\<close> with \<open>Scoped_Laws\<close>.
  \<^item> Tasks: \<open>Tasks\<close>, \<open>Tasks_Laws\<close>, \<open>Task_Run_Laws\<close>; \<open>Task_Queue\<close>, \<open>Task_Queue_Laws\<close>.
  \<^item> Tools: \<open>Tool_Registry\<close>, \<open>Tool_Policy\<close> with its laws, \<open>Tool_Actions\<close> with its laws, \<open>Mcp_Tools\<close>
    (\<open>mcp_client.py\<close>).
  \<^item> Agents: \<open>Agent_Schemas\<close>, \<open>Agent_Registry\<close>, \<open>Budget\<close> and \<open>Efficiency\<close> (\<open>efficiency.py\<close>), \<open>Delegation_Context\<close>,
    \<open>Agent_Runs\<close>, \<open>Orchestration\<close>, \<open>Worker_Model\<close>, \<open>Specialized_Agent\<close> and \<open>Agent_Worker\<close> (a delegation from its
    request to its stored result), with \<open>Budget_Laws\<close>, \<open>Agent_Runs_Laws\<close>, \<open>Ledger_Laws\<close>, \<open>Orchestration_Laws\<close>,
    \<open>Agent_Worker_Laws\<close>.
  \<^item> The workflow of a question: \<open>Execution_Harness\<close>, \<open>Context_Harness\<close>, \<open>Evidence\<close>, \<open>Workflow_Nodes\<close>
    (\<open>agent/nodes.py\<close>), \<open>Research_Workflow\<close>, with \<open>Evidence_Laws\<close> and \<open>Research_Workflow_Laws\<close>; the graph around
    tasks, analyses and memories is \<open>Persistent_Workflow\<close> with \<open>Persistent_Workflow_Laws\<close>.
  \<^item> Data analysis: \<open>Code_Policy\<close> (which code may run), \<open>Analysis_Runtime\<close> (running it and recording it),
    \<open>Deterministic_Analysis\<close> (the templates) and \<open>Data_Analysis\<close> (\<open>_analyze\<close> of the persistent workflow: choosing the
    code, running it, repairing it once), each with its laws.
  \<^item> Documents and retrieval: \<open>Retrieval\<close>, \<open>Workspace_Store\<close>, \<open>Workspace_Retrieval\<close> with their laws,
    \<open>Pdf_Text\<close> (\<open>rag/loaders.py\<close>, \<open>rag/ocr.py\<close>: the text of a PDF), \<open>Ingestion\<close> with \<open>Ingestion_Laws\<close>
    (\<open>rag/ingestion.py\<close>: from an uploaded PDF to its index), and \<open>Retrieval_Metrics\<close> (\<open>src/evaluation/retrieval_eval\<close>).
  \<^item> What is kept: \<open>Sessions\<close> with \<open>Sessions_Laws\<close>, \<open>Memory\<close> with \<open>Memory_Laws\<close>, \<open>Data_Assets\<close> with
    \<open>Data_Assets_Laws\<close>.

  What the lemmas show.
  \<^item> Access: a workspace keeps an owner through any sequence of operations; memberships are changed by owners only;
    nobody passes the repository boundary without access; memories are shown to their audience only.
  \<^item> Accounts: at most one live refresh token in a family, a replayed token ends its family, a password change ends
    every session.
  \<^item> Tasks: attempts are bounded, finished steps and tasks stay as they are, a run never leaves its task RUNNING, a
    cancellation is never lost, automatic retries are bounded, and an external write whose outcome is unknown is never
    repeated.
  \<^item> Tools: no configured secret survives redaction, the policy fails closed, an execution is claimed at most once and
    runs the arguments that were approved.
  \<^item> Agents: budgets are never overspent and keep the calls of the final answer; the ledger of delegations refines a
    small specification; an accepted plan is a schedule; a worker stays in its delegation, reports only what it
    collected, and a delegation that was started is settled.
  \<^item> Workflow: the graph ends, searches stay in their scope, retries and contexts are bounded, citations name
    evidence of the turn.  A task runs its steps in order and obeys cancellation and pause at every boundary, its
    run ends, and only finished runs are remembered.
  \<^item> Data: interleaved uploads never store a content twice or lose a file; accepted code obeys the policy in every node;
    templates cannot be injected into; an execution is recorded as it is answered and repaired at most once.
  \<^item> Retrieval: the inverted index ranks by Okapi BM25, fusion by reciprocal ranks, metrics are fractions; a
    PDF that loads has a document for every page with text, and no page of it failed; indexes are published whole, however
    ingestions interleave and the server stops.
  \<^item> Conversations and memories: a restart of the server is invisible, a question changes one conversation, active
    memories never conflict, stored values are read back as written.

  Bounds and fuel.  The pattern matcher takes the length of the text as fuel for repetitions, which is enough because
  a repetition that consumes nothing is not repeated.  The JSON reader takes the length of the text, proved enough.
  The research graph ends within \<open>graph_steps\<close> nodes, which is 32 for the default configuration; the server runs it
  with 35.  A task's graph ends within two nodes for each step that is left and nine more.  The worker's graph takes its recursion limit, \<open>2 * max_iterations + 5\<close>, as fuel, as the code does, and
  running out of it is the exception the code gets.  The walk along runs in the boundary takes a fuel that stands for
  Python's recursion limit.

  Not modelled.  Routing and serialisation of HTTP (\<open>api.py\<close>, \<open>main.py\<close> and the others), wiring and command lines
  (\<open>phase3.py\<close> to \<open>phase5.py\<close>, \<open>manage.py\<close>), database schemas and pools (\<open>db\<close>), tracing (\<open>observability\<close>), the
  user interface (\<open>src/client\<close>) and the benchmark scripts: they call the services modelled here or libraries.  PDF
  parsing, the OCR engine, embedding and the vector stores are third-party code, and the index worker process is an
  input of \<open>Ingestion\<close>: its exit code and the directory it left.  Errors of the file system other than missing
  files are not modelled there, and the machine of its laws is that of one server process (that two processes can get
  in each other's way is a lemma).  \<open>agent/tool_workflow.py\<close> and
  \<open>agent/efficient_orchestration.py\<close> reorder the same operations around interrupts of the graph library, and
  \<open>checkpoints.py\<close> is a codec of that library's objects.  The child process of an analysis
  (\<open>analysis_worker.py\<close>: pandas, plots, restricted builtins) is an input: what it printed, wrote and returned.
  Of what is modelled: prompts are inputs, durations, telemetry and progress events of workers are left out, in the
  persistent workflow also the pool entries of analyses and the writing of the checkpointed state, and so are the alternatives of patterns that only match characters beyond ASCII.
\<close>

end
